(* ===== verification/Store_Prelude.thy ===== *)
theory Store_Prelude
  imports Complex_Main
begin

text \<open>
  Shared vocabulary of the development.

  A table of the integration store is the list of its rows in insertion order. The where
  and data clauses the repositories write are translated clause by clause at the call
  site, into a row predicate and a row update; the four operators below are what a query
  does with them: \<open>update_where\<close> for \<open>update\<close> / \<open>updateMany\<close>, \<open>count_where\<close> for the
  affected-row count, \<^const>\<open>find\<close> for \<open>findUnique\<close> / \<open>findFirst\<close>, and
  \<^const>\<open>filter\<close> with \<open>order_asc\<close> / \<open>order_desc\<close> and \<^const>\<open>take\<close> for
  \<open>findMany\<close> with \<open>orderBy\<close> and \<open>take\<close>.

  Two collections carry the component proofs: \<open>store_defs\<close> (the operations' defining
  equations) and \<open>row_simps\<close> (facts about rows after an update).
\<close>

named_theorems store_defs
named_theorems row_simps

section \<open>Results and optional values\<close>

text \<open>A thrown error is \<^const>\<open>Inl\<close>, a returned value \<^const>\<open>Inr\<close>.\<close>

abbreviation throws :: "'e + 'a \<Rightarrow> bool" where
  "throws r \<equiv> (\<exists>e. r = Inl e)"

abbreviation returns :: "'e + 'a \<Rightarrow> 'a \<Rightarrow> bool" where
  "returns r x \<equiv> r = Inr x"

text \<open>The nullish-coalescing operator \<open>x ?? d\<close> of the source.\<close>

fun nullish :: "'a option \<Rightarrow> 'a \<Rightarrow> 'a" where
  "nullish None d = d"
| "nullish (Some x) d = x"

text \<open>\<open>x ?? y\<close> where the fallback is itself optional.\<close>

fun nullish_opt :: "'a option \<Rightarrow> 'a option \<Rightarrow> 'a option" where
  "nullish_opt None d = d"
| "nullish_opt (Some x) d = Some x"

text \<open>Truthiness of an optional string: neither absent nor empty.\<close>

fun truthy :: "string option \<Rightarrow> bool" where
  "truthy None = False"
| "truthy (Some s) = (s \<noteq> [])"

text \<open>A nullable column compared in SQL: a comparison with NULL does not hold.\<close>

fun null_or :: "('a \<Rightarrow> bool) \<Rightarrow> 'a option \<Rightarrow> bool" where
  "null_or p None = True"
| "null_or p (Some x) = p x"

fun not_null_and :: "('a \<Rightarrow> bool) \<Rightarrow> 'a option \<Rightarrow> bool" where
  "not_null_and p None = False"
| "not_null_and p (Some x) = p x"

lemma not_null_and_iff: "not_null_and p x \<longleftrightarrow> (\<exists>y. x = Some y \<and> p y)"
  by (cases x) auto

lemma null_or_iff: "null_or p x \<longleftrightarrow> (\<forall>y. x = Some y \<longrightarrow> p y)"
  by (cases x) auto

section \<open>Queries over a table\<close>

definition update_where :: "('r \<Rightarrow> bool) \<Rightarrow> ('r \<Rightarrow> 'r) \<Rightarrow> 'r list \<Rightarrow> 'r list" where
  "update_where p f rows = map (\<lambda>r. if p r then f r else r) rows"

definition count_where :: "('r \<Rightarrow> bool) \<Rightarrow> 'r list \<Rightarrow> nat" where
  "count_where p rows = length (filter p rows)"

definition order_asc :: "('r \<Rightarrow> 'k::linorder) \<Rightarrow> 'r list \<Rightarrow> 'r list" where
  "order_asc k rows = sort_key k rows"

definition order_desc :: "('r \<Rightarrow> int) \<Rightarrow> 'r list \<Rightarrow> 'r list" where
  "order_desc k rows = sort_key (\<lambda>r. - k r) rows"

lemma update_where_Nil [simp]: "update_where p f [] = []"
  by (simp add: update_where_def)

lemma update_where_Cons [simp]:
  "update_where p f (r # rows) = (if p r then f r else r) # update_where p f rows"
  by (simp add: update_where_def)

lemma length_update_where [simp]: "length (update_where p f rows) = length rows"
  by (simp add: update_where_def)

lemma set_update_where:
  "set (update_where p f rows) = {f r | r. r \<in> set rows \<and> p r} \<union> {r \<in> set rows. \<not> p r}"
  by (induction rows) auto

lemma update_where_id: "(\<And>r. r \<in> set rows \<Longrightarrow> \<not> p r) \<Longrightarrow> update_where p f rows = rows"
  by (induction rows) auto

lemma map_update_where:
  "(\<And>r. r \<in> set rows \<Longrightarrow> p r \<Longrightarrow> g (f r) = g r) \<Longrightarrow> map g (update_where p f rows) = map g rows"
  by (induction rows) auto

text \<open>A function that factors through \<open>h\<close> agrees where \<open>h\<close> agrees.\<close>

lemma map_eq_factor:
  assumes eq: "map h xs = map h ys" and g: "\<And>x y. h x = h y \<Longrightarrow> g x = g y"
  shows "map g xs = map g ys"
  using eq
proof (induction xs arbitrary: ys)
  case Nil
  then show ?case by simp
next
  case (Cons x xs)
  from Cons.prems obtain y ys' where ys: "ys = y # ys'" and h: "h x = h y" "map h xs = map h ys'"
    by (auto simp: Cons_eq_map_conv)
  show ?case using g [OF h(1)] Cons.IH [OF h(2)] by (simp add: ys)
qed

lemma update_where_ball:
  "(\<And>r. r \<in> set rows \<Longrightarrow> Q r) \<Longrightarrow> (\<And>r. r \<in> set rows \<Longrightarrow> p r \<Longrightarrow> Q (f r)) \<Longrightarrow>
   r \<in> set (update_where p f rows) \<Longrightarrow> Q r"
  by (auto simp: set_update_where)

text \<open>An update that falsifies its own where clause leaves no row that meets it.\<close>

lemma update_where_clears:
  "(\<And>r. \<not> p (f r)) \<Longrightarrow> x \<in> set (update_where p f rows) \<Longrightarrow> \<not> p x"
  by (auto simp: set_update_where)

lemma list_all2_update_where:
  "(\<And>r. R r r) \<Longrightarrow> (\<And>r. r \<in> set rows \<Longrightarrow> p r \<Longrightarrow> R r (f r)) \<Longrightarrow>
   list_all2 R rows (update_where p f rows)"
  by (induction rows) auto

lemma update_where_cong:
  "(\<And>r. r \<in> set rows \<Longrightarrow> p r = q r) \<Longrightarrow> (\<And>r. r \<in> set rows \<Longrightarrow> p r \<Longrightarrow> f r = g r) \<Longrightarrow>
   update_where p f rows = update_where q g rows"
  by (induction rows) auto

lemma count_where_Nil [simp]: "count_where p [] = 0"
  by (simp add: count_where_def)

lemma count_where_Cons [simp]:
  "count_where p (r # rows) = (if p r then 1 else 0) + count_where p rows"
  by (simp add: count_where_def)

lemma count_where_0: "count_where p rows = 0 \<longleftrightarrow> (\<forall>r \<in> set rows. \<not> p r)"
  by (induction rows) auto

lemma count_where_pos: "0 < count_where p rows \<longleftrightarrow> (\<exists>r \<in> set rows. p r)"
  by (induction rows) auto

lemma find_SomeD: "find p rows = Some r \<Longrightarrow> r \<in> set rows \<and> p r"
  by (auto simp: find_Some_iff)

lemma find_None: "find p rows = None \<longleftrightarrow> (\<forall>r \<in> set rows. \<not> p r)"
  by (auto simp: find_None_iff)

lemma find_append:
  "find p (xs @ ys) = (case find p xs of Some x \<Rightarrow> Some x | None \<Rightarrow> find p ys)"
  by (induction xs) auto

text \<open>A row looked up by a key that is unique in the table.\<close>

lemma find_unique_key:
  assumes "distinct (map key rows)" and "r \<in> set rows"
  shows "find (\<lambda>x. key x = key r) rows = Some r"
  using assms
proof (induction rows)
  case Nil
  then show ?case by simp
next
  case (Cons x rows)
  then show ?case by (auto simp: rev_image_eqI)
qed

lemma distinct_key_eq:
  "distinct (map key rows) \<Longrightarrow> r \<in> set rows \<Longrightarrow> s \<in> set rows \<Longrightarrow> key r = key s \<Longrightarrow> r = s"
  by (metis distinct_map inj_onD)

lemma find_update_other:
  "(\<And>r. r \<in> set rows \<Longrightarrow> p r \<Longrightarrow> \<not> q r \<and> \<not> q (f r)) \<Longrightarrow>
   find q (update_where p f rows) = find q rows"
  by (induction rows) auto

text \<open>A row kept in place by its key, after an update of the row with that key.\<close>

lemma find_update_key:
  assumes "\<And>r. key (f r) = key r"
  shows "find (\<lambda>r. key r = k) (update_where (\<lambda>r. key r = k) f rows) =
         map_option f (find (\<lambda>r. key r = k) rows)"
  using assms by (induction rows) auto

lemma find_key_update_where:
  assumes "\<And>r. key (f r) = key r"
  shows "find (\<lambda>r. key r = k) (update_where p f rows) =
         map_option (\<lambda>r. if p r then f r else r) (find (\<lambda>r. key r = k) rows)"
  using assms by (induction rows) auto

lemma set_order_asc [simp]: "set (order_asc k rows) = set rows"
  by (simp add: order_asc_def)

lemma set_order_desc [simp]: "set (order_desc k rows) = set rows"
  by (simp add: order_desc_def)

lemma order_asc_first:
  assumes "order_asc k rows = r # rest" and "x \<in> set rows"
  shows "k r \<le> k x"
proof -
  have "sorted (map k (r # rest))" using assms(1) sorted_sort_key [of k rows]
    by (simp add: order_asc_def)
  moreover have "x \<in> set (r # rest)" using assms set_order_asc [of k rows] by auto
  ultimately show ?thesis by auto
qed

lemma order_asc_Nil [simp]: "order_asc k rows = [] \<longleftrightarrow> rows = []"
  by (metis set_empty set_order_asc)

section \<open>Rounding\<close>

text \<open>JavaScript's \<open>Math.round\<close>: to the nearest integer, halves towards plus infinity.\<close>

definition js_round :: "rat \<Rightarrow> int" where
  "js_round x = \<lfloor>x + 1 / 2\<rfloor>"

lemma js_round_mono: "x \<le> y \<Longrightarrow> js_round x \<le> js_round y"
  by (simp add: js_round_def floor_mono)

lemma js_round_of_int [simp]: "js_round (of_int k) = k"
  by (simp add: js_round_def floor_unique)

lemma js_round_half: "1 / 2 \<le> x \<Longrightarrow> 1 \<le> js_round x"
  by (simp add: js_round_def le_floor_iff)

end
