(* ===== verification/Store_Types.thy ===== *)
theory Store_Types
  imports Store_Prelude
begin

text \<open>
  The data of the integration store: \<open>packages/integration-store/src/errors.ts\<close> and the
  tables of \<open>packages/integration-store/prisma/schema.prisma\<close> with the scope records of
  \<open>src/types.ts\<close> and \<open>src/worker/lease.ts\<close>.

  Conventions. Identifiers and codes are \<^typ>\<open>string\<close>. A \<open>DateTime\<close> column is its epoch
  value in milliseconds, an \<^typ>\<open>int\<close>; an ISO rendering of a time is that same integer. A
  nullable column and an optional property are an \<^typ>\<open>'a option\<close>. Human-readable texts
  (messages of errors, reasons of recovery actions) are left out: no code of the modelled
  components branches on them. The bookkeeping
  columns \<open>createdAt\<close> (but for the intent queue, which is ordered by it) and \<open>updatedAt\<close>
  are left out.
\<close>

section \<open>Errors\<close>

text \<open>
  \<open>StoreError\<close>. The code is kept as the string it is at run time: the pipeline executor
  stores codes of the gateway in it that the declared union does not list.
\<close>

record store_error =
  se_code :: string
  se_retryable :: bool
  se_target :: "string option"

text \<open>
  \<open>storeError (code, message, opts)\<close>: \<open>retryable\<close> defaults to false, and an empty
  target is dropped.
\<close>

definition storeError :: "string \<Rightarrow> bool option \<Rightarrow> string option \<Rightarrow> store_error" where
  "storeError code retryable target =
     \<lparr>se_code = code, se_retryable = nullish retryable False,
      se_target = (if truthy target then target else None)\<rparr>"

text \<open>
  What a repository call can throw: a store error, or the unique-constraint violation
  (\<open>P2002\<close>) the client raises when an insert collides.
\<close>

datatype failure = Thrown store_error | Unique_Violation

section \<open>Enumerations\<close>

datatype receipt_state =
  R_PENDING | R_LEASED | R_DISPATCH_COMMITTED | R_RETRY_SCHEDULED | R_DELIVERED
| R_DEAD_LETTERED | R_QUARANTINED

datatype duplicate_kind = DEDUPE | OUT_OF_ORDER | CORRECTION | GAP | DUP_UNKNOWN

datatype intent_status =
  I_PENDING | I_LEASED | I_DISPATCHED | I_ACK_RECEIVED | I_DELIVERED | I_FAILED
| I_TERMINAL | I_INVESTIGATION_PENDING

datatype recovery_status = RA_PENDING | RA_APPLIED | RA_SKIPPED | RA_FAILED

datatype recovery_item_type = RECEIPT | INTENT | MAPPING

datatype recovery_action_kind = RESET_TO_PENDING | RECLAIM_LEASE | DEAD_LETTER | SKIP

section \<open>JSON columns\<close>

text \<open>
  A JSON value; an object is the association list of its members. The evidence column of
  a receipt is only ever written by \<open>redriveReceipt\<close>, which keeps the members it found
  and puts its audit object under \<open>dlqAudit\<close>: the record separates that one member.
\<close>

datatype json =
  JNull | JBool bool | JNum rat | JStr string | JArr "json list" | JObj "(string \<times> json) list"

record dlq_audit =
  da_redriveCount :: int
  da_lastRedrivenAt :: int
  da_lastRedriveActor :: string
  da_lastRedriveReason :: "string option"

record evidence =
  ev_members :: "(string \<times> json) list"
  ev_dlqAudit :: "dlq_audit option"

section \<open>Tables\<close>

record receipt =
  rc_receiptId :: string
  rc_schemaVersion :: string
  rc_organizationId :: string
  rc_provider :: string
  rc_connectionId :: string
  rc_eventId :: string
  rc_payloadDigest :: string
  rc_state :: receipt_state
  rc_duplicateKind :: duplicate_kind
  rc_attempts :: int
  rc_leaseOwner :: "string option"
  rc_leaseExpiresAt :: "int option"
  rc_fencingToken :: "string option"
  rc_leaseFencedAt :: "int option"
  rc_correlationId :: "string option"
  rc_commandRefsJson :: "json option"
  rc_idempotencyKey :: "string option"
  rc_firstSeenAt :: int
  rc_nextAttemptAt :: "int option"
  rc_resolvedAt :: "int option"
  rc_reasonCode :: "string option"
  rc_evidenceRefsJson :: "evidence option"

record dispatch_intent =
  di_intentId :: string
  di_schemaVersion :: string
  di_organizationId :: string
  di_receiptId :: string
  di_idempotencyKey :: "string option"
  di_correlationId :: "string option"
  di_intentSource :: string
  di_intentTargetJson :: json
  di_status :: intent_status
  di_attempts :: int
  di_leaseOwner :: "string option"
  di_leaseExpiresAt :: "int option"
  di_fencingToken :: "string option"
  di_leaseFencedAt :: "int option"
  di_createdAt :: int

text \<open>The snapshots the reconcilers take of a stuck item (\<open>snapshotJson\<close>).\<close>

datatype snapshot =
  Snap_Receipt receipt_state "int option" "string option" int string string
| Snap_Intent intent_status "int option" "string option" int string
| Snap_Manual string

record recovery_action =
  ra_recoveryId :: string
  ra_itemType :: recovery_item_type
  ra_itemId :: string
  ra_action :: recovery_action_kind
  ra_actor :: string
  ra_snapshotJson :: "snapshot option"
  ra_status :: recovery_status
  ra_createdAt :: int
  ra_completedAt :: "int option"

text \<open>The three tables the worker, the receiver and the reconciler share.\<close>

record store =
  receipts :: "receipt list"
  intents :: "dispatch_intent list"
  recoveries :: "recovery_action list"

section \<open>Scopes\<close>

record receipt_scope =
  sc_organizationId :: string
  sc_provider :: string
  sc_connectionId :: string
  sc_eventId :: string

text \<open>The row a \<open>findUnique\<close> on \<open>uq_receipt_event_id\<close> selects.\<close>

definition in_scope :: "receipt_scope \<Rightarrow> receipt \<Rightarrow> bool" where
  "in_scope sc r \<longleftrightarrow>
     rc_organizationId r = sc_organizationId sc \<and> rc_provider r = sc_provider sc \<and>
     rc_connectionId r = sc_connectionId sc \<and> rc_eventId r = sc_eventId sc"

definition scope_of :: "receipt \<Rightarrow> receipt_scope" where
  "scope_of r =
     \<lparr>sc_organizationId = rc_organizationId r, sc_provider = rc_provider r,
      sc_connectionId = rc_connectionId r, sc_eventId = rc_eventId r\<rparr>"

lemma in_scope_iff: "in_scope sc r \<longleftrightarrow> scope_of r = sc"
  by (cases sc) (auto simp: in_scope_def scope_of_def)

lemma find_in_scope: "find (in_scope sc) rows = find (\<lambda>r. scope_of r = sc) rows"
proof -
  have "in_scope sc = (\<lambda>r. scope_of r = sc)" by (rule ext) (rule in_scope_iff)
  then show ?thesis by simp
qed

end
