(* ===== verification/Lease_Contract.thy ===== *)
theory Lease_Contract
  imports Store_Types
begin

text \<open>
  The contract of a fenced lease table, the interface the worker relies on.

  A row is leased or not; a leased row carries the fencing token of the claim that leased
  it, the owner and the expiry. Three kinds of writes touch these columns: a claim grants a
  lease under a new token, a heartbeat renews it, and every other write ends it. The two
  tables of the store that are leased (receipts and intents) both meet the contract; the
  facts about tokens are proved once here and interpreted for each.
\<close>

section \<open>The invariant of a leased table\<close>

text \<open>
  Keys are unique; a row has a token exactly when it is leased, and then an owner and an
  expiry; every token was issued by some claim; and no two rows hold the same token.
\<close>

definition lease_ok ::
  "('r \<Rightarrow> bool) \<Rightarrow> ('r \<Rightarrow> string option) \<Rightarrow> ('r \<Rightarrow> string option) \<Rightarrow> ('r \<Rightarrow> int option) \<Rightarrow>
   ('r \<Rightarrow> string) \<Rightarrow> string set \<Rightarrow> 'r list \<Rightarrow> bool" where
  "lease_ok leased token owner expires key issued rows \<longleftrightarrow>
     distinct (map key rows) \<and>
     (\<forall>r \<in> set rows. leased r = (token r \<noteq> None)) \<and>
     (\<forall>r \<in> set rows. leased r \<longrightarrow> owner r \<noteq> None \<and> expires r \<noteq> None) \<and>
     (\<forall>r \<in> set rows. \<forall>t. token r = Some t \<longrightarrow> t \<in> issued) \<and>
     (\<forall>r \<in> set rows. \<forall>s \<in> set rows. \<forall>t.
        token r = Some t \<longrightarrow> token s = Some t \<longrightarrow> key r = key s)"

text \<open>No row of the table holds the token: its lease was lost, or never granted.\<close>

definition lost :: "('r \<Rightarrow> string option) \<Rightarrow> string \<Rightarrow> 'r list \<Rightarrow> bool" where
  "lost token t rows \<longleftrightarrow> (\<forall>r \<in> set rows. token r \<noteq> Some t)"

locale lease_table =
  fixes leased :: "'r \<Rightarrow> bool"
    and token :: "'r \<Rightarrow> string option"
    and owner :: "'r \<Rightarrow> string option"
    and expires :: "'r \<Rightarrow> int option"
    and key :: "'r \<Rightarrow> string"
    and grant :: "string \<Rightarrow> string \<Rightarrow> int \<Rightarrow> int \<Rightarrow> 'r \<Rightarrow> 'r"
    and renew :: "int \<Rightarrow> int \<Rightarrow> 'r \<Rightarrow> 'r"
    and finish :: "'e \<Rightarrow> 'r \<Rightarrow> 'r"
  assumes key_grant: "key (grant w t now d r) = key r"
    and leased_grant: "leased (grant w t now d r)"
    and token_grant: "token (grant w t now d r) = Some t"
    and owner_grant: "owner (grant w t now d r) = Some w"
    and expires_grant: "expires (grant w t now d r) = Some (now + d)"
    and key_renew: "key (renew now d r) = key r"
    and leased_renew: "leased (renew now d r) = leased r"
    and token_renew: "token (renew now d r) = token r"
    and owner_renew: "owner (renew now d r) = owner r"
    and expires_renew: "expires (renew now d r) = Some (now + d)"
    and key_finish: "key (finish e r) = key r"
    and leased_finish: "\<not> leased (finish e r)"
    and token_finish: "token (finish e r) = None"
begin

lemmas grant_laws = key_grant leased_grant token_grant owner_grant expires_grant
lemmas renew_laws = key_renew leased_renew token_renew owner_renew expires_renew
lemmas finish_laws = key_finish leased_finish token_finish

abbreviation ok :: "string set \<Rightarrow> 'r list \<Rightarrow> bool" where
  "ok \<equiv> lease_ok leased token owner expires key"

lemma ok_distinct: "ok issued rows \<Longrightarrow> distinct (map key rows)"
  unfolding lease_ok_def by blast

lemma ok_leased: "ok issued rows \<Longrightarrow> r \<in> set rows \<Longrightarrow> leased r = (token r \<noteq> None)"
  unfolding lease_ok_def by blast

lemma ok_owner: "ok issued rows \<Longrightarrow> r \<in> set rows \<Longrightarrow> leased r \<Longrightarrow> owner r \<noteq> None"
  unfolding lease_ok_def by blast

lemma ok_expires: "ok issued rows \<Longrightarrow> r \<in> set rows \<Longrightarrow> leased r \<Longrightarrow> expires r \<noteq> None"
  unfolding lease_ok_def by blast

lemma ok_issued: "ok issued rows \<Longrightarrow> r \<in> set rows \<Longrightarrow> token r = Some t \<Longrightarrow> t \<in> issued"
  unfolding lease_ok_def by blast

lemma ok_same_key:
  "ok issued rows \<Longrightarrow> r \<in> set rows \<Longrightarrow> s \<in> set rows \<Longrightarrow>
   token r = Some t \<Longrightarrow> token s = Some t \<Longrightarrow> key r = key s"
  unfolding lease_ok_def by blast

lemma okI:
  assumes "distinct (map key rows)"
    and "\<And>r. r \<in> set rows \<Longrightarrow> leased r = (token r \<noteq> None)"
    and "\<And>r. r \<in> set rows \<Longrightarrow> leased r \<Longrightarrow> owner r \<noteq> None \<and> expires r \<noteq> None"
    and "\<And>r t. r \<in> set rows \<Longrightarrow> token r = Some t \<Longrightarrow> t \<in> issued"
    and "\<And>r s t. r \<in> set rows \<Longrightarrow> s \<in> set rows \<Longrightarrow>
           token r = Some t \<Longrightarrow> token s = Some t \<Longrightarrow> key r = key s"
  shows "ok issued rows"
  unfolding lease_ok_def
proof (intro conjI ballI allI impI)
  show "distinct (map key rows)" by (rule assms(1))
qed (simp_all add: assms(2,3), rule assms(4), assumption+, rule assms(5), assumption+)

lemma token_unique:
  assumes "ok issued rows" and "r \<in> set rows" and "s \<in> set rows"
    and "token r = Some t" and "token s = Some t"
  shows "r = s"
proof -
  have "key r = key s" by (rule ok_same_key [OF assms])
  then show ?thesis by (rule distinct_key_eq [OF ok_distinct [OF assms(1)] assms(2,3)])
qed

lemma ok_mono:
  assumes "ok issued rows" and "issued \<subseteq> issued'"
  shows "ok issued' rows"
proof (rule okI)
  show "t \<in> issued'" if "r \<in> set rows" "token r = Some t" for r t
    using ok_issued [OF assms(1) that] assms(2) by blast
qed (use assms(1) ok_distinct ok_leased ok_owner ok_expires ok_same_key in metis)+

lemma ok_empty: "ok issued []"
  by (simp add: lease_ok_def)

text \<open>A new row that is not leased can be added under a new key.\<close>

lemma ok_insert:
  assumes "ok issued rows" and "key r \<notin> key ` set rows" and "\<not> leased r" and "token r = None"
  shows "ok issued (rows @ [r])"
proof (rule okI)
  show "distinct (map key (rows @ [r]))" using ok_distinct [OF assms(1)] assms(2) by simp
  show "leased x = (token x \<noteq> None)" if "x \<in> set (rows @ [r])" for x
    using that ok_leased [OF assms(1), of x] assms(3,4) by auto
  show "owner x \<noteq> None \<and> expires x \<noteq> None" if "x \<in> set (rows @ [r])" "leased x" for x
    using that ok_owner [OF assms(1), of x] ok_expires [OF assms(1), of x] assms(3) by auto
  show "t \<in> issued" if "x \<in> set (rows @ [r])" "token x = Some t" for x t
    using that ok_issued [OF assms(1), of x t] assms(4) by auto
  show "key x = key y"
    if "x \<in> set (rows @ [r])" "y \<in> set (rows @ [r])" "token x = Some t" "token y = Some t" for x y t
    using that ok_same_key [OF assms(1), of x y t] assms(4) by auto
qed

text \<open>A write that keeps the key and leaves the row without a lease keeps the invariant.\<close>

lemma ok_unlease:
  assumes inv: "ok issued rows"
    and f: "\<And>r. r \<in> set rows \<Longrightarrow> p r \<Longrightarrow> key (f r) = key r \<and> \<not> leased (f r) \<and> token (f r) = None"
  shows "ok issued (update_where p f rows)"
proof -
  let ?rows = "update_where p f rows"
  have s: "s \<in> set rows \<or> (\<not> leased s \<and> token s = None)" if "s \<in> set ?rows" for s
    using that f by (auto simp: set_update_where)
  have held: "s \<in> set rows" if "s \<in> set ?rows" "token s = Some t" for s t
    using s [OF that(1)] that(2) by auto
  show ?thesis
  proof (rule okI)
    show "distinct (map key ?rows)"
      using ok_distinct [OF inv] f by (subst map_update_where) auto
    show "leased r = (token r \<noteq> None)" if "r \<in> set ?rows" for r
      using s [OF that] ok_leased [OF inv] by auto
    show "owner r \<noteq> None \<and> expires r \<noteq> None" if "r \<in> set ?rows" "leased r" for r
      using s [OF that(1)] that(2) ok_owner [OF inv, of r] ok_expires [OF inv, of r] by blast
    show "t \<in> issued" if "r \<in> set ?rows" "token r = Some t" for r t
      using held [OF that] that(2) by (rule ok_issued [OF inv])
    show "key r = key s" if "r \<in> set ?rows" "s \<in> set ?rows" "token r = Some t" "token s = Some t" for r s t
      using held [OF that(1,3)] held [OF that(2,4)] that(3,4) by (rule ok_same_key [OF inv])
  qed
qed

lemma ok_finish: "ok issued rows \<Longrightarrow> ok issued (update_where p (finish e) rows)"
  by (rule ok_unlease) (simp_all add: finish_laws)

lemma ok_renew:
  assumes inv: "ok issued rows"
  shows "ok issued (update_where p (renew now d) rows)"
proof -
  let ?rows = "update_where p (renew now d) rows"
  have s: "\<exists>r \<in> set rows. key s = key r \<and> leased s = leased r \<and> token s = token r \<and> owner s = owner r \<and>
      (expires r \<noteq> None \<longrightarrow> expires s \<noteq> None)" if "s \<in> set ?rows" for s
    using that by (auto simp: set_update_where renew_laws)
  show ?thesis
  proof (rule okI)
    show "distinct (map key ?rows)"
      using ok_distinct [OF inv] by (subst map_update_where) (auto simp: renew_laws)
    show "leased r = (token r \<noteq> None)" if "r \<in> set ?rows" for r
      using s [OF that] ok_leased [OF inv] by auto
    show "owner r \<noteq> None \<and> expires r \<noteq> None" if "r \<in> set ?rows" "leased r" for r
      using s [OF that(1)] that(2) ok_owner [OF inv] ok_expires [OF inv] by metis
    show "t \<in> issued" if "r \<in> set ?rows" "token r = Some t" for r t
      using s [OF that(1)] that(2) ok_issued [OF inv] by metis
    show "key r = key s" if "r \<in> set ?rows" "s \<in> set ?rows" "token r = Some t" "token s = Some t" for r s t
      using s [OF that(1)] s [OF that(2)] that(3,4) ok_same_key [OF inv] by metis
  qed
qed

lemma ok_grant:
  assumes inv: "ok issued rows" and fresh: "t \<notin> issued"
  shows "ok (insert t issued) (update_where (\<lambda>r. key r = k) (grant w t now d) rows)"
proof -
  let ?rows = "update_where (\<lambda>r. key r = k) (grant w t now d) rows"
  have s: "(s \<in> set rows \<and> token s \<noteq> Some t) \<or>
           (key s = k \<and> leased s \<and> token s = Some t \<and> owner s \<noteq> None \<and> expires s \<noteq> None)"
    if "s \<in> set ?rows" for s
    using that fresh ok_issued [OF inv] by (auto simp: set_update_where grant_laws)
  show ?thesis
  proof (rule okI)
    show "distinct (map key ?rows)"
      using ok_distinct [OF inv] by (subst map_update_where) (auto simp: grant_laws)
    show "leased r = (token r \<noteq> None)" if "r \<in> set ?rows" for r
      using s [OF that] ok_leased [OF inv, of r] by auto
    show "owner r \<noteq> None \<and> expires r \<noteq> None" if "r \<in> set ?rows" "leased r" for r
      using s [OF that(1)] that(2) ok_owner [OF inv, of r] ok_expires [OF inv, of r] by blast
    show "u \<in> insert t issued" if "r \<in> set ?rows" "token r = Some u" for r u
      using s [OF that(1)] that(2) ok_issued [OF inv, of r u] by auto
    show "key r = key s" if "r \<in> set ?rows" "s \<in> set ?rows" "token r = Some u" "token s = Some u" for r s u
      using s [OF that(1)] s [OF that(2)] that(3,4) ok_same_key [OF inv, of r s u] by auto
  qed
qed

text \<open>
  Fencing. A token whose lease was lost is never held again: a claim only grants tokens
  that were never issued, and no other write introduces a token.
\<close>

lemma lost_finish: "lost token t rows \<Longrightarrow> lost token t (update_where p (finish e) rows)"
  by (auto simp: lost_def set_update_where finish_laws)

lemma lost_unlease:
  "lost token t rows \<Longrightarrow> (\<And>r. r \<in> set rows \<Longrightarrow> p r \<Longrightarrow> token (f r) = None) \<Longrightarrow>
   lost token t (update_where p f rows)"
  by (auto simp: lost_def set_update_where)

lemma lost_renew: "lost token t rows \<Longrightarrow> lost token t (update_where p (renew now d) rows)"
  by (auto simp: lost_def set_update_where renew_laws)

lemma lost_grant:
  "lost token t rows \<Longrightarrow> t \<noteq> u \<Longrightarrow> lost token t (update_where p (grant w u now d) rows)"
  by (auto simp: lost_def set_update_where grant_laws)

lemma lost_insert: "lost token t rows \<Longrightarrow> token r = None \<Longrightarrow> lost token t (rows @ [r])"
  by (auto simp: lost_def)

lemma lost_find: "lost token t rows \<Longrightarrow> find (\<lambda>r. token r = Some t \<and> q r) rows = None"
  by (auto simp: lost_def find_None_iff)

text \<open>Ending the lease that holds a token loses the token.\<close>

lemma finish_loses:
  assumes inv: "ok issued rows" and r: "r \<in> set rows" and t: "token r = Some t"
  shows "lost token t (update_where (\<lambda>x. key x = key r) (finish e) rows)"
  unfolding lost_def
proof (intro ballI notI)
  fix x assume x: "x \<in> set (update_where (\<lambda>x. key x = key r) (finish e) rows)" and tx: "token x = Some t"
  then have "x \<in> set rows" and "key x \<noteq> key r"
    by (auto simp: set_update_where finish_laws)
  then show False using token_unique [OF inv _ r tx t] by auto
qed

text \<open>At most one row matches a token and its owner, so an update by token touches one row.\<close>

lemma count_token_le_1:
  assumes inv: "ok issued rows"
  shows "count_where (\<lambda>r. token r = Some t \<and> q r) rows \<le> 1"
proof -
  have d: "distinct rows" using ok_distinct [OF inv] by (simp add: distinct_map)
  have "x = y" if "x \<in> set (filter (\<lambda>r. token r = Some t \<and> q r) rows)"
    "y \<in> set (filter (\<lambda>r. token r = Some t \<and> q r) rows)" for x y
    using that token_unique [OF inv, of x y t] by auto
  then have "card (set (filter (\<lambda>r. token r = Some t \<and> q r) rows)) \<le> 1"
    by (auto intro!: card_le_Suc0_iff_eq [THEN iffD2])
  then show ?thesis
    using distinct_card [OF distinct_filter [OF d]] by (simp add: count_where_def)
qed

end

end
