(* ===== verification/Retry.thy ===== *)
theory Retry
  imports Store_Types
begin

text \<open>
  The bounded retry policy, \<open>packages/integration-store/src/worker/retry.ts\<close>.

  Delays and the jitter fraction are rationals: the model computes the backoff exactly,
  where the code uses IEEE doubles. \<open>Math.random ()\<close> is an argument \<open>rnd\<close>, documented to
  lie in \<open>[0, 1)\<close>, and the clock is the value its \<open>now ()\<close> returns.
\<close>

record retry_policy =
  baseMs :: rat
  maxMs :: rat
  maxAttempts :: int
  jitterFraction :: rat

definition DEFAULT_RETRY_POLICY :: retry_policy where
  "DEFAULT_RETRY_POLICY =
     \<lparr>baseMs = 1000, maxMs = 5 * 60000, maxAttempts = 8, jitterFraction = 1 / 5\<rparr>"

definition NON_RETRYABLE_CODES :: "string list" where
  "NON_RETRYABLE_CODES =
     [''VALIDATION_ERROR'', ''VERSION_CONFLICT'', ''IDEMPOTENCY_CONFLICT'',
      ''SCOPE_MISMATCH'', ''TENANT_SCOPE_REQUIRED'']"

definition isRetryable :: "store_error \<Rightarrow> bool" where
  "isRetryable err =
     (if se_retryable err then True else se_code err \<notin> set NON_RETRYABLE_CODES)"

text \<open>The exponential part, before jitter: \<open>min (base * 2^(nextAttempt - 1)) max\<close>.\<close>

definition backoff_exp :: "retry_policy \<Rightarrow> int \<Rightarrow> rat" where
  "backoff_exp policy currentAttempts =
     (let nextAttempt = currentAttempts + 1
      in min (baseMs policy * 2 powi (nextAttempt - 1)) (maxMs policy))"

definition computeNextAttemptAt :: "retry_policy \<Rightarrow> int \<Rightarrow> rat \<Rightarrow> int \<Rightarrow> int" where
  "computeNextAttemptAt policy currentAttempts rnd now =
     (let exp = backoff_exp policy currentAttempts;
          jitter = exp * jitterFraction policy;
          offset = exp + (rnd * 2 - 1) * jitter
      in now + max 0 (js_round offset))"

datatype terminal = T_RETRY_SCHEDULED | T_DEAD_LETTERED

definition decideRetryState :: "retry_policy \<Rightarrow> int \<Rightarrow> store_error \<Rightarrow> terminal" where
  "decideRetryState policy currentAttempts err =
     (let retryable = isRetryable err;
          overAttempts = (currentAttempts \<ge> maxAttempts policy)
      in if \<not> retryable \<or> overAttempts then T_DEAD_LETTERED else T_RETRY_SCHEDULED)"

definition assertValidPolicy :: "retry_policy \<Rightarrow> store_error + unit" where
  "assertValidPolicy p =
     (if baseMs p < 1 then Inl (storeError ''VALIDATION_ERROR'' None (Some ''baseMs''))
      else if maxMs p < baseMs p then
        Inl (storeError ''VALIDATION_ERROR'' None (Some ''maxMs''))
      else if maxAttempts p < 1 \<or> maxAttempts p > 20 then
        Inl (storeError ''VALIDATION_ERROR'' None (Some ''maxAttempts''))
      else if jitterFraction p < 0 \<or> jitterFraction p > 1 / 2 then
        Inl (storeError ''VALIDATION_ERROR'' None (Some ''jitterFraction''))
      else Inr ())"

section \<open>What a valid policy guarantees\<close>

lemma valid_policy_iff:
  "assertValidPolicy p = Inr () \<longleftrightarrow>
     1 \<le> baseMs p \<and> baseMs p \<le> maxMs p \<and> 1 \<le> maxAttempts p \<and> maxAttempts p \<le> 20 \<and>
     0 \<le> jitterFraction p \<and> jitterFraction p \<le> 1 / 2"
  by (auto simp: assertValidPolicy_def not_less)

lemma default_policy_valid: "assertValidPolicy DEFAULT_RETRY_POLICY = Inr ()"
  by (simp add: valid_policy_iff DEFAULT_RETRY_POLICY_def)

lemma backoff_exp_le_max: "backoff_exp p n \<le> maxMs p"
  by (simp add: backoff_exp_def)

lemma backoff_exp_ge_base:
  assumes "assertValidPolicy p = Inr ()" and "0 \<le> n"
  shows "baseMs p \<le> backoff_exp p n"
proof -
  have "1 \<le> (2::rat) powi n" using assms(2) by (simp add: power_int_def)
  moreover have "1 \<le> baseMs p" "baseMs p \<le> maxMs p" using assms(1) by (auto simp: valid_policy_iff)
  ultimately have "baseMs p * 1 \<le> baseMs p * 2 powi n" by (intro mult_left_mono) auto
  then show ?thesis using \<open>baseMs p \<le> maxMs p\<close> by (simp add: backoff_exp_def)
qed

lemma backoff_exp_mono:
  assumes "0 \<le> baseMs p" and "0 \<le> m" and "m \<le> n"
  shows "backoff_exp p m \<le> backoff_exp p n"
proof -
  have "(2::rat) powi m \<le> 2 powi n"
    using assms(2,3) by (simp add: power_int_def nat_mono power_increasing)
  then have "baseMs p * 2 powi m \<le> baseMs p * 2 powi n"
    using assms(1) by (rule mult_left_mono)
  then show ?thesis unfolding backoff_exp_def Let_def by simp
qed

text \<open>The jittered offset stays within the fraction of the exponential part.\<close>

lemma jitter_window:
  assumes "0 \<le> e" and "0 \<le> j" and "0 \<le> rnd" and "rnd < (1::rat)"
  shows "e * (1 - j) \<le> e + (rnd * 2 - 1) * (e * j)"
    and "e + (rnd * 2 - 1) * (e * j) \<le> e * (1 + j)"
proof -
  have k: "0 \<le> e * j" using assms by simp
  have "(-1) * (e * j) \<le> (rnd * 2 - 1) * (e * j)" using assms by (intro mult_right_mono k) simp
  then show "e * (1 - j) \<le> e + (rnd * 2 - 1) * (e * j)" by (simp add: algebra_simps)
  have "(rnd * 2 - 1) * (e * j) \<le> 1 * (e * j)" using assms by (intro mult_right_mono k) simp
  then show "e + (rnd * 2 - 1) * (e * j) \<le> e * (1 + j)" by (simp add: algebra_simps)
qed

lemma computeNextAttemptAt_lower:
  assumes v: "assertValidPolicy p = Inr ()" and n: "0 \<le> n" and r: "0 \<le> rnd" "rnd < 1"
  shows "now + js_round (backoff_exp p n * (1 - jitterFraction p)) \<le> computeNextAttemptAt p n rnd now"
    and "now < computeNextAttemptAt p n rnd now"
proof -
  let ?e = "backoff_exp p n" and ?j = "jitterFraction p"
  have e: "1 \<le> ?e" using backoff_exp_ge_base [OF v n] v by (auto simp: valid_policy_iff)
  have j: "0 \<le> ?j" "?j \<le> 1 / 2" using v by (auto simp: valid_policy_iff)
  have w: "?e * (1 - ?j) \<le> ?e + (rnd * 2 - 1) * (?e * ?j)"
    using e j r by (intro jitter_window) auto
  then show "now + js_round (?e * (1 - ?j)) \<le> computeNextAttemptAt p n rnd now"
    using js_round_mono [OF w] by (simp add: computeNextAttemptAt_def Let_def)
  have "1 * (1 / 2) \<le> ?e * (1 - ?j)" using e j by (intro mult_mono) auto
  then have "1 \<le> js_round (?e + (rnd * 2 - 1) * (?e * ?j))"
    using w by (intro js_round_half) simp
  then show "now < computeNextAttemptAt p n rnd now"
    by (simp add: computeNextAttemptAt_def Let_def)
qed

lemma computeNextAttemptAt_upper:
  assumes v: "assertValidPolicy p = Inr ()" and n: "0 \<le> n" and r: "0 \<le> rnd" "rnd < 1"
  shows "computeNextAttemptAt p n rnd now \<le> now + js_round (backoff_exp p n * (1 + jitterFraction p))"
proof -
  let ?e = "backoff_exp p n" and ?j = "jitterFraction p"
  have e: "1 \<le> ?e" using backoff_exp_ge_base [OF v n] v by (auto simp: valid_policy_iff)
  have j: "0 \<le> ?j" using v by (auto simp: valid_policy_iff)
  have "?e + (rnd * 2 - 1) * (?e * ?j) \<le> ?e * (1 + ?j)" using e j r by (intro jitter_window) auto
  then have le: "js_round (?e + (rnd * 2 - 1) * (?e * ?j)) \<le> js_round (?e * (1 + ?j))"
    by (rule js_round_mono)
  have "1 * 1 \<le> ?e * (1 + ?j)" using e j by (intro mult_mono) auto
  then have "1 \<le> js_round (?e * (1 + ?j))" by (intro js_round_half) simp
  with le show ?thesis by (simp add: computeNextAttemptAt_def Let_def)
qed

end
