(* ===== verification/Lease.thy ===== *)
theory Lease
  imports Lease_Contract Retry
begin

text \<open>
  Durable worker leasing, \<open>packages/integration-store/src/worker/lease.ts\<close>.

  Every operation is one atomic transition of the store (the source wraps each in
  \<open>runInTxn\<close> or issues a single \<open>updateMany\<close>); \<open>completeReceipt\<close> is composed of its
  read and its write, which the last section also runs apart. The clock and the token
  generator are arguments: the value \<open>now ()\<close> returns and the token \<open>next ()\<close> returns.
  \<open>locked\<close> is the set of row ids other transactions hold locked, which
  \<open>FOR UPDATE SKIP LOCKED\<close> passes over.
\<close>

section \<open>Handles and arguments\<close>

record lease_handle =
  lh_fencingToken :: string
  lh_leaseOwner :: string
  lh_leaseExpiresAt :: int
  lh_leaseFencedAt :: int

record claimed_receipt = lease_handle +
  cr_receiptId :: string
  cr_organizationId :: string
  cr_provider :: string
  cr_connectionId :: string
  cr_eventId :: string
  cr_payloadDigest :: string
  cr_schemaVersion :: string
  cr_attempts :: int
  cr_idempotencyKey :: "string option"
  cr_correlationId :: "string option"

record claimed_intent = lease_handle +
  cn_intentId :: string
  cn_receiptId :: string
  cn_organizationId :: string
  cn_idempotencyKey :: "string option"
  cn_correlationId :: "string option"
  cn_intentSource :: string
  cn_attempts :: int

record claim_args =
  ca_workerId :: string
  ca_leaseDurationMs :: int
  ca_now :: int
  ca_token :: string
  ca_maxPerPoll :: "nat option"
  ca_organizationId :: "string option"
  ca_receiptId :: "string option"

section \<open>The writes to a leased row\<close>

definition grant_receipt :: "string \<Rightarrow> string \<Rightarrow> int \<Rightarrow> int \<Rightarrow> receipt \<Rightarrow> receipt" where
  "grant_receipt workerId token now dur r =
     r\<lparr>rc_state := R_LEASED, rc_leaseOwner := Some workerId, rc_leaseExpiresAt := Some (now + dur),
       rc_fencingToken := Some token, rc_leaseFencedAt := Some now,
       rc_attempts := rc_attempts r + 1, rc_nextAttemptAt := None\<rparr>"

definition renew_receipt :: "int \<Rightarrow> int \<Rightarrow> receipt \<Rightarrow> receipt" where
  "renew_receipt now dur r =
     r\<lparr>rc_leaseExpiresAt := Some (now + dur), rc_leaseFencedAt := Some now\<rparr>"

text \<open>
  The data clauses that end a receipt's lease: back to PENDING (the shutdown drain leaves
  the time of the release in \<open>leaseFencedAt\<close>, the other resets clear it), delivered,
  rescheduled, dead-lettered.
\<close>

datatype receipt_end =
  Receipt_Reset "int option" | Receipt_Delivered int | Receipt_Retry int string | Receipt_Dead int string

fun end_receipt :: "receipt_end \<Rightarrow> receipt \<Rightarrow> receipt" where
  "end_receipt (Receipt_Reset fencedAt) r =
     r\<lparr>rc_state := R_PENDING, rc_leaseOwner := None, rc_leaseExpiresAt := None,
       rc_fencingToken := None, rc_leaseFencedAt := fencedAt\<rparr>"
| "end_receipt (Receipt_Delivered now) r =
     r\<lparr>rc_state := R_DELIVERED, rc_resolvedAt := Some now, rc_leaseOwner := None,
       rc_leaseExpiresAt := None, rc_fencingToken := None, rc_leaseFencedAt := None\<rparr>"
| "end_receipt (Receipt_Retry nextAt code) r =
     r\<lparr>rc_state := R_RETRY_SCHEDULED, rc_nextAttemptAt := Some nextAt, rc_reasonCode := Some code,
       rc_leaseOwner := None, rc_leaseExpiresAt := None, rc_fencingToken := None,
       rc_leaseFencedAt := None\<rparr>"
| "end_receipt (Receipt_Dead now code) r =
     r\<lparr>rc_state := R_DEAD_LETTERED, rc_resolvedAt := Some now, rc_reasonCode := Some code,
       rc_leaseOwner := None, rc_leaseExpiresAt := None, rc_fencingToken := None,
       rc_leaseFencedAt := None\<rparr>"

definition grant_intent :: "string \<Rightarrow> string \<Rightarrow> int \<Rightarrow> int \<Rightarrow> dispatch_intent \<Rightarrow> dispatch_intent" where
  "grant_intent workerId token now dur i =
     i\<lparr>di_status := I_LEASED, di_leaseOwner := Some workerId, di_leaseExpiresAt := Some (now + dur),
       di_fencingToken := Some token, di_leaseFencedAt := Some now,
       di_attempts := di_attempts i + 1\<rparr>"

definition renew_intent :: "int \<Rightarrow> int \<Rightarrow> dispatch_intent \<Rightarrow> dispatch_intent" where
  "renew_intent now dur i =
     i\<lparr>di_leaseExpiresAt := Some (now + dur), di_leaseFencedAt := Some now\<rparr>"

datatype intent_end = Intent_Reset "int option" | Intent_Delivered | Intent_Failed | Intent_Terminal

fun intent_end_status :: "intent_end \<Rightarrow> intent_status" where
  "intent_end_status (Intent_Reset _) = I_PENDING"
| "intent_end_status Intent_Delivered = I_DELIVERED"
| "intent_end_status Intent_Failed = I_FAILED"
| "intent_end_status Intent_Terminal = I_TERMINAL"

fun intent_end_fenced :: "intent_end \<Rightarrow> int option" where
  "intent_end_fenced (Intent_Reset fencedAt) = fencedAt"
| "intent_end_fenced _ = None"

definition end_intent :: "intent_end \<Rightarrow> dispatch_intent \<Rightarrow> dispatch_intent" where
  "end_intent e i =
     i\<lparr>di_status := intent_end_status e, di_leaseOwner := None, di_leaseExpiresAt := None,
       di_fencingToken := None, di_leaseFencedAt := intent_end_fenced e\<rparr>"

section \<open>Claims\<close>

text \<open>The eligibility clause of \<open>claimNextReceipt\<close>; \<open>orgId\<close> is \<open>organizationId ?? ''\<close>.\<close>

definition receipt_eligible :: "int \<Rightarrow> string \<Rightarrow> receipt \<Rightarrow> bool" where
  "receipt_eligible now orgId r \<longleftrightarrow>
     rc_state r \<in> {R_PENDING, R_RETRY_SCHEDULED} \<and>
     null_or (\<lambda>e. e \<le> now) (rc_leaseExpiresAt r) \<and>
     null_or (\<lambda>n. n \<le> now) (rc_nextAttemptAt r) \<and>
     (orgId \<noteq> [] \<longrightarrow> rc_organizationId r = orgId)"

definition claimed_receipt_of :: "claim_args \<Rightarrow> receipt \<Rightarrow> int \<Rightarrow> claimed_receipt" where
  "claimed_receipt_of args row attempts =
     \<lparr>lh_fencingToken = ca_token args, lh_leaseOwner = ca_workerId args,
      lh_leaseExpiresAt = ca_now args + ca_leaseDurationMs args, lh_leaseFencedAt = ca_now args,
      cr_receiptId = rc_receiptId row, cr_organizationId = rc_organizationId row,
      cr_provider = rc_provider row, cr_connectionId = rc_connectionId row,
      cr_eventId = rc_eventId row, cr_payloadDigest = rc_payloadDigest row,
      cr_schemaVersion = rc_schemaVersion row, cr_attempts = attempts,
      cr_idempotencyKey = rc_idempotencyKey row, cr_correlationId = rc_correlationId row\<rparr>"

definition claimNextReceipt ::
  "string set \<Rightarrow> claim_args \<Rightarrow> store \<Rightarrow> claimed_receipt option \<times> store" where
  "claimNextReceipt locked args st =
     (let orgId = nullish (ca_organizationId args) [];
          rows = take (nullish (ca_maxPerPoll args) 1)
                   (order_asc rc_firstSeenAt
                     (filter (\<lambda>r. receipt_eligible (ca_now args) orgId r \<and> rc_receiptId r \<notin> locked)
                       (receipts st)))
      in case rows of
           [] \<Rightarrow> (None, st)
         | row # _ \<Rightarrow>
             (Some (claimed_receipt_of args row (rc_attempts row + 1)),
              st\<lparr>receipts := update_where (\<lambda>r. rc_receiptId r = rc_receiptId row)
                   (grant_receipt (ca_workerId args) (ca_token args) (ca_now args)
                     (ca_leaseDurationMs args)) (receipts st)\<rparr>))"

definition claimSpecificReceipt ::
  "claim_args \<Rightarrow> receipt_scope \<Rightarrow> store \<Rightarrow> claimed_receipt option \<times> store" where
  "claimSpecificReceipt args scope st =
     (case find (in_scope scope) (receipts st) of
        None \<Rightarrow> (None, st)
      | Some row \<Rightarrow>
          if rc_state row \<noteq> R_PENDING \<and> rc_state row \<noteq> R_RETRY_SCHEDULED then (None, st)
          else if not_null_and (\<lambda>e. e > ca_now args) (rc_leaseExpiresAt row) then (None, st)
          else
            let updated = grant_receipt (ca_workerId args) (ca_token args) (ca_now args)
                            (ca_leaseDurationMs args) row
            in (Some (claimed_receipt_of args updated (rc_attempts updated)),
                st\<lparr>receipts := update_where (\<lambda>r. rc_receiptId r = rc_receiptId row)
                     (grant_receipt (ca_workerId args) (ca_token args) (ca_now args)
                       (ca_leaseDurationMs args)) (receipts st)\<rparr>))"

definition intent_eligible :: "int \<Rightarrow> string \<Rightarrow> string \<Rightarrow> dispatch_intent \<Rightarrow> bool" where
  "intent_eligible now orgId receiptId i \<longleftrightarrow>
     di_status i = I_PENDING \<and>
     null_or (\<lambda>e. e \<le> now) (di_leaseExpiresAt i) \<and>
     (orgId \<noteq> [] \<longrightarrow> di_organizationId i = orgId) \<and>
     (receiptId \<noteq> [] \<longrightarrow> di_receiptId i = receiptId)"

definition claimNextIntent ::
  "string set \<Rightarrow> claim_args \<Rightarrow> store \<Rightarrow> claimed_intent option \<times> store" where
  "claimNextIntent locked args st =
     (let orgId = nullish (ca_organizationId args) [];
          receiptId = nullish (ca_receiptId args) [];
          rows = take 1 (order_asc di_createdAt
                   (filter (\<lambda>i. intent_eligible (ca_now args) orgId receiptId i \<and>
                                di_intentId i \<notin> locked) (intents st)))
      in case rows of
           [] \<Rightarrow> (None, st)
         | row # _ \<Rightarrow>
             (Some \<lparr>lh_fencingToken = ca_token args, lh_leaseOwner = ca_workerId args,
                lh_leaseExpiresAt = ca_now args + ca_leaseDurationMs args,
                lh_leaseFencedAt = ca_now args,
                cn_intentId = di_intentId row, cn_receiptId = di_receiptId row,
                cn_organizationId = di_organizationId row,
                cn_idempotencyKey = di_idempotencyKey row,
                cn_correlationId = di_correlationId row,
                cn_intentSource = di_intentSource row, cn_attempts = di_attempts row + 1\<rparr>,
              st\<lparr>intents := update_where (\<lambda>i. di_intentId i = di_intentId row)
                   (grant_intent (ca_workerId args) (ca_token args) (ca_now args)
                     (ca_leaseDurationMs args)) (intents st)\<rparr>))"

section \<open>Heartbeat and release\<close>

datatype lease_kind = K_receipt | K_intent

definition held_receipt :: "string \<Rightarrow> string \<Rightarrow> receipt \<Rightarrow> bool" where
  "held_receipt fencingToken leaseOwner r \<longleftrightarrow>
     rc_fencingToken r = Some fencingToken \<and> rc_leaseOwner r = Some leaseOwner \<and>
     rc_state r = R_LEASED"

definition held_intent :: "string \<Rightarrow> string \<Rightarrow> dispatch_intent \<Rightarrow> bool" where
  "held_intent fencingToken leaseOwner i \<longleftrightarrow>
     di_fencingToken i = Some fencingToken \<and> di_leaseOwner i = Some leaseOwner \<and>
     di_status i = I_LEASED"

fun extendLease :: "lease_kind \<Rightarrow> string \<Rightarrow> string \<Rightarrow> int \<Rightarrow> int \<Rightarrow> store \<Rightarrow> bool \<times> store" where
  "extendLease K_receipt token owner dur now st =
     (count_where (held_receipt token owner) (receipts st) = 1,
      st\<lparr>receipts := update_where (held_receipt token owner) (renew_receipt now dur) (receipts st)\<rparr>)"
| "extendLease K_intent token owner dur now st =
     (count_where (held_intent token owner) (intents st) = 1,
      st\<lparr>intents := update_where (held_intent token owner) (renew_intent now dur) (intents st)\<rparr>)"

fun releaseLease :: "lease_kind \<Rightarrow> string \<Rightarrow> string \<Rightarrow> store \<Rightarrow> bool \<times> store" where
  "releaseLease K_receipt token owner st =
     (count_where (held_receipt token owner) (receipts st) = 1,
      st\<lparr>receipts := update_where (held_receipt token owner) (end_receipt (Receipt_Reset None))
           (receipts st)\<rparr>)"
| "releaseLease K_intent token owner st =
     (count_where (held_intent token owner) (intents st) = 1,
      st\<lparr>intents := update_where (held_intent token owner) (end_intent (Intent_Reset None))
           (intents st)\<rparr>)"

section \<open>Completion\<close>

datatype outcome = SUCCESS | RETRY | FAIL

text \<open>
  \<open>co_now\<close> is the clock reading at the start of the transaction, \<open>co_backoffNow\<close> the second
  reading, taken inside \<open>computeNextAttemptAt\<close>; \<open>co_random\<close> is its \<open>Math.random ()\<close>.
\<close>

record complete_args =
  co_fencingToken :: string
  co_leaseOwner :: string
  co_outcome :: outcome
  co_error :: "store_error option"
  co_retryPolicy :: "retry_policy option"
  co_now :: int
  co_backoffNow :: int
  co_random :: rat

datatype completion = C_DELIVERED | C_RETRY_SCHEDULED | C_DEAD_LETTERED

record complete_result =
  cs_state :: completion
  cs_nextAttemptAt :: "int option"
  cs_fencedRejected :: bool

definition completeReceipt_read :: "complete_args \<Rightarrow> store \<Rightarrow> receipt option" where
  "completeReceipt_read args st =
     find (held_receipt (co_fencingToken args) (co_leaseOwner args)) (receipts st)"

text \<open>The retry decision: RETRY with a policy asks the policy, everything else is final.\<close>

definition completion_decision :: "complete_args \<Rightarrow> receipt \<Rightarrow> store_error \<Rightarrow> terminal" where
  "completion_decision args row err =
     (case (co_outcome args, co_retryPolicy args) of
        (RETRY, Some policy) \<Rightarrow> decideRetryState policy (rc_attempts row) err
      | _ \<Rightarrow> T_DEAD_LETTERED)"

definition put_receipt :: "string \<Rightarrow> receipt_end \<Rightarrow> store \<Rightarrow> store" where
  "put_receipt receiptId e st =
     st\<lparr>receipts := update_where (\<lambda>r. rc_receiptId r = receiptId) (end_receipt e) (receipts st)\<rparr>"

definition completeReceipt_write ::
  "complete_args \<Rightarrow> receipt \<Rightarrow> store \<Rightarrow> complete_result \<times> store" where
  "completeReceipt_write args row st =
     (if co_outcome args = SUCCESS then
        (\<lparr>cs_state = C_DELIVERED, cs_nextAttemptAt = None, cs_fencedRejected = False\<rparr>,
         put_receipt (rc_receiptId row) (Receipt_Delivered (co_now args)) st)
      else
        let err = nullish (co_error args)
                    (storeError ''TRANSACTION_FAILED'' (Some False) None)
        in case (completion_decision args row err, co_retryPolicy args) of
             (T_RETRY_SCHEDULED, Some policy) \<Rightarrow>
               let nextAt = computeNextAttemptAt policy (rc_attempts row) (co_random args)
                              (co_backoffNow args)
               in (\<lparr>cs_state = C_RETRY_SCHEDULED, cs_nextAttemptAt = Some nextAt,
                    cs_fencedRejected = False\<rparr>,
                   put_receipt (rc_receiptId row) (Receipt_Retry nextAt (se_code err)) st)
           | _ \<Rightarrow>
               (\<lparr>cs_state = C_DEAD_LETTERED, cs_nextAttemptAt = None, cs_fencedRejected = False\<rparr>,
                put_receipt (rc_receiptId row) (Receipt_Dead (co_now args) (se_code err)) st))"

definition completeReceipt :: "complete_args \<Rightarrow> store \<Rightarrow> complete_result \<times> store" where
  "completeReceipt args st =
     (case completeReceipt_read args st of
        None \<Rightarrow>
          (\<lparr>cs_state = C_DELIVERED, cs_nextAttemptAt = None, cs_fencedRejected = True\<rparr>, st)
      | Some row \<Rightarrow> completeReceipt_write args row st)"

definition completeIntent ::
  "string \<Rightarrow> string \<Rightarrow> outcome \<Rightarrow> store \<Rightarrow> (intent_status \<times> bool) \<times> store" where
  "completeIntent token owner outc st =
     (case find (held_intent token owner) (intents st) of
        None \<Rightarrow> ((I_DELIVERED, True), st)
      | Some row \<Rightarrow>
          if outc = SUCCESS then
            ((I_DELIVERED, False),
             st\<lparr>intents := update_where (\<lambda>i. di_intentId i = di_intentId row)
                  (end_intent Intent_Delivered) (intents st)\<rparr>)
          else
            let e = (if outc = RETRY then Intent_Failed else Intent_Terminal)
            in ((intent_end_status e, False),
                st\<lparr>intents := update_where (\<lambda>i. di_intentId i = di_intentId row)
                     (end_intent e) (intents st)\<rparr>))"

section \<open>Sweeps\<close>

definition expired_receipt :: "int \<Rightarrow> receipt \<Rightarrow> bool" where
  "expired_receipt now r \<longleftrightarrow>
     rc_state r = R_LEASED \<and> not_null_and (\<lambda>e. e < now) (rc_leaseExpiresAt r)"

definition expired_intent :: "int \<Rightarrow> dispatch_intent \<Rightarrow> bool" where
  "expired_intent now i \<longleftrightarrow>
     di_status i = I_LEASED \<and> not_null_and (\<lambda>e. e < now) (di_leaseExpiresAt i)"

definition reclaimExpiredLeases :: "int \<Rightarrow> store \<Rightarrow> (nat \<times> nat) \<times> store" where
  "reclaimExpiredLeases now st =
     ((count_where (expired_receipt now) (receipts st), count_where (expired_intent now) (intents st)),
      st\<lparr>receipts := update_where (expired_receipt now) (end_receipt (Receipt_Reset None)) (receipts st),
         intents := update_where (expired_intent now) (end_intent (Intent_Reset None)) (intents st)\<rparr>)"

definition releaseAllForWorker :: "string \<Rightarrow> int \<Rightarrow> store \<Rightarrow> (nat \<times> nat) \<times> store" where
  "releaseAllForWorker workerId now st =
     (let mine = (\<lambda>r. rc_leaseOwner r = Some workerId \<and> rc_state r = R_LEASED);
          mine_i = (\<lambda>i. di_leaseOwner i = Some workerId \<and> di_status i = I_LEASED)
      in ((count_where mine (receipts st), count_where mine_i (intents st)),
          st\<lparr>receipts := update_where mine (end_receipt (Receipt_Reset (Some now))) (receipts st),
             intents := update_where mine_i (end_intent (Intent_Reset (Some now))) (intents st)\<rparr>))"

definition findReceiptByFencingToken :: "string \<Rightarrow> store \<Rightarrow> (string \<times> receipt_state) option" where
  "findReceiptByFencingToken token st =
     map_option (\<lambda>r. (rc_receiptId r, rc_state r))
       (find (\<lambda>r. rc_fencingToken r = Some token) (receipts st))"

definition requireWorkerScope :: "string option \<Rightarrow> store_error + string" where
  "requireWorkerScope organizationId =
     (case organizationId of
        Some org \<Rightarrow> if org = [] then Inl (storeError ''SCOPE_MISMATCH'' None None) else Inr org
      | None \<Rightarrow> Inl (storeError ''SCOPE_MISMATCH'' None None))"

section \<open>Both tables meet the lease contract\<close>

interpretation receipt_lease: lease_table
  "\<lambda>r. rc_state r = R_LEASED" rc_fencingToken rc_leaseOwner rc_leaseExpiresAt rc_receiptId
  grant_receipt renew_receipt end_receipt
proof
  fix e :: receipt_end and r
  show "rc_receiptId (end_receipt e r) = rc_receiptId r" by (cases e) simp_all
  show "rc_state (end_receipt e r) \<noteq> R_LEASED" by (cases e) simp_all
  show "rc_fencingToken (end_receipt e r) = None" by (cases e) simp_all
qed (simp_all add: grant_receipt_def renew_receipt_def)

interpretation intent_lease: lease_table
  "\<lambda>i. di_status i = I_LEASED" di_fencingToken di_leaseOwner di_leaseExpiresAt di_intentId
  grant_intent renew_intent end_intent
proof
  fix e :: intent_end and i
  show "di_status (end_intent e i) \<noteq> I_LEASED" by (cases e) (simp_all add: end_intent_def)
qed (simp_all add: grant_intent_def renew_intent_def end_intent_def)

text \<open>The lease invariant of the store, relative to the tokens issued so far.\<close>

definition store_ok :: "string set \<Rightarrow> store \<Rightarrow> bool" where
  "store_ok issued st \<longleftrightarrow>
     receipt_lease.ok issued (receipts st) \<and> intent_lease.ok issued (intents st)"

text \<open>Neither table holds the token.\<close>

definition token_lost :: "string \<Rightarrow> store \<Rightarrow> bool" where
  "token_lost t st \<longleftrightarrow> lost rc_fencingToken t (receipts st) \<and> lost di_fencingToken t (intents st)"

lemma store_okD:
  "store_ok issued st \<Longrightarrow> receipt_lease.ok issued (receipts st)"
  "store_ok issued st \<Longrightarrow> intent_lease.ok issued (intents st)"
  by (simp_all add: store_ok_def)

lemma token_lostD:
  "token_lost t st \<Longrightarrow> lost rc_fencingToken t (receipts st)"
  "token_lost t st \<Longrightarrow> lost di_fencingToken t (intents st)"
  by (simp_all add: token_lost_def)

text \<open>The columns no lease operation writes.\<close>

definition receipt_identity :: "receipt \<Rightarrow> receipt" where
  "receipt_identity r =
     r\<lparr>rc_state := R_PENDING, rc_attempts := 0, rc_leaseOwner := None, rc_leaseExpiresAt := None,
       rc_fencingToken := None, rc_leaseFencedAt := None, rc_nextAttemptAt := None,
       rc_resolvedAt := None, rc_reasonCode := None\<rparr>"

lemma receipt_identity_writes [row_simps]:
  "receipt_identity (grant_receipt w t now d r) = receipt_identity r"
  "receipt_identity (renew_receipt now d r) = receipt_identity r"
  "receipt_identity (end_receipt e r) = receipt_identity r"
  by (simp_all add: receipt_identity_def grant_receipt_def renew_receipt_def) (cases e; simp)

lemma attempts_writes [row_simps]:
  "rc_attempts (grant_receipt w t now d r) = rc_attempts r + 1"
  "rc_attempts (renew_receipt now d r) = rc_attempts r"
  "rc_attempts (end_receipt e r) = rc_attempts r"
  by (simp_all add: grant_receipt_def renew_receipt_def) (cases e; simp)

lemma receiptId_writes [simp]:
  "rc_receiptId (grant_receipt w t now d r) = rc_receiptId r"
  "rc_receiptId (renew_receipt now d r) = rc_receiptId r"
  "rc_receiptId (end_receipt e r) = rc_receiptId r"
  by (simp_all add: grant_receipt_def renew_receipt_def receipt_lease.key_finish)

lemma scope_of_writes [simp]:
  "scope_of (grant_receipt w t now d r) = scope_of r"
  "scope_of (renew_receipt now d r) = scope_of r"
  "scope_of (end_receipt e r) = scope_of r"
  by (simp_all add: scope_of_def grant_receipt_def renew_receipt_def) (cases e; simp)

declare end_receipt.simps [simp del]

lemma intentId_writes [simp]:
  "di_intentId (grant_intent w t now d i) = di_intentId i"
  "di_intentId (renew_intent now d i) = di_intentId i"
  "di_intentId (end_intent e' i) = di_intentId i"
  by (simp_all add: grant_intent_def renew_intent_def end_intent_def)

end
