(* ===== verification/Lease_Facts.thy ===== *)
theory Lease_Facts
  imports Lease
begin

text \<open>
  What the lease operations guarantee: the shape of a claim, the preservation of the lease
  invariant and of a lost token by every operation, the frame of the operations, and the
  properties of the component.
\<close>

section \<open>Claims\<close>

text \<open>A successful claim takes an eligible, unlocked row that was seen first.\<close>

lemma claimNextReceipt_cases:
  assumes "claimNextReceipt locked args st = (res, st')"
  obtains (none) "res = None" "st' = st"
  | (some) row where "row \<in> set (receipts st)"
      "receipt_eligible (ca_now args) (nullish (ca_organizationId args) []) row"
      "rc_receiptId row \<notin> locked"
      "\<And>x. x \<in> set (receipts st) \<Longrightarrow>
         receipt_eligible (ca_now args) (nullish (ca_organizationId args) []) x \<Longrightarrow>
         rc_receiptId x \<notin> locked \<Longrightarrow> rc_firstSeenAt row \<le> rc_firstSeenAt x"
      "res = Some (claimed_receipt_of args row (rc_attempts row + 1))"
      "st' = st\<lparr>receipts := update_where (\<lambda>r. rc_receiptId r = rc_receiptId row)
               (grant_receipt (ca_workerId args) (ca_token args) (ca_now args)
                 (ca_leaseDurationMs args)) (receipts st)\<rparr>"
proof -
  let ?p = "\<lambda>r. receipt_eligible (ca_now args) (nullish (ca_organizationId args) []) r \<and>
                rc_receiptId r \<notin> locked"
  let ?rows = "order_asc rc_firstSeenAt (filter ?p (receipts st))"
  show thesis
  proof (cases "take (nullish (ca_maxPerPoll args) 1) ?rows")
    case Nil
    have "claimNextReceipt locked args st = (None, st)"
      by (simp only: claimNextReceipt_def Let_def Nil list.case)
    then show thesis using assms none by simp
  next
    case (Cons row rest)
    have eq: "claimNextReceipt locked args st =
        (Some (claimed_receipt_of args row (rc_attempts row + 1)),
         st\<lparr>receipts := update_where (\<lambda>r. rc_receiptId r = rc_receiptId row)
               (grant_receipt (ca_workerId args) (ca_token args) (ca_now args)
                 (ca_leaseDurationMs args)) (receipts st)\<rparr>)"
      by (simp only: claimNextReceipt_def Let_def Cons list.case)
    from Cons obtain rest' where r: "?rows = row # rest'"
      by (cases ?rows) (auto simp: take_Cons split: nat.splits)
    then have "row \<in> set (filter ?p (receipts st))"
      using set_order_asc [of rc_firstSeenAt "filter ?p (receipts st)"] by auto
    moreover have "rc_firstSeenAt row \<le> rc_firstSeenAt x" if "x \<in> set (filter ?p (receipts st))" for x
      using order_asc_first [OF r that] .
    ultimately show thesis
      using assms eq by (intro some) auto
  qed
qed

lemma claimSpecificReceipt_cases:
  assumes "claimSpecificReceipt args scope st = (res, st')"
  obtains (none) "res = None" "st' = st"
  | (some) row where "row \<in> set (receipts st)" "scope_of row = scope"
      "rc_state row \<in> {R_PENDING, R_RETRY_SCHEDULED}"
      "null_or (\<lambda>e. e \<le> ca_now args) (rc_leaseExpiresAt row)"
      "res = Some (claimed_receipt_of args row (rc_attempts row + 1))"
      "st' = st\<lparr>receipts := update_where (\<lambda>r. rc_receiptId r = rc_receiptId row)
               (grant_receipt (ca_workerId args) (ca_token args) (ca_now args)
                 (ca_leaseDurationMs args)) (receipts st)\<rparr>"
proof (cases "find (in_scope scope) (receipts st)")
  case None
  then show thesis using assms none by (simp add: claimSpecificReceipt_def)
next
  case (Some row)
  then have row: "row \<in> set (receipts st)" "scope_of row = scope"
    using find_SomeD [OF Some] by (auto simp: in_scope_iff)
  show thesis
  proof (cases "(rc_state row \<noteq> R_PENDING \<and> rc_state row \<noteq> R_RETRY_SCHEDULED) \<or>
                not_null_and (\<lambda>e. e > ca_now args) (rc_leaseExpiresAt row)")
    case True
    then have "claimSpecificReceipt args scope st = (None, st)"
      by (auto simp: claimSpecificReceipt_def Some)
    then show thesis using assms none by simp
  next
    case False
    have "claimed_receipt_of args (grant_receipt w t now d row) n = claimed_receipt_of args row n"
      for w t now d n by (simp add: claimed_receipt_of_def grant_receipt_def)
    moreover have "null_or (\<lambda>e. e \<le> ca_now args) (rc_leaseExpiresAt row)"
      using False by (auto simp: null_or_iff not_null_and_iff)
    moreover have "claimSpecificReceipt args scope st =
        (Some (claimed_receipt_of args (grant_receipt (ca_workerId args) (ca_token args) (ca_now args)
                (ca_leaseDurationMs args) row) (rc_attempts row + 1)),
         st\<lparr>receipts := update_where (\<lambda>r. rc_receiptId r = rc_receiptId row)
               (grant_receipt (ca_workerId args) (ca_token args) (ca_now args)
                 (ca_leaseDurationMs args)) (receipts st)\<rparr>)"
      using False by (auto simp: claimSpecificReceipt_def Some Let_def row_simps)
    ultimately show thesis
      using assms row False by (intro some) auto
  qed
qed

lemma claimNextIntent_cases:
  assumes "claimNextIntent locked args st = (res, st')"
  obtains (none) "res = None" "st' = st"
  | (some) row where "row \<in> set (intents st)"
      "intent_eligible (ca_now args) (nullish (ca_organizationId args) [])
         (nullish (ca_receiptId args) []) row"
      "res \<noteq> None"
      "st' = st\<lparr>intents := update_where (\<lambda>i. di_intentId i = di_intentId row)
               (grant_intent (ca_workerId args) (ca_token args) (ca_now args)
                 (ca_leaseDurationMs args)) (intents st)\<rparr>"
proof -
  let ?p = "\<lambda>i. intent_eligible (ca_now args) (nullish (ca_organizationId args) [])
                  (nullish (ca_receiptId args) []) i \<and> di_intentId i \<notin> locked"
  show thesis
  proof (cases "order_asc di_createdAt (filter ?p (intents st))")
    case Nil
    have "claimNextIntent locked args st = (None, st)"
      by (simp only: claimNextIntent_def Let_def Nil take_Nil list.case)
    then show thesis using assms none by simp
  next
    case (Cons row rest)
    then have "row \<in> set (filter ?p (intents st))"
      using set_order_asc [of di_createdAt "filter ?p (intents st)"] by auto
    then show thesis
      using assms unfolding claimNextIntent_def Let_def Cons by (intro some) auto
  qed
qed

section \<open>The lease invariant\<close>

lemma claimNextReceipt_ok:
  assumes "store_ok issued st" and "ca_token args \<notin> issued"
  shows "store_ok (insert (ca_token args) issued) (snd (claimNextReceipt locked args st))"
proof -
  obtain res st' where c: "claimNextReceipt locked args st = (res, st')" by (cases "claimNextReceipt locked args st")
  from c show ?thesis
  proof (cases rule: claimNextReceipt_cases)
    case none
    with c show ?thesis using assms(1)
      by (auto simp: store_ok_def intro: receipt_lease.ok_mono intent_lease.ok_mono)
  next
    case (some row)
    with c show ?thesis
      using assms receipt_lease.ok_grant [OF store_okD(1) [OF assms(1)] assms(2)]
      by (auto simp: store_ok_def intro: intent_lease.ok_mono)
  qed
qed

lemma claimSpecificReceipt_ok:
  assumes "store_ok issued st" and "ca_token args \<notin> issued"
  shows "store_ok (insert (ca_token args) issued) (snd (claimSpecificReceipt args scope st))"
proof -
  obtain res st' where c: "claimSpecificReceipt args scope st = (res, st')" by (cases "claimSpecificReceipt args scope st")
  from c show ?thesis
  proof (cases rule: claimSpecificReceipt_cases)
    case none
    with c show ?thesis using assms(1)
      by (auto simp: store_ok_def intro: receipt_lease.ok_mono intent_lease.ok_mono)
  next
    case (some row)
    with c show ?thesis
      using assms receipt_lease.ok_grant [OF store_okD(1) [OF assms(1)] assms(2)]
      by (auto simp: store_ok_def intro: intent_lease.ok_mono)
  qed
qed

lemma claimNextIntent_ok:
  assumes "store_ok issued st" and "ca_token args \<notin> issued"
  shows "store_ok (insert (ca_token args) issued) (snd (claimNextIntent locked args st))"
proof -
  obtain res st' where c: "claimNextIntent locked args st = (res, st')" by (cases "claimNextIntent locked args st")
  from c show ?thesis
  proof (cases rule: claimNextIntent_cases)
    case none
    with c show ?thesis using assms(1)
      by (auto simp: store_ok_def intro: receipt_lease.ok_mono intent_lease.ok_mono)
  next
    case (some row)
    with c show ?thesis
      using assms intent_lease.ok_grant [OF store_okD(2) [OF assms(1)] assms(2)]
      by (auto simp: store_ok_def intro: receipt_lease.ok_mono)
  qed
qed

lemma extendLease_ok: "store_ok issued st \<Longrightarrow> store_ok issued (snd (extendLease k t w d now st))"
  by (cases k) (auto simp: store_ok_def intro: receipt_lease.ok_renew intent_lease.ok_renew)

lemma releaseLease_ok: "store_ok issued st \<Longrightarrow> store_ok issued (snd (releaseLease k t w st))"
  by (cases k) (auto simp: store_ok_def intro: receipt_lease.ok_finish intent_lease.ok_finish)

lemma put_receipt_ok: "store_ok issued st \<Longrightarrow> store_ok issued (put_receipt k e st)"
  by (auto simp: put_receipt_def store_ok_def intro: receipt_lease.ok_finish)

text \<open>Whatever it decides, the write of a completion is one lease-ending update of the row.\<close>

lemma completeReceipt_write_puts:
  "\<exists>e. snd (completeReceipt_write args row st) = put_receipt (rc_receiptId row) e st"
proof (cases "co_outcome args = SUCCESS")
  case True
  then show ?thesis by (auto simp: completeReceipt_write_def)
next
  case False
  then show ?thesis
    by (auto simp: completeReceipt_write_def Let_def split: terminal.split option.split)
qed

lemma completeReceipt_puts:
  "snd (completeReceipt args st) = st \<or> (\<exists>k e. snd (completeReceipt args st) = put_receipt k e st)"
  using completeReceipt_write_puts [of args _ st] by (auto simp: completeReceipt_def split: option.split)

lemma completeReceipt_ok: "store_ok issued st \<Longrightarrow> store_ok issued (snd (completeReceipt args st))"
  by (metis completeReceipt_puts put_receipt_ok)

lemma completeIntent_ok: "store_ok issued st \<Longrightarrow> store_ok issued (snd (completeIntent t w oc st))"
  by (auto simp: completeIntent_def store_ok_def Let_def split: option.splits
      intro: intent_lease.ok_finish)

lemma reclaimExpiredLeases_ok: "store_ok issued st \<Longrightarrow> store_ok issued (snd (reclaimExpiredLeases now st))"
  by (auto simp: reclaimExpiredLeases_def store_ok_def
      intro: receipt_lease.ok_finish intent_lease.ok_finish)

lemma releaseAllForWorker_ok: "store_ok issued st \<Longrightarrow> store_ok issued (snd (releaseAllForWorker w now st))"
  by (auto simp: releaseAllForWorker_def store_ok_def Let_def
      intro: receipt_lease.ok_finish intent_lease.ok_finish)

lemmas lease_ops_ok =
  claimNextReceipt_ok claimSpecificReceipt_ok claimNextIntent_ok extendLease_ok releaseLease_ok
  completeReceipt_ok completeIntent_ok reclaimExpiredLeases_ok releaseAllForWorker_ok

section \<open>A lost token stays lost\<close>

lemma claimNextReceipt_lost:
  assumes "token_lost t st" and "t \<noteq> ca_token args"
  shows "token_lost t (snd (claimNextReceipt locked args st))"
proof -
  obtain res st' where c: "claimNextReceipt locked args st = (res, st')" by (cases "claimNextReceipt locked args st")
  from c show ?thesis
  proof (cases rule: claimNextReceipt_cases)
    case none
    with c show ?thesis using assms(1) by simp
  next
    case (some row)
    with c show ?thesis using assms by (auto simp: token_lost_def intro: receipt_lease.lost_grant)
  qed
qed

lemma claimSpecificReceipt_lost:
  assumes "token_lost t st" and "t \<noteq> ca_token args"
  shows "token_lost t (snd (claimSpecificReceipt args scope st))"
proof -
  obtain res st' where c: "claimSpecificReceipt args scope st = (res, st')" by (cases "claimSpecificReceipt args scope st")
  from c show ?thesis
  proof (cases rule: claimSpecificReceipt_cases)
    case none
    with c show ?thesis using assms(1) by simp
  next
    case (some row)
    with c show ?thesis using assms by (auto simp: token_lost_def intro: receipt_lease.lost_grant)
  qed
qed

lemma claimNextIntent_lost:
  assumes "token_lost t st" and "t \<noteq> ca_token args"
  shows "token_lost t (snd (claimNextIntent locked args st))"
proof -
  obtain res st' where c: "claimNextIntent locked args st = (res, st')" by (cases "claimNextIntent locked args st")
  from c show ?thesis
  proof (cases rule: claimNextIntent_cases)
    case none
    with c show ?thesis using assms(1) by simp
  next
    case (some row)
    with c show ?thesis using assms by (auto simp: token_lost_def intro: intent_lease.lost_grant)
  qed
qed

lemma extendLease_lost: "token_lost t st \<Longrightarrow> token_lost t (snd (extendLease k u w d now st))"
  by (cases k) (auto simp: token_lost_def intro: receipt_lease.lost_renew intent_lease.lost_renew)

lemma releaseLease_lost: "token_lost t st \<Longrightarrow> token_lost t (snd (releaseLease k u w st))"
  by (cases k) (auto simp: token_lost_def intro: receipt_lease.lost_finish intent_lease.lost_finish)

lemma put_receipt_lost: "token_lost t st \<Longrightarrow> token_lost t (put_receipt k e st)"
  by (auto simp: put_receipt_def token_lost_def intro: receipt_lease.lost_finish)

lemma completeReceipt_lost: "token_lost t st \<Longrightarrow> token_lost t (snd (completeReceipt args st))"
  by (metis completeReceipt_puts put_receipt_lost)

lemma completeIntent_lost: "token_lost t st \<Longrightarrow> token_lost t (snd (completeIntent u w oc st))"
  by (auto simp: completeIntent_def token_lost_def Let_def split: option.splits
      intro: intent_lease.lost_finish)

lemma reclaimExpiredLeases_lost: "token_lost t st \<Longrightarrow> token_lost t (snd (reclaimExpiredLeases now st))"
  by (auto simp: reclaimExpiredLeases_def token_lost_def
      intro: receipt_lease.lost_finish intent_lease.lost_finish)

lemma releaseAllForWorker_lost: "token_lost t st \<Longrightarrow> token_lost t (snd (releaseAllForWorker w now st))"
  by (auto simp: releaseAllForWorker_def token_lost_def Let_def
      intro: receipt_lease.lost_finish intent_lease.lost_finish)

lemmas lease_ops_lost =
  claimNextReceipt_lost claimSpecificReceipt_lost claimNextIntent_lost extendLease_lost
  releaseLease_lost completeReceipt_lost completeIntent_lost reclaimExpiredLeases_lost
  releaseAllForWorker_lost

text \<open>A lost token is fenced off: the operations that check it change nothing.\<close>

lemma held_receipt_token: "held_receipt t w = (\<lambda>r. rc_fencingToken r = Some t \<and>
    (rc_leaseOwner r = Some w \<and> rc_state r = R_LEASED))"
  by (rule ext) (simp add: held_receipt_def)

lemma held_intent_token: "held_intent t w = (\<lambda>i. di_fencingToken i = Some t \<and>
    (di_leaseOwner i = Some w \<and> di_status i = I_LEASED))"
  by (rule ext) (simp add: held_intent_def)

lemma completeReceipt_fenced:
  assumes "token_lost (co_fencingToken args) st"
  shows "completeReceipt args st =
    (\<lparr>cs_state = C_DELIVERED, cs_nextAttemptAt = None, cs_fencedRejected = True\<rparr>, st)"
  using receipt_lease.lost_find [OF token_lostD(1) [OF assms]]
  by (simp add: completeReceipt_def completeReceipt_read_def held_receipt_token)

lemma completeIntent_fenced:
  assumes "token_lost t st"
  shows "completeIntent t w oc st = ((I_DELIVERED, True), st)"
  using intent_lease.lost_find [OF token_lostD(2) [OF assms]]
  by (simp add: completeIntent_def held_intent_token)

lemma lost_count: "lost token t rows \<Longrightarrow> count_where (\<lambda>r. token r = Some t \<and> q r) rows = 0"
  by (auto simp: lost_def count_where_0)

lemma lost_update: "lost token t rows \<Longrightarrow> update_where (\<lambda>r. token r = Some t \<and> q r) f rows = rows"
  by (auto simp: lost_def intro: update_where_id)

lemma extendLease_fenced: "token_lost t st \<Longrightarrow> extendLease k t w d now st = (False, st)"
  by (cases k) (simp_all add: held_receipt_token held_intent_token lost_count lost_update token_lostD)

lemma releaseLease_fenced: "token_lost t st \<Longrightarrow> releaseLease k t w st = (False, st)"
  by (cases k) (simp_all add: held_receipt_token held_intent_token lost_count lost_update token_lostD)

section \<open>Frame\<close>

text \<open>
  No lease operation adds, drops or reorders a receipt, and the columns outside the lease
  and its outcome (identity, digest, idempotency key, evidence) are never written.
\<close>

definition same_receipts :: "store \<Rightarrow> store \<Rightarrow> bool" where
  "same_receipts st st' \<longleftrightarrow>
     map receipt_identity (receipts st') = map receipt_identity (receipts st) \<and>
     recoveries st' = recoveries st"

lemma same_receipts_refl [simp]: "same_receipts st st"
  by (simp add: same_receipts_def)

lemma same_receipts_trans: "same_receipts s t \<Longrightarrow> same_receipts t u \<Longrightarrow> same_receipts s u"
  by (simp add: same_receipts_def)

lemma claimNextReceipt_frame: "same_receipts st (snd (claimNextReceipt locked args st))"
proof -
  obtain res st' where c: "claimNextReceipt locked args st = (res, st')"
    by (cases "claimNextReceipt locked args st")
  from c show ?thesis
    by (cases rule: claimNextReceipt_cases) (auto simp: c same_receipts_def map_update_where row_simps)
qed

lemma claimSpecificReceipt_frame: "same_receipts st (snd (claimSpecificReceipt args scope st))"
proof -
  obtain res st' where c: "claimSpecificReceipt args scope st = (res, st')"
    by (cases "claimSpecificReceipt args scope st")
  from c show ?thesis
    by (cases rule: claimSpecificReceipt_cases) (auto simp: c same_receipts_def map_update_where row_simps)
qed

lemma claimNextIntent_frame: "same_receipts st (snd (claimNextIntent locked args st))"
proof -
  obtain res st' where c: "claimNextIntent locked args st = (res, st')"
    by (cases "claimNextIntent locked args st")
  from c show ?thesis
    by (cases rule: claimNextIntent_cases) (auto simp: c same_receipts_def)
qed

lemma extendLease_frame: "same_receipts st (snd (extendLease k t w d now st))"
  by (cases k) (auto simp: same_receipts_def map_update_where row_simps)

lemma releaseLease_frame: "same_receipts st (snd (releaseLease k t w st))"
  by (cases k) (auto simp: same_receipts_def map_update_where row_simps)

lemma put_receipt_frame: "same_receipts st (put_receipt k e st)"
  by (simp add: same_receipts_def map_update_where put_receipt_def row_simps)

lemma completeReceipt_frame: "same_receipts st (snd (completeReceipt args st))"
  by (metis completeReceipt_puts put_receipt_frame same_receipts_refl)

lemma completeIntent_frame: "same_receipts st (snd (completeIntent t w oc st))"
  by (simp add: completeIntent_def Let_def same_receipts_def split: option.split)

lemma reclaimExpiredLeases_frame: "same_receipts st (snd (reclaimExpiredLeases now st))"
  by (simp add: same_receipts_def map_update_where reclaimExpiredLeases_def row_simps)

lemma releaseAllForWorker_frame: "same_receipts st (snd (releaseAllForWorker w now st))"
  by (simp add: same_receipts_def map_update_where releaseAllForWorker_def Let_def row_simps)

lemmas lease_ops_frame =
  claimNextReceipt_frame claimSpecificReceipt_frame claimNextIntent_frame extendLease_frame
  releaseLease_frame completeReceipt_frame completeIntent_frame reclaimExpiredLeases_frame
  releaseAllForWorker_frame

lemma identity_selectors:
  "rc_receiptId (receipt_identity r) = rc_receiptId r"
  "scope_of (receipt_identity r) = scope_of r"
  "rc_idempotencyKey (receipt_identity r) = rc_idempotencyKey r"
  "rc_payloadDigest (receipt_identity r) = rc_payloadDigest r"
  "rc_firstSeenAt (receipt_identity r) = rc_firstSeenAt r"
  by (simp_all add: receipt_identity_def scope_of_def)

lemma identity_fields:
  assumes "receipt_identity r = receipt_identity s"
  shows "rc_receiptId r = rc_receiptId s" and "scope_of r = scope_of s"
    and "rc_idempotencyKey r = rc_idempotencyKey s" and "rc_payloadDigest r = rc_payloadDigest s"
    and "rc_firstSeenAt r = rc_firstSeenAt s"
  using arg_cong [OF assms, of rc_receiptId] arg_cong [OF assms, of scope_of]
    arg_cong [OF assms, of rc_idempotencyKey] arg_cong [OF assms, of rc_payloadDigest]
    arg_cong [OF assms, of rc_firstSeenAt]
  by (simp_all only: identity_selectors)

lemma same_receipts_map:
  assumes "same_receipts st st'"
    and "\<And>r s. receipt_identity r = receipt_identity s \<Longrightarrow> g r = g s"
  shows "map g (receipts st') = map g (receipts st)"
proof (rule map_eq_factor)
  show "map receipt_identity (receipts st') = map receipt_identity (receipts st)"
    using assms(1) by (simp add: same_receipts_def)
qed (rule assms(2))

section \<open>Completing a held receipt\<close>

text \<open>The receipt with an id.\<close>

definition receipt_at :: "string \<Rightarrow> store \<Rightarrow> receipt option" where
  "receipt_at k st = find (\<lambda>r. rc_receiptId r = k) (receipts st)"

lemma receipt_at_SomeD: "receipt_at k st = Some r \<Longrightarrow> r \<in> set (receipts st) \<and> rc_receiptId r = k"
  unfolding receipt_at_def by (rule find_SomeD)

lemma receipt_at_mem:
  "store_ok issued st \<Longrightarrow> r \<in> set (receipts st) \<Longrightarrow> receipt_at (rc_receiptId r) st = Some r"
  unfolding receipt_at_def
  by (rule find_unique_key [OF receipt_lease.ok_distinct [OF store_okD(1)]])

lemma receipt_at_update:
  assumes "\<And>r. rc_receiptId (f r) = rc_receiptId r"
  shows "receipt_at k (st\<lparr>receipts := update_where p f (receipts st)\<rparr>) =
         map_option (\<lambda>r. if p r then f r else r) (receipt_at k st)"
  using assms by (simp add: receipt_at_def find_key_update_where)

lemma receipt_at_put:
  "receipt_at k (put_receipt k' e st) =
     map_option (\<lambda>r. if k = k' then end_receipt e r else r) (receipt_at k st)"
  unfolding put_receipt_def
  by (subst receipt_at_update) (auto simp: receipt_at_SomeD intro!: option.map_cong)

lemma receipt_at_put_same [simp]:
  "receipt_at k (put_receipt k e st) = map_option (end_receipt e) (receipt_at k st)"
  by (simp add: receipt_at_put)

lemma held_find:
  assumes "store_ok issued st" and "r \<in> set (receipts st)" and "held_receipt t w r"
  shows "find (held_receipt t w) (receipts st) = Some r"
proof (cases "find (held_receipt t w) (receipts st)")
  case None
  then show ?thesis using assms(2,3) by (auto simp: find_None_iff)
next
  case (Some x)
  then have "x \<in> set (receipts st)" "held_receipt t w x" using find_SomeD by fast+
  then have "x = r"
    using receipt_lease.token_unique [OF store_okD(1) [OF assms(1)], of x r t] assms
    by (auto simp: held_receipt_def)
  then show ?thesis using Some by simp
qed

lemma completeReceipt_held:
  assumes "store_ok issued st" and "r \<in> set (receipts st)"
    and "held_receipt (co_fencingToken args) (co_leaseOwner args) r"
  shows "completeReceipt args st = completeReceipt_write args r st"
  using held_find [OF assms] by (simp add: completeReceipt_def completeReceipt_read_def)

text \<open>The outcome of a completion, as a table.\<close>

definition completion_error :: "complete_args \<Rightarrow> store_error" where
  "completion_error args =
     nullish (co_error args) (storeError ''TRANSACTION_FAILED'' (Some False) None)"

definition reschedules :: "complete_args \<Rightarrow> receipt \<Rightarrow> retry_policy \<Rightarrow> bool" where
  "reschedules args row p \<longleftrightarrow>
     co_outcome args = RETRY \<and> co_retryPolicy args = Some p \<and>
     isRetryable (completion_error args) \<and> rc_attempts row < maxAttempts p"

lemma completeReceipt_write_success:
  "co_outcome args = SUCCESS \<Longrightarrow> completeReceipt_write args row st =
     (\<lparr>cs_state = C_DELIVERED, cs_nextAttemptAt = None, cs_fencedRejected = False\<rparr>,
      put_receipt (rc_receiptId row) (Receipt_Delivered (co_now args)) st)"
  by (simp add: completeReceipt_write_def)

lemma completeReceipt_write_retry:
  assumes "reschedules args row p"
  shows "completeReceipt_write args row st =
     (let n = computeNextAttemptAt p (rc_attempts row) (co_random args) (co_backoffNow args)
      in (\<lparr>cs_state = C_RETRY_SCHEDULED, cs_nextAttemptAt = Some n, cs_fencedRejected = False\<rparr>,
          put_receipt (rc_receiptId row) (Receipt_Retry n (se_code (completion_error args))) st))"
  using assms
  by (simp add: completeReceipt_write_def reschedules_def completion_decision_def
      decideRetryState_def completion_error_def Let_def)

lemma completeReceipt_write_dead:
  assumes "co_outcome args \<noteq> SUCCESS" and "\<And>p. \<not> reschedules args row p"
  shows "completeReceipt_write args row st =
     (\<lparr>cs_state = C_DEAD_LETTERED, cs_nextAttemptAt = None, cs_fencedRejected = False\<rparr>,
      put_receipt (rc_receiptId row)
        (Receipt_Dead (co_now args) (se_code (completion_error args))) st)"
proof -
  have "\<not> reschedules args row p" if "co_retryPolicy args = Some p" for p by (rule assms(2))
  then have "completion_decision args row (completion_error args) = T_DEAD_LETTERED"
    by (auto simp: completion_decision_def decideRetryState_def reschedules_def Let_def not_less
        split: outcome.split option.split)
  then show ?thesis
    using assms(1) by (simp add: completeReceipt_write_def completion_error_def Let_def)
qed

end
