(* ===== verification/Event_Receipt.thy ===== *)
theory Event_Receipt
  imports Lease_Facts
begin

text \<open>
  Receipts and their intents, \<open>packages/integration-store/src/repos/event-receipt.ts\<close>:
  the atomic commit of a receipt with its dispatch intents, the reads, the dead-letter
  queue and its redrive.

  \<open>commitReceiptWithIntents\<close> reads the table once and later inserts with
  \<open>ON CONFLICT DO NOTHING\<close>; other transactions may commit in between, so it takes the
  store of its first read and the store of its insert apart. In a serial run they are the
  same. A thrown error rolls the transaction back: no new store is returned.
  The order of the database's collation on ids is the argument \<open>lt\<close>.
\<close>

section \<open>Inputs\<close>

record event_receipt_input =
  er_organizationId :: string
  er_payloadDigest :: string
  er_duplicateKind :: string
  er_resolvedAt :: "int option"
  er_reasonCode :: "string option"

record intent_input =
  ii_intentId :: string
  ii_schemaVersion :: string
  ii_organizationId :: string
  ii_correlationId :: string
  ii_sourceCommandId :: string
  ii_dedupeKey :: string
  ii_destination :: json
  ii_template :: json
  ii_policy :: json
  ii_channel :: json

record commit_payload =
  cp_schemaVersion :: string
  cp_receipt :: event_receipt_input
  cp_intents :: "intent_input list"
  cp_correlationId :: "string option"
  cp_commandRefsJson :: "json option"

record txn_result =
  tr_receiptId :: string
  tr_intentIds :: "string list"
  tr_receiptRowVersion :: int
  tr_created :: bool

fun asDuplicateKindEnum :: "string \<Rightarrow> store_error + duplicate_kind" where
  "asDuplicateKindEnum k =
     (if k = ''DEDUPE'' then Inr DEDUPE
      else if k = ''OUT_OF_ORDER'' then Inr OUT_OF_ORDER
      else if k = ''CORRECTION'' then Inr CORRECTION
      else if k = ''GAP'' then Inr GAP
      else if k = ''UNKNOWN'' then Inr DUP_UNKNOWN
      else Inl (storeError ''VALIDATION_ERROR'' None (Some ''duplicateKind'')))"

definition newReceiptId :: "string \<Rightarrow> string \<Rightarrow> string" where
  "newReceiptId organizationId eventId =
     ''rcpt-'' @ take 8 organizationId @ ''-'' @ take 16 eventId"

definition buildPersistedIntent :: "int \<Rightarrow> string \<Rightarrow> intent_input \<Rightarrow> dispatch_intent" where
  "buildPersistedIntent now receiptId it =
     \<lparr>di_intentId = ii_intentId it, di_schemaVersion = ii_schemaVersion it,
      di_organizationId = ii_organizationId it, di_receiptId = receiptId,
      di_idempotencyKey = Some (ii_dedupeKey it), di_correlationId = Some (ii_correlationId it),
      di_intentSource = ii_sourceCommandId it,
      di_intentTargetJson =
        JObj [(''destination'', ii_destination it), (''template'', ii_template it),
              (''policy'', ii_policy it), (''channel'', ii_channel it)],
      di_status = I_PENDING, di_attempts = 0, di_leaseOwner = None, di_leaseExpiresAt = None,
      di_fencingToken = None, di_leaseFencedAt = None, di_createdAt = now\<rparr>"

section \<open>Atomic commit\<close>

text \<open>
  The loop over the intents. \<open>create\<close> fails on an intent id that is already in the table
  (the primary key), which aborts the transaction.
\<close>

fun create_intents ::
  "int \<Rightarrow> string \<Rightarrow> intent_input list \<Rightarrow> dispatch_intent list \<Rightarrow> failure + dispatch_intent list" where
  "create_intents now receiptId [] tab = Inr tab"
| "create_intents now receiptId (it # its) tab =
     (if ii_intentId it \<in> di_intentId ` set tab then Inl Unique_Violation
      else create_intents now receiptId its (tab @ [buildPersistedIntent now receiptId it]))"

definition scope_missing :: "receipt_scope \<Rightarrow> bool" where
  "scope_missing sc \<longleftrightarrow>
     sc_organizationId sc = [] \<or> sc_provider sc = [] \<or> sc_connectionId sc = [] \<or> sc_eventId sc = []"

text \<open>The answer for a receipt that is already there: dedupe, or a digest conflict.\<close>

definition existing_receipt :: "string \<Rightarrow> string \<Rightarrow> receipt \<Rightarrow> store \<Rightarrow> failure + txn_result \<times> store" where
  "existing_receipt organizationId digest row st =
     (if rc_payloadDigest row \<noteq> digest then
        Inl (Thrown (storeError ''VALIDATION_ERROR'' None (Some ''payloadDigest'')))
      else
        Inr (\<lparr>tr_receiptId = rc_receiptId row,
              tr_intentIds = map di_intentId
                (filter (\<lambda>i. di_receiptId i = rc_receiptId row \<and>
                             di_organizationId i = organizationId) (intents st)),
              tr_receiptRowVersion = rc_attempts row, tr_created = False\<rparr>, st))"

definition new_receipt ::
  "int \<Rightarrow> receipt_scope \<Rightarrow> commit_payload \<Rightarrow> duplicate_kind \<Rightarrow> receipt" where
  "new_receipt now sc p dk =
     \<lparr>rc_receiptId = newReceiptId (sc_organizationId sc) (sc_eventId sc),
      rc_schemaVersion = cp_schemaVersion p,
      rc_organizationId = sc_organizationId sc, rc_provider = sc_provider sc,
      rc_connectionId = sc_connectionId sc, rc_eventId = sc_eventId sc,
      rc_payloadDigest = er_payloadDigest (cp_receipt p),
      rc_state = R_PENDING, rc_duplicateKind = dk, rc_attempts = 0,
      rc_leaseOwner = None, rc_leaseExpiresAt = None, rc_fencingToken = None,
      rc_leaseFencedAt = None,
      rc_correlationId = (if truthy (cp_correlationId p) then cp_correlationId p else None),
      rc_commandRefsJson = cp_commandRefsJson p, rc_idempotencyKey = None,
      rc_firstSeenAt = now, rc_nextAttemptAt = None,
      rc_resolvedAt = er_resolvedAt (cp_receipt p),
      rc_reasonCode =
        (if truthy (er_reasonCode (cp_receipt p)) then er_reasonCode (cp_receipt p) else None),
      rc_evidenceRefsJson = None\<rparr>"

text \<open>
  \<open>INSERT ... ON CONFLICT DO NOTHING\<close>: the insert is skipped when the row collides with any
  unique index of the table, the scope index or the primary key.
\<close>

definition insert_conflicts :: "receipt \<Rightarrow> store \<Rightarrow> bool" where
  "insert_conflicts r st \<longleftrightarrow>
     (\<exists>x \<in> set (receipts st). rc_receiptId x = rc_receiptId r \<or> scope_of x = scope_of r)"

definition commitReceiptWithIntents ::
  "int \<Rightarrow> receipt_scope \<Rightarrow> commit_payload \<Rightarrow> store \<Rightarrow> store \<Rightarrow> failure + txn_result \<times> store" where
  "commitReceiptWithIntents now sc p st_read st =
     (if scope_missing sc then Inl (Thrown (storeError ''SCOPE_MISMATCH'' None None))
      else if er_organizationId (cp_receipt p) \<noteq> sc_organizationId sc then
        Inl (Thrown (storeError ''SCOPE_MISMATCH'' None None))
      else if \<exists>it \<in> set (cp_intents p). ii_organizationId it \<noteq> sc_organizationId sc then
        Inl (Thrown (storeError ''SCOPE_MISMATCH'' None None))
      else case find (in_scope sc) (receipts st_read) of
        Some existing \<Rightarrow>
          existing_receipt (sc_organizationId sc) (er_payloadDigest (cp_receipt p)) existing st
      | None \<Rightarrow>
          (case asDuplicateKindEnum (er_duplicateKind (cp_receipt p)) of
             Inl e \<Rightarrow> Inl (Thrown e)
           | Inr dk \<Rightarrow>
               let r = new_receipt now sc p dk
               in if insert_conflicts r st then
                    (case find (in_scope sc) (receipts st) of
                       None \<Rightarrow> Inl (Thrown (storeError ''TRANSACTION_FAILED'' (Some True) None))
                     | Some raced \<Rightarrow>
                         existing_receipt (sc_organizationId sc)
                           (er_payloadDigest (cp_receipt p)) raced st)
                  else
                    (case create_intents now (rc_receiptId r) (cp_intents p) (intents st) of
                       Inl f \<Rightarrow> Inl f
                     | Inr tab \<Rightarrow>
                         Inr (\<lparr>tr_receiptId = rc_receiptId r,
                               tr_intentIds = map ii_intentId (cp_intents p),
                               tr_receiptRowVersion = 0, tr_created = True\<rparr>,
                              st\<lparr>receipts := receipts st @ [r], intents := tab\<rparr>))))"

section \<open>Reads\<close>

record receipt_dto =
  rd_schemaVersion :: string
  rd_organizationId :: string
  rd_eventId :: string
  rd_payloadDigest :: string
  rd_duplicateKind :: duplicate_kind
  rd_resolvedAt :: "int option"
  rd_reasonCode :: "string option"

text \<open>\<open>eventReceiptRowToContract\<close>, with the event id its callers put over the placeholder.\<close>

definition eventReceiptRowToContract :: "string \<Rightarrow> receipt \<Rightarrow> receipt_dto" where
  "eventReceiptRowToContract eventId row =
     \<lparr>rd_schemaVersion = rc_schemaVersion row, rd_organizationId = rc_organizationId row,
      rd_eventId = eventId, rd_payloadDigest = rc_payloadDigest row,
      rd_duplicateKind = rc_duplicateKind row, rd_resolvedAt = rc_resolvedAt row,
      rd_reasonCode = (if truthy (rc_reasonCode row) then rc_reasonCode row else None)\<rparr>"

definition findReceipt :: "receipt_scope \<Rightarrow> store \<Rightarrow> store_error + receipt_dto option" where
  "findReceipt sc st =
     (if scope_missing sc then Inl (storeError ''SCOPE_MISMATCH'' None None)
      else Inr (map_option (eventReceiptRowToContract (sc_eventId sc))
                  (find (in_scope sc) (receipts st))))"

definition listReceiptsByOrg ::
  "string \<Rightarrow> receipt_state option \<Rightarrow> nat option \<Rightarrow> store \<Rightarrow> store_error + receipt_dto list" where
  "listReceiptsByOrg organizationId state limit st =
     (if organizationId = [] then Inl (storeError ''TENANT_SCOPE_REQUIRED'' None None)
      else Inr (map (\<lambda>r. eventReceiptRowToContract (rc_eventId r) r)
                 (take (min (nullish limit 50) 100)
                   (order_desc rc_firstSeenAt
                     (filter (\<lambda>r. rc_organizationId r = organizationId \<and>
                                  null_or (\<lambda>s. rc_state r = s) state) (receipts st))))))"

section \<open>The dead-letter queue\<close>

record dead_letter =
  dl_receiptId :: string
  dl_organizationId :: string
  dl_provider :: string
  dl_connectionId :: string
  dl_eventId :: string
  dl_reasonCode :: "string option"
  dl_attempts :: int
  dl_firstSeenAt :: int
  dl_resolvedAt :: "int option"
  dl_payloadDigest :: string
  dl_idempotencyKey :: "string option"
  dl_correlationId :: "string option"
  dl_redriveCount :: int
  dl_lastRedrivenAt :: "int option"
  dl_lastRedriveActor :: "string option"

record list_dead_letter_opts =
  lo_reasonCode :: "string option"
  lo_fromDate :: "int option"
  lo_toDate :: "int option"
  lo_limit :: "nat option"
  lo_cursor :: "string option"

definition audit_of :: "receipt \<Rightarrow> dlq_audit option" where
  "audit_of r = Option.bind (rc_evidenceRefsJson r) ev_dlqAudit"

definition dead_letter_of :: "receipt \<Rightarrow> dead_letter" where
  "dead_letter_of r =
     \<lparr>dl_receiptId = rc_receiptId r, dl_organizationId = rc_organizationId r,
      dl_provider = rc_provider r, dl_connectionId = rc_connectionId r, dl_eventId = rc_eventId r,
      dl_reasonCode = rc_reasonCode r, dl_attempts = rc_attempts r,
      dl_firstSeenAt = rc_firstSeenAt r, dl_resolvedAt = rc_resolvedAt r,
      dl_payloadDigest = rc_payloadDigest r, dl_idempotencyKey = rc_idempotencyKey r,
      dl_correlationId = rc_correlationId r,
      dl_redriveCount = (case audit_of r of None \<Rightarrow> 0 | Some a \<Rightarrow> da_redriveCount a),
      dl_lastRedrivenAt = map_option da_lastRedrivenAt (audit_of r),
      dl_lastRedriveActor = map_option da_lastRedriveActor (audit_of r)\<rparr>"

definition dead_letter_where ::
  "(string \<Rightarrow> string \<Rightarrow> bool) \<Rightarrow> string \<Rightarrow> list_dead_letter_opts \<Rightarrow> receipt \<Rightarrow> bool" where
  "dead_letter_where lt organizationId opts r \<longleftrightarrow>
     rc_organizationId r = organizationId \<and> rc_state r = R_DEAD_LETTERED \<and>
     (truthy (lo_reasonCode opts) \<longrightarrow> rc_reasonCode r = lo_reasonCode opts) \<and>
     null_or (\<lambda>d. not_null_and (\<lambda>t. d \<le> t) (rc_resolvedAt r)) (lo_fromDate opts) \<and>
     null_or (\<lambda>d. not_null_and (\<lambda>t. t \<le> d) (rc_resolvedAt r)) (lo_toDate opts) \<and>
     (truthy (lo_cursor opts) \<longrightarrow> not_null_and (lt (rc_receiptId r)) (lo_cursor opts))"

text \<open>\<open>ORDER BY resolvedAt DESC\<close>, where PostgreSQL puts NULL first.\<close>

definition newest_resolved :: "receipt list \<Rightarrow> receipt list" where
  "newest_resolved rows =
     filter (\<lambda>r. rc_resolvedAt r = None) rows @
     order_desc (\<lambda>r. nullish (rc_resolvedAt r) 0) (filter (\<lambda>r. rc_resolvedAt r \<noteq> None) rows)"

definition listDeadLetteredReceipts ::
  "(string \<Rightarrow> string \<Rightarrow> bool) \<Rightarrow> string \<Rightarrow> list_dead_letter_opts \<Rightarrow> store \<Rightarrow>
   store_error + dead_letter list \<times> string option" where
  "listDeadLetteredReceipts lt organizationId opts st =
     (if organizationId = [] then Inl (storeError ''TENANT_SCOPE_REQUIRED'' None None)
      else
        let limit = min (nullish (lo_limit opts) 50) 100;
            rows = take (limit + 1)
                     (newest_resolved (filter (dead_letter_where lt organizationId opts) (receipts st)));
            hasNextPage = (length rows > limit)
        in Inr (map dead_letter_of (take limit rows),
                if hasNextPage \<and> limit \<noteq> 0 then Some (rc_receiptId (rows ! (limit - 1))) else None))"

record dlq_stats =
  ds_totalDeadLettered :: nat
  ds_byReasonCode :: "string \<Rightarrow> nat"
  ds_avgAttempts :: int
  ds_oldestResolvedAt :: "int option"

text \<open>The three accumulators of the loop of \<open>getDlqStats\<close>.\<close>

fun dlq_fold ::
  "receipt list \<Rightarrow> (string \<Rightarrow> nat) \<times> int \<times> int option \<Rightarrow> (string \<Rightarrow> nat) \<times> int \<times> int option" where
  "dlq_fold [] acc = acc"
| "dlq_fold (row # rows) (byCode, totalAttempts, oldest) =
     (let code = nullish (rc_reasonCode row) ''UNKNOWN''
      in dlq_fold rows
           (byCode(code := byCode code + 1), totalAttempts + rc_attempts row,
            (case rc_resolvedAt row of
               None \<Rightarrow> oldest
             | Some t \<Rightarrow> if null_or (\<lambda>old. t < old) oldest then Some t else oldest)))"

definition getDlqStats :: "string \<Rightarrow> store \<Rightarrow> store_error + dlq_stats" where
  "getDlqStats organizationId st =
     (if organizationId = [] then Inl (storeError ''TENANT_SCOPE_REQUIRED'' None None)
      else
        let rows = filter (\<lambda>r. rc_organizationId r = organizationId \<and> rc_state r = R_DEAD_LETTERED)
                     (receipts st);
            (byCode, totalAttempts, oldest) = dlq_fold rows (\<lambda>_. 0, 0, None)
        in Inr \<lparr>ds_totalDeadLettered = length rows, ds_byReasonCode = byCode,
                ds_avgAttempts =
                  (if rows \<noteq> [] then js_round (of_int totalAttempts / of_nat (length rows)) else 0),
                ds_oldestResolvedAt = oldest\<rparr>)"

section \<open>Redrive\<close>

datatype redrive_error =
  NOT_FOUND | INVALID_STATE | DNC_GUARD_BLOCKED | MAX_ATTEMPTS_EXCEEDED | FORBIDDEN_PATCH_FIELD
| REDRIVE_SCOPE_MISMATCH

record redrive_actor =
  act_kind :: string
  act_userId :: "string option"
  act_serviceId :: "string option"

record dnc_query =
  dq_organizationId :: string
  dq_provider :: string
  dq_connectionId :: string
  dq_recipientRef :: string

text \<open>
  \<open>ro_dncCheck\<close> answers whether the recipient is blocked, \<open>ro_validateForbiddenPatch\<close>
  whether the evidence is free of forbidden fields; both are supplied by the caller.
\<close>

record redrive_opts =
  ro_reason :: "string option"
  ro_dncCheck :: "(dnc_query \<Rightarrow> bool) option"
  ro_maxAttempts :: "int option"
  ro_validateForbiddenPatch :: "(evidence \<Rightarrow> bool) option"

record redrive_result =
  rr_receiptId :: string
  rr_attempts :: int
  rr_nextAttemptAt :: int
  rr_redriveCount :: int
  rr_redrivenAt :: int
  rr_redriveActor :: string

definition recipientRef :: "receipt \<Rightarrow> string" where
  "recipientRef r =
     nullish (nullish_opt (rc_idempotencyKey r) (rc_correlationId r)) (''unknown-'' @ rc_eventId r)"

definition dnc_query_of :: "receipt \<Rightarrow> dnc_query" where
  "dnc_query_of r =
     \<lparr>dq_organizationId = rc_organizationId r, dq_provider = rc_provider r,
      dq_connectionId = rc_connectionId r, dq_recipientRef = recipientRef r\<rparr>"

definition redrive_actor_id :: "redrive_actor \<Rightarrow> string" where
  "redrive_actor_id a = nullish (nullish_opt (act_serviceId a) (act_userId a)) (act_kind a)"

definition redrive_audit :: "int \<Rightarrow> string \<Rightarrow> string option \<Rightarrow> receipt \<Rightarrow> dlq_audit" where
  "redrive_audit now actorId reason r =
     \<lparr>da_redriveCount = (case audit_of r of None \<Rightarrow> 0 | Some a \<Rightarrow> da_redriveCount a) + 1,
      da_lastRedrivenAt = now, da_lastRedriveActor = actorId, da_lastRedriveReason = reason\<rparr>"

definition redriven :: "int \<Rightarrow> dlq_audit \<Rightarrow> receipt \<Rightarrow> receipt" where
  "redriven now audit r =
     r\<lparr>rc_state := R_PENDING, rc_attempts := 0, rc_resolvedAt := None, rc_reasonCode := None,
       rc_leaseOwner := None, rc_leaseExpiresAt := None, rc_fencingToken := None,
       rc_leaseFencedAt := None, rc_nextAttemptAt := Some now,
       rc_evidenceRefsJson :=
         Some \<lparr>ev_members = (case rc_evidenceRefsJson r of None \<Rightarrow> [] | Some ev \<Rightarrow> ev_members ev),
               ev_dlqAudit = Some audit\<rparr>\<rparr>"

definition redriveReceipt ::
  "string \<Rightarrow> redrive_actor \<Rightarrow> int \<Rightarrow> redrive_opts \<Rightarrow> store \<Rightarrow> (redrive_error + redrive_result) \<times> store" where
  "redriveReceipt receiptId actor now opts st =
     (case find (\<lambda>r. rc_receiptId r = receiptId) (receipts st) of
        None \<Rightarrow> (Inl NOT_FOUND, st)
      | Some row \<Rightarrow>
          if rc_state row \<noteq> R_DEAD_LETTERED then (Inl INVALID_STATE, st)
          else if rc_attempts row \<ge> nullish (ro_maxAttempts opts) 5 then
            (Inl MAX_ATTEMPTS_EXCEEDED, st)
          else if not_null_and (\<lambda>check. check (dnc_query_of row)) (ro_dncCheck opts) then
            (Inl DNC_GUARD_BLOCKED, st)
          else if not_null_and (\<lambda>valid. not_null_and (\<lambda>ev. \<not> valid ev) (rc_evidenceRefsJson row))
                    (ro_validateForbiddenPatch opts) then
            (Inl FORBIDDEN_PATCH_FIELD, st)
          else
            let actorId = redrive_actor_id actor;
                audit = redrive_audit now actorId (ro_reason opts) row
            in (Inr \<lparr>rr_receiptId = receiptId, rr_attempts = 0, rr_nextAttemptAt = now,
                     rr_redriveCount = da_redriveCount audit, rr_redrivenAt = now,
                     rr_redriveActor = actorId\<rparr>,
                st\<lparr>receipts := update_where (\<lambda>r. rc_receiptId r = receiptId) (redriven now audit)
                     (receipts st)\<rparr>))"

end
