(* ===== verification/Event_Receipt_Facts.thy ===== *)
theory Event_Receipt_Facts
  imports Event_Receipt
begin

text \<open>
  Facts about commits, the dead-letter queue and redrive: what a commit adds, that it keeps
  the lease invariant and the unique indices, that it is idempotent, and when a redrive
  succeeds.
\<close>

section \<open>Commit\<close>

text \<open>The unique index on the scope, and intents that belong to a stored receipt.\<close>

definition scopes_ok :: "store \<Rightarrow> bool" where
  "scopes_ok st \<longleftrightarrow> distinct (map scope_of (receipts st))"

definition intents_owned :: "store \<Rightarrow> bool" where
  "intents_owned st \<longleftrightarrow> di_receiptId ` set (intents st) \<subseteq> rc_receiptId ` set (receipts st)"

lemma find_scope:
  "scopes_ok st \<Longrightarrow> r \<in> set (receipts st) \<Longrightarrow> find (in_scope (scope_of r)) (receipts st) = Some r"
  unfolding find_in_scope scopes_ok_def by (rule find_unique_key)

lemma create_intents_result:
  "create_intents now k its tab = Inr tab' \<Longrightarrow>
     tab' = tab @ map (buildPersistedIntent now k) its \<and>
     distinct (map ii_intentId its) \<and> ii_intentId ` set its \<inter> di_intentId ` set tab = {}"
proof (induction its arbitrary: tab)
  case Nil
  then show ?case by simp
next
  case (Cons it its)
  from Cons.prems have new: "ii_intentId it \<notin> di_intentId ` set tab"
    and rest: "create_intents now k its (tab @ [buildPersistedIntent now k it]) = Inr tab'"
    by (auto split: if_splits)
  have "di_intentId (buildPersistedIntent now k it) = ii_intentId it"
    by (simp add: buildPersistedIntent_def)
  then show ?case using Cons.IH [OF rest] new by auto
qed

lemma create_intents_ok:
  "create_intents now k its tab = Inr tab' \<Longrightarrow> intent_lease.ok issued tab \<Longrightarrow> intent_lease.ok issued tab'"
proof (induction its arbitrary: tab)
  case Nil
  then show ?case by simp
next
  case (Cons it its)
  have "intent_lease.ok issued (tab @ [buildPersistedIntent now k it])"
    using Cons.prems
    by (intro intent_lease.ok_insert) (auto simp: buildPersistedIntent_def split: if_splits)
  then show ?case using Cons.prems(1) by (auto split: if_splits intro: Cons.IH)
qed

lemma new_receipt_fields [simp]:
  "rc_receiptId (new_receipt now sc p dk) = newReceiptId (sc_organizationId sc) (sc_eventId sc)"
  "scope_of (new_receipt now sc p dk) = sc"
  "rc_fencingToken (new_receipt now sc p dk) = None"
  "rc_state (new_receipt now sc p dk) = R_PENDING"
  "rc_attempts (new_receipt now sc p dk) = 0"
  "rc_payloadDigest (new_receipt now sc p dk) = er_payloadDigest (cp_receipt p)"
  "rc_idempotencyKey (new_receipt now sc p dk) = None"
  "rc_nextAttemptAt (new_receipt now sc p dk) = None"
  by (simp_all add: new_receipt_def scope_of_def)

text \<open>A commit that returns either found the receipt, or added it with all its intents.\<close>

lemma commit_cases:
  assumes "commitReceiptWithIntents now sc p st_read st = Inr (res, st')"
  obtains (existing) row where "row \<in> set (receipts st) \<union> set (receipts st_read)" "scope_of row = sc"
      "rc_payloadDigest row = er_payloadDigest (cp_receipt p)" "\<not> tr_created res"
      "tr_receiptId res = rc_receiptId row" "tr_receiptRowVersion res = rc_attempts row" "st' = st"
      "tr_intentIds res = map di_intentId (filter (\<lambda>i. di_receiptId i = rc_receiptId row \<and>
         di_organizationId i = sc_organizationId sc) (intents st))"
  | (created) dk where "tr_created res" "tr_receiptId res = newReceiptId (sc_organizationId sc) (sc_eventId sc)"
      "tr_intentIds res = map ii_intentId (cp_intents p)" "tr_receiptRowVersion res = 0"
      "\<not> insert_conflicts (new_receipt now sc p dk) st"
      "create_intents now (tr_receiptId res) (cp_intents p) (intents st) = Inr (intents st')"
      "st' = st\<lparr>receipts := receipts st @ [new_receipt now sc p dk],
               intents := intents st'\<rparr>"
      "find (in_scope sc) (receipts st_read) = None"
proof -
  have found: thesis
    if "row \<in> set (receipts st) \<union> set (receipts st_read)" "scope_of row = sc"
      "existing_receipt (sc_organizationId sc) (er_payloadDigest (cp_receipt p)) row st = Inr (res, st')" for row
    using that by (intro existing [of row]) (auto simp: existing_receipt_def split: if_splits)
  have guards: "\<not> scope_missing sc" "er_organizationId (cp_receipt p) = sc_organizationId sc"
      "\<not> (\<exists>it \<in> set (cp_intents p). ii_organizationId it \<noteq> sc_organizationId sc)"
    using assms by (auto simp: commitReceiptWithIntents_def split: if_splits)
  show thesis
  proof (cases "find (in_scope sc) (receipts st_read)")
    case (Some row)
    then have "row \<in> set (receipts st_read)" "scope_of row = sc"
      using find_SomeD [OF Some] by (auto simp: in_scope_iff)
    moreover have "existing_receipt (sc_organizationId sc) (er_payloadDigest (cp_receipt p)) row st = Inr (res, st')"
      using assms guards Some by (simp add: commitReceiptWithIntents_def)
    ultimately show thesis by (intro found) auto
  next
    case None
    then obtain dk where dk: "asDuplicateKindEnum (er_duplicateKind (cp_receipt p)) = Inr dk"
      using assms guards by (simp add: commitReceiptWithIntents_def split: sum.splits)
    let ?r = "new_receipt now sc p dk"
    show thesis
    proof (cases "insert_conflicts ?r st")
      case True
      then obtain raced where raced: "find (in_scope sc) (receipts st) = Some raced"
        and ex: "existing_receipt (sc_organizationId sc) (er_payloadDigest (cp_receipt p)) raced st = Inr (res, st')"
        using assms guards None dk
        by (simp add: commitReceiptWithIntents_def Let_def split: option.splits)
      have "raced \<in> set (receipts st)" "scope_of raced = sc"
        using find_SomeD [OF raced] by (auto simp: in_scope_iff)
      then show thesis using ex by (intro found) auto
    next
      case False
      then show thesis
        using assms guards None dk
        by (intro created [of dk])
           (auto simp: commitReceiptWithIntents_def Let_def simp del: asDuplicateKindEnum.simps
             split: sum.splits)
    qed
  qed
qed

lemma commit_ok:
  assumes c: "commitReceiptWithIntents now sc p st_read st = Inr (res, st')" and "store_ok issued st"
  shows "store_ok issued st'"
  using c
proof (cases rule: commit_cases)
  case existing
  then show ?thesis using assms(2) by simp
next
  case (created dk)
  have "receipt_lease.ok issued (receipts st @ [new_receipt now sc p dk])"
    using created(5) store_okD(1) [OF assms(2)]
    by (intro receipt_lease.ok_insert) (auto simp: insert_conflicts_def)
  moreover have "intent_lease.ok issued (intents st')"
    by (rule create_intents_ok [OF created(6) store_okD(2) [OF assms(2)]])
  moreover have "receipts st' = receipts st @ [new_receipt now sc p dk]"
    using arg_cong [OF created(7), of receipts] by simp
  ultimately show ?thesis by (simp add: store_ok_def)
qed

lemma commit_scopes:
  assumes c: "commitReceiptWithIntents now sc p st_read st = Inr (res, st')" and "scopes_ok st"
  shows "scopes_ok st'"
  using c
proof (cases rule: commit_cases)
  case existing
  then show ?thesis using assms(2) by simp
next
  case (created dk)
  have "receipts st' = receipts st @ [new_receipt now sc p dk]"
    using arg_cong [OF created(7), of receipts] by simp
  then show ?thesis using created(5) assms(2) by (auto simp: scopes_ok_def insert_conflicts_def)
qed

lemma commit_owned:
  assumes c: "commitReceiptWithIntents now sc p st_read st = Inr (res, st')" and "intents_owned st"
  shows "intents_owned st'"
  using c
proof (cases rule: commit_cases)
  case existing
  then show ?thesis using assms(2) by simp
next
  case (created dk)
  have "receipts st' = receipts st @ [new_receipt now sc p dk]"
    using arg_cong [OF created(7), of receipts] by simp
  moreover have "di_receiptId (buildPersistedIntent now k it) = k" for k it
    by (simp add: buildPersistedIntent_def)
  ultimately show ?thesis
    using create_intents_result [OF created(6)] created(2) assms(2) by (auto simp: intents_owned_def)
qed

lemma commit_lost:
  assumes c: "commitReceiptWithIntents now sc p st_read st = Inr (res, st')" and "token_lost t st"
  shows "token_lost t st'"
  using c
proof (cases rule: commit_cases)
  case existing
  then show ?thesis using assms(2) by simp
next
  case (created dk)
  have "receipts st' = receipts st @ [new_receipt now sc p dk]"
    using arg_cong [OF created(7), of receipts] by simp
  moreover have "di_fencingToken (buildPersistedIntent now k it) = None" for k it
    by (simp add: buildPersistedIntent_def)
  ultimately show ?thesis
    using create_intents_result [OF created(6)] assms(2)
    by (auto simp: token_lost_def lost_def)
qed

section \<open>Dead-letter statistics\<close>

lemma dlq_fold_counts:
  "fst (dlq_fold rows (f, n, d)) =
     (\<lambda>code. f code + count_where (\<lambda>r. nullish (rc_reasonCode r) ''UNKNOWN'' = code) rows)"
  by (induction rows arbitrary: f n d) (auto simp: Let_def fun_eq_iff)

lemma dlq_fold_attempts:
  "fst (snd (dlq_fold rows (f, n, d))) = n + sum_list (map rc_attempts rows)"
  by (induction rows arbitrary: f n d) (auto simp: Let_def)

lemma dlq_fold_oldest:
  "snd (snd (dlq_fold rows (f, n, d))) = Some t \<Longrightarrow>
     (\<forall>old. d = Some old \<longrightarrow> t \<le> old) \<and>
     (\<forall>r \<in> set rows. \<forall>u. rc_resolvedAt r = Some u \<longrightarrow> t \<le> u)"
proof (induction rows arbitrary: f n d)
  case Nil
  then show ?case by simp
next
  case (Cons r rows)
  let ?d = "case rc_resolvedAt r of None \<Rightarrow> d
            | Some t \<Rightarrow> if null_or (\<lambda>old. t < old) d then Some t else d"
  have "snd (snd (dlq_fold rows (f(nullish (rc_reasonCode r) ''UNKNOWN'' :=
          f (nullish (rc_reasonCode r) ''UNKNOWN'') + 1), n + rc_attempts r, ?d))) = Some t"
    using Cons.prems by (simp add: Let_def)
  from Cons.IH [OF this] show ?case
    by (cases d; cases "rc_resolvedAt r") (auto split: if_splits)
qed

section \<open>Redrive\<close>

lemma redriven_fields [simp]:
  "rc_receiptId (redriven now a r) = rc_receiptId r"
  "scope_of (redriven now a r) = scope_of r"
  "rc_state (redriven now a r) = R_PENDING"
  "rc_fencingToken (redriven now a r) = None"
  "rc_leaseExpiresAt (redriven now a r) = None"
  "rc_nextAttemptAt (redriven now a r) = Some now"
  "rc_attempts (redriven now a r) = 0"
  "rc_organizationId (redriven now a r) = rc_organizationId r"
  "rc_idempotencyKey (redriven now a r) = rc_idempotencyKey r"
  "rc_payloadDigest (redriven now a r) = rc_payloadDigest r"
  by (simp_all add: redriven_def scope_of_def)

text \<open>A redrive either changes nothing, or resets the one receipt.\<close>

lemma redrive_cases:
  obtains (refused) e where "redriveReceipt k actor now opts st = (Inl e, st)"
  | (reset) row res where "receipt_at k st = Some row" "rc_state row = R_DEAD_LETTERED"
      "rc_attempts row < nullish (ro_maxAttempts opts) 5"
      "\<not> not_null_and (\<lambda>check. check (dnc_query_of row)) (ro_dncCheck opts)"
      "redriveReceipt k actor now opts st = (Inr res,
         st\<lparr>receipts := update_where (\<lambda>r. rc_receiptId r = k)
              (redriven now (redrive_audit now (redrive_actor_id actor) (ro_reason opts) row))
              (receipts st)\<rparr>)"
      "rr_redriveCount res = (case audit_of row of None \<Rightarrow> 0 | Some a \<Rightarrow> da_redriveCount a) + 1"
proof (cases "receipt_at k st")
  case None
  then have "find (\<lambda>r. rc_receiptId r = k) (receipts st) = None" by (simp add: receipt_at_def)
  then show thesis by (intro refused [of NOT_FOUND]) (simp add: redriveReceipt_def)
next
  case (Some row)
  then have row: "find (\<lambda>r. rc_receiptId r = k) (receipts st) = Some row" by (simp add: receipt_at_def)
  show thesis
  proof (cases "fst (redriveReceipt k actor now opts st)")
    case (Inl e)
    then show thesis
      using row by (intro refused [of e]) (auto simp: redriveReceipt_def Let_def split: if_splits)
  next
    case (Inr res)
    then show thesis
      using row Some
      by (intro reset [of row res])
         (auto simp: redriveReceipt_def Let_def redrive_audit_def split: if_splits)
  qed
qed

lemma redrive_ok:
  assumes "store_ok issued st"
  shows "store_ok issued (snd (redriveReceipt k actor now opts st))"
proof (cases rule: redrive_cases [of k actor now opts st])
  case refused
  then show ?thesis using assms by simp
next
  case (reset row res)
  then show ?thesis
    using assms by (auto simp: store_ok_def intro!: receipt_lease.ok_unlease)
qed

lemma redrive_lost:
  assumes "token_lost t st"
  shows "token_lost t (snd (redriveReceipt k actor now opts st))"
proof (cases rule: redrive_cases [of k actor now opts st])
  case refused
  then show ?thesis using assms by simp
next
  case (reset row res)
  then show ?thesis
    using assms by (auto simp: token_lost_def intro!: receipt_lease.lost_unlease)
qed

lemma redrive_scopes:
  assumes "scopes_ok st"
  shows "scopes_ok (snd (redriveReceipt k actor now opts st))"
proof (cases rule: redrive_cases [of k actor now opts st])
  case refused
  then show ?thesis using assms by simp
next
  case (reset row res)
  then show ?thesis using assms by (simp add: scopes_ok_def map_update_where)
qed

lemma redrive_owned:
  assumes "intents_owned st"
  shows "intents_owned (snd (redriveReceipt k actor now opts st))"
proof (cases rule: redrive_cases [of k actor now opts st])
  case refused
  then show ?thesis using assms by simp
next
  case (reset row res)
  have "map rc_receiptId (receipts (snd (redriveReceipt k actor now opts st))) = map rc_receiptId (receipts st)"
    using reset by (simp add: map_update_where)
  then have "rc_receiptId ` set (receipts (snd (redriveReceipt k actor now opts st))) = rc_receiptId ` set (receipts st)"
    by (metis list.set_map)
  then show ?thesis using assms reset by (simp add: intents_owned_def)
qed

end
