(* ===== verification/Recovery.thy ===== *)
theory Recovery
  imports Lease_Facts "HOL-Library.Sublist"
begin

text \<open>
  Recovery actions, \<open>packages/integration-store/src/repos/reconciliation.ts\<close>: the durable
  audit row that makes the recovery of a stuck item idempotent, the scans for stuck items
  and their resets.

  \<open>newRecoveryId ()\<close> is an argument: the ids it returns during one call, in order. A call
  uses a further id only when it retries after an insert that collided on the id itself;
  \<^const>\<open>None\<close> is a call that has used up the ids it was given, so a claim that a call returns
  is a claim that its value is not \<^const>\<open>None\<close>.
\<close>

section \<open>Recovery actions\<close>

record create_recovery_args =
  cra_itemType :: recovery_item_type
  cra_itemId :: string
  cra_action :: recovery_action_kind
  cra_actor :: string
  cra_snapshot :: "snapshot option"

definition for_item :: "recovery_item_type \<Rightarrow> string \<Rightarrow> recovery_action \<Rightarrow> bool" where
  "for_item ty k a \<longleftrightarrow> ra_itemType a = ty \<and> ra_itemId a = k"

definition findRecoveryAction :: "recovery_item_type \<Rightarrow> string \<Rightarrow> store \<Rightarrow> recovery_action option" where
  "findRecoveryAction ty k st = find (for_item ty k) (recoveries st)"

definition new_recovery :: "string \<Rightarrow> int \<Rightarrow> create_recovery_args \<Rightarrow> recovery_action" where
  "new_recovery recoveryId now args =
     \<lparr>ra_recoveryId = recoveryId, ra_itemType = cra_itemType args, ra_itemId = cra_itemId args,
      ra_action = cra_action args, ra_actor = cra_actor args,
      ra_snapshotJson = cra_snapshot args, ra_status = RA_PENDING, ra_createdAt = now,
      ra_completedAt = None\<rparr>"

text \<open>The insert violates the primary key or \<open>uq_recovery_idem_key\<close>.\<close>

definition recovery_conflicts :: "recovery_action \<Rightarrow> store \<Rightarrow> bool" where
  "recovery_conflicts a st \<longleftrightarrow>
     (\<exists>x \<in> set (recoveries st). ra_recoveryId x = ra_recoveryId a \<or>
        for_item (ra_itemType a) (ra_itemId a) x)"

fun createRecoveryAction ::
  "string list \<Rightarrow> int \<Rightarrow> create_recovery_args \<Rightarrow> store \<Rightarrow>
   (store_error + (recovery_action \<times> bool) \<times> store) option" where
  "createRecoveryAction [] now args st = None"
| "createRecoveryAction (recoveryId # ids) now args st =
     (if cra_itemId args = [] then
        Some (Inl (storeError ''VALIDATION_ERROR'' None (Some ''itemId'')))
      else if cra_actor args = [] then
        Some (Inl (storeError ''VALIDATION_ERROR'' None (Some ''actor'')))
      else
        let a = new_recovery recoveryId now args
        in if recovery_conflicts a st then
             (case findRecoveryAction (cra_itemType args) (cra_itemId args) st of
                Some existing \<Rightarrow> Some (Inr ((existing, False), st))
              | None \<Rightarrow>
                  createRecoveryAction ids now
                    (args\<lparr>cra_actor := cra_actor args @ '' (retry)''\<rparr>) st)
           else Some (Inr ((a, True), st\<lparr>recoveries := recoveries st @ [a]\<rparr>)))"

definition completeRecoveryAction ::
  "string \<Rightarrow> recovery_status \<Rightarrow> int \<Rightarrow> store \<Rightarrow> store_error + recovery_action option \<times> store" where
  "completeRecoveryAction recoveryId status now st =
     (if status \<noteq> RA_APPLIED \<and> status \<noteq> RA_SKIPPED \<and> status \<noteq> RA_FAILED then
        Inl (storeError ''VALIDATION_ERROR'' None (Some ''status''))
      else case find (\<lambda>a. ra_recoveryId a = recoveryId) (recoveries st) of
        None \<Rightarrow> Inr (None, st)
      | Some existing \<Rightarrow>
          if ra_status existing \<noteq> RA_PENDING then Inr (Some existing, st)
          else
            let finished = (\<lambda>a. a\<lparr>ra_status := status, ra_completedAt := Some now\<rparr>)
            in Inr (Some (finished existing),
                    st\<lparr>recoveries := update_where (\<lambda>a. ra_recoveryId a = recoveryId) finished
                         (recoveries st)\<rparr>))"

definition listRecoveryActions ::
  "recovery_status option \<Rightarrow> recovery_item_type option \<Rightarrow> string option \<Rightarrow> nat option \<Rightarrow> store \<Rightarrow>
   recovery_action list" where
  "listRecoveryActions status itemType actor limit st =
     take (min (nullish limit 50) 200)
       (order_desc ra_createdAt
         (filter (\<lambda>a. null_or (\<lambda>s. ra_status a = s) status \<and>
                      null_or (\<lambda>t. ra_itemType a = t) itemType \<and>
                      (truthy actor \<longrightarrow> not_null_and (\<lambda>s. sublist s (ra_actor a)) actor))
           (recoveries st)))"

section \<open>Stuck items\<close>

definition findStuckReceipts :: "int \<Rightarrow> string option \<Rightarrow> nat option \<Rightarrow> store \<Rightarrow> receipt list" where
  "findStuckReceipts now organizationId limit st =
     take (min (nullish limit 200) 500)
       (order_asc (\<lambda>r. nullish (rc_leaseExpiresAt r) 0)
         (filter (\<lambda>r. expired_receipt now r \<and>
                      (truthy organizationId \<longrightarrow> Some (rc_organizationId r) = organizationId))
           (receipts st)))"

definition findStuckIntents :: "int \<Rightarrow> string option \<Rightarrow> nat option \<Rightarrow> store \<Rightarrow> dispatch_intent list" where
  "findStuckIntents now organizationId limit st =
     take (min (nullish limit 200) 500)
       (order_asc (\<lambda>i. nullish (di_leaseExpiresAt i) 0)
         (filter (\<lambda>i. expired_intent now i \<and>
                      (truthy organizationId \<longrightarrow> Some (di_organizationId i) = organizationId))
           (intents st)))"

definition resetStuckReceipt :: "int \<Rightarrow> string \<Rightarrow> store \<Rightarrow> bool \<times> store" where
  "resetStuckReceipt now receiptId st =
     (let stuck = (\<lambda>r. rc_receiptId r = receiptId \<and> expired_receipt now r)
      in (count_where stuck (receipts st) > 0,
          st\<lparr>receipts := update_where stuck (end_receipt (Receipt_Reset None)) (receipts st)\<rparr>))"

definition resetStuckIntent :: "int \<Rightarrow> string \<Rightarrow> store \<Rightarrow> bool \<times> store" where
  "resetStuckIntent now intentId st =
     (let stuck = (\<lambda>i. di_intentId i = intentId \<and> expired_intent now i)
      in (count_where stuck (intents st) > 0,
          st\<lparr>intents := update_where stuck (end_intent (Intent_Reset None)) (intents st)\<rparr>))"

section \<open>Facts\<close>

text \<open>The two unique indices of the recovery table.\<close>

definition recoveries_ok :: "store \<Rightarrow> bool" where
  "recoveries_ok st \<longleftrightarrow>
     distinct (map ra_recoveryId (recoveries st)) \<and>
     distinct (map (\<lambda>a. (ra_itemType a, ra_itemId a)) (recoveries st))"

text \<open>A call that returns found the item's action, or created it; or it refused its arguments.\<close>

lemma createRecoveryAction_cases:
  assumes "createRecoveryAction ids now args st = Some res"
  obtains (invalid) e where "res = Inl e" "cra_itemId args = [] \<or> cra_actor args = []"
  | (existing) a where "res = Inr ((a, False), st)"
      "findRecoveryAction (cra_itemType args) (cra_itemId args) st = Some a"
  | (created) a where "res = Inr ((a, True), st\<lparr>recoveries := recoveries st @ [a]\<rparr>)"
      "findRecoveryAction (cra_itemType args) (cra_itemId args) st = None"
      "\<not> recovery_conflicts a st" "ra_itemType a = cra_itemType args" "ra_itemId a = cra_itemId args"
      "ra_status a = RA_PENDING" "ra_recoveryId a \<in> set ids"
proof -
  have "(\<exists>e. res = Inl e \<and> (cra_itemId args = [] \<or> cra_actor args = [])) \<or>
     (\<exists>a. res = Inr ((a, False), st) \<and>
          findRecoveryAction (cra_itemType args) (cra_itemId args) st = Some a) \<or>
     (\<exists>a. res = Inr ((a, True), st\<lparr>recoveries := recoveries st @ [a]\<rparr>) \<and>
          findRecoveryAction (cra_itemType args) (cra_itemId args) st = None \<and>
          \<not> recovery_conflicts a st \<and> ra_itemType a = cra_itemType args \<and>
          ra_itemId a = cra_itemId args \<and> ra_status a = RA_PENDING \<and> ra_recoveryId a \<in> set ids)"
    using assms
  proof (induction ids arbitrary: args)
    case Nil
    then show ?case by simp
  next
    case (Cons recoveryId ids)
    let ?a = "new_recovery recoveryId now args"
    have fields: "ra_itemType ?a = cra_itemType args" "ra_itemId ?a = cra_itemId args"
      "ra_status ?a = RA_PENDING" "ra_recoveryId ?a = recoveryId"
      by (simp_all add: new_recovery_def)
    consider (bad) "cra_itemId args = [] \<or> cra_actor args = []"
      | (found) x where "cra_itemId args \<noteq> []" "cra_actor args \<noteq> []" "recovery_conflicts ?a st"
          "findRecoveryAction (cra_itemType args) (cra_itemId args) st = Some x"
      | (retry) "cra_itemId args \<noteq> []" "cra_actor args \<noteq> []" "recovery_conflicts ?a st"
          "findRecoveryAction (cra_itemType args) (cra_itemId args) st = None"
      | (fresh) "cra_itemId args \<noteq> []" "cra_actor args \<noteq> []" "\<not> recovery_conflicts ?a st"
      by fastforce
    then show ?case
    proof cases
      case bad
      then show ?thesis using Cons.prems by (auto split: if_splits)
    next
      case found
      then show ?thesis using Cons.prems by (auto simp: Let_def)
    next
      case retry
      then have "createRecoveryAction ids now (args\<lparr>cra_actor := cra_actor args @ '' (retry)''\<rparr>) st = Some res"
        using Cons.prems by (simp add: Let_def)
      from Cons.IH [OF this] show ?thesis by auto
    next
      case fresh
      then have "findRecoveryAction (cra_itemType args) (cra_itemId args) st = None"
        by (auto simp: findRecoveryAction_def recovery_conflicts_def fields find_None_iff)
      then show ?thesis using Cons.prems fresh by (auto simp: Let_def fields)
    qed
  qed
  then show thesis using invalid existing created by blast
qed

lemma createRecoveryAction_returns_existing:
  assumes "findRecoveryAction (cra_itemType args) (cra_itemId args) st = Some a"
    and "cra_itemId args \<noteq> []" and "cra_actor args \<noteq> []"
  shows "createRecoveryAction (i # ids) now args st = Some (Inr ((a, False), st))"
proof -
  have "recovery_conflicts (new_recovery i now args) st"
    using find_SomeD [OF assms(1) [unfolded findRecoveryAction_def]]
    by (auto simp: recovery_conflicts_def new_recovery_def for_item_def)
  then show ?thesis using assms by (simp add: Let_def)
qed

lemma createRecoveryAction_fresh:
  assumes "findRecoveryAction (cra_itemType args) (cra_itemId args) st = None"
    and "cra_itemId args \<noteq> []" and "cra_actor args \<noteq> []"
    and "i \<notin> ra_recoveryId ` set (recoveries st)"
  shows "createRecoveryAction (i # ids) now args st =
    Some (Inr ((new_recovery i now args, True),
               st\<lparr>recoveries := recoveries st @ [new_recovery i now args]\<rparr>))"
proof -
  have "\<not> recovery_conflicts (new_recovery i now args) st"
    using assms(1,4)
    by (auto simp: findRecoveryAction_def recovery_conflicts_def new_recovery_def find_None_iff)
  then show ?thesis using assms(2,3) by (simp add: Let_def)
qed

lemma findRecoveryAction_append:
  "findRecoveryAction ty k (st\<lparr>recoveries := recoveries st @ [a]\<rparr>) =
     (case findRecoveryAction ty k st of
        Some x \<Rightarrow> Some x | None \<Rightarrow> if for_item ty k a then Some a else None)"
  by (cases "find (for_item ty k) (recoveries st)") (simp_all add: findRecoveryAction_def find_append)

text \<open>What completing an action leaves alone, and what it writes when the action is pending.\<close>

lemma completeRecoveryAction_final:
  assumes "status = RA_APPLIED \<or> status = RA_SKIPPED \<or> status = RA_FAILED"
  obtains res st' where "completeRecoveryAction i status now st = Inr (res, st')"
    and "receipts st' = receipts st" and "intents st' = intents st"
    and "\<And>ty k. findRecoveryAction ty k st' = None \<longleftrightarrow> findRecoveryAction ty k st = None"
proof -
  have key: "find (for_item ty k) (update_where p (\<lambda>a. a\<lparr>ra_status := status, ra_completedAt := Some now\<rparr>) rows) = None
      \<longleftrightarrow> find (for_item ty k) rows = None" for ty k p rows
    by (induction rows) (auto simp: for_item_def)
  show thesis
    by (rule that [of "fst (projr (completeRecoveryAction i status now st))"
          "snd (projr (completeRecoveryAction i status now st))"])
      (use assms in \<open>auto simp: completeRecoveryAction_def findRecoveryAction_def key Let_def
          split: option.splits\<close>)
qed

lemma completeRecoveryAction_pending:
  assumes "find (\<lambda>a. ra_recoveryId a = i) (recoveries st) = Some a" and "ra_status a = RA_PENDING"
    and "status = RA_APPLIED \<or> status = RA_SKIPPED \<or> status = RA_FAILED"
  shows "completeRecoveryAction i status now st =
    Inr (Some (a\<lparr>ra_status := status, ra_completedAt := Some now\<rparr>),
         st\<lparr>recoveries := update_where (\<lambda>a. ra_recoveryId a = i)
              (\<lambda>a. a\<lparr>ra_status := status, ra_completedAt := Some now\<rparr>) (recoveries st)\<rparr>)"
  using assms by (auto simp: completeRecoveryAction_def Let_def)

end
