(* ===== verification/Reconciler.thy ===== *)
theory Reconciler
  imports Recovery
begin

text \<open>
  The stuck-item reconcilers, \<open>apps/integration-api/src/reconciler\<close>:
  \<open>stuck-receipt-reconciler.ts\<close>, \<open>stuck-intent-reconciler.ts\<close> and the scan of
  \<open>reconciliation-scheduler.ts\<close>.

  The two reconcilers run the same three steps per item (create the recovery action, reset
  the item, mark the action), written once here over the reset of the item. Other
  transactions may commit between the scan and an item, and between an item's action and
  its reset: \<open>env\<close> is what they did to the store meanwhile, the identity in a run without
  interference. \<open>ids k\<close> are the recovery ids generated while item \<open>k\<close> is handled.
\<close>

section \<open>One item\<close>

datatype reconcile_action = RECOVERED | ACT_SKIPPED | ACT_FAILED | NOT_STUCK

record reconcile_result =
  rs_itemId :: string
  rs_action :: reconcile_action
  rs_recoveryId :: "string option"

definition reconcile_item ::
  "string list \<Rightarrow> int \<Rightarrow> (store \<Rightarrow> store) \<Rightarrow> create_recovery_args \<Rightarrow> (store \<Rightarrow> bool \<times> store) \<Rightarrow> store \<Rightarrow>
   (reconcile_result \<times> store) option" where
  "reconcile_item ids now env args reset st =
     (case createRecoveryAction ids now args st of
        None \<Rightarrow> None
      | Some (Inl e) \<Rightarrow>
          Some (\<lparr>rs_itemId = cra_itemId args, rs_action = ACT_FAILED, rs_recoveryId = None\<rparr>, st)
      | Some (Inr ((recovery, created), st1)) \<Rightarrow>
          if \<not> created then
            Some (\<lparr>rs_itemId = cra_itemId args, rs_action = ACT_SKIPPED,
                   rs_recoveryId = Some (ra_recoveryId recovery)\<rparr>, st1)
          else
            let (done_reset, st2) = reset (env st1);
                status = (if done_reset then RA_APPLIED else RA_SKIPPED);
                act = (if done_reset then RECOVERED else ACT_SKIPPED)
            in (case completeRecoveryAction (ra_recoveryId recovery) status now st2 of
                  Inl e \<Rightarrow>
                    Some (\<lparr>rs_itemId = cra_itemId args, rs_action = ACT_FAILED,
                           rs_recoveryId = None\<rparr>, st2)
                | Inr (_, st3) \<Rightarrow>
                    Some (\<lparr>rs_itemId = cra_itemId args, rs_action = act,
                           rs_recoveryId = Some (ra_recoveryId recovery)\<rparr>, st3)))"

section \<open>Receipts\<close>

definition receipt_recovery_args :: "string \<Rightarrow> receipt \<Rightarrow> create_recovery_args" where
  "receipt_recovery_args actor r =
     \<lparr>cra_itemType = RECEIPT, cra_itemId = rc_receiptId r, cra_action = RESET_TO_PENDING,
      cra_actor = actor,
      cra_snapshot = Some (Snap_Receipt (rc_state r) (rc_leaseExpiresAt r) (rc_leaseOwner r)
                             (rc_attempts r) (rc_provider r) (rc_connectionId r))\<rparr>"

fun reconcile_receipts_loop ::
  "(string \<Rightarrow> string list) \<Rightarrow> int \<Rightarrow> (store \<Rightarrow> store) \<Rightarrow> string \<Rightarrow> receipt list \<Rightarrow> store \<Rightarrow>
   (reconcile_result list \<times> store) option" where
  "reconcile_receipts_loop ids now env actor [] st = Some ([], st)"
| "reconcile_receipts_loop ids now env actor (r # rs) st =
     (case reconcile_item (ids (rc_receiptId r)) now env (receipt_recovery_args actor r)
             (resetStuckReceipt now (rc_receiptId r)) (env st) of
        None \<Rightarrow> None
      | Some (res, st') \<Rightarrow>
          map_option (\<lambda>(results, st''). (res # results, st''))
            (reconcile_receipts_loop ids now env actor rs st'))"

text \<open>
  \<open>reconcileReceipts\<close>: the number scanned and the results. \<open>scanNow\<close> is the clock of the
  scan, \<open>now\<close> that of the resets after it.
\<close>

definition reconcileReceipts ::
  "(string \<Rightarrow> string list) \<Rightarrow> int \<Rightarrow> int \<Rightarrow> (store \<Rightarrow> store) \<Rightarrow> string \<Rightarrow> nat option \<Rightarrow> store \<Rightarrow>
   ((nat \<times> reconcile_result list) \<times> store) option" where
  "reconcileReceipts ids scanNow now env actor batchSize st =
     (let stuck = findStuckReceipts scanNow None (Some (nullish batchSize 100)) st
      in map_option (\<lambda>(results, st'). ((length stuck, results), st'))
           (reconcile_receipts_loop ids now env actor stuck st))"

text \<open>
  The manual trigger. Here an error of the create is not caught, so it is the result.
\<close>

definition manual_args :: "recovery_item_type \<Rightarrow> string \<Rightarrow> string \<Rightarrow> create_recovery_args" where
  "manual_args ty itemId actor =
     \<lparr>cra_itemType = ty, cra_itemId = itemId, cra_action = RESET_TO_PENDING, cra_actor = actor,
      cra_snapshot = Some (Snap_Manual itemId)\<rparr>"

definition recover_manually ::
  "string list \<Rightarrow> int \<Rightarrow> (store \<Rightarrow> store) \<Rightarrow> create_recovery_args \<Rightarrow> (store \<Rightarrow> bool \<times> store) \<Rightarrow> store \<Rightarrow>
   (store_error + reconcile_result \<times> store) option" where
  "recover_manually ids now env args reset st =
     (if cra_itemId args = [] then
        Some (Inl (storeError ''VALIDATION_ERROR'' None (Some ''itemId'')))
      else if cra_actor args = [] then
        Some (Inl (storeError ''VALIDATION_ERROR'' None (Some ''actor'')))
      else map_option Inr (reconcile_item ids now env args reset st))"

definition recoverReceipt ::
  "string list \<Rightarrow> int \<Rightarrow> (store \<Rightarrow> store) \<Rightarrow> string \<Rightarrow> string \<Rightarrow> store \<Rightarrow>
   (store_error + reconcile_result \<times> store) option" where
  "recoverReceipt ids now env receiptId actor st =
     recover_manually ids now env (manual_args RECEIPT receiptId actor)
       (resetStuckReceipt now receiptId) st"

section \<open>Intents\<close>

definition intent_recovery_args :: "string \<Rightarrow> dispatch_intent \<Rightarrow> create_recovery_args" where
  "intent_recovery_args actor i =
     \<lparr>cra_itemType = INTENT, cra_itemId = di_intentId i, cra_action = RESET_TO_PENDING,
      cra_actor = actor,
      cra_snapshot = Some (Snap_Intent (di_status i) (di_leaseExpiresAt i) (di_leaseOwner i)
                             (di_attempts i) (di_receiptId i))\<rparr>"

fun reconcile_intents_loop ::
  "(string \<Rightarrow> string list) \<Rightarrow> int \<Rightarrow> (store \<Rightarrow> store) \<Rightarrow> string \<Rightarrow> dispatch_intent list \<Rightarrow> store \<Rightarrow>
   (reconcile_result list \<times> store) option" where
  "reconcile_intents_loop ids now env actor [] st = Some ([], st)"
| "reconcile_intents_loop ids now env actor (i # items) st =
     (case reconcile_item (ids (di_intentId i)) now env (intent_recovery_args actor i)
             (resetStuckIntent now (di_intentId i)) (env st) of
        None \<Rightarrow> None
      | Some (res, st') \<Rightarrow>
          map_option (\<lambda>(results, st''). (res # results, st''))
            (reconcile_intents_loop ids now env actor items st'))"

definition reconcileIntents ::
  "(string \<Rightarrow> string list) \<Rightarrow> int \<Rightarrow> int \<Rightarrow> (store \<Rightarrow> store) \<Rightarrow> string \<Rightarrow> nat option \<Rightarrow> store \<Rightarrow>
   ((nat \<times> reconcile_result list) \<times> store) option" where
  "reconcileIntents ids scanNow now env actor batchSize st =
     (let stuck = findStuckIntents scanNow None (Some (nullish batchSize 100)) st
      in map_option (\<lambda>(results, st'). ((length stuck, results), st'))
           (reconcile_intents_loop ids now env actor stuck st))"

definition recoverIntent ::
  "string list \<Rightarrow> int \<Rightarrow> (store \<Rightarrow> store) \<Rightarrow> string \<Rightarrow> string \<Rightarrow> store \<Rightarrow>
   (store_error + reconcile_result \<times> store) option" where
  "recoverIntent ids now env intentId actor st =
     recover_manually ids now env (manual_args INTENT intentId actor)
       (resetStuckIntent now intentId) st"

section \<open>The scheduler's scan\<close>

record scan_stats =
  ss_receiptScans :: nat
  ss_intentScans :: nat
  ss_lastScanAt :: "int option"
  ss_lastReceiptsRecovered :: nat
  ss_lastIntentsRecovered :: nat
  ss_lastErrors :: "string list"
  ss_schedulerId :: string

text \<open>The errors list holds one text per failed item; the item's id stands for the text.\<close>

definition failed_ids :: "reconcile_result list \<Rightarrow> string list" where
  "failed_ids results = map rs_itemId (filter (\<lambda>r. rs_action r = ACT_FAILED) results)"

definition recovered_count :: "reconcile_result list \<Rightarrow> nat" where
  "recovered_count results = length (filter (\<lambda>r. rs_action r = RECOVERED) results)"

definition runScan ::
  "(string \<Rightarrow> string list) \<Rightarrow> (string \<Rightarrow> string list) \<Rightarrow> int \<Rightarrow> (store \<Rightarrow> store) \<Rightarrow> scan_stats \<Rightarrow> store \<Rightarrow>
   ((reconcile_result list \<times> reconcile_result list \<times> scan_stats) \<times> store) option" where
  "runScan rids iids now env stats st =
     (let actor = ''reconciler:'' @ ss_schedulerId stats
      in case reconcileReceipts rids now now env actor (Some 200) st of
           None \<Rightarrow> None
         | Some ((_, receiptResults), st1) \<Rightarrow>
             (case reconcileIntents iids now now env actor (Some 200) st1 of
                None \<Rightarrow> None
              | Some ((_, intentResults), st2) \<Rightarrow>
                  Some ((receiptResults, intentResults,
                    stats\<lparr>ss_receiptScans := ss_receiptScans stats + 1,
                          ss_intentScans := ss_intentScans stats + 1,
                          ss_lastScanAt := Some now,
                          ss_lastReceiptsRecovered := recovered_count receiptResults,
                          ss_lastIntentsRecovered := recovered_count intentResults,
                          ss_lastErrors := take 50 (failed_ids receiptResults @
                                                    failed_ids intentResults)\<rparr>), st2)))"

text \<open>
  The scheduler object. \<open>scd_timer\<close> says whether the interval timer exists; \<open>timer_tick\<close>
  is its callback, which answers whether it starts a scan.
\<close>

record scheduler =
  scd_timer :: bool
  scd_stopped :: bool
  scd_stats :: scan_stats

definition new_scheduler :: "string \<Rightarrow> scheduler" where
  "new_scheduler schedulerId =
     \<lparr>scd_timer = False, scd_stopped = False,
      scd_stats = \<lparr>ss_receiptScans = 0, ss_intentScans = 0, ss_lastScanAt = None,
                   ss_lastReceiptsRecovered = 0, ss_lastIntentsRecovered = 0,
                   ss_lastErrors = [], ss_schedulerId = schedulerId\<rparr>\<rparr>"

definition scheduler_start :: "scheduler \<Rightarrow> scheduler" where
  "scheduler_start s =
     (if scd_stopped s then s else if scd_timer s then s else s\<lparr>scd_timer := True\<rparr>)"

definition scheduler_stop :: "scheduler \<Rightarrow> scheduler" where
  "scheduler_stop s =
     (let s' = s\<lparr>scd_stopped := True\<rparr>
      in if scd_timer s' then s'\<lparr>scd_timer := False\<rparr> else s')"

definition timer_tick :: "scheduler \<Rightarrow> bool" where
  "timer_tick s \<longleftrightarrow> scd_timer s \<and> \<not> scd_stopped s"

definition isRunning :: "scheduler \<Rightarrow> bool" where
  "isRunning s \<longleftrightarrow> scd_timer s \<and> \<not> scd_stopped s"

section \<open>Facts\<close>

lemma reconcile_item_created:
  assumes "createRecoveryAction ids now args st = Some (Inr ((a, True), s1))"
    and "reset (env s1) = (ok, s2)"
    and "completeRecoveryAction (ra_recoveryId a) (if ok then RA_APPLIED else RA_SKIPPED) now s2 =
      Inr (b, s3)"
  shows "reconcile_item ids now env args reset st =
    Some (\<lparr>rs_itemId = cra_itemId args, rs_action = (if ok then RECOVERED else ACT_SKIPPED),
           rs_recoveryId = Some (ra_recoveryId a)\<rparr>, s3)"
  using assms by (simp add: reconcile_item_def Let_def)

text \<open>
  The contract both resets meet: one conditional update that ends the expired lease of the
  item, answers whether there was one, and does not touch the recovery table.
\<close>

locale stuck_reset =
  fixes reset :: "int \<Rightarrow> string \<Rightarrow> store \<Rightarrow> bool \<times> store"
    and stuck :: "int \<Rightarrow> string \<Rightarrow> store \<Rightarrow> bool"
  assumes reset_answer: "fst (reset now k st) = stuck now k st"
    and reset_clears: "\<not> stuck now k (snd (reset now k st))"
    and reset_idle: "\<not> stuck now k st \<Longrightarrow> snd (reset now k st) = st"
    and reset_frame: "recoveries (snd (reset now k st)) = recoveries st"
    and stuck_frame: "stuck now k (st\<lparr>recoveries := rs\<rparr>) = stuck now k st"
begin

text \<open>A second reset finds nothing to do.\<close>

lemma reset_twice: "reset now k (snd (reset now k st)) = (False, snd (reset now k st))"
  by (rule prod_eqI) (simp_all add: reset_answer reset_clears reset_idle)

text \<open>An item that has a recovery action already is skipped, and nothing is written.\<close>

lemma reconcile_known_item:
  assumes "findRecoveryAction (cra_itemType args) (cra_itemId args) st = Some a"
    and "cra_itemId args \<noteq> []" and "cra_actor args \<noteq> []" and ids: "ids \<noteq> []"
  shows "reconcile_item ids now env args (reset now k) st =
    Some (\<lparr>rs_itemId = cra_itemId args, rs_action = ACT_SKIPPED,
           rs_recoveryId = Some (ra_recoveryId a)\<rparr>, st)"
proof -
  from ids obtain i rest where "ids = i # rest" by (cases ids) auto
  then show ?thesis
    using createRecoveryAction_returns_existing [of args st a i rest now] assms(1-3)
    by (simp add: reconcile_item_def del: createRecoveryAction.simps)
qed

text \<open>
  An item without one gets it, and is reset exactly when it is still stuck once the action
  is committed.
\<close>

lemma reconcile_new_item:
  assumes "findRecoveryAction (cra_itemType args) (cra_itemId args) st = None"
    and "cra_itemId args \<noteq> []" and "cra_actor args \<noteq> []" and "i \<notin> ra_recoveryId ` set (recoveries st)"
    and st1: "st1 = env (st\<lparr>recoveries := recoveries st @ [new_recovery i now args]\<rparr>)"
  obtains st' where "reconcile_item (i # ids) now env args (reset now k) st =
      Some (\<lparr>rs_itemId = cra_itemId args,
             rs_action = (if stuck now k st1 then RECOVERED else ACT_SKIPPED),
             rs_recoveryId = Some i\<rparr>, st')"
    and "receipts st' = receipts (snd (reset now k st1))"
    and "intents st' = intents (snd (reset now k st1))"
    and "\<And>ty j. findRecoveryAction ty j st' = None \<longleftrightarrow> findRecoveryAction ty j st1 = None"
proof -
  let ?status = "if stuck now k st1 then RA_APPLIED else RA_SKIPPED"
  note c = createRecoveryAction_fresh [OF assms(1-4), of ids now]
  obtain a st' where complete:
      "completeRecoveryAction i ?status now (snd (reset now k st1)) = Inr (a, st')"
    and frame: "receipts st' = receipts (snd (reset now k st1))"
      "intents st' = intents (snd (reset now k st1))"
      "\<And>ty j. findRecoveryAction ty j st' = None \<longleftrightarrow> findRecoveryAction ty j (snd (reset now k st1)) = None"
    by (rule completeRecoveryAction_final [of ?status i now "snd (reset now k st1)"]) auto
  have split: "reset now k st1 = (stuck now k st1, snd (reset now k st1))"
    by (rule prod_eqI) (simp_all add: reset_answer)
  have id: "ra_recoveryId (new_recovery i now args) = i" by (simp add: new_recovery_def)
  show thesis
  proof (rule that)
    show "reconcile_item (i # ids) now env args (reset now k) st =
      Some (\<lparr>rs_itemId = cra_itemId args,
             rs_action = (if stuck now k st1 then RECOVERED else ACT_SKIPPED),
             rs_recoveryId = Some i\<rparr>, st')"
      using reconcile_item_created [of "i # ids" now args st "new_recovery i now args" _ "reset now k" env,
          OF c, of "stuck now k st1" "snd (reset now k st1)" a st'] split complete
      by (simp add: id st1 [symmetric])
    show "findRecoveryAction ty j st' = None \<longleftrightarrow> findRecoveryAction ty j st1 = None" for ty j
      unfolding frame by (simp add: findRecoveryAction_def reset_frame)
  qed (rule frame)+
qed

end

interpretation stuck_receipt: stuck_reset resetStuckReceipt
  "\<lambda>now k st. \<exists>r \<in> set (receipts st). rc_receiptId r = k \<and> expired_receipt now r"
proof
  fix now k and st :: store
  let ?st = "snd (resetStuckReceipt now k st)"
  let ?stuck = "\<lambda>st. \<exists>r \<in> set (receipts st). rc_receiptId r = k \<and> expired_receipt now r"
  show "fst (resetStuckReceipt now k st) = ?stuck st"
    by (simp add: resetStuckReceipt_def count_where_pos Let_def)
  show "\<not> ?stuck ?st"
  proof -
    have "\<not> (rc_receiptId x = k \<and> expired_receipt now x)"
      if "x \<in> set (update_where (\<lambda>r. rc_receiptId r = k \<and> expired_receipt now r)
        (end_receipt (Receipt_Reset None)) (receipts st))" for x
      by (rule update_where_clears [OF _ that]) (simp add: expired_receipt_def receipt_lease.leased_finish)
    then show ?thesis by (simp add: resetStuckReceipt_def Let_def)
  qed
  show "?st = st" if "\<not> ?stuck st"
  proof -
    have "update_where (\<lambda>r. rc_receiptId r = k \<and> expired_receipt now r) f (receipts st) = receipts st" for f
      by (rule update_where_id) (use that in blast)
    then show ?thesis by (simp add: resetStuckReceipt_def Let_def)
  qed
  show "recoveries ?st = recoveries st" by (simp add: resetStuckReceipt_def Let_def)
qed simp

interpretation stuck_intent: stuck_reset resetStuckIntent
  "\<lambda>now k st. \<exists>i \<in> set (intents st). di_intentId i = k \<and> expired_intent now i"
proof
  fix now k and st :: store
  let ?st = "snd (resetStuckIntent now k st)"
  let ?stuck = "\<lambda>st. \<exists>i \<in> set (intents st). di_intentId i = k \<and> expired_intent now i"
  show "fst (resetStuckIntent now k st) = ?stuck st"
    by (simp add: resetStuckIntent_def count_where_pos Let_def)
  show "\<not> ?stuck ?st"
  proof -
    have "\<not> (di_intentId x = k \<and> expired_intent now x)"
      if "x \<in> set (update_where (\<lambda>i. di_intentId i = k \<and> expired_intent now i)
        (end_intent (Intent_Reset None)) (intents st))" for x
      by (rule update_where_clears [OF _ that]) (simp add: expired_intent_def intent_lease.leased_finish)
    then show ?thesis by (simp add: resetStuckIntent_def Let_def)
  qed
  show "?st = st" if "\<not> ?stuck st"
  proof -
    have "update_where (\<lambda>i. di_intentId i = k \<and> expired_intent now i) f (intents st) = intents st" for f
      by (rule update_where_id) (use that in blast)
    then show ?thesis by (simp add: resetStuckIntent_def Let_def)
  qed
  show "recoveries ?st = recoveries st" by (simp add: resetStuckIntent_def Let_def)
qed simp

text \<open>An interference keeps the recovery actions that exist: no code deletes one.\<close>

definition keeps_actions :: "(store \<Rightarrow> store) \<Rightarrow> bool" where
  "keeps_actions env \<longleftrightarrow>
     (\<forall>st ty k. findRecoveryAction ty k st \<noteq> None \<longrightarrow> findRecoveryAction ty k (env st) \<noteq> None)"

lemma keeps_actions_id [simp]: "keeps_actions id"
  by (simp add: keeps_actions_def)

lemma keeps_actionsD:
  "keeps_actions env \<Longrightarrow> findRecoveryAction ty k st \<noteq> None \<Longrightarrow> findRecoveryAction ty k (env st) \<noteq> None"
  by (simp add: keeps_actions_def)

text \<open>One item: actions persist, and a recovery needs that there was none and leaves one.\<close>

lemma reconcile_item_actions:
  assumes run: "reconcile_item ids now env args reset st = Some (res, st')" and env: "keeps_actions env"
    and frame: "\<And>s. recoveries (snd (reset s)) = recoveries s"
  shows "findRecoveryAction ty k st \<noteq> None \<Longrightarrow> findRecoveryAction ty k st' \<noteq> None"
    and "rs_action res = RECOVERED \<Longrightarrow>
      findRecoveryAction (cra_itemType args) (cra_itemId args) st = None \<and>
      findRecoveryAction (cra_itemType args) (cra_itemId args) st' \<noteq> None"
    and "rs_itemId res = cra_itemId args"
proof -
  obtain cres where create: "createRecoveryAction ids now args st = Some cres"
    using run by (auto simp: reconcile_item_def split: option.splits)
  have "(findRecoveryAction ty k st \<noteq> None \<longrightarrow> findRecoveryAction ty k st' \<noteq> None) \<and>
      (rs_action res = RECOVERED \<longrightarrow>
        findRecoveryAction (cra_itemType args) (cra_itemId args) st = None \<and>
        findRecoveryAction (cra_itemType args) (cra_itemId args) st' \<noteq> None) \<and>
      rs_itemId res = cra_itemId args"
    using create
  proof (cases rule: createRecoveryAction_cases)
    case (invalid e)
    then show ?thesis using run by (auto simp: reconcile_item_def create)
  next
    case (existing a)
    then show ?thesis using run by (auto simp: reconcile_item_def create)
  next
    case (created a)
    let ?st1 = "env (st\<lparr>recoveries := recoveries st @ [a]\<rparr>)"
    obtain ok st2 where reset: "reset ?st1 = (ok, st2)" by (cases "reset ?st1")
    let ?status = "if ok then RA_APPLIED else RA_SKIPPED"
    obtain b st3 where complete: "completeRecoveryAction (ra_recoveryId a) ?status now st2 = Inr (b, st3)"
      and same: "\<And>ty k. findRecoveryAction ty k st3 = None \<longleftrightarrow> findRecoveryAction ty k st2 = None"
      by (rule completeRecoveryAction_final [of ?status "ra_recoveryId a" now st2]) auto
    have st': "st' = st3" and item: "rs_itemId res = cra_itemId args"
      using run reconcile_item_created [of ids now args st a _ reset env ok st2 b st3]
        create created(1) reset complete by auto
    have st2: "findRecoveryAction ty k st2 = findRecoveryAction ty k ?st1" for ty k
      using frame [of ?st1] by (simp add: findRecoveryAction_def reset)
    have kept: "findRecoveryAction ty k st' \<noteq> None"
      if "findRecoveryAction ty k st \<noteq> None \<or> for_item ty k a" for ty k
    proof -
      have "findRecoveryAction ty k (st\<lparr>recoveries := recoveries st @ [a]\<rparr>) \<noteq> None"
        using that by (auto simp: findRecoveryAction_append split: option.splits)
      then show ?thesis unfolding st' same st2 by (rule keeps_actionsD [OF env])
    qed
    show ?thesis using created(2) kept item
      by (simp add: for_item_def created(4,5))
  qed
  then show "findRecoveryAction ty k st \<noteq> None \<Longrightarrow> findRecoveryAction ty k st' \<noteq> None"
    and "rs_action res = RECOVERED \<Longrightarrow>
      findRecoveryAction (cra_itemType args) (cra_itemId args) st = None \<and>
      findRecoveryAction (cra_itemType args) (cra_itemId args) st' \<noteq> None"
    and "rs_itemId res = cra_itemId args" by blast+
qed

end
