(* ===== verification/Store_System.thy ===== *)
theory Store_System
  imports Event_Receipt_Facts Reconciler
begin

text \<open>
  The store as a transition system: every transaction the receiver, the workers, the
  scheduler and the operators can commit, in any order and with any arguments. A
  composite (a worker's poll, a reconciler's scan) is a sequence of these transactions with
  those of other processes in between.

  The one assumption on the environment is the one the token generator documents
  (\<open>crypto.randomUUID\<close>): a claim uses a token that was not issued before.
\<close>

section \<open>Transactions\<close>

text \<open>
  \<open>Complete_Write\<close> is the write half of \<open>completeReceipt\<close> with the row its read half saw
  earlier: under READ COMMITTED other transactions may commit between the two. Likewise
  \<open>Commit\<close> carries the store of its first read.
\<close>

datatype store_op =
  Claim_Next "string set" claim_args
| Claim_Specific claim_args receipt_scope
| Claim_Intent "string set" claim_args
| Extend lease_kind string string int int
| Release lease_kind string string
| Complete complete_args
| Complete_Write complete_args receipt
| Complete_Intent string string outcome
| Reclaim int
| Release_All string int
| Commit int receipt_scope commit_payload store
| Redrive string redrive_actor int redrive_opts
| Create_Recovery "string list" int create_recovery_args
| Complete_Recovery string recovery_status int
| Reset_Receipt int string
| Reset_Intent int string

fun run_op :: "store_op \<Rightarrow> store \<Rightarrow> store" where
  "run_op (Claim_Next locked args) st = snd (claimNextReceipt locked args st)"
| "run_op (Claim_Specific args sc) st = snd (claimSpecificReceipt args sc st)"
| "run_op (Claim_Intent locked args) st = snd (claimNextIntent locked args st)"
| "run_op (Extend k t w d now) st = snd (extendLease k t w d now st)"
| "run_op (Release k t w) st = snd (releaseLease k t w st)"
| "run_op (Complete args) st = snd (completeReceipt args st)"
| "run_op (Complete_Write args row) st = snd (completeReceipt_write args row st)"
| "run_op (Complete_Intent t w oc) st = snd (completeIntent t w oc st)"
| "run_op (Reclaim now) st = snd (reclaimExpiredLeases now st)"
| "run_op (Release_All w now) st = snd (releaseAllForWorker w now st)"
| "run_op (Commit now sc p st_read) st =
     (case commitReceiptWithIntents now sc p st_read st of Inl _ \<Rightarrow> st | Inr (_, st') \<Rightarrow> st')"
| "run_op (Redrive k actor now opts) st = snd (redriveReceipt k actor now opts st)"
| "run_op (Create_Recovery ids now args) st =
     (case createRecoveryAction ids now args st of Some (Inr (_, st')) \<Rightarrow> st' | _ \<Rightarrow> st)"
| "run_op (Complete_Recovery k status now) st =
     (case completeRecoveryAction k status now st of Inl _ \<Rightarrow> st | Inr (_, st') \<Rightarrow> st')"
| "run_op (Reset_Receipt now k) st = snd (resetStuckReceipt now k st)"
| "run_op (Reset_Intent now k) st = snd (resetStuckIntent now k st)"

fun issues :: "store_op \<Rightarrow> string set" where
  "issues (Claim_Next _ args) = {ca_token args}"
| "issues (Claim_Specific args _) = {ca_token args}"
| "issues (Claim_Intent _ args) = {ca_token args}"
| "issues _ = {}"

inductive store_step :: "store \<times> string set \<Rightarrow> store \<times> string set \<Rightarrow> bool" where
  store_stepI: "issues op \<inter> issued = {} \<Longrightarrow> store_step (st, issued) (run_op op st, issued \<union> issues op)"

inductive_cases store_stepE: "store_step (st, issued) (st', issued')"

inductive store_reaches :: "store \<times> string set \<Rightarrow> store \<times> string set \<Rightarrow> bool" where
  reach_refl: "store_reaches s s"
| reach_step: "store_reaches s t \<Longrightarrow> store_step t u \<Longrightarrow> store_reaches s u"

definition empty_store :: store where
  "empty_store = \<lparr>receipts = [], intents = [], recoveries = []\<rparr>"

text \<open>The runs of the deployed system: from empty tables, no token issued.\<close>

definition reachable :: "store \<Rightarrow> string set \<Rightarrow> bool" where
  "reachable st issued \<longleftrightarrow> store_reaches (empty_store, {}) (st, issued)"

section \<open>Rules\<close>

lemma run_op_reset_receipt:
  "run_op (Reset_Receipt now k) st =
     st\<lparr>receipts := update_where (\<lambda>r. rc_receiptId r = k \<and> expired_receipt now r)
          (end_receipt (Receipt_Reset None)) (receipts st)\<rparr>"
  by (simp add: resetStuckReceipt_def Let_def)

lemma run_op_reset_intent:
  "run_op (Reset_Intent now k) st =
     st\<lparr>intents := update_where (\<lambda>i. di_intentId i = k \<and> expired_intent now i)
          (end_intent (Intent_Reset None)) (intents st)\<rparr>"
  by (simp add: resetStuckIntent_def Let_def)

lemma run_op_recovery:
  "receipts (run_op (Create_Recovery ids now args) st) = receipts st"
  "intents (run_op (Create_Recovery ids now args) st) = intents st"
  "receipts (run_op (Complete_Recovery k status now) st) = receipts st"
  "intents (run_op (Complete_Recovery k status now) st) = intents st"
proof -
  show "receipts (run_op (Create_Recovery ids now args) st) = receipts st"
    and "intents (run_op (Create_Recovery ids now args) st) = intents st"
    by (cases "createRecoveryAction ids now args st";
        auto elim!: createRecoveryAction_cases split: sum.splits)+
  show "receipts (run_op (Complete_Recovery k status now) st) = receipts st"
    and "intents (run_op (Complete_Recovery k status now) st) = intents st"
    by (auto simp: completeRecoveryAction_def Let_def split: option.splits sum.splits)
qed

text \<open>Induction along a run.\<close>

lemma store_reaches_invariant:
  assumes run: "store_reaches (st, issued) (st', issued')" and base: "P st issued"
    and step: "\<And>op st issued. P st issued \<Longrightarrow> issues op \<inter> issued = {} \<Longrightarrow>
      P (run_op op st) (issued \<union> issues op)"
  shows "P st' issued'"
proof -
  have "P (fst u) (snd u)" if "store_reaches s u" and "P (fst s) (snd s)" for s u
    using that
  proof (induction rule: store_reaches.induct)
    case (reach_refl s)
    then show ?case .
  next
    case (reach_step s t u)
    then have "P (fst t) (snd t)" by simp
    with \<open>store_step t u\<close> show ?case by (auto elim!: store_step.cases intro: step)
  qed
  from this [OF run] show ?thesis using base by simp
qed

lemma store_reaches_trans:
  "store_reaches t u \<Longrightarrow> store_reaches s t \<Longrightarrow> store_reaches s u"
  by (induction rule: store_reaches.induct) (auto intro: store_reaches.intros)

lemma store_reaches_op:
  "issues op \<inter> issued = {} \<Longrightarrow> store_reaches (st, issued) (run_op op st, issued \<union> issues op)"
  by (rule reach_step [OF reach_refl store_stepI])

lemma reachable_empty: "reachable empty_store {}"
  by (simp add: reachable_def reach_refl)

lemma reachable_op:
  "reachable st issued \<Longrightarrow> issues op \<inter> issued = {} \<Longrightarrow> reachable (run_op op st) (issued \<union> issues op)"
  unfolding reachable_def by (rule reach_step [OF _ store_stepI])

lemma reachable_invariant:
  assumes "reachable st issued" and "P empty_store {}"
    and "\<And>op st issued. P st issued \<Longrightarrow> issues op \<inter> issued = {} \<Longrightarrow>
      P (run_op op st) (issued \<union> issues op)"
  shows "P st issued"
  using store_reaches_invariant [of empty_store "{}" st issued P] assms by (simp add: reachable_def)

section \<open>Invariants of every transaction\<close>

lemma run_op_ok:
  assumes ok: "store_ok issued st" and fresh: "issues op \<inter> issued = {}"
  shows "store_ok (issued \<union> issues op) (run_op op st)"
proof (cases op)
  case (Commit now sc p st_read)
  then show ?thesis using ok by (auto split: sum.split intro: commit_ok)
next
  case (Reset_Receipt now k)
  then show ?thesis using ok
    by (simp only: run_op_reset_receipt) (auto simp: store_ok_def intro: receipt_lease.ok_finish)
next
  case (Reset_Intent now k)
  then show ?thesis using ok
    by (simp only: run_op_reset_intent) (auto simp: store_ok_def intro: intent_lease.ok_finish)
next
  case (Complete_Write args row)
  then show ?thesis using ok completeReceipt_write_puts [of args row st] put_receipt_ok by auto
next
  case (Create_Recovery ids now args)
  then show ?thesis using ok by (simp add: store_ok_def run_op_recovery del: run_op.simps)
next
  case (Complete_Recovery k status now)
  then show ?thesis using ok by (simp add: store_ok_def run_op_recovery del: run_op.simps)
qed (use assms in \<open>simp_all add: lease_ops_ok redrive_ok\<close>)

lemma run_op_lost:
  assumes lost: "token_lost t st" and t: "t \<notin> issues op"
  shows "token_lost t (run_op op st)"
proof (cases op)
  case (Commit now sc p st_read)
  then show ?thesis using lost by (auto split: sum.split intro: commit_lost)
next
  case (Reset_Receipt now k)
  then show ?thesis using lost
    by (simp only: run_op_reset_receipt) (auto simp: token_lost_def intro: receipt_lease.lost_finish)
next
  case (Reset_Intent now k)
  then show ?thesis using lost
    by (simp only: run_op_reset_intent) (auto simp: token_lost_def intro: intent_lease.lost_finish)
next
  case (Complete_Write args row)
  then show ?thesis using lost completeReceipt_write_puts [of args row st] put_receipt_lost by auto
next
  case (Create_Recovery ids now args)
  then show ?thesis using lost by (simp add: token_lost_def run_op_recovery del: run_op.simps)
next
  case (Complete_Recovery k status now)
  then show ?thesis using lost by (simp add: token_lost_def run_op_recovery del: run_op.simps)
qed (use assms in \<open>simp_all add: lease_ops_lost redrive_lost\<close>)

section \<open>Rows are durable\<close>

text \<open>
  No transaction deletes a row or rewrites what identifies it: every run extends the list
  of receipt cores and the list of intent cores at the end.
\<close>

definition receipt_core :: "receipt \<Rightarrow> string \<times> receipt_scope \<times> string \<times> string option \<times> int" where
  "receipt_core r =
     (rc_receiptId r, scope_of r, rc_payloadDigest r, rc_idempotencyKey r, rc_firstSeenAt r)"

definition intent_core :: "dispatch_intent \<Rightarrow> dispatch_intent" where
  "intent_core i =
     i\<lparr>di_status := I_PENDING, di_attempts := 0, di_leaseOwner := None, di_leaseExpiresAt := None,
       di_fencingToken := None, di_leaseFencedAt := None\<rparr>"

definition extends :: "store \<Rightarrow> store \<Rightarrow> bool" where
  "extends st st' \<longleftrightarrow>
     prefix (map receipt_core (receipts st)) (map receipt_core (receipts st')) \<and>
     prefix (map intent_core (intents st)) (map intent_core (intents st'))"

lemma extends_refl [simp]: "extends st st"
  by (simp add: extends_def)

lemma extends_trans: "extends s t \<Longrightarrow> extends t u \<Longrightarrow> extends s u"
  unfolding extends_def by (blast intro: prefix_order.trans)

lemma extends_eq:
  "map receipt_core (receipts st') = map receipt_core (receipts st) \<Longrightarrow>
   map intent_core (intents st') = map intent_core (intents st) \<Longrightarrow> extends st st'"
  by (simp add: extends_def)

lemma core_writes [row_simps]:
  "receipt_core (grant_receipt w t now d r) = receipt_core r"
  "receipt_core (renew_receipt now d r) = receipt_core r"
  "receipt_core (end_receipt e r) = receipt_core r"
  "receipt_core (redriven now a r) = receipt_core r"
  "intent_core (grant_intent w t now d i) = intent_core i"
  "intent_core (renew_intent now d i) = intent_core i"
  "intent_core (end_intent e' i) = intent_core i"
proof -
  show "receipt_core (end_receipt e r) = receipt_core r"
    using identity_fields [OF receipt_identity_writes(3) [of e r]]
    by (simp add: receipt_core_def)
qed (simp_all add: receipt_core_def intent_core_def grant_receipt_def renew_receipt_def
    grant_intent_def renew_intent_def end_intent_def redriven_def scope_of_def)

lemma receipt_core_identity: "receipt_core (receipt_identity r) = receipt_core r"
  by (simp add: receipt_core_def identity_selectors)

lemma same_receipts_core:
  assumes "same_receipts st st'"
  shows "map receipt_core (receipts st') = map receipt_core (receipts st)"
proof (rule same_receipts_map [OF assms])
  fix r s assume "receipt_identity r = receipt_identity s"
  from arg_cong [OF this, of receipt_core] show "receipt_core r = receipt_core s"
    by (simp only: receipt_core_identity)
qed

lemma claimNextIntent_core:
  "map intent_core (intents (snd (claimNextIntent locked args st))) = map intent_core (intents st)"
proof -
  obtain res st' where c: "claimNextIntent locked args st = (res, st')"
    by (cases "claimNextIntent locked args st")
  from c show ?thesis
    by (cases rule: claimNextIntent_cases) (auto simp: c map_update_where row_simps)
qed

lemma lease_ops_intent_core:
  "map intent_core (intents (snd (extendLease k t w d now st))) = map intent_core (intents st)"
  "map intent_core (intents (snd (releaseLease k t w st))) = map intent_core (intents st)"
  "map intent_core (intents (snd (completeIntent t w oc st))) = map intent_core (intents st)"
  "map intent_core (intents (snd (reclaimExpiredLeases now st))) = map intent_core (intents st)"
  "map intent_core (intents (snd (releaseAllForWorker w now st))) = map intent_core (intents st)"
proof -
  show "map intent_core (intents (snd (extendLease k t w d now st))) = map intent_core (intents st)"
    by (cases k) (simp_all add: map_update_where row_simps)
  show "map intent_core (intents (snd (releaseLease k t w st))) = map intent_core (intents st)"
    by (cases k) (simp_all add: map_update_where row_simps)
qed (simp_all add: completeIntent_def reclaimExpiredLeases_def releaseAllForWorker_def Let_def
      map_update_where row_simps split: option.split)

lemma claims_intents:
  "intents (snd (claimNextReceipt locked args st)) = intents st"
  "intents (snd (claimSpecificReceipt args sc st)) = intents st"
  by (simp_all add: claimNextReceipt_def claimSpecificReceipt_def Let_def split: list.split option.split)

lemma put_receipt_frame_rest [simp]:
  "intents (put_receipt k e st) = intents st" "recoveries (put_receipt k e st) = recoveries st"
  by (simp_all add: put_receipt_def)

text \<open>Only a commit adds rows.\<close>

fun is_commit :: "store_op \<Rightarrow> bool" where
  "is_commit (Commit now sc p st_read) = True"
| "is_commit _ = False"

lemma run_op_core:
  assumes "\<not> is_commit op"
  shows "map receipt_core (receipts (run_op op st)) = map receipt_core (receipts st)"
    and "map intent_core (intents (run_op op st)) = map intent_core (intents st)"
proof -
  have "map receipt_core (receipts (run_op op st)) = map receipt_core (receipts st) \<and>
    map intent_core (intents (run_op op st)) = map intent_core (intents st)"
  proof (cases op)
    case (Commit now sc p st_read)
    then show ?thesis using assms by simp
  next
    case (Redrive k actor now opts)
    show ?thesis
      by (cases rule: redrive_cases [of k actor now opts st])
        (auto simp: Redrive map_update_where row_simps)
  next
    case (Complete_Write args row)
    then obtain e where "run_op op st = put_receipt (rc_receiptId row) e st"
      using completeReceipt_write_puts [of args row st] by auto
    then show ?thesis by (simp add: same_receipts_core [OF put_receipt_frame])
  next
    case (Complete args)
    then show ?thesis using completeReceipt_puts [of args st]
      by (auto intro!: same_receipts_core [OF put_receipt_frame])
  next
    case (Reset_Receipt now k)
    then show ?thesis by (simp only: run_op_reset_receipt) (simp add: map_update_where row_simps)
  next
    case (Reset_Intent now k)
    then show ?thesis by (simp only: run_op_reset_intent) (simp add: map_update_where row_simps)
  next
    case (Create_Recovery ids now args)
    then show ?thesis by (simp add: run_op_recovery del: run_op.simps)
  next
    case (Complete_Recovery k status now)
    then show ?thesis by (simp add: run_op_recovery del: run_op.simps)
  qed (simp_all add: same_receipts_core lease_ops_frame lease_ops_intent_core
        claimNextIntent_core claims_intents)
  then show "map receipt_core (receipts (run_op op st)) = map receipt_core (receipts st)"
    and "map intent_core (intents (run_op op st)) = map intent_core (intents st)" by auto
qed

lemma run_op_commit:
  assumes "op = Commit now sc p st_read"
  obtains (same) "run_op op st = st"
  | (added) dk res where "commitReceiptWithIntents now sc p st_read st = Inr (res, run_op op st)"
      "receipts (run_op op st) = receipts st @ [new_receipt now sc p dk]"
      "intents (run_op op st) = intents st @
         map (buildPersistedIntent now (rc_receiptId (new_receipt now sc p dk))) (cp_intents p)"
      "\<not> insert_conflicts (new_receipt now sc p dk) st"
proof (cases "commitReceiptWithIntents now sc p st_read st")
  case (Inl f)
  then show ?thesis using same by (simp add: assms)
next
  case (Inr x)
  then obtain res st' where c: "commitReceiptWithIntents now sc p st_read st = Inr (res, st')"
    by (cases x) auto
  then have op: "run_op op st = st'" by (simp add: assms)
  from c show ?thesis
  proof (cases rule: commit_cases)
    case existing
    then show ?thesis using same op by simp
  next
    case (created dk)
    have "receipts st' = receipts st @ [new_receipt now sc p dk]"
      using arg_cong [OF created(7), of receipts] by simp
    then show ?thesis using create_intents_result [OF created(6)] created(2,5) c
      by (intro added) (simp_all add: op)
  qed
qed

lemma run_op_extends: "extends st (run_op op st)"
proof (cases op)
  case (Commit now sc p st_read)
  then show ?thesis by (cases rule: run_op_commit [of op now sc p st_read st]) (simp_all add: extends_def)
qed (rule extends_eq; rule run_op_core; simp)+

lemma run_extends: "store_reaches (st, issued) (st', issued') \<Longrightarrow> extends st st'"
  by (erule store_reaches_invariant [where P = "\<lambda>s _. extends st s"])
    (auto intro: extends_trans run_op_extends)

text \<open>The columns a prefix of cores determines.\<close>

lemma extends_receipt:
  assumes "extends st st'" and "r \<in> set (receipts st)"
  shows "\<exists>r' \<in> set (receipts st'). receipt_core r' = receipt_core r"
proof -
  have "receipt_core r \<in> set (map receipt_core (receipts st'))"
    using assms set_mono_prefix [of "map receipt_core (receipts st)" "map receipt_core (receipts st')"]
    unfolding extends_def by auto
  then show ?thesis by auto
qed

section \<open>Uniqueness invariants\<close>

lemma scopes_ok_core: "scopes_ok st \<longleftrightarrow> distinct (map (fst \<circ> snd) (map receipt_core (receipts st)))"
  by (simp add: scopes_ok_def receipt_core_def comp_def)

lemma intents_owned_core:
  "intents_owned st \<longleftrightarrow>
     di_receiptId ` set (map intent_core (intents st)) \<subseteq> fst ` set (map receipt_core (receipts st))"
  by (simp add: intents_owned_def receipt_core_def intent_core_def image_image)

lemma run_op_scopes: "scopes_ok st \<Longrightarrow> scopes_ok (run_op op st)"
proof (cases op)
  case (Commit now sc p st_read)
  assume "scopes_ok st"
  then show ?thesis
    by (cases rule: run_op_commit [OF Commit, of st]) (auto intro: commit_scopes)
qed (simp_all only: scopes_ok_core run_op_core is_commit.simps not_False_eq_True)

lemma run_op_owned: "intents_owned st \<Longrightarrow> intents_owned (run_op op st)"
proof (cases op)
  case (Commit now sc p st_read)
  assume "intents_owned st"
  then show ?thesis
    by (cases rule: run_op_commit [OF Commit, of st]) (auto intro: commit_owned)
qed (simp_all only: intents_owned_core run_op_core is_commit.simps not_False_eq_True)

section \<open>The life of a receipt\<close>

text \<open>The moves of a receipt, one per kind of write, with the state each starts from.\<close>

inductive receipt_moves :: "receipt \<Rightarrow> receipt \<Rightarrow> bool" where
  stays: "receipt_moves r r"
| claimed: "rc_state r = R_PENDING \<or> rc_state r = R_RETRY_SCHEDULED \<Longrightarrow>
    receipt_moves r (grant_receipt w t now d r)"
| renewed: "rc_state r = R_LEASED \<Longrightarrow> receipt_moves r (renew_receipt now d r)"
| finished: "rc_state r = R_LEASED \<Longrightarrow> receipt_moves r (end_receipt e r)"
| redrive: "rc_state r = R_DEAD_LETTERED \<Longrightarrow> receipt_moves r (redriven now a r)"

inductive_simps receipt_moves_iff: "receipt_moves r r'"

text \<open>The transactions whose read and write are one atomic step.\<close>

fun serial :: "store_op \<Rightarrow> bool" where
  "serial (Complete_Write args row) = False"
| "serial _ = True"

lemma moves_update:
  "(\<And>r. r \<in> set rows \<Longrightarrow> p r \<Longrightarrow> receipt_moves r (f r)) \<Longrightarrow>
   list_all2 receipt_moves rows (update_where p f rows)"
  by (rule list_all2_update_where [OF stays])

lemma moves_refl: "list_all2 receipt_moves rows rows"
  by (rule list.rel_refl) (rule stays)

lemma moves_key_update:
  assumes "store_ok issued st" and "row \<in> set (receipts st)" and "receipt_moves row (f row)"
  shows "list_all2 receipt_moves (receipts st) (update_where (\<lambda>r. rc_receiptId r = rc_receiptId row) f (receipts st))"
proof (rule moves_update)
  fix r assume "r \<in> set (receipts st)" and "rc_receiptId r = rc_receiptId row"
  then have "r = row"
    using distinct_key_eq [OF receipt_lease.ok_distinct [OF store_okD(1) [OF assms(1)]]] assms(2) by blast
  then show "receipt_moves r (f r)" using assms(3) by simp
qed

lemma run_op_moves:
  assumes ok: "store_ok issued st" and "serial op" and commit: "\<not> is_commit op"
  shows "list_all2 receipt_moves (receipts st) (receipts (run_op op st))"
proof (cases op)
  case (Commit now sc p st_read)
  then show ?thesis using commit by simp
next
  case (Claim_Next locked args)
  obtain res st' where c: "claimNextReceipt locked args st = (res, st')"
    by (cases "claimNextReceipt locked args st")
  from c show ?thesis
    by (cases rule: claimNextReceipt_cases)
      (auto simp: Claim_Next c moves_refl receipt_eligible_def intro!: moves_key_update [OF ok] claimed)
next
  case (Claim_Specific args sc)
  obtain res st' where c: "claimSpecificReceipt args sc st = (res, st')"
    by (cases "claimSpecificReceipt args sc st")
  from c show ?thesis
    by (cases rule: claimSpecificReceipt_cases)
      (auto simp: Claim_Specific c moves_refl intro!: moves_key_update [OF ok] claimed)
next
  case (Claim_Intent locked args)
  obtain res st' where c: "claimNextIntent locked args st = (res, st')"
    by (cases "claimNextIntent locked args st")
  from c show ?thesis by (cases rule: claimNextIntent_cases) (auto simp: Claim_Intent c moves_refl)
next
  case (Extend k t w d now)
  then show ?thesis
    by (cases k) (auto simp: held_receipt_def moves_refl intro!: moves_update renewed)
next
  case (Release k t w)
  then show ?thesis
    by (cases k) (auto simp: held_receipt_def moves_refl intro!: moves_update finished)
next
  case (Complete args)
  show ?thesis
  proof (cases "completeReceipt_read args st")
    case None
    then show ?thesis by (simp add: Complete completeReceipt_def moves_refl)
  next
    case (Some row)
    then have row: "row \<in> set (receipts st)" "rc_state row = R_LEASED"
      using find_SomeD by (fastforce simp: completeReceipt_read_def held_receipt_def)+
    obtain e where "snd (completeReceipt_write args row st) = put_receipt (rc_receiptId row) e st"
      using completeReceipt_write_puts by blast
    then show ?thesis
      using moves_key_update [OF ok row(1), of "end_receipt e"] finished [OF row(2)]
      by (simp add: Complete completeReceipt_def Some put_receipt_def)
  qed
next
  case (Complete_Intent t w oc)
  then show ?thesis by (simp add: completeIntent_def Let_def moves_refl split: option.split)
next
  case (Reclaim now)
  then show ?thesis
    by (auto simp: reclaimExpiredLeases_def expired_receipt_def intro!: moves_update finished)
next
  case (Release_All w now)
  then show ?thesis by (auto simp: releaseAllForWorker_def Let_def intro!: moves_update finished)
next
  case (Redrive k actor now opts)
  show ?thesis
  proof (cases rule: redrive_cases [of k actor now opts st])
    case refused
    then show ?thesis by (simp add: Redrive moves_refl)
  next
    case (reset row res)
    from receipt_at_SomeD [OF reset(1)] have row: "row \<in> set (receipts st)" "k = rc_receiptId row" by auto
    show ?thesis
      using reset(5) moves_key_update [OF ok row(1), of "redriven now a" for a] redrive [OF reset(2)]
      by (simp add: Redrive row(2))
  qed
next
  case (Reset_Receipt now k)
  then show ?thesis
    by (simp only: run_op_reset_receipt) (auto simp: expired_receipt_def intro!: moves_update finished)
next
  case (Reset_Intent now k)
  then show ?thesis by (simp only: run_op_reset_intent) (simp add: moves_refl)
next
  case (Create_Recovery ids now args)
  then show ?thesis by (simp only: run_op_recovery moves_refl)
next
  case (Complete_Recovery k status now)
  then show ?thesis by (simp only: run_op_recovery moves_refl)
qed (use assms in simp)

text \<open>After a serial transaction a receipt is where its state machine lets it be.\<close>

lemma run_op_receipt:
  assumes "store_ok issued st" and "serial op" and "r \<in> set (receipts st)"
  shows "\<exists>r' \<in> set (receipts (run_op op st)). receipt_moves r r'"
proof (cases "is_commit op")
  case True
  then obtain now sc p st_read where "op = Commit now sc p st_read" by (cases op) auto
  then have "r \<in> set (receipts (run_op op st))"
    using assms(3) by (cases rule: run_op_commit [of op now sc p st_read st]) auto
  then show ?thesis using stays by blast
next
  case False
  from run_op_moves [OF assms(1,2) False] assms(3) show ?thesis
    by (auto simp: list_all2_conv_all_nth in_set_conv_nth) (metis nth_mem)
qed

lemma state_writes:
  "rc_state (grant_receipt w t now d r) = R_LEASED"
  "rc_state (renew_receipt now d r) = rc_state r"
  "rc_state (redriven now a r) = R_PENDING"
  "rc_state (end_receipt e r) \<in> {R_PENDING, R_DELIVERED, R_RETRY_SCHEDULED, R_DEAD_LETTERED}"
  by (simp_all add: grant_receipt_def renew_receipt_def redriven_def)
    (cases e; simp add: end_receipt.simps)

lemma receipt_moves_state:
  assumes "receipt_moves r r'"
  shows "receipt_core r' = receipt_core r \<and>
    (rc_state r' = rc_state r \<or>
     (rc_state r \<in> {R_PENDING, R_RETRY_SCHEDULED} \<and> rc_state r' = R_LEASED) \<or>
     (rc_state r = R_LEASED \<and>
        rc_state r' \<in> {R_PENDING, R_DELIVERED, R_RETRY_SCHEDULED, R_DEAD_LETTERED}) \<or>
     (rc_state r = R_DEAD_LETTERED \<and> rc_state r' = R_PENDING))"
  using assms
proof cases
  case (finished e)
  then show ?thesis using state_writes(4) [of e r] by (simp add: core_writes)
qed (auto simp: core_writes state_writes)

section \<open>Invariants of single receipts\<close>

text \<open>Every row of the store after a transaction came from a row by one of the writes.\<close>

inductive receipt_writes :: "receipt \<Rightarrow> receipt \<Rightarrow> bool" where
  write_move: "receipt_moves r r' \<Longrightarrow> receipt_writes r r'"
| write_end: "receipt_writes r (end_receipt e r)"

lemma run_op_writes:
  assumes ok: "store_ok issued st" and r': "r' \<in> set (receipts (run_op op st))"
  shows "(\<exists>r \<in> set (receipts st). receipt_writes r r') \<or> (\<exists>now sc p dk. r' = new_receipt now sc p dk)"
proof (cases "is_commit op")
  case True
  then obtain now sc p st_read where op: "op = Commit now sc p st_read" by (cases op) auto
  have "r' \<in> set (receipts st) \<or> (\<exists>dk. r' = new_receipt now sc p dk)"
    using r' by (cases rule: run_op_commit [OF op, of st]) auto
  then show ?thesis using write_move [OF stays [of r']] by blast
next
  case False
  show ?thesis
  proof (cases "serial op")
    case True
    from run_op_moves [OF ok True False] r' obtain r where "r \<in> set (receipts st)" "receipt_moves r r'"
      by (auto simp: list_all2_conv_all_nth in_set_conv_nth) (metis nth_mem)
    then show ?thesis using write_move by blast
  next
    case False
    then obtain args row where op: "op = Complete_Write args row" by (cases op) auto
    obtain e where "run_op op st = put_receipt (rc_receiptId row) e st"
      using completeReceipt_write_puts [of args row st] by (auto simp: op)
    then show ?thesis using r'
      by (auto simp: put_receipt_def set_update_where intro: write_end write_move stays)
  qed
qed

text \<open>
  Attempts are never negative; a leased receipt has been attempted and has no next attempt
  time (the claim cleared it); and no code ever sets the idempotency key.
\<close>

definition sane_receipt :: "receipt \<Rightarrow> bool" where
  "sane_receipt r \<longleftrightarrow>
     0 \<le> rc_attempts r \<and>
     (rc_state r = R_LEASED \<longrightarrow> 1 \<le> rc_attempts r \<and> rc_nextAttemptAt r = None) \<and>
     rc_idempotencyKey r = None"

lemma sane_new: "sane_receipt (new_receipt now sc p dk)"
  by (simp add: sane_receipt_def)

lemma sane_end: "sane_receipt r \<Longrightarrow> sane_receipt (end_receipt e r)"
  using receipt_lease.leased_finish [of e r] identity_fields(3) [OF receipt_identity_writes(3) [of e r]]
  by (simp add: sane_receipt_def attempts_writes)

lemma sane_moves: "receipt_moves r r' \<Longrightarrow> sane_receipt r \<Longrightarrow> sane_receipt r'"
proof (induction rule: receipt_moves.induct)
  case (finished r e)
  then show ?case by (intro sane_end)
qed (auto simp: sane_receipt_def grant_receipt_def renew_receipt_def)

lemma sane_writes: "receipt_writes r r' \<Longrightarrow> sane_receipt r \<Longrightarrow> sane_receipt r'"
  by (erule receipt_writes.cases) (auto intro: sane_moves sane_end)

lemma run_op_sane:
  assumes "store_ok issued st" and "\<forall>r \<in> set (receipts st). sane_receipt r"
    and "r' \<in> set (receipts (run_op op st))"
  shows "sane_receipt r'"
  using run_op_writes [OF assms(1,3)] assms(2) sane_writes sane_new by blast

end
