(* ===== verification/Samples.thy ===== *)
theory Samples
  imports Store_System
begin

text \<open>
  Concrete runs of the store the examples of the development evaluate: one receipt that is
  committed, claimed, completed and redriven.
\<close>

definition sample_scope :: receipt_scope where
  "sample_scope = \<lparr>sc_organizationId = ''org1'', sc_provider = ''zalo'', sc_connectionId = ''c1'',
                   sc_eventId = ''ev1''\<rparr>"

definition sample_intent :: intent_input where
  "sample_intent =
     \<lparr>ii_intentId = ''i1'', ii_schemaVersion = ''1'', ii_organizationId = ''org1'',
      ii_correlationId = ''k1'', ii_sourceCommandId = ''cmd1'', ii_dedupeKey = ''d1'',
      ii_destination = JNull, ii_template = JNull, ii_policy = JNull, ii_channel = JNull\<rparr>"

definition sample_payload :: "string \<Rightarrow> intent_input list \<Rightarrow> commit_payload" where
  "sample_payload digest its =
     \<lparr>cp_schemaVersion = ''1'',
      cp_receipt = \<lparr>er_organizationId = ''org1'', er_payloadDigest = digest,
                    er_duplicateKind = ''DEDUPE'', er_resolvedAt = None, er_reasonCode = None\<rparr>,
      cp_intents = its, cp_correlationId = None, cp_commandRefsJson = None\<rparr>"

definition sample_claim :: "string \<Rightarrow> int \<Rightarrow> claim_args" where
  "sample_claim t now =
     \<lparr>ca_workerId = ''w-'' @ t, ca_leaseDurationMs = 30, ca_now = now, ca_token = t,
      ca_maxPerPoll = None, ca_organizationId = None, ca_receiptId = None\<rparr>"

definition sample_error :: store_error where
  "sample_error = storeError ''TRANSACTION_FAILED'' (Some True) None"

definition sample_complete :: "string \<Rightarrow> outcome \<Rightarrow> int \<Rightarrow> complete_args" where
  "sample_complete t oc now =
     \<lparr>co_fencingToken = t, co_leaseOwner = ''w-'' @ t, co_outcome = oc,
      co_error = (if oc = SUCCESS then None else Some sample_error),
      co_retryPolicy = Some DEFAULT_RETRY_POLICY, co_now = now, co_backoffNow = now,
      co_random = 1 / 2\<rparr>"

text \<open>The stores after a commit, a claim, and the reclaim of the expired lease.\<close>

definition sample_pending :: store where
  "sample_pending =
     run_op (Commit 5 sample_scope (sample_payload ''dig'' [sample_intent]) empty_store) empty_store"

definition sample_leased :: store where
  "sample_leased = run_op (Claim_Next {} (sample_claim ''t1'' 10)) sample_pending"

definition sample_reclaimed :: store where
  "sample_reclaimed = run_op (Reclaim 100) sample_leased"

definition sample_receipt :: receipt where
  "sample_receipt = new_receipt 5 sample_scope (sample_payload ''dig'' [sample_intent]) DEDUPE"

lemmas sample_args = sample_scope_def sample_intent_def sample_payload_def sample_claim_def
  sample_error_def sample_complete_def

lemma sample_pending_eq:
  "sample_pending = \<lparr>receipts = [sample_receipt],
     intents = [buildPersistedIntent 5 (rc_receiptId sample_receipt) sample_intent],
     recoveries = []\<rparr>"
  by code_simp

lemma sample_leased_eq:
  "receipts sample_leased = [grant_receipt ''w-t1'' ''t1'' 10 30 sample_receipt]"
  "intents sample_leased = intents sample_pending"
  "recoveries sample_leased = []"
  by code_simp+

lemma sample_reclaimed_eq:
  "receipts sample_reclaimed =
     [end_receipt (Receipt_Reset None) (grant_receipt ''w-t1'' ''t1'' 10 30 sample_receipt)]"
  "intents sample_reclaimed = intents sample_pending"
  by code_simp+

lemma sample_pending_reachable: "reachable sample_pending {}"
  using reachable_op [OF reachable_empty, of "Commit 5 sample_scope (sample_payload ''dig'' [sample_intent]) empty_store"]
  by (simp only: sample_pending_def issues.simps Int_empty_left Un_empty_right)

lemma sample_leased_reachable: "reachable sample_leased {''t1''}"
  using reachable_op [OF sample_pending_reachable, of "Claim_Next {} (sample_claim ''t1'' 10)"]
  by (simp add: sample_leased_def sample_claim_def del: run_op.simps)

lemma sample_reclaimed_reachable: "reachable sample_reclaimed {''t1''}"
  using reachable_op [OF sample_leased_reachable, of "Reclaim 100"]
  by (simp add: sample_reclaimed_def del: run_op.simps)

end
