(* ===== verification/Store_Properties.thy ===== *)
theory Store_Properties
  imports Samples
begin

text \<open>
  Properties of the leased store over all its runs: fencing, exclusive leases, durability
  of rows, the life of a receipt, and what the READ COMMITTED gap of a completion allows.
\<close>

section \<open>Fencing and the lease invariant\<close>

lemma reachable_ok: "reachable st issued \<Longrightarrow> store_ok issued st"
  by (erule reachable_invariant) (simp add: empty_store_def store_ok_def lease_ok_def, rule run_op_ok)

lemma reachable_scopes: "reachable st issued \<Longrightarrow> scopes_ok st"
  by (erule reachable_invariant) (simp add: empty_store_def scopes_ok_def, rule run_op_scopes)

lemma reachable_owned: "reachable st issued \<Longrightarrow> intents_owned st"
  by (erule reachable_invariant) (simp add: empty_store_def intents_owned_def, rule run_op_owned)

lemma reachable_rows:
  assumes "reachable st issued" and "r \<in> set (receipts st)"
  shows "sane_receipt r"
proof -
  have "store_ok issued st \<and> (\<forall>r \<in> set (receipts st). sane_receipt r)"
  proof (rule reachable_invariant [OF assms(1)])
    show "store_ok {} empty_store \<and> (\<forall>r \<in> set (receipts empty_store). sane_receipt r)"
      using reachable_ok [OF reachable_empty] by (simp add: empty_store_def)
  next
    fix op st issued
    assume inv: "store_ok issued st \<and> (\<forall>r \<in> set (receipts st). sane_receipt r)"
      and "issues op \<inter> issued = {}"
    then show "store_ok (issued \<union> issues op) (run_op op st) \<and>
        (\<forall>r \<in> set (receipts (run_op op st)). sane_receipt r)"
      using run_op_ok run_op_sane by blast
  qed
  then show ?thesis using assms(2) by blast
qed

lemma lost_along_run:
  assumes "store_reaches (st, issued) (st', issued')" and "t \<in> issued" and "token_lost t st"
  shows "token_lost t st'"
proof -
  have "t \<in> issued' \<and> token_lost t st'"
    by (rule store_reaches_invariant [OF assms(1), where P = "\<lambda>s i. t \<in> i \<and> token_lost t s"])
      (use assms in \<open>auto intro: run_op_lost\<close>)
  then show ?thesis by simp
qed

text \<open>C1. A worker whose lease was lost can never act on it again: once an issued fencing
  token is no longer held by any row, in every later state, whatever transactions ran in
  between, completing, heartbeating or releasing with that token is rejected and leaves the
  store unchanged.\<close>

theorem lost_lease_is_fenced_forever:
  assumes "store_reaches (st, issued) (st', issued')" and "t \<in> issued" and "token_lost t st"
    and "co_fencingToken args = t"
  shows "completeReceipt args st' =
      (\<lparr>cs_state = C_DELIVERED, cs_nextAttemptAt = None, cs_fencedRejected = True\<rparr>, st') \<and>
    completeIntent t w oc st' = ((I_DELIVERED, True), st') \<and>
    extendLease k t w d now st' = (False, st') \<and>
    releaseLease k t w st' = (False, st')"
  using lost_along_run [OF assms(1-3)] assms(4)
  by (simp_all add: completeReceipt_fenced completeIntent_fenced extendLease_fenced releaseLease_fenced)

lemma sample_lost: "token_lost ''t1'' sample_reclaimed"
  by code_simp

theorem lost_lease_is_fenced_forever_witness:
  "completeReceipt (sample_complete ''t1'' SUCCESS 120)
     (run_op (Claim_Next {} (sample_claim ''t2'' 110)) sample_reclaimed) =
   (\<lparr>cs_state = C_DELIVERED, cs_nextAttemptAt = None, cs_fencedRejected = True\<rparr>,
    run_op (Claim_Next {} (sample_claim ''t2'' 110)) sample_reclaimed)"
  using lost_lease_is_fenced_forever
      [OF store_reaches_op [of "Claim_Next {} (sample_claim ''t2'' 110)" "{''t1''}" sample_reclaimed]
          _ sample_lost, of "sample_complete ''t1'' SUCCESS 120"]
  by (simp add: sample_claim_def sample_complete_def del: run_op.simps)



section \<open>Claims\<close>

definition claimable :: "claim_args \<Rightarrow> string set \<Rightarrow> receipt \<Rightarrow> bool" where
  "claimable args locked r \<longleftrightarrow>
     receipt_eligible (ca_now args) (nullish (ca_organizationId args) []) r \<and>
     rc_receiptId r \<notin> locked"

text \<open>\<open>claimNextReceipt\<close> hands out the eligible receipt, not locked by another
  transaction, that was first seen earliest; the claim carries its identity and its attempt
  count after the claim, and the stored row becomes LEASED by the caller under the new token,
  with no next attempt time. With no such receipt it returns nothing and writes nothing.\<close>

lemma claim_takes_first_seen:
  assumes "reachable st issued" and "ca_maxPerPoll args \<noteq> Some 0"
  shows "(\<forall>r \<in> set (receipts st). \<not> claimable args locked r) \<and> claimNextReceipt locked args st = (None, st) \<or>
    (\<exists>row c st'. row \<in> set (receipts st) \<and> claimable args locked row \<and>
       (\<forall>x \<in> set (receipts st). claimable args locked x \<longrightarrow> rc_firstSeenAt row \<le> rc_firstSeenAt x) \<and>
       claimNextReceipt locked args st = (Some c, st') \<and>
       cr_receiptId c = rc_receiptId row \<and> cr_attempts c = rc_attempts row + 1 \<and>
       lh_fencingToken c = ca_token args \<and>
       receipt_at (rc_receiptId row) st' =
         Some (grant_receipt (ca_workerId args) (ca_token args) (ca_now args)
                 (ca_leaseDurationMs args) row))"
proof -
  obtain res st' where c: "claimNextReceipt locked args st = (res, st')"
    by (cases "claimNextReceipt locked args st")
  from c show ?thesis
  proof (cases rule: claimNextReceipt_cases)
    case none
    have "filter (claimable args locked) (receipts st) = []"
    proof (rule ccontr)
      let ?rows = "order_asc rc_firstSeenAt (filter (claimable args locked) (receipts st))"
      assume "filter (claimable args locked) (receipts st) \<noteq> []"
      then obtain row rest where r: "?rows = row # rest"
        using set_order_asc [of rc_firstSeenAt "filter (claimable args locked) (receipts st)"]
        by (cases ?rows) auto
      obtain n where "nullish (ca_maxPerPoll args) 1 = Suc n"
        using assms(2) by (cases "ca_maxPerPoll args"; cases "nullish (ca_maxPerPoll args) 1") auto
      have "filter (claimable args locked) (receipts st) =
          filter (\<lambda>r. receipt_eligible (ca_now args) (nullish (ca_organizationId args) []) r \<and>
                       rc_receiptId r \<notin> locked) (receipts st)"
        by (rule filter_cong [OF refl]) (simp add: claimable_def)
      with r \<open>nullish (ca_maxPerPoll args) 1 = Suc n\<close> have "fst (claimNextReceipt locked args st) \<noteq> None"
        by (simp add: claimNextReceipt_def Let_def)
      then show False using c none(1) by simp
    qed
    then show ?thesis using c none by (simp add: filter_empty_conv)
  next
    case (some row)
    have "receipt_at (rc_receiptId row) st' =
         Some (grant_receipt (ca_workerId args) (ca_token args) (ca_now args)
                 (ca_leaseDurationMs args) row)"
      using receipt_at_mem [OF reachable_ok [OF assms(1)] some(1)]
      by (simp add: some(6) receipt_at_update)
    then show ?thesis
      using some c by (intro disjI2 exI [of _ row]) (auto simp: claimable_def claimed_receipt_of_def)
  qed
qed

section \<open>Durability and the life of a receipt\<close>

text \<open>No run loses or rewrites what was committed: along every run the receipts keep
  their order, ids, scopes, digests, idempotency keys and first-seen times, and the intents
  everything but their lease columns; new rows only appear at the end.\<close>

lemma committed_rows_are_durable:
  assumes "store_reaches (st, issued) (st', issued')"
  shows "prefix (map receipt_core (receipts st)) (map receipt_core (receipts st')) \<and>
    prefix (map intent_core (intents st)) (map intent_core (intents st'))"
  using run_extends [OF assms] by (simp_all add: extends_def)

text \<open>A delivered receipt is final: no transaction that reads and writes atomically
  changes any column of it, in any reachable state.\<close>

lemma delivered_receipt_is_final:
  assumes "reachable st issued" and "r \<in> set (receipts st)" and "rc_state r = R_DELIVERED"
    and "serial op"
  shows "r \<in> set (receipts (run_op op st))"
  using run_op_receipt [OF reachable_ok [OF assms(1)] assms(4,2)] assms(3)
  by (auto simp: receipt_moves_iff)

definition sample_delivered :: store where
  "sample_delivered = run_op (Complete (sample_complete ''t1'' SUCCESS 20)) sample_leased"

lemma sample_delivered_reachable: "reachable sample_delivered {''t1''}"
  using reachable_op [OF sample_leased_reachable, of "Complete (sample_complete ''t1'' SUCCESS 20)"]
  by (simp add: sample_delivered_def del: run_op.simps)

text \<open>C6. The state machine of a receipt: an atomic transaction takes a receipt from PENDING
  or RETRY_SCHEDULED only to LEASED (a claim), from LEASED to PENDING, DELIVERED,
  RETRY_SCHEDULED or DEAD_LETTERED or leaves it LEASED, from DEAD_LETTERED only to PENDING
  (a redrive), and from every other state nowhere.\<close>

theorem receipt_state_machine:
  assumes "reachable st issued" and "r \<in> set (receipts st)" and "serial op"
  shows "\<exists>r' \<in> set (receipts (run_op op st)). receipt_core r' = receipt_core r \<and>
    (rc_state r' = rc_state r \<or>
     (rc_state r \<in> {R_PENDING, R_RETRY_SCHEDULED} \<and> rc_state r' = R_LEASED) \<or>
     (rc_state r = R_LEASED \<and>
        rc_state r' \<in> {R_PENDING, R_DELIVERED, R_RETRY_SCHEDULED, R_DEAD_LETTERED}) \<or>
     (rc_state r = R_DEAD_LETTERED \<and> rc_state r' = R_PENDING))"
proof -
  obtain r' where "r' \<in> set (receipts (run_op op st))" "receipt_moves r r'"
    using run_op_receipt [OF reachable_ok [OF assms(1)] assms(3,2)] by blast
  then show ?thesis using receipt_moves_state by blast
qed

theorem receipt_state_machine_witness:
  "\<exists>r' \<in> set (receipts (run_op (Claim_Next {} (sample_claim ''t1'' 10)) sample_pending)).
     receipt_core r' = receipt_core sample_receipt"
  using receipt_state_machine [OF sample_pending_reachable, of sample_receipt
      "Claim_Next {} (sample_claim ''t1'' 10)"]
  by (auto simp: sample_pending_eq simp del: run_op.simps)

section \<open>The gap between the read and the write of a completion\<close>

text \<open>C9. The write of a completion is not fenced: it addresses the row by its id only, so
  when the row read earlier has meanwhile been reclaimed and leased to another worker, the
  stale write still reports an accepted completion and ends the other worker's lease.\<close>

theorem stale_completion_ends_new_lease:
  assumes "receipt_at (rc_receiptId row) st = Some cur" and "held_receipt t' w' cur"
    and "t' \<noteq> co_fencingToken args"
  shows "\<not> cs_fencedRejected (fst (completeReceipt_write args row st)) \<and>
    (\<exists>e. receipt_at (rc_receiptId row) (snd (completeReceipt_write args row st)) =
           Some (end_receipt e cur)) \<and>
    (\<exists>r. receipt_at (rc_receiptId row) (snd (completeReceipt_write args row st)) = Some r \<and>
         rc_state r \<noteq> R_LEASED \<and> rc_fencingToken r = None)"
proof (intro conjI)
  obtain e where e: "snd (completeReceipt_write args row st) = put_receipt (rc_receiptId row) e st"
    using completeReceipt_write_puts by blast
  show "\<not> cs_fencedRejected (fst (completeReceipt_write args row st))"
    by (simp add: completeReceipt_write_def Let_def split: terminal.split option.split)
  show "\<exists>e. receipt_at (rc_receiptId row) (snd (completeReceipt_write args row st)) =
               Some (end_receipt e cur)"
    using assms(1) by (auto simp: e)
  show "\<exists>r. receipt_at (rc_receiptId row) (snd (completeReceipt_write args row st)) = Some r \<and>
             rc_state r \<noteq> R_LEASED \<and> rc_fencingToken r = None"
    using assms(1) receipt_lease.leased_finish receipt_lease.token_finish by (auto simp: e)
qed

definition sample_stolen :: store where
  "sample_stolen = run_op (Claim_Next {} (sample_claim ''t2'' 110)) sample_reclaimed"

theorem stale_completion_ends_new_lease_witness:
  "\<not> cs_fencedRejected (fst (completeReceipt_write (sample_complete ''t1'' SUCCESS 120)
       (hd (receipts sample_leased)) sample_stolen))"
proof (rule conjunct1 [OF stale_completion_ends_new_lease])
  show "receipt_at (rc_receiptId (hd (receipts sample_leased))) sample_stolen =
      Some (hd (receipts sample_stolen))" by code_simp
  show "held_receipt ''t2'' ''w-t2'' (hd (receipts sample_stolen))" by code_simp
  show "''t2'' \<noteq> co_fencingToken (sample_complete ''t1'' SUCCESS 120)"
    by (simp add: sample_complete_def)
qed

end
