(* ===== verification/Retry_Properties.thy ===== *)
theory Retry_Properties
  imports Store_Properties
begin

text \<open>
  Properties of completions and retries: the decision of a completion, the bounds of the
  backoff, the bound on the number of attempts, and the sweeps that end expired leases.
\<close>

section \<open>The decision of a completion\<close>


lemma sample_held:
  "hd (receipts sample_leased) \<in> set (receipts sample_leased)"
  "held_receipt (co_fencingToken (sample_complete ''t1'' oc n))
     (co_leaseOwner (sample_complete ''t1'' oc n)) (hd (receipts sample_leased))"
  by (simp_all add: sample_leased_eq held_receipt_def sample_complete_def grant_receipt_def)


text \<open>Errors that can never succeed are never retried, whatever the policy: a RETRY
  completion with one of the non-retryable codes (and no explicit retryable flag)
  dead-letters the receipt at once.\<close>

lemma non_retryable_dead_letters:
  assumes "reachable st issued" and "r \<in> set (receipts st)"
    and "held_receipt (co_fencingToken args) (co_leaseOwner args) r"
    and "co_outcome args \<noteq> SUCCESS" and "co_error args = Some e"
    and "\<not> se_retryable e" and "se_code e \<in> set NON_RETRYABLE_CODES"
  shows "receipt_at (rc_receiptId r) (snd (completeReceipt args st)) =
           Some (end_receipt (Receipt_Dead (co_now args) (se_code e)) r)"
proof -
  have "\<not> reschedules args r p" for p
    using assms(5-7) by (simp add: reschedules_def completion_error_def isRetryable_def)
  then have "completeReceipt args st =
      (\<lparr>cs_state = C_DEAD_LETTERED, cs_nextAttemptAt = None, cs_fencedRejected = False\<rparr>,
       put_receipt (rc_receiptId r) (Receipt_Dead (co_now args) (se_code (completion_error args))) st)"
    using completeReceipt_held [OF reachable_ok [OF assms(1)] assms(2,3)]
      completeReceipt_write_dead [OF assms(4)] by simp
  then show ?thesis
    using receipt_at_mem [OF reachable_ok [OF assms(1)] assms(2)] assms(5)
    by (simp add: completion_error_def)
qed

definition sample_invalid :: complete_args where
  "sample_invalid = (sample_complete ''t1'' RETRY 20)\<lparr>co_error := Some (storeError ''VALIDATION_ERROR'' None None)\<rparr>"

section \<open>Backoff\<close>

text \<open>Under a valid policy the next attempt is strictly in the future, no earlier than the
  exponential delay less its jitter and no later than the cap plus its jitter; without jitter
  the delays never shrink from one attempt to the next. (The source says the delay is capped
  at \<open>maxMs\<close>; the jitter is added after the cap, so the bound is \<open>maxMs * (1 + jitter)\<close>.)\<close>

lemma backoff_bounds:
  assumes "assertValidPolicy p = Inr ()" and "0 \<le> n" and "0 \<le> rnd" and "rnd < 1"
  shows "now < computeNextAttemptAt p n rnd now \<and>
    now + js_round (backoff_exp p n * (1 - jitterFraction p)) \<le> computeNextAttemptAt p n rnd now \<and>
    computeNextAttemptAt p n rnd now \<le> now + js_round (maxMs p * (1 + jitterFraction p)) \<and>
    (jitterFraction p = 0 \<longrightarrow>
      computeNextAttemptAt p n rnd now \<le> computeNextAttemptAt p (n + 1) rnd' now)"
proof (intro conjI impI)
  show "now < computeNextAttemptAt p n rnd now"
    and "now + js_round (backoff_exp p n * (1 - jitterFraction p)) \<le> computeNextAttemptAt p n rnd now"
    by (rule computeNextAttemptAt_lower [OF assms])+
  have "backoff_exp p n * (1 + jitterFraction p) \<le> maxMs p * (1 + jitterFraction p)"
    using assms(1) by (intro mult_right_mono backoff_exp_le_max) (auto simp: valid_policy_iff)
  then show "computeNextAttemptAt p n rnd now \<le> now + js_round (maxMs p * (1 + jitterFraction p))"
    using computeNextAttemptAt_upper [OF assms, of now] js_round_mono by fastforce
  show "computeNextAttemptAt p n rnd now \<le> computeNextAttemptAt p (n + 1) rnd' now"
    if "jitterFraction p = 0"
  proof -
    have "backoff_exp p n \<le> backoff_exp p (n + 1)"
      using assms(1,2) by (intro backoff_exp_mono) (auto simp: valid_policy_iff)
    from js_round_mono [OF this] show ?thesis
      using that by (simp add: computeNextAttemptAt_def Let_def)
  qed
qed

text \<open>A rescheduled receipt is not handed out by \<open>claimNextReceipt\<close> before its next
  attempt time, and is claimable again from that time on.\<close>

lemma rescheduled_not_due:
  assumes "receipt_at k (put_receipt k (Receipt_Retry nextAt code) st) = Some r"
    and "rc_organizationId r = org \<or> org = []"
  shows "receipt_eligible now org r \<longleftrightarrow> nextAt \<le> now"
  using assms by (auto simp: receipt_eligible_def end_receipt.simps)

section \<open>The number of attempts\<close>

text \<open>
  One failing round of a worker: it claims the receipt of a scope, and completes it with a
  retryable error under the policy \<open>p\<close>.
\<close>

record failing_round =
  fr_claim :: claim_args
  fr_error :: store_error
  fr_now :: int
  fr_random :: rat

definition round_completion :: "retry_policy \<Rightarrow> failing_round \<Rightarrow> complete_args" where
  "round_completion p f =
     \<lparr>co_fencingToken = ca_token (fr_claim f), co_leaseOwner = ca_workerId (fr_claim f),
      co_outcome = RETRY, co_error = Some (fr_error f), co_retryPolicy = Some p,
      co_now = fr_now f, co_backoffNow = fr_now f, co_random = fr_random f\<rparr>"

definition run_round :: "retry_policy \<Rightarrow> receipt_scope \<Rightarrow> failing_round \<Rightarrow> store \<Rightarrow> store" where
  "run_round p sc f st =
     run_op (Complete (round_completion p f)) (run_op (Claim_Specific (fr_claim f) sc) st)"

text \<open>Tokens are never reused, and the errors are retryable.\<close>

fun good_rounds :: "string set \<Rightarrow> failing_round list \<Rightarrow> bool" where
  "good_rounds issued [] = True"
| "good_rounds issued (f # fs) =
     (ca_token (fr_claim f) \<notin> issued \<and> isRetryable (fr_error f) \<and>
      good_rounds (insert (ca_token (fr_claim f)) issued) fs)"

definition waiting :: "receipt \<Rightarrow> bool" where
  "waiting r \<longleftrightarrow> (rc_state r = R_PENDING \<or> rc_state r = R_RETRY_SCHEDULED) \<and> rc_leaseExpiresAt r = None"

lemma run_round_step:
  assumes ok: "store_ok issued st" and sc: "scopes_ok st" and fresh: "ca_token (fr_claim f) \<notin> issued"
    and retry: "isRetryable (fr_error f)"
    and r: "receipt_at k st = Some r" "scope_of r = sc'" "waiting r"
  shows "\<exists>r'. receipt_at k (run_round p sc' f st) = Some r' \<and> scope_of r' = sc' \<and>
    rc_attempts r' = rc_attempts r + 1 \<and>
    (if rc_attempts r + 1 < maxAttempts p then rc_state r' = R_RETRY_SCHEDULED \<and> waiting r'
     else rc_state r' = R_DEAD_LETTERED) \<and>
    store_ok (insert (ca_token (fr_claim f)) issued) (run_round p sc' f st) \<and>
    scopes_ok (run_round p sc' f st)"
proof -
  let ?c = "fr_claim f"
  let ?g = "grant_receipt (ca_workerId ?c) (ca_token ?c) (ca_now ?c) (ca_leaseDurationMs ?c)"
  let ?st1 = "run_op (Claim_Specific ?c sc') st"
  let ?args = "round_completion p f"
  from receipt_at_SomeD [OF r(1)] have mem: "r \<in> set (receipts st)" and k: "rc_receiptId r = k" by auto
  have "find (in_scope sc') (receipts st) = Some r" using find_scope [OF sc mem] r(2) by simp
  moreover have "(rc_state r = R_PENDING \<or> rc_state r = R_RETRY_SCHEDULED) \<and> rc_leaseExpiresAt r = None"
    using r(3) by (simp add: waiting_def)
  ultimately have st1: "?st1 = st\<lparr>receipts := update_where (\<lambda>x. rc_receiptId x = k) ?g (receipts st)\<rparr>"
    by (auto simp: claimSpecificReceipt_def Let_def k)
  have at1: "receipt_at k ?st1 = Some (?g r)"
    unfolding st1 by (subst receipt_at_update) (simp_all add: r(1) k)
  have ok1: "store_ok (insert (ca_token ?c) issued) ?st1"
    using run_op_ok [OF ok, of "Claim_Specific ?c sc'"] fresh by simp
  have held: "held_receipt (co_fencingToken ?args) (co_leaseOwner ?args) (?g r)"
    by (simp add: held_receipt_def round_completion_def grant_receipt_def)
  have fin: "completeReceipt ?args ?st1 = completeReceipt_write ?args (?g r) ?st1"
    by (rule completeReceipt_held [OF ok1 _ held]) (use receipt_at_SomeD [OF at1] in simp)
  have decide: "reschedules ?args (?g r) q \<longleftrightarrow> q = p \<and> rc_attempts r + 1 < maxAttempts p" for q
    using retry by (auto simp: reschedules_def round_completion_def completion_error_def attempts_writes)
  have round: "run_round p sc' f st = snd (completeReceipt_write ?args (?g r) ?st1)"
    by (simp only: run_round_def run_op.simps(6) fin)
  have gk: "rc_receiptId (?g r) = k" using k by simp
  obtain e where e: "run_round p sc' f st = put_receipt k e ?st1"
    and state: "if rc_attempts r + 1 < maxAttempts p then \<exists>n c. e = Receipt_Retry n c
                else \<exists>n c. e = Receipt_Dead n c"
  proof (cases "rc_attempts r + 1 < maxAttempts p")
    case True
    then have "reschedules ?args (?g r) p" by (simp add: decide)
    from completeReceipt_write_retry [OF this, of ?st1] obtain n c where
      "snd (completeReceipt_write ?args (?g r) ?st1) = put_receipt k (Receipt_Retry n c) ?st1"
      by (simp only: Let_def snd_conv gk)
    then show ?thesis using True by (intro that [of "Receipt_Retry n c"]) (simp_all add: round)
  next
    case False
    then have "\<And>q. \<not> reschedules ?args (?g r) q" by (simp add: decide)
    moreover have "co_outcome ?args \<noteq> SUCCESS" by (simp add: round_completion_def)
    ultimately have "completeReceipt_write ?args (?g r) ?st1 =
      (\<lparr>cs_state = C_DEAD_LETTERED, cs_nextAttemptAt = None, cs_fencedRejected = False\<rparr>,
       put_receipt (rc_receiptId (?g r)) (Receipt_Dead (co_now ?args) (se_code (completion_error ?args))) ?st1)"
      by (intro completeReceipt_write_dead)
    then have "snd (completeReceipt_write ?args (?g r) ?st1) =
        put_receipt k (Receipt_Dead (co_now ?args) (se_code (completion_error ?args))) ?st1"
      by (simp only: snd_conv gk)
    then show ?thesis using False
      by (intro that [of "Receipt_Dead (co_now ?args) (se_code (completion_error ?args))"]) (simp_all add: round)
  qed
  have at: "receipt_at k (run_round p sc' f st) = Some (end_receipt e (?g r))"
    by (simp add: e at1 del: run_op.simps)
  have "store_ok (insert (ca_token ?c) issued) (run_round p sc' f st)"
    unfolding e by (rule put_receipt_ok [OF ok1])
  moreover have "scopes_ok (run_round p sc' f st)"
    unfolding run_round_def by (intro run_op_scopes sc)
  moreover have "if rc_attempts r + 1 < maxAttempts p
      then rc_state (end_receipt e (?g r)) = R_RETRY_SCHEDULED \<and> waiting (end_receipt e (?g r))
      else rc_state (end_receipt e (?g r)) = R_DEAD_LETTERED"
    using state by (auto simp: waiting_def end_receipt.simps split: if_splits)
  ultimately show ?thesis
    using at r(2) by (intro exI [of _ "end_receipt e (?g r)"]) (simp add: attempts_writes)
qed

lemma fail_rounds:
  assumes "store_ok issued st" and "scopes_ok st" and "good_rounds issued fs"
    and "receipt_at k st = Some r" and "scope_of r = sc" and "waiting r"
    and "rc_attempts r + int (length fs) \<le> maxAttempts p" and "fs \<noteq> []"
  shows "\<exists>r'. receipt_at k (fold (run_round p sc) fs st) = Some r' \<and>
    rc_attempts r' = rc_attempts r + int (length fs) \<and>
    rc_state r' = (if rc_attempts r' < maxAttempts p then R_RETRY_SCHEDULED else R_DEAD_LETTERED)"
  using assms
proof (induction fs arbitrary: issued st r)
  case Nil
  then show ?case by simp
next
  case (Cons f fs)
  let ?st = "run_round p sc f st"
  obtain r1 where r1: "receipt_at k ?st = Some r1" "scope_of r1 = sc"
      "rc_attempts r1 = rc_attempts r + 1"
      "if rc_attempts r + 1 < maxAttempts p then rc_state r1 = R_RETRY_SCHEDULED \<and> waiting r1
       else rc_state r1 = R_DEAD_LETTERED"
      "store_ok (insert (ca_token (fr_claim f)) issued) ?st" "scopes_ok ?st"
    using run_round_step [OF Cons.prems(1,2) _ _ Cons.prems(4-6), of f p] Cons.prems(3) by auto
  show ?case
  proof (cases "fs = []")
    case True
    then show ?thesis using r1 by (auto split: if_splits)
  next
    case False
    then have "1 \<le> int (length fs)" by (cases fs) simp_all
    then have "rc_attempts r + 1 < maxAttempts p" using Cons.prems(7) by simp
    then have "waiting r1" using r1(4) by simp
    then show ?thesis
      using Cons.IH [OF r1(5,6) _ r1(1,2)] Cons.prems(3,7) r1(3) False by auto
  qed
qed

text \<open>C3. Retries are bounded and the bound is exact: a committed receipt whose every attempt
  fails with a retryable error stays in RETRY_SCHEDULED for the first \<open>maxAttempts - 1\<close>
  rounds, is DEAD_LETTERED by round \<open>maxAttempts\<close> exactly, and \<open>attempts\<close> counts the rounds.\<close>

theorem failing_receipt_dead_letters:
  assumes "reachable st issued" and "receipt_at k st = Some r" and "rc_state r = R_PENDING"
    and "rc_leaseExpiresAt r = None" and "rc_attempts r = 0"
    and "good_rounds issued fs" and "fs \<noteq> []" and "int (length fs) \<le> maxAttempts p"
  shows "\<exists>r'. receipt_at k (fold (run_round p (scope_of r)) fs st) = Some r' \<and>
    rc_attempts r' = int (length fs) \<and>
    rc_state r' = (if int (length fs) < maxAttempts p then R_RETRY_SCHEDULED else R_DEAD_LETTERED)"
  using fail_rounds [OF reachable_ok [OF assms(1)] reachable_scopes [OF assms(1)] assms(6,2) refl, of p]
    assms(3-5,7,8) by (auto simp: waiting_def)

definition sample_round :: "string \<Rightarrow> failing_round" where
  "sample_round t = \<lparr>fr_claim = sample_claim t 10, fr_error = sample_error, fr_now = 20, fr_random = 1 / 2\<rparr>"

theorem failing_receipt_dead_letters_witness:
  "\<exists>r'. receipt_at (rc_receiptId sample_receipt)
      (fold (run_round (DEFAULT_RETRY_POLICY\<lparr>maxAttempts := 2\<rparr>) (scope_of sample_receipt))
         [sample_round ''a'', sample_round ''b''] sample_pending) = Some r' \<and>
    rc_attempts r' = 2 \<and> rc_state r' = R_DEAD_LETTERED"
  using failing_receipt_dead_letters [OF sample_pending_reachable, of "rc_receiptId sample_receipt"
      sample_receipt "[sample_round ''a'', sample_round ''b'']" "DEFAULT_RETRY_POLICY\<lparr>maxAttempts := 2\<rparr>"]
  by (simp add: receipt_at_def sample_pending_eq sample_receipt_def new_receipt_def sample_round_def
      sample_claim_def sample_error_def isRetryable_def storeError_def)

section \<open>Sweeps\<close>

text \<open>A reclaim at time \<open>now\<close> leaves no receipt and no intent whose lease expired before
  \<open>now\<close>, reports exactly the numbers it reset, does nothing when run again at the same
  time, and makes each reclaimed receipt claimable again at once.\<close>

lemma reclaim_clears_expired:
  assumes "reachable st issued"
  shows "count_where (expired_receipt now) (receipts (snd (reclaimExpiredLeases now st))) = 0 \<and>
    count_where (expired_intent now) (intents (snd (reclaimExpiredLeases now st))) = 0 \<and>
    reclaimExpiredLeases now (snd (reclaimExpiredLeases now st)) =
      ((0, 0), snd (reclaimExpiredLeases now st)) \<and>
    (\<forall>r \<in> set (receipts st). expired_receipt now r \<longrightarrow>
      (\<exists>r'. receipt_at (rc_receiptId r) (snd (reclaimExpiredLeases now st)) = Some r' \<and>
           rc_attempts r' = rc_attempts r \<and> receipt_eligible now [] r'))"
proof (intro conjI ballI impI)
  let ?R = "update_where (expired_receipt now) (end_receipt (Receipt_Reset None)) (receipts st)"
  let ?I = "update_where (expired_intent now) (end_intent (Intent_Reset None)) (intents st)"
  have R: "\<not> expired_receipt now x" if "x \<in> set ?R" for x
    by (rule update_where_clears [OF _ that]) (simp add: expired_receipt_def receipt_lease.leased_finish)
  have I: "\<not> expired_intent now x" if "x \<in> set ?I" for x
    by (rule update_where_clears [OF _ that]) (simp add: expired_intent_def intent_lease.leased_finish)
  have st': "snd (reclaimExpiredLeases now st) = st\<lparr>receipts := ?R, intents := ?I\<rparr>"
    by (simp add: reclaimExpiredLeases_def)
  show "count_where (expired_receipt now) (receipts (snd (reclaimExpiredLeases now st))) = 0"
    and "count_where (expired_intent now) (intents (snd (reclaimExpiredLeases now st))) = 0"
    using R I by (simp_all add: st' count_where_0)
  show "reclaimExpiredLeases now (snd (reclaimExpiredLeases now st)) =
           ((0, 0), snd (reclaimExpiredLeases now st))"
    using R I count_where_0 [of "expired_receipt now" ?R] count_where_0 [of "expired_intent now" ?I]
      update_where_id [of ?R "expired_receipt now"] update_where_id [of ?I "expired_intent now"]
    unfolding st' by (simp add: reclaimExpiredLeases_def)
  show "\<exists>r'. receipt_at (rc_receiptId r) (snd (reclaimExpiredLeases now st)) = Some r' \<and>
           rc_attempts r' = rc_attempts r \<and> receipt_eligible now [] r'"
    if r: "r \<in> set (receipts st)" "expired_receipt now r" for r
  proof -
    have "receipt_at (rc_receiptId r) (st\<lparr>receipts := ?R\<rparr>) = Some (end_receipt (Receipt_Reset None) r)"
      using receipt_at_mem [OF reachable_ok [OF assms] r(1)] r(2) by (simp add: receipt_at_update)
    moreover have "rc_nextAttemptAt r = None"
      using reachable_rows [OF assms r(1)] r(2) by (simp add: sane_receipt_def expired_receipt_def)
    ultimately show ?thesis
      by (intro exI [of _ "end_receipt (Receipt_Reset None) r"])
        (simp add: st' receipt_at_def attempts_writes receipt_eligible_def end_receipt.simps)
  qed
qed

end
