(* ===== verification/Commit_Properties.thy ===== *)
theory Commit_Properties
  imports Retry_Properties
begin

text \<open>
  Properties of the receipt commit and of the dead-letter queue: redelivered events are
  deduplicated, a commit is all or nothing, which events collide, and what a redrive does.
\<close>

section \<open>Commits\<close>

text \<open>A payload the commit accepts for a scope.\<close>

definition acceptable :: "receipt_scope \<Rightarrow> commit_payload \<Rightarrow> bool" where
  "acceptable sc p \<longleftrightarrow>
     \<not> scope_missing sc \<and> er_organizationId (cp_receipt p) = sc_organizationId sc \<and>
     (\<forall>it \<in> set (cp_intents p). ii_organizationId it = sc_organizationId sc) \<and>
     (\<exists>dk. asDuplicateKindEnum (er_duplicateKind (cp_receipt p)) = Inr dk)"

text \<open>The answer to a scope that has a receipt, read now or raced for.\<close>

lemma commit_existing:
  assumes acc: "acceptable sc p" and "scopes_ok st" and row: "row \<in> set (receipts st)" "scope_of row = sc"
    and early: "extends st_read st"
  shows "\<exists>row'. receipt_core row' = receipt_core row \<and>
    commitReceiptWithIntents now sc p st_read st =
      existing_receipt (sc_organizationId sc) (er_payloadDigest (cp_receipt p)) row' st"
proof -
  have found: "find (in_scope sc) (receipts st) = Some row"
    using find_scope [OF assms(2) row(1)] row(2) by simp
  show ?thesis
  proof (cases "find (in_scope sc) (receipts st_read)")
    case None
    obtain dk where dk: "asDuplicateKindEnum (er_duplicateKind (cp_receipt p)) = Inr dk"
      using acc by (auto simp: acceptable_def)
    have "insert_conflicts (new_receipt now sc p dk) st"
      using row by (auto simp: insert_conflicts_def)
    then have "commitReceiptWithIntents now sc p st_read st =
        existing_receipt (sc_organizationId sc) (er_payloadDigest (cp_receipt p)) row st"
      using acc None found dk
      by (auto simp: commitReceiptWithIntents_def acceptable_def Let_def simp del: asDuplicateKindEnum.simps)
    then show ?thesis by blast
  next
    case (Some x)
    then have x: "x \<in> set (receipts st_read)" "scope_of x = sc"
      using find_SomeD [OF Some] by (simp_all add: in_scope_iff)
    from extends_receipt [OF early x(1)] obtain y
      where y: "y \<in> set (receipts st)" "receipt_core y = receipt_core x" by blast
    then have "scope_of y = scope_of row" using x(2) row(2) by (simp add: receipt_core_def)
    then have "y = row" using distinct_key_eq [OF _ y(1) row(1), of scope_of] assms(2)
      by (simp add: scopes_ok_def)
    then have "receipt_core x = receipt_core row" using y(2) by simp
    moreover have "commitReceiptWithIntents now sc p st_read st =
        existing_receipt (sc_organizationId sc) (er_payloadDigest (cp_receipt p)) x st"
      using acc Some by (auto simp: commitReceiptWithIntents_def acceptable_def)
    ultimately show ?thesis by blast
  qed
qed

lemma commit_row:
  assumes "commitReceiptWithIntents now sc p s st = Inr (res, st')" and "extends s st"
  shows "\<exists>row \<in> set (receipts st'). scope_of row = sc \<and> rc_receiptId row = tr_receiptId res \<and>
    rc_payloadDigest row = er_payloadDigest (cp_receipt p)"
  using assms(1)
proof (cases rule: commit_cases)
  case (existing row)
  show ?thesis
  proof (cases "row \<in> set (receipts st)")
    case True
    then show ?thesis using existing by auto
  next
    case False
    then have "row \<in> set (receipts s)" using existing(1) by simp
    from extends_receipt [OF assms(2) this] obtain y
      where "y \<in> set (receipts st)" "receipt_core y = receipt_core row" by blast
    then show ?thesis using existing by (intro bexI [of _ y]) (simp_all add: receipt_core_def)
  qed
next
  case (created dk)
  have "receipts st' = receipts st @ [new_receipt now sc p dk]"
    using arg_cong [OF created(7), of receipts] by simp
  then show ?thesis using created(2) by (intro bexI [of _ "new_receipt now sc p dk"]) simp_all
qed

text \<open>C2. An event is committed exactly once: when a commit of an event returned, then after
  any further run, a redelivery of the event with the same payload digest, also one whose
  first read was earlier and missed the receipt, answers with the same receipt as not
  created and writes nothing; a redelivery with another digest is refused as a conflict
  on \<open>payloadDigest\<close>.\<close>

theorem redelivery_is_deduplicated:
  assumes "reachable st issued" and "commitReceiptWithIntents now sc p s st = Inr (res, st')"
    and "extends s st" and "store_reaches (st', issued) (st2, issued2)"
    and "acceptable sc p2" and "extends s2 st2"
  shows "if er_payloadDigest (cp_receipt p2) = er_payloadDigest (cp_receipt p) then
      \<exists>res2. commitReceiptWithIntents now2 sc p2 s2 st2 = Inr (res2, st2) \<and>
             \<not> tr_created res2 \<and> tr_receiptId res2 = tr_receiptId res
    else commitReceiptWithIntents now2 sc p2 s2 st2 =
      Inl (Thrown (storeError ''VALIDATION_ERROR'' None (Some ''payloadDigest'')))"
proof -
  obtain row where row: "row \<in> set (receipts st')" "scope_of row = sc" "rc_receiptId row = tr_receiptId res"
      "rc_payloadDigest row = er_payloadDigest (cp_receipt p)"
    using commit_row [OF assms(2,3)] by blast
  obtain row2 where row2: "row2 \<in> set (receipts st2)" "receipt_core row2 = receipt_core row"
    using extends_receipt [OF run_extends [OF assms(4)] row(1)] by blast
  have "scopes_ok st'" by (rule commit_scopes [OF assms(2) reachable_scopes [OF assms(1)]])
  then have sc2: "scopes_ok st2"
    by (rule store_reaches_invariant [OF assms(4), where P = "\<lambda>s _. scopes_ok s"]) (rule run_op_scopes)
  have "scope_of row2 = sc" using row(2) row2(2) by (simp add: receipt_core_def)
  from commit_existing [OF assms(5) sc2 row2(1) this assms(6), of now2] obtain row3
    where row3: "receipt_core row3 = receipt_core row2"
      "commitReceiptWithIntents now2 sc p2 s2 st2 =
        existing_receipt (sc_organizationId sc) (er_payloadDigest (cp_receipt p2)) row3 st2" by blast
  then have "rc_payloadDigest row3 = er_payloadDigest (cp_receipt p)" "rc_receiptId row3 = tr_receiptId res"
    using row(3,4) row2(2) by (simp_all add: receipt_core_def)
  then show ?thesis using row3(2) by (simp add: existing_receipt_def)
qed

theorem redelivery_is_deduplicated_witness:
  "\<exists>res2. commitReceiptWithIntents 50 sample_scope (sample_payload ''dig'' []) empty_store sample_leased =
       Inr (res2, sample_leased) \<and> \<not> tr_created res2 \<and> tr_receiptId res2 = rc_receiptId sample_receipt"
proof -
  have c: "commitReceiptWithIntents 5 sample_scope (sample_payload ''dig'' [sample_intent]) empty_store empty_store =
      Inr (\<lparr>tr_receiptId = rc_receiptId sample_receipt, tr_intentIds = [''i1''],
            tr_receiptRowVersion = 0, tr_created = True\<rparr>, sample_pending)"
    by code_simp
  have "acceptable sample_scope (sample_payload ''dig'' [])"
    by (simp add: acceptable_def sample_payload_def sample_scope_def scope_missing_def)
  from redelivery_is_deduplicated [OF reachable_empty c extends_refl
      store_reaches_op [of "Claim_Next {} (sample_claim ''t1'' 10)" "{}" sample_pending, folded sample_leased_def]
      this, of empty_store 50]
  show ?thesis by (simp add: extends_def empty_store_def sample_payload_def)
qed

text \<open>A commit is all or nothing: it leaves the store unchanged, or it appends one PENDING,
  never attempted receipt for the scope together with all intents of the payload, each
  PENDING and bound to that receipt.\<close>

lemma commit_all_or_nothing:
  "run_op (Commit now sc p s) st = st \<or>
   (\<exists>dk. receipts (run_op (Commit now sc p s) st) = receipts st @ [new_receipt now sc p dk] \<and>
      intents (run_op (Commit now sc p s) st) = intents st @
        map (buildPersistedIntent now (newReceiptId (sc_organizationId sc) (sc_eventId sc))) (cp_intents p) \<and>
      rc_state (new_receipt now sc p dk) = R_PENDING \<and> rc_attempts (new_receipt now sc p dk) = 0 \<and>
      scope_of (new_receipt now sc p dk) = sc)"
  by (cases rule: run_op_commit [OF refl, of now sc p s st]) (auto simp del: run_op.simps)

section \<open>Colliding receipt ids\<close>

text \<open>The id of the scope's receipt is taken by a receipt of another scope.\<close>

definition id_taken :: "receipt_scope \<Rightarrow> store \<Rightarrow> bool" where
  "id_taken sc st \<longleftrightarrow>
     newReceiptId (sc_organizationId sc) (sc_eventId sc) \<in> rc_receiptId ` set (receipts st) \<and>
     sc \<notin> scope_of ` set (receipts st)"

lemma id_taken_core:
  "id_taken sc st \<longleftrightarrow>
     newReceiptId (sc_organizationId sc) (sc_eventId sc) \<in> fst ` set (map receipt_core (receipts st)) \<and>
     sc \<notin> (fst \<circ> snd) ` set (map receipt_core (receipts st))"
  by (simp add: id_taken_def receipt_core_def image_image comp_def)

lemma run_op_taken: "id_taken sc st \<Longrightarrow> id_taken sc (run_op op st)"
proof (cases op)
  case (Commit now sc' p s)
  assume "id_taken sc st"
  then show ?thesis
    by (cases rule: run_op_commit [OF Commit, of st])
      (auto simp: id_taken_def insert_conflicts_def simp del: run_op.simps)
qed (simp_all only: id_taken_core run_op_core is_commit.simps not_False_eq_True)

text \<open>Receipt ids keep only 8 characters of the organization and 16 of the event id. When
  the id of an event's scope is already that of another scope's receipt, the event can never
  be committed: in every later state its commit fails with the retryable
  \<open>TRANSACTION_FAILED\<close>, so retrying it does not help.\<close>

lemma colliding_event_is_never_committed:
  assumes "id_taken sc st" and "store_reaches (st, issued) (st', issued')" and "acceptable sc p"
  shows "commitReceiptWithIntents now sc p st' st' =
    Inl (Thrown (storeError ''TRANSACTION_FAILED'' (Some True) None))"
proof -
  have taken: "id_taken sc st'"
    by (rule store_reaches_invariant [OF assms(2), where P = "\<lambda>s _. id_taken sc s"])
      (use assms(1) run_op_taken in auto)
  obtain dk where dk: "asDuplicateKindEnum (er_duplicateKind (cp_receipt p)) = Inr dk"
    using assms(3) by (auto simp: acceptable_def)
  have none: "find (in_scope sc) (receipts st') = None"
    using taken by (auto simp: id_taken_def find_None_iff in_scope_iff)
  have "insert_conflicts (new_receipt now sc p dk) st'"
    using taken by (auto simp: id_taken_def insert_conflicts_def)
  then show ?thesis
    using assms(3) none dk
    by (auto simp: commitReceiptWithIntents_def acceptable_def Let_def simp del: asDuplicateKindEnum.simps)
qed

definition sample_long_scope :: "string \<Rightarrow> receipt_scope" where
  "sample_long_scope sfx = sample_scope\<lparr>sc_eventId := ''0123456789abcdef'' @ sfx\<rparr>"

end
