(* ===== verification/Dead_Letter_Properties.thy ===== *)
theory Dead_Letter_Properties
  imports Commit_Properties
begin

text \<open>
  Properties of the dead-letter queue: when a redrive is allowed and what it does, which
  receipts it can never help, the statistics, and the pages of the listing.
\<close>

section \<open>Redrive\<close>

text \<open>C7. A redrive succeeds exactly when the receipt exists, is DEAD_LETTERED, has fewer
  attempts than the cap (5 unless given), is not blocked by the do-not-contact check and its
  evidence passes the patch validation; it then makes the receipt claimable at once with its
  attempts back at zero and counts the redrive. Otherwise the store is unchanged.\<close>

theorem redrive_allowed_iff:
  assumes "receipt_at k st = Some row"
  shows "((\<exists>res. fst (redriveReceipt k actor now opts st) = Inr res) \<longleftrightarrow>
      rc_state row = R_DEAD_LETTERED \<and> rc_attempts row < nullish (ro_maxAttempts opts) 5 \<and>
      (\<forall>check. ro_dncCheck opts = Some check \<longrightarrow> \<not> check (dnc_query_of row)) \<and>
      (\<forall>valid ev. ro_validateForbiddenPatch opts = Some valid \<longrightarrow>
         rc_evidenceRefsJson row = Some ev \<longrightarrow> valid ev)) \<and>
    (\<forall>res. fst (redriveReceipt k actor now opts st) = Inr res \<longrightarrow>
      (\<exists>row'. receipt_at k (snd (redriveReceipt k actor now opts st)) = Some row' \<and>
        rc_attempts row' = 0 \<and> receipt_core row' = receipt_core row \<and>
        (\<forall>t \<ge> now. receipt_eligible t [] row') \<and>
        rr_redriveCount res = (case audit_of row of None \<Rightarrow> 0 | Some a \<Rightarrow> da_redriveCount a) + 1 \<and>
        map_option da_redriveCount (audit_of row') = Some (rr_redriveCount res))) \<and>
    (\<forall>e. fst (redriveReceipt k actor now opts st) = Inl e \<longrightarrow>
      snd (redriveReceipt k actor now opts st) = st)"
proof (intro conjI allI impI)
  have found: "find (\<lambda>r. rc_receiptId r = k) (receipts st) = Some row"
    using assms by (simp add: receipt_at_def)
  show "(\<exists>res. fst (redriveReceipt k actor now opts st) = Inr res) \<longleftrightarrow>
      rc_state row = R_DEAD_LETTERED \<and> rc_attempts row < nullish (ro_maxAttempts opts) 5 \<and>
      (\<forall>check. ro_dncCheck opts = Some check \<longrightarrow> \<not> check (dnc_query_of row)) \<and>
      (\<forall>valid ev. ro_validateForbiddenPatch opts = Some valid \<longrightarrow>
         rc_evidenceRefsJson row = Some ev \<longrightarrow> valid ev)"
    by (auto simp: redriveReceipt_def found Let_def not_null_and_iff)
  show "\<exists>row'. receipt_at k (snd (redriveReceipt k actor now opts st)) = Some row' \<and>
        rc_attempts row' = 0 \<and> receipt_core row' = receipt_core row \<and>
        (\<forall>t \<ge> now. receipt_eligible t [] row') \<and>
        rr_redriveCount res = (case audit_of row of None \<Rightarrow> 0 | Some a \<Rightarrow> da_redriveCount a) + 1 \<and>
        map_option da_redriveCount (audit_of row') = Some (rr_redriveCount res)"
    if r: "fst (redriveReceipt k actor now opts st) = Inr res" for res
  proof -
    let ?a = "redrive_audit now (redrive_actor_id actor) (ro_reason opts) row"
    obtain res' where red: "redriveReceipt k actor now opts st = (Inr res',
         st\<lparr>receipts := update_where (\<lambda>r. rc_receiptId r = k) (redriven now ?a) (receipts st)\<rparr>)"
      and count: "rr_redriveCount res' = (case audit_of row of None \<Rightarrow> 0 | Some a \<Rightarrow> da_redriveCount a) + 1"
      by (cases rule: redrive_cases [of k actor now opts st]) (use r assms in auto)
    have "receipt_at k (snd (redriveReceipt k actor now opts st)) = Some (redriven now ?a row)"
      using assms receipt_at_SomeD [OF assms] by (simp add: red receipt_at_update)
    moreover have "map_option da_redriveCount (audit_of (redriven now ?a row)) = Some (rr_redriveCount res')"
      by (simp add: audit_of_def redriven_def redrive_audit_def count [unfolded audit_of_def])
    moreover have "res = res'" using r red by simp
    ultimately show ?thesis using count
      by (intro exI [of _ "redriven now ?a row"]) (simp add: core_writes receipt_eligible_def)
  qed
  show "snd (redriveReceipt k actor now opts st) = st"
    if "fst (redriveReceipt k actor now opts st) = Inl e" for e
    by (cases rule: redrive_cases [of k actor now opts st]) (use that in auto)
qed

definition sample_actor :: redrive_actor where
  "sample_actor = \<lparr>act_kind = ''user'', act_userId = Some ''u1'', act_serviceId = None\<rparr>"

definition sample_dead :: store where
  "sample_dead = run_op (Complete (sample_complete ''t1'' FAIL 20)) sample_leased"

definition sample_redrive_opts :: redrive_opts where
  "sample_redrive_opts = \<lparr>ro_reason = None, ro_dncCheck = None, ro_maxAttempts = None,
                          ro_validateForbiddenPatch = None\<rparr>"

lemma sample_dead_at: "receipt_at (rc_receiptId sample_receipt) sample_dead = Some (hd (receipts sample_dead))"
  by code_simp

lemma sample_dead_row: "rc_state (hd (receipts sample_dead)) = R_DEAD_LETTERED"
  "rc_attempts (hd (receipts sample_dead)) = 1"
  by code_simp+

theorem redrive_allowed_iff_witness:
  "\<exists>res. fst (redriveReceipt (rc_receiptId sample_receipt) sample_actor 30 sample_redrive_opts sample_dead) = Inr res"
  using conjunct1 [OF redrive_allowed_iff [OF sample_dead_at, of sample_actor 30 sample_redrive_opts]] sample_dead_row
  by (simp add: sample_redrive_opts_def)

text \<open>A receipt that was dead-lettered by exhausting the default policy can never be
  redriven with the default cap: the policy allows 8 attempts and the redrive refuses
  receipts with 5 or more, so after the last failing round every such redrive answers
  \<open>MAX_ATTEMPTS_EXCEEDED\<close>.\<close>

lemma exhausted_receipt_cannot_be_redriven:
  assumes "reachable st issued" and "receipt_at k st = Some r" and "rc_state r = R_PENDING"
    and "rc_leaseExpiresAt r = None" and "rc_attempts r = 0"
    and "good_rounds issued fs" and "int (length fs) = maxAttempts DEFAULT_RETRY_POLICY"
    and "ro_maxAttempts opts = None"
  shows "redriveReceipt k actor now opts (fold (run_round DEFAULT_RETRY_POLICY (scope_of r)) fs st) =
    (Inl MAX_ATTEMPTS_EXCEEDED, fold (run_round DEFAULT_RETRY_POLICY (scope_of r)) fs st)"
proof -
  let ?st = "fold (run_round DEFAULT_RETRY_POLICY (scope_of r)) fs st"
  have len: "int (length fs) = 8" using assms(7) by (simp add: DEFAULT_RETRY_POLICY_def)
  then have "fs \<noteq> []" by auto
  then obtain r' where r': "receipt_at k ?st = Some r'" "rc_attempts r' = int (length fs)"
      "rc_state r' = R_DEAD_LETTERED"
    using fail_rounds [OF reachable_ok [OF assms(1)] reachable_scopes [OF assms(1)] assms(6,2) refl,
        of DEFAULT_RETRY_POLICY] assms(3-5,7)
    by (auto simp: waiting_def)
  then have "find (\<lambda>r. rc_receiptId r = k) (receipts ?st) = Some r'" by (simp add: receipt_at_def)
  then show ?thesis using r'(2,3) len assms(8) by (simp add: redriveReceipt_def)
qed

section \<open>Listing and statistics\<close>

text \<open>The dead letters of an organization.\<close>

definition dead_rows :: "string \<Rightarrow> store \<Rightarrow> receipt list" where
  "dead_rows org st = filter (\<lambda>r. rc_organizationId r = org \<and> rc_state r = R_DEAD_LETTERED) (receipts st)"

text \<open>The statistics are those of the organization's dead letters: their number, the
  number per reason code (missing codes under UNKNOWN), the rounded mean of their attempts,
  and a resolution time that is one of theirs and none of theirs precedes.\<close>

lemma dlq_stats_correct:
  assumes "org \<noteq> []"
  shows "\<exists>s. getDlqStats org st = Inr s \<and>
    ds_totalDeadLettered s = length (dead_rows org st) \<and>
    (\<forall>code. ds_byReasonCode s code =
       count_where (\<lambda>r. nullish (rc_reasonCode r) ''UNKNOWN'' = code) (dead_rows org st)) \<and>
    ds_avgAttempts s = (if dead_rows org st = [] then 0 else
       js_round (of_int (sum_list (map rc_attempts (dead_rows org st))) / of_nat (length (dead_rows org st)))) \<and>
    (\<forall>t. ds_oldestResolvedAt s = Some t \<longrightarrow>
       (\<forall>r \<in> set (dead_rows org st). \<forall>u. rc_resolvedAt r = Some u \<longrightarrow> t \<le> u))"
proof -
  obtain f n d where fold: "dlq_fold (dead_rows org st) (\<lambda>_. 0, 0, None) = (f, n, d)"
    by (cases "dlq_fold (dead_rows org st) (\<lambda>_. 0, 0, None)")
  have "f = (\<lambda>code. count_where (\<lambda>r. nullish (rc_reasonCode r) ''UNKNOWN'' = code) (dead_rows org st))"
    using dlq_fold_counts [of "dead_rows org st" "\<lambda>_. 0" 0 None] by (simp add: fold)
  moreover have "n = sum_list (map rc_attempts (dead_rows org st))"
    using dlq_fold_attempts [of "dead_rows org st" "\<lambda>_. 0" 0 None] by (simp add: fold)
  moreover have "d = Some t \<Longrightarrow> \<forall>r \<in> set (dead_rows org st). \<forall>u. rc_resolvedAt r = Some u \<longrightarrow> t \<le> u" for t
    using dlq_fold_oldest [of "dead_rows org st" "\<lambda>_. 0" 0 None t] by (simp add: fold)
  ultimately show ?thesis
    using assms fold by (simp add: getDlqStats_def dead_rows_def [symmetric] Let_def)
qed

text \<open>A page of the dead-letter listing shows only dead letters of the organization that
  asked, at most 100 of them.\<close>

lemma dlq_page_is_scoped:
  assumes "listDeadLetteredReceipts lt org opts st = Inr (items, cursor)"
  shows "length items \<le> 100 \<and>
    (\<forall>it \<in> set items. \<exists>r \<in> set (receipts st). rc_organizationId r = org \<and>
      rc_state r = R_DEAD_LETTERED \<and> it = dead_letter_of r)"
proof (intro conjI ballI)
  let ?rows = "newest_resolved (filter (dead_letter_where lt org opts) (receipts st))"
  obtain m where items: "items = map dead_letter_of (take (min (nullish (lo_limit opts) 50) 100) (take m ?rows))"
    using assms by (auto simp: listDeadLetteredReceipts_def Let_def simp del: take_take split: if_splits)
  then show "length items \<le> 100" by simp
  show "\<exists>r \<in> set (receipts st). rc_organizationId r = org \<and>
      rc_state r = R_DEAD_LETTERED \<and> it = dead_letter_of r" if "it \<in> set items" for it
  proof -
    from that obtain r where "r \<in> set ?rows" "it = dead_letter_of r"
      unfolding items by (auto dest!: in_set_takeD)
    then show ?thesis by (intro bexI [of _ r]) (auto simp: newest_resolved_def dead_letter_where_def)
  qed
qed

definition sample_list_opts :: list_dead_letter_opts where
  "sample_list_opts = \<lparr>lo_reasonCode = None, lo_fromDate = None, lo_toDate = None, lo_limit = Some 1,
                       lo_cursor = None\<rparr>"

text \<open>Pages are ordered by resolution time but the cursor cuts by receipt id: a dead letter
  that is not on the first page and whose id does not precede the cursor's id is on no later
  page that is reached with that cursor, so walking the pages can miss dead letters.\<close>

lemma dlq_paging_misses:
  assumes "listDeadLetteredReceipts lt org (opts\<lparr>lo_cursor := Some c\<rparr>) st = Inr (items, cursor)"
    and "c \<noteq> []" and "\<not> lt k c"
  shows "\<forall>it \<in> set items. dl_receiptId it \<noteq> k"
proof (intro ballI notI)
  fix it assume it: "it \<in> set items" and k: "dl_receiptId it = k"
  let ?opts = "opts\<lparr>lo_cursor := Some c\<rparr>"
  let ?rows = "newest_resolved (filter (dead_letter_where lt org ?opts) (receipts st))"
  obtain m where items: "items = map dead_letter_of (take (min (nullish (lo_limit opts) 50) 100) (take m ?rows))"
    using assms(1) by (auto simp: listDeadLetteredReceipts_def Let_def simp del: take_take split: if_splits)
  then obtain r where r: "r \<in> set ?rows" "it = dead_letter_of r"
    using it by (auto dest!: in_set_takeD)
  then have "dead_letter_where lt org ?opts r" by (auto simp: newest_resolved_def)
  then have "lt (rc_receiptId r) c" using assms(2) by (simp add: dead_letter_where_def)
  then show False using r(2) k assms(3) by (simp add: dead_letter_of_def)
qed

text \<open>A queue of two dead letters where the walk by cursor misses one.\<close>

definition dead_row :: "string \<Rightarrow> int \<Rightarrow> receipt" where
  "dead_row k t = sample_receipt\<lparr>rc_receiptId := k, rc_state := R_DEAD_LETTERED, rc_resolvedAt := Some t\<rparr>"

definition sample_queue :: store where
  "sample_queue = \<lparr>receipts = [dead_row ''a'' 20, dead_row ''b'' 10], intents = [], recoveries = []\<rparr>"

end
