(* ===== verification/Recovery_Properties.thy ===== *)
theory Recovery_Properties
  imports Dead_Letter_Properties
begin

text \<open>
  Properties of recovery actions and of the stuck-item reconcilers: one action per item,
  final statuses, and who is recovered how often.
\<close>

section \<open>The recovery table along runs\<close>

lemma run_op_recoveries:
  assumes "\<And>ids now args. op \<noteq> Create_Recovery ids now args" and "\<And>k s now. op \<noteq> Complete_Recovery k s now"
  shows "recoveries (run_op op st) = recoveries st"
proof (cases op)
  case (Commit now sc p s)
  show ?thesis
  proof (cases "commitReceiptWithIntents now sc p s st")
    case (Inr x)
    obtain res st' where x: "x = (res, st')" by (cases x)
    from Inr [unfolded x] show ?thesis
    proof (cases rule: commit_cases)
      case (created dk)
      have "recoveries st' = recoveries st" using arg_cong [OF created(7), of recoveries] by simp
      then show ?thesis using Inr x by (simp add: Commit)
    qed (simp add: Commit Inr x)
  qed (simp add: Commit)
next
  case (Redrive k actor now opts)
  show ?thesis by (cases rule: redrive_cases [of k actor now opts st]) (auto simp: Redrive)
next
  case (Complete_Write args row)
  then show ?thesis using completeReceipt_write_puts [of args row st] by auto
next
  case (Reset_Receipt now k)
  then show ?thesis by (simp only: run_op_reset_receipt) simp
next
  case (Reset_Intent now k)
  then show ?thesis by (simp only: run_op_reset_intent) simp
qed (use assms lease_ops_frame in \<open>auto simp: same_receipts_def\<close>)

lemma complete_recoveries:
  assumes "completeRecoveryAction k s now st = Inr (res, st')"
  shows "recoveries st' = recoveries st \<or>
    (\<exists>a. find (\<lambda>a. ra_recoveryId a = k) (recoveries st) = Some a \<and> ra_status a = RA_PENDING \<and>
      recoveries st' = update_where (\<lambda>a. ra_recoveryId a = k)
        (\<lambda>a. a\<lparr>ra_status := s, ra_completedAt := Some now\<rparr>) (recoveries st))"
  using assms by (auto simp: completeRecoveryAction_def Let_def split: if_splits option.splits)

lemma run_op_recoveries_ok: "recoveries_ok st \<Longrightarrow> recoveries_ok (run_op op st)"
proof (cases op)
  case (Create_Recovery ids now args)
  assume ok: "recoveries_ok st"
  show ?thesis
  proof (cases "createRecoveryAction ids now args st")
    case None
    then show ?thesis using ok by (simp add: Create_Recovery)
  next
    case (Some res)
    then show ?thesis
    proof (cases rule: createRecoveryAction_cases)
      case (created a)
      then show ?thesis using ok Some
        by (auto simp: Create_Recovery recoveries_ok_def recovery_conflicts_def for_item_def)
    qed (use ok Some in \<open>simp_all add: Create_Recovery\<close>)
  qed
next
  case (Complete_Recovery k s now)
  assume ok: "recoveries_ok st"
  show ?thesis
  proof (cases "completeRecoveryAction k s now st")
    case (Inl e)
    then show ?thesis using ok by (simp add: Complete_Recovery)
  next
    case (Inr x)
    obtain res st' where x: "x = (res, st')" by (cases x)
    then show ?thesis using complete_recoveries [of k s now st res st'] ok Inr
      by (auto simp: Complete_Recovery recoveries_ok_def map_update_where)
  qed
qed (simp_all add: recoveries_ok_def run_op_recoveries del: run_op.simps)

lemma reachable_recoveries: "reachable st issued \<Longrightarrow> recoveries_ok st"
  by (erule reachable_invariant) (simp add: empty_store_def recoveries_ok_def, rule run_op_recoveries_ok)

text \<open>There is at most one recovery action per item in every reachable state, and asking for
  another one, by whichever reconciler and however often, returns the existing action, says
  that nothing was created and writes nothing.\<close>

lemma recovery_action_is_unique:
  assumes "reachable st issued" and "a \<in> set (recoveries st)"
    and "cra_itemType args = ra_itemType a" and "cra_itemId args = ra_itemId a"
    and "cra_itemId args \<noteq> []" and "cra_actor args \<noteq> []" and "ids \<noteq> []"
  shows "createRecoveryAction ids now args st = Some (Inr ((a, False), st)) \<and>
    (\<forall>b \<in> set (recoveries st). ra_itemType b = ra_itemType a \<longrightarrow> ra_itemId b = ra_itemId a \<longrightarrow> b = a)"
proof (intro conjI ballI impI)
  have d: "distinct (map (\<lambda>a. (ra_itemType a, ra_itemId a)) (recoveries st))"
    using reachable_recoveries [OF assms(1)] by (simp add: recoveries_ok_def)
  show uniq: "b = a" if "b \<in> set (recoveries st)" "ra_itemType b = ra_itemType a" "ra_itemId b = ra_itemId a" for b
    using distinct_key_eq [OF d that(1) assms(2)] that(2,3) by simp
  have "findRecoveryAction (cra_itemType args) (cra_itemId args) st = Some a"
  proof (cases "findRecoveryAction (cra_itemType args) (cra_itemId args) st")
    case None
    then show ?thesis using assms(2-4) by (auto simp: findRecoveryAction_def find_None_iff for_item_def)
  next
    case (Some b)
    then have "b \<in> set (recoveries st)" "for_item (cra_itemType args) (cra_itemId args) b"
      using find_SomeD unfolding findRecoveryAction_def by fast+
    then show ?thesis using Some uniq [of b] assms(3,4) by (simp add: for_item_def)
  qed
  moreover obtain i rest where "ids = i # rest" using assms(7) by (cases ids) auto
  ultimately show "createRecoveryAction ids now args st = Some (Inr ((a, False), st))"
    using createRecoveryAction_returns_existing assms(5,6) by blast
qed

definition sample_recovery_args :: create_recovery_args where
  "sample_recovery_args = manual_args RECEIPT (rc_receiptId sample_receipt) ''op''"

definition sample_recovering :: store where
  "sample_recovering = run_op (Create_Recovery [''ra1''] 100 sample_recovery_args) sample_leased"

lemma sample_recovering_reachable: "reachable sample_recovering {''t1''}"
  using reachable_op [OF sample_leased_reachable, of "Create_Recovery [''ra1''] 100 sample_recovery_args"]
  by (simp add: sample_recovering_def del: run_op.simps)

lemma sample_recovering_eq:
  "recoveries sample_recovering = [new_recovery ''ra1'' 100 sample_recovery_args]"
  by code_simp

text \<open>The status of a recovery action is final once it left PENDING: no transaction of any
  run changes the action again, and only the statuses APPLIED, SKIPPED and FAILED are
  accepted as final.\<close>

lemma finished_action_is_final:
  assumes "reachable st issued" and "store_reaches (st, issued) (st', issued')"
    and "a \<in> set (recoveries st)" and "ra_status a \<noteq> RA_PENDING"
  shows "a \<in> set (recoveries st') \<and> throws (completeRecoveryAction k RA_PENDING now st')"
proof (intro conjI)
  have "recoveries_ok st' \<and> a \<in> set (recoveries st')"
  proof (rule store_reaches_invariant [OF assms(2), where P = "\<lambda>s _. recoveries_ok s \<and> a \<in> set (recoveries s)"])
    show "recoveries_ok st \<and> a \<in> set (recoveries st)"
      using reachable_recoveries [OF assms(1)] assms(3) by simp
  next
    fix op st issued
    assume inv: "recoveries_ok st \<and> a \<in> set (recoveries st)" and "issues op \<inter> issued = {}"
    have "a \<in> set (recoveries (run_op op st))"
    proof (cases op)
      case (Create_Recovery ids now args)
      show ?thesis
      proof (cases "createRecoveryAction ids now args st")
        case (Some res)
        then show ?thesis
          by (cases rule: createRecoveryAction_cases) (use inv Some in \<open>auto simp: Create_Recovery\<close>)
      qed (use inv in \<open>simp add: Create_Recovery\<close>)
    next
      case (Complete_Recovery k s now)
      show ?thesis
      proof (cases "completeRecoveryAction k s now st")
        case (Inr x)
        obtain res st' where x: "x = (res, st')" by (cases x)
        have "ra_recoveryId a \<noteq> k" if "find (\<lambda>a. ra_recoveryId a = k) (recoveries st) = Some b" "ra_status b = RA_PENDING" for b
        proof
          assume "ra_recoveryId a = k"
          then have "b = a" using find_SomeD [OF that(1)] inv
              distinct_key_eq [of ra_recoveryId "recoveries st" b a] by (auto simp: recoveries_ok_def)
          then show False using that(2) assms(4) by simp
        qed
        then show ?thesis using complete_recoveries [of k s now st res st'] inv Inr x
          by (auto simp: Complete_Recovery set_update_where)
      qed (use inv in \<open>simp add: Complete_Recovery\<close>)
    qed (use inv in \<open>simp_all add: run_op_recoveries del: run_op.simps\<close>)
    then show "recoveries_ok (run_op op st) \<and> a \<in> set (recoveries (run_op op st))"
      using inv run_op_recoveries_ok by blast
  qed
  then show "a \<in> set (recoveries st')" ..
  show "throws (completeRecoveryAction k RA_PENDING now st')" by (simp add: completeRecoveryAction_def)
qed

definition sample_skipped :: store where
  "sample_skipped = run_op (Complete_Recovery ''ra1'' RA_SKIPPED 130) sample_recovering"

section \<open>Reconciling\<close>

lemma reset_frames:
  "recoveries (snd (resetStuckReceipt now k s)) = recoveries s"
  "recoveries (snd (resetStuckIntent now k s)) = recoveries s"
  by (rule stuck_receipt.reset_frame stuck_intent.reset_frame)+

lemma receipts_loop_actions:
  assumes "reconcile_receipts_loop ids now env actor rs st = Some (results, st')" and env: "keeps_actions env"
  shows "(\<forall>ty k. findRecoveryAction ty k st \<noteq> None \<longrightarrow> findRecoveryAction ty k st' \<noteq> None) \<and>
    (\<forall>x \<in> set results. rs_action x = RECOVERED \<longrightarrow>
       findRecoveryAction RECEIPT (rs_itemId x) st = None \<and> findRecoveryAction RECEIPT (rs_itemId x) st' \<noteq> None) \<and>
    map rs_itemId results = map rc_receiptId rs"
  using assms(1)
proof (induction rs arbitrary: st results)
  case Nil
  then show ?case by simp
next
  case (Cons r rs)
  let ?args = "receipt_recovery_args actor r"
  obtain x st1 rest where item: "reconcile_item (ids (rc_receiptId r)) now env ?args
        (resetStuckReceipt now (rc_receiptId r)) (env st) = Some (x, st1)"
    and loop: "reconcile_receipts_loop ids now env actor rs st1 = Some (rest, st')"
    and results: "results = x # rest"
    using Cons.prems by (auto split: option.splits)
  note act = reconcile_item_actions [OF item env reset_frames(1)]
  note kept = keeps_actionsD [OF env]
  have args: "cra_itemType ?args = RECEIPT" "cra_itemId ?args = rc_receiptId r"
    by (simp_all add: receipt_recovery_args_def)
  have mono: "findRecoveryAction ty k st \<noteq> None \<Longrightarrow> findRecoveryAction ty k st1 \<noteq> None" for ty k
    using kept act(1) by blast
  have head: "findRecoveryAction RECEIPT (rs_itemId x) st = None \<and> findRecoveryAction RECEIPT (rs_itemId x) st1 \<noteq> None"
    if "rs_action x = RECOVERED"
  proof -
    have both: "findRecoveryAction RECEIPT (rc_receiptId r) (env st) = None \<and>
        findRecoveryAction RECEIPT (rc_receiptId r) st1 \<noteq> None"
      by (rule act(2) [OF that, unfolded args])
    note none = conjunct1 [OF both] and ex = conjunct2 [OF both]
    have "findRecoveryAction RECEIPT (rc_receiptId r) st = None"
    proof (rule ccontr)
      assume "findRecoveryAction RECEIPT (rc_receiptId r) st \<noteq> None"
      from kept [OF this] none show False by simp
    qed
    then show ?thesis using ex by (simp add: act(3) args)
  qed
  have prior: "findRecoveryAction ty k st = None" if "findRecoveryAction ty k st1 = None" for ty k
  proof (rule ccontr)
    assume "findRecoveryAction ty k st \<noteq> None"
    from mono [OF this] that show False by simp
  qed
  note IH = Cons.IH [OF loop]
  show ?case
  proof (intro conjI allI impI ballI)
    show "findRecoveryAction ty k st' \<noteq> None" if "findRecoveryAction ty k st \<noteq> None" for ty k
      using IH mono [OF that] by blast
    fix y assume y: "y \<in> set results" "rs_action y = RECOVERED"
    show "findRecoveryAction RECEIPT (rs_itemId y) st = None"
      using y head IH prior unfolding results by auto
    show "findRecoveryAction RECEIPT (rs_itemId y) st' \<noteq> None"
      using y head IH unfolding results by (metis set_ConsD)
  next
    show "map rs_itemId results = map rc_receiptId (r # rs)"
      using IH act(3) unfolding results by (simp add: args)
  qed
qed


definition sample_scan1 :: "(nat \<times> reconcile_result list) \<times> store" where
  "sample_scan1 = the (reconcileReceipts (\<lambda>_. [''ra1'']) 100 100 id ''reconciler'' None sample_leased)"

text \<open>The receipt is claimed again and gets stuck again.\<close>

definition sample_stuck_again :: store where
  "sample_stuck_again = run_op (Claim_Next {} (sample_claim ''t2'' 110)) (snd sample_scan1)"

definition sample_scan2 :: "(nat \<times> reconcile_result list) \<times> store" where
  "sample_scan2 = the (reconcileReceipts (\<lambda>_. [''ra2'']) 200 200 id ''reconciler'' None sample_stuck_again)"


lemma manual_recovery_frees_stuck_core:
  assumes "reachable st issued" and "receipt_at k st = Some r"
    and "findRecoveryAction RECEIPT k st = None" and "i \<notin> ra_recoveryId ` set (recoveries st)"
    and "k \<noteq> []" and "actor \<noteq> []"
  shows "\<exists>res st'. recoverReceipt (i # ids) now id k actor st = Some (Inr (res, st')) \<and>
    rs_action res = (if expired_receipt now r then RECOVERED else ACT_SKIPPED) \<and>
    receipt_at k st' = Some (if expired_receipt now r then end_receipt (Receipt_Reset None) r else r) \<and>
    findRecoveryAction RECEIPT k st' \<noteq> None"
proof -
  let ?args = "manual_args RECEIPT k actor"
  let ?st1 = "st\<lparr>recoveries := recoveries st @ [new_recovery i now ?args]\<rparr>"
  have args: "cra_itemType ?args = RECEIPT" "cra_itemId ?args = k" "cra_actor ?args = actor"
    by (simp_all add: manual_args_def)
  note row = receipt_at_SomeD [OF assms(2)]
  have only: "x = r" if "x \<in> set (receipts st)" "rc_receiptId x = k" for x
    using receipt_at_mem [OF reachable_ok [OF assms(1)] that(1)] that(2) assms(2) by simp
  have stuck: "(\<exists>x \<in> set (receipts ?st1). rc_receiptId x = k \<and> expired_receipt now x) = expired_receipt now r"
    using row only by auto
  obtain st' where run: "reconcile_item (i # ids) now id ?args (resetStuckReceipt now k) st =
      Some (\<lparr>rs_itemId = k, rs_action = (if expired_receipt now r then RECOVERED else ACT_SKIPPED),
             rs_recoveryId = Some i\<rparr>, st')"
    and rows: "receipts st' = receipts (snd (resetStuckReceipt now k ?st1))"
    and acts: "\<And>ty j. findRecoveryAction ty j st' = None \<longleftrightarrow> findRecoveryAction ty j ?st1 = None"
    by (rule stuck_receipt.reconcile_new_item [of ?args st i ?st1 id now ids k])
      (use assms(3-6) in \<open>simp_all only: args stuck id_apply not_False_eq_True\<close>)
  have "receipt_at k st' = Some (if expired_receipt now r then end_receipt (Receipt_Reset None) r else r)"
    using assms(2) row by (simp add: receipt_at_def rows resetStuckReceipt_def Let_def find_key_update_where)
  moreover have "findRecoveryAction RECEIPT k st' \<noteq> None"
    unfolding acts findRecoveryAction_append
    using assms(3) by (simp add: for_item_def new_recovery_def args)
  ultimately show ?thesis
    using run assms(5,6) by (simp add: recoverReceipt_def recover_manually_def args)
qed

text \<open>A manual recovery of a receipt without an action frees exactly a stuck receipt: if its
  lease had expired it becomes PENDING without a lease and the answer is RECOVERED,
  otherwise the receipts are untouched and the answer is SKIPPED; either way the receipt has
  a recovery action afterwards.\<close>

lemma manual_recovery_frees_stuck:
  assumes "reachable st issued" and "receipt_at k st = Some r"
    and "findRecoveryAction RECEIPT k st = None" and "i \<notin> ra_recoveryId ` set (recoveries st)"
    and "k \<noteq> []" and "actor \<noteq> []"
  shows "\<exists>res st'. recoverReceipt (i # ids) now id k actor st = Some (Inr (res, st')) \<and>
    rs_action res = (if expired_receipt now r then RECOVERED else ACT_SKIPPED) \<and>
    receipt_at k st' = Some (if expired_receipt now r then end_receipt (Receipt_Reset None) r else r) \<and>
    findRecoveryAction RECEIPT k st' \<noteq> None"
  by (rule manual_recovery_frees_stuck_core [OF assms])

text \<open>A manual recovery uses up the receipt's only recovery: after a recovery of a receipt
  that was not stuck (answer SKIPPED), no scan ever recovers that receipt when it does get
  stuck.\<close>

lemma skipped_recovery_blocks_later_ones:
  assumes "reachable st issued" and "receipt_at k st = Some r" and "\<not> expired_receipt now r"
    and "findRecoveryAction RECEIPT k st = None" and "i \<notin> ra_recoveryId ` set (recoveries st)"
    and "recoverReceipt (i # ids) now id k actor st = Some (Inr (res, st'))"
    and "keeps_actions between" and "keeps_actions env"
    and "reconcileReceipts ids2 scan2 now2 env actor2 batch (between st') = Some ((n, results), st2)"
    and "y \<in> set results" and "rs_itemId y = k"
  shows "rs_action res = ACT_SKIPPED \<and> rs_action y \<noteq> RECOVERED"
proof (intro conjI)
  have "k \<noteq> []" "actor \<noteq> []"
    using assms(6) by (auto simp: recoverReceipt_def recover_manually_def manual_args_def split: if_splits)
  from manual_recovery_frees_stuck_core [OF assms(1,2,4,5) this, of ids now] assms(3,6)
  have "rs_action res = ACT_SKIPPED" and act: "findRecoveryAction RECEIPT k st' \<noteq> None" by auto
  then show "rs_action res = ACT_SKIPPED" by simp
  obtain rs where l: "reconcile_receipts_loop ids2 now2 env actor2 rs (between st') = Some (results, st2)"
    using assms(9) by (auto simp: reconcileReceipts_def Let_def)
  show "rs_action y \<noteq> RECOVERED"
    using receipts_loop_actions [OF l assms(8)] keeps_actionsD [OF assms(7) act] assms(10,11) by metis
qed

definition sample_manual :: "reconcile_result \<times> store" where
  "sample_manual = projr (the (recoverReceipt [''ra1''] 20 id (rc_receiptId sample_receipt) ''op'' sample_leased))"

definition sample_scan3 :: "(nat \<times> reconcile_result list) \<times> store" where
  "sample_scan3 = the (reconcileReceipts (\<lambda>_. [''ra2'']) 200 200 id ''reconciler'' None (id (snd sample_manual)))"

end
