(* ===== verification/Json_Access.thy ===== *)
theory Json_Access
  imports Store_Types
begin

text \<open>
  Reading untyped JSON values the way the source does: property access, the coercing
  helpers \<open>asString\<close>, \<open>asNumber\<close>, \<open>asAttr\<close>, and the string functions it uses. Strings are
  lists of characters; a code unit above 255 has no counterpart.
\<close>

section \<open>Property access\<close>

text \<open>\<open>v[k]\<close> and \<open>v?.[k]\<close>: \<^const>\<open>None\<close> is \<open>undefined\<close>. Only objects have named members here.\<close>

fun jget :: "string \<Rightarrow> json \<Rightarrow> json option" where
  "jget k (JObj ms) = map_of ms k"
| "jget k _ = None"

fun jget_opt :: "string \<Rightarrow> json option \<Rightarrow> json option" where
  "jget_opt k None = None"
| "jget_opt k (Some v) = jget k v"

text \<open>\<open>v ?? d\<close> on untyped values: null and undefined fall back.\<close>

definition jnullish :: "json option \<Rightarrow> json \<Rightarrow> json" where
  "jnullish v d = (case v of None \<Rightarrow> d | Some JNull \<Rightarrow> d | Some x \<Rightarrow> x)"

text \<open>Truthiness of a possibly missing value.\<close>

fun jtruthy :: "json option \<Rightarrow> bool" where
  "jtruthy None = False"
| "jtruthy (Some JNull) = False"
| "jtruthy (Some (JBool b)) = b"
| "jtruthy (Some (JNum n)) = (n \<noteq> 0)"
| "jtruthy (Some (JStr s)) = (s \<noteq> [])"
| "jtruthy (Some (JArr _)) = True"
| "jtruthy (Some (JObj _)) = True"

text \<open>\<open>value && typeof value === 'object'\<close>: objects and arrays.\<close>

fun is_object :: "json option \<Rightarrow> bool" where
  "is_object (Some (JObj _)) = True"
| "is_object (Some (JArr _)) = True"
| "is_object _ = False"

fun asAttr :: "json option \<Rightarrow> json option" where
  "asAttr (Some (JObj ms)) = Some (JObj ms)"
| "asAttr _ = None"

fun asString :: "json option \<Rightarrow> string option" where
  "asString (Some (JStr s)) = (if length s > 0 then Some s else None)"
| "asString _ = None"

fun asNumber :: "json option \<Rightarrow> rat option" where
  "asNumber (Some (JNum n)) = Some n"
| "asNumber _ = None"

fun asArray :: "json option \<Rightarrow> string list" where
  "asArray (Some (JArr vs)) = concat (map (\<lambda>v. case v of JStr s \<Rightarrow> [s] | _ \<Rightarrow> []) vs)"
| "asArray _ = []"

section \<open>Strings\<close>

text \<open>The white space of \<open>trim\<close> and of the class \<open>\s\<close>.\<close>

definition is_space :: "char \<Rightarrow> bool" where
  "is_space c \<longleftrightarrow> of_char c \<in> {9, 10, 11, 12, 13, 32, 160 :: nat}"

definition js_trim :: "string \<Rightarrow> string" where
  "js_trim s = rev (dropWhile is_space (rev (dropWhile is_space s)))"

definition lower :: "char \<Rightarrow> char" where
  "lower c = (let n = of_char c :: nat in if 65 \<le> n \<and> n \<le> 90 then char_of (n + 32) else c)"

fun starts_with :: "string \<Rightarrow> string \<Rightarrow> bool" where
  "starts_with [] s = True"
| "starts_with (p # ps) [] = False"
| "starts_with (p # ps) (c # cs) = (p = c \<and> starts_with ps cs)"

fun str_includes :: "string \<Rightarrow> string \<Rightarrow> bool" where
  "str_includes p [] = (p = [])"
| "str_includes p (c # cs) = (starts_with p (c # cs) \<or> str_includes p cs)"

text \<open>Decimal digits, and \<open>String (v)\<close>: exact for integers.\<close>

fun digits :: "nat \<Rightarrow> string" where
  "digits n = (if n < 10 then [char_of (48 + n)] else digits (n div 10) @ [char_of (48 + n mod 10)])"

declare digits.simps [simp del]

definition int_string :: "int \<Rightarrow> string" where
  "int_string i = (if i < 0 then ''-'' @ digits (nat (- i)) else digits (nat i))"

fun join_with :: "string \<Rightarrow> string list \<Rightarrow> string" where
  "join_with sep [] = []"
| "join_with sep [s] = s"
| "join_with sep (s # t # ss) = s @ sep @ join_with sep (t # ss)"

fun js_String :: "json \<Rightarrow> string" where
  "js_String JNull = ''null''"
| "js_String (JBool b) = (if b then ''true'' else ''false'')"
| "js_String (JNum n) =
     (let (p, q) = quotient_of n
      in if q = 1 then int_string p else int_string p @ ''/'' @ int_string q)"
| "js_String (JStr s) = s"
| "js_String (JArr vs) = join_with '','' (map (\<lambda>v. if v = JNull then [] else js_String v) vs)"
| "js_String (JObj _) = ''[object Object]''"

section \<open>Facts\<close>

lemma starts_with_append [simp]: "starts_with p (p @ s)"
  by (induction p) auto

lemma str_includes_starts: "starts_with p s \<Longrightarrow> str_includes p s"
  by (cases s) (auto elim: starts_with.elims)

lemma str_includes_suffix: "str_includes p s \<Longrightarrow> str_includes p (t @ s)"
  by (induction t) auto

lemma str_includes_append: "str_includes p (t @ p @ s)"
  by (rule str_includes_suffix, rule str_includes_starts) simp

lemma asString_nonempty: "asString v = Some s \<Longrightarrow> s \<noteq> []"
  by (cases v rule: asString.cases) (auto split: if_splits)

text \<open>Digits determine the number.\<close>

lemma digits_value: "foldl (\<lambda>a c. 10 * a + (of_char c - 48)) 0 (digits n) = n"
proof (induction n rule: digits.induct)
  case (1 n)
  show ?case
  proof (cases "n < 10")
    case False
    then show ?thesis using 1 by (subst digits.simps) simp
  qed (simp add: digits.simps [of n])
qed

lemma digits_inj [simp]: "digits m = digits n \<longleftrightarrow> m = n"
  by (metis digits_value)

text \<open>All characters of a number's digits are digits.\<close>

definition is_digit :: "char \<Rightarrow> bool" where
  "is_digit c \<longleftrightarrow> 48 \<le> (of_char c :: nat) \<and> (of_char c :: nat) \<le> 57"

lemma digits_are_digits: "c \<in> set (digits n) \<Longrightarrow> is_digit c"
proof (induction n rule: digits.induct)
  case (1 n)
  then show ?case
    by (cases "n < 10") (auto simp: digits.simps [of n] is_digit_def)
qed

lemma digits_head: "\<exists>c t. digits n = c # t \<and> is_digit c"
proof -
  have "digits n \<noteq> []" by (subst digits.simps) simp
  then show ?thesis using digits_are_digits [of _ n] by (cases "digits n") auto
qed

end
