(* ===== verification/Event_Normalizer.thy ===== *)
theory Event_Normalizer
  imports Json_Access
begin

text \<open>
  The worker's event normalizer,
  \<open>apps/integration-worker/src/normalizer-shim/event-normalizer.ts\<close>.

  \<open>normalizeChatwootEvent\<close> reads members of the sender object without a null check
  (\<open>(senderAttr as Record)['phone_number']\<close>): for a body without a sender object it throws
  a TypeError, the outcome \<open>N_Throws\<close>.
\<close>

section \<open>Events\<close>

datatype inbound_event_type =
  CONVERSATION_CREATED | MESSAGE_CREATED | CLIENT_MESSAGE_CREATED | CONVERSATION_RESOLVED
| PARTICIPANT_ADDED | AGENT_MESSAGE_ECHO | PRIVATE_NOTE | CONVERSATION_ASSIGNED
| CONVERSATION_STATUS_CHANGED | CONVERSATION_LABELED | MESSAGE_UPDATED | MESSAGE_DELETED
| CLIENT_INBOUND_MESSAGE | UNKNOWN_RAW | OUT_OF_ORDER_RAW | MAPPING_REVISION_CHANGED

datatype sender_kind = S_CONTACT | S_AGENT | S_BOT | S_UNKNOWN

datatype branch = TALENT | CLIENT

datatype id_source = Id_primary | Id_fallback | Id_unknown

record external_refs =
  xr_conversationId :: "string option"
  xr_inboxId :: "string option"
  xr_assigneeId :: "string option"

record contact_hints =
  ch_phone :: "string option"
  ch_email :: "string option"
  ch_fullName :: "string option"

record conversation_hints =
  cv_conversationId :: "string option"
  cv_inboxId :: "string option"
  cv_status :: "string option"
  cv_labels :: "string list"

record event_flags =
  fl_hasHrpiAttribute :: bool
  fl_hasCustomAttribute :: bool
  fl_claimedBranchHint :: "branch option"

record inbound_event =
  ie_eventType :: inbound_event_type
  ie_organizationId :: string
  ie_provider :: string
  ie_connectionId :: string
  ie_eventId :: string
  ie_eventIdSource :: id_source
  ie_senderKind :: sender_kind
  ie_senderId :: "string option"
  ie_contentPreview :: "string option"
  ie_isPrivateNote :: bool
  ie_isEcho :: bool
  ie_isOutbound :: bool
  ie_occurredAt :: "string option"
  ie_externalRefs :: external_refs
  ie_contactHints :: contact_hints
  ie_conversationHints :: conversation_hints
  ie_flags :: event_flags
  ie_reviewConfirmationToken :: "string option"
  ie_rawEventType :: string
  ie_mappingRevision :: "rat option"

datatype normalize_code = MISSING_BODY | MISSING_EVENT_TYPE

datatype normalize_result = N_Ok inbound_event | N_Fail normalize_code | N_Throws

record minimal_scope =
  ms_organizationId :: string
  ms_provider :: string
  ms_connectionId :: string

record parse_result =
  pr_eventType :: string
  pr_eventId :: string
  pr_eventIdSource :: id_source

section \<open>Classification of the raw event\<close>

fun classifyEventType :: "string \<Rightarrow> bool \<Rightarrow> bool \<Rightarrow> inbound_event_type" where
  "classifyEventType eventType isPrivateNote isOutbound =
     (if isPrivateNote then PRIVATE_NOTE
      else if isOutbound then AGENT_MESSAGE_ECHO
      else if eventType = ''conversation_created'' then CONVERSATION_CREATED
      else if eventType = ''conversation_resolved'' then CONVERSATION_RESOLVED
      else if eventType = ''conversation_status_changed'' then CONVERSATION_STATUS_CHANGED
      else if eventType = ''conversation_assigned'' then CONVERSATION_ASSIGNED
      else if eventType = ''conversation_labeled'' then CONVERSATION_LABELED
      else if eventType = ''participant_added'' then PARTICIPANT_ADDED
      else if eventType = ''message_updated'' then MESSAGE_UPDATED
      else if eventType = ''message_deleted'' then MESSAGE_DELETED
      else if eventType = ''message_created'' \<or> eventType = ''message'' then CLIENT_INBOUND_MESSAGE
      else UNKNOWN_RAW)"

text \<open>
  The regular expression \<open>/(^|\s)private[_ -]?note(\s|$)|(^|\s)note(\s|$)/i\<close>: a word at
  a boundary, where a boundary is white space or an end of the text.
\<close>

fun strip_prefix :: "string \<Rightarrow> string \<Rightarrow> string option" where
  "strip_prefix [] s = Some s"
| "strip_prefix (p # ps) [] = None"
| "strip_prefix (p # ps) (c # cs) = (if p = lower c then strip_prefix ps cs else None)"

fun at_boundary :: "string \<Rightarrow> bool" where
  "at_boundary [] = True"
| "at_boundary (c # cs) = is_space c"

definition ends_word :: "string \<Rightarrow> string \<Rightarrow> bool" where
  "ends_word w s = (case strip_prefix w s of None \<Rightarrow> False | Some rest \<Rightarrow> at_boundary rest)"

text \<open>One of the two alternatives, after its opening boundary.\<close>

definition note_here :: "string \<Rightarrow> bool" where
  "note_here s \<longleftrightarrow>
     (case strip_prefix ''private'' s of
        None \<Rightarrow> False
      | Some rest \<Rightarrow>
          ends_word ''note'' rest \<or>
          (case rest of [] \<Rightarrow> False | c # cs \<Rightarrow> c \<in> set ''_ -'' \<and> ends_word ''note'' cs)) \<or>
     ends_word ''note'' s"

fun note_after_space :: "string \<Rightarrow> bool" where
  "note_after_space [] = False"
| "note_after_space (c # cs) = ((is_space c \<and> note_here cs) \<or> note_after_space cs)"

definition note_pattern :: "string \<Rightarrow> bool" where
  "note_pattern s \<longleftrightarrow> note_here s \<or> note_after_space s"

section \<open>Normalization\<close>

definition sender_kind_of :: "json option \<Rightarrow> sender_kind" where
  "sender_kind_of senderAttr =
     (let senderType = asNumber (jget_opt ''type'' senderAttr);
          senderRole = asString (jget_opt ''role'' senderAttr)
      in if senderType = Some 0 \<or> senderType = Some 1 then
           (if senderRole = Some ''agent'' \<or> senderRole = Some ''administrator'' then S_AGENT
            else if senderRole = Some ''bot'' then S_BOT
            else S_CONTACT)
         else S_UNKNOWN)"

definition branch_hint :: "json option \<Rightarrow> branch option" where
  "branch_hint customAttrs =
     (if jget_opt ''hrpi_branch'' customAttrs = Some (JStr ''TALENT'') then Some TALENT
      else if jget_opt ''hrpi_branch'' customAttrs = Some (JStr ''CLIENT'') then Some CLIENT
      else None)"

definition inbox_id_of :: "json option \<Rightarrow> string option" where
  "inbox_id_of conversationAttr =
     (case jget_opt ''inbox_id'' conversationAttr of
        None \<Rightarrow> None
      | Some v \<Rightarrow>
          nullish_opt (asString (Some (JStr (js_String v))))
            (case v of JNum n \<Rightarrow> Some (js_String v) | _ \<Rightarrow> None))"

text \<open>\<open>a ?? b\<close> on JSON members, where null counts as missing.\<close>

fun jnullish :: "json option \<Rightarrow> json option \<Rightarrow> json option" where
  "jnullish None d = d"
| "jnullish (Some JNull) d = d"
| "jnullish (Some v) d = Some v"

text \<open>
  The members the event is assembled from; a sender object is there when this is used.
\<close>

definition normalized_event ::
  "parse_result \<Rightarrow> json option \<Rightarrow> minimal_scope \<Rightarrow> string \<Rightarrow> inbound_event" where
  "normalized_event parse parsedBody scope eventType =
     (let messageAttr = asAttr (jget_opt ''message'' parsedBody);
          conversationAttr = asAttr (jget_opt ''conversation'' parsedBody);
          senderAttr = asAttr (jget_opt ''sender'' parsedBody);
          senderKind = sender_kind_of senderAttr;
          contentRaw = nullish_opt (asString (jget_opt ''content'' messageAttr))
            (asString (jget_opt ''content'' (jget_opt ''processed_params'' messageAttr)));
          isPrivateNote = not_null_and (\<lambda>c. note_pattern (js_trim c)) contentRaw;
          isOutbound = (\<not> isPrivateNote \<and> senderKind = S_AGENT);
          customAttrs = nullish_opt (asAttr (jget_opt ''custom_attributes'' senderAttr))
            (asAttr (jget_opt ''custom_attributes'' messageAttr));
          hasHrpiAttribute = (jtruthy (jget_opt ''hrpi_branch'' customAttrs) \<or>
            jtruthy (jget_opt ''hrp_target_id'' customAttrs));
          phone = nullish_opt (asString (jget_opt ''phone_number'' senderAttr))
            (asString (jget_opt ''phone'' (jget_opt ''messenger_details'' senderAttr)));
          conversationId = asString (jget_opt ''id'' conversationAttr);
          inboxId = inbox_id_of conversationAttr
      in \<lparr>ie_eventType = classifyEventType eventType isPrivateNote isOutbound,
         ie_organizationId = ms_organizationId scope,
         ie_provider = ms_provider scope,
         ie_connectionId = ms_connectionId scope,
         ie_eventId = pr_eventId parse,
         ie_eventIdSource = pr_eventIdSource parse,
         ie_senderKind = senderKind,
         ie_senderId = asString (jget_opt ''id'' senderAttr),
         ie_contentPreview = map_option (\<lambda>c. js_trim (take 80 c)) contentRaw,
         ie_isPrivateNote = isPrivateNote,
         ie_isEcho = (isOutbound \<and> senderKind = S_AGENT),
         ie_isOutbound = isOutbound,
         ie_occurredAt = asString (jnullish (jget_opt ''created_at'' messageAttr)
           (jget_opt ''timestamp'' parsedBody)),
         ie_externalRefs =
           \<lparr>xr_conversationId = conversationId, xr_inboxId = inboxId,
            xr_assigneeId = asString (jget_opt ''assignee_id'' conversationAttr)\<rparr>,
         ie_contactHints =
           \<lparr>ch_phone = phone, ch_email = asString (jget_opt ''email'' senderAttr),
            ch_fullName = asString (jget_opt ''name'' senderAttr)\<rparr>,
         ie_conversationHints =
           \<lparr>cv_conversationId = conversationId, cv_inboxId = inboxId,
            cv_status = asString (jget_opt ''status'' conversationAttr),
            cv_labels = asArray (jget_opt ''labels'' conversationAttr)\<rparr>,
         ie_flags =
           \<lparr>fl_hasHrpiAttribute = hasHrpiAttribute,
            fl_hasCustomAttribute = (customAttrs \<noteq> None),
            fl_claimedBranchHint = branch_hint customAttrs\<rparr>,
         ie_reviewConfirmationToken =
           nullish_opt (asString (jget_opt ''review_confirmation_token'' customAttrs))
             (asString (jget_opt ''review_confirmation_token'' parsedBody)),
         ie_rawEventType = eventType,
         ie_mappingRevision =
           nullish_opt (asNumber (jget_opt ''aggregate_version'' parsedBody))
             (asNumber (jget_opt ''aggregateVersion'' parsedBody))\<rparr>)"

definition normalizeChatwootEvent ::
  "parse_result \<Rightarrow> json option \<Rightarrow> minimal_scope \<Rightarrow> normalize_result" where
  "normalizeChatwootEvent parse parsedBody scope =
     (if \<not> is_object parsedBody then N_Fail MISSING_BODY
      else case asString (jget_opt ''event'' parsedBody) of
        None \<Rightarrow> N_Fail MISSING_EVENT_TYPE
      | Some eventType \<Rightarrow>
          if asAttr (jget_opt ''sender'' parsedBody) = None then N_Throws
          else N_Ok (normalized_event parse parsedBody scope eventType))"

section \<open>Facts\<close>

lemma normalized_event_fields:
  "ie_organizationId (normalized_event parse body scope et) = ms_organizationId scope"
  "ie_provider (normalized_event parse body scope et) = ms_provider scope"
  "ie_connectionId (normalized_event parse body scope et) = ms_connectionId scope"
  "ie_eventId (normalized_event parse body scope et) = pr_eventId parse"
  "ie_isPrivateNote (normalized_event parse body scope et) \<Longrightarrow>
     ie_eventType (normalized_event parse body scope et) = PRIVATE_NOTE \<and>
     \<not> ie_isEcho (normalized_event parse body scope et) \<and>
     \<not> ie_isOutbound (normalized_event parse body scope et)"
  "ie_isEcho (normalized_event parse body scope et) = ie_isOutbound (normalized_event parse body scope et)"
  "ie_isOutbound (normalized_event parse body scope et) \<Longrightarrow>
     ie_eventType (normalized_event parse body scope et) = AGENT_MESSAGE_ECHO \<and>
     ie_senderKind (normalized_event parse body scope et) = S_AGENT"
  by (simp_all add: normalized_event_def Let_def)

lemma normalize_ok:
  assumes "normalizeChatwootEvent parse body scope = N_Ok ev"
  obtains et where "is_object body" "asString (jget_opt ''event'' body) = Some et"
    "asAttr (jget_opt ''sender'' body) \<noteq> None" "ev = normalized_event parse body scope et"
  using assms by (auto simp: normalizeChatwootEvent_def split: if_splits option.splits)

lemma normalize_throws_iff:
  "normalizeChatwootEvent parse body scope = N_Throws \<longleftrightarrow>
     is_object body \<and> asString (jget_opt ''event'' body) \<noteq> None \<and>
     asAttr (jget_opt ''sender'' body) = None"
  by (auto simp: normalizeChatwootEvent_def split: option.splits)

end
