(* ===== verification/Firewall.thy ===== *)
theory Firewall
  imports Event_Normalizer
begin

text \<open>
  The semantic firewall of the worker, \<open>apps/integration-worker/src/firewall.ts\<close>: which
  inbound events may lead to an action.
\<close>

datatype event_classification = AUTHORITATIVE | NON_AUTHORITATIVE | REVIEW_NEEDED | BLOCKED

datatype reason_code =
  AUTHORITATIVE_CLIENT_MESSAGE | AUTHORITATIVE_CONVERSATION_CREATED
| NON_AUTHORITATIVE_PRIVATE_NOTE | NON_AUTHORITATIVE_ECHO | NON_AUTHORITATIVE_ASSIGNMENT
| NON_AUTHORITATIVE_RESOLVED | NON_AUTHORITATIVE_LABEL | NON_AUTHORITATIVE_UPDATED_DELETED
| REVIEW_POSSIBLE_MATCH | REVIEW_UNRESOLVED | REVIEW_HRPI_ATTRIBUTE_SPOOF
| BLOCKED_OUT_OF_ORDER | BLOCKED_MAPPING_REVISION_CHANGE | BLOCKED_UNKNOWN

record classification_result =
  cl_classification :: event_classification
  cl_reason :: reason_code
  cl_suggestedCommand :: "string option"
  cl_targetBranch :: "branch option"

definition verdict :: "event_classification \<Rightarrow> reason_code \<Rightarrow> classification_result" where
  "verdict c r =
     \<lparr>cl_classification = c, cl_reason = r, cl_suggestedCommand = None, cl_targetBranch = None\<rparr>"

definition classify_message :: "inbound_event \<Rightarrow> classification_result" where
  "classify_message event =
     (if fl_claimedBranchHint (ie_flags event) \<noteq> None \<and> ie_reviewConfirmationToken event = None then
        verdict REVIEW_NEEDED REVIEW_HRPI_ATTRIBUTE_SPOOF
      else
        \<lparr>cl_classification = AUTHORITATIVE, cl_reason = AUTHORITATIVE_CLIENT_MESSAGE,
         cl_suggestedCommand = Some ''recordInteraction'', cl_targetBranch = Some TALENT\<rparr>)"

definition classify :: "inbound_event \<Rightarrow> classification_result" where
  "classify event =
     (if ie_isPrivateNote event then verdict NON_AUTHORITATIVE NON_AUTHORITATIVE_PRIVATE_NOTE
      else if ie_isEcho event \<or> ie_isOutbound event then
        verdict NON_AUTHORITATIVE NON_AUTHORITATIVE_ECHO
      else case ie_eventType event of
        OUT_OF_ORDER_RAW \<Rightarrow> verdict BLOCKED BLOCKED_OUT_OF_ORDER
      | MAPPING_REVISION_CHANGED \<Rightarrow> verdict BLOCKED BLOCKED_MAPPING_REVISION_CHANGE
      | CONVERSATION_CREATED \<Rightarrow> verdict AUTHORITATIVE AUTHORITATIVE_CONVERSATION_CREATED
      | MESSAGE_CREATED \<Rightarrow> classify_message event
      | CLIENT_MESSAGE_CREATED \<Rightarrow> classify_message event
      | CLIENT_INBOUND_MESSAGE \<Rightarrow> classify_message event
      | CONVERSATION_RESOLVED \<Rightarrow> verdict NON_AUTHORITATIVE NON_AUTHORITATIVE_RESOLVED
      | CONVERSATION_ASSIGNED \<Rightarrow> verdict NON_AUTHORITATIVE NON_AUTHORITATIVE_ASSIGNMENT
      | CONVERSATION_LABELED \<Rightarrow> verdict NON_AUTHORITATIVE NON_AUTHORITATIVE_LABEL
      | CONVERSATION_STATUS_CHANGED \<Rightarrow> verdict NON_AUTHORITATIVE NON_AUTHORITATIVE_LABEL
      | MESSAGE_UPDATED \<Rightarrow> verdict NON_AUTHORITATIVE NON_AUTHORITATIVE_UPDATED_DELETED
      | MESSAGE_DELETED \<Rightarrow> verdict NON_AUTHORITATIVE NON_AUTHORITATIVE_UPDATED_DELETED
      | PARTICIPANT_ADDED \<Rightarrow> verdict REVIEW_NEEDED REVIEW_POSSIBLE_MATCH
      | _ \<Rightarrow> verdict BLOCKED BLOCKED_UNKNOWN)"

text \<open>\<open>validateCommand\<close> answers whether the command may be dispatched.\<close>

definition validateCommand :: "event_classification \<Rightarrow> string option \<Rightarrow> bool" where
  "validateCommand c command =
     (if c = NON_AUTHORITATIVE then False
      else if c = BLOCKED then False
      else if \<not> truthy command then False
      else True)"

section \<open>Facts\<close>

lemma verdict_simps [simp]:
  "cl_classification (verdict c r) = c" "cl_reason (verdict c r) = r"
  "cl_suggestedCommand (verdict c r) = None" "cl_targetBranch (verdict c r) = None"
  by (simp_all add: verdict_def)

lemma classify_message_cases:
  "cl_classification (classify_message ev) = AUTHORITATIVE \<or>
   cl_classification (classify_message ev) = REVIEW_NEEDED \<and>
     fl_claimedBranchHint (ie_flags ev) \<noteq> None \<and> ie_reviewConfirmationToken ev = None"
  by (simp add: classify_message_def)

lemma classify_private [simp]:
  "ie_isPrivateNote ev \<or> ie_isEcho ev \<or> ie_isOutbound ev \<Longrightarrow>
   cl_classification (classify ev) = NON_AUTHORITATIVE"
  by (auto simp: classify_def)

lemma suggested_only_authoritative:
  "cl_suggestedCommand (classify ev) = Some c \<Longrightarrow>
   cl_classification (classify ev) = AUTHORITATIVE \<and> c = ''recordInteraction'' \<and>
   \<not> ie_isPrivateNote ev \<and> \<not> ie_isEcho ev \<and> \<not> ie_isOutbound ev"
  by (auto simp: classify_def classify_message_def split: if_splits inbound_event_type.splits)

end
