(* ===== verification/Mapping_Service.thy ===== *)
theory Mapping_Service
  imports Firewall
begin

text \<open>
  Revision tracking and mapping of events to canonical targets,
  \<open>apps/integration-worker/src/mapping.ts\<close>. The module-level \<open>_linkCounter\<close> is passed and
  returned.
\<close>

section \<open>Revisions\<close>

datatype revision_check =
  FIRST_OBSERVATION | FRESH rat | STALE rat rat | FORWARD_REVISION rat rat

text \<open>
  A tracker answers \<open>checkRevision\<close> for an organization, a conversation and a claimed
  revision.
\<close>

type_synonym revision_tracker = "string \<Rightarrow> string \<Rightarrow> rat option \<Rightarrow> revision_check"

definition revision_key :: "string \<Rightarrow> string \<Rightarrow> string" where
  "revision_key organizationId conversationId = organizationId @ ''::'' @ conversationId"

definition getCurrentRevision :: "(string \<Rightarrow> rat option) \<Rightarrow> string \<Rightarrow> string \<Rightarrow> rat option" where
  "getCurrentRevision revs organizationId conversationId =
     revs (revision_key organizationId conversationId)"

definition checkRevision :: "(string \<Rightarrow> rat option) \<Rightarrow> revision_tracker" where
  "checkRevision revs organizationId conversationId claimRevision =
     (case revs (revision_key organizationId conversationId) of
        None \<Rightarrow> FIRST_OBSERVATION
      | Some observed \<Rightarrow>
          (case claimRevision of
             None \<Rightarrow> FRESH observed
           | Some claim \<Rightarrow>
               if claim < observed then STALE observed claim
               else if claim > observed then FORWARD_REVISION observed claim
               else FRESH observed))"

text \<open>\<open>createMockRevisionTracker\<close>: its map starts empty and nothing ever writes it.\<close>

definition createMockRevisionTracker :: revision_tracker where
  "createMockRevisionTracker = checkRevision (\<lambda>_. None)"

section \<open>Resolution\<close>

datatype mapping_state = EXACT_MATCH | POSSIBLE_MATCH | UNRESOLVED

record mapping_resolution =
  mr_state :: mapping_state
  mr_laborProfileId :: "string option"
  mr_laborProfileVersion :: "int option"
  mr_clientContactId :: "string option"
  mr_clientContactVersion :: "int option"
  mr_reviewQueueEntryId :: "string option"

datatype mapping_action =
  CALL_GATEWAY string | CREATE_REVIEW string | A_SKIP | A_BLOCKED

record mapping_result =
  mp_event :: inbound_event
  mp_classification :: classification_result
  mp_resolution :: mapping_resolution
  mp_action :: mapping_action
  mp_revisionCheck :: "revision_check option"

text \<open>
  A mapping service resolves an event, with its classification and the tracker, in the
  state of the counter.
\<close>

type_synonym mapping_service =
  "inbound_event \<Rightarrow> classification_result \<Rightarrow> revision_tracker \<Rightarrow> nat \<Rightarrow> mapping_result \<times> nat"

definition emptyResolution :: mapping_resolution where
  "emptyResolution =
     \<lparr>mr_state = UNRESOLVED, mr_laborProfileId = None, mr_laborProfileVersion = None,
      mr_clientContactId = None, mr_clientContactVersion = None, mr_reviewQueueEntryId = None\<rparr>"

text \<open>
  \<open>(eventId + (senderId ?? '')).charCodeAt(0) % 3\<close>: of the empty string it is NaN, which
  equals no seed.
\<close>

definition synthSeed :: "inbound_event \<Rightarrow> nat option" where
  "synthSeed event =
     (case ie_eventId event @ nullish (ie_senderId event) [] of
        [] \<Rightarrow> None | c # _ \<Rightarrow> Some (of_char c mod 3))"

definition createMockMappingService :: mapping_service where
  "createMockMappingService event c tracker linkCounter =
     (let result = (\<lambda>resolution action.
            \<lparr>mp_event = event, mp_classification = c, mp_resolution = resolution,
             mp_action = action, mp_revisionCheck = None\<rparr>)
      in if cl_classification c = BLOCKED then (result emptyResolution A_BLOCKED, linkCounter)
         else if cl_classification c = NON_AUTHORITATIVE then
           (result emptyResolution A_SKIP, linkCounter)
         else
           let seed = synthSeed event;
               counter = linkCounter + 1;
               suffix_of = (\<lambda>p. p @ take 8 (ie_organizationId event) @ ''-'' @ digits counter)
           in (if seed = Some 0 \<and> ie_senderId event \<noteq> None then
                 result (emptyResolution\<lparr>mr_state := EXACT_MATCH,
                           mr_laborProfileId := Some (suffix_of ''lp-''),
                           mr_laborProfileVersion := Some 1\<rparr>)
                   (CALL_GATEWAY (nullish (cl_suggestedCommand c) ''recordInteraction''))
               else if seed = Some 1 \<or> ie_senderId event = None then
                 result (emptyResolution\<lparr>mr_state := POSSIBLE_MATCH,
                           mr_reviewQueueEntryId := Some (suffix_of ''review-'')\<rparr>)
                   (CREATE_REVIEW ''POSSIBLE_MATCH'')
               else
                 result (emptyResolution\<lparr>mr_state := UNRESOLVED,
                           mr_reviewQueueEntryId := Some (suffix_of ''review-'')\<rparr>)
                   (CREATE_REVIEW ''UNRESOLVED''), counter))"

section \<open>Facts\<close>

lemma mock_tracker_first [simp]: "createMockRevisionTracker org conv claim = FIRST_OBSERVATION"
  by (simp add: createMockRevisionTracker_def checkRevision_def)

lemma checkRevision_kind:
  assumes "revs (revision_key org conv) = Some observed"
  shows "checkRevision revs org conv (Some claim) =
     (if claim < observed then STALE observed claim
      else if observed < claim then FORWARD_REVISION observed claim else FRESH observed)"
  using assms by (simp add: checkRevision_def)

lemma mock_mapping_event:
  "mp_event (fst (createMockMappingService ev c tr n)) = ev"
  "mp_classification (fst (createMockMappingService ev c tr n)) = c"
  by (simp_all add: createMockMappingService_def Let_def)

text \<open>Only events that passed the firewall can lead to a call.\<close>

lemma mock_mapping_call:
  "mp_action (fst (createMockMappingService ev c tr n)) = CALL_GATEWAY cmd \<Longrightarrow>
     cl_classification c \<noteq> BLOCKED \<and> cl_classification c \<noteq> NON_AUTHORITATIVE \<and>
     synthSeed ev = Some 0 \<and> ie_senderId ev \<noteq> None \<and>
     cmd = nullish (cl_suggestedCommand c) ''recordInteraction'' \<and>
     mr_state (mp_resolution (fst (createMockMappingService ev c tr n))) = EXACT_MATCH"
  by (auto simp: createMockMappingService_def Let_def split: if_splits)

lemma mock_mapping_calls:
  "cl_classification c = AUTHORITATIVE \<or> cl_classification c = REVIEW_NEEDED \<Longrightarrow>
   synthSeed ev = Some 0 \<Longrightarrow> ie_senderId ev \<noteq> None \<Longrightarrow>
   mp_action (fst (createMockMappingService ev c tr n)) =
     CALL_GATEWAY (nullish (cl_suggestedCommand c) ''recordInteraction'')"
  by (auto simp: createMockMappingService_def Let_def)

text \<open>An exact match invents a profile named by the counter.\<close>

lemma mock_mapping_profile:
  "mp_action (fst (createMockMappingService ev c tr n)) = CALL_GATEWAY cmd \<Longrightarrow>
     snd (createMockMappingService ev c tr n) = n + 1 \<and>
     mr_laborProfileId (mp_resolution (fst (createMockMappingService ev c tr n))) =
       Some (''lp-'' @ take 8 (ie_organizationId ev) @ ''-'' @ digits (n + 1))"
  by (auto simp: createMockMappingService_def Let_def split: if_splits)

end
