(* ===== verification/Pipeline.thy ===== *)
theory Pipeline
  imports Mapping_Service Store_System
begin

text \<open>
  The pipeline the worker runs for a claimed receipt,
  \<open>apps/integration-worker/src/pipeline-executor.ts\<close>: normalize, firewall, mapping,
  revision gate, and the action: call the gateway, create a review, or skip.

  The gateway is a service: its client is the argument \<open>gateway\<close>, which answers a request
  with a result or throws an error with a message. The world the pipeline changes is the
  store (through \<open>completeReceipt\<close>), the two module-level counters, and the requests sent.
\<close>

section \<open>Gateway messages\<close>

record gateway_request =
  gq_organizationId :: string
  gq_commandId :: string
  gq_idempotencyKey :: string
  gq_correlationId :: string
  gq_method :: string
  gq_provider :: string
  gq_connectionId :: string
  gq_scenarioId :: string
  gq_payload :: json

datatype gateway_status = ACCEPTED | APPLIED | FAILED

record gateway_error =
  ge_code :: string
  ge_retryClass :: "string option"

record gateway_result =
  gr_status :: gateway_status
  gr_operationId :: "string option"
  gr_errors :: "gateway_error list"

type_synonym gateway = "gateway_request \<Rightarrow> string + gateway_result"

section \<open>Classification of gateway errors\<close>

record error_classification =
  ec_retryable :: bool
  ec_decision :: terminal

definition nonRetryableCodes :: "string list" where
  "nonRetryableCodes =
     [''VALIDATION_ERROR'', ''VERSION_CONFLICT'', ''IDEMPOTENCY_CONFLICT'', ''SCOPE_MISMATCH'',
      ''TENANT_SCOPE_REQUIRED'']"

definition classifyGatewayError :: "string \<Rightarrow> string option \<Rightarrow> error_classification" where
  "classifyGatewayError errorCode retryClass =
     (if retryClass = Some ''NEVER'' then
        \<lparr>ec_retryable = False, ec_decision = T_DEAD_LETTERED\<rparr>
      else if errorCode \<in> set nonRetryableCodes then
        \<lparr>ec_retryable = False, ec_decision = T_DEAD_LETTERED\<rparr>
      else \<lparr>ec_retryable = True, ec_decision = T_RETRY_SCHEDULED\<rparr>)"

section \<open>Requests\<close>

definition selectScenarioId :: "inbound_event_type \<Rightarrow> mapping_state \<Rightarrow> string" where
  "selectScenarioId eventType mappingState =
     (if eventType = MESSAGE_CREATED \<or> eventType = CLIENT_INBOUND_MESSAGE then
        (if mappingState = EXACT_MATCH then ''EXACT_MATCH_SUCCESS'' else ''POSSIBLE_MATCH_REVIEW'')
      else if eventType = CONVERSATION_CREATED then ''NEW_PROFILE_CREATED''
      else if eventType = CONVERSATION_RESOLVED then ''CLOSED_CASE_SUCCESS''
      else if eventType = PARTICIPANT_ADDED then ''POSSIBLE_MATCH_REVIEW''
      else ''EXACT_MATCH_SUCCESS'')"

fun jopt :: "string option \<Rightarrow> json" where
  "jopt None = JNull"
| "jopt (Some s) = JStr s"

fun sender_kind_string :: "sender_kind \<Rightarrow> string" where
  "sender_kind_string S_CONTACT = ''CONTACT''"
| "sender_kind_string S_AGENT = ''AGENT''"
| "sender_kind_string S_BOT = ''BOT''"
| "sender_kind_string S_UNKNOWN = ''UNKNOWN''"

definition contact_json :: "contact_hints \<Rightarrow> json" where
  "contact_json c =
     JObj [(''phone'', jopt (ch_phone c)), (''email'', jopt (ch_email c)),
           (''fullName'', jopt (ch_fullName c))]"

definition conversation_json :: "conversation_hints \<Rightarrow> json" where
  "conversation_json c =
     JObj [(''conversationId'', jopt (cv_conversationId c)), (''inboxId'', jopt (cv_inboxId c)),
           (''status'', jopt (cv_status c)), (''labels'', JArr (map JStr (cv_labels c)))]"

text \<open>
  \<open>nowIso\<close> and \<open>dueIso\<close> are the ISO times of the clock and of the clock a day later. A
  member that is \<open>undefined\<close> is left out, and a spread member is overwritten in place.
\<close>

definition buildPayload ::
  "string \<Rightarrow> string \<Rightarrow> string \<Rightarrow> inbound_event \<Rightarrow> mapping_result \<Rightarrow> json" where
  "buildPayload nowIso dueIso command event mappingResult =
     (let res = mp_resolution mappingResult;
          base = [(''organizationId'', JStr (ie_organizationId event)),
                  (''source'', JObj
                    [(''provider'', JStr (ie_provider event)),
                     (''connectionId'', JStr (ie_connectionId event)),
                     (''eventId'', JStr (ie_eventId event)),
                     (''senderKind'', JStr (sender_kind_string (ie_senderKind event))),
                     (''senderId'', jopt (ie_senderId event))])];
          profile = JStr (nullish (mr_laborProfileId res) ''UNRESOLVED'')
      in if command = ''createOrMatchLaborProfile'' then
           JObj (base @
             [(''identity'', JObj
                [(''fullName'', jopt (ch_fullName (ie_contactHints event))),
                 (''phone'', jopt (ch_phone (ie_contactHints event)))]),
              (''matchedTarget'',
                (if truthy (mr_laborProfileId res) then
                   JObj [(''laborProfileId'', jopt (mr_laborProfileId res)),
                         (''version'', JNum (of_int (nullish (mr_laborProfileVersion res) 1)))]
                 else JNull)),
              (''metadata'', JObj
                [(''contactHints'', contact_json (ie_contactHints event)),
                 (''conversationHints'', conversation_json (ie_conversationHints event))])])
         else if command = ''recordInteraction'' then
           JObj (base @
             [(''laborProfileId'', profile),
              (''kind'', JStr ''PLACEMENT_PROGRESS''),
              (''outcome'', JStr ''POSITIVE''),
              (''context'', JObj
                [(''source'', JObj [(''kind'', JStr ''INTEGRATION'')]),
                 (''externalConversationId'', jopt (cv_conversationId (ie_conversationHints event))),
                 (''externalAccountId'', jopt (ie_senderId event))]),
              (''occurredAt'', JStr (nullish (ie_occurredAt event) nowIso))] @
             (case ie_contentPreview event of None \<Rightarrow> [] | Some s \<Rightarrow> [(''summary'', JStr s)]))
         else if command = ''updateLaborAvailability'' then
           JObj (base @
             [(''laborProfileId'', profile), (''availability'', JStr ''UNKNOWN''),
              (''expectedVersion'', JNum (of_int (nullish (mr_laborProfileVersion res) 0)))])
         else if command = ''createNextAction'' then
           JObj (base @
             [(''targetType'', JStr ''TALENT''), (''targetId'', profile),
              (''kind'', JStr ''FOLLOWUP''), (''dueAt'', JStr dueIso)])
         else if command = ''queryOutboxDelivery'' then
           JObj (base @
             [(''filter'', JObj
                [(''provider'', JStr (ie_provider event)),
                 (''connectionId'', JStr (ie_connectionId event))])])
         else JObj base)"

definition buildGatewayRequestFromPipeline ::
  "string \<Rightarrow> string \<Rightarrow> string \<Rightarrow> inbound_event \<Rightarrow> mapping_result \<Rightarrow> string \<Rightarrow> string \<Rightarrow> string \<Rightarrow> string \<Rightarrow>
   nat \<Rightarrow> gateway_request" where
  "buildGatewayRequestFromPipeline nowIso dueIso command event mappingResult idempotencyKey
     correlationId organizationId provider execCounter =
     \<lparr>gq_organizationId = organizationId,
      gq_commandId = ''cmd-'' @ take 8 (ie_organizationId event) @ ''-'' @
        take 16 (ie_eventId event) @ ''-'' @ digits execCounter,
      gq_idempotencyKey = idempotencyKey,
      gq_correlationId = correlationId,
      gq_method = command,
      gq_provider = provider,
      gq_connectionId = ie_connectionId event,
      gq_scenarioId = selectScenarioId (ie_eventType event) (mr_state (mp_resolution mappingResult)),
      gq_payload = buildPayload nowIso dueIso command event mappingResult\<rparr>"

section \<open>The pipeline\<close>

record executor_input =
  xi_receiptId :: string
  xi_eventId :: string
  xi_organizationId :: string
  xi_provider :: string
  xi_connectionId :: string
  xi_idempotencyKey :: "string option"
  xi_correlationId :: "string option"
  xi_fencingToken :: string
  xi_leaseOwner :: string
  xi_parsedEvent :: "json option"

text \<open>
  \<open>po_complete\<close>: both \<open>prisma\<close> and \<open>completeReceiptFn\<close> are given. The clock readings and
  the random number are those its completion makes.
\<close>

record pipeline_options =
  po_mappingService :: "mapping_service option"
  po_revisionTracker :: "revision_tracker option"
  po_complete :: bool
  po_now :: int
  po_backoffNow :: int
  po_random :: rat
  po_nowIso :: string
  po_dueIso :: string

record pipeline_world =
  pw_store :: store
  pw_linkCounter :: nat
  pw_execCounter :: nat
  pw_sent :: "gateway_request list"

datatype pipeline_outcome =
  P_Success gateway_result classification_result mapping_result "string option"
| P_Review string classification_result mapping_result
| P_Skipped classification_result
| P_Gateway_Error string bool "terminal option" "int option"
| P_Throws

definition pipeline_policy :: retry_policy where
  "pipeline_policy = \<lparr>baseMs = 1000, maxMs = 300000, maxAttempts = 8, jitterFraction = 1 / 5\<rparr>"

text \<open>Step 1. \<^const>\<open>None\<close> is a null event; the normalizer's TypeError is not caught.\<close>

datatype normalized = Ev inbound_event | No_Event | Ev_Throws

definition normalize_input :: "executor_input \<Rightarrow> normalized" where
  "normalize_input inp =
     (if is_object (xi_parsedEvent inp) \<and> jtruthy (jget_opt ''event'' (xi_parsedEvent inp)) then
        (case normalizeChatwootEvent
                \<lparr>pr_eventType = nullish (asString (jget_opt ''event'' (xi_parsedEvent inp))) [],
                 pr_eventId = xi_eventId inp, pr_eventIdSource = Id_primary\<rparr>
                (xi_parsedEvent inp)
                \<lparr>ms_organizationId = xi_organizationId inp, ms_provider = xi_provider inp,
                 ms_connectionId = xi_connectionId inp\<rparr> of
           N_Ok event \<Rightarrow> Ev event | N_Fail _ \<Rightarrow> No_Event | N_Throws \<Rightarrow> Ev_Throws)
      else No_Event)"

text \<open>The persisted retry decision for a FAILED result.\<close>

definition gateway_failed ::
  "executor_input \<Rightarrow> pipeline_options \<Rightarrow> gateway_result \<Rightarrow> pipeline_world \<Rightarrow>
   pipeline_outcome \<times> pipeline_world" where
  "gateway_failed inp opts gr w =
     (let err = (case gr_errors gr of [] \<Rightarrow> None | e # _ \<Rightarrow> Some e);
          errorCode = nullish (map_option ge_code err) ''UNKNOWN'';
          cls = classifyGatewayError errorCode (Option.bind err ge_retryClass)
      in if po_complete opts then
           let (cr, st') = completeReceipt
                 \<lparr>co_fencingToken = xi_fencingToken inp, co_leaseOwner = xi_leaseOwner inp,
                  co_outcome = (if ec_retryable cls then RETRY else FAIL),
                  co_error = Some (storeError errorCode (Some (ec_retryable cls)) None),
                  co_retryPolicy = Some pipeline_policy, co_now = po_now opts,
                  co_backoffNow = po_backoffNow opts, co_random = po_random opts\<rparr> (pw_store w);
               decision = (case cs_state cr of
                             C_RETRY_SCHEDULED \<Rightarrow> Some T_RETRY_SCHEDULED
                           | C_DEAD_LETTERED \<Rightarrow> Some T_DEAD_LETTERED
                           | C_DELIVERED \<Rightarrow> None)
           in (P_Gateway_Error errorCode (ec_retryable cls) decision (cs_nextAttemptAt cr),
               w\<lparr>pw_store := st'\<rparr>)
         else (P_Gateway_Error errorCode (ec_retryable cls) (Some (ec_decision cls)) None, w))"

definition call_gateway ::
  "gateway \<Rightarrow> executor_input \<Rightarrow> pipeline_options \<Rightarrow> string \<Rightarrow> inbound_event \<Rightarrow> classification_result \<Rightarrow>
   mapping_result \<Rightarrow> pipeline_world \<Rightarrow> pipeline_outcome \<times> pipeline_world" where
  "call_gateway gateway inp opts command event c mappingResult w =
     (let counter = pw_execCounter w + 1;
          request = buildGatewayRequestFromPipeline (po_nowIso opts) (po_dueIso opts) command event
            mappingResult
            (nullish (xi_idempotencyKey inp) (''auto-'' @ xi_receiptId inp))
            (nullish (xi_correlationId inp) (xi_receiptId inp))
            (xi_organizationId inp) (xi_provider inp) counter;
          w' = w\<lparr>pw_execCounter := counter, pw_sent := pw_sent w @ [request]\<rparr>
      in case gateway request of
           Inl msg \<Rightarrow>
             (P_Gateway_Error
                (if str_includes ''timeout'' msg then ''DEPENDENCY_UNAVAILABLE''
                 else ''TRANSACTION_FAILED'') True None None, w')
         | Inr gr \<Rightarrow>
             if gr_status gr = FAILED then gateway_failed inp opts gr w'
             else (P_Success gr c mappingResult
                     (if gr_status gr = ACCEPTED then gr_operationId gr else None), w'))"

text \<open>The revision gate, before the action: skip, divert to review, or go on.\<close>

definition revision_check_of ::
  "executor_input \<Rightarrow> pipeline_options \<Rightarrow> inbound_event \<Rightarrow> revision_check option" where
  "revision_check_of inp opts event =
     (case (ie_mappingRevision event, cv_conversationId (ie_conversationHints event)) of
        (Some claimRevision, Some conv) \<Rightarrow>
          Some (nullish (po_revisionTracker opts) createMockRevisionTracker
                  (xi_organizationId inp) conv (Some claimRevision))
      | _ \<Rightarrow> None)"

definition executePipelineForReceipt ::
  "gateway \<Rightarrow> executor_input \<Rightarrow> pipeline_options \<Rightarrow> pipeline_world \<Rightarrow>
   pipeline_outcome \<times> pipeline_world" where
  "executePipelineForReceipt gateway inp opts w =
     (case normalize_input inp of
        Ev_Throws \<Rightarrow> (P_Throws, w)
      | No_Event \<Rightarrow> (P_Skipped (verdict BLOCKED BLOCKED_UNKNOWN), w)
      | Ev event \<Rightarrow>
          let c = classify event;
              tracker = nullish (po_revisionTracker opts) createMockRevisionTracker;
              (mappingResult, counter) =
                nullish (po_mappingService opts) createMockMappingService event c tracker
                  (pw_linkCounter w);
              w1 = w\<lparr>pw_linkCounter := counter\<rparr>;
              proceed =
                (case mp_action mappingResult of
                   A_SKIP \<Rightarrow> (P_Skipped c, w1)
                 | A_BLOCKED \<Rightarrow> (P_Skipped c, w1)
                 | CREATE_REVIEW _ \<Rightarrow>
                     (P_Review (nullish (mr_reviewQueueEntryId (mp_resolution mappingResult)) ''unknown'')
                        c mappingResult, w1)
                 | CALL_GATEWAY command \<Rightarrow> call_gateway gateway inp opts command event c mappingResult w1)
          in (case revision_check_of inp opts event of
                Some (STALE observed claim) \<Rightarrow>
                  (P_Skipped (c\<lparr>cl_classification := BLOCKED,
                               cl_reason := BLOCKED_MAPPING_REVISION_CHANGE\<rparr>), w1)
              | Some (FORWARD_REVISION observed claim) \<Rightarrow>
                  (case mp_action mappingResult of
                     CALL_GATEWAY _ \<Rightarrow>
                       (P_Review
                          (nullish (mr_reviewQueueEntryId (mp_resolution mappingResult))
                             ''review-forward-revision'')
                          (mp_classification mappingResult)
                          (mappingResult\<lparr>mp_action := CREATE_REVIEW ''FORWARD_REVISION_PENDING_RECONCILE'',
                                         mp_revisionCheck := Some (FORWARD_REVISION observed claim)\<rparr>), w1)
                   | _ \<Rightarrow> proceed)
              | _ \<Rightarrow> proceed))"

section \<open>Facts\<close>

text \<open>The pipeline from a normalized event: its mapping, its gate, and its action.\<close>

lemma pipeline_no_event:
  "normalize_input inp = No_Event \<Longrightarrow>
   executePipelineForReceipt gateway inp opts w = (P_Skipped (verdict BLOCKED BLOCKED_UNKNOWN), w)"
  by (simp add: executePipelineForReceipt_def)

definition gate :: "revision_check option \<Rightarrow> bool" where
  "gate rc \<longleftrightarrow> (case rc of Some (STALE _ _) \<Rightarrow> False | Some (FORWARD_REVISION _ _) \<Rightarrow> False | _ \<Rightarrow> True)"

lemma call_gateway_sent:
  "pw_sent (snd (call_gateway gateway inp opts cmd ev c m w)) = pw_sent w @
     [buildGatewayRequestFromPipeline (po_nowIso opts) (po_dueIso opts) cmd ev m
        (nullish (xi_idempotencyKey inp) (''auto-'' @ xi_receiptId inp))
        (nullish (xi_correlationId inp) (xi_receiptId inp))
        (xi_organizationId inp) (xi_provider inp) (pw_execCounter w + 1)]"
proof -
  have "pw_sent (snd (gateway_failed inp opts gr w')) = pw_sent w'" for gr w'
    by (simp add: gateway_failed_def Let_def split: prod.split)
  then show ?thesis by (simp add: call_gateway_def Let_def split: sum.split)
qed

lemma call_gateway_counters:
  "pw_linkCounter (snd (call_gateway gateway inp opts cmd ev c m w)) = pw_linkCounter w"
  "pw_execCounter (snd (call_gateway gateway inp opts cmd ev c m w)) = pw_execCounter w + 1"
  by (simp_all add: call_gateway_def gateway_failed_def Let_def split: sum.split prod.split)

lemma pipeline_call:
  assumes "normalize_input inp = Ev ev"
    and "nullish (po_mappingService opts) createMockMappingService ev (classify ev)
      (nullish (po_revisionTracker opts) createMockRevisionTracker) (pw_linkCounter w) = (m, n)"
    and "mp_action m = CALL_GATEWAY cmd" and "gate (revision_check_of inp opts ev)"
  shows "executePipelineForReceipt gateway inp opts w =
    call_gateway gateway inp opts cmd ev (classify ev) m (w\<lparr>pw_linkCounter := n\<rparr>)"
  using assms by (simp add: executePipelineForReceipt_def Let_def gate_def
      split: option.splits revision_check.splits)

text \<open>What a run sends: nothing, or one request for an event that passed every gate.\<close>

lemma pipeline_sent:
  obtains (none) "pw_sent (snd (executePipelineForReceipt gateway inp opts w)) = pw_sent w"
    "pw_store (snd (executePipelineForReceipt gateway inp opts w)) = pw_store w"
    "\<And>code retryable dec nextAt.
       fst (executePipelineForReceipt gateway inp opts w) \<noteq> P_Gateway_Error code retryable dec nextAt"
  | (call) ev m n cmd where "normalize_input inp = Ev ev"
      "nullish (po_mappingService opts) createMockMappingService ev (classify ev)
         (nullish (po_revisionTracker opts) createMockRevisionTracker) (pw_linkCounter w) = (m, n)"
      "mp_action m = CALL_GATEWAY cmd" "gate (revision_check_of inp opts ev)"
      "executePipelineForReceipt gateway inp opts w =
         call_gateway gateway inp opts cmd ev (classify ev) m (w\<lparr>pw_linkCounter := n\<rparr>)"
proof (cases "normalize_input inp")
  case (Ev ev)
  obtain m n where m: "nullish (po_mappingService opts) createMockMappingService ev (classify ev)
      (nullish (po_revisionTracker opts) createMockRevisionTracker) (pw_linkCounter w) = (m, n)"
    by (cases "nullish (po_mappingService opts) createMockMappingService ev (classify ev)
      (nullish (po_revisionTracker opts) createMockRevisionTracker) (pw_linkCounter w)")
  show thesis
  proof (cases "(\<exists>cmd. mp_action m = CALL_GATEWAY cmd) \<and> gate (revision_check_of inp opts ev)")
    case True
    then obtain cmd where cmd: "mp_action m = CALL_GATEWAY cmd" by blast
    show thesis
    proof (rule call [OF Ev m cmd])
      show "gate (revision_check_of inp opts ev)" using True ..
      then show "executePipelineForReceipt gateway inp opts w =
         call_gateway gateway inp opts cmd ev (classify ev) m (w\<lparr>pw_linkCounter := n\<rparr>)"
        by (rule pipeline_call [OF Ev m cmd])
    qed
  next
    case False
    then have "pw_sent (snd (executePipelineForReceipt gateway inp opts w)) = pw_sent w \<and>
      pw_store (snd (executePipelineForReceipt gateway inp opts w)) = pw_store w \<and>
      (\<forall>code retryable dec nextAt.
         fst (executePipelineForReceipt gateway inp opts w) \<noteq> P_Gateway_Error code retryable dec nextAt)"
      by (auto simp: executePipelineForReceipt_def Ev m Let_def gate_def
          split: option.splits revision_check.splits mapping_action.splits)
    then show thesis by (intro none) auto
  qed
qed (auto simp: executePipelineForReceipt_def intro: none)

text \<open>A gateway error is the handling of a FAILED answer, or of a call that threw.\<close>

lemma pipeline_gateway_error:
  assumes "executePipelineForReceipt gateway inp opts w = (P_Gateway_Error code retryable dec nextAt, w')"
  obtains (failed) gr w1 where "pw_store w1 = pw_store w"
      "gateway_failed inp opts gr w1 = (P_Gateway_Error code retryable dec nextAt, w')"
  | (threw) "dec = None"
proof (cases rule: pipeline_sent [of gateway inp opts w])
  case (call ev m n cmd)
  from call assms have run: "call_gateway gateway inp opts cmd ev (classify ev) m (w\<lparr>pw_linkCounter := n\<rparr>) =
      (P_Gateway_Error code retryable dec nextAt, w')" by simp
  then have "dec = None \<or> (\<exists>gr w1. pw_store w1 = pw_store w \<and>
      gateway_failed inp opts gr w1 = (P_Gateway_Error code retryable dec nextAt, w'))"
    by (simp add: call_gateway_def Let_def split: sum.splits if_splits) fastforce
  then show thesis using failed threw by blast
next
  case none
  from none(3) [of code retryable dec nextAt] show thesis by (simp add: assms)
qed

end
