(* ===== verification/Pipeline_Properties.thy ===== *)
theory Pipeline_Properties
  imports Pipeline Store_Properties
begin

text \<open>
  Properties of the pipeline a receipt runs through: what may reach the gateway, the revision
  gate, what a retry repeats, and how a failed call is recorded.
\<close>

section \<open>Samples\<close>

definition sample_body :: "string \<Rightarrow> string \<Rightarrow> json" where
  "sample_body role content =
     JObj [(''event'', JStr ''message_created''),
           (''sender'', JObj [(''id'', JStr ''s1''), (''type'', JNum 0), (''role'', JStr role)]),
           (''message'', JObj [(''content'', JStr content)]),
           (''conversation'', JObj [(''id'', JStr ''conv1'')]),
           (''aggregate_version'', JNum 3)]"

text \<open>The code of f is 102, so the default mapping takes the event for an exact match.\<close>

definition sample_input :: "json option \<Rightarrow> executor_input" where
  "sample_input body =
     \<lparr>xi_receiptId = ''rcpt-1'', xi_eventId = ''f1'', xi_organizationId = ''org1'',
      xi_provider = ''zalo'', xi_connectionId = ''c1'', xi_idempotencyKey = None,
      xi_correlationId = None, xi_fencingToken = ''t1'', xi_leaseOwner = ''w-t1'',
      xi_parsedEvent = body\<rparr>"

definition sample_pipeline_options :: pipeline_options where
  "sample_pipeline_options =
     \<lparr>po_mappingService = None, po_revisionTracker = None, po_complete = True, po_now = 20,
      po_backoffNow = 20, po_random = 1 / 2, po_nowIso = ''now'', po_dueIso = ''due''\<rparr>"

definition sample_pipeline_world :: pipeline_world where
  "sample_pipeline_world =
     \<lparr>pw_store = sample_leased, pw_linkCounter = 0, pw_execCounter = 0, pw_sent = []\<rparr>"

definition failing_gateway :: "string \<Rightarrow> gateway" where
  "failing_gateway code q = Inr \<lparr>gr_status = FAILED, gr_operationId = None,
     gr_errors = [\<lparr>ge_code = code, ge_retryClass = None\<rparr>]\<rparr>"

definition calling_mapping :: mapping_service where
  "calling_mapping ev c tr n =
     (\<lparr>mp_event = ev, mp_classification = c, mp_resolution = emptyResolution,
       mp_action = CALL_GATEWAY ''recordInteraction'', mp_revisionCheck = None\<rparr>, n)"

lemmas sample_pipeline = sample_input_def sample_pipeline_options_def sample_pipeline_world_def

section \<open>What reaches the gateway\<close>

lemma normalize_input_ok:
  assumes "normalize_input inp = Ev ev"
  obtains et where "ev = normalized_event
      \<lparr>pr_eventType = nullish (asString (jget_opt ''event'' (xi_parsedEvent inp))) [],
       pr_eventId = xi_eventId inp, pr_eventIdSource = Id_primary\<rparr> (xi_parsedEvent inp)
      \<lparr>ms_organizationId = xi_organizationId inp, ms_provider = xi_provider inp,
       ms_connectionId = xi_connectionId inp\<rparr> et"
  using assms by (auto simp: normalize_input_def elim!: normalize_ok split: if_splits normalize_result.splits)

lemma default_mapping_call:
  assumes "nullish None createMockMappingService ev (classify ev) tr n = (m, k)"
    and "mp_action m = CALL_GATEWAY cmd"
  shows "cl_classification (classify ev) \<noteq> BLOCKED" "cl_classification (classify ev) \<noteq> NON_AUTHORITATIVE"
    "cmd = nullish (cl_suggestedCommand (classify ev)) ''recordInteraction''"
    "synthSeed ev = Some 0" "ie_senderId ev \<noteq> None" "mr_state (mp_resolution m) = EXACT_MATCH"
  using mock_mapping_call [of ev "classify ev" tr n cmd] assms by auto

text \<open>An event stopped by the firewall is never sent under the default mapping.\<close>

lemma stopped_not_sent:
  assumes "po_mappingService opts = None"
    and stop: "\<And>ev. normalize_input inp = Ev ev \<Longrightarrow>
      cl_classification (classify ev) \<in> {BLOCKED, NON_AUTHORITATIVE}"
  shows "pw_sent (snd (executePipelineForReceipt gateway inp opts w)) = pw_sent w"
proof (cases rule: pipeline_sent [of gateway inp opts w])
  case (call ev m n cmd)
  from default_mapping_call(1,2) [OF call(2) [unfolded assms(1)] call(3)] stop [OF call(1)]
  show ?thesis by simp
qed simp

text \<open>C10. With the default mapping service the pipeline sends at most one request, and only for an
  event the firewall let through: normalized from the stored payload, neither a private note
  nor an agent's message, of a known sender, not behind or ahead of the tracked revision. The
  request carries the organization and idempotency key of the receipt.\<close>

theorem only_admitted_events_reach_gateway:
  assumes "po_mappingService opts = None"
    and "pw_sent (snd (executePipelineForReceipt gateway inp opts w)) \<noteq> pw_sent w"
  shows "\<exists>ev q. normalize_input inp = Ev ev \<and>
    pw_sent (snd (executePipelineForReceipt gateway inp opts w)) = pw_sent w @ [q] \<and>
    \<not> ie_isPrivateNote ev \<and> \<not> ie_isOutbound ev \<and> ie_senderId ev \<noteq> None \<and>
    cl_classification (classify ev) \<in> {AUTHORITATIVE, REVIEW_NEEDED} \<and>
    gate (revision_check_of inp opts ev) \<and>
    gq_method q = ''recordInteraction'' \<and>
    gq_organizationId q = xi_organizationId inp \<and>
    gq_idempotencyKey q = nullish (xi_idempotencyKey inp) (''auto-'' @ xi_receiptId inp)"
proof (cases rule: pipeline_sent [of gateway inp opts w])
  case (call ev m n cmd)
  note admitted = default_mapping_call [OF call(2) [unfolded assms(1)] call(3)]
  have cmd: "cmd = ''recordInteraction''"
    using admitted(3) suggested_only_authoritative by (cases "cl_suggestedCommand (classify ev)") auto
  have cl: "cl_classification (classify ev) \<in> {AUTHORITATIVE, REVIEW_NEEDED}"
    using admitted(1,2) by (cases "cl_classification (classify ev)") auto
  show ?thesis
    using admitted(5) call(1,4) classify_private [of ev] admitted(2) cl
    by (auto simp: call(5) call_gateway_sent cmd buildGatewayRequestFromPipeline_def)
qed (use assms(2) in simp)

theorem only_admitted_events_reach_gateway_witness:
  "\<exists>ev q. normalize_input (sample_input (Some (sample_body ''contact'' ''hello''))) = Ev ev \<and>
     pw_sent (snd (executePipelineForReceipt (failing_gateway ''RATE_LIMITED'')
        (sample_input (Some (sample_body ''contact'' ''hello''))) sample_pipeline_options
        sample_pipeline_world)) = [q] \<and>
     \<not> ie_isPrivateNote ev \<and> gq_idempotencyKey q = ''auto-rcpt-1''"
proof -
  have sent: "pw_sent (snd (executePipelineForReceipt (failing_gateway ''RATE_LIMITED'')
        (sample_input (Some (sample_body ''contact'' ''hello''))) sample_pipeline_options
        sample_pipeline_world)) \<noteq> pw_sent sample_pipeline_world"
    by code_simp
  show ?thesis
    using only_admitted_events_reach_gateway [OF _ sent] by (auto simp: sample_pipeline)
qed

text \<open>The command gate of the firewall is not the gate of the pipeline. An event of a known
  sender that needs review (a spoofed branch attribute, say) suggests no command, and
  \<open>validateCommand\<close> refuses it; yet the default mapping, on an exact match, has the pipeline
  record an interaction for it at once.\<close>

lemma review_needed_reaches_gateway:
  assumes "po_mappingService opts = None" and "normalize_input inp = Ev ev"
    and "cl_classification (classify ev) = REVIEW_NEEDED"
    and "synthSeed ev = Some 0" and "ie_senderId ev \<noteq> None" and "gate (revision_check_of inp opts ev)"
  shows "\<not> validateCommand (cl_classification (classify ev)) (cl_suggestedCommand (classify ev)) \<and>
    (\<exists>q. pw_sent (snd (executePipelineForReceipt gateway inp opts w)) = pw_sent w @ [q] \<and>
         gq_method q = ''recordInteraction'')"
proof
  have none: "cl_suggestedCommand (classify ev) = None"
    using suggested_only_authoritative [of ev] assms(3) by (cases "cl_suggestedCommand (classify ev)") auto
  then show "\<not> validateCommand (cl_classification (classify ev)) (cl_suggestedCommand (classify ev))"
    by (simp add: validateCommand_def)
  obtain m n where m: "createMockMappingService ev (classify ev)
      (nullish (po_revisionTracker opts) createMockRevisionTracker) (pw_linkCounter w) = (m, n)" by (metis prod.exhaust)
  have act: "mp_action m = CALL_GATEWAY ''recordInteraction''"
    using mock_mapping_calls [of "classify ev" ev
        "nullish (po_revisionTracker opts) createMockRevisionTracker" "pw_linkCounter w"] assms(3-5) m none
    by auto
  have "executePipelineForReceipt gateway inp opts w =
      call_gateway gateway inp opts ''recordInteraction'' ev (classify ev) m (w\<lparr>pw_linkCounter := n\<rparr>)"
    by (rule pipeline_call) (simp_all add: assms m act)
  then show "\<exists>q. pw_sent (snd (executePipelineForReceipt gateway inp opts w)) = pw_sent w @ [q] \<and>
         gq_method q = ''recordInteraction''"
    by (simp add: call_gateway_sent buildGatewayRequestFromPipeline_def)
qed

definition spoofed_body :: json where
  "spoofed_body =
     JObj [(''event'', JStr ''message_created''),
           (''sender'', JObj [(''id'', JStr ''s1''), (''type'', JNum 0),
              (''custom_attributes'', JObj [(''hrpi_branch'', JStr ''CLIENT'')])]),
           (''message'', JObj [(''content'', JStr ''hello'')])]"

section \<open>Text and senders\<close>

lemma strip_note: "ends_word ''note'' (''note'' @ s) \<longleftrightarrow> at_boundary s"
  by (simp add: ends_word_def lower_def)

lemma note_after_space_append: "note_after_space s \<Longrightarrow> note_after_space (t @ s)"
  by (induction t) auto

lemma note_word:
  assumes "a = [] \<or> is_space (last a)" and "at_boundary b"
  shows "note_pattern (a @ ''note'' @ b)"
proof (cases "a = []")
  case True
  then show ?thesis using strip_note [of b] assms(2) by (simp add: note_pattern_def note_here_def)
next
  case False
  then have a: "a = butlast a @ [last a]" "is_space (last a)" using assms(1) by auto
  have "note_after_space ([last a] @ ''note'' @ b)"
    using strip_note [of b] assms(2) a(2) by (simp add: note_here_def)
  then have "note_after_space (butlast a @ [last a] @ ''note'' @ b)" by (rule note_after_space_append)
  then show ?thesis using a(1) by (metis append.assoc note_pattern_def)
qed

text \<open>Under the default mapping, a payload from an agent or administrator, or one whose text
  has the word note, never leads to a request, whatever event it claims to be; the latter
  also when a contact wrote it, in an ordinary sentence.\<close>

lemma agent_or_note_never_sent:
  assumes "po_mappingService opts = None" and "xi_parsedEvent inp = Some body"
    and "sender_kind_of (asAttr (jget ''sender'' body)) = S_AGENT \<or>
      (\<exists>t a b. jget_opt ''content'' (asAttr (jget ''message'' body)) = Some (JStr t) \<and>
         js_trim t = a @ ''note'' @ b \<and> (a = [] \<or> is_space (last a)) \<and> at_boundary b)"
  shows "pw_sent (snd (executePipelineForReceipt gateway inp opts w)) = pw_sent w"
proof (rule stopped_not_sent [OF assms(1)])
  fix ev assume "normalize_input inp = Ev ev"
  then obtain p sc et where ev: "ev = normalized_event p (Some body) sc et"
    by (elim normalize_input_ok) (auto simp: assms(2))
  from assms(3) have "ie_isPrivateNote ev \<or> ie_isOutbound ev"
  proof
    assume "sender_kind_of (asAttr (jget ''sender'' body)) = S_AGENT"
    then show ?thesis by (simp add: ev normalized_event_def Let_def)
  next
    assume "\<exists>t a b. jget_opt ''content'' (asAttr (jget ''message'' body)) = Some (JStr t) \<and>
         js_trim t = a @ ''note'' @ b \<and> (a = [] \<or> is_space (last a)) \<and> at_boundary b"
    then obtain t a b where t: "jget_opt ''content'' (asAttr (jget ''message'' body)) = Some (JStr t)"
      "js_trim t = a @ ''note'' @ b" "a = [] \<or> is_space (last a)" "at_boundary b"
      by blast
    then have "asString (Some (JStr t)) = Some t" by (cases t) (auto simp: js_trim_def)
    then show ?thesis using t(1,2) note_word [OF t(3,4)]
      by (simp add: ev normalized_event_def Let_def)
  qed
  then show "cl_classification (classify ev) \<in> {BLOCKED, NON_AUTHORITATIVE}" by auto
qed

text \<open>The pipeline throws exactly on an object payload that names an event and has no sender
  object; nothing is written or sent then, so the receipt is left leased, not completed.\<close>

lemma pipeline_throws_iff:
  "(fst (executePipelineForReceipt gateway inp opts w) = P_Throws \<longleftrightarrow>
      (\<exists>ms e. xi_parsedEvent inp = Some (JObj ms) \<and> map_of ms ''event'' = Some (JStr e) \<and> e \<noteq> [] \<and>
         asAttr (map_of ms ''sender'') = None)) \<and>
   (fst (executePipelineForReceipt gateway inp opts w) = P_Throws \<longrightarrow>
      snd (executePipelineForReceipt gateway inp opts w) = w)"
proof -
  have "normalize_input inp = Ev_Throws \<longleftrightarrow>
      (\<exists>ms e. xi_parsedEvent inp = Some (JObj ms) \<and> map_of ms ''event'' = Some (JStr e) \<and> e \<noteq> [] \<and>
         asAttr (map_of ms ''sender'') = None)"
  proof (cases "\<exists>ms. xi_parsedEvent inp = Some (JObj ms)")
    case True
    then obtain ms where ms: "xi_parsedEvent inp = Some (JObj ms)" ..
    show ?thesis
      by (cases "map_of ms ''event''" rule: asString.cases)
        (auto simp: ms normalize_input_def normalizeChatwootEvent_def split: option.splits)
  next
    case False
    then have "jget_opt ''event'' (xi_parsedEvent inp) = None"
      by (cases "xi_parsedEvent inp"; cases "the (xi_parsedEvent inp)") auto
    then show ?thesis using False by (simp add: normalize_input_def)
  qed
  moreover have "fst (executePipelineForReceipt gateway inp opts w) = P_Throws \<longleftrightarrow> normalize_input inp = Ev_Throws"
  proof (cases "normalize_input inp")
    case (Ev ev)
    have "fst (call_gateway gateway inp opts cmd ev c m w') \<noteq> P_Throws" for cmd c m w'
      by (simp add: call_gateway_def gateway_failed_def Let_def split: sum.split prod.split)
    then show ?thesis
      by (simp add: executePipelineForReceipt_def Ev Let_def
          split: option.splits revision_check.splits mapping_action.splits prod.splits)
  qed (simp_all add: executePipelineForReceipt_def)
  moreover have "normalize_input inp = Ev_Throws \<Longrightarrow> snd (executePipelineForReceipt gateway inp opts w) = w"
    by (simp add: executePipelineForReceipt_def)
  ultimately show ?thesis by blast
qed

section \<open>The revision gate\<close>

text \<open>Whatever the mapping service decides, an event whose claimed revision differs from the
  revision tracked for its conversation sends nothing and writes nothing: a stale one is
  skipped with its reason, and one ahead of the tracked revision that would call the gateway
  is diverted to review.\<close>

lemma revision_gate:
  assumes "po_revisionTracker opts = Some (checkRevision revs)" and "normalize_input inp = Ev ev"
    and "ie_mappingRevision ev = Some claim" and "cv_conversationId (ie_conversationHints ev) = Some conv"
    and "revs (revision_key (xi_organizationId inp) conv) = Some observed" and "claim \<noteq> observed"
  shows "pw_sent (snd (executePipelineForReceipt gateway inp opts w)) = pw_sent w \<and>
    pw_store (snd (executePipelineForReceipt gateway inp opts w)) = pw_store w \<and>
    (claim < observed \<longrightarrow> (\<exists>c. fst (executePipelineForReceipt gateway inp opts w) = P_Skipped c \<and>
       cl_reason c = BLOCKED_MAPPING_REVISION_CHANGE)) \<and>
    (observed < claim \<longrightarrow>
       (\<exists>cmd. mp_action (fst (nullish (po_mappingService opts) createMockMappingService ev (classify ev)
                (checkRevision revs) (pw_linkCounter w))) = CALL_GATEWAY cmd) \<longrightarrow>
       (\<exists>k c m. fst (executePipelineForReceipt gateway inp opts w) = P_Review k c m \<and>
          mp_action m = CREATE_REVIEW ''FORWARD_REVISION_PENDING_RECONCILE''))"
proof -
  have rc: "revision_check_of inp opts ev =
      Some (if claim < observed then STALE observed claim else FORWARD_REVISION observed claim)"
    using assms checkRevision_kind [of revs "xi_organizationId inp" conv observed claim]
    by (auto simp: revision_check_of_def)
  have "\<not> gate (revision_check_of inp opts ev)" by (simp add: rc gate_def)
  then have quiet: "pw_sent (snd (executePipelineForReceipt gateway inp opts w)) = pw_sent w \<and>
      pw_store (snd (executePipelineForReceipt gateway inp opts w)) = pw_store w"
    using assms(2) by (cases rule: pipeline_sent [of gateway inp opts w]) auto
  obtain m n where m: "nullish (po_mappingService opts) createMockMappingService ev (classify ev)
      (checkRevision revs) (pw_linkCounter w) = (m, n)" by (metis prod.exhaust)
  have run: "executePipelineForReceipt gateway inp opts w =
      (P_Skipped ((classify ev)\<lparr>cl_classification := BLOCKED, cl_reason := BLOCKED_MAPPING_REVISION_CHANGE\<rparr>),
       w\<lparr>pw_linkCounter := n\<rparr>)" if "claim < observed"
    using that by (simp add: executePipelineForReceipt_def assms(1,2) m rc)
  have fwd: "\<exists>k c m'. fst (executePipelineForReceipt gateway inp opts w) = P_Review k c m' \<and>
      mp_action m' = CREATE_REVIEW ''FORWARD_REVISION_PENDING_RECONCILE''"
    if "observed < claim" "mp_action m = CALL_GATEWAY cmd" for cmd
    using that by (simp add: executePipelineForReceipt_def assms(1,2) m rc)
  show ?thesis
  proof (intro conjI impI)
    show "\<exists>c. fst (executePipelineForReceipt gateway inp opts w) = P_Skipped c \<and>
        cl_reason c = BLOCKED_MAPPING_REVISION_CHANGE" if "claim < observed"
      by (simp add: run [OF that])
  qed (use quiet fwd m in auto)
qed

section \<open>Retries\<close>

text \<open>With the default mapping and tracker, the request a run sends, when it sends one.\<close>

lemma default_request:
  assumes "po_mappingService opts = None"
    and "pw_sent (snd (executePipelineForReceipt gateway inp opts w)) \<noteq> pw_sent w"
  obtains ev m where "normalize_input inp = Ev ev"
    "pw_sent (snd (executePipelineForReceipt gateway inp opts w)) = pw_sent w @
       [buildGatewayRequestFromPipeline (po_nowIso opts) (po_dueIso opts) ''recordInteraction'' ev m
          (nullish (xi_idempotencyKey inp) (''auto-'' @ xi_receiptId inp))
          (nullish (xi_correlationId inp) (xi_receiptId inp))
          (xi_organizationId inp) (xi_provider inp) (pw_execCounter w + 1)]"
    "mr_laborProfileId (mp_resolution m) =
       Some (''lp-'' @ take 8 (ie_organizationId ev) @ ''-'' @ digits (pw_linkCounter w + 1))"
    "pw_linkCounter (snd (executePipelineForReceipt gateway inp opts w)) = pw_linkCounter w + 1"
    "pw_execCounter (snd (executePipelineForReceipt gateway inp opts w)) = pw_execCounter w + 1"
proof (cases rule: pipeline_sent [of gateway inp opts w])
  case (call ev m n cmd)
  note admitted = default_mapping_call [OF call(2) [unfolded assms(1)] call(3)]
  have cmd: "cmd = ''recordInteraction''"
    using admitted(3) suggested_only_authoritative by (cases "cl_suggestedCommand (classify ev)") auto
  have prof: "n = pw_linkCounter w + 1" "mr_laborProfileId (mp_resolution m) =
       Some (''lp-'' @ take 8 (ie_organizationId ev) @ ''-'' @ digits (pw_linkCounter w + 1))"
    using mock_mapping_profile [of ev "classify ev" "nullish (po_revisionTracker opts) createMockRevisionTracker"
        "pw_linkCounter w" cmd] call(2,3) by (simp_all add: assms(1))
  show thesis
    by (rule that [OF call(1) _ prof(2)])
      (simp_all add: call(5) call_gateway_sent call_gateway_counters cmd prof(1))
qed (use assms(2) in simp)

lemma record_profile:
  "buildPayload a b ''recordInteraction'' ev m = buildPayload a' b' ''recordInteraction'' ev m' \<Longrightarrow>
   nullish (mr_laborProfileId (mp_resolution m)) ''UNRESOLVED'' =
   nullish (mr_laborProfileId (mp_resolution m')) ''UNRESOLVED''"
  by (simp add: buildPayload_def Let_def)

text \<open>With the default mapping, a retry of a receipt repeats its idempotency key and its
  correlation id, but never its request: the command id and the payload of any later run
  differ, since both carry counters of the process.\<close>

lemma retry_changes_payload:
  assumes "po_mappingService opts = None" and "po_mappingService opts' = None"
    and "snd (executePipelineForReceipt gateway inp opts w) = w1"
    and "pw_linkCounter w1 \<le> pw_linkCounter w'" and "pw_execCounter w1 \<le> pw_execCounter w'"
    and "pw_sent w1 = pw_sent w @ [q]"
    and "pw_sent (snd (executePipelineForReceipt gateway' inp opts' w')) = pw_sent w' @ [q']"
  shows "gq_idempotencyKey q' = gq_idempotencyKey q \<and> gq_correlationId q' = gq_correlationId q \<and>
    gq_commandId q' \<noteq> gq_commandId q \<and> gq_payload q' \<noteq> gq_payload q"
proof -
  obtain ev m where a: "normalize_input inp = Ev ev"
    "q = buildGatewayRequestFromPipeline (po_nowIso opts) (po_dueIso opts) ''recordInteraction'' ev m
          (nullish (xi_idempotencyKey inp) (''auto-'' @ xi_receiptId inp))
          (nullish (xi_correlationId inp) (xi_receiptId inp))
          (xi_organizationId inp) (xi_provider inp) (pw_execCounter w + 1)"
    "mr_laborProfileId (mp_resolution m) =
       Some (''lp-'' @ take 8 (ie_organizationId ev) @ ''-'' @ digits (pw_linkCounter w + 1))"
    "pw_linkCounter w + 1 \<le> pw_linkCounter w'" "pw_execCounter w + 1 \<le> pw_execCounter w'"
    by (rule default_request [OF assms(1), of gateway inp w]) (use assms(3-6) in auto)
  obtain ev' m' where b: "normalize_input inp = Ev ev'"
    "q' = buildGatewayRequestFromPipeline (po_nowIso opts') (po_dueIso opts') ''recordInteraction'' ev' m'
          (nullish (xi_idempotencyKey inp) (''auto-'' @ xi_receiptId inp))
          (nullish (xi_correlationId inp) (xi_receiptId inp))
          (xi_organizationId inp) (xi_provider inp) (pw_execCounter w' + 1)"
    "mr_laborProfileId (mp_resolution m') =
       Some (''lp-'' @ take 8 (ie_organizationId ev') @ ''-'' @ digits (pw_linkCounter w' + 1))"
    by (rule default_request [OF assms(2), of gateway' inp w']) (use assms(7) in auto)
  have ev: "ev' = ev" using a(1) b(1) by simp
  have "gq_payload q' \<noteq> gq_payload q"
  proof
    assume "gq_payload q' = gq_payload q"
    from record_profile [OF this [unfolded a(2) b(2) ev buildGatewayRequestFromPipeline_def gateway_request.simps]]
    show False using a(3,4) b(3) ev by simp
  qed
  moreover have "gq_commandId q' \<noteq> gq_commandId q"
    using a(5) by (simp add: a(2) b(2) ev buildGatewayRequestFromPipeline_def)
  ultimately show ?thesis by (simp add: a(2) b(2) buildGatewayRequestFromPipeline_def)
qed

section \<open>Failed calls\<close>

text \<open>A completed receipt's token is lost, whatever its outcome.\<close>

lemma completed_token_lost:
  assumes ok: "store_ok issued st" and r: "r \<in> set (receipts st)"
    and held: "held_receipt (co_fencingToken args) (co_leaseOwner args) r"
  shows "lost rc_fencingToken (co_fencingToken args) (receipts (snd (completeReceipt args st)))"
proof -
  obtain e where e: "snd (completeReceipt_write args r st) = put_receipt (rc_receiptId r) e st"
    using completeReceipt_write_puts by blast
  have "rc_fencingToken r = Some (co_fencingToken args)" using held by (simp add: held_receipt_def)
  from receipt_lease.finish_loses [OF store_okD(1) [OF ok] r this, of e]
  show ?thesis by (simp add: completeReceipt_held [OF ok r held] e put_receipt_def)
qed

lemma lost_completion_fenced:
  "lost rc_fencingToken (co_fencingToken args) (receipts st) \<Longrightarrow>
   completeReceipt args st = (\<lparr>cs_state = C_DELIVERED, cs_nextAttemptAt = None, cs_fencedRejected = True\<rparr>, st)"
  using receipt_lease.lost_find
  by (simp add: completeReceipt_def completeReceipt_read_def held_receipt_token)

lemma isRetryable_flag: "isRetryable (storeError code (Some True) t)"
  by (simp add: isRetryable_def storeError_def)

text \<open>The completion the pipeline makes for a FAILED answer.\<close>

lemma gateway_failed_completes:
  assumes ok: "store_ok issued (pw_store w)" and r: "r \<in> set (receipts (pw_store w))"
    and held: "held_receipt (xi_fencingToken inp) (xi_leaseOwner inp) r" and "po_complete opts"
    and run: "gateway_failed inp opts gr w = (P_Gateway_Error code retryable dec nextAt, w')"
  shows "(\<exists>row. receipt_at (rc_receiptId r) (pw_store w') = Some row \<and>
      rc_state row = (if retryable \<and> rc_attempts r < 8 then R_RETRY_SCHEDULED else R_DEAD_LETTERED) \<and>
      dec = Some (if retryable \<and> rc_attempts r < 8 then T_RETRY_SCHEDULED else T_DEAD_LETTERED)) \<and>
    lost rc_fencingToken (xi_fencingToken inp) (receipts (pw_store w'))"
proof -
  obtain args where args: "args = \<lparr>co_fencingToken = xi_fencingToken inp, co_leaseOwner = xi_leaseOwner inp,
                  co_outcome = (if retryable then RETRY else FAIL),
                  co_error = Some (storeError code (Some retryable) None),
                  co_retryPolicy = Some pipeline_policy, co_now = po_now opts,
                  co_backoffNow = po_backoffNow opts, co_random = po_random opts\<rparr>" by blast
  have w': "pw_store w' = snd (completeReceipt args (pw_store w))"
    and dec: "dec = (case cs_state (fst (completeReceipt args (pw_store w))) of
       C_RETRY_SCHEDULED \<Rightarrow> Some T_RETRY_SCHEDULED | C_DEAD_LETTERED \<Rightarrow> Some T_DEAD_LETTERED | C_DELIVERED \<Rightarrow> None)"
    using run assms(4) by (auto simp: gateway_failed_def args Let_def split: prod.splits)
  have h: "held_receipt (co_fencingToken args) (co_leaseOwner args) r" using held by (simp add: args)
  note written = completeReceipt_held [OF ok r h]
  have re: "reschedules args r p \<longleftrightarrow> p = pipeline_policy \<and> retryable \<and> rc_attempts r < 8" for p
    by (auto simp: args reschedules_def completion_error_def pipeline_policy_def isRetryable_flag)
  have here: "receipt_at (rc_receiptId r) (pw_store w) = Some r" by (rule receipt_at_mem [OF ok r])
  have "lost rc_fencingToken (xi_fencingToken inp) (receipts (pw_store w'))"
    using completed_token_lost [OF ok r h] by (simp add: w' args)
  moreover have "\<exists>row. receipt_at (rc_receiptId r) (pw_store w') = Some row \<and>
      rc_state row = (if retryable \<and> rc_attempts r < 8 then R_RETRY_SCHEDULED else R_DEAD_LETTERED) \<and>
      dec = Some (if retryable \<and> rc_attempts r < 8 then T_RETRY_SCHEDULED else T_DEAD_LETTERED)"
  proof (cases "retryable \<and> rc_attempts r < 8")
    case True
    then have "reschedules args r pipeline_policy" by (simp add: re)
    from completeReceipt_write_retry [OF this, of "pw_store w"] True show ?thesis
      by (simp add: w' dec written here Let_def end_receipt.simps)
  next
    case False
    have "co_outcome args \<noteq> SUCCESS" by (simp add: args)
    from completeReceipt_write_dead [OF this, of r "pw_store w"] False show ?thesis
      by (auto simp: re w' dec written here end_receipt.simps)
  qed
  ultimately show ?thesis by blast
qed

text \<open>When the gateway answers FAILED, the pipeline itself completes the receipt it holds: it is
  rescheduled exactly if the error is retryable and fewer than eight attempts were made, dead
  otherwise, as the reported decision says. The lease is over then: the completion the worker
  makes next, and any other with its token, is rejected by the fence and changes nothing.\<close>

lemma gateway_failure_is_final:
  assumes "reachable (pw_store w) issued" and "r \<in> set (receipts (pw_store w))"
    and "held_receipt (xi_fencingToken inp) (xi_leaseOwner inp) r" and "po_complete opts"
    and "executePipelineForReceipt gateway inp opts w = (P_Gateway_Error code retryable (Some dec) nextAt, w')"
    and "co_fencingToken args = xi_fencingToken inp"
  shows "(\<exists>row. receipt_at (rc_receiptId r) (pw_store w') = Some row \<and>
      rc_state row = (if retryable \<and> rc_attempts r < 8 then R_RETRY_SCHEDULED else R_DEAD_LETTERED)) \<and>
    dec = (if retryable \<and> rc_attempts r < 8 then T_RETRY_SCHEDULED else T_DEAD_LETTERED) \<and>
    completeReceipt args (pw_store w') =
      (\<lparr>cs_state = C_DELIVERED, cs_nextAttemptAt = None, cs_fencedRejected = True\<rparr>, pw_store w')"
proof -
  obtain gr w1 where w1: "pw_store w1 = pw_store w"
    "gateway_failed inp opts gr w1 = (P_Gateway_Error code retryable (Some dec) nextAt, w')"
    using pipeline_gateway_error [OF assms(5)] by blast
  have "store_ok issued (pw_store w1)" "r \<in> set (receipts (pw_store w1))"
    using reachable_ok [OF assms(1)] assms(2) w1(1) by simp_all
  from gateway_failed_completes [OF this assms(3,4) w1(2)] show ?thesis
    using lost_completion_fenced [of args "pw_store w'"] by (auto simp: assms(6))
qed

end
