(* ===== verification/Executor.thy ===== *)
theory Executor
  imports Lease
begin

text \<open>
  The scripted executor the worker falls back to, \<open>apps/integration-worker/src/executor.ts\<close>,
  and the mapping of its codes, \<open>mapExecutorCode\<close> of \<open>durable-worker.ts\<close>. The scenario is
  of the declared union, so the switch's default is not reached.
\<close>

datatype executor_scenario =
  SC_SUCCESS | FAIL_VALIDATION | FAIL_VERSION_CONFLICT | FAIL_IDEMPOTENCY_CONFLICT
| FAIL_PERMISSION_DENIED | FAIL_POLICY_REJECTION | TIMEOUT_BEFORE_APPLY | TIMEOUT_AFTER_APPLY

record executor_outcome =
  eo_status :: outcome
  eo_code :: string
  eo_retryable :: bool

definition makeOutcome :: "outcome \<Rightarrow> string \<Rightarrow> bool \<Rightarrow> executor_outcome" where
  "makeOutcome status code retryable = \<lparr>eo_status = status, eo_code = code, eo_retryable = retryable\<rparr>"

fun run_scenario :: "string option \<Rightarrow> executor_scenario \<Rightarrow> executor_outcome" where
  "run_scenario key SC_SUCCESS = makeOutcome SUCCESS ''NO_ERROR'' False"
| "run_scenario key FAIL_VALIDATION = makeOutcome FAIL ''VALIDATION_ERROR'' False"
| "run_scenario key FAIL_VERSION_CONFLICT = makeOutcome FAIL ''VERSION_CONFLICT'' False"
| "run_scenario key FAIL_IDEMPOTENCY_CONFLICT = makeOutcome FAIL ''IDEMPOTENCY_CONFLICT'' False"
| "run_scenario key FAIL_PERMISSION_DENIED = makeOutcome FAIL ''POLICY_REJECTION'' False"
| "run_scenario key FAIL_POLICY_REJECTION = makeOutcome FAIL ''POLICY_REJECTION'' False"
| "run_scenario key TIMEOUT_BEFORE_APPLY = makeOutcome RETRY ''TRANSACTION_FAILED'' True"
| "run_scenario key TIMEOUT_AFTER_APPLY =
     (if truthy key then makeOutcome SUCCESS ''IDEMPOTENT_APPLIED'' False
      else makeOutcome RETRY ''TRANSACTION_FAILED'' True)"

definition executeReceipt :: "string option \<Rightarrow> executor_scenario option \<Rightarrow> executor_outcome" where
  "executeReceipt idempotencyKey scenario = run_scenario idempotencyKey (nullish scenario SC_SUCCESS)"

definition mapExecutorCode :: "string \<Rightarrow> string" where
  "mapExecutorCode code =
     (if code \<in> set [''VALIDATION_ERROR'', ''VERSION_CONFLICT'', ''IDEMPOTENCY_CONFLICT'',
                     ''TRANSACTION_FAILED'', ''DUPLICATE_KEY'', ''SCOPE_MISMATCH'',
                     ''TENANT_SCOPE_REQUIRED''] then code
      else if code \<in> set [''NO_ERROR'', ''IDEMPOTENT_APPLIED'', ''POLICY_REJECTION''] then
        ''VALIDATION_ERROR''
      else ''TRANSACTION_FAILED'')"

text \<open>\<open>outcomeToStoreError\<close>, with the code mapped as the worker does.\<close>

definition outcomeToStoreError :: "executor_outcome \<Rightarrow> store_error" where
  "outcomeToStoreError outc =
     \<lparr>se_code = mapExecutorCode (eo_code outc), se_retryable = eo_retryable outc, se_target = None\<rparr>"

text \<open>The three statuses, and whether the completion with the mapped error may retry.\<close>

lemma run_scenario_retry:
  "eo_status (run_scenario key s) = RETRY \<longleftrightarrow> eo_retryable (run_scenario key s)"
  by (cases s) (simp_all add: makeOutcome_def)

lemma run_scenario_isRetryable:
  "eo_status (run_scenario key s) = FAIL \<Longrightarrow> \<not> isRetryable (outcomeToStoreError (run_scenario key s))"
  "eo_status (run_scenario key s) = RETRY \<Longrightarrow> isRetryable (outcomeToStoreError (run_scenario key s))"
  by (cases s; simp add: makeOutcome_def outcomeToStoreError_def mapExecutorCode_def isRetryable_def
      NON_RETRYABLE_CODES_def split: if_splits)+

end
