(* ===== verification/Durable_Worker.thy ===== *)
theory Durable_Worker
  imports Pipeline Executor
begin

text \<open>
  The poll loop of the worker, \<open>apps/integration-worker/src/durable-worker.ts\<close>.

  One iteration reclaims expired leases, claims a receipt, executes it (through the pipeline
  when a gateway client is configured, else with the scripted executor) and completes it.
  Other processes commit transactions between the claim, the execution and the completion:
  \<open>pe_env1\<close> and \<open>pe_env2\<close> are what they did to the store. Sleeping and logging are left out.
\<close>

record worker_config =
  wc_workerId :: string
  wc_organizationId :: string
  wc_leaseDurationMs :: "int option"
  wc_retryPolicy :: "retry_policy option"
  wc_defaultScenario :: "executor_scenario option"
  wc_maxIterations :: "nat option"
  wc_gatewayClient :: "gateway option"
  wc_mappingService :: "mapping_service option"

record worker_state =
  ws_running :: bool
  ws_stoppedAt :: "int option"
  ws_iterations :: nat
  ws_claimed :: nat
  ws_completed :: nat
  ws_failed :: nat
  ws_reclaimed :: nat
  ws_errors :: nat
  ws_drained :: bool
  ws_inFlight :: "string list"

record poll_env =
  pe_reclaimNow :: int
  pe_claimNow :: int
  pe_token :: string
  pe_locked :: "string set"
  pe_env1 :: "store \<Rightarrow> store"
  pe_options :: pipeline_options
  pe_env2 :: "store \<Rightarrow> store"
  pe_completeNow :: int
  pe_backoffNow :: int
  pe_random :: rat

definition initial_state :: worker_state where
  "initial_state =
     \<lparr>ws_running = True, ws_stoppedAt = None, ws_iterations = 0, ws_claimed = 0, ws_completed = 0,
      ws_failed = 0, ws_reclaimed = 0, ws_errors = 0, ws_drained = False, ws_inFlight = []\<rparr>"

definition worker_claim_args :: "worker_config \<Rightarrow> poll_env \<Rightarrow> claim_args" where
  "worker_claim_args cfg pe =
     \<lparr>ca_workerId = wc_workerId cfg, ca_leaseDurationMs = nullish (wc_leaseDurationMs cfg) 60000,
      ca_now = pe_claimNow pe, ca_token = pe_token pe, ca_maxPerPoll = Some 1,
      ca_organizationId = Some (wc_organizationId cfg), ca_receiptId = None\<rparr>"

text \<open>The input of the pipeline: every column of the claim, and no parsed event.\<close>

definition pipeline_input :: "worker_config \<Rightarrow> claimed_receipt \<Rightarrow> executor_input" where
  "pipeline_input cfg r =
     \<lparr>xi_receiptId = cr_receiptId r, xi_eventId = cr_eventId r,
      xi_organizationId = cr_organizationId r, xi_provider = cr_provider r,
      xi_connectionId = cr_connectionId r, xi_idempotencyKey = cr_idempotencyKey r,
      xi_correlationId = cr_correlationId r, xi_fencingToken = lh_fencingToken r,
      xi_leaseOwner = wc_workerId cfg, xi_parsedEvent = None\<rparr>"

text \<open>The options: the store's \<open>completeReceipt\<close> is wired, a revision tracker never.\<close>

definition worker_pipeline_options :: "worker_config \<Rightarrow> poll_env \<Rightarrow> pipeline_options" where
  "worker_pipeline_options cfg pe =
     (pe_options pe)\<lparr>po_mappingService := wc_mappingService cfg, po_revisionTracker := None,
                     po_complete := True\<rparr>"

text \<open>How an outcome is completed; \<^const>\<open>None\<close> when the execution threw.\<close>

fun pipeline_completion :: "pipeline_outcome \<Rightarrow> (outcome \<times> store_error) option" where
  "pipeline_completion (P_Success _ _ _ _) =
     Some (SUCCESS, \<lparr>se_code = ''TRANSACTION_FAILED'', se_retryable = False, se_target = None\<rparr>)"
| "pipeline_completion (P_Review _ _ _) =
     Some (SUCCESS, \<lparr>se_code = ''TRANSACTION_FAILED'', se_retryable = False, se_target = None\<rparr>)"
| "pipeline_completion (P_Skipped _) =
     Some (SUCCESS, \<lparr>se_code = ''TRANSACTION_FAILED'', se_retryable = False, se_target = None\<rparr>)"
| "pipeline_completion (P_Gateway_Error _ retryable _ _) =
     Some (if retryable then RETRY else FAIL,
           \<lparr>se_code = ''TRANSACTION_FAILED'', se_retryable = retryable, se_target = None\<rparr>)"
| "pipeline_completion P_Throws = None"

definition executor_completion :: "executor_outcome \<Rightarrow> outcome \<times> store_error" where
  "executor_completion outc =
     ((case eo_status outc of SUCCESS \<Rightarrow> SUCCESS | RETRY \<Rightarrow> RETRY | FAIL \<Rightarrow> FAIL),
      outcomeToStoreError outc)"

definition execute ::
  "worker_config \<Rightarrow> poll_env \<Rightarrow> claimed_receipt \<Rightarrow> pipeline_world \<Rightarrow>
   (outcome \<times> store_error) option \<times> pipeline_world" where
  "execute cfg pe r w =
     (case wc_gatewayClient cfg of
        Some gateway \<Rightarrow>
          let (outc, w') = executePipelineForReceipt gateway (pipeline_input cfg r)
                             (worker_pipeline_options cfg pe) w
          in (pipeline_completion outc, w')
      | None \<Rightarrow>
          (Some (executor_completion (executeReceipt (cr_idempotencyKey r) (wc_defaultScenario cfg))), w))"

definition worker_complete_args ::
  "worker_config \<Rightarrow> poll_env \<Rightarrow> claimed_receipt \<Rightarrow> outcome \<times> store_error \<Rightarrow> complete_args" where
  "worker_complete_args cfg pe r c =
     \<lparr>co_fencingToken = lh_fencingToken r, co_leaseOwner = wc_workerId cfg, co_outcome = fst c,
      co_error = Some (snd c),
      co_retryPolicy = Some (nullish (wc_retryPolicy cfg) DEFAULT_RETRY_POLICY),
      co_now = pe_completeNow pe, co_backoffNow = pe_backoffNow pe, co_random = pe_random pe\<rparr>"

definition count_result :: "complete_result \<Rightarrow> worker_state \<Rightarrow> worker_state" where
  "count_result res ws =
     (if cs_fencedRejected res then ws\<lparr>ws_errors := ws_errors ws + 1\<rparr>
      else case cs_state res of
        C_DELIVERED \<Rightarrow> ws\<lparr>ws_completed := ws_completed ws + 1\<rparr>
      | C_DEAD_LETTERED \<Rightarrow> ws\<lparr>ws_failed := ws_failed ws + 1\<rparr>
      | C_RETRY_SCHEDULED \<Rightarrow> ws\<lparr>ws_completed := ws_completed ws + 1\<rparr>)"

definition check_max :: "worker_config \<Rightarrow> worker_state \<Rightarrow> worker_state" where
  "check_max cfg ws =
     (if not_null_and (\<lambda>m. m \<noteq> 0 \<and> ws_iterations ws \<ge> m) (wc_maxIterations cfg)
      then ws\<lparr>ws_running := False\<rparr> else ws)"

definition poll_iteration ::
  "worker_config \<Rightarrow> poll_env \<Rightarrow> worker_state \<times> pipeline_world \<Rightarrow> worker_state \<times> pipeline_world" where
  "poll_iteration cfg pe s =
     (let (ws, w) = s
      in if \<not> ws_running ws then s
         else
           let ((nr, ni), st1) = reclaimExpiredLeases (pe_reclaimNow pe) (pw_store w);
               ws1 = ws\<lparr>ws_reclaimed := ws_reclaimed ws + nr + ni\<rparr>;
               (claim, st2) = claimNextReceipt (pe_locked pe) (worker_claim_args cfg pe) st1
           in case claim of
                None \<Rightarrow> (ws1, w\<lparr>pw_store := st2\<rparr>)
              | Some r \<Rightarrow>
                  let ws2 = ws1\<lparr>ws_claimed := ws_claimed ws1 + 1,
                                ws_iterations := ws_iterations ws1 + 1,
                                ws_inFlight := cr_receiptId r # removeAll (cr_receiptId r) (ws_inFlight ws1)\<rparr>;
                      (completion, w3) = execute cfg pe r (w\<lparr>pw_store := pe_env1 pe st2\<rparr>)
                  in (case completion of
                        None \<Rightarrow> (ws2\<lparr>ws_errors := ws_errors ws2 + 1\<rparr>, w3)
                      | Some c \<Rightarrow>
                          let (res, st4) = completeReceipt (worker_complete_args cfg pe r c)
                                             (pe_env2 pe (pw_store w3));
                              ws4 = count_result res
                                (ws2\<lparr>ws_inFlight := removeAll (cr_receiptId r) (ws_inFlight ws2)\<rparr>)
                          in (check_max cfg ws4, w3\<lparr>pw_store := st4\<rparr>)))"

text \<open>
  \<open>stop\<close>: the leases of the worker are released first, then the jobs in flight are waited
  for, up to the drain timeout. \<open>stop_release\<close> is the first part; what remains is
  \<open>stop_finish\<close>, at the clock reading after the wait.
\<close>

definition stop_release :: "worker_config \<Rightarrow> int \<Rightarrow> worker_state \<times> pipeline_world \<Rightarrow>
    worker_state \<times> pipeline_world" where
  "stop_release cfg now s =
     (let (ws, w) = s
      in if \<not> ws_running ws then s
         else (ws\<lparr>ws_running := False\<rparr>,
               w\<lparr>pw_store := snd (releaseAllForWorker (wc_workerId cfg) now (pw_store w))\<rparr>))"

definition stop_finish :: "int \<Rightarrow> worker_state \<Rightarrow> worker_state" where
  "stop_finish now ws = ws\<lparr>ws_drained := True, ws_stoppedAt := Some now\<rparr>"

section \<open>Facts\<close>

text \<open>Without a parsed event the pipeline skips: no call, no change.\<close>

lemma worker_pipeline_skips:
  "executePipelineForReceipt gateway (pipeline_input cfg r) opts w =
     (P_Skipped (verdict BLOCKED BLOCKED_UNKNOWN), w)"
  by (rule pipeline_no_event) (simp add: normalize_input_def pipeline_input_def)

text \<open>An execution never changes the world: the pipeline skips, the executor is scripted.\<close>

definition worker_decision :: "worker_config \<Rightarrow> claimed_receipt \<Rightarrow> outcome \<times> store_error" where
  "worker_decision cfg r =
     (case wc_gatewayClient cfg of
        Some _ \<Rightarrow> (SUCCESS, \<lparr>se_code = ''TRANSACTION_FAILED'', se_retryable = False, se_target = None\<rparr>)
      | None \<Rightarrow> executor_completion (executeReceipt (cr_idempotencyKey r) (wc_defaultScenario cfg)))"

lemma execute_eq: "execute cfg pe r w = (Some (worker_decision cfg r), w)"
  by (simp add: execute_def worker_decision_def worker_pipeline_skips split: option.split)

lemma removeAll_twice [simp]: "removeAll x (removeAll x xs) = removeAll x xs"
  by (induction xs) auto

text \<open>An iteration finds nothing, or claims a receipt and completes it.\<close>

lemma poll_cases:
  assumes running: "ws_running ws"
  obtains (idle) st2 n where
      "claimNextReceipt (pe_locked pe) (worker_claim_args cfg pe)
         (snd (reclaimExpiredLeases (pe_reclaimNow pe) (pw_store w))) = (None, st2)"
      "poll_iteration cfg pe (ws, w) = (ws\<lparr>ws_reclaimed := n\<rparr>, w\<lparr>pw_store := st2\<rparr>)"
  | (claimed) r st2 res st4 n where
      "claimNextReceipt (pe_locked pe) (worker_claim_args cfg pe)
         (snd (reclaimExpiredLeases (pe_reclaimNow pe) (pw_store w))) = (Some r, st2)"
      "completeReceipt (worker_complete_args cfg pe r (worker_decision cfg r))
         (pe_env2 pe (pe_env1 pe st2)) = (res, st4)"
      "poll_iteration cfg pe (ws, w) =
         (check_max cfg (count_result res (ws\<lparr>ws_reclaimed := n, ws_claimed := ws_claimed ws + 1,
            ws_iterations := ws_iterations ws + 1,
            ws_inFlight := removeAll (cr_receiptId r) (ws_inFlight ws)\<rparr>)),
          w\<lparr>pw_store := st4\<rparr>)"
proof -
  obtain nr ni st1 where rec: "reclaimExpiredLeases (pe_reclaimNow pe) (pw_store w) = ((nr, ni), st1)"
    by (metis prod.exhaust)
  obtain cl st2 where cl: "claimNextReceipt (pe_locked pe) (worker_claim_args cfg pe) st1 = (cl, st2)"
    by (metis prod.exhaust)
  show thesis
  proof (cases cl)
    case None
    then have "poll_iteration cfg pe (ws, w) = (ws\<lparr>ws_reclaimed := ws_reclaimed ws + nr + ni\<rparr>, w\<lparr>pw_store := st2\<rparr>)"
      using running by (simp add: poll_iteration_def Let_def rec cl)
    then show thesis using rec cl None by (intro idle) simp_all
  next
    case (Some r)
    obtain res st4 where co: "completeReceipt (worker_complete_args cfg pe r (worker_decision cfg r))
        (pe_env2 pe (pe_env1 pe st2)) = (res, st4)" by (metis prod.exhaust)
    have "poll_iteration cfg pe (ws, w) =
         (check_max cfg (count_result res (ws\<lparr>ws_reclaimed := ws_reclaimed ws + nr + ni,
            ws_claimed := ws_claimed ws + 1, ws_iterations := ws_iterations ws + 1,
            ws_inFlight := removeAll (cr_receiptId r) (ws_inFlight ws)\<rparr>)),
          w\<lparr>pw_store := st4\<rparr>)"
      using running by (simp add: poll_iteration_def Let_def rec cl Some execute_eq co)
    then show thesis using rec cl Some co by (intro claimed) simp_all
  qed
qed

end
