(* ===== verification/Worker_Properties.thy ===== *)
theory Worker_Properties
  imports Durable_Worker Retry_Properties
begin

text \<open>
  Properties of the worker's poll loop: what an iteration does to the receipt it claims, the
  counters, and the shutdown.
\<close>

section \<open>Iterations\<close>

text \<open>The row of a fresh claim is held by the claimer.\<close>

lemma claim_held:
  assumes "reachable st issued" and "claimNextReceipt locked args st = (Some r, st')"
  obtains row where "row \<in> set (receipts st)" "lh_fencingToken r = ca_token args"
    "cr_receiptId r = rc_receiptId row" "cr_idempotencyKey r = rc_idempotencyKey row"
    "receipt_at (cr_receiptId r) st' = Some (grant_receipt (ca_workerId args) (ca_token args)
       (ca_now args) (ca_leaseDurationMs args) row)"
  using assms(2)
proof (cases rule: claimNextReceipt_cases)
  case (some row)
  have "receipt_at (rc_receiptId row) st' = Some (grant_receipt (ca_workerId args) (ca_token args)
      (ca_now args) (ca_leaseDurationMs args) row)"
    using receipt_at_mem [OF reachable_ok [OF assms(1)] some(1)] by (simp add: some(6) receipt_at_update)
  then show thesis using some(1,5) by (intro that [of row]) (auto simp: claimed_receipt_of_def)
qed simp

lemma reachable_reclaim:
  "reachable st issued \<Longrightarrow> reachable (snd (reclaimExpiredLeases now st)) issued"
  using reachable_op [of st issued "Reclaim now"] by simp

lemma reachable_claim:
  "reachable st issued \<Longrightarrow> ca_token args \<notin> issued \<Longrightarrow>
   reachable (snd (claimNextReceipt locked args st)) (insert (ca_token args) issued)"
  using reachable_op [of st issued "Claim_Next locked args"] by simp

text \<open>An iteration without interference completes the receipt it claimed as decided.\<close>

lemma poll_uninterrupted:
  assumes run: "ws_running ws" and reach: "reachable (pw_store w) issued" and fresh: "pe_token pe \<notin> issued"
    and quiet: "pe_env1 pe = id" "pe_env2 pe = id"
    and claim: "fst (claimNextReceipt (pe_locked pe) (worker_claim_args cfg pe)
      (snd (reclaimExpiredLeases (pe_reclaimNow pe) (pw_store w)))) = Some r"
  obtains row g where "rc_receiptId row = cr_receiptId r"
    "row \<in> set (receipts (snd (reclaimExpiredLeases (pe_reclaimNow pe) (pw_store w))))"
    "g = grant_receipt (wc_workerId cfg) (pe_token pe) (pe_claimNow pe) (nullish (wc_leaseDurationMs cfg) 60000) row"
    "cr_idempotencyKey r = rc_idempotencyKey row"
    "pw_sent (snd (poll_iteration cfg pe (ws, w))) = pw_sent w"
    "snd (completeReceipt_write (worker_complete_args cfg pe r (worker_decision cfg r)) g
       (snd (claimNextReceipt (pe_locked pe) (worker_claim_args cfg pe)
          (snd (reclaimExpiredLeases (pe_reclaimNow pe) (pw_store w)))))) =
     pw_store (snd (poll_iteration cfg pe (ws, w)))"
    "receipt_at (cr_receiptId r) (snd (claimNextReceipt (pe_locked pe) (worker_claim_args cfg pe)
          (snd (reclaimExpiredLeases (pe_reclaimNow pe) (pw_store w))))) = Some g"
    "ws_completed (fst (poll_iteration cfg pe (ws, w))) + ws_failed (fst (poll_iteration cfg pe (ws, w))) =
       ws_completed ws + ws_failed ws + 1"
proof -
  let ?st1 = "snd (reclaimExpiredLeases (pe_reclaimNow pe) (pw_store w))"
  let ?args = "worker_claim_args cfg pe"
  have r1: "reachable ?st1 issued" by (rule reachable_reclaim [OF reach])
  from run show thesis
  proof (cases rule: poll_cases [of _ pe cfg w])
    case (idle st2 n)
    then show thesis using claim by simp
  next
    case (claimed r' st2 res st4 n)
    then have r': "r' = r" using claim by simp
    obtain row where row: "row \<in> set (receipts ?st1)" "lh_fencingToken r = ca_token ?args"
        "cr_receiptId r = rc_receiptId row" "cr_idempotencyKey r = rc_idempotencyKey row"
        "receipt_at (cr_receiptId r) st2 = Some (grant_receipt (ca_workerId ?args) (ca_token ?args)
           (ca_now ?args) (ca_leaseDurationMs ?args) row)"
      using claim_held [OF r1 claimed(1) [unfolded r']] by blast
    let ?g = "grant_receipt (wc_workerId cfg) (pe_token pe) (pe_claimNow pe) (nullish (wc_leaseDurationMs cfg) 60000) row"
    have at: "receipt_at (cr_receiptId r) st2 = Some ?g" using row(5) by (simp add: worker_claim_args_def)
    have ok: "store_ok (insert (pe_token pe) issued) st2"
      using reachable_ok [OF reachable_claim [OF r1, of ?args "pe_locked pe"]] fresh claimed(1)
      by (simp add: worker_claim_args_def)
    let ?c = "worker_complete_args cfg pe r (worker_decision cfg r)"
    have held: "held_receipt (co_fencingToken ?c) (co_leaseOwner ?c) ?g"
      using row(2) by (simp add: held_receipt_def worker_complete_args_def grant_receipt_def worker_claim_args_def)
    have fin: "completeReceipt_write ?c ?g st2 = (res, st4)"
      using claimed(2) completeReceipt_held [OF ok _ held] receipt_at_SomeD [OF at] by (simp add: quiet r')
    have acc: "\<not> cs_fencedRejected res"
      using fin [symmetric] by (auto simp: completeReceipt_write_def Let_def
          split: if_splits terminal.splits option.splits)
    show thesis
    proof (rule that [OF _ row(1) refl row(4)])
      show "rc_receiptId row = cr_receiptId r" using row(3) by simp
      show "pw_sent (snd (poll_iteration cfg pe (ws, w))) = pw_sent w" by (simp add: claimed(3))
      show "ws_completed (fst (poll_iteration cfg pe (ws, w))) + ws_failed (fst (poll_iteration cfg pe (ws, w))) =
          ws_completed ws + ws_failed ws + 1"
        using acc by (simp add: claimed(3) check_max_def count_result_def split: completion.split)
    qed (simp_all add: claimed(1,3) r' fin at)
  qed
qed

text \<open>C11. A worker with a gateway client never calls the gateway: the poll loop passes the
  pipeline no parsed event, so the pipeline skips every receipt; an uninterrupted iteration
  sends no request and marks the receipt it claimed DELIVERED.\<close>

theorem worker_never_dispatches:
  assumes "ws_running ws" and "reachable (pw_store w) issued" and "pe_token pe \<notin> issued"
    and "pe_env1 pe = id" and "pe_env2 pe = id" and "wc_gatewayClient cfg = Some gateway"
    and "fst (claimNextReceipt (pe_locked pe) (worker_claim_args cfg pe)
      (snd (reclaimExpiredLeases (pe_reclaimNow pe) (pw_store w)))) = Some r"
  shows "pw_sent (snd (poll_iteration cfg pe (ws, w))) = pw_sent w \<and>
    (\<exists>row. receipt_at (cr_receiptId r) (pw_store (snd (poll_iteration cfg pe (ws, w)))) = Some row \<and>
           rc_state row = R_DELIVERED)"
proof -
  obtain row g where p: "rc_receiptId row = cr_receiptId r"
    "g = grant_receipt (wc_workerId cfg) (pe_token pe) (pe_claimNow pe) (nullish (wc_leaseDurationMs cfg) 60000) row"
    "pw_sent (snd (poll_iteration cfg pe (ws, w))) = pw_sent w"
    "snd (completeReceipt_write (worker_complete_args cfg pe r (worker_decision cfg r)) g
       (snd (claimNextReceipt (pe_locked pe) (worker_claim_args cfg pe)
          (snd (reclaimExpiredLeases (pe_reclaimNow pe) (pw_store w)))))) =
     pw_store (snd (poll_iteration cfg pe (ws, w)))"
    "receipt_at (cr_receiptId r) (snd (claimNextReceipt (pe_locked pe) (worker_claim_args cfg pe)
          (snd (reclaimExpiredLeases (pe_reclaimNow pe) (pw_store w))))) = Some g"
    by (rule poll_uninterrupted [OF assms(1-5,7)]) blast
  have "co_outcome (worker_complete_args cfg pe r (worker_decision cfg r)) = SUCCESS"
    by (simp add: worker_complete_args_def worker_decision_def assms(6))
  then have "receipt_at (cr_receiptId r) (pw_store (snd (poll_iteration cfg pe (ws, w)))) =
      Some (end_receipt (Receipt_Delivered (pe_completeNow pe)) g)"
    using p(1,2,5) by (simp add: p(4) [symmetric] completeReceipt_write_success worker_complete_args_def)
  then show ?thesis using p(3) by (simp add: end_receipt.simps)
qed

definition sample_options :: pipeline_options where
  "sample_options =
     \<lparr>po_mappingService = None, po_revisionTracker = None, po_complete = True, po_now = 20,
      po_backoffNow = 20, po_random = 1 / 2, po_nowIso = ''now'', po_dueIso = ''due''\<rparr>"

definition sample_poll :: "string \<Rightarrow> poll_env" where
  "sample_poll t =
     \<lparr>pe_reclaimNow = 9, pe_claimNow = 10, pe_token = t, pe_locked = {}, pe_env1 = id,
      pe_options = sample_options, pe_env2 = id, pe_completeNow = 20, pe_backoffNow = 20,
      pe_random = 1 / 2\<rparr>"

definition sample_gateway :: gateway where
  "sample_gateway q = Inr \<lparr>gr_status = APPLIED, gr_operationId = None, gr_errors = []\<rparr>"

definition sample_config :: worker_config where
  "sample_config =
     \<lparr>wc_workerId = ''w1'', wc_organizationId = ''org1'', wc_leaseDurationMs = Some 30,
      wc_retryPolicy = None, wc_defaultScenario = None, wc_maxIterations = None,
      wc_gatewayClient = None, wc_mappingService = None\<rparr>"

definition sample_world :: pipeline_world where
  "sample_world = \<lparr>pw_store = sample_pending, pw_linkCounter = 0, pw_execCounter = 0, pw_sent = []\<rparr>"

lemma sample_poll_claim:
  "map_option cr_receiptId (fst (claimNextReceipt {} (worker_claim_args sample_config (sample_poll ''t1''))
     (snd (reclaimExpiredLeases 9 sample_pending)))) = Some (rc_receiptId sample_receipt)"
  by code_simp

theorem worker_never_dispatches_witness:
  "\<exists>row. receipt_at (rc_receiptId sample_receipt)
     (pw_store (snd (poll_iteration (sample_config\<lparr>wc_gatewayClient := Some sample_gateway\<rparr>)
        (sample_poll ''t1'') (initial_state, sample_world)))) = Some row \<and> rc_state row = R_DELIVERED"
proof -
  obtain r where r: "fst (claimNextReceipt {} (worker_claim_args sample_config (sample_poll ''t1''))
      (snd (reclaimExpiredLeases 9 sample_pending))) = Some r" "cr_receiptId r = rc_receiptId sample_receipt"
    using sample_poll_claim by auto
  have "worker_claim_args (sample_config\<lparr>wc_gatewayClient := Some sample_gateway\<rparr>) (sample_poll ''t1'') =
      worker_claim_args sample_config (sample_poll ''t1'')" by (simp add: worker_claim_args_def sample_config_def)
  then show ?thesis
    using worker_never_dispatches [of initial_state sample_world "{}" "sample_poll ''t1''"
        "sample_config\<lparr>wc_gatewayClient := Some sample_gateway\<rparr>" sample_gateway r] r sample_pending_reachable
    by (simp add: initial_state_def sample_world_def sample_poll_def)
qed

text \<open>With the scripted executor an uninterrupted iteration leaves the claimed receipt in the
  state its outcome calls for: DELIVERED on success, DEAD_LETTERED on failure, and after a
  timeout RETRY_SCHEDULED while the policy allows a further attempt and DEAD_LETTERED when it
  does not.\<close>

lemma worker_outcome_table:
  assumes "ws_running ws" and "reachable (pw_store w) issued" and "pe_token pe \<notin> issued"
    and "pe_env1 pe = id" and "pe_env2 pe = id" and "wc_gatewayClient cfg = None"
    and "fst (claimNextReceipt (pe_locked pe) (worker_claim_args cfg pe)
      (snd (reclaimExpiredLeases (pe_reclaimNow pe) (pw_store w)))) = Some r"
  shows "\<exists>row. receipt_at (cr_receiptId r) (pw_store (snd (poll_iteration cfg pe (ws, w)))) = Some row \<and>
    rc_state row =
      (case eo_status (executeReceipt (cr_idempotencyKey r) (wc_defaultScenario cfg)) of
         SUCCESS \<Rightarrow> R_DELIVERED
       | FAIL \<Rightarrow> R_DEAD_LETTERED
       | RETRY \<Rightarrow>
           if rc_attempts row < maxAttempts (nullish (wc_retryPolicy cfg) DEFAULT_RETRY_POLICY)
           then R_RETRY_SCHEDULED else R_DEAD_LETTERED)"
proof -
  let ?o = "executeReceipt (cr_idempotencyKey r) (wc_defaultScenario cfg)"
  let ?args = "worker_complete_args cfg pe r (worker_decision cfg r)"
  let ?p = "nullish (wc_retryPolicy cfg) DEFAULT_RETRY_POLICY"
  let ?st = "snd (claimNextReceipt (pe_locked pe) (worker_claim_args cfg pe)
          (snd (reclaimExpiredLeases (pe_reclaimNow pe) (pw_store w))))"
  obtain row g where p: "rc_receiptId row = cr_receiptId r"
    "g = grant_receipt (wc_workerId cfg) (pe_token pe) (pe_claimNow pe) (nullish (wc_leaseDurationMs cfg) 60000) row"
    "snd (completeReceipt_write ?args g ?st) = pw_store (snd (poll_iteration cfg pe (ws, w)))"
    "receipt_at (cr_receiptId r) ?st = Some g"
    by (rule poll_uninterrupted [OF assms(1-5,7)]) blast
  have gk: "rc_receiptId g = cr_receiptId r" using p(1,2) by simp
  have dec: "co_outcome ?args = eo_status ?o" "co_retryPolicy ?args = Some ?p"
      "completion_error ?args = outcomeToStoreError ?o"
    by (simp_all add: worker_complete_args_def worker_decision_def assms(6) executor_completion_def
        completion_error_def split: outcome.split)
  have retry: "isRetryable (outcomeToStoreError ?o)" if "eo_status ?o = RETRY"
    using that unfolding executeReceipt_def by (rule run_scenario_isRetryable(2))
  have res: "reschedules ?args g q \<longleftrightarrow> q = ?p \<and> eo_status ?o = RETRY \<and> rc_attempts g < maxAttempts ?p" for q
    using retry by (auto simp: reschedules_def dec)
  have at: "receipt_at (cr_receiptId r) (pw_store (snd (poll_iteration cfg pe (ws, w)))) = Some (end_receipt e g)"
    if "snd (completeReceipt_write ?args g ?st) = put_receipt (rc_receiptId g) e ?st" for e
    using that p(3,4) gk by simp
  show ?thesis
  proof (cases "eo_status ?o")
    case SUCCESS
    have "receipt_at (cr_receiptId r) (pw_store (snd (poll_iteration cfg pe (ws, w)))) =
        Some (end_receipt (Receipt_Delivered (co_now ?args)) g)"
      by (rule at) (simp add: completeReceipt_write_success dec SUCCESS)
    then show ?thesis using SUCCESS by (simp add: end_receipt.simps)
  next
    case RETRY
    show ?thesis
    proof (cases "rc_attempts g < maxAttempts ?p")
      case True
      then have "reschedules ?args g ?p" using RETRY by (simp add: res)
      from at [OF _] completeReceipt_write_retry [OF this, of ?st] obtain n c
        where "receipt_at (cr_receiptId r) (pw_store (snd (poll_iteration cfg pe (ws, w)))) =
          Some (end_receipt (Receipt_Retry n c) g)"
        by (simp add: Let_def)
      then show ?thesis using RETRY True by (simp add: end_receipt.simps)
    next
      case False
      then have "\<And>q. \<not> reschedules ?args g q" by (simp add: res)
      then have "receipt_at (cr_receiptId r) (pw_store (snd (poll_iteration cfg pe (ws, w)))) =
          Some (end_receipt (Receipt_Dead (co_now ?args) (se_code (completion_error ?args))) g)"
        by (intro at) (simp add: completeReceipt_write_dead dec RETRY)
      then show ?thesis using RETRY False by (simp add: end_receipt.simps)
    qed
  next
    case FAIL
    then have "\<And>q. \<not> reschedules ?args g q" by (simp add: res)
    then have "receipt_at (cr_receiptId r) (pw_store (snd (poll_iteration cfg pe (ws, w)))) =
        Some (end_receipt (Receipt_Dead (co_now ?args) (se_code (completion_error ?args))) g)"
      by (intro at) (simp add: completeReceipt_write_dead dec FAIL)
    then show ?thesis using FAIL by (simp add: end_receipt.simps)
  qed
qed

section \<open>Counters\<close>

definition counters_ok :: "worker_config \<Rightarrow> worker_state \<Rightarrow> bool" where
  "counters_ok cfg ws \<longleftrightarrow>
     ws_iterations ws = ws_claimed ws \<and>
     ws_claimed ws = ws_completed ws + ws_failed ws + ws_errors ws \<and>
     (\<forall>m. wc_maxIterations cfg = Some m \<longrightarrow> m \<noteq> 0 \<longrightarrow>
        ws_iterations ws \<le> m \<and> (ws_running ws \<longrightarrow> ws_iterations ws < m))"

lemma counters_step: "counters_ok cfg ws \<Longrightarrow> counters_ok cfg (fst (poll_iteration cfg pe (ws, w)))"
proof (cases "ws_running ws")
  case False
  then show "counters_ok cfg ws \<Longrightarrow> ?thesis" by (simp add: poll_iteration_def)
next
  case True
  assume inv: "counters_ok cfg ws"
  from True show ?thesis
  proof (cases rule: poll_cases [of _ pe cfg w])
    case (idle st2 n)
    show ?thesis
      unfolding idle(2) fst_conv counters_ok_def
      using inv by (auto simp: counters_ok_def)
  next
    case (claimed r st2 res st4 n)
    let ?ws = "ws\<lparr>ws_reclaimed := n, ws_claimed := ws_claimed ws + 1,
            ws_iterations := ws_iterations ws + 1,
            ws_inFlight := removeAll (cr_receiptId r) (ws_inFlight ws)\<rparr>"
    let ?ws' = "count_result res ?ws"
    have c: "ws_iterations ?ws' = ws_iterations ws + 1" "ws_claimed ?ws' = ws_claimed ws + 1"
        "ws_completed ?ws' + ws_failed ?ws' + ws_errors ?ws' = ws_completed ws + ws_failed ws + ws_errors ws + 1"
        "ws_running ?ws' = ws_running ws"
      by (simp_all add: count_result_def split: completion.split)
    have k: "ws_iterations (check_max cfg ?ws') = ws_iterations ?ws'" "ws_claimed (check_max cfg ?ws') = ws_claimed ?ws'"
        "ws_completed (check_max cfg ?ws') = ws_completed ?ws'" "ws_failed (check_max cfg ?ws') = ws_failed ?ws'"
        "ws_errors (check_max cfg ?ws') = ws_errors ?ws'"
      by (simp_all add: check_max_def)
    have m: "ws_iterations ws < m" if "wc_maxIterations cfg = Some m" "m \<noteq> 0" for m
      using inv that True by (simp add: counters_ok_def)
    have stop: "ws_running (check_max cfg ?ws') \<longrightarrow> ws_iterations ?ws' < m"
      if "wc_maxIterations cfg = Some m" "m \<noteq> 0" for m
      using that by (simp add: check_max_def)
    show ?thesis
      unfolding claimed(3) fst_conv counters_ok_def k
      using inv c m stop by (auto simp: counters_ok_def Suc_le_eq)
  qed
qed

text \<open>Over any number of iterations, whatever other processes do, the worker's counters add
  up: every claimed receipt is counted exactly once as completed, failed or rejected by the
  fence, and a worker with an iteration limit never exceeds it.\<close>

lemma worker_counters_add_up:
  "counters_ok cfg (fst (fold (poll_iteration cfg) pes (initial_state, w)))"
proof -
  have "counters_ok cfg (fst s) \<Longrightarrow> counters_ok cfg (fst (fold (poll_iteration cfg) pes s))" for s
  proof (induction pes arbitrary: s)
    case (Cons pe pes)
    have "counters_ok cfg (fst (poll_iteration cfg pe s))"
      using counters_step [of cfg "fst s" pe "snd s"] Cons.prems by simp
    from Cons.IH [OF this] show ?case by simp
  qed simp
  moreover have "counters_ok cfg initial_state" by (simp add: counters_ok_def initial_state_def)
  ultimately show ?thesis by simp
qed

section \<open>Shutdown\<close>

text \<open>The shutdown gives up the jobs it then waits for: releasing the worker's leases makes
  every receipt it is still working on PENDING and claimable by others, and the completion
  of that work is rejected by the fence.\<close>

lemma stop_abandons_in_flight:
  assumes "ws_running ws" and "reachable (pw_store w) issued" and "r \<in> set (receipts (pw_store w))"
    and "held_receipt t (wc_workerId cfg) r" and "co_fencingToken args = t"
  shows "\<exists>r' st'. stop_release cfg now (ws, w) = (ws\<lparr>ws_running := False\<rparr>, w\<lparr>pw_store := st'\<rparr>) \<and>
    receipt_at (rc_receiptId r) st' = Some r' \<and> receipt_eligible now [] r' \<and>
    completeReceipt args st' =
      (\<lparr>cs_state = C_DELIVERED, cs_nextAttemptAt = None, cs_fencedRejected = True\<rparr>, st')"
proof -
  let ?mine = "\<lambda>r. rc_leaseOwner r = Some (wc_workerId cfg) \<and> rc_state r = R_LEASED"
  let ?f = "end_receipt (Receipt_Reset (Some now))"
  let ?st' = "snd (releaseAllForWorker (wc_workerId cfg) now (pw_store w))"
  note ok = reachable_ok [OF assms(2)]
  have mine: "?mine r" and tok: "rc_fencingToken r = Some t" and leased: "rc_state r = R_LEASED"
    using assms(4) by (simp_all add: held_receipt_def)
  have at: "receipt_at (rc_receiptId r) ?st' = Some (?f r)"
  proof -
    have "receipt_at (rc_receiptId r) ((pw_store w)\<lparr>receipts := update_where ?mine ?f (receipts (pw_store w))\<rparr>) =
        Some (?f r)"
      by (subst receipt_at_update) (simp_all add: receipt_at_mem [OF ok assms(3)] mine)
    then show ?thesis by (simp add: releaseAllForWorker_def Let_def receipt_at_def)
  qed
  have "lost rc_fencingToken t (receipts ?st')"
    unfolding lost_def
  proof (intro ballI notI)
    fix x assume "x \<in> set (receipts ?st')" and x: "rc_fencingToken x = Some t"
    then have x': "x \<in> set (receipts (pw_store w))" "\<not> ?mine x"
      using receipt_lease.token_finish
      by (auto simp: releaseAllForWorker_def Let_def set_update_where)
    from receipt_lease.token_unique [OF store_okD(1) [OF ok] x'(1) assms(3) x tok] show False
      using x'(2) mine by simp
  qed
  then have "completeReceipt_read args ?st' = None"
    using receipt_lease.lost_find assms(5) by (simp add: completeReceipt_read_def held_receipt_token)
  moreover have "receipt_eligible now [] (?f r)"
    using reachable_rows [OF assms(2,3)] leased
    by (simp add: receipt_eligible_def end_receipt.simps sane_receipt_def)
  ultimately show ?thesis
    using assms(1) at
    by (intro exI [of _ "?f r"] exI [of _ ?st']) (simp add: stop_release_def completeReceipt_def)
qed

end
