(* ===== verification/Canonical_Json.thy ===== *)
theory Canonical_Json
  imports Json_Access "HOL-Library.List_Lexorder" "HOL-Library.Char_ord" "HOL-Library.Multiset"
begin

text \<open>
  The canonical text of a JSON value that digests are taken of, \<open>canonicalJson\<close> of
  \<open>apps/integration-api/src/orchestrator/digest.ts\<close> and \<open>gateway/mock-gateway.ts\<close>. The two
  functions agree on values without \<open>undefined\<close> members, and \<^typ>\<open>json\<close> has none. SHA-256 comes
  from the platform: it is a parameter of the definitions that digest.
\<close>

section \<open>Texts\<close>

definition hex_digit :: "nat \<Rightarrow> char" where
  "hex_digit n = (if n < 10 then char_of (48 + n) else char_of (87 + n))"

text \<open>\<open>JSON.stringify\<close> of a string: what is escaped, character by character.\<close>

definition escape_char :: "char \<Rightarrow> string" where
  "escape_char c =
     (let n = of_char c :: nat
      in if n = 34 then [CHR 0x5C, c]
         else if n = 92 then [c, c]
         else if n = 8 then [CHR 0x5C, CHR ''b'']
         else if n = 12 then [CHR 0x5C, CHR ''f'']
         else if n = 10 then [CHR 0x5C, CHR ''n'']
         else if n = 13 then [CHR 0x5C, CHR ''r'']
         else if n = 9 then [CHR 0x5C, CHR ''t'']
         else if n < 32 then [CHR 0x5C] @ ''u00'' @ [hex_digit (n div 16), hex_digit (n mod 16)]
         else [c])"

definition json_quote :: "string \<Rightarrow> string" where
  "json_quote s = CHR 0x22 # concat (map escape_char s) @ [CHR 0x22]"

text \<open>Members are sorted by name; \<open>sort\<close> compares code units, here characters.\<close>

fun canonicalJson :: "json \<Rightarrow> string" where
  "canonicalJson JNull = ''null''"
| "canonicalJson (JBool b) = (if b then ''true'' else ''false'')"
| "canonicalJson (JNum n) = js_String (JNum n)"
| "canonicalJson (JStr s) = json_quote s"
| "canonicalJson (JArr vs) = ''['' @ join_with '','' (map canonicalJson vs) @ '']''"
| "canonicalJson (JObj ms) =
     ''{'' @ join_with '',''
       (map (\<lambda>(k, t). json_quote k @ '':'' @ t)
         (sort_key fst (map (\<lambda>(k, v). (k, canonicalJson v)) ms))) @ ''}''"

section \<open>Reading a quoted string back\<close>

definition hex_value :: "char \<Rightarrow> nat" where
  "hex_value c = (let n = of_char c in if n < 58 then n - 48 else n - 87)"

text \<open>One character of a quoted string: \<^const>\<open>None\<close> at the closing quote or the end.\<close>

fun read_char :: "string \<Rightarrow> (char \<times> string) option" where
  "read_char [] = None"
| "read_char (c # cs) =
     (if of_char c = (34 :: nat) then None
      else if of_char c = (92 :: nat) then
        (case cs of
           [] \<Rightarrow> None
         | d # ds \<Rightarrow>
             if d = CHR ''b'' then Some (char_of (8 :: nat), ds)
             else if d = CHR ''f'' then Some (char_of (12 :: nat), ds)
             else if d = CHR ''n'' then Some (char_of (10 :: nat), ds)
             else if d = CHR ''r'' then Some (char_of (13 :: nat), ds)
             else if d = CHR ''t'' then Some (char_of (9 :: nat), ds)
             else if d = CHR ''u'' then
               (case ds of
                  _ # _ # h # l # rest \<Rightarrow> Some (char_of (16 * hex_value h + hex_value l), rest)
                | _ \<Rightarrow> None)
             else Some (d, ds))
      else Some (c, cs))"

lemma read_char_shorter [termination_simp]: "read_char s = Some (c, rest) \<Longrightarrow> length rest < length s"
  by (cases s) (auto split: if_splits list.splits)

fun read_body :: "string \<Rightarrow> string \<times> string" where
  "read_body s =
     (case read_char s of None \<Rightarrow> ([], s) | Some (c, rest) \<Rightarrow> let (t, r) = read_body rest in (c # t, r))"

declare read_body.simps [simp del]

lemma hex_value_digit: "n < 16 \<Longrightarrow> hex_value (hex_digit n) = n"
  by (simp add: hex_value_def hex_digit_def Let_def)

lemma read_escaped: "read_char (escape_char c @ x) = Some (c, x)"
proof (cases "of_char c < (32 :: nat) \<and> of_char c \<notin> {8, 9, 10, 12, 13 :: nat}")
  case True
  then have "hex_value (hex_digit (of_char c div 16)) = of_char c div 16"
      "hex_value (hex_digit (of_char c mod 16)) = of_char c mod 16"
    by (auto intro!: hex_value_digit)
  then show ?thesis using True by (simp add: escape_char_def Let_def)
next
  case False
  have undo: "char_of n = c" if "of_char c = n" for n :: nat using that by auto
  show ?thesis using False by (auto simp: escape_char_def Let_def undo)
qed

lemma read_body_quoted:
  "read_body (concat (map escape_char s) @ CHR 0x22 # r) = (s, CHR 0x22 # r)"
proof (induction s)
  case Nil
  show ?case by (simp add: read_body.simps [of "CHR 0x22 # r"])
next
  case (Cons c s)
  then show ?case
    by (simp add: read_body.simps [of "escape_char c @ concat (map escape_char s) @ CHR 0x22 # r"]
        read_escaped)
qed

lemma json_quote_unique:
  assumes "json_quote s @ r = json_quote t @ r'"
  shows "s = t \<and> r = r'"
proof -
  have "concat (map escape_char s) @ CHR 0x22 # r =
      concat (map escape_char t) @ CHR 0x22 # r'"
    using assms by (simp add: json_quote_def)
  then show ?thesis
    using read_body_quoted [of s r] read_body_quoted [of t r'] by (metis list.inject prod.inject)
qed

section \<open>Canonical texts determine values\<close>

text \<open>The value with its members in the order of the text, and the text in member order.\<close>

fun norm_json :: "json \<Rightarrow> json" where
  "norm_json (JArr vs) = JArr (map norm_json vs)"
| "norm_json (JObj ms) = JObj (sort_key fst (map (\<lambda>(k, v). (k, norm_json v)) ms))"
| "norm_json v = v"

fun plain_json :: "json \<Rightarrow> string" where
  "plain_json JNull = ''null''"
| "plain_json (JBool b) = (if b then ''true'' else ''false'')"
| "plain_json (JNum n) = js_String (JNum n)"
| "plain_json (JStr s) = json_quote s"
| "plain_json (JArr vs) = ''['' @ join_with '','' (map plain_json vs) @ '']''"
| "plain_json (JObj ms) = ''{'' @ join_with '','' (map (\<lambda>(k, v). json_quote k @ '':'' @ plain_json v) ms) @ ''}''"

lemma sort_key_map_snd: "sort_key fst (map (\<lambda>(k, v). (k, f v)) ms) = map (\<lambda>(k, v). (k, f v)) (sort_key fst ms)"
proof -
  have ins: "insort_key fst (k, f v) (map (\<lambda>(k, v). (k, f v)) xs) =
      map (\<lambda>(k, v). (k, f v)) (insort_key fst (k, v) xs)" for k v xs
    by (induction xs) auto
  show ?thesis by (induction ms) (auto simp: ins)
qed

lemma canonicalJson_plain: "canonicalJson v = plain_json (norm_json v)"
proof (induction v)
  case (JArr vs)
  then show ?case by (simp add: comp_def cong: map_cong)
next
  case (JObj ms)
  have "map (\<lambda>(k, v). (k, canonicalJson v)) ms = map (\<lambda>(k, v). (k, plain_json (norm_json v))) ms"
    using JObj by (fastforce simp: snds.simps)
  also have "\<dots> = map (\<lambda>(k, v). (k, plain_json v)) (map (\<lambda>(k, v). (k, norm_json v)) ms)" by auto
  finally have "sort_key fst (map (\<lambda>(k, v). (k, canonicalJson v)) ms) =
      map (\<lambda>(k, v). (k, plain_json v)) (sort_key fst (map (\<lambda>(k, v). (k, norm_json v)) ms))"
    by (simp only: sort_key_map_snd)
  then show ?case by (simp add: comp_def case_prod_unfold)
qed simp_all

text \<open>Numbers whose text is exact, in a value.\<close>

fun integral_json :: "json \<Rightarrow> bool" where
  "integral_json (JNum n) = (snd (quotient_of n) = 1)"
| "integral_json (JArr vs) = list_all integral_json vs"
| "integral_json (JObj ms) = list_all (\<lambda>(k, v). integral_json v) ms"
| "integral_json v = True"

lemma integral_norm [simp]: "integral_json (norm_json v) = integral_json v"
proof (induction v)
  case (JArr vs)
  then show ?case by (simp add: list_all_iff)
next
  case (JObj ms)
  then show ?case by (fastforce simp: list_all_iff)
qed simp_all

text \<open>What may follow a value in a text.\<close>

definition delim :: "string \<Rightarrow> bool" where
  "delim r \<longleftrightarrow> (case r of [] \<Rightarrow> True | c # _ \<Rightarrow> c \<in> set '',]}'')"

lemma delim_not_digit: "delim (c # r) \<Longrightarrow> \<not> is_digit c"
  by (auto simp: delim_def is_digit_def)

lemma digits_unique:
  assumes "digits m @ r = digits n @ r'" and "delim r" and "delim r'"
  shows "m = n \<and> r = r'"
proof -
  have t: "takeWhile is_digit (digits k @ s) = digits k" if "delim s" for k s
    using that by (cases s) (auto simp: digits_are_digits delim_not_digit takeWhile_append2)
  have "digits m = digits n" using t [OF assms(2), of m] t [OF assms(3), of n] assms(1) by simp
  then show ?thesis using assms(1) by simp
qed

lemma int_string_unique:
  assumes "int_string i @ r = int_string j @ r'" and "delim r" and "delim r'"
  shows "i = j \<and> r = r'"
proof -
  have minus: "\<not> is_digit (CHR ''-'')" by (simp add: is_digit_def)
  show ?thesis
  proof (cases "i < 0"; cases "j < 0")
    assume "i < 0" "j < 0"
    then show ?thesis using digits_unique [of "nat (- i)" r "nat (- j)" r'] assms by (auto simp: int_string_def)
  next
    assume "\<not> i < 0" "\<not> j < 0"
    then show ?thesis using digits_unique [of "nat i" r "nat j" r'] assms by (auto simp: int_string_def)
  next
    assume "i < 0" "\<not> j < 0"
    then show ?thesis using digits_head [of "nat j"] assms(1) minus by (auto simp: int_string_def)
  next
    assume "\<not> i < 0" "j < 0"
    then show ?thesis using digits_head [of "nat i"] assms(1) minus by (auto simp: int_string_def)
  qed
qed

lemma number_unique:
  assumes "js_String (JNum a) @ r = js_String (JNum b) @ r'" and "delim r" and "delim r'"
    and "snd (quotient_of a) = 1" and "snd (quotient_of b) = 1"
  shows "a = b \<and> r = r'"
proof -
  obtain p q where pq: "quotient_of a = (p, 1)" "quotient_of b = (q, 1)"
    using assms(4,5) by (metis prod.collapse)
  then have "int_string p @ r = int_string q @ r'" using assms(1) by simp
  then have "p = q \<and> r = r'" using int_string_unique assms(2,3) by blast
  then show ?thesis using pq quotient_of_inject by metis
qed

text \<open>The first character of a text tells the kind of its value.\<close>

fun json_kind :: "json \<Rightarrow> nat" where
  "json_kind JNull = 0"
| "json_kind (JBool b) = 1"
| "json_kind (JNum n) = 2"
| "json_kind (JStr s) = 3"
| "json_kind (JArr vs) = 4"
| "json_kind (JObj ms) = 5"

definition head_kind :: "char \<Rightarrow> nat" where
  "head_kind c =
     (if c = CHR ''n'' then 0 else if c = CHR ''t'' \<or> c = CHR ''f'' then 1
      else if of_char c = (34 :: nat) then 3 else if c = CHR ''['' then 4
      else if c = CHR ''{'' then 5 else 2)"

lemma head_kind_digit: "is_digit c \<Longrightarrow> head_kind c = 2"
  by (auto simp: head_kind_def is_digit_def)

lemma plain_head:
  assumes "integral_json v"
  shows "\<exists>c t. plain_json v = c # t \<and> c \<notin> set '',]}'' \<and> head_kind c = json_kind v"
proof (cases v)
  case (JNum n)
  then obtain p where p: "quotient_of n = (p, 1)" using assms by (metis integral_json.simps(1) prod.collapse)
  have "is_digit c \<Longrightarrow> c \<notin> set '',]}''" for c by (auto simp: is_digit_def)
  moreover have "CHR ''-'' \<notin> set '',]}'' \<and> head_kind (CHR ''-'') = 2" by (simp add: head_kind_def)
  ultimately show ?thesis
    using digits_head [of "nat p"] head_kind_digit by (auto simp: JNum p int_string_def)
qed (simp_all add: head_kind_def json_quote_def)

lemma join_Cons: "join_with sep (s # ss) = s @ (if ss = [] then [] else sep @ join_with sep ss)"
  by (cases ss) auto

text \<open>A list of texts separated by commas, up to its closing bracket.\<close>

lemma joined_unique:
  assumes uniq: "\<And>x y r r'. x \<in> set xs \<Longrightarrow> Q y \<Longrightarrow> f x @ r = f y @ r' \<Longrightarrow> delim r \<Longrightarrow> delim r' \<Longrightarrow>
      x = y \<and> r = r'"
    and start: "\<And>x. Q x \<Longrightarrow> \<exists>c t. f x = c # t \<and> c \<notin> set '',]}''"
    and close: "e \<in> set '']}''" and "\<forall>x \<in> set xs. Q x" and "\<forall>y \<in> set ys. Q y"
    and "join_with '','' (map f xs) @ e # r = join_with '','' (map f ys) @ e # r'"
  shows "xs = ys \<and> r = r'"
  using assms(1,4-)
proof (induction xs arbitrary: ys)
  case Nil
  show ?case
  proof (cases ys)
    case (Cons y ys')
    then obtain c t where "f y = c # t" "c \<notin> set '',]}''" using start Nil by force
    then show ?thesis using Nil(4) close Cons by (auto simp: join_Cons)
  qed (use Nil in simp)
next
  case (Cons x xs)
  have sep: "e \<noteq> CHR '',''" using close by auto
  show ?case
  proof (cases ys)
    case Nil
    obtain c t where "f x = c # t" "c \<notin> set '',]}''" using start Cons.prems(2) by force
    then show ?thesis using Cons.prems(4) close Nil by (auto simp: join_Cons)
  next
    case ys: (Cons y ys')
    let ?rest = "\<lambda>zs r. (if zs = [] then e # r else '','' @ join_with '','' (map f zs) @ e # r)"
    have d: "delim (?rest zs r)" for zs r using close by (auto simp: delim_def)
    have "f x @ ?rest xs r = f y @ ?rest ys' r'"
      using Cons.prems(4) by (auto simp: ys join_Cons split: if_splits)
    from Cons.prems(1) [OF _ _ this d d] have "x = y \<and> ?rest xs r = ?rest ys' r'"
      using Cons.prems(3) by (simp add: ys)
    then have eq: "x = y" "?rest xs r = ?rest ys' r'" by blast+
    have "xs = ys' \<and> r = r'"
    proof (cases "xs = [] \<or> ys' = []")
      case True
      then show ?thesis using eq(2) sep by (auto split: if_splits)
    next
      case False
      show ?thesis
      proof (rule Cons.IH)
        show "x' = y' \<and> s = s'"
          if "x' \<in> set xs" "Q y'" "f x' @ s = f y' @ s'" "delim s" "delim s'" for x' y' s s'
          by (rule Cons.prems(1) [OF _ that(2-5)]) (simp add: that(1))
        show "\<forall>x' \<in> set xs. Q x'" using Cons.prems(2) by simp
        show "\<forall>y' \<in> set ys'. Q y'" using Cons.prems(3) by (simp add: ys)
        show "join_with '','' (map f xs) @ e # r = join_with '','' (map f ys') @ e # r'"
          using eq(2) False by simp
      qed
    qed
    then show ?thesis using eq(1) ys by simp
  qed
qed

lemma plain_kind:
  assumes "plain_json v @ r = plain_json v' @ r'" and "integral_json v" and "integral_json v'"
  shows "json_kind v' = json_kind v"
  using plain_head [OF assms(2)] plain_head [OF assms(3)] assms(1) by auto

lemma plain_unique:
  "plain_json v @ r = plain_json v' @ r' \<Longrightarrow> delim r \<Longrightarrow> delim r' \<Longrightarrow> integral_json v \<Longrightarrow>
   integral_json v' \<Longrightarrow> v = v' \<and> r = r'"
proof (induction v arbitrary: v' r r')
  case (JArr vs)
  from plain_kind [OF JArr.prems(1,4,5)] obtain vs' where v': "v' = JArr vs'" by (cases v') auto
  have "vs = vs' \<and> r = r'"
  proof (rule joined_unique [where f = plain_json and Q = integral_json and e = "CHR '']''"])
    show "x = y \<and> s = s'" if "x \<in> set vs" "integral_json y" "plain_json x @ s = plain_json y @ s'"
      "delim s" "delim s'" for x y s s'
      using JArr.IH [OF that(1,3,4,5)] JArr.prems(4) that by (simp add: list_all_iff)
    show "\<exists>c t. plain_json x = c # t \<and> c \<notin> set '',]}''" if "integral_json x" for x
      using plain_head [OF that] by blast
    show "join_with '','' (map plain_json vs) @ CHR '']'' # r = join_with '','' (map plain_json vs') @ CHR '']'' # r'"
      using JArr.prems(1) by (simp add: v')
  qed (use JArr.prems(4,5) in \<open>simp_all add: v' list_all_iff\<close>)
  then show ?case by (simp add: v')
next
  case (JObj ms)
  from plain_kind [OF JObj.prems(1,4,5)] obtain ms' where v': "v' = JObj ms'" by (cases v') auto
  have "ms = ms' \<and> r = r'"
  proof (rule joined_unique [where f = "\<lambda>(k, v). json_quote k @ '':'' @ plain_json v"
        and Q = "\<lambda>(k, v). integral_json v" and e = "CHR ''}''"])
    fix x y s s'
    assume x: "x \<in> set ms" and y: "case y of (k, v) \<Rightarrow> integral_json v"
      and eq: "(case x of (k, v) \<Rightarrow> json_quote k @ '':'' @ plain_json v) @ s =
        (case y of (k, v) \<Rightarrow> json_quote k @ '':'' @ plain_json v) @ s'" and d: "delim s" "delim s'"
    obtain k v where xk: "x = (k, v)" by (cases x)
    obtain k' w where yk: "y = (k', w)" by (cases y)
    have q: "k = k' \<and> '':'' @ plain_json v @ s = '':'' @ plain_json w @ s'"
      by (rule json_quote_unique) (use eq in \<open>simp add: xk yk\<close>)
    have "v = w \<and> s = s'"
    proof (rule JObj.IH)
      show "x \<in> set ms" by (rule x)
      show "v \<in> Basic_BNFs.snds x" by (simp add: xk snds.simps)
      show "plain_json v @ s = plain_json w @ s'" using q by simp
      show "integral_json v" using JObj.prems(4) x by (auto simp: xk list_all_iff)
    qed (use d y yk in simp_all)
    then show "x = y \<and> s = s'" using q by (simp add: xk yk)
  next
    show "\<exists>c t. (case x of (k, v) \<Rightarrow> json_quote k @ '':'' @ plain_json v) = c # t \<and> c \<notin> set '',]}''" for x
      by (simp add: json_quote_def split: prod.split)
    show "join_with '','' (map (\<lambda>(k, v). json_quote k @ '':'' @ plain_json v) ms) @ CHR ''}'' # r =
        join_with '','' (map (\<lambda>(k, v). json_quote k @ '':'' @ plain_json v) ms') @ CHR ''}'' # r'"
      using JObj.prems(1) by (simp add: v')
  qed (use JObj.prems(4,5) in \<open>simp_all add: v' list_all_iff\<close>)
  then show ?case by (simp add: v')
next
  case JNull
  then show ?case using plain_kind [OF JNull.prems(1,4,5)] by (cases v') auto
next
  case (JBool b)
  then show ?case using plain_kind [OF JBool.prems(1,4,5)] by (cases v') (auto split: if_splits)
next
  case (JNum n)
  from plain_kind [OF JNum.prems(1,4,5)] obtain m where v': "v' = JNum m" by (cases v') auto
  show ?case using number_unique [of n r m r'] JNum.prems by (simp add: v' del: js_String.simps)
next
  case (JStr t)
  from plain_kind [OF JStr.prems(1,4,5)] obtain t' where v': "v' = JStr t'" by (cases v') auto
  show ?case using json_quote_unique [of t r t' r'] JStr.prems by (simp add: v')
qed

text \<open>The order of the members of an object does not show in its text.\<close>

lemma norm_json_permute:
  assumes "mset ms = mset ms'" and "distinct (map fst ms)"
  shows "norm_json (JObj ms) = norm_json (JObj ms')"
proof -
  let ?f = "\<lambda>(k, v). (k, norm_json v)"
  have inj: "inj_on fst (set (map ?f ms))"
    by (auto simp: inj_on_def dest: eq_key_imp_eq_value [OF assms(2)])
  have "mset (map ?f ms') = mset (map ?f ms)" using assms(1) by simp
  then have "set (map ?f ms') = set (map ?f ms)" by (rule mset_eq_setD)
  then have "inj_on fst (set (map ?f ms'))" using inj by (simp only:)
  from sort_key_inj_key_eq [OF _ this] have "sort_key fst (map ?f ms') = sort_key fst (map ?f ms)"
    using assms(1) by simp
  then show ?thesis by simp
qed

end
