(* ===== verification/Gateway_Types.thy ===== *)
theory Gateway_Types
  imports Canonical_Json
begin

text \<open>
  Messages of the canonical gateway: \<open>apps/integration-api/src/gateway/types.ts\<close>, the scenario
  fixtures of \<open>scenarios.ts\<close>, and the error policies of \<open>packages/contracts/src/errors.ts\<close>.
  Message keys are left out; they are determined by the code.
\<close>

section \<open>Errors\<close>

datatype error_code =
  E_VALIDATION_ERROR | E_UNRESOLVED_IDENTITY | E_POLICY_REJECTION | E_VERSION_CONFLICT
| E_IDEMPOTENCY_CONFLICT | E_AUTHENTICATION_REQUIRED | E_FORBIDDEN | E_DEPENDENCY_UNAVAILABLE
| E_RATE_LIMITED | E_UNKNOWN_COMMAND_OUTCOME

fun code_string :: "error_code \<Rightarrow> string" where
  "code_string E_VALIDATION_ERROR = ''VALIDATION_ERROR''"
| "code_string E_UNRESOLVED_IDENTITY = ''UNRESOLVED_IDENTITY''"
| "code_string E_POLICY_REJECTION = ''POLICY_REJECTION''"
| "code_string E_VERSION_CONFLICT = ''VERSION_CONFLICT''"
| "code_string E_IDEMPOTENCY_CONFLICT = ''IDEMPOTENCY_CONFLICT''"
| "code_string E_AUTHENTICATION_REQUIRED = ''AUTHENTICATION_REQUIRED''"
| "code_string E_FORBIDDEN = ''FORBIDDEN''"
| "code_string E_DEPENDENCY_UNAVAILABLE = ''DEPENDENCY_UNAVAILABLE''"
| "code_string E_RATE_LIMITED = ''RATE_LIMITED''"
| "code_string E_UNKNOWN_COMMAND_OUTCOME = ''UNKNOWN_COMMAND_OUTCOME''"

text \<open>\<open>ERROR_POLICIES\<close>: the retry class of a code.\<close>

fun retry_class :: "error_code \<Rightarrow> string" where
  "retry_class E_VALIDATION_ERROR = ''NEVER''"
| "retry_class E_AUTHENTICATION_REQUIRED = ''REAUTHENTICATE''"
| "retry_class E_FORBIDDEN = ''NEVER''"
| "retry_class E_UNRESOLVED_IDENTITY = ''REVIEW_REQUIRED''"
| "retry_class E_POLICY_REJECTION = ''REVIEW_REQUIRED''"
| "retry_class E_VERSION_CONFLICT = ''REFRESH_AND_REVIEW''"
| "retry_class E_IDEMPOTENCY_CONFLICT = ''NEVER''"
| "retry_class E_DEPENDENCY_UNAVAILABLE = ''BOUNDED_SAME_KEY''"
| "retry_class E_RATE_LIMITED = ''BOUNDED_SAME_KEY''"
| "retry_class E_UNKNOWN_COMMAND_OUTCOME = ''RECONCILE_FIRST''"

record contract_error =
  te_code :: string
  te_retryClass :: "string option"

definition makeError :: "error_code \<Rightarrow> contract_error" where
  "makeError code = \<lparr>te_code = code_string code, te_retryClass = Some (retry_class code)\<rparr>"

section \<open>Requests and results\<close>

datatype gateway_tier = INBOUND_DEFAULT | INBOUND_REVIEWER | PRIVILEGED_MERGE

datatype scenario_id =
  SN_EXACT_MATCH_SUCCESS | SN_POSSIBLE_MATCH_REVIEW | SN_NEW_PROFILE_CREATED
| SN_TIMEOUT_BEFORE_APPLY | SN_TIMEOUT_AFTER_APPLY | SN_PERMISSION_DENIED | SN_POLICY_REJECTION
| SN_VERSION_CONFLICT | SN_IDEMPOTENCY_CONFLICT | SN_MALFORMED_DEPENDENCY_RESPONSE
| SN_ONE_ACTIVE_CASE | SN_CLOSED_CASE_SUCCESS | SN_DNC_REJECTED | SN_SUPPRESSION_REQUIRED
| SN_PLACEMENT_PROPOSED | SN_OUTBOX_RECEIPT_DURABLE | SN_DEPENDENCY_UNAVAILABLE | SN_RATE_LIMITED

record call_request =
  rq_organizationId :: string
  rq_commandId :: string
  rq_idempotencyKey :: string
  rq_correlationId :: string
  rq_method :: string
  rq_tier :: gateway_tier
  rq_provider :: "string option"
  rq_actorKind :: string
  rq_scenarioId :: scenario_id
  rq_payload :: json

text \<open>ACCEPTED carries the operation, APPLIED its data, FAILED its errors.\<close>

datatype call_outcome = Accepted string | Applied json | Failed "contract_error list"

record call_result =
  cx_commandId :: string
  cx_correlationId :: string
  cx_outcome :: call_outcome

section \<open>Scenarios\<close>

datatype fixture_outcome = FX_APPLIED json | FX_ACCEPTED | FX_FAILED error_code

record fixture =
  fx_allowedTiers :: "gateway_tier list"
  fx_allowedMethods :: "string list"
  fx_outcome :: fixture_outcome

definition ALL_TIERS :: "gateway_tier list" where
  "ALL_TIERS = [INBOUND_DEFAULT, INBOUND_REVIEWER, PRIVILEGED_MERGE]"

definition NON_PRIVILEGED :: "gateway_tier list" where
  "NON_PRIVILEGED = [INBOUND_DEFAULT, INBOUND_REVIEWER]"

definition ALL_METHODS :: "string list" where
  "ALL_METHODS =
     [''createOrMatchLaborProfile'', ''updateLaborProfile'', ''openPlacementCase'',
      ''updatePlacementCase'', ''closePlacementCase'', ''recordInteraction'',
      ''recordClientInteraction'', ''updateLaborAvailability'', ''commitSuppression'',
      ''dispatchAuthorizationCheck'', ''createNextAction'', ''updateNextAction'',
      ''queryOutboxDelivery'', ''commitReviewDecision'', ''resolvePossibleMatch'',
      ''supersedeReviewStatus'', ''mergeLaborProfiles'']"

definition NON_PRIVILEGED_METHODS :: "string list" where
  "NON_PRIVILEGED_METHODS =
     filter (\<lambda>m. m \<noteq> ''mergeLaborProfiles'' \<and> m \<noteq> ''resolvePossibleMatch'' \<and>
                 m \<noteq> ''commitReviewDecision'' \<and> m \<noteq> ''supersedeReviewStatus'') ALL_METHODS"

definition createOrMatchData :: "string \<Rightarrow> string option \<Rightarrow> string option \<Rightarrow> rat option \<Rightarrow> json" where
  "createOrMatchData outc laborProfileId reviewRef version =
     JObj ([(''matchingOutcome'', JStr outc)] @
       (if truthy laborProfileId then [(''laborProfileId'', JStr (the laborProfileId))] else []) @
       (if truthy reviewRef then [(''reviewRef'', JStr (the reviewRef))] else []) @
       (case version of None \<Rightarrow> [] | Some v \<Rightarrow> [(''version'', JNum v)]))"

definition oneActiveCaseData :: "string \<Rightarrow> string \<Rightarrow> string \<Rightarrow> json" where
  "oneActiveCaseData outc laborProfileId activeCaseId =
     JObj [(''matchingOutcome'', JStr outc), (''laborProfileId'', JStr laborProfileId),
           (''activeCaseId'', JStr activeCaseId),
           (''note'', JStr ''SCENARIO_SIMULATION_NOT_CONCURRENCY_PROOF'')]"

text \<open>\<open>SCENARIOS\<close>; the notes of the fixtures are left out.\<close>

definition mk_fixture :: "gateway_tier list \<Rightarrow> string list \<Rightarrow> fixture_outcome \<Rightarrow> fixture" where
  "mk_fixture tiers methods outc =
     \<lparr>fx_allowedTiers = tiers, fx_allowedMethods = methods, fx_outcome = outc\<rparr>"

fun SCENARIOS :: "scenario_id \<Rightarrow> fixture" where
  "SCENARIOS SN_EXACT_MATCH_SUCCESS =
     mk_fixture NON_PRIVILEGED [''createOrMatchLaborProfile'']
       (FX_APPLIED (createOrMatchData ''EXACT_MATCH'' (Some ''lp-fixture-exact-001'') None (Some 1)))"
| "SCENARIOS SN_POSSIBLE_MATCH_REVIEW =
     mk_fixture NON_PRIVILEGED [''createOrMatchLaborProfile'']
       (FX_APPLIED (createOrMatchData ''POSSIBLE_MATCH'' None (Some ''rev-fixture-possible-001'') None))"
| "SCENARIOS SN_NEW_PROFILE_CREATED =
     mk_fixture NON_PRIVILEGED [''createOrMatchLaborProfile'']
       (FX_APPLIED (createOrMatchData ''NEW_PROFILE'' (Some ''lp-fixture-new-001'') None (Some 1)))"
| "SCENARIOS SN_TIMEOUT_BEFORE_APPLY =
     mk_fixture ALL_TIERS NON_PRIVILEGED_METHODS (FX_FAILED E_DEPENDENCY_UNAVAILABLE)"
| "SCENARIOS SN_TIMEOUT_AFTER_APPLY =
     mk_fixture ALL_TIERS [''openPlacementCase'', ''updatePlacementCase''] FX_ACCEPTED"
| "SCENARIOS SN_PERMISSION_DENIED = mk_fixture ALL_TIERS ALL_METHODS (FX_FAILED E_FORBIDDEN)"
| "SCENARIOS SN_POLICY_REJECTION =
     mk_fixture NON_PRIVILEGED [''commitSuppression'', ''recordInteraction'']
       (FX_FAILED E_POLICY_REJECTION)"
| "SCENARIOS SN_VERSION_CONFLICT =
     mk_fixture ALL_TIERS [''updatePlacementCase'', ''updateLaborProfile'']
       (FX_FAILED E_VERSION_CONFLICT)"
| "SCENARIOS SN_IDEMPOTENCY_CONFLICT =
     mk_fixture ALL_TIERS ALL_METHODS (FX_FAILED E_IDEMPOTENCY_CONFLICT)"
| "SCENARIOS SN_MALFORMED_DEPENDENCY_RESPONSE =
     mk_fixture ALL_TIERS NON_PRIVILEGED_METHODS (FX_FAILED E_UNKNOWN_COMMAND_OUTCOME)"
| "SCENARIOS SN_ONE_ACTIVE_CASE =
     mk_fixture NON_PRIVILEGED [''createOrMatchLaborProfile'']
       (FX_APPLIED (oneActiveCaseData ''EXACT_MATCH'' ''lp-fixture-oac-001'' ''case-fixture-oac-001''))"
| "SCENARIOS SN_CLOSED_CASE_SUCCESS =
     mk_fixture NON_PRIVILEGED [''closePlacementCase'']
       (FX_APPLIED (JObj [(''status'', JStr ''CLOSED''), (''caseId'', JStr ''case-fixture-closed-001''),
          (''closeReason'', JStr ''SUCCESS''), (''closedAt'', JStr ''2026-09-14T00:00:00.000Z'')]))"
| "SCENARIOS SN_DNC_REJECTED =
     mk_fixture NON_PRIVILEGED [''recordInteraction'', ''commitSuppression'']
       (FX_FAILED E_POLICY_REJECTION)"
| "SCENARIOS SN_SUPPRESSION_REQUIRED =
     mk_fixture NON_PRIVILEGED [''dispatchAuthorizationCheck'']
       (FX_APPLIED (JObj [(''status'', JStr ''SUPPRESSED'')]))"
| "SCENARIOS SN_PLACEMENT_PROPOSED =
     mk_fixture NON_PRIVILEGED [''updatePlacementCase'']
       (FX_APPLIED (JObj [(''intendedStage'', JStr ''PROPOSED''),
          (''caseId'', JStr ''case-fixture-proposed-001''), (''version'', JNum 2)]))"
| "SCENARIOS SN_OUTBOX_RECEIPT_DURABLE = mk_fixture ALL_TIERS NON_PRIVILEGED_METHODS FX_ACCEPTED"
| "SCENARIOS SN_DEPENDENCY_UNAVAILABLE =
     mk_fixture ALL_TIERS ALL_METHODS (FX_FAILED E_DEPENDENCY_UNAVAILABLE)"
| "SCENARIOS SN_RATE_LIMITED = mk_fixture ALL_TIERS ALL_METHODS (FX_FAILED E_RATE_LIMITED)"

end
