(* ===== verification/Mock_Gateway.thy ===== *)
theory Mock_Gateway
  imports Gateway_Types
begin

text \<open>
  The deterministic gateway: its call ledger, \<open>apps/integration-api/src/gateway/ledger.ts\<close>, and
  the calls, \<open>gateway/mock-gateway.ts\<close>. A call is atomic here; in the source only the
  simulated latency comes between the cache write and the log entry.
\<close>

section \<open>The ledger\<close>

record log_entry =
  le_scenarioId :: scenario_id
  le_method :: string
  le_tier :: gateway_tier
  le_organizationId :: string
  le_commandId :: string
  le_idempotencyKey :: string
  le_correlationId :: string
  le_actorKind :: string
  le_provider :: "string option"
  le_payloadDigest :: string
  le_now :: int
  le_outcome :: call_outcome
  le_errorCode :: "string option"
  le_cacheHit :: bool
  le_idempotencyConflict :: bool

record cached_result =
  ca_digest :: string
  ca_result :: call_result
  ca_tier :: gateway_tier
  ca_method :: string

record ledger =
  lg_maxEntries :: nat
  lg_entries :: "log_entry list"
  lg_nextIndex :: nat
  lg_count :: nat
  lg_cache :: "string \<rightharpoonup> cached_result"

definition new_ledger :: "nat option \<Rightarrow> ledger" where
  "new_ledger maxEntries =
     \<lparr>lg_maxEntries = nullish maxEntries 1024, lg_entries = [], lg_nextIndex = 0, lg_count = 0,
      lg_cache = Map.empty\<rparr>"

text \<open>
  A full ring overwrites its oldest entry. With a capacity of zero the index is not a number,
  and the assignment adds no element.
\<close>

definition append_entry :: "log_entry \<Rightarrow> ledger \<Rightarrow> ledger" where
  "append_entry entry lg =
     (let lg' =
        (if length (lg_entries lg) < lg_maxEntries lg then lg\<lparr>lg_entries := lg_entries lg @ [entry]\<rparr>
         else if lg_maxEntries lg = 0 then lg
         else lg\<lparr>lg_entries := (lg_entries lg)[lg_nextIndex lg mod lg_maxEntries lg := entry],
                 lg_nextIndex := (lg_nextIndex lg + 1) mod lg_maxEntries lg\<rparr>)
      in lg'\<lparr>lg_count := lg_count lg + 1\<rparr>)"

definition snapshot :: "ledger \<Rightarrow> log_entry list" where
  "snapshot lg = lg_entries lg"

definition cacheKey :: "string \<Rightarrow> string \<Rightarrow> string \<Rightarrow> string" where
  "cacheKey organizationId commandName idempotencyKey =
     organizationId @ '':'' @ commandName @ '':'' @ idempotencyKey"

definition writeCache :: "string \<Rightarrow> cached_result \<Rightarrow> ledger \<Rightarrow> ledger" where
  "writeCache key c lg = lg\<lparr>lg_cache := (lg_cache lg)(key \<mapsto> c)\<rparr>"

definition reset_ledger :: "ledger \<Rightarrow> ledger" where
  "reset_ledger lg = lg\<lparr>lg_entries := [], lg_cache := Map.empty, lg_nextIndex := 0, lg_count := 0\<rparr>"

definition buildLogEntry ::
  "call_request \<Rightarrow> string \<Rightarrow> int \<Rightarrow> call_result \<Rightarrow> bool \<Rightarrow> bool \<Rightarrow> log_entry" where
  "buildLogEntry req digest now res cacheHit conflict =
     \<lparr>le_scenarioId = rq_scenarioId req, le_method = rq_method req, le_tier = rq_tier req,
      le_organizationId = rq_organizationId req, le_commandId = rq_commandId req,
      le_idempotencyKey = rq_idempotencyKey req, le_correlationId = rq_correlationId req,
      le_actorKind = rq_actorKind req, le_provider = rq_provider req, le_payloadDigest = digest,
      le_now = now, le_outcome = cx_outcome res,
      le_errorCode = (case cx_outcome res of Failed (e # _) \<Rightarrow> Some (te_code e) | _ \<Rightarrow> None),
      le_cacheHit = cacheHit, le_idempotencyConflict = conflict\<rparr>"

section \<open>Calls\<close>

definition payloadDigest :: "(string \<Rightarrow> string) \<Rightarrow> json \<Rightarrow> string" where
  "payloadDigest sha256 payload = sha256 (canonicalJson payload)"

definition PRIVILEGED_METHODS :: "string list" where
  "PRIVILEGED_METHODS =
     [''mergeLaborProfiles'', ''resolvePossibleMatch'', ''commitReviewDecision'',
      ''supersedeReviewStatus'']"

text \<open>\<^const>\<open>None\<close> is the answer ok.\<close>

definition checkCapability :: "string \<Rightarrow> gateway_tier \<Rightarrow> error_code option" where
  "checkCapability method tier =
     (if method \<in> set PRIVILEGED_METHODS \<and> tier \<noteq> PRIVILEGED_MERGE then Some E_FORBIDDEN else None)"

definition failed :: "call_request \<Rightarrow> error_code \<Rightarrow> call_result" where
  "failed req code =
     \<lparr>cx_commandId = rq_commandId req, cx_correlationId = rq_correlationId req,
      cx_outcome = Failed [makeError code]\<rparr>"

text \<open>\<open>toString (36)\<close> of a non-negative number.\<close>

fun base36 :: "nat \<Rightarrow> string" where
  "base36 n =
     (let d = (\<lambda>k. if k < 10 then char_of (48 + k) else char_of (87 + k) :: char)
      in if n < 36 then [d n] else base36 (n div 36) @ [d (n mod 36)])"

declare base36.simps [simp del]

text \<open>The result, and the number of identifiers drawn.\<close>

definition applyScenario :: "call_request \<Rightarrow> int \<Rightarrow> nat \<Rightarrow> call_result \<times> nat" where
  "applyScenario req now counter =
     (let fixture = SCENARIOS (rq_scenarioId req)
      in if rq_tier req \<notin> set (fx_allowedTiers fixture) then (failed req E_FORBIDDEN, counter)
         else if rq_method req \<notin> set (fx_allowedMethods fixture) then
           (failed req E_POLICY_REJECTION, counter)
         else case fx_outcome fixture of
           FX_APPLIED data \<Rightarrow>
             (\<lparr>cx_commandId = rq_commandId req, cx_correlationId = rq_correlationId req,
               cx_outcome = Applied data\<rparr>, counter)
         | FX_ACCEPTED \<Rightarrow>
             (\<lparr>cx_commandId = rq_commandId req, cx_correlationId = rq_correlationId req,
               cx_outcome = Accepted (''op-'' @ base36 (nat now) @ ''-'' @ base36 (counter + 1))\<rparr>,
              counter + 1)
         | FX_FAILED code \<Rightarrow> (failed req code, counter))"

record gateway_state =
  gs_ledger :: ledger
  gs_counter :: nat

definition mock_call ::
  "(string \<Rightarrow> string) \<Rightarrow> int \<Rightarrow> call_request \<Rightarrow> gateway_state \<Rightarrow> call_result \<times> gateway_state" where
  "mock_call sha256 now req gs =
     (let digest = payloadDigest sha256 (rq_payload req);
          key = cacheKey (rq_organizationId req) (rq_method req) (rq_idempotencyKey req);
          log = (\<lambda>res hit conflict. append_entry (buildLogEntry req digest now res hit conflict));
          lg = gs_ledger gs
      in case checkCapability (rq_method req) (rq_tier req) of
           Some code \<Rightarrow>
             let res = failed req code in (res, gs\<lparr>gs_ledger := log res False False lg\<rparr>)
         | None \<Rightarrow>
             (case lg_cache lg key of
                Some c \<Rightarrow>
                  if ca_digest c = digest \<and> ca_method c = rq_method req \<and> ca_tier c = rq_tier req then
                    (ca_result c, gs\<lparr>gs_ledger := log (ca_result c) True False lg\<rparr>)
                  else
                    let res = failed req E_IDEMPOTENCY_CONFLICT
                    in (res, gs\<lparr>gs_ledger := log res False True lg\<rparr>)
              | None \<Rightarrow>
                  let (res, counter) = applyScenario req now (gs_counter gs);
                      lg' = (case cx_outcome res of
                               Failed _ \<Rightarrow> lg
                             | _ \<Rightarrow> writeCache key
                                 \<lparr>ca_digest = digest, ca_result = res, ca_tier = rq_tier req,
                                  ca_method = rq_method req\<rparr> lg)
                  in (res, \<lparr>gs_ledger = log res False False lg', gs_counter = counter\<rparr>)))"

definition new_gateway :: gateway_state where
  "new_gateway = \<lparr>gs_ledger = new_ledger None, gs_counter = 0\<rparr>"

definition reset_gateway :: "gateway_state \<Rightarrow> gateway_state" where
  "reset_gateway gs = \<lparr>gs_ledger = reset_ledger (gs_ledger gs), gs_counter = 0\<rparr>"

definition readLog :: "gateway_state \<Rightarrow> log_entry list" where
  "readLog gs = snapshot (gs_ledger gs)"

text \<open>Calls one after the other, each with the clock it sees.\<close>

fun run_calls ::
  "(string \<Rightarrow> string) \<Rightarrow> (int \<times> call_request) list \<Rightarrow> gateway_state \<Rightarrow> call_result list \<times> gateway_state" where
  "run_calls sha256 [] gs = ([], gs)"
| "run_calls sha256 ((now, req) # calls) gs =
     (let (res, gs1) = mock_call sha256 now req gs; (rs, gs2) = run_calls sha256 calls gs1
      in (res # rs, gs2))"

section \<open>The ring\<close>

text \<open>The entries from the oldest to the newest.\<close>

definition chronological :: "ledger \<Rightarrow> log_entry list" where
  "chronological lg = rotate (lg_nextIndex lg) (snapshot lg)"

definition ring_ok :: "ledger \<Rightarrow> bool" where
  "ring_ok lg \<longleftrightarrow> length (lg_entries lg) \<le> lg_maxEntries lg \<and>
     (if length (lg_entries lg) < lg_maxEntries lg \<or> lg_maxEntries lg = 0 then lg_nextIndex lg = 0
      else lg_nextIndex lg < lg_maxEntries lg)"

lemma rotate_update:
  assumes "i < length xs"
  shows "rotate (Suc i mod length xs) (xs[i := x]) = tl (rotate i xs) @ [x]"
proof -
  have "rotate (Suc i mod length xs) (xs[i := x]) = rotate (Suc i) (xs[i := x])"
    using rotate_conv_mod [of "Suc i" "xs[i := x]"] by simp
  also have "\<dots> = drop (Suc i) xs @ take i xs @ [x]"
  proof (cases "Suc i = length xs")
    case True
    then have "rotate (Suc i) (xs[i := x]) = xs[i := x]" by (simp add: rotate_id)
    then show ?thesis using True by (simp add: list_update_append upd_conv_take_nth_drop)
  next
    case False
    then show ?thesis using assms by (simp add: rotate_drop_take upd_conv_take_nth_drop)
  qed
  also have "\<dots> = tl (rotate i xs) @ [x]"
    using assms Cons_nth_drop_Suc [OF assms, symmetric] by (simp add: rotate_drop_take)
  finally show ?thesis .
qed

lemma append_ring:
  assumes "ring_ok lg"
  shows "ring_ok (append_entry e lg) \<and> lg_maxEntries (append_entry e lg) = lg_maxEntries lg \<and>
    chronological (append_entry e lg) =
      (let log = chronological lg @ [e] in drop (length log - lg_maxEntries lg) log)"
proof (cases "length (lg_entries lg) < lg_maxEntries lg")
  case True
  then show ?thesis using assms
    by (auto simp: ring_ok_def append_entry_def chronological_def snapshot_def Let_def)
next
  case full: False
  show ?thesis
  proof (cases "lg_maxEntries lg = 0")
    case True
    then show ?thesis using assms full
      by (auto simp: ring_ok_def append_entry_def chronological_def snapshot_def Let_def)
  next
    case False
    then have n: "length (lg_entries lg) = lg_maxEntries lg" "lg_nextIndex lg < lg_maxEntries lg"
      using assms full by (auto simp: ring_ok_def)
    have "rotate (Suc (lg_nextIndex lg) mod lg_maxEntries lg) ((lg_entries lg)[lg_nextIndex lg := e]) =
        tl (rotate (lg_nextIndex lg) (lg_entries lg)) @ [e]"
      using rotate_update [of "lg_nextIndex lg" "lg_entries lg" e] n by simp
    moreover have "drop (Suc 0) (rotate (lg_nextIndex lg) (lg_entries lg) @ [e]) =
        tl (rotate (lg_nextIndex lg) (lg_entries lg)) @ [e]"
      using n by (cases "rotate (lg_nextIndex lg) (lg_entries lg)") auto
    ultimately show ?thesis using n False
      by (auto simp: ring_ok_def append_entry_def chronological_def snapshot_def Let_def)
  qed
qed

lemma append_entries_ring:
  assumes "ring_ok lg"
  shows "ring_ok (fold append_entry es lg) \<and>
    lg_maxEntries (fold append_entry es lg) = lg_maxEntries lg \<and>
    chronological (fold append_entry es lg) =
      (let log = chronological lg @ es in drop (length log - lg_maxEntries lg) log)"
  using assms
proof (induction es arbitrary: lg)
  case Nil
  then show ?case by (auto simp: ring_ok_def chronological_def snapshot_def)
next
  case (Cons e es)
  from append_ring [OF Cons.prems, of e] have step: "ring_ok (append_entry e lg)"
      "lg_maxEntries (append_entry e lg) = lg_maxEntries lg"
      "chronological (append_entry e lg) =
        drop (Suc (length (chronological lg)) - lg_maxEntries lg) (chronological lg @ [e])"
    by (simp_all add: Let_def)
  let ?xs = "chronological lg @ [e]"
  let ?n = "lg_maxEntries lg"
  have twice: "drop (length (drop (length xs - n) xs @ ys) - n) (drop (length xs - n) xs @ ys) =
      drop (length (xs @ ys) - n) (xs @ ys)" for n and xs ys :: "log_entry list"
    by (cases "n \<le> length xs") (auto simp: add.commute)
  have "chronological (fold append_entry es (append_entry e lg)) =
      drop (length (drop (length ?xs - ?n) ?xs @ es) - ?n) (drop (length ?xs - ?n) ?xs @ es)"
    using Cons.IH [OF step(1)] step(2,3) unfolding Let_def by (simp del: drop_append)
  also have "\<dots> = drop (length (?xs @ es) - ?n) (?xs @ es)" by (rule twice)
  finally show ?case using Cons.IH [OF step(1)] step(2)
    unfolding Let_def by (simp del: drop_append)
qed

section \<open>The cache\<close>

definition is_failed :: "call_outcome \<Rightarrow> bool" where
  "is_failed oc \<longleftrightarrow> (case oc of Failed _ \<Rightarrow> True | _ \<Rightarrow> False)"

lemma is_failed_simps [simp]:
  "is_failed (Failed es)" "\<not> is_failed (Applied d)" "\<not> is_failed (Accepted op)"
  by (simp_all add: is_failed_def)

lemma failed_is_failed [simp]: "is_failed (cx_outcome (failed req code))"
  by (simp add: failed_def)

lemma append_entry_cache [simp]: "lg_cache (append_entry e lg) = lg_cache lg"
  by (simp add: append_entry_def Let_def)

text \<open>What a call leaves in the cache: nothing is overwritten, and a failure is not kept.\<close>

lemma mock_call_cases:
  assumes "mock_call sha256 now req gs = (res, gs')"
  obtains
    (refused) code where "checkCapability (rq_method req) (rq_tier req) = Some code"
      "res = failed req code" "lg_cache (gs_ledger gs') = lg_cache (gs_ledger gs)"
  | (replayed) c where "checkCapability (rq_method req) (rq_tier req) = None"
      "lg_cache (gs_ledger gs) (cacheKey (rq_organizationId req) (rq_method req) (rq_idempotencyKey req)) = Some c"
      "res = (if ca_digest c = payloadDigest sha256 (rq_payload req) \<and> ca_method c = rq_method req \<and>
                 ca_tier c = rq_tier req then ca_result c else failed req E_IDEMPOTENCY_CONFLICT)"
      "lg_cache (gs_ledger gs') = lg_cache (gs_ledger gs)"
  | (fresh) "checkCapability (rq_method req) (rq_tier req) = None"
      "lg_cache (gs_ledger gs) (cacheKey (rq_organizationId req) (rq_method req) (rq_idempotencyKey req)) = None"
      "res = fst (applyScenario req now (gs_counter gs))"
      "lg_cache (gs_ledger gs') =
        (if is_failed (cx_outcome res) then lg_cache (gs_ledger gs)
         else (lg_cache (gs_ledger gs))
           (cacheKey (rq_organizationId req) (rq_method req) (rq_idempotencyKey req) \<mapsto>
             \<lparr>ca_digest = payloadDigest sha256 (rq_payload req), ca_result = res,
              ca_tier = rq_tier req, ca_method = rq_method req\<rparr>))"
proof (cases "checkCapability (rq_method req) (rq_tier req)")
  case (Some code)
  then show ?thesis using assms by (intro refused) (auto simp: mock_call_def Let_def)
next
  case None
  show ?thesis
  proof (cases "lg_cache (gs_ledger gs)
      (cacheKey (rq_organizationId req) (rq_method req) (rq_idempotencyKey req))")
    case (Some c)
    then show ?thesis using assms None
      by (intro replayed [of c]) (auto simp: mock_call_def Let_def split: if_splits)
  next
    case miss: None
    show ?thesis
    proof (rule fresh)
      show "res = fst (applyScenario req now (gs_counter gs))"
        using assms None miss by (auto simp: mock_call_def Let_def split: prod.splits)
    qed (use assms None miss in \<open>auto simp: mock_call_def Let_def writeCache_def is_failed_def
        split: prod.splits call_outcome.splits\<close>)
  qed
qed

lemma call_keeps_cache:
  assumes "mock_call sha256 now req gs = (res, gs')" and "lg_cache (gs_ledger gs) key = Some c"
  shows "lg_cache (gs_ledger gs') key = Some c"
  using assms(1) by (cases rule: mock_call_cases) (use assms(2) in auto)

lemma calls_keep_cache:
  assumes "run_calls sha256 calls gs = (rs, gs')" and "lg_cache (gs_ledger gs) key = Some c"
  shows "lg_cache (gs_ledger gs') key = Some c"
  using assms
proof (induction calls arbitrary: gs rs)
  case (Cons call calls)
  obtain now req where call: "call = (now, req)" by (cases call)
  obtain res gs1 where step: "mock_call sha256 now req gs = (res, gs1)" by fastforce
  have "\<exists>rs. run_calls sha256 calls gs1 = (rs, gs')"
    using Cons.prems(1) by (auto simp: call step split: prod.splits)
  then show ?case using Cons.IH call_keeps_cache [OF step Cons.prems(2)] by blast
qed simp

text \<open>A kept result is found again under the call's own key.\<close>

lemma kept_result:
  assumes "mock_call sha256 now req gs = (res, gs')" and "\<not> is_failed (cx_outcome res)"
  shows "lg_cache (gs_ledger gs') (cacheKey (rq_organizationId req) (rq_method req) (rq_idempotencyKey req)) =
    Some \<lparr>ca_digest = payloadDigest sha256 (rq_payload req), ca_result = res, ca_tier = rq_tier req,
          ca_method = rq_method req\<rparr>"
  using assms(1) by (cases rule: mock_call_cases) (use assms(2) in \<open>auto split: if_splits\<close>)

lemma cached_answer:
  assumes "lg_cache (gs_ledger gs) (cacheKey (rq_organizationId req) (rq_method req) (rq_idempotencyKey req)) = Some c"
  shows "fst (mock_call sha256 now req gs) =
    (case checkCapability (rq_method req) (rq_tier req) of Some code \<Rightarrow> failed req code
     | None \<Rightarrow>
         if ca_digest c = payloadDigest sha256 (rq_payload req) \<and> ca_method c = rq_method req \<and>
            ca_tier c = rq_tier req
         then ca_result c else failed req E_IDEMPOTENCY_CONFLICT)"
  using assms by (simp add: mock_call_def Let_def split: option.split)

section \<open>Privileged methods\<close>

lemma scenario_not_privileged:
  assumes "rq_method req \<in> set PRIVILEGED_METHODS"
  shows "is_failed (cx_outcome (fst (applyScenario req now counter)))"
  using assms
  by (cases "rq_scenarioId req")
    (auto simp: applyScenario_def Let_def mk_fixture_def PRIVILEGED_METHODS_def
      NON_PRIVILEGED_METHODS_def ALL_METHODS_def)

definition unprivileged_cache :: "gateway_state \<Rightarrow> bool" where
  "unprivileged_cache gs \<longleftrightarrow> (\<forall>key c. lg_cache (gs_ledger gs) key = Some c \<longrightarrow>
     ca_method c \<notin> set PRIVILEGED_METHODS)"

lemma call_unprivileged:
  assumes "mock_call sha256 now req gs = (res, gs')" and "unprivileged_cache gs"
  shows "unprivileged_cache gs' \<and>
    (rq_method req \<in> set PRIVILEGED_METHODS \<longrightarrow> is_failed (cx_outcome res))"
  using assms(1)
proof (cases rule: mock_call_cases)
  case (replayed c)
  moreover from this have "ca_method c \<notin> set PRIVILEGED_METHODS"
    using assms(2) by (auto simp: unprivileged_cache_def)
  ultimately show ?thesis using assms(2)
    by (cases "ca_method c = rq_method req") (simp_all add: unprivileged_cache_def)
next
  case fresh
  then show ?thesis using assms(2) scenario_not_privileged [of req now "gs_counter gs"]
    by (auto simp: unprivileged_cache_def)
qed (use assms(2) in \<open>auto simp: unprivileged_cache_def\<close>)

lemma calls_unprivileged:
  assumes "run_calls sha256 calls gs = (rs, gs')" and "unprivileged_cache gs"
  shows "unprivileged_cache gs'"
  using assms
proof (induction calls arbitrary: gs rs)
  case (Cons call calls)
  obtain now req where call: "call = (now, req)" by (cases call)
  obtain res gs1 where step: "mock_call sha256 now req gs = (res, gs1)" by fastforce
  have "\<exists>rs. run_calls sha256 calls gs1 = (rs, gs')"
    using Cons.prems(1) by (auto simp: call step split: prod.splits)
  then show ?case using Cons.IH call_unprivileged [OF step Cons.prems(2)] by blast
qed simp

end
