(* ===== verification/Intake_Digest.thy ===== *)
theory Intake_Digest
  imports Canonical_Json
begin

text \<open>
  The digest a staff confirmation is bound to,
  \<open>apps/integration-api/src/orchestrator/digest.ts\<close>. SHA-256 and the locale's collation are
  the platform's: \<open>sha256\<close> maps a text to its hex digest, and \<open>collate\<close> gives the sort key
  \<open>localeCompare\<close> orders strings by.
\<close>

record intake_intent =
  in_stage :: string
  in_availability :: string
  in_availableFromDate :: "string option"

record evidence_ref =
  ev_evidenceId :: string
  ev_kind :: string

record draft_input =
  dr_organizationId :: string
  dr_intakeRevisionId :: string
  dr_fullName :: string
  dr_phone :: string
  dr_citizenNumber :: string
  dr_citizenAddress :: string
  dr_contactAddress :: "string option"
  dr_dob :: "string option"
  dr_intent :: intake_intent
  dr_evidenceRefs :: "evidence_ref list"
  dr_canonicalId :: "string option"
  dr_canonicalVersion :: "rat option"

text \<open>A member that is present only if its value is.\<close>

definition member_if :: "string \<Rightarrow> json option \<Rightarrow> (string \<times> json) list" where
  "member_if k v = (case v of None \<Rightarrow> [] | Some x \<Rightarrow> [(k, x)])"

definition intent_json :: "intake_intent \<Rightarrow> json" where
  "intent_json i =
     JObj ([(''stage'', JStr (in_stage i)), (''availability'', JStr (in_availability i))] @
           member_if ''availableFromDate'' (map_option JStr (in_availableFromDate i)))"

definition evidence_json :: "evidence_ref \<Rightarrow> json" where
  "evidence_json e = JObj [(''evidenceId'', JStr (ev_evidenceId e)), (''kind'', JStr (ev_kind e))]"

definition sort_evidence :: "(string \<Rightarrow> nat) \<Rightarrow> evidence_ref list \<Rightarrow> evidence_ref list" where
  "sort_evidence collate evs = sort_key (\<lambda>e. collate (ev_evidenceId e)) evs"

definition draft_members :: "(string \<Rightarrow> nat) \<Rightarrow> draft_input \<Rightarrow> (string \<times> json) list" where
  "draft_members collate d =
     [(''organizationId'', JStr (dr_organizationId d)),
      (''intakeRevisionId'', JStr (dr_intakeRevisionId d)),
      (''fullName'', JStr (dr_fullName d)),
      (''phone'', JStr (dr_phone d)),
      (''citizenIdentity'', JObj [(''number'', JStr (dr_citizenNumber d)),
                                 (''address'', JStr (dr_citizenAddress d))]),
      (''intent'', intent_json (dr_intent d)),
      (''evidenceRefs'', JArr (map evidence_json (sort_evidence collate (dr_evidenceRefs d))))] @
     member_if ''contactAddress'' (map_option JStr (dr_contactAddress d)) @
     member_if ''dob'' (map_option JStr (dr_dob d)) @
     member_if ''canonicalId'' (map_option JStr (dr_canonicalId d)) @
     member_if ''canonicalVersion'' (map_option JNum (dr_canonicalVersion d))"

definition buildCanonicalDraft :: "(string \<Rightarrow> nat) \<Rightarrow> draft_input \<Rightarrow> json" where
  "buildCanonicalDraft collate d = JObj (draft_members collate d)"

definition digestCanonical :: "(string \<Rightarrow> string) \<Rightarrow> json \<Rightarrow> string" where
  "digestCanonical sha256 v = sha256 (canonicalJson v)"

definition computeServerDigest :: "(string \<Rightarrow> string) \<Rightarrow> (string \<Rightarrow> nat) \<Rightarrow> draft_input \<Rightarrow> string" where
  "computeServerDigest sha256 collate d = digestCanonical sha256 (buildCanonicalDraft collate d)"

section \<open>Facts\<close>

lemma member_if_simps [simp]:
  "map_of (member_if k v) k' = (if k = k' then v else None)"
  "fst ` set (member_if k v) = (if v = None then {} else {k})"
  "distinct (map fst (member_if k v))"
  by (auto simp: member_if_def split: option.split)

text \<open>Objects with the same text agree member by member.\<close>

lemma norm_members:
  assumes "norm_json (JObj ms) = norm_json (JObj ms')"
    and "distinct (map fst ms)" and "distinct (map fst ms')"
  shows "map_option norm_json (map_of ms k) = map_option norm_json (map_of ms' k)"
proof -
  let ?f = "\<lambda>(k, v). (k, norm_json v)"
  have fst: "map fst (map ?f xs) = map fst xs" for xs by (induction xs) auto
  have "mset (sort_key fst (map ?f ms)) = mset (sort_key fst (map ?f ms'))" using assms(1) by simp
  then have "set (map ?f ms) = set (map ?f ms')" unfolding mset_sort by (rule mset_eq_setD)
  then have "map_of (map ?f ms) = map_of (map ?f ms')"
    using assms(2,3) by (intro map_of_inject_set [THEN iffD2]) (simp_all only: fst)
  then show ?thesis by (simp add: map_of_map fun_eq_iff)
qed

lemma draft_members_distinct: "distinct (map fst (draft_members collate d))"
  by (simp add: draft_members_def)

lemma integral_draft:
  assumes "\<And>n. dr_canonicalVersion d = Some n \<Longrightarrow> snd (quotient_of n) = 1"
  shows "integral_json (buildCanonicalDraft collate d)"
  using assms
  by (auto simp: buildCanonicalDraft_def draft_members_def member_if_def intent_json_def evidence_json_def
      list_all_iff split: option.split)

lemma intent_json_eq:
  assumes "norm_json (intent_json i) = norm_json (intent_json j)"
  shows "i = j"
proof -
  let ?ms = "\<lambda>i. [(''stage'', JStr (in_stage i)), (''availability'', JStr (in_availability i))] @
      member_if ''availableFromDate'' (map_option JStr (in_availableFromDate i))"
  have d: "distinct (map fst (?ms i))" for i by (auto simp: member_if_def split: option.split)
  have m: "map_option norm_json (map_of (?ms i) k) = map_option norm_json (map_of (?ms j) k)" for k
    by (rule norm_members [OF _ d d]) (use assms in \<open>simp add: intent_json_def\<close>)
  have "in_availableFromDate i = in_availableFromDate j"
    using m [of "''availableFromDate''"] by (cases "in_availableFromDate i"; cases "in_availableFromDate j") auto
  then show ?thesis using m [of "''stage''"] m [of "''availability''"] by simp
qed

lemma evidence_json_eq: "norm_json (evidence_json e) = norm_json (evidence_json f) \<Longrightarrow> e = f"
  using norm_members [of "[(''evidenceId'', JStr (ev_evidenceId e)), (''kind'', JStr (ev_kind e))]"
      "[(''evidenceId'', JStr (ev_evidenceId f)), (''kind'', JStr (ev_kind f))]" "''evidenceId''"]
    norm_members [of "[(''evidenceId'', JStr (ev_evidenceId e)), (''kind'', JStr (ev_kind e))]"
      "[(''evidenceId'', JStr (ev_evidenceId f)), (''kind'', JStr (ev_kind f))]" "''kind''"]
  by (simp add: evidence_json_def)

text \<open>A draft with its evidence in the order of the digest.\<close>

definition ordered_draft :: "(string \<Rightarrow> nat) \<Rightarrow> draft_input \<Rightarrow> draft_input" where
  "ordered_draft collate d = d\<lparr>dr_evidenceRefs := sort_evidence collate (dr_evidenceRefs d)\<rparr>"

definition integral_version :: "draft_input \<Rightarrow> bool" where
  "integral_version d \<longleftrightarrow> (case dr_canonicalVersion d of None \<Rightarrow> True | Some n \<Rightarrow> snd (quotient_of n) = 1)"

lemma draft_optional_members:
  "map_of (draft_members collate d) ''contactAddress'' = map_option JStr (dr_contactAddress d)"
  "map_of (draft_members collate d) ''dob'' = map_option JStr (dr_dob d)"
  "map_of (draft_members collate d) ''canonicalId'' = map_option JStr (dr_canonicalId d)"
  "map_of (draft_members collate d) ''canonicalVersion'' = map_option JNum (dr_canonicalVersion d)"
  by (simp_all add: draft_members_def map_add_def split: option.split)

lemma option_json_eq:
  "map_option norm_json (map_option JStr x) = map_option norm_json (map_option JStr y) \<Longrightarrow> x = y"
  "map_option norm_json (map_option JNum m) = map_option norm_json (map_option JNum n) \<Longrightarrow> m = n"
  by (cases x; cases y; simp) (cases m; cases n; simp)

lemma draft_members_eq:
  assumes "norm_json (buildCanonicalDraft collate d) = norm_json (buildCanonicalDraft collate d')"
  shows "ordered_draft collate d = ordered_draft collate d'"
proof -
  have m: "map_option norm_json (map_of (draft_members collate d) k) =
      map_option norm_json (map_of (draft_members collate d') k)" for k
    by (rule norm_members) (use assms draft_members_distinct in \<open>simp_all add: buildCanonicalDraft_def\<close>)
  have "dr_organizationId d = dr_organizationId d'" "dr_intakeRevisionId d = dr_intakeRevisionId d'"
    "dr_fullName d = dr_fullName d'" "dr_phone d = dr_phone d'"
    using m [of "''organizationId''"] m [of "''intakeRevisionId''"] m [of "''fullName''"] m [of "''phone''"]
    by (simp_all add: draft_members_def)
  moreover have "dr_citizenNumber d = dr_citizenNumber d'" "dr_citizenAddress d = dr_citizenAddress d'"
    using m [of "''citizenIdentity''"]
      norm_members [of "[(''number'', JStr (dr_citizenNumber d)), (''address'', JStr (dr_citizenAddress d))]"
        "[(''number'', JStr (dr_citizenNumber d')), (''address'', JStr (dr_citizenAddress d'))]" "''number''"]
      norm_members [of "[(''number'', JStr (dr_citizenNumber d)), (''address'', JStr (dr_citizenAddress d))]"
        "[(''number'', JStr (dr_citizenNumber d')), (''address'', JStr (dr_citizenAddress d'))]" "''address''"]
    by (simp_all add: draft_members_def)
  moreover have "dr_intent d = dr_intent d'"
    using m [of "''intent''"] by (intro intent_json_eq) (simp add: draft_members_def)
  moreover have "dr_contactAddress d = dr_contactAddress d'" "dr_dob d = dr_dob d'"
    "dr_canonicalId d = dr_canonicalId d'" "dr_canonicalVersion d = dr_canonicalVersion d'"
    using m [of "''contactAddress''"] m [of "''dob''"] m [of "''canonicalId''"] m [of "''canonicalVersion''"]
    by (auto simp only: draft_optional_members dest: option_json_eq)
  moreover have "sort_evidence collate (dr_evidenceRefs d) = sort_evidence collate (dr_evidenceRefs d')"
  proof -
    have "map (\<lambda>e. norm_json (evidence_json e)) (sort_evidence collate (dr_evidenceRefs d)) =
        map (\<lambda>e. norm_json (evidence_json e)) (sort_evidence collate (dr_evidenceRefs d'))"
      using m [of "''evidenceRefs''"] by (simp add: draft_members_def comp_def)
    then show ?thesis by (subst (asm) inj_map_eq_map) (auto simp: inj_on_def intro: evidence_json_eq)
  qed
  ultimately show ?thesis by (cases d; cases d') (simp add: ordered_draft_def)
qed

text \<open>Drafts have the same canonical text exactly if they are the same up to the order of evidence.\<close>

lemma draft_text_eq:
  assumes "integral_version d" and "integral_version d'"
  shows "canonicalJson (buildCanonicalDraft collate d) = canonicalJson (buildCanonicalDraft collate d') \<longleftrightarrow>
    ordered_draft collate d = ordered_draft collate d'"
proof
  assume "canonicalJson (buildCanonicalDraft collate d) = canonicalJson (buildCanonicalDraft collate d')"
  moreover have "integral_json (buildCanonicalDraft collate d)" "integral_json (buildCanonicalDraft collate d')"
    using assms by (auto intro!: integral_draft simp: integral_version_def)
  ultimately have "norm_json (buildCanonicalDraft collate d) = norm_json (buildCanonicalDraft collate d')"
    using plain_unique [of "norm_json (buildCanonicalDraft collate d)" "[]"
        "norm_json (buildCanonicalDraft collate d')" "[]"]
    by (simp add: canonicalJson_plain delim_def)
  then show "ordered_draft collate d = ordered_draft collate d'" by (rule draft_members_eq)
next
  assume "ordered_draft collate d = ordered_draft collate d'"
  then have "draft_members collate d = draft_members collate d'"
    by (cases d; cases d') (simp add: ordered_draft_def draft_members_def)
  then show "canonicalJson (buildCanonicalDraft collate d) = canonicalJson (buildCanonicalDraft collate d')"
    by (simp add: buildCanonicalDraft_def)
qed

end
