(* ===== verification/Gateway_Properties.thy ===== *)
theory Gateway_Properties
  imports Mock_Gateway Intake_Digest
begin

text \<open>
  What the deterministic gateway and the confirmation digest promise: replay of a kept result,
  the bounded log as the newest entries of the full one, no privileged change from any tier,
  and digests that tell drafts apart.
\<close>

definition gateway_sample :: "string \<Rightarrow> json \<Rightarrow> call_request" where
  "gateway_sample key payload =
     \<lparr>rq_organizationId = ''org'', rq_commandId = ''c1'', rq_idempotencyKey = key,
      rq_correlationId = ''corr-0001'', rq_method = ''createOrMatchLaborProfile'',
      rq_tier = INBOUND_DEFAULT, rq_provider = None, rq_actorKind = ''STAFF'',
      rq_scenarioId = SN_EXACT_MATCH_SUCCESS, rq_payload = payload\<rparr>"



text \<open>C13. The call log is a ring that keeps the newest entries: for every capacity, its content
  rotated to the next position to overwrite is the end of the unbounded log, in order.\<close>

theorem ledger_keeps_newest:
  "(let lg = fold append_entry es (new_ledger maxEntries)
    in rotate (lg_nextIndex lg) (snapshot lg)) =
   drop (length es - nullish maxEntries 1024) es"
proof -
  have "ring_ok (new_ledger maxEntries)" by (auto simp: ring_ok_def new_ledger_def)
  from append_entries_ring [OF this, of es] show ?thesis
    by (simp add: chronological_def snapshot_def new_ledger_def Let_def)
qed

text \<open>No sequence of calls, of any tier and scenario, makes the gateway apply or accept one
  of the privileged methods (merging or splitting of profiles, review decisions).\<close>

lemma privileged_methods_always_fail:
  assumes "rq_method req \<in> set PRIVILEGED_METHODS"
  shows "is_failed (cx_outcome (fst (mock_call sha256 now req (snd (run_calls sha256 calls new_gateway)))))"
proof -
  have "unprivileged_cache new_gateway"
    by (simp add: unprivileged_cache_def new_gateway_def new_ledger_def)
  then have "unprivileged_cache (snd (run_calls sha256 calls new_gateway))"
    by (rule calls_unprivileged [OF prod.collapse [symmetric]])
  from call_unprivileged [OF prod.collapse [symmetric] this] assms show ?thesis by blast
qed

text \<open>C14. Two drafts have the same digest exactly if they are the same draft up to the order of
  the evidence, whenever SHA-256 does not collide on their two texts and the versions are
  integers: no field, intent, evidence or target can change under a confirmation.\<close>

theorem digest_binds_draft:
  assumes "inj_on sha256 {canonicalJson (buildCanonicalDraft collate d),
      canonicalJson (buildCanonicalDraft collate d')}"
    and "integral_version d" and "integral_version d'"
  shows "computeServerDigest sha256 collate d = computeServerDigest sha256 collate d' \<longleftrightarrow>
    ordered_draft collate d = ordered_draft collate d'"
  unfolding draft_text_eq [OF assms(2,3), symmetric] computeServerDigest_def digestCanonical_def
  using inj_on_eq_iff [OF assms(1)] by blast

definition draft_sample :: "string \<Rightarrow> string list \<Rightarrow> rat option \<Rightarrow> draft_input" where
  "draft_sample name evs version =
     \<lparr>dr_organizationId = ''org'', dr_intakeRevisionId = ''r1'', dr_fullName = name,
      dr_phone = ''090'', dr_citizenNumber = ''012'', dr_citizenAddress = ''HN'',
      dr_contactAddress = None, dr_dob = None,
      dr_intent = \<lparr>in_stage = ''NEW'', in_availability = ''NOW'', in_availableFromDate = None\<rparr>,
      dr_evidenceRefs = map (\<lambda>e. \<lparr>ev_evidenceId = e, ev_kind = ''PHOTO''\<rparr>) evs,
      dr_canonicalId = None, dr_canonicalVersion = version\<rparr>"

theorem digest_binds_draft_witness:
  "computeServerDigest (\<lambda>s. s) length (draft_sample ''An'' [''e1'', ''e10''] (Some 3)) =
     computeServerDigest (\<lambda>s. s) length (draft_sample ''An'' [''e10'', ''e1''] (Some 3)) \<longleftrightarrow>
   ordered_draft length (draft_sample ''An'' [''e1'', ''e10''] (Some 3)) =
     ordered_draft length (draft_sample ''An'' [''e10'', ''e1''] (Some 3))"
  by (rule digest_binds_draft) (simp_all add: integral_version_def draft_sample_def)

text \<open>The canonical text of an object does not depend on the order its members are stored
  in.\<close>

lemma canonical_text_ignores_order:
  assumes "mset ms = mset ms'" and "distinct (map fst ms)"
  shows "canonicalJson (JObj ms) = canonicalJson (JObj ms')"
  using norm_json_permute [OF assms] by (simp only: canonicalJson_plain)

end
