(* ===== verification/Intake_Steps.thy ===== *)
theory Intake_Steps
  imports Gateway_Types Intake_Digest Json_Access
begin

text \<open>
  Steps of the intake workflow, \<open>apps/integration-api/src/orchestrator/steps.ts\<close>: their names
  and order, their results, the context they run in and the calls they build. Values the source
  only casts (\<open>as string\<close>, \<open>as number\<close>) from a gateway answer stay \<^typ>\<open>json\<close>.
\<close>

section \<open>Names and results\<close>

datatype step_name = CONFIRM_VALIDATE | IDENTITY | PROFILE | CASE | AVAILABILITY

definition STEP_ORDER :: "step_name list" where
  "STEP_ORDER = [CONFIRM_VALIDATE, IDENTITY, PROFILE, CASE, AVAILABILITY]"

fun step_string :: "step_name \<Rightarrow> string" where
  "step_string CONFIRM_VALIDATE = ''CONFIRM_VALIDATE''"
| "step_string IDENTITY = ''IDENTITY''"
| "step_string PROFILE = ''PROFILE''"
| "step_string CASE = ''CASE''"
| "step_string AVAILABILITY = ''AVAILABILITY''"

record identity_result =
  ir_kind :: json
  ir_canonicalId :: "string option"
  ir_version :: "rat option"
  ir_reviewRef :: "string option"
  ir_gatewayResponse :: call_result

datatype profile_kind = PROFILE_APPLIED | PROFILE_NOOP

record profile_result =
  pr_kind :: profile_kind
  pr_canonicalId :: json
  pr_newVersion :: "json option"
  pr_currentVersion :: "json option"
  pr_isNoOp :: bool

record case_result =
  cr_canonicalId :: json
  cr_version :: json
  cr_appliedStage :: json

record availability_result =
  ar_canonicalId :: json
  ar_version :: json
  ar_appliedAvailability :: json
  ar_appliedAvailableFromDate :: json

text \<open>\<open>IntakeRunResult.stepResults\<close>.\<close>

record step_results =
  st_IDENTITY :: "identity_result option"
  st_PROFILE :: "profile_result option"
  st_CASE :: "case_result option"
  st_AVAILABILITY :: "availability_result option"

definition no_results :: step_results where
  "no_results = \<lparr>st_IDENTITY = None, st_PROFILE = None, st_CASE = None, st_AVAILABILITY = None\<rparr>"

section \<open>Context and calls\<close>

text \<open>
  The version is untyped: after the profile step it is whatever the gateway answered.
\<close>

record step_ctx =
  tx_organizationId :: string
  tx_intakeRevisionId :: string
  tx_draftDigest :: string
  tx_canonicalId :: "string option"
  tx_canonicalVersion :: "json option"
  tx_fullName :: string
  tx_phone :: string
  tx_citizenId :: string
  tx_citizenAddress :: string
  tx_contactAddress :: "string option"
  tx_dob :: "string option"
  tx_intent :: intake_intent
  tx_provider :: string
  tx_connectionId :: string
  tx_externalReference :: string
  tx_correlationId :: string
  tx_stepIdempotencyKey :: string

text \<open>\<open>ActorClaim\<close> of \<open>packages/contracts/src/primitives.ts\<close>.\<close>

datatype actor_claim =
  USER string | SERVICE string | DELEGATED_USER string string string

record gateway_args =
  ga_organizationId :: string
  ga_method :: string
  ga_idempotencyKey :: string
  ga_correlationId :: string
  ga_scenarioId :: scenario_id
  ga_payload :: json
  ga_actor :: "actor_claim option"

text \<open>
  The gateway is a parameter: a call answers with a result, or rejects with an error that may
  carry a code, and moves the gateway's own state.
\<close>

type_synonym 'g gateway_caller = "gateway_args \<Rightarrow> 'g \<Rightarrow> (string option + call_result) \<times> 'g"

definition buildStepIdempotencyKey :: "string \<Rightarrow> step_name \<Rightarrow> string" where
  "buildStepIdempotencyKey intakeRevisionId step =
     ''intake:'' @ intakeRevisionId @ '':'' @ step_string step"

datatype identity_kind = EXACT_MATCH | POSSIBLE_MATCH | NEW_PROFILE

datatype identity_policy = ALLOW_NEW | MATCH_ONLY | REVIEW_REQUIRED

fun policy_string :: "identity_policy \<Rightarrow> string" where
  "policy_string ALLOW_NEW = ''ALLOW_NEW''"
| "policy_string MATCH_ONLY = ''MATCH_ONLY''"
| "policy_string REVIEW_REQUIRED = ''REVIEW_REQUIRED''"

definition selectIdentityScenario :: "identity_kind \<Rightarrow> identity_policy \<Rightarrow> scenario_id" where
  "selectIdentityScenario outc policy =
     (if policy = REVIEW_REQUIRED then SN_POSSIBLE_MATCH_REVIEW
      else case outc of
        EXACT_MATCH \<Rightarrow> SN_EXACT_MATCH_SUCCESS
      | POSSIBLE_MATCH \<Rightarrow> SN_POSSIBLE_MATCH_REVIEW
      | NEW_PROFILE \<Rightarrow> SN_NEW_PROFILE_CREATED)"

text \<open>A member that is present only if its string is neither missing nor empty.\<close>

definition member_truthy :: "string \<Rightarrow> string option \<Rightarrow> (string \<times> json) list" where
  "member_truthy k v = (if truthy v then [(k, JStr (the v))] else [])"

text \<open>\<open>collectedAt\<close> is the ISO text of the clock at the call.\<close>

definition buildCreateOrMatchPayload :: "string \<Rightarrow> step_ctx \<Rightarrow> identity_policy \<Rightarrow> json" where
  "buildCreateOrMatchPayload collectedAt ctx policy =
     JObj [(''organizationId'', JStr (tx_organizationId ctx)),
       (''signal'', JObj ([(''fullName'', JStr (tx_fullName ctx)), (''phone'', JStr (tx_phone ctx)),
          (''citizenId'', JStr (tx_citizenId ctx)),
          (''citizenAddress'', JStr (tx_citizenAddress ctx))] @ member_truthy ''dob'' (tx_dob ctx))),
       (''provenance'', JObj [(''provider'', JStr (tx_provider ctx)),
          (''connectionId'', JStr (tx_connectionId ctx)), (''collectedAt'', JStr collectedAt),
          (''externalReference'', JStr (tx_externalReference ctx))]),
       (''intakeRevisionId'', JStr (tx_intakeRevisionId ctx)),
       (''policyHint'', JStr (policy_string policy))]"

text \<open>\<^const>\<open>None\<close> where the source has null: not applied, or no outcome in the data.\<close>

definition extractMatchingOutcome :: "call_result \<Rightarrow> json option" where
  "extractMatchingOutcome res =
     (case cx_outcome res of
        Applied data \<Rightarrow>
          (case jget ''matchingOutcome'' data of Some JNull \<Rightarrow> None | v \<Rightarrow> v)
      | _ \<Rightarrow> None)"

section \<open>Facts\<close>

lemma step_string_inj [simp]: "step_string s = step_string t \<longleftrightarrow> s = t"
  by (cases s; cases t) simp_all

lemma step_key_inj [simp]:
  "buildStepIdempotencyKey r s = buildStepIdempotencyKey r t \<longleftrightarrow> s = t"
  by (simp add: buildStepIdempotencyKey_def)

lemma STEP_ORDER_distinct [simp]: "distinct STEP_ORDER" and STEP_ORDER_all [simp]: "s \<in> set STEP_ORDER"
  by (simp add: STEP_ORDER_def) (cases s; simp add: STEP_ORDER_def)

end
