(* ===== verification/Intake_Checkpoint.thy ===== *)
theory Intake_Checkpoint
  imports Intake_Steps "HOL-Library.Sublist"
begin

text \<open>
  Durable state of an intake, \<open>packages/integration-store/src/repos/intake-checkpoint.ts\<close>: one
  row per organization and intake revision. Each operation is one transaction; the time stamps
  and the schema version of a row are left out.
\<close>

datatype checkpoint_state = CK_RUNNING | CK_PARTIAL | CK_COMPLETED | CK_FAILED | CK_REVIEW_PENDING

record partial_failure =
  pf_failedStep :: step_name
  pf_errorCode :: string
  pf_retryable :: bool

record checkpoint =
  ck_checkpointId :: string
  ck_organizationId :: string
  ck_intakeRevisionId :: string
  ck_draftDigest :: string
  ck_canonicalId :: "string option"
  ck_canonicalVersion :: "rat option"
  ck_currentStep :: "step_name option"
  ck_state :: checkpoint_state
  ck_appliedSteps :: "step_name list"
  ck_stepResults :: step_results
  ck_lastError :: "partial_failure option"
  ck_correlationId :: "string option"
  ck_idempotencyKey :: "string option"

record checkpoint_update =
  cu_currentStep :: "step_name option"
  cu_state :: checkpoint_state
  cu_appliedSteps :: "step_name list"
  cu_stepResults :: step_results
  cu_lastError :: "partial_failure option"
  cu_canonicalId :: "string option"
  cu_canonicalVersion :: "json option"

text \<open>
  A call throws a store error, or the database client refuses it: a primary key that is taken,
  a version that is no 32-bit integer.
\<close>

datatype checkpoint_failure = Store_Failed store_error | Client_Failed

definition int_column :: "rat \<Rightarrow> bool" where
  "int_column v \<longleftrightarrow> snd (quotient_of v) = 1 \<and> - (2 ^ 31) \<le> v \<and> v < 2 ^ 31"

definition is_sha256_hex :: "string \<Rightarrow> bool" where
  "is_sha256_hex s \<longleftrightarrow> length s = 64 \<and> list_all (\<lambda>c. c \<in> set ''abcdef0123456789'') s"

definition checkpoint_of :: "string \<Rightarrow> string \<Rightarrow> checkpoint \<Rightarrow> bool" where
  "checkpoint_of org rev_id r \<longleftrightarrow> ck_organizationId r = org \<and> ck_intakeRevisionId r = rev_id"

definition checkpoint_error :: "string \<Rightarrow> string \<Rightarrow> checkpoint_failure" where
  "checkpoint_error code target = Store_Failed (storeError code None (Some target))"

text \<open>The row to create is the input; the flag tells whether it was created.\<close>

definition createIntakeCheckpoint ::
  "checkpoint \<Rightarrow> checkpoint list \<Rightarrow> (checkpoint_failure + checkpoint \<times> bool) \<times> checkpoint list" where
  "createIntakeCheckpoint inp rows =
     (if ck_organizationId inp = [] \<or> ck_intakeRevisionId inp = [] \<or> ck_draftDigest inp = [] then
        (Inl (checkpoint_error ''VALIDATION_ERROR'' ''checkpoint''), rows)
      else if \<not> is_sha256_hex (ck_draftDigest inp) then
        (Inl (checkpoint_error ''VALIDATION_ERROR'' ''draftDigest''), rows)
      else case find (checkpoint_of (ck_organizationId inp) (ck_intakeRevisionId inp)) rows of
        Some existing \<Rightarrow>
          if ck_draftDigest existing \<noteq> ck_draftDigest inp then
            (Inl (checkpoint_error ''DUPLICATE_KEY'' ''draftDigest''), rows)
          else (Inr (existing, False), rows)
      | None \<Rightarrow>
          if ck_checkpointId inp \<in> ck_checkpointId ` set rows \<or>
             not_null_and (\<lambda>v. \<not> int_column v) (ck_canonicalVersion inp) then (Inl Client_Failed, rows)
          else (Inr (inp, True), rows @ [inp]))"

definition findIntakeCheckpoint ::
  "string \<Rightarrow> string \<Rightarrow> checkpoint list \<Rightarrow> checkpoint_failure + checkpoint option" where
  "findIntakeCheckpoint org rev_id rows =
     (if org = [] \<or> rev_id = [] then Inl (checkpoint_error ''VALIDATION_ERROR'' ''checkpoint'')
      else Inr (find (checkpoint_of org rev_id) rows))"

definition updated_checkpoint :: "checkpoint_update \<Rightarrow> rat option \<Rightarrow> checkpoint \<Rightarrow> checkpoint" where
  "updated_checkpoint upd version r =
     r\<lparr>ck_currentStep := cu_currentStep upd, ck_state := cu_state upd,
       ck_appliedSteps := cu_appliedSteps upd, ck_stepResults := cu_stepResults upd,
       ck_lastError := cu_lastError upd,
       ck_canonicalId := nullish_opt (cu_canonicalId upd) (ck_canonicalId r),
       ck_canonicalVersion := version\<rparr>"

text \<open>The version to write, or \<^const>\<open>None\<close> if the column does not take it.\<close>

fun column_version :: "json option \<Rightarrow> rat option \<Rightarrow> rat option option" where
  "column_version None old = Some old"
| "column_version (Some JNull) old = Some old"
| "column_version (Some (JNum v)) old = (if int_column v then Some (Some v) else None)"
| "column_version (Some _) old = None"

definition updateIntakeCheckpoint ::
  "string \<Rightarrow> string \<Rightarrow> checkpoint_update \<Rightarrow> checkpoint list \<Rightarrow>
   (checkpoint_failure + checkpoint) \<times> checkpoint list" where
  "updateIntakeCheckpoint org rev_id upd rows =
     (case find (checkpoint_of org rev_id) rows of
        None \<Rightarrow> (Inl (checkpoint_error ''VALIDATION_ERROR'' ''checkpoint''), rows)
      | Some existing \<Rightarrow>
          (case column_version (cu_canonicalVersion upd) (ck_canonicalVersion existing) of
             None \<Rightarrow> (Inl Client_Failed, rows)
           | Some version \<Rightarrow>
               (Inr (updated_checkpoint upd version existing),
                update_where (\<lambda>r. ck_checkpointId r = ck_checkpointId existing)
                  (updated_checkpoint upd version) rows)))"

section \<open>Invariant\<close>

definition checkpoint_key :: "checkpoint \<Rightarrow> string \<times> string" where
  "checkpoint_key r = (ck_organizationId r, ck_intakeRevisionId r)"

text \<open>Keys are unique, digests are digests, versions fit their column, and the applied steps are the first ones.\<close>

definition checkpoints_ok :: "checkpoint list \<Rightarrow> bool" where
  "checkpoints_ok rows \<longleftrightarrow> distinct (map checkpoint_key rows) \<and> distinct (map ck_checkpointId rows) \<and>
     (\<forall>r \<in> set rows. is_sha256_hex (ck_draftDigest r) \<and> null_or int_column (ck_canonicalVersion r) \<and>
        prefix (ck_appliedSteps r) STEP_ORDER)"

lemma checkpoint_of_key: "checkpoint_of org rev_id r \<longleftrightarrow> checkpoint_key r = (org, rev_id)"
  by (auto simp: checkpoint_of_def checkpoint_key_def)

lemma updated_checkpoint_simps [simp]:
  "ck_checkpointId (updated_checkpoint upd v r) = ck_checkpointId r"
  "ck_draftDigest (updated_checkpoint upd v r) = ck_draftDigest r"
  "ck_appliedSteps (updated_checkpoint upd v r) = cu_appliedSteps upd"
  "ck_state (updated_checkpoint upd v r) = cu_state upd"
  "ck_stepResults (updated_checkpoint upd v r) = cu_stepResults upd"
  "ck_canonicalId (updated_checkpoint upd v r) = nullish_opt (cu_canonicalId upd) (ck_canonicalId r)"
  "ck_canonicalVersion (updated_checkpoint upd v r) = v"
  "checkpoint_key (updated_checkpoint upd v r) = checkpoint_key r"
  by (simp_all add: updated_checkpoint_def checkpoint_key_def)

lemma column_version_ok:
  "column_version v old = Some new \<Longrightarrow> null_or int_column old \<Longrightarrow> null_or int_column new"
  by (cases "(v, old)" rule: column_version.cases) (auto split: if_splits)

lemma find_checkpoint:
  assumes "find (checkpoint_of org rev_id) rows = Some r"
  shows "r \<in> set rows \<and> checkpoint_key r = (org, rev_id)"
  using assms by (auto simp: find_Some_iff checkpoint_of_key)

lemma find_checkpoint_unique:
  assumes "distinct (map checkpoint_key rows)" and "r \<in> set rows" and "checkpoint_key r = (org, rev_id)"
  shows "find (checkpoint_of org rev_id) rows = Some r"
proof (cases "find (checkpoint_of org rev_id) rows")
  case None
  then show ?thesis using assms(2,3) by (auto simp: find_None_iff checkpoint_of_key)
next
  case (Some r')
  then have "r' = r" using find_checkpoint [OF Some] assms
    by (metis eq_key_imp_eq_value inj_onD distinct_map)
  then show ?thesis using Some by simp
qed

text \<open>What an update does to the row it finds, and that it leaves the others.\<close>

lemma update_found:
  assumes "updateIntakeCheckpoint org rev_id upd rows = (Inr row', rows')" and "checkpoints_ok rows"
  obtains row where "find (checkpoint_of org rev_id) rows = Some row"
    "column_version (cu_canonicalVersion upd) (ck_canonicalVersion row) = Some (ck_canonicalVersion row')"
    "row' = updated_checkpoint upd (ck_canonicalVersion row') row"
    "rows' = map (\<lambda>r. if r = row then row' else r) rows"
    "find (checkpoint_of org rev_id) rows' = Some row'"
proof -
  from assms(1) obtain row version where row: "find (checkpoint_of org rev_id) rows = Some row"
      "column_version (cu_canonicalVersion upd) (ck_canonicalVersion row) = Some version"
      "row' = updated_checkpoint upd version row"
      "rows' = update_where (\<lambda>r. ck_checkpointId r = ck_checkpointId row)
        (updated_checkpoint upd version) rows"
    by (auto simp: updateIntakeCheckpoint_def split: option.splits)
  have same: "ck_checkpointId r = ck_checkpointId row \<longleftrightarrow> r = row" if "r \<in> set rows" for r
    using that find_checkpoint [OF row(1)] assms(2)
    by (auto simp: checkpoints_ok_def distinct_map dest: inj_onD)
  have rows': "rows' = map (\<lambda>r. if r = row then row' else r) rows"
    unfolding row(4) update_where_def by (rule map_cong [OF refl]) (auto simp: same row(3))
  have "map checkpoint_key rows' = map checkpoint_key rows"
    by (simp add: rows' row(3))
  then have "distinct (map checkpoint_key rows')" using assms(2) by (simp add: checkpoints_ok_def)
  moreover have "row' \<in> set rows'" using find_checkpoint [OF row(1)] by (auto simp: rows')
  moreover have "checkpoint_key row' = (org, rev_id)" using find_checkpoint [OF row(1)] by (simp add: row(3))
  ultimately have "find (checkpoint_of org rev_id) rows' = Some row'" by (rule find_checkpoint_unique)
  with that row rows' show ?thesis by simp
qed

lemma update_failed:
  "updateIntakeCheckpoint org rev_id upd rows = (Inl e, rows') \<Longrightarrow> rows' = rows"
  by (auto simp: updateIntakeCheckpoint_def split: option.splits)

lemma update_ok:
  assumes "updateIntakeCheckpoint org rev_id upd rows = (res, rows')" and "checkpoints_ok rows"
    and "prefix (cu_appliedSteps upd) STEP_ORDER"
  shows "checkpoints_ok rows'"
proof (cases res)
  case (Inl e)
  then show ?thesis using assms(1,2) update_failed by blast
next
  case (Inr row')
  obtain row where
    row1: "find (checkpoint_of org rev_id) rows = Some row"
    and version: "column_version (cu_canonicalVersion upd) (ck_canonicalVersion row) = Some (ck_canonicalVersion row')"
    and row2: "row' = updated_checkpoint upd (ck_canonicalVersion row') row"
      "rows' = map (\<lambda>r. if r = row then row' else r) rows"
    by (rule update_found [OF assms(1) [unfolded Inr] assms(2)]) (rule that)
  note row = row1 row2
  have int: "null_or int_column (ck_canonicalVersion row')"
    by (rule column_version_ok [OF version])
      (use assms(2) find_checkpoint [OF row(1)] in \<open>simp add: checkpoints_ok_def\<close>)
  have keep: "ck_checkpointId row' = ck_checkpointId row" "checkpoint_key row' = checkpoint_key row"
      "ck_draftDigest row' = ck_draftDigest row" "ck_appliedSteps row' = cu_appliedSteps upd"
    by (subst row(2), simp)+
  have m: "map checkpoint_key rows' = map checkpoint_key rows"
      "map ck_checkpointId rows' = map ck_checkpointId rows"
    by (simp_all add: row(3) keep)
  show ?thesis using assms(2,3) find_checkpoint [OF row(1)]
    unfolding checkpoints_ok_def m by (auto simp: row(3) keep int)
qed

lemma create_ok:
  assumes "createIntakeCheckpoint inp rows = (res, rows')" and "checkpoints_ok rows"
    and "ck_appliedSteps inp = []"
  shows "checkpoints_ok rows'"
  using assms
  by (auto simp: createIntakeCheckpoint_def checkpoints_ok_def checkpoint_of_key find_None_iff
      checkpoint_key_def null_or_iff not_null_and_iff split: if_splits option.splits) blast

end
