(* ===== verification/Intake_Orchestrator.thy ===== *)
theory Intake_Orchestrator
  imports Intake_Checkpoint
begin

text \<open>
  The intake workflow, \<open>apps/integration-api/src/orchestrator/intake-orchestrator.ts\<close>, with
  \<open>isConfirmationValid\<close> of \<open>packages/contracts/src/commands/intake.ts\<close>. One run is executed
  without interference of another on its revision. Messages of errors are left out.
\<close>

section \<open>Requests and results\<close>

record preview_candidate =
  pc_candidateId :: string
  pc_strength :: string
  pc_label :: "string option"

record preview_request =
  pq_organizationId :: string
  pq_fullName :: "string option"
  pq_phone :: "string option"
  pq_citizenId :: "string option"
  pq_provider :: string
  pq_connectionId :: string

record preview_result =
  pv_candidates :: "preview_candidate list"
  pv_previewExpiresAt :: int
  pv_hasStrongMatch :: bool

text \<open>\<open>StaffReviewContextSchema\<close> without its note.\<close>

record staff_context =
  cf_draftRevisionId :: string
  cf_draftDigest :: string
  cf_canonicalId :: "string option"
  cf_canonicalVersion :: "rat option"

record run_request =
  iq_organizationId :: string
  iq_intakeRevisionId :: string
  iq_fullName :: string
  iq_phone :: string
  iq_citizenNumber :: string
  iq_citizenAddress :: string
  iq_contactAddress :: "string option"
  iq_dob :: "string option"
  iq_intent :: intake_intent
  iq_evidenceRefs :: "evidence_ref list"
  iq_confirmation :: staff_context
  iq_draftDigest :: string
  iq_provider :: string
  iq_connectionId :: string
  iq_externalReference :: string
  iq_identityPolicy :: "identity_policy option"
  iq_correlationId :: string

record run_result =
  rr_checkpointId :: string
  rr_state :: checkpoint_state
  rr_appliedSteps :: "step_name list"
  rr_partialFailure :: "partial_failure option"
  rr_stepResults :: step_results
  rr_actedOnAnyStep :: bool

text \<open>\<open>OrchestratorError\<close>.\<close>

record orch_error =
  oe_code :: string
  oe_retryable :: bool

text \<open>The tables of the store and the state of the gateway.\<close>

record 'g world =
  wd_checkpoints :: "checkpoint list"
  wd_gateway :: 'g

section \<open>Preview\<close>

definition preview ::
  "(preview_request \<Rightarrow> string \<Rightarrow> preview_candidate list) \<Rightarrow> int \<Rightarrow> preview_request \<Rightarrow> string \<Rightarrow>
   preview_result" where
  "preview resolveIdentityCandidates now req correlationId =
     (let candidates = resolveIdentityCandidates req correlationId
      in \<lparr>pv_candidates = candidates, pv_previewExpiresAt = now + 300 * 1000,
          pv_hasStrongMatch = list_ex (\<lambda>c. pc_strength c = ''STRONG'') candidates\<rparr>)"

section \<open>Digest, context and errors\<close>

definition draft_of_request :: "run_request \<Rightarrow> draft_input" where
  "draft_of_request req =
     \<lparr>dr_organizationId = iq_organizationId req, dr_intakeRevisionId = iq_intakeRevisionId req,
      dr_fullName = iq_fullName req, dr_phone = iq_phone req,
      dr_citizenNumber = iq_citizenNumber req, dr_citizenAddress = iq_citizenAddress req,
      dr_contactAddress = iq_contactAddress req, dr_dob = iq_dob req, dr_intent = iq_intent req,
      dr_evidenceRefs = iq_evidenceRefs req,
      dr_canonicalId = cf_canonicalId (iq_confirmation req),
      dr_canonicalVersion = cf_canonicalVersion (iq_confirmation req)\<rparr>"

definition computeServerDigestFromReq ::
  "(string \<Rightarrow> string) \<Rightarrow> (string \<Rightarrow> nat) \<Rightarrow> run_request \<Rightarrow> string" where
  "computeServerDigestFromReq sha256 collate req = computeServerDigest sha256 collate (draft_of_request req)"

definition isConfirmationValid :: "staff_context \<Rightarrow> staff_context \<Rightarrow> bool" where
  "isConfirmationValid c cur \<longleftrightarrow>
     cf_draftRevisionId c = cf_draftRevisionId cur \<and> cf_draftDigest c = cf_draftDigest cur \<and>
     cf_canonicalId c = cf_canonicalId cur \<and> cf_canonicalVersion c = cf_canonicalVersion cur"

definition buildStaffReviewContextFromCheckpoint :: "checkpoint \<Rightarrow> staff_context" where
  "buildStaffReviewContextFromCheckpoint row =
     \<lparr>cf_draftRevisionId = ck_intakeRevisionId row, cf_draftDigest = ck_draftDigest row,
      cf_canonicalId = ck_canonicalId row, cf_canonicalVersion = ck_canonicalVersion row\<rparr>"

definition buildStepContext :: "run_request \<Rightarrow> step_ctx" where
  "buildStepContext req =
     \<lparr>tx_organizationId = iq_organizationId req, tx_intakeRevisionId = iq_intakeRevisionId req,
      tx_draftDigest = iq_draftDigest req,
      tx_canonicalId = cf_canonicalId (iq_confirmation req),
      tx_canonicalVersion = map_option JNum (cf_canonicalVersion (iq_confirmation req)),
      tx_fullName = iq_fullName req, tx_phone = iq_phone req, tx_citizenId = iq_citizenNumber req,
      tx_citizenAddress = iq_citizenAddress req, tx_contactAddress = iq_contactAddress req,
      tx_dob = iq_dob req, tx_intent = iq_intent req, tx_provider = iq_provider req,
      tx_connectionId = iq_connectionId req, tx_externalReference = iq_externalReference req,
      tx_correlationId = iq_correlationId req,
      tx_stepIdempotencyKey = buildStepIdempotencyKey (iq_intakeRevisionId req) CONFIRM_VALIDATE\<rparr>"

abbreviation orch_failure :: "string \<Rightarrow> bool \<Rightarrow> orch_error" where
  "orch_failure code retryable \<equiv> \<lparr>oe_code = code, oe_retryable = retryable\<rparr>"

fun translateStoreError :: "checkpoint_failure \<Rightarrow> orch_error" where
  "translateStoreError (Store_Failed e) =
     (if se_code e = ''DUPLICATE_KEY'' then orch_failure ''IDEMPOTENCY_CONFLICT'' False
      else if se_code e = ''VALIDATION_ERROR'' then orch_failure ''VALIDATION_ERROR'' False
      else orch_failure ''TRANSACTION_FAILED'' False)"
| "translateStoreError Client_Failed = orch_failure ''TRANSACTION_FAILED'' False"

text \<open>What a step can throw: an orchestrator error, or the gateway caller's own with its code.\<close>

datatype step_error = Orchestrator_Error orch_error | Other_Error "string option"

fun wrapError :: "step_error \<Rightarrow> orch_error" where
  "wrapError (Orchestrator_Error e) = e"
| "wrapError (Other_Error c) =
     (let code = nullish c ''UNKNOWN_COMMAND_OUTCOME''
      in orch_failure code
           (code = ''DEPENDENCY_UNAVAILABLE'' \<or> code = ''RATE_LIMITED'' \<or> code = ''BOUNDED_SAME_KEY''))"

section \<open>Steps\<close>

text \<open>The first error of a failed call; only a known class other than NEVER is retryable.\<close>

fun gateway_failure :: "contract_error list \<Rightarrow> orch_error" where
  "gateway_failure [] = orch_failure ''UNKNOWN_COMMAND_OUTCOME'' False"
| "gateway_failure (e # es) =
     orch_failure (te_code e) (not_null_and (\<lambda>c. c \<noteq> ''NEVER'') (te_retryClass e))"

text \<open>A call that is not FAILED, or the error the step throws.\<close>

definition step_call ::
  "'g gateway_caller \<Rightarrow> gateway_args \<Rightarrow> 'g \<Rightarrow> (step_error + call_result) \<times> 'g" where
  "step_call gatewayCall args g =
     (case gatewayCall args g of
        (Inl code, g') \<Rightarrow> (Inl (Other_Error code), g')
      | (Inr res, g') \<Rightarrow>
          (case cx_outcome res of
             Failed errors \<Rightarrow> (Inl (Orchestrator_Error (gateway_failure errors)), g')
           | _ \<Rightarrow> (Inr res, g')))"

definition applied_object :: "call_result \<Rightarrow> json option" where
  "applied_object res =
     (case cx_outcome res of Applied data \<Rightarrow> if is_object (Some data) then Some data else None | _ \<Rightarrow> None)"

definition step_args :: "step_ctx \<Rightarrow> string \<Rightarrow> step_name \<Rightarrow> json \<Rightarrow> gateway_args" where
  "step_args ctx method step payload =
     \<lparr>ga_organizationId = tx_organizationId ctx, ga_method = method,
      ga_idempotencyKey = buildStepIdempotencyKey (tx_intakeRevisionId ctx) step,
      ga_correlationId = tx_correlationId ctx, ga_scenarioId = SN_EXACT_MATCH_SUCCESS,
      ga_payload = payload, ga_actor = None\<rparr>"

definition confirmValidateStep :: "step_ctx \<Rightarrow> step_error + unit" where
  "confirmValidateStep ctx =
     (if is_sha256_hex (tx_draftDigest ctx) then Inr ()
      else Inl (Orchestrator_Error (orch_failure ''VALIDATION_ERROR'' False)))"

definition identityStep ::
  "'g gateway_caller \<Rightarrow> string \<Rightarrow> step_ctx \<Rightarrow> 'g \<Rightarrow> (step_error + identity_result) \<times> 'g" where
  "identityStep gatewayCall collectedAt ctx g =
     (case step_call gatewayCall
             (step_args ctx ''createOrMatchLaborProfile'' IDENTITY
               (buildCreateOrMatchPayload collectedAt ctx ALLOW_NEW)) g of
        (Inl e, g') \<Rightarrow> (Inl e, g')
      | (Inr res, g') \<Rightarrow>
          if \<not> jtruthy (extractMatchingOutcome res) then
            (Inl (Orchestrator_Error (orch_failure ''UNKNOWN_COMMAND_OUTCOME'' True)), g')
          else
            let d = applied_object res;
                str = (\<lambda>k. case jget_opt k d of Some (JStr s) \<Rightarrow> Some s | _ \<Rightarrow> None)
            in (Inr \<lparr>ir_kind = the (extractMatchingOutcome res),
                     ir_canonicalId = str ''laborProfileId'',
                     ir_version = asNumber (jget_opt ''version'' d),
                     ir_reviewRef = str ''reviewRef'', ir_gatewayResponse = res\<rparr>, g'))"

definition profile_payload :: "step_ctx \<Rightarrow> string \<Rightarrow> json" where
  "profile_payload ctx canonicalId =
     JObj [(''organizationId'', JStr (tx_organizationId ctx)), (''laborProfileId'', JStr canonicalId),
       (''expectedVersion'', jnullish (tx_canonicalVersion ctx) (JNum 0)),
       (''patch'', JObj [(''fullName'', JStr (tx_fullName ctx)), (''phone'', JStr (tx_phone ctx))]),
       (''fillMissingOnly'', JBool True), (''submissionRevisionId'', JStr (tx_intakeRevisionId ctx))]"

definition missing_canonicalId :: step_error where
  "missing_canonicalId = Orchestrator_Error (orch_failure ''VALIDATION_ERROR'' False)"

definition profileStep ::
  "'g gateway_caller \<Rightarrow> step_ctx \<Rightarrow> 'g \<Rightarrow> (step_error + profile_result) \<times> 'g" where
  "profileStep gatewayCall ctx g =
     (case tx_canonicalId ctx of
        None \<Rightarrow> (Inl missing_canonicalId, g)
      | Some canonicalId \<Rightarrow>
          if canonicalId = [] then (Inl missing_canonicalId, g)
          else case step_call gatewayCall
                 (step_args ctx ''updateLaborProfile'' PROFILE (profile_payload ctx canonicalId)) g of
            (Inl e, g') \<Rightarrow> (Inl e, g')
          | (Inr res, g') \<Rightarrow>
              let d = applied_object res;
                  cid = jnullish (jget_opt ''canonicalId'' d) (JStr canonicalId)
              in if jget_opt ''status'' d = Some (JStr ''NOOP'') then
                   (Inr \<lparr>pr_kind = PROFILE_NOOP, pr_canonicalId = cid, pr_newVersion = None,
                         pr_currentVersion = jget_opt ''currentVersion'' d, pr_isNoOp = True\<rparr>, g')
                 else
                   (Inr \<lparr>pr_kind = PROFILE_APPLIED, pr_canonicalId = cid,
                         pr_newVersion = jget_opt ''newVersion'' d, pr_currentVersion = None,
                         pr_isNoOp = False\<rparr>, g'))"

definition source_context :: "step_ctx \<Rightarrow> json" where
  "source_context ctx =
     JObj [(''source'', JObj [(''kind'', JStr ''INTEGRATION''), (''provider'', JStr (tx_provider ctx)),
       (''connectionId'', JStr (tx_connectionId ctx))])]"

definition case_payload :: "step_ctx \<Rightarrow> string \<Rightarrow> json" where
  "case_payload ctx canonicalId =
     JObj ([(''organizationId'', JStr (tx_organizationId ctx)), (''laborProfileId'', JStr canonicalId),
        (''intendedStage'', JStr (in_stage (tx_intent ctx))),
        (''initialAvailability'', JStr (in_availability (tx_intent ctx)))] @
       member_truthy ''availableFromDate'' (in_availableFromDate (tx_intent ctx)) @
       [(''context'', source_context ctx), (''intakeRevisionId'', JStr (tx_intakeRevisionId ctx)),
        (''confirmationDigest'', JStr (tx_draftDigest ctx))])"

definition caseStep ::
  "'g gateway_caller \<Rightarrow> step_ctx \<Rightarrow> 'g \<Rightarrow> (step_error + case_result) \<times> 'g" where
  "caseStep gatewayCall ctx g =
     (let canonicalId = nullish (tx_canonicalId ctx) []
      in if canonicalId = [] then (Inl missing_canonicalId, g)
         else case step_call gatewayCall
                (step_args ctx ''openPlacementCase'' CASE (case_payload ctx canonicalId)) g of
           (Inl e, g') \<Rightarrow> (Inl e, g')
         | (Inr res, g') \<Rightarrow>
             let d = applied_object res; caseId = jnullish (jget_opt ''canonicalId'' d) (JStr [])
             in if \<not> jtruthy (Some caseId) then
                  (Inl (Orchestrator_Error (orch_failure ''UNKNOWN_COMMAND_OUTCOME'' True)), g')
                else
                  (Inr \<lparr>cr_canonicalId = caseId,
                        cr_version = jnullish (jget_opt ''version'' d) (JNum 1),
                        cr_appliedStage = jnullish (jget_opt ''appliedStage'' d)
                          (JStr (in_stage (tx_intent ctx)))\<rparr>, g'))"

definition availability_payload :: "step_ctx \<Rightarrow> string \<Rightarrow> json" where
  "availability_payload ctx canonicalId =
     JObj [(''schemaVersion'', JStr ''1''), (''organizationId'', JStr (tx_organizationId ctx)),
       (''laborProfileId'', JStr canonicalId),
       (''expectedVersion'', jnullish (tx_canonicalVersion ctx) (JNum 0)),
       (''patch'', JObj ((''availability'', JStr (in_availability (tx_intent ctx))) #
          member_truthy ''availableFromDate'' (in_availableFromDate (tx_intent ctx)))),
       (''context'', source_context ctx)]"

definition availabilityStep ::
  "'g gateway_caller \<Rightarrow> step_ctx \<Rightarrow> 'g \<Rightarrow> (step_error + availability_result) \<times> 'g" where
  "availabilityStep gatewayCall ctx g =
     (let canonicalId = nullish (tx_canonicalId ctx) []
      in if canonicalId = [] then (Inl missing_canonicalId, g)
         else case step_call gatewayCall
                (step_args ctx ''updateLaborAvailability'' AVAILABILITY
                  (availability_payload ctx canonicalId)) g of
           (Inl e, g') \<Rightarrow> (Inl e, g')
         | (Inr res, g') \<Rightarrow>
             let d = applied_object res
             in (Inr \<lparr>ar_canonicalId = jnullish (jget_opt ''canonicalId'' d) (JStr canonicalId),
                      ar_version = jnullish (jget_opt ''version'' d) (JNum 1),
                      ar_appliedAvailability = jnullish (jget_opt ''appliedAvailability'' d)
                        (JStr (in_availability (tx_intent ctx))),
                      ar_appliedAvailableFromDate =
                        jnullish (jget_opt ''appliedAvailableFromDate'' d) JNull\<rparr>, g'))"

datatype step_value =
  Confirmed | Identity_Value identity_result | Profile_Value profile_result
| Case_Value case_result | Availability_Value availability_result

fun executeStep ::
  "'g gateway_caller \<Rightarrow> string \<Rightarrow> step_name \<Rightarrow> step_ctx \<Rightarrow> 'g \<Rightarrow> (step_error + step_value) \<times> 'g" where
  "executeStep gatewayCall collectedAt CONFIRM_VALIDATE ctx g =
     (map_sum id (\<lambda>_. Confirmed) (confirmValidateStep ctx), g)"
| "executeStep gatewayCall collectedAt IDENTITY ctx g =
     map_prod (map_sum id Identity_Value) id (identityStep gatewayCall collectedAt ctx g)"
| "executeStep gatewayCall collectedAt PROFILE ctx g =
     map_prod (map_sum id Profile_Value) id (profileStep gatewayCall ctx g)"
| "executeStep gatewayCall collectedAt CASE ctx g =
     map_prod (map_sum id Case_Value) id (caseStep gatewayCall ctx g)"
| "executeStep gatewayCall collectedAt AVAILABILITY ctx g =
     map_prod (map_sum id Availability_Value) id (availabilityStep gatewayCall ctx g)"

section \<open>The loop over the steps\<close>

text \<open>The local variables of \<open>executeFromCheckpoint\<close>; \<open>failedStep\<close> is in the failure.\<close>

record run_state =
  rs_newAppliedSteps :: "step_name list"
  rs_stepResults :: step_results
  rs_canonicalId :: "string option"
  rs_canonicalVersion :: "json option"
  rs_partialFailure :: "partial_failure option"
  rs_terminalState :: checkpoint_state
  rs_actedOnAnyStep :: bool

definition safeUpdateCheckpoint ::
  "step_ctx \<Rightarrow> checkpoint_update \<Rightarrow> checkpoint list \<Rightarrow> (orch_error + checkpoint) \<times> checkpoint list" where
  "safeUpdateCheckpoint ctx upd rows =
     map_prod (map_sum translateStoreError id) id
       (updateIntakeCheckpoint (tx_organizationId ctx) (tx_intakeRevisionId ctx) upd rows)"

text \<open>The update before a step, and the one after it.\<close>

definition begin_update :: "step_name \<Rightarrow> run_state \<Rightarrow> checkpoint_update" where
  "begin_update step rs =
     \<lparr>cu_currentStep = Some step, cu_state = CK_RUNNING, cu_appliedSteps = rs_newAppliedSteps rs,
      cu_stepResults = rs_stepResults rs, cu_lastError = None, cu_canonicalId = None,
      cu_canonicalVersion = None\<rparr>"

definition commit_update :: "step_name \<Rightarrow> run_state \<Rightarrow> checkpoint_update" where
  "commit_update step rs =
     (begin_update step rs)\<lparr>cu_canonicalId := rs_canonicalId rs, cu_canonicalVersion := rs_canonicalVersion rs\<rparr>"

fun put_result :: "step_value \<Rightarrow> step_results \<Rightarrow> step_results" where
  "put_result Confirmed rs = rs"
| "put_result (Identity_Value v) rs = rs\<lparr>st_IDENTITY := Some v\<rparr>"
| "put_result (Profile_Value v) rs = rs\<lparr>st_PROFILE := Some v\<rparr>"
| "put_result (Case_Value v) rs = rs\<lparr>st_CASE := Some v\<rparr>"
| "put_result (Availability_Value v) rs = rs\<lparr>st_AVAILABILITY := Some v\<rparr>"

text \<open>The canonical id and version after a step.\<close>

fun effective :: "step_value \<Rightarrow> run_state \<Rightarrow> run_state" where
  "effective (Identity_Value v) rs =
     (if ir_kind v \<noteq> JStr ''POSSIBLE_MATCH'' \<and> ir_canonicalId v \<noteq> None then
        rs\<lparr>rs_canonicalId := ir_canonicalId v,
           rs_canonicalVersion := (case ir_version v of None \<Rightarrow> rs_canonicalVersion rs | Some n \<Rightarrow> Some (JNum n))\<rparr>
      else rs)"
| "effective (Profile_Value v) rs =
     (if pr_kind v = PROFILE_APPLIED \<and> pr_newVersion v \<noteq> None then rs\<lparr>rs_canonicalVersion := pr_newVersion v\<rparr>
      else if pr_kind v = PROFILE_NOOP \<and> pr_currentVersion v \<noteq> None then
        rs\<lparr>rs_canonicalVersion := pr_currentVersion v\<rparr>
      else rs)"
| "effective _ rs = rs"

definition record_step :: "step_name \<Rightarrow> step_value \<Rightarrow> run_state \<Rightarrow> run_state" where
  "record_step step v rs =
     effective v (rs\<lparr>rs_newAppliedSteps := rs_newAppliedSteps rs @ [step],
       rs_stepResults := put_result v (rs_stepResults rs), rs_actedOnAnyStep := True\<rparr>)"

definition fail_step :: "step_name list \<Rightarrow> step_name \<Rightarrow> orch_error \<Rightarrow> run_state \<Rightarrow> run_state" where
  "fail_step appliedSet step e rs =
     rs\<lparr>rs_partialFailure := Some \<lparr>pf_failedStep = step, pf_errorCode = oe_code e,
          pf_retryable = oe_retryable e\<rparr>,
        rs_terminalState :=
          (if appliedSet \<noteq> [] \<or> rs_newAppliedSteps rs \<noteq> [] then CK_PARTIAL else CK_FAILED)\<rparr>"

fun possible_match :: "step_value \<Rightarrow> bool" where
  "possible_match (Identity_Value v) = (ir_kind v = JStr ''POSSIBLE_MATCH'')"
| "possible_match _ = False"

fun run_steps ::
  "'g gateway_caller \<Rightarrow> string \<Rightarrow> step_ctx \<Rightarrow> step_name list \<Rightarrow> step_name list \<Rightarrow> run_state \<Rightarrow> 'g world \<Rightarrow>
   (orch_error + run_state) \<times> 'g world" where
  "run_steps gatewayCall collectedAt ctx appliedSet [] rs w = (Inr rs, w)"
| "run_steps gatewayCall collectedAt ctx appliedSet (step # steps) rs w =
     (if step \<in> set appliedSet then run_steps gatewayCall collectedAt ctx appliedSet steps rs w
      else case safeUpdateCheckpoint ctx (begin_update step rs) (wd_checkpoints w) of
        (Inl e, rows) \<Rightarrow> (Inl e, w\<lparr>wd_checkpoints := rows\<rparr>)
      | (Inr _, rows) \<Rightarrow>
          let stepCtx = ctx\<lparr>tx_canonicalId := rs_canonicalId rs, tx_canonicalVersion := rs_canonicalVersion rs\<rparr>;
              (res, g) = executeStep gatewayCall collectedAt step stepCtx (wd_gateway w)
          in case res of
               Inl e \<Rightarrow> (Inr (fail_step appliedSet step (wrapError e) rs), \<lparr>wd_checkpoints = rows, wd_gateway = g\<rparr>)
             | Inr v \<Rightarrow>
                 let rs1 = record_step step v rs
                 in case safeUpdateCheckpoint ctx (commit_update step rs1) rows of
                      (Inl e, rows1) \<Rightarrow>
                        (Inr (fail_step appliedSet step e rs1), \<lparr>wd_checkpoints = rows1, wd_gateway = g\<rparr>)
                    | (Inr _, rows1) \<Rightarrow>
                        if possible_match v then
                          (Inr (rs1\<lparr>rs_terminalState := CK_REVIEW_PENDING\<rparr>),
                           \<lparr>wd_checkpoints = rows1, wd_gateway = g\<rparr>)
                        else run_steps gatewayCall collectedAt ctx appliedSet steps rs1
                               \<lparr>wd_checkpoints = rows1, wd_gateway = g\<rparr>)"

definition initial_run_state :: "step_ctx \<Rightarrow> checkpoint \<Rightarrow> run_state" where
  "initial_run_state ctx row =
     \<lparr>rs_newAppliedSteps = ck_appliedSteps row, rs_stepResults = ck_stepResults row,
      rs_canonicalId = nullish_opt (ck_canonicalId row) (tx_canonicalId ctx),
      rs_canonicalVersion = nullish_opt (map_option JNum (ck_canonicalVersion row)) (tx_canonicalVersion ctx),
      rs_partialFailure = None, rs_terminalState = CK_RUNNING, rs_actedOnAnyStep = False\<rparr>"

definition final_state :: "run_state \<Rightarrow> checkpoint_state" where
  "final_state rs =
     (if rs_partialFailure rs = None \<and> rs_terminalState rs = CK_RUNNING then CK_COMPLETED
      else rs_terminalState rs)"

definition final_update :: "run_state \<Rightarrow> checkpoint_update" where
  "final_update rs =
     \<lparr>cu_currentStep = map_option pf_failedStep (rs_partialFailure rs), cu_state = final_state rs,
      cu_appliedSteps = rs_newAppliedSteps rs, cu_stepResults = rs_stepResults rs,
      cu_lastError = rs_partialFailure rs, cu_canonicalId = rs_canonicalId rs,
      cu_canonicalVersion = rs_canonicalVersion rs\<rparr>"

definition result_of :: "checkpoint \<Rightarrow> run_state \<Rightarrow> run_result" where
  "result_of row rs =
     \<lparr>rr_checkpointId = ck_checkpointId row, rr_state = final_state rs,
      rr_appliedSteps = rs_newAppliedSteps rs, rr_partialFailure = rs_partialFailure rs,
      rr_stepResults = rs_stepResults rs, rr_actedOnAnyStep = rs_actedOnAnyStep rs\<rparr>"

definition executeFromCheckpoint ::
  "'g gateway_caller \<Rightarrow> string \<Rightarrow> step_ctx \<Rightarrow> checkpoint \<Rightarrow> staff_context \<Rightarrow> 'g world \<Rightarrow>
   (orch_error + run_result) \<times> 'g world" where
  "executeFromCheckpoint gatewayCall collectedAt ctx row confirmation w =
     (if \<not> isConfirmationValid confirmation (buildStaffReviewContextFromCheckpoint row) then
        (Inl (orch_failure ''VALIDATION_ERROR'' False), w)
      else case run_steps gatewayCall collectedAt ctx (ck_appliedSteps row) STEP_ORDER
                  (initial_run_state ctx row) w of
        (Inl e, w1) \<Rightarrow> (Inl e, w1)
      | (Inr rs, w1) \<Rightarrow>
          (case safeUpdateCheckpoint ctx (final_update rs) (wd_checkpoints w1) of
             (Inl e, rows) \<Rightarrow> (Inl e, w1\<lparr>wd_checkpoints := rows\<rparr>)
           | (Inr _, rows) \<Rightarrow> (Inr (result_of row rs), w1\<lparr>wd_checkpoints := rows\<rparr>)))"

section \<open>Entry points\<close>

definition new_checkpoint :: "string \<Rightarrow> run_request \<Rightarrow> checkpoint" where
  "new_checkpoint checkpointId req =
     \<lparr>ck_checkpointId = checkpointId, ck_organizationId = iq_organizationId req,
      ck_intakeRevisionId = iq_intakeRevisionId req, ck_draftDigest = iq_draftDigest req,
      ck_canonicalId = cf_canonicalId (iq_confirmation req),
      ck_canonicalVersion = cf_canonicalVersion (iq_confirmation req),
      ck_currentStep = Some CONFIRM_VALIDATE, ck_state = CK_RUNNING, ck_appliedSteps = [],
      ck_stepResults = no_results, ck_lastError = None,
      ck_correlationId = Some (iq_correlationId req),
      ck_idempotencyKey = Some (''intake:'' @ iq_intakeRevisionId req)\<rparr>"

text \<open>The checks \<open>run\<close> and \<open>resumeWithPayload\<close> begin with.\<close>

definition digest_check :: "string \<Rightarrow> run_request \<Rightarrow> orch_error option" where
  "digest_check serverDigest req =
     (if iq_draftDigest req \<noteq> serverDigest then Some (orch_failure ''IDEMPOTENCY_CONFLICT'' False)
      else if cf_draftDigest (iq_confirmation req) \<noteq> serverDigest then
        Some (orch_failure ''VALIDATION_ERROR'' False)
      else None)"

text \<open>The platform: SHA-256, the collation, the identifier drawn for a new row, the clock.\<close>

record platform =
  pl_sha256 :: "string \<Rightarrow> string"
  pl_collate :: "string \<Rightarrow> nat"
  pl_checkpointId :: string
  pl_collectedAt :: string

definition intake_run ::
  "platform \<Rightarrow> 'g gateway_caller \<Rightarrow> run_request \<Rightarrow> 'g world \<Rightarrow> (orch_error + run_result) \<times> 'g world" where
  "intake_run pl gatewayCall req w =
     (case digest_check (computeServerDigestFromReq (pl_sha256 pl) (pl_collate pl) req) req of
        Some e \<Rightarrow> (Inl e, w)
      | None \<Rightarrow>
          (case createIntakeCheckpoint (new_checkpoint (pl_checkpointId pl) req) (wd_checkpoints w) of
             (Inl e, rows) \<Rightarrow> (Inl (translateStoreError e), w\<lparr>wd_checkpoints := rows\<rparr>)
           | (Inr (row, created), rows) \<Rightarrow>
               executeFromCheckpoint gatewayCall (pl_collectedAt pl) (buildStepContext req) row
                 (iq_confirmation req) (w\<lparr>wd_checkpoints := rows\<rparr>)))"

definition resume ::
  "string \<Rightarrow> string \<Rightarrow> staff_context \<Rightarrow> checkpoint list \<Rightarrow> orch_error + run_result" where
  "resume organizationId intakeRevisionId confirmation rows =
     (case findIntakeCheckpoint organizationId intakeRevisionId rows of
        Inl e \<Rightarrow> Inl (translateStoreError e)
      | Inr None \<Rightarrow> Inl (orch_failure ''VALIDATION_ERROR'' False)
      | Inr (Some row) \<Rightarrow>
          if ck_draftDigest row \<noteq> cf_draftDigest confirmation then
            Inl (orch_failure ''IDEMPOTENCY_CONFLICT'' False)
          else if \<not> isConfirmationValid confirmation (buildStaffReviewContextFromCheckpoint row) then
            Inl (orch_failure ''VALIDATION_ERROR'' False)
          else Inl (orch_failure ''VALIDATION_ERROR'' False))"

definition resumeWithPayload ::
  "platform \<Rightarrow> 'g gateway_caller \<Rightarrow> run_request \<Rightarrow> 'g world \<Rightarrow> (orch_error + run_result) \<times> 'g world" where
  "resumeWithPayload pl gatewayCall req w =
     (let serverDigest = computeServerDigestFromReq (pl_sha256 pl) (pl_collate pl) req
      in case digest_check serverDigest req of
        Some e \<Rightarrow> (Inl e, w)
      | None \<Rightarrow>
          (case findIntakeCheckpoint (iq_organizationId req) (iq_intakeRevisionId req) (wd_checkpoints w) of
             Inl e \<Rightarrow> (Inl (translateStoreError e), w)
           | Inr None \<Rightarrow> (Inl (orch_failure ''VALIDATION_ERROR'' False), w)
           | Inr (Some row) \<Rightarrow>
               if ck_draftDigest row \<noteq> serverDigest then
                 (Inl (orch_failure ''IDEMPOTENCY_CONFLICT'' False), w)
               else executeFromCheckpoint gatewayCall (pl_collectedAt pl) (buildStepContext req) row
                      (iq_confirmation req) w))"

end
