(* ===== verification/Panel_Intake.thy ===== *)
theory Panel_Intake
  imports Intake_Orchestrator Mock_Gateway
begin

text \<open>
  The intake routes of the context panel, \<open>apps/context-panel/src/orchestrator-wire.ts\<close> with the
  call log of \<open>gateway-call-log.ts\<close>: staff identities and their permissions, review snapshots,
  and the handlers that preview, run and resume an intake on the deterministic gateway.

  The panel keeps its checkpoints in a map under the key \<open>org:revision\<close>; for identifiers without
  a colon and integer versions that map answers as the rows of the repository do, which are used
  here. Messages, metrics and the members of a request the handlers never read are left out.
\<close>

section \<open>Identities and permissions\<close>

fun actorIdOf :: "actor_claim \<Rightarrow> string" where
  "actorIdOf (USER userId) = userId"
| "actorIdOf (SERVICE serviceId) = serviceId"
| "actorIdOf (DELEGATED_USER serviceId userId delegationRef) = userId"

fun actor_kind :: "actor_claim \<Rightarrow> string" where
  "actor_kind (USER userId) = ''USER''"
| "actor_kind (SERVICE serviceId) = ''SERVICE''"
| "actor_kind (DELEGATED_USER serviceId userId delegationRef) = ''DELEGATED_USER''"

datatype mock_role = TALENT_REVIEWER | INTAKE_OPERATOR | SUPERVISOR | SYSTEM

record mock_identity =
  mi_staffId :: string
  mi_role :: mock_role
  mi_organizationId :: string
  mi_actor :: actor_claim
  mi_extraScopes :: "string list"

definition staff_identity :: "string \<Rightarrow> mock_role \<Rightarrow> string list \<Rightarrow> string \<times> mock_identity" where
  "staff_identity staffId role scopes =
     (staffId, \<lparr>mi_staffId = staffId, mi_role = role, mi_organizationId = ''org-001'',
        mi_actor = USER staffId, mi_extraScopes = scopes\<rparr>)"

definition MOCK_IDENTITY_MAP :: "(string \<times> mock_identity) list" where
  "MOCK_IDENTITY_MAP =
     [staff_identity ''staff-talent-001'' TALENT_REVIEWER [''autofill:profile-talent-*''],
      staff_identity ''staff-intake-001'' INTAKE_OPERATOR
        [''autofill:profile-intake-*'', ''autofill:draft.confirm''],
      staff_identity ''staff-supervisor-001'' SUPERVISOR
        [''autofill:profile-*'', ''autofill:draft.confirm''],
      (''svc-integration-api'', \<lparr>mi_staffId = ''svc-integration-api'', mi_role = SYSTEM,
         mi_organizationId = ''*'', mi_actor = SERVICE ''svc-integration-api'',
         mi_extraScopes = [''autofill:profile-*'']\<rparr>),
      staff_identity ''staff-no-scope-001'' TALENT_REVIEWER []]"

definition resolveMockIdentity :: "string option \<Rightarrow> mock_identity option" where
  "resolveMockIdentity staffId =
     (if truthy staffId then map_of MOCK_IDENTITY_MAP (the staffId) else None)"

text \<open>Scope \<open>autofill:X\<close> covers profile X, and \<open>autofill:X*\<close> every profile whose id begins with X.\<close>

definition scope_covers :: "string \<Rightarrow> string \<Rightarrow> bool" where
  "scope_covers profileId scope \<longleftrightarrow>
     starts_with ''autofill:'' scope \<and>
     (let suffix = drop (length ''autofill:'') scope
      in suffix = ''*'' \<or> suffix = profileId \<or>
         suffix \<noteq> [] \<and> last suffix = CHR ''*'' \<and> starts_with (butlast suffix) profileId)"

definition actorHasAutofillScope :: "mock_identity \<Rightarrow> string \<Rightarrow> bool" where
  "actorHasAutofillScope identity profileId = list_ex (scope_covers profileId) (mi_extraScopes identity)"

datatype panel_target = TALENT | CLIENT

fun canQueryContext :: "mock_identity \<Rightarrow> panel_target \<Rightarrow> bool" where
  "canQueryContext identity target =
     (case mi_role identity of
        TALENT_REVIEWER \<Rightarrow> target = TALENT
      | INTAKE_OPERATOR \<Rightarrow> target = TALENT
      | SUPERVISOR \<Rightarrow> target = TALENT \<or> target = CLIENT
      | SYSTEM \<Rightarrow> True)"

definition canSubmitIntake :: "mock_identity \<Rightarrow> bool" where
  "canSubmitIntake identity \<longleftrightarrow> mi_role identity \<in> {INTAKE_OPERATOR, SUPERVISOR, SYSTEM}"

definition canExecuteDnc :: "mock_identity \<Rightarrow> bool" where
  "canExecuteDnc identity \<longleftrightarrow> mi_role identity \<in> {INTAKE_OPERATOR, SUPERVISOR, SYSTEM}"

definition actorOrgMatchesAutofillObject :: "mock_identity \<Rightarrow> string \<Rightarrow> bool" where
  "actorOrgMatchesAutofillObject identity proposalOrgId \<longleftrightarrow>
     mi_organizationId identity = ''*'' \<or> mi_organizationId identity = proposalOrgId"

definition canProposeAutofill :: "mock_identity \<Rightarrow> string \<Rightarrow> string \<Rightarrow> bool" where
  "canProposeAutofill identity profileId proposalOrgId \<longleftrightarrow>
     actorOrgMatchesAutofillObject identity proposalOrgId \<and> actorHasAutofillScope identity profileId"

definition canConfirmAutofillDraft :: "mock_identity \<Rightarrow> string \<Rightarrow> string \<Rightarrow> bool" where
  "canConfirmAutofillDraft identity profileId proposalOrgId \<longleftrightarrow>
     actorOrgMatchesAutofillObject identity proposalOrgId \<and>
     ''autofill:draft.confirm'' \<in> set (mi_extraScopes identity) \<and>
     actorHasAutofillScope identity profileId"

section \<open>Session\<close>

record review_snapshot =
  rv_snapshotId :: string
  rv_organizationScope :: string
  rv_organizationId :: string
  rv_intakeRevisionId :: string
  rv_digest :: string
  rv_canonicalId :: "string option"
  rv_canonicalVersion :: "rat option"
  rv_target :: panel_target
  rv_targetVersion :: "rat option"
  rv_actor :: actor_claim
  rv_requiredRole :: mock_role
  rv_createdAt :: int
  rv_expiresAt :: int

text \<open>An entry of the panel's own log of gateway calls, without its time.\<close>

record gateway_call_entry =
  ce_method :: string
  ce_idempotencyKey :: string
  ce_organizationId :: string
  ce_correlationId :: string
  ce_scenarioId :: scenario_id
  ce_actorKind :: string
  ce_actorId :: string

record panel_gateway_state =
  pg_log :: "gateway_call_entry list"
  pg_gateway :: gateway_state

record session =
  se_world :: "panel_gateway_state world"
  se_snapshots :: "string \<rightharpoonup> review_snapshot"
  se_counter :: nat

definition fixedNow :: int where
  "fixedNow = 1700000000000"

definition new_session :: session where
  "new_session =
     \<lparr>se_world = \<lparr>wd_checkpoints = [], wd_gateway = \<lparr>pg_log = [], pg_gateway = new_gateway\<rparr>\<rparr>,
      se_snapshots = Map.empty, se_counter = 0\<rparr>"

text \<open>Its decimal text in identifiers.\<close>

definition fixedNow_text :: string where
  "fixedNow_text = int_string fixedNow"

lemma fixedNow_text_code [code]: "fixedNow_text = ''1700000000000''"
  by (simp add: fixedNow_text_def fixedNow_def int_string_def digits.simps, code_simp)

text \<open>\<open>makeId\<close>: the identifier for the counter it moves to.\<close>

definition makeId :: "nat \<Rightarrow> string" where
  "makeId counter = ''icp-cp-'' @ fixedNow_text @ ''-'' @ digits counter"

definition snapshot_key :: "string \<Rightarrow> string \<Rightarrow> string" where
  "snapshot_key orgId revisionId = orgId @ '':'' @ revisionId"

definition createReviewSnapshot :: "review_snapshot \<Rightarrow> session \<Rightarrow> session" where
  "createReviewSnapshot snap s =
     s\<lparr>se_snapshots := (se_snapshots s)
         (snapshot_key (rv_organizationId snap) (rv_intakeRevisionId snap) \<mapsto> snap)\<rparr>"

definition getReviewSnapshot :: "string \<Rightarrow> string \<Rightarrow> session \<Rightarrow> review_snapshot option" where
  "getReviewSnapshot orgId revisionId s = se_snapshots s (snapshot_key orgId revisionId)"

section \<open>Gateway and preview callers\<close>

definition call_entry :: "gateway_args \<Rightarrow> gateway_call_entry" where
  "call_entry args =
     \<lparr>ce_method = ga_method args, ce_idempotencyKey = ga_idempotencyKey args,
      ce_organizationId = ga_organizationId args, ce_correlationId = ga_correlationId args,
      ce_scenarioId = ga_scenarioId args,
      ce_actorKind = (case ga_actor args of None \<Rightarrow> ''SERVICE'' | Some a \<Rightarrow> actor_kind a),
      ce_actorId = (case ga_actor args of None \<Rightarrow> ''unknown'' | Some a \<Rightarrow> actorIdOf a)\<rparr>"

definition gateway_request :: "gateway_args \<Rightarrow> call_request" where
  "gateway_request args =
     \<lparr>rq_organizationId = ga_organizationId args, rq_commandId = ''cmd-'' @ ga_method args,
      rq_idempotencyKey = ga_idempotencyKey args, rq_correlationId = ga_correlationId args,
      rq_method = ga_method args, rq_tier = INBOUND_DEFAULT, rq_provider = Some ''CHATWOOT'',
      rq_actorKind = (case ga_actor args of None \<Rightarrow> ''SERVICE'' | Some a \<Rightarrow> actor_kind a),
      rq_scenarioId = ga_scenarioId args, rq_payload = ga_payload args\<rparr>"

definition buildGatewayCaller :: "(string \<Rightarrow> string) \<Rightarrow> panel_gateway_state gateway_caller" where
  "buildGatewayCaller sha256 args pg =
     (let (res, gs) = mock_call sha256 fixedNow (gateway_request args) (pg_gateway pg)
      in (Inr res, \<lparr>pg_log = pg_log pg @ [call_entry args], pg_gateway = gs\<rparr>))"

definition buildPreviewCaller :: "preview_request \<Rightarrow> string \<Rightarrow> preview_candidate list" where
  "buildPreviewCaller req correlationId =
     (let candidate = (\<lambda>i k. \<lparr>pc_candidateId = i, pc_strength = k, pc_label = None\<rparr>);
          phone = nullish (pq_phone req) []
      in if starts_with ''09'' phone then
           [candidate ''lp-fixture-exact-001'' ''STRONG'', candidate ''lp-fixture-exact-002'' ''WEAK'']
         else if starts_with ''03'' phone then [candidate ''lp-fixture-partial-001'' ''PARTIAL'']
         else [candidate ''lp-fixture-weak-001'' ''WEAK''])"

section \<open>Requests\<close>

record preview_api_request =
  pa_organizationId :: string
  pa_intakeRevisionId :: string
  pa_fullName :: "string option"
  pa_phone :: "string option"
  pa_citizenId :: "string option"
  pa_intentStage :: "string option"
  pa_intentAvailability :: "string option"
  pa_intentAvailableFromDate :: "string option"
  pa_citizenNumber :: "string option"
  pa_citizenAddress :: "string option"
  pa_contactAddress :: "string option"
  pa_evidenceRefs :: "evidence_ref list option"
  pa_target :: "panel_target option"
  pa_targetVersion :: "rat option"

record preview_api_response =
  po_reviewSnapshotId :: string
  po_candidates :: "preview_candidate list"
  po_previewExpiresAt :: int
  po_hasStrongMatch :: bool
  po_digest :: string

record run_api_request =
  ra_organizationId :: string
  ra_intakeRevisionId :: string
  ra_reviewSnapshotId :: string
  ra_target :: panel_target
  ra_targetVersion :: "rat option"
  ra_fullName :: string
  ra_phone :: string
  ra_citizenNumber :: string
  ra_citizenAddress :: string
  ra_contactAddress :: "string option"
  ra_dob :: "string option"
  ra_intent :: intake_intent
  ra_evidenceRefs :: "evidence_ref list"
  ra_claimedActor :: actor_claim

record run_api_response =
  ro_checkpointId :: string
  ro_state :: checkpoint_state
  ro_appliedSteps :: "step_name list"
  ro_partialFailure :: "partial_failure option"
  ro_actedOnAnyStep :: bool
  ro_digest :: string

record panel_error =
  pe_errorCode :: string
  pe_httpStatus :: nat

text \<open>The platform of a request: SHA-256, the collation, the clock and its ISO text.\<close>

record panel_platform =
  pp_sha256 :: "string \<Rightarrow> string"
  pp_collate :: "string \<Rightarrow> nat"
  pp_now :: int
  pp_iso :: string

section \<open>Preview\<close>

definition preview_draft :: "preview_api_request \<Rightarrow> string option \<Rightarrow> rat option \<Rightarrow> draft_input" where
  "preview_draft req canonicalId canonicalVersion =
     \<lparr>dr_organizationId = pa_organizationId req, dr_intakeRevisionId = pa_intakeRevisionId req,
      dr_fullName = nullish (pa_fullName req) [], dr_phone = nullish (pa_phone req) [],
      dr_citizenNumber = nullish (nullish_opt (pa_citizenNumber req) (pa_citizenId req)) [],
      dr_citizenAddress = nullish (pa_citizenAddress req) [],
      dr_contactAddress = pa_contactAddress req, dr_dob = None,
      dr_intent = \<lparr>in_stage = nullish (pa_intentStage req) ''NEW'',
        in_availability = nullish (pa_intentAvailability req) ''AVAILABLE_NOW'',
        in_availableFromDate = None\<rparr>,
      dr_evidenceRefs = nullish (pa_evidenceRefs req) [],
      dr_canonicalId = canonicalId, dr_canonicalVersion = canonicalVersion\<rparr>"

definition snapshot_id :: "string \<Rightarrow> string \<Rightarrow> string" where
  "snapshot_id orgId revisionId = ''snap-'' @ orgId @ ''-'' @ revisionId @ ''-'' @ fixedNow_text"

text \<open>The snapshot a preview stores: the strong candidate, if there is one, is its target.\<close>

definition new_snapshot ::
  "panel_platform \<Rightarrow> preview_api_request \<Rightarrow> mock_identity \<Rightarrow> preview_candidate list \<Rightarrow> review_snapshot" where
  "new_snapshot pp req identity candidates =
     (let canonicalId = map_option pc_candidateId (find (\<lambda>c. pc_strength c = ''STRONG'') candidates);
          canonicalVersion = (if truthy canonicalId then Some 1 else None)
      in \<lparr>rv_snapshotId = snapshot_id (pa_organizationId req) (pa_intakeRevisionId req),
          rv_organizationScope = mi_organizationId identity,
          rv_organizationId = pa_organizationId req,
          rv_intakeRevisionId = pa_intakeRevisionId req,
          rv_digest = computeServerDigest (pp_sha256 pp) (pp_collate pp)
            (preview_draft req canonicalId canonicalVersion),
          rv_canonicalId = canonicalId, rv_canonicalVersion = canonicalVersion,
          rv_target = nullish (pa_target req) TALENT,
          rv_targetVersion = nullish_opt (pa_targetVersion req) canonicalVersion,
          rv_actor = mi_actor identity, rv_requiredRole = mi_role identity,
          rv_createdAt = pp_now pp, rv_expiresAt = pp_now pp + 5 * 60 * 1000\<rparr>)"

definition handlePreview ::
  "panel_platform \<Rightarrow> preview_api_request \<Rightarrow> mock_identity \<Rightarrow> session \<Rightarrow> preview_api_response \<times> session" where
  "handlePreview pp req identity s =
     (let result = preview buildPreviewCaller fixedNow
            \<lparr>pq_organizationId = pa_organizationId req, pq_fullName = pa_fullName req,
             pq_phone = pa_phone req, pq_citizenId = pa_citizenId req, pq_provider = ''CHATWOOT'',
             pq_connectionId = ''conn-mock-001''\<rparr> (''corr-preview-'' @ int_string (pp_now pp));
          snap = new_snapshot pp req identity (pv_candidates result)
      in (\<lparr>po_reviewSnapshotId = rv_snapshotId snap, po_candidates = pv_candidates result,
           po_previewExpiresAt = pv_previewExpiresAt result,
           po_hasStrongMatch = pv_hasStrongMatch result, po_digest = rv_digest snap\<rparr>,
          createReviewSnapshot snap s))"

section \<open>Run\<close>

abbreviation panel_failure :: "string \<Rightarrow> nat \<Rightarrow> panel_error" where
  "panel_failure code status \<equiv> \<lparr>pe_errorCode = code, pe_httpStatus = status\<rparr>"

text \<open>The checks before the digest, in their order.\<close>

definition run_guard :: "int \<Rightarrow> run_api_request \<Rightarrow> mock_identity \<Rightarrow> review_snapshot \<Rightarrow> panel_error option" where
  "run_guard now req identity snap =
     (if rv_expiresAt snap < now then Some (panel_failure ''SNAPSHOT_EXPIRED'' 410)
      else if ra_reviewSnapshotId req \<noteq> rv_snapshotId snap then
        Some (panel_failure ''INVALID_SNAPSHOT'' 400)
      else if mi_organizationId identity \<noteq> rv_organizationScope snap then
        Some (panel_failure ''CROSS_ORG'' 403)
      else if mi_staffId identity \<noteq> actorIdOf (rv_actor snap) then
        Some (panel_failure ''CROSS_ACTOR'' 403)
      else if \<not> canSubmitIntake identity then Some (panel_failure ''PERMISSION_REVOKED'' 403)
      else if ra_target req \<noteq> rv_target snap then Some (panel_failure ''STALE_TARGET'' 409)
      else if ra_targetVersion req \<noteq> None \<and> rv_targetVersion snap \<noteq> None \<and>
              ra_targetVersion req \<noteq> rv_targetVersion snap then
        Some (panel_failure ''STALE_VERSION'' 409)
      else None)"

text \<open>The request to the orchestrator, with the effective target and a digest.\<close>

definition panel_run_request ::
  "run_api_request \<Rightarrow> string option \<Rightarrow> rat option \<Rightarrow> string \<Rightarrow> string \<Rightarrow> run_request" where
  "panel_run_request req canonicalId canonicalVersion digest correlationId =
     \<lparr>iq_organizationId = ra_organizationId req, iq_intakeRevisionId = ra_intakeRevisionId req,
      iq_fullName = ra_fullName req, iq_phone = ra_phone req,
      iq_citizenNumber = ra_citizenNumber req, iq_citizenAddress = ra_citizenAddress req,
      iq_contactAddress = ra_contactAddress req, iq_dob = ra_dob req, iq_intent = ra_intent req,
      iq_evidenceRefs = ra_evidenceRefs req,
      iq_confirmation = \<lparr>cf_draftRevisionId = ra_intakeRevisionId req, cf_draftDigest = digest,
        cf_canonicalId = canonicalId, cf_canonicalVersion = canonicalVersion\<rparr>,
      iq_draftDigest = digest, iq_provider = ''CHATWOOT'', iq_connectionId = ''conn-mock-001'',
      iq_externalReference = ''ext-ref-mock-001'', iq_identityPolicy = None,
      iq_correlationId = correlationId\<rparr>"

definition run_status :: "string \<Rightarrow> nat" where
  "run_status code =
     (if code = ''IDEMPOTENCY_CONFLICT'' then 409 else if code = ''VALIDATION_ERROR'' then 400
      else if code = ''STALE_CONFIRMATION'' then 409 else if code = ''MISSING_REVIEW'' then 400 else 500)"

definition run_response :: "string \<Rightarrow> run_result \<Rightarrow> run_api_response" where
  "run_response digest r =
     \<lparr>ro_checkpointId = rr_checkpointId r, ro_state = rr_state r, ro_appliedSteps = rr_appliedSteps r,
      ro_partialFailure = rr_partialFailure r, ro_actedOnAnyStep = rr_actedOnAnyStep r,
      ro_digest = digest\<rparr>"

definition session_platform :: "panel_platform \<Rightarrow> session \<Rightarrow> platform" where
  "session_platform pp s =
     \<lparr>pl_sha256 = pp_sha256 pp, pl_collate = pp_collate pp,
      pl_checkpointId = makeId (se_counter s + 1), pl_collectedAt = pp_iso pp\<rparr>"

definition handleRun ::
  "panel_platform \<Rightarrow> run_api_request \<Rightarrow> mock_identity \<Rightarrow> string option \<Rightarrow> session \<Rightarrow>
   (panel_error + run_api_response) \<times> session" where
  "handleRun pp req identity inboundCorrelationId s =
     (case getReviewSnapshot (ra_organizationId req) (ra_intakeRevisionId req) s of
        None \<Rightarrow> (Inl (panel_failure ''MISSING_REVIEW'' 400), s)
      | Some snap \<Rightarrow>
          (case run_guard (pp_now pp) req identity snap of
             Some e \<Rightarrow> (Inl e, s)
           | None \<Rightarrow>
               let existing = find (checkpoint_of (ra_organizationId req) (ra_intakeRevisionId req))
                     (wd_checkpoints (se_world s));
                   canonicalId = nullish_opt (Option.bind existing ck_canonicalId) (rv_canonicalId snap);
                   canonicalVersion =
                     nullish_opt (Option.bind existing ck_canonicalVersion) (rv_canonicalVersion snap);
                   correlationId = nullish inboundCorrelationId
                     (''corr-run-'' @ mi_staffId identity @ ''-'' @ ra_intakeRevisionId req);
                   digest = computeServerDigestFromReq (pp_sha256 pp) (pp_collate pp)
                     (panel_run_request req canonicalId canonicalVersion [] correlationId)
               in if digest \<noteq> rv_digest snap then (Inl (panel_failure ''DIGEST_MISMATCH'' 409), s)
                  else
                    let (res, w) = intake_run (session_platform pp s) (buildGatewayCaller (pp_sha256 pp))
                          (panel_run_request req canonicalId canonicalVersion digest correlationId)
                          (se_world s);
                        s1 = s\<lparr>se_world := w, se_counter := se_counter s + 1\<rparr>
                    in case res of
                         Inl e \<Rightarrow> (Inl (panel_failure (oe_code e) (run_status (oe_code e))), s1)
                       | Inr r \<Rightarrow> (Inr (run_response digest r), s1)))"

section \<open>Resume\<close>

record resume_summary =
  su_preCallCount :: nat
  su_postCallCount :: nat
  su_newCalls :: int
  su_preAppliedSteps :: "step_name list"
  su_postAppliedSteps :: "step_name list"

fun state_string :: "checkpoint_state \<Rightarrow> string" where
  "state_string CK_RUNNING = ''RUNNING''"
| "state_string CK_PARTIAL = ''PARTIAL''"
| "state_string CK_COMPLETED = ''COMPLETED''"
| "state_string CK_FAILED = ''FAILED''"
| "state_string CK_REVIEW_PENDING = ''REVIEW_PENDING''"

text \<open>The request a resumption builds from the row: its payload is empty.\<close>

definition resume_request :: "checkpoint \<Rightarrow> string \<Rightarrow> string \<Rightarrow> string \<Rightarrow> run_request" where
  "resume_request cp organizationId intakeRevisionId correlationId =
     \<lparr>iq_organizationId = organizationId, iq_intakeRevisionId = intakeRevisionId, iq_fullName = [],
      iq_phone = [], iq_citizenNumber = [], iq_citizenAddress = [], iq_contactAddress = None,
      iq_dob = None, iq_intent = \<lparr>in_stage = state_string (ck_state cp), in_availability = [],
        in_availableFromDate = None\<rparr>, iq_evidenceRefs = [],
      iq_confirmation = \<lparr>cf_draftRevisionId = intakeRevisionId, cf_draftDigest = ck_draftDigest cp,
        cf_canonicalId = ck_canonicalId cp, cf_canonicalVersion = ck_canonicalVersion cp\<rparr>,
      iq_draftDigest = ck_draftDigest cp, iq_provider = ''CHATWOOT'',
      iq_connectionId = ''conn-mock-001'', iq_externalReference = ''ext-ref-resume-001'',
      iq_identityPolicy = None, iq_correlationId = correlationId\<rparr>"

definition handleResume ::
  "panel_platform \<Rightarrow> string \<Rightarrow> string \<Rightarrow> string option \<Rightarrow> session \<Rightarrow>
   (panel_error + run_api_response \<times> resume_summary) \<times> session" where
  "handleResume pp organizationId intakeRevisionId inboundCorrelationId s =
     (case find (checkpoint_of organizationId intakeRevisionId) (wd_checkpoints (se_world s)) of
        None \<Rightarrow> (Inl (panel_failure ''CHECKPOINT_NOT_FOUND'' 404), s)
      | Some cp \<Rightarrow>
          if ck_state cp \<noteq> CK_PARTIAL then (Inl (panel_failure ''NOT_PARTIAL'' 409), s)
          else
            let preCalls = pg_log (wd_gateway (se_world s));
                correlationId = nullish inboundCorrelationId
                  (''corr-resume-'' @ organizationId @ ''-'' @ intakeRevisionId);
                (res, w) = resumeWithPayload (session_platform pp s) (buildGatewayCaller (pp_sha256 pp))
                  (resume_request cp organizationId intakeRevisionId correlationId) (se_world s);
                s1 = s\<lparr>se_world := w\<rparr>;
                postCalls = pg_log (wd_gateway w)
            in case res of
                 Inl e \<Rightarrow> (Inl (panel_failure (oe_code e) 500), s1)
               | Inr r \<Rightarrow>
                   (Inr (run_response (ck_draftDigest cp) r,
                     \<lparr>su_preCallCount = length preCalls, su_postCallCount = length postCalls,
                      su_newCalls = int (length postCalls) - int (length preCalls),
                      su_preAppliedSteps = ck_appliedSteps cp,
                      su_postAppliedSteps = rr_appliedSteps r\<rparr>), s1))"

end
