(* ===== verification/Intake_Facts.thy ===== *)
theory Intake_Facts
  imports Intake_Orchestrator
begin

text \<open>
  Lemmas on the loop of the intake workflow: what one step does, what it leaves of the rows, the
  calls it makes, and how the effective target moves.
\<close>

lemma map_sum_iff [simp]:
  "map_sum f g x = Inr y \<longleftrightarrow> (\<exists>z. x = Inr z \<and> y = g z)"
  "map_sum f g x = Inl e \<longleftrightarrow> (\<exists>z. x = Inl z \<and> e = f z)"
  by (cases x; auto)+

lemma map_prod_pair [simp]: "map_prod f g p = (a, b) \<longleftrightarrow> (\<exists>x y. p = (x, y) \<and> f x = a \<and> g y = b)"
  by (cases p) auto

section \<open>One step\<close>

text \<open>The row a checkpoint update leaves alone but for its progress.\<close>

definition checkpoint_core :: "checkpoint \<Rightarrow> (string \<times> string) \<times> string \<times> string" where
  "checkpoint_core r = (checkpoint_key r, ck_checkpointId r, ck_draftDigest r)"

lemma update_core:
  assumes "updateIntakeCheckpoint org rev_id upd rows = (res, rows')" and "checkpoints_ok rows"
  shows "map checkpoint_core rows' = map checkpoint_core rows"
proof (cases res)
  case (Inl e)
  then show ?thesis using update_failed assms(1) by blast
next
  case (Inr row')
  from update_found [OF assms(1) [unfolded Inr] assms(2)] obtain row where
    row: "row' = updated_checkpoint upd (ck_canonicalVersion row') row"
      "rows' = map (\<lambda>r. if r = row then row' else r) rows" by metis
  have "checkpoint_core row' = checkpoint_core row" by (subst row(1)) (simp add: checkpoint_core_def)
  then show ?thesis by (simp add: row(2))
qed

lemma safe_update_unfold:
  assumes "safeUpdateCheckpoint ctx upd rows = (res, rows')"
  obtains res0 where "updateIntakeCheckpoint (tx_organizationId ctx) (tx_intakeRevisionId ctx) upd rows = (res0, rows')"
    "res = map_sum translateStoreError id res0"
  using assms by (cases "updateIntakeCheckpoint (tx_organizationId ctx) (tx_intakeRevisionId ctx) upd rows")
    (auto simp: safeUpdateCheckpoint_def)

lemma safe_update_failed:
  "safeUpdateCheckpoint ctx upd rows = (Inl e, rows') \<Longrightarrow> rows' = rows"
  by (auto simp: safeUpdateCheckpoint_def dest: update_failed)

lemma safe_update_ok:
  assumes "safeUpdateCheckpoint ctx upd rows = (res, rows')" and "checkpoints_ok rows"
    and "prefix (cu_appliedSteps upd) STEP_ORDER"
  shows "checkpoints_ok rows' \<and> map checkpoint_core rows' = map checkpoint_core rows"
  using assms by (auto elim!: safe_update_unfold dest: update_ok update_core)

text \<open>The row after a successful update.\<close>

lemma safe_update_row:
  assumes "safeUpdateCheckpoint ctx upd rows = (Inr row', rows')" and "checkpoints_ok rows"
  obtains row where "find (checkpoint_of (tx_organizationId ctx) (tx_intakeRevisionId ctx)) rows = Some row"
    "row' = updated_checkpoint upd (ck_canonicalVersion row') row"
    "column_version (cu_canonicalVersion upd) (ck_canonicalVersion row) = Some (ck_canonicalVersion row')"
    "find (checkpoint_of (tx_organizationId ctx) (tx_intakeRevisionId ctx)) rows' = Some row'"
proof -
  from assms(1) have "updateIntakeCheckpoint (tx_organizationId ctx) (tx_intakeRevisionId ctx) upd rows =
      (Inr row', rows')"
    by (rule safe_update_unfold) (metis map_sum_iff(1) id_apply)
  then show ?thesis using assms(2) by (rule update_found) (rule that)
qed

definition step_ctx_of :: "step_ctx \<Rightarrow> run_state \<Rightarrow> step_ctx" where
  "step_ctx_of ctx rs =
     ctx\<lparr>tx_canonicalId := rs_canonicalId rs, tx_canonicalVersion := rs_canonicalVersion rs\<rparr>"

text \<open>The ways through one round of the loop.\<close>

lemma run_steps_cases:
  assumes "run_steps gw at_time ctx appliedSet (step # steps) rs w = (res, w')" and "step \<notin> set appliedSet"
  obtains
    (begin_fails) e rows where "safeUpdateCheckpoint ctx (begin_update step rs) (wd_checkpoints w) = (Inl e, rows)"
      "res = Inl e" "w' = w\<lparr>wd_checkpoints := rows\<rparr>"
  | (step_fails) row rows e g where
      "safeUpdateCheckpoint ctx (begin_update step rs) (wd_checkpoints w) = (Inr row, rows)"
      "executeStep gw at_time step (step_ctx_of ctx rs) (wd_gateway w) = (Inl e, g)"
      "res = Inr (fail_step appliedSet step (wrapError e) rs)" "w' = \<lparr>wd_checkpoints = rows, wd_gateway = g\<rparr>"
  | (commit_fails) row rows v g e rows1 where
      "safeUpdateCheckpoint ctx (begin_update step rs) (wd_checkpoints w) = (Inr row, rows)"
      "executeStep gw at_time step (step_ctx_of ctx rs) (wd_gateway w) = (Inr v, g)"
      "safeUpdateCheckpoint ctx (commit_update step (record_step step v rs)) rows = (Inl e, rows1)"
      "res = Inr (fail_step appliedSet step e (record_step step v rs))"
      "w' = \<lparr>wd_checkpoints = rows1, wd_gateway = g\<rparr>"
  | (review) row rows v g row1 rows1 where
      "safeUpdateCheckpoint ctx (begin_update step rs) (wd_checkpoints w) = (Inr row, rows)"
      "executeStep gw at_time step (step_ctx_of ctx rs) (wd_gateway w) = (Inr v, g)"
      "safeUpdateCheckpoint ctx (commit_update step (record_step step v rs)) rows = (Inr row1, rows1)"
      "possible_match v" "res = Inr ((record_step step v rs)\<lparr>rs_terminalState := CK_REVIEW_PENDING\<rparr>)"
      "w' = \<lparr>wd_checkpoints = rows1, wd_gateway = g\<rparr>"
  | (next_step) row rows v g row1 rows1 where
      "safeUpdateCheckpoint ctx (begin_update step rs) (wd_checkpoints w) = (Inr row, rows)"
      "executeStep gw at_time step (step_ctx_of ctx rs) (wd_gateway w) = (Inr v, g)"
      "safeUpdateCheckpoint ctx (commit_update step (record_step step v rs)) rows = (Inr row1, rows1)"
      "\<not> possible_match v"
      "run_steps gw at_time ctx appliedSet steps (record_step step v rs)
         \<lparr>wd_checkpoints = rows1, wd_gateway = g\<rparr> = (res, w')"
proof -
  obtain r rows where first: "safeUpdateCheckpoint ctx (begin_update step rs) (wd_checkpoints w) = (r, rows)"
    by fastforce
  show ?thesis
  proof (cases r)
    case (Inl e)
    then show ?thesis using assms first by (intro begin_fails) auto
  next
    case r: (Inr row)
    obtain x g where ex: "executeStep gw at_time step (step_ctx_of ctx rs) (wd_gateway w) = (x, g)"
      by fastforce
    show ?thesis
    proof (cases x)
      case (Inl e)
      then show ?thesis using assms first r ex by (intro step_fails) (auto simp: step_ctx_of_def)
    next
      case x: (Inr v)
      obtain r1 rows1 where second:
        "safeUpdateCheckpoint ctx (commit_update step (record_step step v rs)) rows = (r1, rows1)" by fastforce
      show ?thesis
      proof (cases r1)
        case (Inl e)
        then show ?thesis using assms first r ex x second
          by (intro commit_fails) (auto simp: step_ctx_of_def Let_def)
      next
        case r1: (Inr row1)
        show ?thesis
        proof (cases "possible_match v")
          case True
          then show ?thesis using assms first r ex x second r1
            by (intro review) (auto simp: step_ctx_of_def Let_def)
        next
          case False
          then show ?thesis using assms first r ex x second r1
            by (intro next_step) (auto simp: step_ctx_of_def Let_def)
        qed
      qed
    qed
  qed
qed

lemma run_steps_skip:
  "set steps \<subseteq> set appliedSet \<Longrightarrow>
   run_steps gw at_time ctx appliedSet (steps @ steps') rs w = run_steps gw at_time ctx appliedSet steps' rs w"
  by (induction steps) auto

text \<open>The steps still to do when the first \<open>n\<close> are applied.\<close>

lemma run_steps_remaining:
  assumes "prefix applied STEP_ORDER"
  shows "run_steps gw at_time ctx applied STEP_ORDER rs w =
      run_steps gw at_time ctx applied (drop (length applied) STEP_ORDER) rs w"
    and "set (drop (length applied) STEP_ORDER) \<inter> set applied = {}"
    and "applied @ drop (length applied) STEP_ORDER = STEP_ORDER"
proof -
  show app: "applied @ drop (length applied) STEP_ORDER = STEP_ORDER"
    using assms by (metis append_eq_conv_conj prefix_def)
  show "run_steps gw at_time ctx applied STEP_ORDER rs w =
      run_steps gw at_time ctx applied (drop (length applied) STEP_ORDER) rs w"
    by (subst (1) app [symmetric]) (rule run_steps_skip, simp)
  have "distinct (applied @ drop (length applied) STEP_ORDER)" by (subst app) simp
  then show "set (drop (length applied) STEP_ORDER) \<inter> set applied = {}" by auto
qed

lemma effective_simps [simp]:
  "rs_newAppliedSteps (effective v rs) = rs_newAppliedSteps rs"
  "rs_stepResults (effective v rs) = rs_stepResults rs"
  "rs_partialFailure (effective v rs) = rs_partialFailure rs"
  "rs_terminalState (effective v rs) = rs_terminalState rs"
  "rs_actedOnAnyStep (effective v rs) = rs_actedOnAnyStep rs"
  by (cases v; simp)+

lemma record_step_simps [simp]:
  "rs_newAppliedSteps (record_step step v rs) = rs_newAppliedSteps rs @ [step]"
  "rs_stepResults (record_step step v rs) = put_result v (rs_stepResults rs)"
  "rs_partialFailure (record_step step v rs) = rs_partialFailure rs"
  "rs_terminalState (record_step step v rs) = rs_terminalState rs"
  by (simp_all add: record_step_def)

lemma fail_step_simps [simp]:
  "rs_newAppliedSteps (fail_step a step e rs) = rs_newAppliedSteps rs"
  "rs_stepResults (fail_step a step e rs) = rs_stepResults rs"
  "rs_canonicalId (fail_step a step e rs) = rs_canonicalId rs"
  "rs_canonicalVersion (fail_step a step e rs) = rs_canonicalVersion rs"
  "rs_partialFailure (fail_step a step e rs) \<noteq> None"
  "rs_terminalState (fail_step a step e rs) =
     (if a \<noteq> [] \<or> rs_newAppliedSteps rs \<noteq> [] then CK_PARTIAL else CK_FAILED)"
  by (simp_all add: fail_step_def)

lemma update_simps [simp]:
  "cu_appliedSteps (begin_update step rs) = rs_newAppliedSteps rs"
  "cu_appliedSteps (commit_update step rs) = rs_newAppliedSteps rs"
  "cu_appliedSteps (final_update rs) = rs_newAppliedSteps rs"
  "cu_canonicalId (begin_update step rs) = None"
  "cu_canonicalVersion (begin_update step rs) = None"
  "cu_canonicalId (commit_update step rs) = rs_canonicalId rs"
  "cu_canonicalVersion (commit_update step rs) = rs_canonicalVersion rs"
  "cu_canonicalId (final_update rs) = rs_canonicalId rs"
  "cu_canonicalVersion (final_update rs) = rs_canonicalVersion rs"
  "cu_state (final_update rs) = final_state rs"
  "cu_stepResults (final_update rs) = rs_stepResults rs"
  by (simp_all add: begin_update_def commit_update_def final_update_def)

section \<open>Rows and progress over the loop\<close>

text \<open>Where the loop is: the applied steps and the steps to come make up the order.\<close>

definition on_track :: "step_name list \<Rightarrow> step_name list \<Rightarrow> run_state \<Rightarrow> bool" where
  "on_track appliedSet steps rs \<longleftrightarrow>
     rs_newAppliedSteps rs @ steps = STEP_ORDER \<and> set steps \<inter> set appliedSet = {}"

lemma on_track_prefix:
  "on_track appliedSet steps rs \<Longrightarrow>
   prefix (rs_newAppliedSteps rs) STEP_ORDER"
  unfolding on_track_def by (metis prefixI)

lemma on_track_step:
  assumes "on_track appliedSet (step # steps) rs"
  shows "step \<notin> set appliedSet" and "on_track appliedSet steps (record_step step v rs)"
  using assms by (auto simp: on_track_def)

text \<open>How a run of the loop can end.\<close>

definition loop_end :: "step_name list \<Rightarrow> run_state \<Rightarrow> bool" where
  "loop_end appliedSet rs \<longleftrightarrow>
     prefix (rs_newAppliedSteps rs) STEP_ORDER \<and>
     (if rs_partialFailure rs \<noteq> None then
        rs_terminalState rs =
          (if appliedSet \<noteq> [] \<or> rs_newAppliedSteps rs \<noteq> [] then CK_PARTIAL else CK_FAILED)
      else rs_terminalState rs = CK_RUNNING \<and> rs_newAppliedSteps rs = STEP_ORDER \<or>
        rs_terminalState rs = CK_REVIEW_PENDING \<and> rs_newAppliedSteps rs = [CONFIRM_VALIDATE, IDENTITY])"

lemma possible_match_identity:
  assumes "executeStep gw at_time step ctx g = (Inr v, g')" and "possible_match v"
  shows "step = IDENTITY"
  using assms by (cases step) auto

lemma on_track_identity:
  "on_track appliedSet (IDENTITY # steps) rs \<Longrightarrow> rs_newAppliedSteps rs = [CONFIRM_VALIDATE]"
  by (auto simp: on_track_def STEP_ORDER_def append_eq_Cons_conv)

lemma run_steps_progress:
  assumes "run_steps gw at_time ctx appliedSet steps rs w = (res, w')"
    and "checkpoints_ok (wd_checkpoints w)" and "on_track appliedSet steps rs"
    and "rs_partialFailure rs = None" and "rs_terminalState rs = CK_RUNNING"
  shows "checkpoints_ok (wd_checkpoints w') \<and>
    map checkpoint_core (wd_checkpoints w') = map checkpoint_core (wd_checkpoints w) \<and>
    (\<forall>rs'. res = Inr rs' \<longrightarrow> loop_end appliedSet rs' \<and>
       prefix (rs_newAppliedSteps rs) (rs_newAppliedSteps rs'))"
  using assms
proof (induction steps arbitrary: rs w)
  case Nil
  then show ?case by (auto simp: loop_end_def on_track_def)
next
  case (Cons step steps)
  note track = on_track_step [OF Cons.prems(3)]
  have take1: "prefix (rs_newAppliedSteps rs) STEP_ORDER"
    by (rule on_track_prefix [OF Cons.prems(3)])
  have take2: "prefix (rs_newAppliedSteps rs @ [step]) STEP_ORDER"
    using on_track_prefix [OF track(2)] by (simp only: record_step_simps)
  have first: "checkpoints_ok rows \<and> map checkpoint_core rows = map checkpoint_core (wd_checkpoints w)"
    if "safeUpdateCheckpoint ctx (begin_update step rs) (wd_checkpoints w) = (x, rows)" for x rows
    using safe_update_ok [OF that Cons.prems(2)] take1 by simp
  have second: "checkpoints_ok rows1 \<and> map checkpoint_core rows1 = map checkpoint_core rows"
    if "safeUpdateCheckpoint ctx (commit_update step (record_step step v rs)) rows = (x, rows1)"
      "checkpoints_ok rows" for v x rows rows1
    using safe_update_ok [OF that] take2 by simp
  from Cons.prems(1) track(1) show ?case
  proof (cases rule: run_steps_cases)
    case begin_fails
    then show ?thesis using first by auto
  next
    case step_fails
    then show ?thesis using first [OF step_fails(1)] take1 by (simp add: loop_end_def)
  next
    case (commit_fails row rows v g e rows1)
    then show ?thesis using first [OF commit_fails(1)] second [OF commit_fails(3)] take2
      by (simp add: loop_end_def)
  next
    case (review row rows v g row1 rows1)
    have "step = IDENTITY" by (rule possible_match_identity [OF review(2,4)])
    then have "rs_newAppliedSteps rs = [CONFIRM_VALIDATE]" using Cons.prems(3) on_track_identity by blast
    then show ?thesis
      using review first [OF review(1)] second [OF review(3)] Cons.prems(4) \<open>step = IDENTITY\<close>
      by (auto simp: loop_end_def STEP_ORDER_def)
  next
    case (next_step row rows v g row1 rows1)
    from first [OF next_step(1)] second [OF next_step(3)] have rows1: "checkpoints_ok rows1"
        "map checkpoint_core rows1 = map checkpoint_core (wd_checkpoints w)" by auto
    from Cons.IH [OF next_step(5) _ track(2)] rows1 Cons.prems(4,5)
    have ih: "checkpoints_ok (wd_checkpoints w')"
        "map checkpoint_core (wd_checkpoints w') = map checkpoint_core rows1"
        "\<forall>rs'. res = Inr rs' \<longrightarrow> loop_end appliedSet rs' \<and>
           prefix (rs_newAppliedSteps rs @ [step]) (rs_newAppliedSteps rs')" by auto
    show ?thesis using ih rows1(2) by (auto dest: append_prefixD)
  qed
qed

section \<open>Rows only grow\<close>

definition grown :: "checkpoint list \<Rightarrow> checkpoint list \<Rightarrow> bool" where
  "grown = list_all2 (\<lambda>r r'. checkpoint_core r' = checkpoint_core r \<and>
     prefix (ck_appliedSteps r) (ck_appliedSteps r'))"

lemma grown_refl [simp]: "grown rows rows"
  by (simp add: grown_def list.rel_refl)

lemma grown_trans: "grown rows rows1 \<Longrightarrow> grown rows1 rows2 \<Longrightarrow> grown rows rows2"
  unfolding grown_def
  by (erule list_all2_trans [rotated], assumption) (auto intro: prefix_order.trans)

lemma grown_find:
  assumes "grown rows rows'" and "find (checkpoint_of org rev_id) rows = Some row"
  obtains row' where "find (checkpoint_of org rev_id) rows' = Some row'"
    "checkpoint_core row' = checkpoint_core row" "prefix (ck_appliedSteps row) (ck_appliedSteps row')"
  using assms unfolding grown_def
proof (induction rows rows' arbitrary: thesis rule: list_all2_induct)
  case (Cons r rows r' rows')
  then show ?case
    by (cases "checkpoint_of org rev_id r")
      (auto simp: checkpoint_of_key checkpoint_core_def split: if_splits)
qed simp

lemma safe_update_grown:
  assumes "safeUpdateCheckpoint ctx upd rows = (res, rows')" and "checkpoints_ok rows"
    and "find (checkpoint_of (tx_organizationId ctx) (tx_intakeRevisionId ctx)) rows = Some row"
    and "prefix (ck_appliedSteps row) (cu_appliedSteps upd)"
  shows "grown rows rows'"
proof -
  from assms(1) obtain res0 where u: "updateIntakeCheckpoint (tx_organizationId ctx)
      (tx_intakeRevisionId ctx) upd rows = (res0, rows')" by (rule safe_update_unfold)
  show ?thesis
  proof (cases res0)
    case (Inl e)
    then have "rows' = rows" using u by (simp add: update_failed)
    then show ?thesis by simp
  next
    case (Inr row')
    from update_found [OF u [unfolded Inr] assms(2)] assms(3)
    have row': "row' = updated_checkpoint upd (ck_canonicalVersion row') row"
        and rows': "rows' = map (\<lambda>r. if r = row then row' else r) rows" by auto
    have "checkpoint_core row' = checkpoint_core row" "prefix (ck_appliedSteps row) (ck_appliedSteps row')"
      by (subst row', simp add: checkpoint_core_def assms(4))+
    then show ?thesis by (auto simp: grown_def rows' list_all2_map2 list.rel_refl intro: list.rel_refl_strong)
  qed
qed

text \<open>The row of the revision, at most as far as the loop.\<close>

definition row_behind :: "step_ctx \<Rightarrow> run_state \<Rightarrow> checkpoint list \<Rightarrow> bool" where
  "row_behind ctx rs rows \<longleftrightarrow>
     (\<exists>row. find (checkpoint_of (tx_organizationId ctx) (tx_intakeRevisionId ctx)) rows = Some row \<and>
       prefix (ck_appliedSteps row) (rs_newAppliedSteps rs))"

lemma row_behind_mono:
  "row_behind ctx rs rows \<Longrightarrow> prefix (rs_newAppliedSteps rs) (rs_newAppliedSteps rs') \<Longrightarrow> row_behind ctx rs' rows"
  unfolding row_behind_def by (meson prefix_order.trans)

lemma update_behind:
  assumes "safeUpdateCheckpoint ctx upd rows = (res, rows')" and "checkpoints_ok rows"
    and "row_behind ctx rs rows" and "cu_appliedSteps upd = rs_newAppliedSteps rs"
  shows "grown rows rows' \<and> row_behind ctx rs rows'"
proof -
  from assms(3) obtain row where row:
      "find (checkpoint_of (tx_organizationId ctx) (tx_intakeRevisionId ctx)) rows = Some row"
      "prefix (ck_appliedSteps row) (rs_newAppliedSteps rs)" by (auto simp: row_behind_def)
  have "grown rows rows'" using safe_update_grown [OF assms(1,2) row(1)] row(2) assms(4) by simp
  moreover have "row_behind ctx rs rows'"
  proof (cases res)
    case (Inl e)
    then have "rows' = rows" using assms(1) safe_update_failed by blast
    then show ?thesis using assms(3) by simp
  next
    case (Inr row')
    have "ck_appliedSteps row' = cu_appliedSteps upd" "find (checkpoint_of (tx_organizationId ctx)
        (tx_intakeRevisionId ctx)) rows' = Some row'"
      using safe_update_row [OF assms(1) [unfolded Inr] assms(2)] by (metis updated_checkpoint_simps(3))+
    then show ?thesis using assms(4) by (auto simp: row_behind_def)
  qed
  ultimately show ?thesis by blast
qed

lemma run_steps_grown:
  assumes "run_steps gw at_time ctx appliedSet steps rs w = (res, w')"
    and "checkpoints_ok (wd_checkpoints w)" and "on_track appliedSet steps rs"
    and "row_behind ctx rs (wd_checkpoints w)"
  shows "grown (wd_checkpoints w) (wd_checkpoints w') \<and>
    (\<forall>rs'. res = Inr rs' \<longrightarrow> row_behind ctx rs' (wd_checkpoints w'))"
  using assms
proof (induction steps arbitrary: rs w)
  case (Cons step steps)
  note track = on_track_step [OF Cons.prems(3)]
  have first: "checkpoints_ok rows \<and> grown (wd_checkpoints w) rows \<and> row_behind ctx rs rows"
    if "safeUpdateCheckpoint ctx (begin_update step rs) (wd_checkpoints w) = (x, rows)" for x rows
    using safe_update_ok [OF that Cons.prems(2)] update_behind [OF that Cons.prems(2,4)]
      on_track_prefix [OF Cons.prems(3)] by simp
  have second: "checkpoints_ok rows1 \<and> grown rows rows1 \<and> row_behind ctx (record_step step v rs) rows1"
    if "safeUpdateCheckpoint ctx (commit_update step (record_step step v rs)) rows = (x, rows1)"
      "checkpoints_ok rows" "row_behind ctx rs rows" for v x rows rows1
  proof -
    have "row_behind ctx (record_step step v rs) rows" by (rule row_behind_mono [OF that(3)]) simp
    from safe_update_ok [OF that(1,2)] update_behind [OF that(1,2) this]
      on_track_prefix [OF track(2), of v] show ?thesis by simp
  qed
  from Cons.prems(1) track(1) show ?case
  proof (cases rule: run_steps_cases)
    case begin_fails
    then show ?thesis using first by auto
  next
    case step_fails
    then show ?thesis using first [OF step_fails(1)] by (auto intro: row_behind_mono)
  next
    case (commit_fails row rows v g e rows1)
    have "row_behind ctx (fail_step appliedSet step e (record_step step v rs)) rows1"
      using first [OF commit_fails(1)] second [OF commit_fails(3)] by (auto intro: row_behind_mono)
    then show ?thesis using commit_fails first [OF commit_fails(1)] second [OF commit_fails(3)]
      by (auto intro: grown_trans)
  next
    case (review row rows v g row1 rows1)
    have "row_behind ctx ((record_step step v rs)\<lparr>rs_terminalState := CK_REVIEW_PENDING\<rparr>) rows1"
      using first [OF review(1)] second [OF review(3)] by (auto intro: row_behind_mono)
    then show ?thesis using review first [OF review(1)] second [OF review(3)]
      by (auto intro: grown_trans)
  next
    case (next_step row rows v g row1 rows1)
    from first [OF next_step(1)] second [OF next_step(3)] have rows1: "checkpoints_ok rows1"
        "grown (wd_checkpoints w) rows1" "row_behind ctx (record_step step v rs) rows1"
      by (auto intro: grown_trans)
    from Cons.IH [OF next_step(5) _ track(2)] rows1 show ?thesis by (auto intro: grown_trans)
  qed
qed auto

section \<open>Calls\<close>

text \<open>A gateway that also records the calls it gets.\<close>

definition logged :: "'g gateway_caller \<Rightarrow> (gateway_args list \<times> 'g) gateway_caller" where
  "logged gw args s = (let (r, g') = gw args (snd s) in (r, (fst s @ [args], g')))"

fun step_method :: "step_name \<Rightarrow> string" where
  "step_method CONFIRM_VALIDATE = []"
| "step_method IDENTITY = ''createOrMatchLaborProfile''"
| "step_method PROFILE = ''updateLaborProfile''"
| "step_method CASE = ''openPlacementCase''"
| "step_method AVAILABILITY = ''updateLaborAvailability''"

definition call_id :: "gateway_args \<Rightarrow> string \<times> string \<times> string" where
  "call_id a = (ga_organizationId a, ga_method a, ga_idempotencyKey a)"

definition step_call_id :: "step_ctx \<Rightarrow> step_name \<Rightarrow> string \<times> string \<times> string" where
  "step_call_id ctx step =
     (tx_organizationId ctx, step_method step, buildStepIdempotencyKey (tx_intakeRevisionId ctx) step)"

lemma logged_step_call:
  assumes "step_call (logged gw) args s = (x, s')"
  shows "fst s' = fst s @ [args]"
  using assms by (auto simp: step_call_def logged_def split: prod.splits sum.splits call_outcome.splits)

lemma step_args_id [simp]: "call_id (step_args ctx (step_method step) step p) = step_call_id ctx step"
  by (simp add: call_id_def step_args_def step_call_id_def)

lemma step_ctx_of_id [simp]: "step_call_id (step_ctx_of ctx rs) step = step_call_id ctx step"
  by (simp add: step_ctx_of_def step_call_id_def)

text \<open>A step makes one call of its own, unless it makes none and fails or only confirms.\<close>

lemma executeStep_calls:
  assumes "executeStep (logged gw) at_time step ctx s = (x, s')"
  shows "(\<exists>a. fst s' = fst s @ [a] \<and> call_id a = step_call_id ctx step \<and> step \<noteq> CONFIRM_VALIDATE) \<or>
    s' = s \<and> (step = CONFIRM_VALIDATE \<or> (\<exists>e. x = Inl e))"
proof (cases step)
  case IDENTITY
  then have "\<exists>p. fst s' = fst s @ [step_args ctx (step_method step) step p]"
    using assms by (auto simp: identityStep_def Let_def dest!: logged_step_call
        split: prod.splits sum.splits if_splits)
  then show ?thesis using IDENTITY by (metis step_args_id step_name.distinct(1))
next
  case PROFILE
  then have "(\<exists>p. fst s' = fst s @ [step_args ctx (step_method step) step p]) \<or> s' = s \<and> (\<exists>e. x = Inl e)"
    using assms by (auto simp: profileStep_def Let_def dest!: logged_step_call
        split: prod.splits sum.splits if_splits option.splits)
  then show ?thesis using PROFILE by (metis step_args_id step_name.distinct(3))
next
  case CASE
  then have "(\<exists>p. fst s' = fst s @ [step_args ctx (step_method step) step p]) \<or> s' = s \<and> (\<exists>e. x = Inl e)"
    using assms by (auto simp: caseStep_def Let_def dest!: logged_step_call
        split: prod.splits sum.splits if_splits)
  then show ?thesis using CASE by (metis step_args_id step_name.distinct(5))
next
  case AVAILABILITY
  then have "(\<exists>p. fst s' = fst s @ [step_args ctx (step_method step) step p]) \<or> s' = s \<and> (\<exists>e. x = Inl e)"
    using assms by (auto simp: availabilityStep_def Let_def dest!: logged_step_call
        split: prod.splits sum.splits if_splits)
  then show ?thesis using AVAILABILITY by (metis step_args_id step_name.distinct(7))
qed (use assms in simp)

text \<open>The calls of the loop: the first of the steps to do, in order, each once.\<close>

lemma run_steps_calls:
  assumes "run_steps (logged gw) at_time ctx appliedSet steps rs w = (res, w')"
    and "set steps \<inter> set appliedSet = {}"
  shows "\<exists>calls n. fst (wd_gateway w') = fst (wd_gateway w) @ calls \<and>
    map call_id calls = map (step_call_id ctx) (take n (filter (\<lambda>s. s \<noteq> CONFIRM_VALIDATE) steps))"
  using assms
proof (induction steps arbitrary: rs w)
  case (Cons step steps)
  have nope: "\<exists>calls n. fst (wd_gateway w) = fst (wd_gateway w) @ calls \<and>
      map call_id calls = map (step_call_id ctx) (take n (filter (\<lambda>s. s \<noteq> CONFIRM_VALIDATE) (step # steps)))"
    by (rule exI [of _ "[]"], rule exI [of _ 0]) simp
  have one: "\<exists>calls n. fst s = fst (wd_gateway w) @ calls \<and>
      map call_id calls = map (step_call_id ctx) (take n (filter (\<lambda>s. s \<noteq> CONFIRM_VALIDATE) (step # steps)))"
    if "executeStep (logged gw) at_time step (step_ctx_of ctx rs) (wd_gateway w) = (x, s)" for x s
    using executeStep_calls [OF that]
  proof
    assume "\<exists>a. fst s = fst (wd_gateway w) @ [a] \<and> call_id a = step_call_id (step_ctx_of ctx rs) step \<and>
      step \<noteq> CONFIRM_VALIDATE"
    then obtain a where "fst s = fst (wd_gateway w) @ [a]" "call_id a = step_call_id ctx step"
      "step \<noteq> CONFIRM_VALIDATE" by auto
    then show ?thesis by (intro exI [of _ "[a]"] exI [of _ "Suc 0"]) simp
  next
    assume "s = wd_gateway w \<and> (step = CONFIRM_VALIDATE \<or> (\<exists>e. x = Inl e))"
    then show ?thesis using nope by simp
  qed
  have app: "step \<notin> set appliedSet" using Cons.prems(2) by auto
  from Cons.prems(1) app show ?case
  proof (cases rule: run_steps_cases)
    case begin_fails
    then show ?thesis using nope by simp
  next
    case step_fails
    then show ?thesis using one [OF step_fails(2)] by simp
  next
    case commit_fails
    then show ?thesis using one [OF commit_fails(2)] by simp
  next
    case review
    then show ?thesis using one [OF review(2)] by simp
  next
    case (next_step row rows v g row1 rows1)
    from Cons.IH [OF next_step(5)] Cons.prems(2) obtain calls n where ih:
        "fst (wd_gateway w') = fst g @ calls"
        "map call_id calls = map (step_call_id ctx) (take n (filter (\<lambda>s. s \<noteq> CONFIRM_VALIDATE) steps))"
      by auto
    from executeStep_calls [OF next_step(2)] show ?thesis
    proof
      assume "\<exists>a. fst g = fst (wd_gateway w) @ [a] \<and> call_id a = step_call_id (step_ctx_of ctx rs) step \<and>
        step \<noteq> CONFIRM_VALIDATE"
      then obtain a where "fst g = fst (wd_gateway w) @ [a]" "call_id a = step_call_id ctx step"
        "step \<noteq> CONFIRM_VALIDATE" by auto
      then show ?thesis using ih by (intro exI [of _ "a # calls"] exI [of _ "Suc n"]) simp
    next
      assume "g = wd_gateway w \<and> (step = CONFIRM_VALIDATE \<or> (\<exists>e. Inr v = Inl e))"
      then show ?thesis using ih by (intro exI [of _ calls] exI [of _ n]) simp
    qed
  qed
qed simp

section \<open>Submissions\<close>

text \<open>A first submission or a resumption, and sequences of them.\<close>

datatype intake_op = Submit platform run_request | Resume_Payload platform run_request

fun op_request :: "intake_op \<Rightarrow> run_request" where
  "op_request (Submit pl req) = req"
| "op_request (Resume_Payload pl req) = req"

fun op_platform :: "intake_op \<Rightarrow> platform" where
  "op_platform (Submit pl req) = pl"
| "op_platform (Resume_Payload pl req) = pl"

fun submit :: "'g gateway_caller \<Rightarrow> intake_op \<Rightarrow> 'g world \<Rightarrow> (orch_error + run_result) \<times> 'g world" where
  "submit gw (Submit pl req) w = intake_run pl gw req w"
| "submit gw (Resume_Payload pl req) w = resumeWithPayload pl gw req w"

fun submissions :: "'g gateway_caller \<Rightarrow> intake_op list \<Rightarrow> 'g world \<Rightarrow> 'g world" where
  "submissions gw [] w = w"
| "submissions gw (op # ops) w = submissions gw ops (snd (submit gw op w))"

definition op_digest :: "intake_op \<Rightarrow> string" where
  "op_digest op = computeServerDigestFromReq (pl_sha256 (op_platform op)) (pl_collate (op_platform op))
     (op_request op)"

lemma digest_check_None:
  "digest_check d req = None \<longleftrightarrow> iq_draftDigest req = d \<and> cf_draftDigest (iq_confirmation req) = d"
  by (simp add: digest_check_def)

lemma create_found:
  assumes "createIntakeCheckpoint inp rows = (Inr (row, created), rows')" and "checkpoints_ok rows"
  shows "find (checkpoint_of (ck_organizationId inp) (ck_intakeRevisionId inp)) rows' = Some row \<and>
    ck_draftDigest row = ck_draftDigest inp \<and> (rows' = rows \<or> rows' = rows @ [inp] \<and> row = inp) \<and>
    ck_organizationId inp \<noteq> [] \<and> ck_intakeRevisionId inp \<noteq> []"
  using assms
  by (auto simp: createIntakeCheckpoint_def checkpoint_of_def find_append split: if_splits option.splits)

lemma create_failed: "createIntakeCheckpoint inp rows = (Inl e, rows') \<Longrightarrow> rows' = rows"
  by (auto simp: createIntakeCheckpoint_def split: if_splits option.splits)

definition fresh_row :: "checkpoint \<Rightarrow> bool" where
  "fresh_row row \<longleftrightarrow> ck_appliedSteps row = [] \<and> ck_stepResults row = no_results"

text \<open>A submission is refused with no effect, or executed from the row of its revision.\<close>

lemma submit_cases:
  assumes "submit gw op w = (res, w')" and "checkpoints_ok (wd_checkpoints w)"
  obtains
    (refused) e where "res = Inl e" "w' = w"
  | (executed) row rows where
      "rows = wd_checkpoints w \<or> rows = wd_checkpoints w @ [row] \<and> fresh_row row"
      "checkpoints_ok rows" "find (checkpoint_of (iq_organizationId (op_request op))
         (iq_intakeRevisionId (op_request op))) rows = Some row"
      "iq_organizationId (op_request op) \<noteq> []" "iq_intakeRevisionId (op_request op) \<noteq> []"
      "iq_draftDigest (op_request op) = op_digest op"
      "cf_draftDigest (iq_confirmation (op_request op)) = op_digest op"
      "ck_draftDigest row = op_digest op"
      "executeFromCheckpoint gw (pl_collectedAt (op_platform op)) (buildStepContext (op_request op)) row
         (iq_confirmation (op_request op)) (w\<lparr>wd_checkpoints := rows\<rparr>) = (res, w')"
proof (cases op)
  case op: (Submit pl req)
  show ?thesis
  proof (cases "digest_check (op_digest op) req")
    case (Some e)
    then show ?thesis using assms(1)
      by (intro refused [of e]) (simp_all add: op op_digest_def intake_run_def)
  next
    case ok: None
    obtain c rows where cr: "createIntakeCheckpoint (new_checkpoint (pl_checkpointId pl) req)
        (wd_checkpoints w) = (c, rows)" by fastforce
    show ?thesis
    proof (cases c)
      case (Inl e)
      then show ?thesis using assms(1) ok cr create_failed [OF cr [unfolded Inl]]
        by (intro refused [of "translateStoreError e"]) (simp_all add: op op_digest_def intake_run_def)
    next
      case c: (Inr rc)
      obtain row created where rc: "rc = (row, created)" by (cases rc)
      note found = create_found [OF cr [unfolded c rc] assms(2)]
      show ?thesis
      proof (rule executed)
        show "rows = wd_checkpoints w \<or> rows = wd_checkpoints w @ [row] \<and> fresh_row row"
          using found by (auto simp: new_checkpoint_def fresh_row_def)
        show "checkpoints_ok rows" by (rule create_ok [OF cr assms(2)]) (simp add: new_checkpoint_def)
        show "executeFromCheckpoint gw (pl_collectedAt (op_platform op)) (buildStepContext (op_request op)) row
            (iq_confirmation (op_request op)) (w\<lparr>wd_checkpoints := rows\<rparr>) = (res, w')"
          using assms(1) ok cr c rc by (simp add: op op_digest_def intake_run_def)
      qed (use found ok in \<open>simp_all add: op new_checkpoint_def digest_check_None\<close>)
    qed
  qed
next
  case op: (Resume_Payload pl req)
  show ?thesis
  proof (cases "digest_check (op_digest op) req")
    case (Some e)
    then show ?thesis using assms(1)
      by (intro refused [of e]) (simp_all add: op op_digest_def resumeWithPayload_def Let_def)
  next
    case ok: None
    show ?thesis
    proof (cases "findIntakeCheckpoint (iq_organizationId req) (iq_intakeRevisionId req) (wd_checkpoints w)")
      case (Inl e)
      then show ?thesis using assms(1) ok
        by (intro refused [of "translateStoreError e"])
          (simp_all add: op op_digest_def resumeWithPayload_def Let_def)
    next
      case f: (Inr found)
      show ?thesis
      proof (cases found)
        case None
        then show ?thesis using assms(1) ok f
          by (intro refused [of "orch_failure ''VALIDATION_ERROR'' False"])
            (auto simp: op op_digest_def resumeWithPayload_def Let_def)
      next
        case (Some row)
        show ?thesis
        proof (cases "ck_draftDigest row = op_digest op")
          case False
          then show ?thesis using assms(1) ok f Some
            by (intro refused [of "orch_failure ''IDEMPOTENCY_CONFLICT'' False"])
              (auto simp: op op_digest_def resumeWithPayload_def Let_def)
        next
          case True
          have find: "find (checkpoint_of (iq_organizationId req) (iq_intakeRevisionId req)) (wd_checkpoints w) = Some row"
              "iq_organizationId req \<noteq> []" "iq_intakeRevisionId req \<noteq> []"
            using f Some by (auto simp: findIntakeCheckpoint_def split: if_splits)
          show ?thesis
          proof (rule executed [of "wd_checkpoints w" row])
            show "executeFromCheckpoint gw (pl_collectedAt (op_platform op)) (buildStepContext (op_request op)) row
                (iq_confirmation (op_request op)) (w\<lparr>wd_checkpoints := wd_checkpoints w\<rparr>) = (res, w')"
              using assms(1) ok f Some True by (auto simp: op op_digest_def resumeWithPayload_def Let_def)
          qed (use assms(2) ok find True in \<open>simp_all add: op digest_check_None\<close>)
        qed
      qed
    qed
  qed
qed

lemma execute_cases:
  assumes "executeFromCheckpoint gw at_time ctx row confirmation w = (res, w')"
  obtains
    (stale) "\<not> isConfirmationValid confirmation (buildStaffReviewContextFromCheckpoint row)"
      "res = Inl (orch_failure ''VALIDATION_ERROR'' False)" "w' = w"
  | (loop_throws) e where "isConfirmationValid confirmation (buildStaffReviewContextFromCheckpoint row)"
      "run_steps gw at_time ctx (ck_appliedSteps row) STEP_ORDER (initial_run_state ctx row) w = (Inl e, w')"
      "res = Inl e"
  | (final_throws) rs w1 e where "isConfirmationValid confirmation (buildStaffReviewContextFromCheckpoint row)"
      "run_steps gw at_time ctx (ck_appliedSteps row) STEP_ORDER (initial_run_state ctx row) w = (Inr rs, w1)"
      "safeUpdateCheckpoint ctx (final_update rs) (wd_checkpoints w1) = (Inl e, wd_checkpoints w1)"
      "res = Inl e" "w' = w1"
  | (finished) rs w1 row' rows where
      "isConfirmationValid confirmation (buildStaffReviewContextFromCheckpoint row)"
      "run_steps gw at_time ctx (ck_appliedSteps row) STEP_ORDER (initial_run_state ctx row) w = (Inr rs, w1)"
      "safeUpdateCheckpoint ctx (final_update rs) (wd_checkpoints w1) = (Inr row', rows)"
      "res = Inr (result_of row rs)" "w' = w1\<lparr>wd_checkpoints := rows\<rparr>"
proof (cases "isConfirmationValid confirmation (buildStaffReviewContextFromCheckpoint row)")
  case False
  then show ?thesis using assms by (intro stale) (simp_all add: executeFromCheckpoint_def)
next
  case valid: True
  obtain l w1 where loop: "run_steps gw at_time ctx (ck_appliedSteps row) STEP_ORDER
      (initial_run_state ctx row) w = (l, w1)" by fastforce
  show ?thesis
  proof (cases l)
    case (Inl e)
    then show ?thesis using assms valid loop by (intro loop_throws) (auto simp: executeFromCheckpoint_def)
  next
    case l: (Inr rs)
    obtain f rows where fin: "safeUpdateCheckpoint ctx (final_update rs) (wd_checkpoints w1) = (f, rows)"
      by fastforce
    show ?thesis
    proof (cases f)
      case (Inl e)
      then have "rows = wd_checkpoints w1" using fin safe_update_failed by blast
      then show ?thesis using assms valid loop l fin Inl
        by (intro final_throws) (auto simp: executeFromCheckpoint_def)
    next
      case (Inr row')
      then show ?thesis using assms valid loop l fin
        by (intro finished) (auto simp: executeFromCheckpoint_def)
    qed
  qed
qed

lemma initial_run_state_simps [simp]:
  "rs_newAppliedSteps (initial_run_state ctx row) = ck_appliedSteps row"
  "rs_partialFailure (initial_run_state ctx row) = None"
  "rs_terminalState (initial_run_state ctx row) = CK_RUNNING"
  by (simp_all add: initial_run_state_def)

text \<open>The loop as it is entered from a row of the table.\<close>

lemma enter_loop:
  assumes "checkpoints_ok rows"
    and "find (checkpoint_of (tx_organizationId ctx) (tx_intakeRevisionId ctx)) rows = Some row"
  shows "run_steps gw at_time ctx (ck_appliedSteps row) STEP_ORDER rs w =
      run_steps gw at_time ctx (ck_appliedSteps row) (drop (length (ck_appliedSteps row)) STEP_ORDER) rs w"
    and "on_track (ck_appliedSteps row) (drop (length (ck_appliedSteps row)) STEP_ORDER) (initial_run_state ctx row)"
    and "row_behind ctx (initial_run_state ctx row) rows"
proof -
  have p: "prefix (ck_appliedSteps row) STEP_ORDER"
    using assms find_checkpoint by (auto simp: checkpoints_ok_def)
  show "run_steps gw at_time ctx (ck_appliedSteps row) STEP_ORDER rs w =
      run_steps gw at_time ctx (ck_appliedSteps row) (drop (length (ck_appliedSteps row)) STEP_ORDER) rs w"
    by (rule run_steps_remaining [OF p])
  show "on_track (ck_appliedSteps row) (drop (length (ck_appliedSteps row)) STEP_ORDER) (initial_run_state ctx row)"
    using run_steps_remaining(2,3) [OF p] by (simp add: on_track_def)
  show "row_behind ctx (initial_run_state ctx row) rows"
    using assms(2) by (simp add: row_behind_def)
qed

text \<open>What a submission leaves of the table, and how it ends.\<close>

lemma execute_progress:
  assumes "executeFromCheckpoint gw at_time ctx row confirmation w = (res, w')"
    and "checkpoints_ok (wd_checkpoints w)"
    and "find (checkpoint_of (tx_organizationId ctx) (tx_intakeRevisionId ctx)) (wd_checkpoints w) = Some row"
  shows "checkpoints_ok (wd_checkpoints w') \<and> grown (wd_checkpoints w) (wd_checkpoints w') \<and>
    (\<forall>r. res = Inr r \<longrightarrow> (\<exists>rs. r = result_of row rs \<and> loop_end (ck_appliedSteps row) rs))"
proof -
  note enter = enter_loop [OF assms(2,3)]
  have loop: "checkpoints_ok (wd_checkpoints w1) \<and> grown (wd_checkpoints w) (wd_checkpoints w1) \<and>
      (\<forall>rs. l = Inr rs \<longrightarrow> loop_end (ck_appliedSteps row) rs \<and> row_behind ctx rs (wd_checkpoints w1))"
    if "run_steps gw at_time ctx (ck_appliedSteps row) STEP_ORDER (initial_run_state ctx row) w = (l, w1)" for l w1
    using run_steps_progress [OF that [unfolded enter(1)] assms(2) enter(2)]
      run_steps_grown [OF that [unfolded enter(1)] assms(2) enter(2,3)] by simp
  from assms(1) show ?thesis
  proof (cases rule: execute_cases)
    case stale
    then show ?thesis using assms(2) by simp
  next
    case loop_throws
    then show ?thesis using loop by simp
  next
    case final_throws
    then show ?thesis using loop by simp
  next
    case (finished rs w1 row' rows)
    note l = loop [OF finished(2)]
    then have "prefix (cu_appliedSteps (final_update rs)) STEP_ORDER" by (simp add: loop_end_def)
    with safe_update_ok [OF finished(3)] update_behind [OF finished(3)] l finished(4,5)
    show ?thesis by (auto intro: grown_trans)
  qed
qed

text \<open>The calls of a submission.\<close>

lemma execute_calls:
  assumes "executeFromCheckpoint (logged gw) at_time ctx row confirmation w = (res, w')"
    and "checkpoints_ok (wd_checkpoints w)"
    and "find (checkpoint_of (tx_organizationId ctx) (tx_intakeRevisionId ctx)) (wd_checkpoints w) = Some row"
  shows "\<exists>calls n. fst (wd_gateway w') = fst (wd_gateway w) @ calls \<and>
    map call_id calls = map (step_call_id ctx) (take n (filter (\<lambda>s. s \<noteq> CONFIRM_VALIDATE)
      (drop (length (ck_appliedSteps row)) STEP_ORDER))) \<and>
    (calls \<noteq> [] \<longrightarrow> isConfirmationValid confirmation (buildStaffReviewContextFromCheckpoint row))"
proof -
  note enter = enter_loop [OF assms(2,3)]
  have loop: "\<exists>calls n. fst (wd_gateway w1) = fst (wd_gateway w) @ calls \<and>
      map call_id calls = map (step_call_id ctx) (take n (filter (\<lambda>s. s \<noteq> CONFIRM_VALIDATE)
        (drop (length (ck_appliedSteps row)) STEP_ORDER)))"
    if "run_steps (logged gw) at_time ctx (ck_appliedSteps row) STEP_ORDER (initial_run_state ctx row) w = (l, w1)"
    for l w1
    using run_steps_calls [OF that [unfolded enter(1)]] enter(2) by (simp add: on_track_def)
  from assms(1) show ?thesis
  proof (cases rule: execute_cases)
    case stale
    then show ?thesis by (intro exI [of _ "[]"] exI [of _ 0]) simp
  next
    case loop_throws
    then show ?thesis using loop by blast
  next
    case final_throws
    then show ?thesis using loop by blast
  next
    case finished
    then show ?thesis using loop [OF finished(2)] by auto
  qed
qed

end
