(* ===== verification/Intake_Target.thy ===== *)
theory Intake_Target
  imports Intake_Facts
begin

text \<open>
  Lemmas on whole submissions: the calls and rows of a sequence of them, the target a row
  carries after one, and which later submissions its row refuses.
\<close>

section \<open>Submissions and the table\<close>

definition survives :: "checkpoint list \<Rightarrow> checkpoint list \<Rightarrow> bool" where
  "survives rows rows' \<longleftrightarrow> (\<forall>row \<in> set rows. \<exists>row' \<in> set rows'.
     checkpoint_core row' = checkpoint_core row \<and> prefix (ck_appliedSteps row) (ck_appliedSteps row'))"

lemma survives_refl: "survives rows rows"
  by (auto simp: survives_def)

lemma survives_trans: "survives rows rows1 \<Longrightarrow> survives rows1 rows2 \<Longrightarrow> survives rows rows2"
  unfolding survives_def by (fastforce dest: bspec intro: prefix_order.trans)

lemma grown_survives: "grown rows rows' \<Longrightarrow> survives rows rows'"
  unfolding grown_def by (induction rule: list_all2_induct) (auto simp: survives_def)

lemma buildStepContext_simps [simp]:
  "tx_organizationId (buildStepContext req) = iq_organizationId req"
  "tx_intakeRevisionId (buildStepContext req) = iq_intakeRevisionId req"
  "tx_draftDigest (buildStepContext req) = iq_draftDigest req"
  "tx_canonicalId (buildStepContext req) = cf_canonicalId (iq_confirmation req)"
  "tx_canonicalVersion (buildStepContext req) = map_option JNum (cf_canonicalVersion (iq_confirmation req))"
  by (simp_all add: buildStepContext_def)

lemma submit_progress:
  assumes "submit gw op w = (res, w')" and "checkpoints_ok (wd_checkpoints w)"
  shows "checkpoints_ok (wd_checkpoints w') \<and> survives (wd_checkpoints w) (wd_checkpoints w')"
  using assms
proof (cases rule: submit_cases)
  case refused
  then show ?thesis using assms(2) by (simp add: survives_refl)
next
  case (executed row rows)
  have "survives (wd_checkpoints w) rows" using executed(1) by (auto simp: survives_def)
  moreover have "checkpoints_ok (wd_checkpoints w') \<and> grown rows (wd_checkpoints w')"
    using execute_progress [OF executed(9)] executed(2,3) by simp
  ultimately show ?thesis by (blast intro: survives_trans grown_survives)
qed

lemma submissions_progress:
  assumes "checkpoints_ok (wd_checkpoints w)"
  shows "checkpoints_ok (wd_checkpoints (submissions gw ops w)) \<and>
    survives (wd_checkpoints w) (wd_checkpoints (submissions gw ops w))"
  using assms
proof (induction ops arbitrary: w)
  case Nil
  then show ?case by (simp add: survives_refl)
next
  case (Cons op ops)
  from submit_progress [OF prod.collapse [symmetric] Cons.prems, of gw op] Cons.IH
  show ?case by (auto intro: survives_trans)
qed

text \<open>A row found before a submission is the one it is executed from.\<close>

lemma executed_row:
  assumes "rows = rows0 \<or> rows = rows0 @ [row] \<and> fresh_row row" and "checkpoints_ok rows"
    and "find (checkpoint_of org rev_id) rows = Some row" and "find (checkpoint_of org rev_id) rows0 = Some row0"
  shows "row = row0 \<and> rows = rows0"
proof -
  have "row = row0" using assms(1,3,4) by (auto simp: find_append)
  moreover have "rows \<noteq> rows0 @ [row]"
    using assms(2,4) \<open>row = row0\<close> find_checkpoint [OF assms(4)] by (auto simp: checkpoints_ok_def)
  ultimately show ?thesis using assms(1) by blast
qed

text \<open>Every call of a submission is one of the steps that were still to do.\<close>

lemma submit_calls:
  assumes "submit (logged gw) op w = (res, w')" and "checkpoints_ok (wd_checkpoints w)"
  shows "\<exists>calls. fst (wd_gateway w') = fst (wd_gateway w) @ calls \<and> (\<forall>a \<in> set calls. \<exists>step.
    call_id a = step_call_id (buildStepContext (op_request op)) step \<and>
    (\<forall>row. find (checkpoint_of (iq_organizationId (op_request op)) (iq_intakeRevisionId (op_request op)))
       (wd_checkpoints w) = Some row \<longrightarrow> step \<notin> set (ck_appliedSteps row)))"
  using assms
proof (cases rule: submit_cases)
  case (executed row rows)
  from execute_calls [OF executed(9)] executed(2,3) obtain calls n where calls:
      "fst (wd_gateway w') = fst (wd_gateway w) @ calls"
      "map call_id calls = map (step_call_id (buildStepContext (op_request op)))
        (take n (filter (\<lambda>s. s \<noteq> CONFIRM_VALIDATE) (drop (length (ck_appliedSteps row)) STEP_ORDER)))"
    by auto
  have "\<exists>step. call_id a = step_call_id (buildStepContext (op_request op)) step \<and>
      (\<forall>row. find (checkpoint_of (iq_organizationId (op_request op)) (iq_intakeRevisionId (op_request op)))
         (wd_checkpoints w) = Some row \<longrightarrow> step \<notin> set (ck_appliedSteps row))" if "a \<in> set calls" for a
  proof -
    have "call_id a \<in> set (map call_id calls)" using that by simp
    then obtain step where step: "call_id a = step_call_id (buildStepContext (op_request op)) step"
        "step \<in> set (drop (length (ck_appliedSteps row)) STEP_ORDER)"
      unfolding calls(2) by (auto dest: in_set_takeD)
    have "prefix (ck_appliedSteps row) STEP_ORDER"
      using executed(2) find_checkpoint [OF executed(3)] by (auto simp: checkpoints_ok_def)
    from run_steps_remaining(2) [OF this] step(2) have "step \<notin> set (ck_appliedSteps row)" by auto
    then show ?thesis using step(1) executed_row [OF executed(1-3)] by blast
  qed
  then show ?thesis using calls(1) by blast
qed simp

text \<open>Keys of steps of different revisions differ.\<close>

lemma step_key_eq:
  "buildStepIdempotencyKey r s = buildStepIdempotencyKey r' s' \<longleftrightarrow> r = r' \<and> s = s'"
proof
  assume "buildStepIdempotencyKey r s = buildStepIdempotencyKey r' s'"
  then have "rev (r @ '':'' @ step_string s) = rev (r' @ '':'' @ step_string s')"
    by (simp add: buildStepIdempotencyKey_def)
  then show "r = r' \<and> s = s'" by (cases s; cases s') simp_all
qed simp

section \<open>The target of a row\<close>

text \<open>Once the identity step found a profile, it is the effective target.\<close>

definition target_tracked :: "run_state \<Rightarrow> bool" where
  "target_tracked rs \<longleftrightarrow> (\<forall>v cid. st_IDENTITY (rs_stepResults rs) = Some v \<and>
     ir_kind v \<noteq> JStr ''POSSIBLE_MATCH'' \<and> ir_canonicalId v = Some cid \<longrightarrow> rs_canonicalId rs = Some cid)"

lemma record_tracked: "target_tracked rs \<Longrightarrow> target_tracked (record_step step v rs)"
  by (cases v) (auto simp: target_tracked_def record_step_def)

lemma run_steps_tracked:
  assumes "run_steps gw at_time ctx appliedSet steps rs w = (Inr rs', w')"
    and "set steps \<inter> set appliedSet = {}" and "target_tracked rs"
  shows "target_tracked rs'"
  using assms
proof (induction steps arbitrary: rs w)
  case (Cons step steps)
  have same: "target_tracked (fail_step appliedSet step e x) = target_tracked x"
      "target_tracked (x\<lparr>rs_terminalState := t\<rparr>) = target_tracked x" for e x t
    by (simp_all add: target_tracked_def)
  have app: "step \<notin> set appliedSet" using Cons.prems(2) by auto
  from Cons.prems(1) app show ?case
  proof (cases rule: run_steps_cases)
    case (next_step row rows v g row1 rows1)
    show ?thesis by (rule Cons.IH [OF next_step(5)]) (use Cons.prems(2,3) record_tracked in auto)
  qed (use Cons.prems(3) same record_tracked in auto)
qed simp

text \<open>A row whose target differs from that of its draft refuses every submission.\<close>

lemma mismatch_refuses:
  assumes ok: "checkpoints_ok (wd_checkpoints w)"
    and row: "find (checkpoint_of (iq_organizationId (op_request op)) (iq_intakeRevisionId (op_request op)))
      (wd_checkpoints w) = Some row"
    and digest: "ck_draftDigest row = computeServerDigest (pl_sha256 (op_platform op)) (pl_collate (op_platform op)) d"
    and target: "ck_canonicalId row \<noteq> dr_canonicalId d \<or> ck_canonicalVersion row \<noteq> dr_canonicalVersion d"
    and inj: "inj_on (pl_sha256 (op_platform op))
      {canonicalJson (buildCanonicalDraft (pl_collate (op_platform op)) d),
       canonicalJson (buildCanonicalDraft (pl_collate (op_platform op)) (draft_of_request (op_request op)))}"
    and int: "integral_version d" "integral_version (draft_of_request (op_request op))"
  shows "\<exists>e. submit gw op w = (Inl e, w)"
proof -
  obtain res w' where s: "submit gw op w = (res, w')" by fastforce
  from s ok show ?thesis
  proof (cases rule: submit_cases)
    case refused
    then show ?thesis using s by blast
  next
    case (executed row' rows)
    have same: "row' = row" "rows = wd_checkpoints w" using executed_row [OF executed(1-3) row] by auto
    let ?t = "\<lambda>d. canonicalJson (buildCanonicalDraft (pl_collate (op_platform op)) d)"
    have "pl_sha256 (op_platform op) (?t d) = pl_sha256 (op_platform op) (?t (draft_of_request (op_request op)))"
      using digest executed(8) same(1)
      by (simp add: op_digest_def computeServerDigestFromReq_def computeServerDigest_def digestCanonical_def)
    then have "?t d = ?t (draft_of_request (op_request op))" using inj_on_eq_iff [OF inj] by blast
    then have "ordered_draft (pl_collate (op_platform op)) d =
        ordered_draft (pl_collate (op_platform op)) (draft_of_request (op_request op))"
      using draft_text_eq [OF int] by blast
    then have "dr_canonicalId d = dr_canonicalId (draft_of_request (op_request op))"
        "dr_canonicalVersion d = dr_canonicalVersion (draft_of_request (op_request op))"
      unfolding ordered_draft_def by (metis draft_input.ext_inject draft_input.surjective draft_input.update_convs(10))+
    then have "\<not> isConfirmationValid (iq_confirmation (op_request op))
        (buildStaffReviewContextFromCheckpoint row')"
      using target same(1)
      by (auto simp: isConfirmationValid_def buildStaffReviewContextFromCheckpoint_def draft_of_request_def)
    then show ?thesis using executed(9) s same by (auto simp: executeFromCheckpoint_def)
  qed
qed

text \<open>The row a finished submission leaves.\<close>

lemma finished_row:
  assumes "submit gw op w = (Inr r, w')" and "checkpoints_ok (wd_checkpoints w)"
  obtains row rows rs w1 row' where
    "rows = wd_checkpoints w \<or> rows = wd_checkpoints w @ [row] \<and> fresh_row row"
    "checkpoints_ok rows" "find (checkpoint_of (iq_organizationId (op_request op))
      (iq_intakeRevisionId (op_request op))) rows = Some row"
    "isConfirmationValid (iq_confirmation (op_request op)) (buildStaffReviewContextFromCheckpoint row)"
    "run_steps gw (pl_collectedAt (op_platform op)) (buildStepContext (op_request op)) (ck_appliedSteps row)
      STEP_ORDER (initial_run_state (buildStepContext (op_request op)) row) (w\<lparr>wd_checkpoints := rows\<rparr>) = (Inr rs, w1)"
    "r = result_of row rs"
    "find (checkpoint_of (iq_organizationId (op_request op)) (iq_intakeRevisionId (op_request op)))
      (wd_checkpoints w') = Some row'"
    "ck_draftDigest row' = op_digest op" "ck_appliedSteps row' = rs_newAppliedSteps rs"
    "ck_canonicalId row' = nullish_opt (rs_canonicalId rs) (ck_canonicalId row') "
    "rs_canonicalVersion rs = Some (JNum n) \<Longrightarrow> ck_canonicalVersion row' = Some n"
proof -
  from assms show ?thesis
  proof (cases rule: submit_cases)
    case (executed row rows)
    from executed(9) show ?thesis
    proof (cases rule: execute_cases)
      case (finished rs w1 row' rows')
      have ok: "checkpoints_ok (wd_checkpoints w1)"
      proof -
        note e = enter_loop [of rows "buildStepContext (op_request op)" row, simplified, OF executed(2,3)]
        show ?thesis using run_steps_progress [OF finished(2) [unfolded e(1)] _ e(2)] executed(2) by simp
      qed
      from safe_update_row [OF finished(3) ok] obtain row0 where row0:
          "row' = updated_checkpoint (final_update rs) (ck_canonicalVersion row') row0"
          "column_version (rs_canonicalVersion rs) (ck_canonicalVersion row0) = Some (ck_canonicalVersion row')"
          "find (checkpoint_of (iq_organizationId (op_request op)) (iq_intakeRevisionId (op_request op))) rows' = Some row'"
        by auto
      have prog: "grown rows (wd_checkpoints w')"
        using execute_progress [OF executed(9)] executed(2,3) by simp
      have w': "wd_checkpoints w' = rows'" using finished(5) by simp
      from grown_find [OF prog executed(3)] row0(3) w'
      have core: "checkpoint_core row' = checkpoint_core row" by auto
      show ?thesis
      proof (rule that [OF executed(1-3) finished(1,2)])
        show "find (checkpoint_of (iq_organizationId (op_request op)) (iq_intakeRevisionId (op_request op)))
            (wd_checkpoints w') = Some row'" using row0(3) w' by simp
        show "ck_draftDigest row' = op_digest op" using core executed(8) by (simp add: checkpoint_core_def)
        show "ck_appliedSteps row' = rs_newAppliedSteps rs" by (subst row0(1)) simp
        have "ck_canonicalId row' = nullish_opt (rs_canonicalId rs) (ck_canonicalId row0)"
          by (subst row0(1)) simp
        then show "ck_canonicalId row' = nullish_opt (rs_canonicalId rs) (ck_canonicalId row')"
          by (cases "rs_canonicalId rs") simp_all
        show "ck_canonicalVersion row' = Some n" if "rs_canonicalVersion rs = Some (JNum n)"
          using row0(2) that by (simp split: if_splits)
      qed (use finished(4) in simp)
    qed simp_all
  qed simp
qed

section \<open>After a review was asked for\<close>

lemma no_review_without_identity:
  assumes "run_steps gw at_time ctx appliedSet steps rs w = (Inr rs', w')"
    and "set steps \<inter> set appliedSet = {}" and "IDENTITY \<notin> set steps"
    and "rs_terminalState rs \<noteq> CK_REVIEW_PENDING"
  shows "rs_terminalState rs' \<noteq> CK_REVIEW_PENDING"
  using assms
proof (induction steps arbitrary: rs w)
  case (Cons step steps)
  have app: "step \<notin> set appliedSet" using Cons.prems(2) by auto
  from Cons.prems(1) app show ?case
  proof (cases rule: run_steps_cases)
    case (review row rows v g row1 rows1)
    then show ?thesis using possible_match_identity [OF review(2,4)] Cons.prems(3) by simp
  next
    case (next_step row rows v g row1 rows1)
    show ?thesis by (rule Cons.IH [OF next_step(5)]) (use Cons.prems in auto)
  qed auto
qed simp

text \<open>A review leaves the effective target as it was.\<close>

lemma review_keeps_target:
  assumes "run_steps gw at_time ctx appliedSet steps rs w = (Inr rs', w')"
    and "on_track appliedSet steps rs" and "rs_terminalState rs \<noteq> CK_REVIEW_PENDING"
    and "rs_terminalState rs' = CK_REVIEW_PENDING"
  shows "rs_canonicalId rs' = rs_canonicalId rs \<and> rs_canonicalVersion rs' = rs_canonicalVersion rs"
  using assms
proof (induction steps arbitrary: rs w)
  case (Cons step steps)
  note track = on_track_step [OF Cons.prems(2)]
  from Cons.prems(1) track(1) show ?case
  proof (cases rule: run_steps_cases)
    case (review row rows v g row1 rows1)
    then show ?thesis by (cases v) (simp_all add: record_step_def)
  next
    case (next_step row rows v g row1 rows1)
    have "step = CONFIRM_VALIDATE"
    proof (rule ccontr)
      assume "step \<noteq> CONFIRM_VALIDATE"
      then have "IDENTITY \<notin> set steps"
        using Cons.prems(2) by (auto simp: on_track_def STEP_ORDER_def append_eq_Cons_conv Cons_eq_append_conv)
      then show False
        using no_review_without_identity [OF next_step(5)] track(2) Cons.prems(3,4) by (simp add: on_track_def)
    qed
    then have "v = Confirmed" using next_step(2) by auto
    with Cons.IH [OF next_step(5) track(2)] Cons.prems(3,4) show ?thesis by (simp add: record_step_def)
  qed (use Cons.prems(4) in \<open>auto split: if_splits\<close>)
qed simp

text \<open>A submission is executed when its digests bind and its row has them.\<close>

lemma submit_execute:
  assumes "iq_draftDigest (op_request op) = op_digest op"
    and "cf_draftDigest (iq_confirmation (op_request op)) = op_digest op"
    and "iq_organizationId (op_request op) \<noteq> []" and "iq_intakeRevisionId (op_request op) \<noteq> []"
    and "find (checkpoint_of (iq_organizationId (op_request op)) (iq_intakeRevisionId (op_request op)))
      (wd_checkpoints w) = Some row"
    and "ck_draftDigest row = op_digest op" and "checkpoints_ok (wd_checkpoints w)"
  shows "submit gw op w = executeFromCheckpoint gw (pl_collectedAt (op_platform op))
    (buildStepContext (op_request op)) row (iq_confirmation (op_request op)) w"
proof -
  have "is_sha256_hex (op_digest op)"
    using find_checkpoint [OF assms(5)] assms(6,7) by (auto simp: checkpoints_ok_def)
  moreover from this have "op_digest op \<noteq> []" by (auto simp: is_sha256_hex_def)
  moreover have "digest_check (op_digest op) (op_request op) = None"
    using assms(1,2) by (simp add: digest_check_None)
  ultimately show ?thesis using assms
    by (cases op) (simp_all add: op_digest_def intake_run_def resumeWithPayload_def Let_def
      createIntakeCheckpoint_def new_checkpoint_def findIntakeCheckpoint_def)
qed

lemma begin_succeeds:
  assumes "find (checkpoint_of (tx_organizationId ctx) (tx_intakeRevisionId ctx)) rows = Some row"
  shows "\<exists>row' rows'. safeUpdateCheckpoint ctx (begin_update step rs) rows = (Inr row', rows')"
  using assms by (simp add: safeUpdateCheckpoint_def updateIntakeCheckpoint_def)

text \<open>A loop that is at the profile step with a target begins with that step's call.\<close>

lemma profile_call_first:
  assumes "run_steps (logged gw) at_time ctx appliedSet (PROFILE # steps) rs w = (res, w')"
    and "set (PROFILE # steps) \<inter> set appliedSet = {}"
    and "find (checkpoint_of (tx_organizationId ctx) (tx_intakeRevisionId ctx)) (wd_checkpoints w) = Some row"
    and "rs_canonicalId rs = Some c" and "c \<noteq> []"
  shows "\<exists>a rest. fst (wd_gateway w') = fst (wd_gateway w) @ a # rest \<and> call_id a = step_call_id ctx PROFILE"
proof -
  have call: "\<exists>a. fst g = fst (wd_gateway w) @ [a] \<and> call_id a = step_call_id ctx PROFILE"
    if "executeStep (logged gw) at_time PROFILE (step_ctx_of ctx rs) (wd_gateway w) = (x, g)" for x g
  proof -
    note ex = that
    have moves: "profileStep (logged gw) (step_ctx_of ctx rs) (wd_gateway w) \<noteq> (y, wd_gateway w)" for y
      using assms(4,5) by (auto simp: profileStep_def step_ctx_of_def Let_def dest!: logged_step_call
          split: prod.splits sum.splits if_splits)
    have "g \<noteq> wd_gateway w"
    proof
      assume "g = wd_gateway w"
      then obtain y where "profileStep (logged gw) (step_ctx_of ctx rs) (wd_gateway w) = (y, wd_gateway w)"
        using ex by auto
      then show False using moves by blast
    qed
    then show ?thesis using executeStep_calls [OF that] by auto
  qed
  have app: "PROFILE \<notin> set appliedSet" using assms(2) by auto
  from assms(1) app show ?thesis
  proof (cases rule: run_steps_cases)
    case begin_fails
    then show ?thesis using begin_succeeds [OF assms(3), of PROFILE rs] by auto
  next
    case step_fails
    then show ?thesis using call [OF step_fails(2)] by auto
  next
    case commit_fails
    then show ?thesis using call [OF commit_fails(2)] by auto
  next
    case review
    then show ?thesis using call [OF review(2)] by auto
  next
    case (next_step r rows v g row1 rows1)
    from run_steps_calls [OF next_step(5)] assms(2) call [OF next_step(2)] show ?thesis by auto
  qed
qed

section \<open>A gateway that refuses profile updates\<close>

definition lacks :: "step_name \<Rightarrow> checkpoint list \<Rightarrow> bool" where
  "lacks step rows \<longleftrightarrow> (\<forall>r \<in> set rows. step \<notin> set (ck_appliedSteps r))"

text \<open>Calls keep an invariant of the gateway, and under it every profile update fails.\<close>

definition refuses_profile :: "'g gateway_caller \<Rightarrow> ('g \<Rightarrow> bool) \<Rightarrow> bool" where
  "refuses_profile gw P \<longleftrightarrow> (\<forall>args g. P g \<and> ga_scenarioId args = SN_EXACT_MATCH_SUCCESS \<longrightarrow>
     P (snd (gw args g)) \<and> (ga_method args = ''updateLaborProfile'' \<longrightarrow>
       (\<exists>res es. fst (gw args g) = Inr res \<and> cx_outcome res = Failed es)))"

lemma step_call_refused:
  assumes "refuses_profile gw P" and "P g" and "step_call gw (step_args ctx method step payload) g = (x, g')"
  shows "P g' \<and> (method = ''updateLaborProfile'' \<longrightarrow> (\<exists>e. x = Inl e))"
proof -
  have scenario: "ga_scenarioId (step_args ctx method step payload) = SN_EXACT_MATCH_SUCCESS"
      "ga_method (step_args ctx method step payload) = method" by (simp_all add: step_args_def)
  obtain y where y: "gw (step_args ctx method step payload) g = (y, g')"
    using assms(3) by (cases "gw (step_args ctx method step payload) g")
      (auto simp: step_call_def split: sum.splits call_outcome.splits)
  from assms(1,2) scenario have "P (snd (gw (step_args ctx method step payload) g)) \<and>
      (method = ''updateLaborProfile'' \<longrightarrow>
       (\<exists>res es. fst (gw (step_args ctx method step payload) g) = Inr res \<and> cx_outcome res = Failed es))"
    unfolding refuses_profile_def by metis
  then show ?thesis using assms(3) y by (auto simp: step_call_def)
qed

lemma executeStep_refused:
  assumes "refuses_profile gw P" and "P g" and "executeStep gw at_time step ctx g = (x, g')"
  shows "P g' \<and> (step = PROFILE \<longrightarrow> (\<exists>e. x = Inl e))"
proof -
  note r = step_call_refused [OF assms(1,2)]
  show ?thesis
  proof (cases step)
    case CONFIRM_VALIDATE
    then show ?thesis using assms(2,3) by auto
  next
    case IDENTITY
    then show ?thesis using assms(2,3)
      by (auto simp: identityStep_def Let_def dest!: r split: prod.splits sum.splits if_splits)
  next
    case PROFILE
    then show ?thesis using assms(2,3)
      by (auto simp: profileStep_def Let_def dest!: r split: prod.splits sum.splits if_splits option.splits)
  next
    case CASE
    then show ?thesis using assms(2,3)
      by (auto simp: caseStep_def Let_def dest!: r split: prod.splits sum.splits if_splits)
  next
    case AVAILABILITY
    then show ?thesis using assms(2,3)
      by (auto simp: availabilityStep_def Let_def dest!: r split: prod.splits sum.splits if_splits)
  qed
qed

lemma safe_update_lacks:
  assumes "safeUpdateCheckpoint ctx upd rows = (res, rows')" and "lacks step rows"
    and "step \<notin> set (cu_appliedSteps upd)"
  shows "lacks step rows'"
  using assms
  by (auto simp: safeUpdateCheckpoint_def updateIntakeCheckpoint_def lacks_def set_update_where
      split: option.splits)

lemma run_steps_lacks:
  assumes "refuses_profile gw P" and "run_steps gw at_time ctx appliedSet steps rs w = (res, w')"
    and "set steps \<inter> set appliedSet = {}" and "P (wd_gateway w)" and "lacks PROFILE (wd_checkpoints w)"
    and "PROFILE \<notin> set (rs_newAppliedSteps rs)"
  shows "P (wd_gateway w') \<and> lacks PROFILE (wd_checkpoints w') \<and>
    (\<forall>rs'. res = Inr rs' \<longrightarrow> PROFILE \<notin> set (rs_newAppliedSteps rs'))"
  using assms(2-)
proof (induction steps arbitrary: rs w)
  case Nil
  then show ?case by auto
next
  case (Cons step steps)
  have app: "step \<notin> set appliedSet" using Cons.prems(2) by auto
  have first: "lacks PROFILE rows"
    if "safeUpdateCheckpoint ctx (begin_update step rs) (wd_checkpoints w) = (x, rows)" for x rows
    by (rule safe_update_lacks [OF that Cons.prems(4)]) (simp add: Cons.prems(5))
  have second: "lacks PROFILE rows1"
    if "safeUpdateCheckpoint ctx (commit_update step (record_step step v rs)) rows = (x, rows1)"
      "lacks PROFILE rows" "step \<noteq> PROFILE" for v x rows rows1
    by (rule safe_update_lacks [OF that(1,2)]) (simp add: Cons.prems(5) that(3) [symmetric])
  note ex = executeStep_refused [OF assms(1) Cons.prems(3)]
  from Cons.prems(1) app show ?case
  proof (cases rule: run_steps_cases)
    case begin_fails
    then show ?thesis using first Cons.prems(3) by auto
  next
    case step_fails
    then show ?thesis using first [OF step_fails(1)] ex [OF step_fails(2)] Cons.prems(5) by auto
  next
    case commit_fails
    then show ?thesis
      using first [OF commit_fails(1)] second [OF commit_fails(3)] ex [OF commit_fails(2)] Cons.prems(5) by auto
  next
    case review
    then show ?thesis
      using first [OF review(1)] second [OF review(3)] ex [OF review(2)] Cons.prems(5) by auto
  next
    case (next_step row rows v g row1 rows1)
    have "step \<noteq> PROFILE" "P g" using ex [OF next_step(2)] by auto
    then show ?thesis
      using Cons.IH [OF next_step(5)] first [OF next_step(1)] second [OF next_step(3)] Cons.prems(2,5) by auto
  qed
qed

lemma submit_lacks:
  assumes "refuses_profile gw P" and "submit gw op w = (res, w')" and "checkpoints_ok (wd_checkpoints w)"
    and "P (wd_gateway w)" and "lacks PROFILE (wd_checkpoints w)"
  shows "P (wd_gateway w') \<and> lacks PROFILE (wd_checkpoints w') \<and>
    (\<forall>r. res = Inr r \<longrightarrow> PROFILE \<notin> set (rr_appliedSteps r))"
  using assms(2,3)
proof (cases rule: submit_cases)
  case refused
  then show ?thesis using assms(4,5) by simp
next
  case (executed row rows)
  let ?ctx = "buildStepContext (op_request op)"
  have rows: "lacks PROFILE rows" using executed(1) assms(5) by (auto simp: lacks_def fresh_row_def)
  then have row: "PROFILE \<notin> set (ck_appliedSteps row)"
    using find_checkpoint [OF executed(3)] by (auto simp: lacks_def)
  note e = enter_loop [of rows ?ctx row, simplified, OF executed(2,3)]
  have loop: "P (wd_gateway w1) \<and> lacks PROFILE (wd_checkpoints w1) \<and>
      (\<forall>rs. l = Inr rs \<longrightarrow> PROFILE \<notin> set (rs_newAppliedSteps rs))"
    if "run_steps gw at_time ?ctx (ck_appliedSteps row) STEP_ORDER (initial_run_state ?ctx row)
      (w\<lparr>wd_checkpoints := rows\<rparr>) = (l, w1)" for at_time l w1
    using run_steps_lacks [OF assms(1) that [unfolded e(1)]] e(2) rows row assms(4) by (simp add: on_track_def)
  from executed(9) show ?thesis
  proof (cases rule: execute_cases)
    case stale
    then show ?thesis using rows assms(4) by simp
  next
    case loop_throws
    then show ?thesis using loop by simp
  next
    case final_throws
    then show ?thesis using loop by simp
  next
    case (finished rs w1 row' rows')
    then show ?thesis using loop [OF finished(2)] safe_update_lacks [OF finished(3)]
      by (auto simp: result_of_def)
  qed
qed

end
