(* ===== verification/Intake_Properties.thy ===== *)
theory Intake_Properties
  imports Intake_Target
begin

text \<open>
  What the intake workflow guarantees and where it does not keep its promises: bound drafts,
  steps that are applied once, the outcome of a run, and the resumptions it makes impossible.
\<close>

section \<open>Samples\<close>

definition sample_platform :: platform where
  "sample_platform =
     \<lparr>pl_sha256 = \<lambda>_. replicate 64 CHR ''a'', pl_collate = length, pl_checkpointId = ''icp-1'',
      pl_collectedAt = ''2026-09-14T00:00:00.000Z''\<rparr>"

definition sample_request :: "string option \<Rightarrow> rat option \<Rightarrow> run_request" where
  "sample_request cid version =
     \<lparr>iq_organizationId = ''org'', iq_intakeRevisionId = ''r1'', iq_fullName = ''An'', iq_phone = ''090'',
      iq_citizenNumber = ''012'', iq_citizenAddress = ''HN'', iq_contactAddress = None, iq_dob = None,
      iq_intent = \<lparr>in_stage = ''NEW'', in_availability = ''NOW'', in_availableFromDate = None\<rparr>,
      iq_evidenceRefs = [], iq_confirmation = \<lparr>cf_draftRevisionId = ''r1'',
        cf_draftDigest = replicate 64 CHR ''a'', cf_canonicalId = cid, cf_canonicalVersion = version\<rparr>,
      iq_draftDigest = replicate 64 CHR ''a'', iq_provider = ''chatwoot'', iq_connectionId = ''c1'',
      iq_externalReference = ''x1'', iq_identityPolicy = None, iq_correlationId = ''corr-0001''\<rparr>"

definition sample_result :: "gateway_args \<Rightarrow> json \<Rightarrow> call_result" where
  "sample_result args data =
     \<lparr>cx_commandId = ''cmd'', cx_correlationId = ga_correlationId args, cx_outcome = Applied data\<rparr>"

text \<open>A gateway that finds or makes profile p1 and opens a case, or only asks for a review.\<close>

definition sample_gateway :: "string \<Rightarrow> unit gateway_caller" where
  "sample_gateway kind args g =
     (Inr (sample_result args
        (if ga_method args = ''createOrMatchLaborProfile'' then
           (if kind = ''POSSIBLE_MATCH'' then
              JObj [(''matchingOutcome'', JStr kind), (''reviewRef'', JStr ''rev-1'')]
            else JObj [(''matchingOutcome'', JStr kind), (''laborProfileId'', JStr ''p1''), (''version'', JNum 1)])
         else JObj [(''canonicalId'', JStr ''k1'')])), g)"

definition empty_world :: "unit world" where
  "empty_world = \<lparr>wd_checkpoints = [], wd_gateway = ()\<rparr>"

definition empty_log :: "checkpoint list \<Rightarrow> 'g \<Rightarrow> (gateway_args list \<times> 'g) world" where
  "empty_log rows g = \<lparr>wd_checkpoints = rows, wd_gateway = ([], g)\<rparr>"

lemma no_checkpoints_ok [simp]: "checkpoints_ok []"
  by (simp add: checkpoints_ok_def)

section \<open>Effects need a bound draft\<close>

text \<open>C15. A submission that calls the gateway at all was given the digest of its own draft, both by
  the client and in the confirmation, and leaves a row of its revision with that digest.\<close>

theorem calls_need_bound_draft:
  assumes "submit (logged gw) op (empty_log rows g) = (res, w')" and "checkpoints_ok rows"
    and "fst (wd_gateway w') \<noteq> []"
  shows "iq_draftDigest (op_request op) = op_digest op \<and>
    cf_draftDigest (iq_confirmation (op_request op)) = op_digest op \<and>
    cf_draftRevisionId (iq_confirmation (op_request op)) = iq_intakeRevisionId (op_request op) \<and>
    (\<exists>row \<in> set (wd_checkpoints w'). checkpoint_key row =
       (iq_organizationId (op_request op), iq_intakeRevisionId (op_request op)) \<and>
       ck_draftDigest row = op_digest op)"
proof -
  have ok: "checkpoints_ok (wd_checkpoints (empty_log rows g))" using assms(2) by (simp add: empty_log_def)
  from assms(1) ok show ?thesis
  proof (cases rule: submit_cases)
    case refused
    then show ?thesis using assms(3) by (simp add: empty_log_def)
  next
    case (executed row rows1)
    from execute_calls [OF executed(9)] executed(2,3) assms(3)
    have "isConfirmationValid (iq_confirmation (op_request op)) (buildStaffReviewContextFromCheckpoint row)"
      by (auto simp: empty_log_def)
    then have "cf_draftRevisionId (iq_confirmation (op_request op)) = iq_intakeRevisionId (op_request op)"
      using find_checkpoint [OF executed(3)]
      by (simp add: isConfirmationValid_def buildStaffReviewContextFromCheckpoint_def checkpoint_key_def)
    moreover have "grown rows1 (wd_checkpoints w')"
      using execute_progress [OF executed(9)] executed(2,3) by simp
    from grown_find [OF this executed(3)] obtain row' where
      "find (checkpoint_of (iq_organizationId (op_request op)) (iq_intakeRevisionId (op_request op)))
         (wd_checkpoints w') = Some row'" "checkpoint_core row' = checkpoint_core row" .
    then have "row' \<in> set (wd_checkpoints w') \<and> checkpoint_key row' =
        (iq_organizationId (op_request op), iq_intakeRevisionId (op_request op)) \<and>
        ck_draftDigest row' = op_digest op"
      using find_checkpoint executed(8) by (auto simp: checkpoint_core_def)
    ultimately show ?thesis using executed(6,7) by blast
  qed
qed

theorem calls_need_bound_draft_witness:
  "op_digest (Submit sample_platform (sample_request None None)) = replicate 64 CHR ''a''"
proof -
  let ?w = "submit (logged (sample_gateway ''EXACT_MATCH'')) (Submit sample_platform (sample_request None None))
    (empty_log [] ())"
  have "fst (wd_gateway (snd ?w)) \<noteq> []" by code_simp
  from calls_need_bound_draft [OF prod.collapse [symmetric] no_checkpoints_ok this]
  show ?thesis by (simp add: sample_request_def)
qed

text \<open>C16. A step that its revision's row lists as applied is never called again, by no later
  sequence of submissions and resumptions, of any revision, draft, gateway answers and times: the
  gateway sees no call of the organization with that step's key.\<close>

theorem applied_step_never_recalled:
  assumes "checkpoints_ok rows" and "find (checkpoint_of org rev_id) rows = Some row"
    and "step \<in> set (ck_appliedSteps row)"
  shows "(org, buildStepIdempotencyKey rev_id step) \<notin>
    (\<lambda>a. (ga_organizationId a, ga_idempotencyKey a)) `
      set (fst (wd_gateway (submissions (logged gw) ops (empty_log rows g))))"
proof -
  let ?no = "\<lambda>w. (org, buildStepIdempotencyKey rev_id step) \<notin>
    (\<lambda>a. (ga_organizationId a, ga_idempotencyKey a)) ` set (fst (wd_gateway w))"
  let ?has = "\<lambda>w. checkpoints_ok (wd_checkpoints w) \<and> (\<exists>row. find (checkpoint_of org rev_id)
    (wd_checkpoints w) = Some row \<and> step \<in> set (ck_appliedSteps row))"
  have "?no (submissions (logged gw) ops w)" if "?no w" "?has w" for w :: "(gateway_args list \<times> 'a) world"
    using that
  proof (induction ops arbitrary: w)
    case (Cons op ops)
    obtain res w1 where s: "submit (logged gw) op w = (res, w1)" by fastforce
    from Cons.prems(2) obtain r where ok: "checkpoints_ok (wd_checkpoints w)"
      and r: "find (checkpoint_of org rev_id) (wd_checkpoints w) = Some r" "step \<in> set (ck_appliedSteps r)" by blast
    from submit_calls [OF s ok] obtain calls where calls: "fst (wd_gateway w1) = fst (wd_gateway w) @ calls"
      "\<forall>a \<in> set calls. \<exists>t. call_id a = step_call_id (buildStepContext (op_request op)) t \<and>
        (\<forall>row. find (checkpoint_of (iq_organizationId (op_request op)) (iq_intakeRevisionId (op_request op)))
           (wd_checkpoints w) = Some row \<longrightarrow> t \<notin> set (ck_appliedSteps row))" by blast
    have "\<not> (ga_organizationId a = org \<and> ga_idempotencyKey a = buildStepIdempotencyKey rev_id step)"
      if "a \<in> set calls" for a
      using bspec [OF calls(2) that] r by (auto simp: call_id_def step_call_id_def step_key_eq)
    then have "(org, buildStepIdempotencyKey rev_id step) \<notin>
        (\<lambda>a. (ga_organizationId a, ga_idempotencyKey a)) ` set calls" by force
    then have "?no w1" using Cons.prems(1) unfolding calls(1) set_append image_Un by blast
    moreover have "?has w1"
    proof -
      from submit_progress [OF s ok] have ok1: "checkpoints_ok (wd_checkpoints w1)"
        and sv: "survives (wd_checkpoints w) (wd_checkpoints w1)" by blast+
      from sv find_checkpoint [OF r(1)] obtain r' where r': "r' \<in> set (wd_checkpoints w1)"
        "checkpoint_core r' = checkpoint_core r" "prefix (ck_appliedSteps r) (ck_appliedSteps r')"
        unfolding survives_def by blast
      have "find (checkpoint_of org rev_id) (wd_checkpoints w1) = Some r'"
        by (rule find_checkpoint_unique)
          (use ok1 r' find_checkpoint [OF r(1)] in \<open>auto simp: checkpoints_ok_def checkpoint_core_def\<close>)
      then show ?thesis using ok1 r(2) set_mono_prefix [OF r'(3)] by blast
    qed
    ultimately have "?no (submissions (logged gw) ops w1)" by (rule Cons.IH)
    then show ?case by (simp add: s)
  qed simp
  then show ?thesis using assms by (simp add: empty_log_def)
qed

definition sample_rows :: "string \<Rightarrow> run_request \<Rightarrow> checkpoint list" where
  "sample_rows kind req = wd_checkpoints (snd (submit (sample_gateway kind) (Submit sample_platform req) empty_world))"

theorem applied_step_never_recalled_witness:
  "(''org'', ''intake:r1:IDENTITY'') \<notin> (\<lambda>a. (ga_organizationId a, ga_idempotencyKey a)) `
     set (fst (wd_gateway (submissions (logged (sample_gateway ''EXACT_MATCH''))
       [Resume_Payload sample_platform (sample_request None None)]
       (empty_log (sample_rows ''POSSIBLE_MATCH'' (sample_request None None)) ()))))"
proof -
  let ?rows = "sample_rows ''POSSIBLE_MATCH'' (sample_request None None)"
  have ok: "checkpoints_ok ?rows"
    unfolding sample_rows_def by (rule conjunct1 [OF submit_progress [OF prod.collapse [symmetric]]])
      (simp add: empty_world_def)
  have f: "find (checkpoint_of ''org'' ''r1'') ?rows = Some (hd ?rows)" by code_simp
  have applied: "IDENTITY \<in> set (ck_appliedSteps (hd ?rows))" by code_simp
  have key: "buildStepIdempotencyKey ''r1'' IDENTITY = ''intake:r1:IDENTITY''" by code_simp
  show ?thesis by (rule applied_step_never_recalled [OF ok f applied, unfolded key])
qed

text \<open>Rows are durable: over any sequence of submissions each row keeps its key, identifier and
  digest and the steps it lists as applied, and the applied steps of every row are the first ones
  of the order.\<close>

lemma checkpoints_are_durable:
  assumes "checkpoints_ok (wd_checkpoints w)"
  shows "checkpoints_ok (wd_checkpoints (submissions gw ops w)) \<and>
    survives (wd_checkpoints w) (wd_checkpoints (submissions gw ops w))"
  by (rule submissions_progress [OF assms])

section \<open>The outcome of a run\<close>

lemma confirm_succeeds:
  assumes "is_sha256_hex (tx_draftDigest ctx)"
  shows "executeStep gw at_time CONFIRM_VALIDATE (step_ctx_of ctx rs) g = (Inr Confirmed, g)"
  using assms by (simp add: confirmValidateStep_def step_ctx_of_def)

lemma first_step_applied:
  assumes "run_steps gw at_time ctx [] STEP_ORDER rs w = (Inr rs', w')"
    and "checkpoints_ok (wd_checkpoints w)" and "on_track [] STEP_ORDER rs"
    and "rs_partialFailure rs = None" and "rs_terminalState rs = CK_RUNNING"
    and "is_sha256_hex (tx_draftDigest ctx)"
  shows "rs_newAppliedSteps rs' \<noteq> []"
proof -
  let ?steps = "[IDENTITY, PROFILE, CASE, AVAILABILITY]"
  have app: "CONFIRM_VALIDATE \<notin> set []" by simp
  from assms(1) [unfolded STEP_ORDER_def] app show ?thesis
  proof (cases rule: run_steps_cases)
    case step_fails
    then show ?thesis using confirm_succeeds [OF assms(6)] by simp
  next
    case (next_step row rows v g row1 rows1)
    have t: "on_track [] ?steps (record_step CONFIRM_VALIDATE v rs)"
      by (rule on_track_step(2)) (use assms(3) in \<open>simp add: STEP_ORDER_def\<close>)
    have "checkpoints_ok rows"
      using safe_update_ok [OF next_step(1) assms(2)] on_track_prefix [OF assms(3)] by simp
    from safe_update_ok [OF next_step(3) this] on_track_prefix [OF t] have "checkpoints_ok rows1" by simp
    from run_steps_progress [OF next_step(5) _ t] this assms(4,5)
    have "prefix (rs_newAppliedSteps (record_step CONFIRM_VALIDATE v rs)) (rs_newAppliedSteps rs')" by simp
    then show ?thesis by (auto simp: prefix_def)
  qed auto
qed

lemma run_outcome_table_fact:
  assumes "submit gw op w = (Inr r, w')" and "checkpoints_ok (wd_checkpoints w)"
  shows "(rr_state r, rr_partialFailure r = None) \<in>
      {(CK_COMPLETED, True), (CK_REVIEW_PENDING, True), (CK_PARTIAL, False)} \<and>
    prefix (rr_appliedSteps r) STEP_ORDER \<and> rr_appliedSteps r \<noteq> [] \<and>
    (rr_state r = CK_COMPLETED \<longrightarrow> rr_appliedSteps r = STEP_ORDER) \<and>
    (rr_state r = CK_REVIEW_PENDING \<longrightarrow> rr_appliedSteps r = [CONFIRM_VALIDATE, IDENTITY])"
  using assms
proof (cases rule: submit_cases)
  case (executed row rows)
  let ?ctx = "buildStepContext (op_request op)"
  from executed(9) show ?thesis
  proof (cases rule: execute_cases)
    case (finished rs w1 row' rows')
    note e = enter_loop [of rows ?ctx row, simplified, OF executed(2,3)]
    have "loop_end (ck_appliedSteps row) rs \<and> prefix (ck_appliedSteps row) (rs_newAppliedSteps rs)"
      using run_steps_progress [OF finished(2) [unfolded e(1)] _ e(2)] executed(2) by simp
    moreover have "rs_newAppliedSteps rs \<noteq> []" if "ck_appliedSteps row = []"
    proof -
      have "is_sha256_hex (ck_draftDigest row)"
        using executed(2) find_checkpoint [OF executed(3)] by (simp add: checkpoints_ok_def)
      then have "is_sha256_hex (tx_draftDigest ?ctx)" using executed(6,8) by simp
      then show ?thesis
        using first_step_applied [OF finished(2) [unfolded that]] executed(2) e(2) that by simp
    qed
    ultimately have "loop_end (ck_appliedSteps row) rs \<and> rs_newAppliedSteps rs \<noteq> []" by auto
    then show ?thesis using finished(4)
      by (auto simp: result_of_def final_state_def loop_end_def STEP_ORDER_def split: if_splits)
  qed simp_all
qed simp



section \<open>Submissions that can no longer succeed\<close>

text \<open>When the identity step of a first submission finds or creates a profile that the
  confirmation did not name, no submission or resumption of that revision ever succeeds again,
  whatever draft and confirmation it carries: the row's target no longer is the one its digest
  was taken of. Unless SHA-256 collides, each is refused with no call and no change.\<close>

lemma new_profile_intake_is_stuck:
  assumes "checkpoints_ok (wd_checkpoints w)"
    and fresh: "find (checkpoint_of (iq_organizationId (op_request op)) (iq_intakeRevisionId (op_request op)))
      (wd_checkpoints w) = None"
    and first: "submit gw op w = (Inr r, w1)"
    and found: "st_IDENTITY (rr_stepResults r) = Some v" "ir_kind v \<noteq> JStr ''POSSIBLE_MATCH''"
      "ir_canonicalId v = Some cid"
    and unnamed: "cf_canonicalId (iq_confirmation (op_request op)) \<noteq> Some cid"
    and again: "iq_organizationId (op_request op') = iq_organizationId (op_request op)"
      "iq_intakeRevisionId (op_request op') = iq_intakeRevisionId (op_request op)"
      "pl_sha256 (op_platform op') = pl_sha256 (op_platform op)"
      "pl_collate (op_platform op') = pl_collate (op_platform op)"
    and no_collision: "inj_on (pl_sha256 (op_platform op))
      {canonicalJson (buildCanonicalDraft (pl_collate (op_platform op)) (draft_of_request (op_request op))),
       canonicalJson (buildCanonicalDraft (pl_collate (op_platform op)) (draft_of_request (op_request op')))}"
    and int: "integral_version (draft_of_request (op_request op))" "integral_version (draft_of_request (op_request op'))"
  shows "\<exists>e. submit gw' op' w1 = (Inl e, w1)"
proof -
  from first assms(1) obtain row rows rs w0 row' where
    row: "rows = wd_checkpoints w \<or> rows = wd_checkpoints w @ [row] \<and> fresh_row row"
      "checkpoints_ok rows" "find (checkpoint_of (iq_organizationId (op_request op))
        (iq_intakeRevisionId (op_request op))) rows = Some row"
    and loop: "run_steps gw (pl_collectedAt (op_platform op)) (buildStepContext (op_request op)) (ck_appliedSteps row)
      STEP_ORDER (initial_run_state (buildStepContext (op_request op)) row) (w\<lparr>wd_checkpoints := rows\<rparr>) = (Inr rs, w0)"
    and r: "r = result_of row rs"
    and row': "find (checkpoint_of (iq_organizationId (op_request op)) (iq_intakeRevisionId (op_request op)))
      (wd_checkpoints w1) = Some row'" "ck_draftDigest row' = op_digest op"
      "ck_canonicalId row' = nullish_opt (rs_canonicalId rs) (ck_canonicalId row')"
    by (rule finished_row)
  have "rows = wd_checkpoints w @ [row] \<and> fresh_row row" using fresh row(1,3) by auto
  then have new: "ck_appliedSteps row = []" "ck_stepResults row = no_results" by (simp_all add: fresh_row_def)
  have "target_tracked rs"
    by (rule run_steps_tracked [OF loop])
      (simp_all add: new target_tracked_def initial_run_state_def no_results_def)
  then have "rs_canonicalId rs = Some cid" using found r by (simp add: target_tracked_def result_of_def)
  then have id: "ck_canonicalId row' = Some cid" using row'(3) by simp
  show ?thesis
  proof (rule mismatch_refuses)
    show "checkpoints_ok (wd_checkpoints w1)" using submit_progress [OF first assms(1)] by simp
    show "find (checkpoint_of (iq_organizationId (op_request op')) (iq_intakeRevisionId (op_request op')))
        (wd_checkpoints w1) = Some row'" using row'(1) again by simp
    show "ck_draftDigest row' = computeServerDigest (pl_sha256 (op_platform op')) (pl_collate (op_platform op'))
        (draft_of_request (op_request op))"
      using row'(2) again by (simp add: op_digest_def computeServerDigestFromReq_def)
    show "ck_canonicalId row' \<noteq> dr_canonicalId (draft_of_request (op_request op)) \<or>
        ck_canonicalVersion row' \<noteq> dr_canonicalVersion (draft_of_request (op_request op))"
      using id unnamed by (simp add: draft_of_request_def)
  qed (use again no_collision int in simp_all)
qed

section \<open>Review\<close>

text \<open>A submission that ended in REVIEW_PENDING, whose confirmation names a target, goes on at the
  profile step when the same request is submitted or resumed once more: no decision of a reviewer
  is asked for, and the first call to the gateway updates the named profile.\<close>

lemma review_is_bypassed:
  assumes "checkpoints_ok (wd_checkpoints w)"
    and first: "submit gw op w = (Inr r, w1)" and pending: "rr_state r = CK_REVIEW_PENDING"
    and target: "cf_canonicalId (iq_confirmation (op_request op)) = Some c" "c \<noteq> []"
      "cf_canonicalVersion (iq_confirmation (op_request op)) = Some n"
    and again: "op_request op' = op_request op" "op_digest op' = op_digest op"
  shows "map call_id (take 1 (fst (wd_gateway (snd (submit (logged gw') op' (empty_log (wd_checkpoints w1) g)))))) =
    [(iq_organizationId (op_request op), ''updateLaborProfile'',
      buildStepIdempotencyKey (iq_intakeRevisionId (op_request op)) PROFILE)]"
proof -
  let ?ctx = "buildStepContext (op_request op)"
  let ?find = "find (checkpoint_of (iq_organizationId (op_request op)) (iq_intakeRevisionId (op_request op)))"
  from first assms(1) have bound: "iq_draftDigest (op_request op) = op_digest op"
      "cf_draftDigest (iq_confirmation (op_request op)) = op_digest op"
      "iq_organizationId (op_request op) \<noteq> []" "iq_intakeRevisionId (op_request op) \<noteq> []"
    by (rule submit_cases, auto)+
  from first assms(1) obtain row rows rs w0 row' where
    row: "checkpoints_ok rows" "?find rows = Some row"
    and valid: "isConfirmationValid (iq_confirmation (op_request op)) (buildStaffReviewContextFromCheckpoint row)"
    and loop: "run_steps gw (pl_collectedAt (op_platform op)) ?ctx (ck_appliedSteps row)
      STEP_ORDER (initial_run_state ?ctx row) (w\<lparr>wd_checkpoints := rows\<rparr>) = (Inr rs, w0)"
    and r: "r = result_of row rs"
    and row': "?find (wd_checkpoints w1) = Some row'" "ck_draftDigest row' = op_digest op"
      "ck_appliedSteps row' = rs_newAppliedSteps rs"
      "ck_canonicalId row' = nullish_opt (rs_canonicalId rs) (ck_canonicalId row')"
      "rs_canonicalVersion rs = Some (JNum n) \<Longrightarrow> ck_canonicalVersion row' = Some n"
    by (rule finished_row [where n = n]) (rule that; blast)
  note enter = enter_loop [of rows ?ctx row, simplified, OF row]
  have start: "rs_canonicalId (initial_run_state ?ctx row) = Some c"
      "rs_canonicalVersion (initial_run_state ?ctx row) = Some (JNum n)"
  proof -
    have "ck_canonicalId row = Some c" "ck_canonicalVersion row = Some n"
      using valid target by (simp_all add: isConfirmationValid_def buildStaffReviewContextFromCheckpoint_def)
    then show "rs_canonicalId (initial_run_state ?ctx row) = Some c"
        "rs_canonicalVersion (initial_run_state ?ctx row) = Some (JNum n)"
      by (simp_all add: initial_run_state_def)
  qed
  have ended: "rs_terminalState rs = CK_REVIEW_PENDING"
    using pending r by (simp add: result_of_def final_state_def split: if_splits)
  from review_keeps_target [OF loop [unfolded enter(1)] enter(2) _ ended] start
  have "rs_canonicalId rs = Some c" "rs_canonicalVersion rs = Some (JNum n)" by simp_all
  then have tgt: "ck_canonicalId row' = Some c" "ck_canonicalVersion row' = Some n" using row'(4,5) by simp_all
  have ok1: "checkpoints_ok (wd_checkpoints w1)" using submit_progress [OF first assms(1)] by simp
  have applied: "ck_appliedSteps row' = [CONFIRM_VALIDATE, IDENTITY]"
    using run_outcome_table_fact [OF first assms(1)] pending r row'(3) by (simp add: result_of_def)
  let ?w = "empty_log (wd_checkpoints w1) g"
  have "submit (logged gw') op' ?w = executeFromCheckpoint (logged gw') (pl_collectedAt (op_platform op')) ?ctx row'
      (iq_confirmation (op_request op)) ?w"
    using submit_execute [of op' ?w row' "logged gw'"] bound row'(1,2) again ok1 by (simp add: empty_log_def)
  moreover have "isConfirmationValid (iq_confirmation (op_request op)) (buildStaffReviewContextFromCheckpoint row')"
    using valid target tgt row'(2) bound(2) find_checkpoint [OF row(2)] find_checkpoint [OF row'(1)]
    by (simp add: isConfirmationValid_def buildStaffReviewContextFromCheckpoint_def checkpoint_key_def)
  moreover obtain res w2 where second: "run_steps (logged gw') (pl_collectedAt (op_platform op')) ?ctx
      (ck_appliedSteps row') STEP_ORDER (initial_run_state ?ctx row') ?w = (res, w2)" by fastforce
  moreover from second have "run_steps (logged gw') (pl_collectedAt (op_platform op')) ?ctx (ck_appliedSteps row')
      (PROFILE # [CASE, AVAILABILITY]) (initial_run_state ?ctx row') ?w = (res, w2)"
    by (simp add: applied STEP_ORDER_def del: run_steps.simps(2) add: run_steps.simps(2) [of _ _ _ _ CONFIRM_VALIDATE]
        run_steps.simps(2) [of _ _ _ _ IDENTITY])
  from profile_call_first [OF this, of row' c] have
    "\<exists>a rest. fst (wd_gateway w2) = a # rest \<and> call_id a = step_call_id ?ctx PROFILE"
    using applied row'(1) tgt target(2) by (simp add: empty_log_def initial_run_state_def)
  ultimately show ?thesis
    by (cases res) (auto simp: executeFromCheckpoint_def step_call_id_def split: prod.split sum.split)
qed

end
