(* ===== verification/Panel_Properties.thy ===== *)
theory Panel_Properties
  imports Panel_Intake Intake_Properties
begin

text \<open>
  The context panel's intake routes: what a run needs, which reviewed intakes can never run, that
  none ever completes on the panel's gateway, and that none can be resumed.
\<close>

section \<open>Runs\<close>

text \<open>The target a run takes: that of the row if there is one, else that of the snapshot.\<close>

definition effective_target :: "run_api_request \<Rightarrow> review_snapshot \<Rightarrow> session \<Rightarrow> string option \<times> rat option" where
  "effective_target req snap s =
     (let existing = find (checkpoint_of (ra_organizationId req) (ra_intakeRevisionId req))
            (wd_checkpoints (se_world s))
      in (nullish_opt (Option.bind existing ck_canonicalId) (rv_canonicalId snap),
          nullish_opt (Option.bind existing ck_canonicalVersion) (rv_canonicalVersion snap)))"

definition run_draft :: "run_api_request \<Rightarrow> string option \<times> rat option \<Rightarrow> draft_input" where
  "run_draft req t = draft_of_request (panel_run_request req (fst t) (snd t) [] [])"

lemma draft_of_panel_request [simp]:
  "draft_of_request (panel_run_request req cid v digest corr) = run_draft req (cid, v)"
  by (simp add: run_draft_def draft_of_request_def panel_run_request_def)

lemma handleRun_admits:
  assumes "getReviewSnapshot (ra_organizationId req) (ra_intakeRevisionId req) s = Some snap"
    and "run_guard (pp_now pp) req identity snap = None"
    and "computeServerDigest (pp_sha256 pp) (pp_collate pp) (run_draft req (effective_target req snap s)) = rv_digest snap"
  shows "\<exists>correlationId. handleRun pp req identity corr s =
    (let (res, w) = submit (buildGatewayCaller (pp_sha256 pp)) (Submit (session_platform pp s)
         (panel_run_request req (fst (effective_target req snap s)) (snd (effective_target req snap s))
           (rv_digest snap) correlationId)) (se_world s)
     in (map_sum (\<lambda>e. panel_failure (oe_code e) (run_status (oe_code e))) (run_response (rv_digest snap)) res,
         s\<lparr>se_world := w, se_counter := se_counter s + 1\<rparr>))"
  by (rule exI [of _ "nullish corr (''corr-run-'' @ mi_staffId identity @ ''-'' @ ra_intakeRevisionId req)"])
    (use assms in \<open>simp add: handleRun_def Let_def computeServerDigestFromReq_def effective_target_def
      split: sum.split prod.split\<close>)

text \<open>A run is refused with no change, or handed to the orchestrator.\<close>

lemma handleRun_cases:
  obtains
    (refused) e where "handleRun pp req identity corr s = (Inl e, s)"
  | (admitted) snap correlationId res w where
      "getReviewSnapshot (ra_organizationId req) (ra_intakeRevisionId req) s = Some snap"
      "run_guard (pp_now pp) req identity snap = None"
      "computeServerDigest (pp_sha256 pp) (pp_collate pp) (run_draft req (effective_target req snap s)) = rv_digest snap"
      "submit (buildGatewayCaller (pp_sha256 pp)) (Submit (session_platform pp s)
         (panel_run_request req (fst (effective_target req snap s)) (snd (effective_target req snap s))
           (rv_digest snap) correlationId)) (se_world s) = (res, w)"
      "handleRun pp req identity corr s =
         (map_sum (\<lambda>e. panel_failure (oe_code e) (run_status (oe_code e))) (run_response (rv_digest snap)) res,
          s\<lparr>se_world := w, se_counter := se_counter s + 1\<rparr>)"
proof (cases "getReviewSnapshot (ra_organizationId req) (ra_intakeRevisionId req) s")
  case None
  then show ?thesis by (intro refused [of "panel_failure ''MISSING_REVIEW'' 400"]) (simp add: handleRun_def)
next
  case snap: (Some snap)
  show ?thesis
  proof (cases "run_guard (pp_now pp) req identity snap")
    case (Some e)
    then show ?thesis using snap by (intro refused [of e]) (simp add: handleRun_def)
  next
    case ok: None
    let ?t = "effective_target req snap s"
    show ?thesis
    proof (cases "computeServerDigest (pp_sha256 pp) (pp_collate pp) (run_draft req ?t) = rv_digest snap")
      case False
      then show ?thesis using snap ok
        by (intro refused [of "panel_failure ''DIGEST_MISMATCH'' 409"])
          (simp add: handleRun_def Let_def computeServerDigestFromReq_def effective_target_def)
    next
      case True
      from handleRun_admits [where corr = corr, OF snap ok True] obtain c where
        run: "handleRun pp req identity corr s =
          (let (res, w) = submit (buildGatewayCaller (pp_sha256 pp)) (Submit (session_platform pp s)
               (panel_run_request req (fst ?t) (snd ?t) (rv_digest snap) c)) (se_world s)
           in (map_sum (\<lambda>e. panel_failure (oe_code e) (run_status (oe_code e))) (run_response (rv_digest snap)) res,
               s\<lparr>se_world := w, se_counter := se_counter s + 1\<rparr>))" by blast
      obtain res w where sub: "submit (buildGatewayCaller (pp_sha256 pp)) (Submit (session_platform pp s)
          (panel_run_request req (fst ?t) (snd ?t) (rv_digest snap) c)) (se_world s) = (res, w)" by fastforce
      show ?thesis
        by (rule admitted [OF snap ok True sub]) (simp only: run sub Let_def prod.case)
    qed
  qed
qed

text \<open>C18. A run that changes anything at all or returns had a review snapshot of its revision that has
  not expired, was made by the same member of staff in the same organization scope for the same
  target, a role that may submit, and a draft with the snapshot's digest.\<close>

theorem run_needs_review:
  assumes "handleRun pp req identity corr s = (res, s')" and "s' \<noteq> s \<or> (\<exists>r. res = Inr r)"
  shows "\<exists>snap. getReviewSnapshot (ra_organizationId req) (ra_intakeRevisionId req) s = Some snap \<and>
    pp_now pp \<le> rv_expiresAt snap \<and> ra_reviewSnapshotId req = rv_snapshotId snap \<and>
    rv_organizationScope snap = mi_organizationId identity \<and> actorIdOf (rv_actor snap) = mi_staffId identity \<and>
    canSubmitIntake identity \<and> rv_target snap = ra_target req \<and>
    computeServerDigest (pp_sha256 pp) (pp_collate pp) (run_draft req (effective_target req snap s)) = rv_digest snap"
proof (cases rule: handleRun_cases [of pp req identity corr s])
  case refused
  then show ?thesis using assms by auto
next
  case (admitted snap correlationId res w)
  then show ?thesis by (intro exI [of _ snap]) (auto simp: run_guard_def split: if_splits)
qed

section \<open>Samples\<close>

definition sample_pp :: "(string \<Rightarrow> string) \<Rightarrow> panel_platform" where
  "sample_pp sha = \<lparr>pp_sha256 = sha, pp_collate = length, pp_now = 500, pp_iso = ''t1''\<rparr>"

definition sample_staff :: mock_identity where
  "sample_staff = snd (staff_identity ''staff-intake-001'' INTAKE_OPERATOR [])"

definition sample_preview :: "string \<Rightarrow> preview_api_request" where
  "sample_preview org =
     \<lparr>pa_organizationId = org, pa_intakeRevisionId = ''r1'', pa_fullName = Some ''An'', pa_phone = Some ''0901'',
      pa_citizenId = Some ''012'', pa_intentStage = None, pa_intentAvailability = None,
      pa_intentAvailableFromDate = None, pa_citizenNumber = None, pa_citizenAddress = Some ''HN'',
      pa_contactAddress = None, pa_evidenceRefs = None, pa_target = None, pa_targetVersion = None\<rparr>"

definition sample_run :: "string \<Rightarrow> string option \<Rightarrow> run_api_request" where
  "sample_run org dob =
     \<lparr>ra_organizationId = org, ra_intakeRevisionId = ''r1'', ra_reviewSnapshotId = snapshot_id org ''r1'',
      ra_target = TALENT, ra_targetVersion = None, ra_fullName = ''An'', ra_phone = ''0901'',
      ra_citizenNumber = ''012'', ra_citizenAddress = ''HN'', ra_contactAddress = None, ra_dob = dob,
      ra_intent = \<lparr>in_stage = ''NEW'', in_availability = ''AVAILABLE_NOW'', in_availableFromDate = None\<rparr>,
      ra_evidenceRefs = [], ra_claimedActor = USER ''staff-intake-001''\<rparr>"

definition constant_sha :: "string \<Rightarrow> string" where
  "constant_sha t = replicate 64 CHR ''a''"

definition sample_session :: "(string \<Rightarrow> string) \<Rightarrow> string \<Rightarrow> session" where
  "sample_session sha org = snd (handlePreview (sample_pp sha) (sample_preview org) sample_staff new_session)"

theorem run_needs_review_witness:
  "canSubmitIntake sample_staff \<and> actorIdOf (mi_actor sample_staff) = mi_staffId sample_staff"
proof -
  let ?s = "sample_session constant_sha ''org-001''"
  let ?h = "handleRun (sample_pp constant_sha) (sample_run ''org-001'' None) sample_staff None ?s"
  have "se_counter (snd ?h) = 1 \<and> se_counter ?s = 0" by code_simp
  then have "snd ?h \<noteq> ?s" by auto
  from run_needs_review [OF prod.collapse [symmetric] disjI1 [OF this]] show ?thesis
    by (auto simp: sample_staff_def staff_identity_def)
qed

section \<open>Fields no review covers\<close>

lemma preview_snapshot:
  assumes "handlePreview pp preq identity s = (resp, s1)"
  shows "\<exists>snap. getReviewSnapshot (pa_organizationId preq) (pa_intakeRevisionId preq) s1 = Some snap \<and>
    rv_digest snap = computeServerDigest (pp_sha256 pp) (pp_collate pp)
      (preview_draft preq (rv_canonicalId snap) (rv_canonicalVersion snap)) \<and>
    rv_snapshotId snap = snapshot_id (pa_organizationId preq) (pa_intakeRevisionId preq) \<and>
    rv_organizationScope snap = mi_organizationId identity \<and> rv_actor snap = mi_actor identity \<and>
    rv_target snap = nullish (pa_target preq) TALENT \<and> rv_expiresAt snap = pp_now pp + 300000 \<and>
    rv_targetVersion snap = nullish_opt (pa_targetVersion preq) (rv_canonicalVersion snap) \<and>
    rv_canonicalVersion snap \<in> {None, Some 1} \<and> se_world s1 = se_world s \<and> se_counter s1 = se_counter s"
proof -
  from assms obtain cs where s1: "s1 = createReviewSnapshot (new_snapshot pp preq identity cs) s"
    by (auto simp: handlePreview_def Let_def)
  show ?thesis
    by (rule exI [of _ "new_snapshot pp preq identity cs"])
      (simp add: s1 new_snapshot_def Let_def createReviewSnapshot_def getReviewSnapshot_def)
qed

lemma preview_world [simp]: "se_world (snd (handlePreview pp preq identity s)) = se_world s"
  by (simp add: handlePreview_def Let_def createReviewSnapshot_def)

text \<open>The preview binds neither a date of birth nor a first day of availability, so an intake with
  either is refused whenever it is run on its preview, and changes nothing; SHA-256 must not
  collide on the two drafts.\<close>

lemma unreviewed_field_never_runs:
  assumes "handlePreview pp preq reviewer s = (resp, s1)"
    and "ra_organizationId rreq = pa_organizationId preq" and "ra_intakeRevisionId rreq = pa_intakeRevisionId preq"
    and "pp_sha256 pp' = pp_sha256 pp" and "pp_collate pp' = pp_collate pp"
    and extra: "ra_dob rreq \<noteq> None \<or> in_availableFromDate (ra_intent rreq) \<noteq> None"
    and no_collision: "\<And>snap. inj_on (pp_sha256 pp)
      {canonicalJson (buildCanonicalDraft (pp_collate pp) (preview_draft preq (rv_canonicalId snap) (rv_canonicalVersion snap))),
       canonicalJson (buildCanonicalDraft (pp_collate pp) (run_draft rreq (effective_target rreq snap s1)))}"
    and ok: "checkpoints_ok (wd_checkpoints (se_world s))"
  shows "\<exists>e. handleRun pp' rreq identity corr s1 = (Inl e, s1)"
proof (cases rule: handleRun_cases [of pp' rreq identity corr s1])
  case (admitted snap correlationId res w)
  from preview_snapshot [OF assms(1)] admitted(1) assms(2,3)
  have snap: "rv_digest snap = computeServerDigest (pp_sha256 pp) (pp_collate pp)
      (preview_draft preq (rv_canonicalId snap) (rv_canonicalVersion snap))"
    "rv_canonicalVersion snap \<in> {None, Some 1}" "se_world s1 = se_world s" by auto
  have int1: "integral_version (preview_draft preq (rv_canonicalId snap) (rv_canonicalVersion snap))"
    using snap(2) by (auto simp: integral_version_def preview_draft_def)
  have "integral_version (run_draft rreq (effective_target rreq snap s1))"
  proof (cases "find (checkpoint_of (ra_organizationId rreq) (ra_intakeRevisionId rreq)) (wd_checkpoints (se_world s1))")
    case None
    then show ?thesis using snap(2)
      by (auto simp: integral_version_def run_draft_def draft_of_request_def panel_run_request_def effective_target_def)
  next
    case (Some row)
    then have "null_or int_column (ck_canonicalVersion row)"
      using ok snap(3) find_checkpoint [OF Some] by (simp add: checkpoints_ok_def)
    then show ?thesis using snap(2) Some
      by (cases "ck_canonicalVersion row")
        (auto simp: integral_version_def run_draft_def draft_of_request_def panel_run_request_def
          effective_target_def int_column_def)
  qed
  from draft_text_eq [OF int1 this, of "pp_collate pp"] inj_on_eq_iff [OF no_collision [of snap]]
    admitted(3) [unfolded assms(4,5) snap(1)]
  have "ordered_draft (pp_collate pp) (preview_draft preq (rv_canonicalId snap) (rv_canonicalVersion snap)) =
      ordered_draft (pp_collate pp) (run_draft rreq (effective_target rreq snap s1))"
    by (simp add: computeServerDigest_def digestCanonical_def)
  from arg_cong [OF this, of dr_dob] arg_cong [OF this, of "\<lambda>d. in_availableFromDate (dr_intent d)"] extra
  have False by (simp add: ordered_draft_def preview_draft_def run_draft_def draft_of_request_def panel_run_request_def)
  then show ?thesis by simp
qed blast

section \<open>The panel's gateway\<close>

text \<open>The panel's requests, one after the other.\<close>

datatype panel_op =
  Preview panel_platform preview_api_request mock_identity
| Run panel_platform run_api_request mock_identity "string option"
| Resume panel_platform string string "string option"

fun panel_step :: "panel_op \<Rightarrow> session \<Rightarrow> session" where
  "panel_step (Preview pp req identity) s = snd (handlePreview pp req identity s)"
| "panel_step (Run pp req identity corr) s = snd (handleRun pp req identity corr s)"
| "panel_step (Resume pp org rev_id corr) s = snd (handleResume pp org rev_id corr s)"

definition no_profile_cached :: "panel_gateway_state \<Rightarrow> bool" where
  "no_profile_cached pg \<longleftrightarrow> (\<forall>key c. lg_cache (gs_ledger (pg_gateway pg)) key = Some c \<longrightarrow>
     ca_method c \<noteq> ''updateLaborProfile'')"

lemma exact_scenario_fails:
  assumes "rq_scenarioId req = SN_EXACT_MATCH_SUCCESS" and "rq_method req = ''updateLaborProfile''"
  shows "is_failed (cx_outcome (fst (applyScenario req now counter)))"
  using assms by (simp add: applyScenario_def mk_fixture_def Let_def)

lemma panel_refuses_profile: "refuses_profile (buildGatewayCaller sha256) no_profile_cached"
proof -
  have "no_profile_cached (snd (buildGatewayCaller sha256 args pg)) \<and>
      (ga_method args = ''updateLaborProfile'' \<longrightarrow>
        (\<exists>res es. fst (buildGatewayCaller sha256 args pg) = Inr res \<and> cx_outcome res = Failed es))"
    if inv: "no_profile_cached pg" and sc: "ga_scenarioId args = SN_EXACT_MATCH_SUCCESS" for args pg
  proof -
    obtain res gs where m: "mock_call sha256 fixedNow (gateway_request args) (pg_gateway pg) = (res, gs)" by fastforce
    have req: "rq_method (gateway_request args) = ga_method args"
        "rq_scenarioId (gateway_request args) = SN_EXACT_MATCH_SUCCESS"
      by (simp_all add: gateway_request_def sc)
    have "no_profile_cached \<lparr>pg_log = l, pg_gateway = gs\<rparr> \<and>
        (ga_method args = ''updateLaborProfile'' \<longrightarrow> is_failed (cx_outcome res))" for l
      using m
    proof (cases rule: mock_call_cases)
      case refused
      then show ?thesis using inv by (simp add: no_profile_cached_def)
    next
      case (replayed c)
      then show ?thesis using inv req(1) by (auto simp: no_profile_cached_def)
    next
      case fresh
      have "is_failed (cx_outcome res)" if "ga_method args = ''updateLaborProfile''"
        using exact_scenario_fails [OF req(2)] that req(1) fresh(3) by simp
      then show ?thesis using inv fresh(4) req(1) by (auto simp: no_profile_cached_def)
    qed
    then show ?thesis using m
      by (cases "cx_outcome res") (auto simp: buildGatewayCaller_def)
  qed
  then show ?thesis unfolding refuses_profile_def by blast
qed

definition panel_ok :: "session \<Rightarrow> bool" where
  "panel_ok s \<longleftrightarrow> checkpoints_ok (wd_checkpoints (se_world s)) \<and> lacks PROFILE (wd_checkpoints (se_world s)) \<and>
     no_profile_cached (wd_gateway (se_world s))"

lemma submit_panel_ok:
  assumes "submit (buildGatewayCaller sha256) op (se_world s) = (res, w)" and "panel_ok s"
  shows "checkpoints_ok (wd_checkpoints w) \<and> lacks PROFILE (wd_checkpoints w) \<and> no_profile_cached (wd_gateway w) \<and>
    (\<forall>r. res = Inr r \<longrightarrow> PROFILE \<notin> set (rr_appliedSteps r))"
  using submit_lacks [OF panel_refuses_profile assms(1)] submit_progress [OF assms(1)] assms(2)
  by (auto simp: panel_ok_def)

lemma handleResume_world:
  obtains "snd (handleResume pp org rev_id corr s) = s"
  | op res w where "submit (buildGatewayCaller (pp_sha256 pp)) op (se_world s) = (res, w)"
      "snd (handleResume pp org rev_id corr s) = s\<lparr>se_world := w\<rparr>"
proof (cases "find (checkpoint_of org rev_id) (wd_checkpoints (se_world s))")
  case None
  then show ?thesis by (intro that(1)) (simp add: handleResume_def)
next
  case (Some cp)
  let ?op = "Resume_Payload (session_platform pp s)
    (resume_request cp org rev_id (nullish corr (''corr-resume-'' @ org @ ''-'' @ rev_id)))"
  obtain res w where sub: "submit (buildGatewayCaller (pp_sha256 pp)) ?op (se_world s) = (res, w)" by fastforce
  show ?thesis
  proof (cases "ck_state cp = CK_PARTIAL")
    case False
    then show ?thesis using Some by (intro that(1)) (simp add: handleResume_def)
  next
    case True
    then show ?thesis using Some sub
      by (intro that(2) [OF sub]) (cases res; simp add: handleResume_def Let_def)
  qed
qed

lemma panel_step_ok: "panel_ok s \<Longrightarrow> panel_ok (panel_step op s)"
proof (cases op)
  case (Preview pp req identity)
  assume "panel_ok s"
  then show ?thesis by (simp add: Preview panel_ok_def)
next
  case (Run pp req identity corr)
  assume ok: "panel_ok s"
  show ?thesis
  proof (cases rule: handleRun_cases [of pp req identity corr s])
    case refused
    then show ?thesis using ok by (simp add: Run)
  next
    case admitted
    then show ?thesis using submit_panel_ok [OF admitted(4) ok] by (simp add: Run panel_ok_def)
  qed
next
  case (Resume pp org rev_id corr)
  assume ok: "panel_ok s"
  show ?thesis
  proof (cases rule: handleResume_world [of pp org rev_id corr s])
    case 1
    then show ?thesis using ok by (simp add: Resume)
  next
    case (2 op res w)
    then show ?thesis using submit_panel_ok [OF 2(1) ok] by (simp add: Resume panel_ok_def)
  qed
qed

lemma panel_steps_ok: "panel_ok s \<Longrightarrow> panel_ok (fold panel_step ops s)"
  by (induction ops arbitrary: s) (simp_all add: panel_step_ok)

lemma new_session_ok: "panel_ok new_session"
  by (simp add: panel_ok_def new_session_def checkpoints_ok_def lacks_def no_profile_cached_def
      new_gateway_def new_ledger_def)



section \<open>Resumption\<close>

text \<open>An intake that was run cannot be resumed: the panel resumes with an empty draft, whose digest
  is not that of the row, so a resumption right after a run is refused and changes nothing. The
  draft's name must not be empty, and no draft with another name may have its digest.\<close>

lemma run_intake_cannot_be_resumed:
  assumes ok: "checkpoints_ok (wd_checkpoints (se_world s))"
    and run: "handleRun pp req identity corr s = (Inr resp, s1)"
    and name: "ra_fullName req \<noteq> []"
    and same: "pp_sha256 pp' = pp_sha256 pp" "pp_collate pp' = pp_collate pp"
    and unique: "\<forall>d. integral_version d \<and>
      computeServerDigest (pp_sha256 pp) (pp_collate pp) d = ro_digest resp \<longrightarrow> dr_fullName d = ra_fullName req"
  shows "\<exists>e. handleResume pp' (ra_organizationId req) (ra_intakeRevisionId req) corr' s1 = (Inl e, s1)"
proof (cases rule: handleRun_cases [of pp req identity corr s])
  case refused
  then show ?thesis using run by simp
next
  case (admitted snap correlationId res w)
  from admitted(5) run obtain r where r: "res = Inr r" "ro_digest resp = rv_digest snap"
      and s1: "s1 = s\<lparr>se_world := w, se_counter := se_counter s + 1\<rparr>"
    by (cases res) (auto simp: run_response_def)
  let ?op = "Submit (session_platform pp s) (panel_run_request req (fst (effective_target req snap s))
    (snd (effective_target req snap s)) (rv_digest snap) correlationId)"
  let ?find = "find (checkpoint_of (ra_organizationId req) (ra_intakeRevisionId req))"
  from admitted(4) [unfolded r(1)] ok obtain row' where
    row': "?find (wd_checkpoints w) = Some row'" "ck_draftDigest row' = op_digest ?op"
  proof (rule finished_row)
    fix rows row rs w1 row'
    assume "find (checkpoint_of (iq_organizationId (op_request ?op)) (iq_intakeRevisionId (op_request ?op)))
        (wd_checkpoints w) = Some row'" "ck_draftDigest row' = op_digest ?op"
    then show thesis by (intro that) (simp_all add: panel_run_request_def)
  qed
  have "op_digest ?op = rv_digest snap"
    using admitted(3) by (simp add: op_digest_def computeServerDigestFromReq_def session_platform_def)
  then have digest: "ck_draftDigest row' = ro_digest resp" using row'(2) r(2) by simp
  let ?corr = "nullish corr' (''corr-resume-'' @ ra_organizationId req @ ''-'' @ ra_intakeRevisionId req)"
  let ?rr = "resume_request row' (ra_organizationId req) (ra_intakeRevisionId req) ?corr"
  have "computeServerDigestFromReq (pp_sha256 pp) (pp_collate pp) ?rr \<noteq> ck_draftDigest row'"
  proof
    assume "computeServerDigestFromReq (pp_sha256 pp) (pp_collate pp) ?rr = ck_draftDigest row'"
    moreover have "integral_version (draft_of_request ?rr)"
    proof -
      have "null_or int_column (ck_canonicalVersion row')"
        using submit_progress [OF admitted(4) ok] find_checkpoint [OF row'(1)] by (simp add: checkpoints_ok_def)
      then show ?thesis
        by (auto simp: integral_version_def draft_of_request_def resume_request_def null_or_iff int_column_def
            split: option.split)
    qed
    ultimately have "dr_fullName (draft_of_request ?rr) = ra_fullName req"
      using unique digest by (simp add: computeServerDigestFromReq_def)
    then show False using name by (simp add: draft_of_request_def resume_request_def)
  qed
  then have "resumeWithPayload (session_platform pp' s1) (buildGatewayCaller (pp_sha256 pp')) ?rr (se_world s1) =
      (Inl (orch_failure ''IDEMPOTENCY_CONFLICT'' False), se_world s1)"
    using same by (simp add: resumeWithPayload_def digest_check_def session_platform_def resume_request_def)
  then show ?thesis using row'(1) s1
    by (cases "ck_state row' = CK_PARTIAL") (simp_all add: handleResume_def Let_def)
qed

text \<open>A hash of one draft only.\<close>

definition pointed_sha :: "string \<Rightarrow> string \<Rightarrow> string" where
  "pointed_sha t0 t = (if t = t0 then replicate 64 CHR ''a'' else [])"

definition sample_text :: string where
  "sample_text = canonicalJson (buildCanonicalDraft length
     (preview_draft (sample_preview ''org-001'') (Some ''lp-fixture-exact-001'') (Some 1)))"

section \<open>Other organizations\<close>

text \<open>The row of a first submission is written.\<close>

lemma submit_creates:
  assumes "wd_checkpoints w = []" and "iq_draftDigest req = op_digest (Submit pl req)"
    and "cf_draftDigest (iq_confirmation req) = op_digest (Submit pl req)"
    and "is_sha256_hex (op_digest (Submit pl req))"
    and "iq_organizationId req \<noteq> []" and "iq_intakeRevisionId req \<noteq> []"
    and "null_or int_column (cf_canonicalVersion (iq_confirmation req))"
    and "submit gw (Submit pl req) w = (res, w')"
  shows "(iq_organizationId req, iq_intakeRevisionId req) \<in> checkpoint_key ` set (wd_checkpoints w')"
proof -
  let ?row = "new_checkpoint (pl_checkpointId pl) req"
  have row: "checkpoint_of (iq_organizationId req) (iq_intakeRevisionId req) ?row"
    by (simp add: checkpoint_of_def new_checkpoint_def)
  have c: "createIntakeCheckpoint ?row [] = (Inr (?row, True), [?row])"
    using assms(2,4-7)
    by (auto simp: createIntakeCheckpoint_def new_checkpoint_def is_sha256_hex_def null_or_iff not_null_and_iff)
  have ok: "checkpoints_ok [?row]" by (rule create_ok [OF c]) (simp_all add: new_checkpoint_def)
  have "digest_check (op_digest (Submit pl req)) req = None" using assms(2,3) by (simp add: digest_check_None)
  then have e: "executeFromCheckpoint gw (pl_collectedAt pl) (buildStepContext req) ?row (iq_confirmation req)
      (w\<lparr>wd_checkpoints := [?row]\<rparr>) = (res, w')"
    using assms(1,8) c by (simp add: intake_run_def op_digest_def)
  have f: "find (checkpoint_of (tx_organizationId (buildStepContext req)) (tx_intakeRevisionId (buildStepContext req)))
      (wd_checkpoints (w\<lparr>wd_checkpoints := [?row]\<rparr>)) = Some ?row" using row by simp
  have "grown [?row] (wd_checkpoints w')" using execute_progress [OF e _ f] ok by simp
  then obtain row' where "row' \<in> set (wd_checkpoints w')" "checkpoint_core row' = checkpoint_core ?row"
    using grown_survives by (fastforce simp: survives_def)
  then show ?thesis by (force simp: checkpoint_core_def checkpoint_key_def new_checkpoint_def)
qed

text \<open>A member of staff can preview and run an intake of an organization that is not theirs: the
  cross-organization check compares the member's own organization with itself, so the row of the
  other organization is written.\<close>

lemma foreign_organization_is_written:
  assumes "handlePreview pp preq identity new_session = (resp, s1)"
    and foreign: "mi_organizationId identity \<noteq> pa_organizationId preq"
    and staff: "canSubmitIntake identity" "actorIdOf (mi_actor identity) = mi_staffId identity"
    and time: "pp_now pp' \<le> pp_now pp + 300000"
    and same: "pp_sha256 pp' = pp_sha256 pp" "pp_collate pp' = pp_collate pp"
    and hex: "\<And>t. is_sha256_hex (pp_sha256 pp t)"
    and ids: "pa_organizationId preq \<noteq> []" "pa_intakeRevisionId preq \<noteq> []"
    and req: "ra_organizationId rreq = pa_organizationId preq" "ra_intakeRevisionId rreq = pa_intakeRevisionId preq"
      "ra_reviewSnapshotId rreq = po_reviewSnapshotId resp" "ra_target rreq = nullish (pa_target preq) TALENT"
      "ra_targetVersion rreq = None"
    and draft: "\<And>t. run_draft rreq t = preview_draft preq (fst t) (snd t)"
  shows "(pa_organizationId preq, pa_intakeRevisionId preq) \<in>
    checkpoint_key ` set (wd_checkpoints (se_world (snd (handleRun pp' rreq identity corr s1))))"
proof -
  from preview_snapshot [OF assms(1)] obtain snap where
    snap: "getReviewSnapshot (pa_organizationId preq) (pa_intakeRevisionId preq) s1 = Some snap"
    "rv_digest snap = computeServerDigest (pp_sha256 pp) (pp_collate pp)
      (preview_draft preq (rv_canonicalId snap) (rv_canonicalVersion snap))"
    "rv_snapshotId snap = snapshot_id (pa_organizationId preq) (pa_intakeRevisionId preq)"
    "rv_organizationScope snap = mi_organizationId identity" "rv_actor snap = mi_actor identity"
    "rv_target snap = nullish (pa_target preq) TALENT" "rv_expiresAt snap = pp_now pp + 300000"
    "rv_canonicalVersion snap \<in> {None, Some 1}" "se_world s1 = se_world new_session"
    by blast
  have id: "po_reviewSnapshotId resp = snapshot_id (pa_organizationId preq) (pa_intakeRevisionId preq)"
    using assms(1) by (auto simp: handlePreview_def Let_def new_snapshot_def)
  have none: "wd_checkpoints (se_world s1) = []" by (simp add: snap(9) new_session_def)
  have target: "effective_target rreq snap s1 = (rv_canonicalId snap, rv_canonicalVersion snap)"
    by (simp add: effective_target_def none)
  have guard: "run_guard (pp_now pp') rreq identity snap = None"
    using snap(3-7) staff time req id by (simp add: run_guard_def)
  have digest: "computeServerDigest (pp_sha256 pp') (pp_collate pp') (run_draft rreq (effective_target rreq snap s1)) =
      rv_digest snap" using snap(2) same by (simp add: target draft)
  have "getReviewSnapshot (ra_organizationId rreq) (ra_intakeRevisionId rreq) s1 = Some snap"
    using snap(1) req by simp
  from handleRun_admits [where corr = corr, OF this guard digest] obtain c where
    run: "handleRun pp' rreq identity corr s1 =
      (let (res, w) = submit (buildGatewayCaller (pp_sha256 pp')) (Submit (session_platform pp' s1)
           (panel_run_request rreq (rv_canonicalId snap) (rv_canonicalVersion snap) (rv_digest snap) c)) (se_world s1)
       in (map_sum (\<lambda>e. panel_failure (oe_code e) (run_status (oe_code e))) (run_response (rv_digest snap)) res,
           s1\<lparr>se_world := w, se_counter := se_counter s1 + 1\<rparr>))" by (auto simp: target)
  let ?req = "panel_run_request rreq (rv_canonicalId snap) (rv_canonicalVersion snap) (rv_digest snap) c"
  obtain res w where sub: "submit (buildGatewayCaller (pp_sha256 pp')) (Submit (session_platform pp' s1) ?req)
      (se_world s1) = (res, w)" by fastforce
  have op: "op_digest (Submit (session_platform pp' s1) ?req) = rv_digest snap"
    using digest by (simp add: op_digest_def computeServerDigestFromReq_def session_platform_def target)
  have "(iq_organizationId ?req, iq_intakeRevisionId ?req) \<in> checkpoint_key ` set (wd_checkpoints w)"
  proof (rule submit_creates [OF none _ _ _ _ _ _ sub])
    show "is_sha256_hex (op_digest (Submit (session_platform pp' s1) ?req))"
      unfolding op unfolding snap(2) using hex by (simp add: computeServerDigest_def digestCanonical_def)
    have "int_column 1" by (simp add: int_column_def)
    then show "null_or int_column (cf_canonicalVersion (iq_confirmation ?req))"
      using snap(8) by (auto simp: panel_run_request_def)
  qed (use op req ids in \<open>simp_all add: panel_run_request_def\<close>)
  then show ?thesis using run sub req by (simp add: panel_run_request_def)
qed

end
