(* ===== verification/Primitives.thy ===== *)
theory Primitives
  imports Store_Prelude
begin

text \<open>
  The string schemas of \<open>packages/contracts/src/primitives.ts\<close> the routes check their
  identifiers with: a length bound and a pattern with a first character and a class of further
  ones. Validity of an ISO time is decided by the schema library and is a parameter where it
  is needed.
\<close>

section \<open>Character classes\<close>

definition is_alnum :: "char \<Rightarrow> bool" where
  "is_alnum c \<longleftrightarrow>
     (let n = of_char c :: nat
      in 48 \<le> n \<and> n \<le> 57 \<or> 65 \<le> n \<and> n \<le> 90 \<or> 97 \<le> n \<and> n \<le> 122)"

text \<open>A string of the pattern: alphanumeric, then alphanumerics and the characters of \<open>extra\<close>.\<close>

definition matches_id :: "string \<Rightarrow> string \<Rightarrow> bool" where
  "matches_id extra s \<longleftrightarrow>
     (case s of [] \<Rightarrow> False
      | c # cs \<Rightarrow> is_alnum c \<and> list_all (\<lambda>d. is_alnum d \<or> d \<in> set extra) cs)"

section \<open>Identifiers\<close>

definition opaqueId :: "nat \<Rightarrow> string \<Rightarrow> bool" where
  "opaqueId bound s \<longleftrightarrow> 1 \<le> length s \<and> length s \<le> bound \<and> matches_id ''._:-'' s"

definition OrganizationIdSchema :: "string \<Rightarrow> bool" where
  "OrganizationIdSchema = opaqueId 64"

definition CanonicalIdSchema :: "string \<Rightarrow> bool" where
  "CanonicalIdSchema = opaqueId 128"

definition ConnectionIdSchema :: "string \<Rightarrow> bool" where
  "ConnectionIdSchema = opaqueId 128"

definition IdempotencyKeySchema :: "string \<Rightarrow> bool" where
  "IdempotencyKeySchema s \<longleftrightarrow> 8 \<le> length s \<and> length s \<le> 256 \<and> matches_id ''._:/+-'' s"

definition ProviderNameSchema :: "string \<Rightarrow> bool" where
  "ProviderNameSchema s \<longleftrightarrow> 1 \<le> length s \<and> length s \<le> 64 \<and> matches_id ''_-'' s"

lemmas id_schemas =
  OrganizationIdSchema_def CanonicalIdSchema_def ConnectionIdSchema_def IdempotencyKeySchema_def
  ProviderNameSchema_def opaqueId_def matches_id_def

text \<open>No identifier has a character outside its class.\<close>

lemma matches_id_chars:
  assumes "matches_id extra s" and "c \<in> set s"
  shows "is_alnum c \<or> c \<in> set extra"
  using assms by (cases s) (auto simp: matches_id_def list_all_iff)

end
