(* ===== verification/Outbox_Delivery.thy ===== *)
theory Outbox_Delivery
  imports Lease Json_Access Primitives Gateway_Types
begin

text \<open>
  The callbacks of the delivery provider, \<open>apps/integration-api/src/outbox/delivery-receipt.ts\<close>
  and \<open>delivery-reporting.ts\<close>, and the routes that submit an intent and pass the callbacks on,
  \<open>ac3-handler.ts\<close>. The schemas of the two callbacks are those of
  \<open>packages/contracts/src/commands/outbox.ts\<close>: \<^const>\<open>None\<close> is a body without the shape of the
  record, and the record is checked field by field; whether a text is an ISO time with an offset
  is the parameter \<open>isoTime\<close>.
\<close>

section \<open>Delivery receipts\<close>

record delivery_receipt =
  dv_schemaVersion :: string
  dv_organizationId :: string
  dv_intentId :: string
  dv_consumerDedupeToken :: string
  dv_outcome :: string
  dv_acceptedAt :: string
  dv_errors :: "contract_error list option"

definition OutboxDeliveryReceiptSchema :: "(string \<Rightarrow> bool) \<Rightarrow> delivery_receipt \<Rightarrow> bool" where
  "OutboxDeliveryReceiptSchema isoTime r \<longleftrightarrow>
     dv_schemaVersion r = ''1'' \<and> OrganizationIdSchema (dv_organizationId r) \<and>
     CanonicalIdSchema (dv_intentId r) \<and> IdempotencyKeySchema (dv_consumerDedupeToken r) \<and>
     dv_outcome r = ''ACCEPTED'' \<and> isoTime (dv_acceptedAt r) \<and>
     null_or (\<lambda>es. 1 \<le> length es \<and> length es \<le> 64) (dv_errors r)"

definition validateReceipt :: "(string \<Rightarrow> bool) \<Rightarrow> delivery_receipt option \<Rightarrow> delivery_receipt option" where
  "validateReceipt isoTime raw =
     (case raw of None \<Rightarrow> None
      | Some r \<Rightarrow>
          if \<not> OutboxDeliveryReceiptSchema isoTime r then None
          else if dv_outcome r \<noteq> ''ACCEPTED'' then None
          else Some r)"

datatype receipt_status = RP_ACK_RECEIVED | RP_ALREADY_PROCESSED | RP_NOT_FOUND | RP_VALIDATION_ERROR

record receipt_processing =
  rp_success :: bool
  rp_intentId :: string
  rp_status :: receipt_status
  rp_acceptedAt :: "string option"
  rp_errorCode :: "string option"

definition of_organization :: "string \<Rightarrow> string \<Rightarrow> dispatch_intent \<Rightarrow> bool" where
  "of_organization intentId organizationId i \<longleftrightarrow>
     di_intentId i = intentId \<and> di_organizationId i = organizationId"

definition set_status :: "string \<Rightarrow> intent_status \<Rightarrow> store \<Rightarrow> store" where
  "set_status intentId status st =
     st\<lparr>intents := update_where (\<lambda>i. di_intentId i = intentId) (\<lambda>i. i\<lparr>di_status := status\<rparr>) (intents st)\<rparr>"

text \<open>The statuses a receipt leaves alone.\<close>

definition receipt_terminal :: "intent_status set" where
  "receipt_terminal = {I_ACK_RECEIVED, I_DELIVERED, I_FAILED, I_TERMINAL}"

definition processReceipt ::
  "(string \<Rightarrow> bool) \<Rightarrow> delivery_receipt option \<Rightarrow> store \<Rightarrow> receipt_processing \<times> store" where
  "processReceipt isoTime raw st =
     (case validateReceipt isoTime raw of
        None \<Rightarrow>
          (\<lparr>rp_success = False, rp_intentId = ''unknown'', rp_status = RP_VALIDATION_ERROR,
            rp_acceptedAt = None, rp_errorCode = Some ''VALIDATION_ERROR''\<rparr>, st)
      | Some r \<Rightarrow>
          (case find (of_organization (dv_intentId r) (dv_organizationId r)) (intents st) of
             None \<Rightarrow>
               (\<lparr>rp_success = False, rp_intentId = dv_intentId r, rp_status = RP_NOT_FOUND,
                 rp_acceptedAt = None, rp_errorCode = Some ''INTENT_NOT_FOUND''\<rparr>, st)
           | Some i \<Rightarrow>
               if di_status i \<in> receipt_terminal then
                 (\<lparr>rp_success = True, rp_intentId = dv_intentId r, rp_status = RP_ALREADY_PROCESSED,
                   rp_acceptedAt = None, rp_errorCode = None\<rparr>, st)
               else
                 (\<lparr>rp_success = True, rp_intentId = dv_intentId r, rp_status = RP_ACK_RECEIVED,
                   rp_acceptedAt = Some (dv_acceptedAt r), rp_errorCode = None\<rparr>,
                  set_status (di_intentId i) I_ACK_RECEIVED st)))"

section \<open>Delivery reports\<close>

datatype reporting_state = RS_SENT | RS_DELIVERED | RS_FAILED | RS_UNKNOWN | RS_SUPPRESSED

datatype failure_reason =
  FR_PROVIDER_REJECTED | FR_PROVIDER_TIMEOUT | FR_DISPATCH_GATE_DENIED | FR_STALE_CACHE
| FR_HRP_OFFLINE | FR_RECIPIENT_RESOLVED | FR_UNKNOWN_REASON

text \<open>The optional references (\<open>providerRef\<close>, \<open>fenceContext\<close>) are only logged and left out.\<close>

record reporting_event =
  de_schemaVersion :: string
  de_organizationId :: string
  de_intentId :: string
  de_consumerDedupeToken :: string
  de_state :: reporting_state
  de_reportedAt :: string
  de_reason :: "failure_reason option"

definition DeliveryReportingEventSchema :: "(string \<Rightarrow> bool) \<Rightarrow> reporting_event \<Rightarrow> bool" where
  "DeliveryReportingEventSchema isoTime ev \<longleftrightarrow>
     de_schemaVersion ev = ''1'' \<and> OrganizationIdSchema (de_organizationId ev) \<and>
     CanonicalIdSchema (de_intentId ev) \<and> IdempotencyKeySchema (de_consumerDedupeToken ev) \<and>
     isoTime (de_reportedAt ev) \<and>
     (de_state ev \<in> {RS_FAILED, RS_UNKNOWN, RS_SUPPRESSED} \<longrightarrow> de_reason ev \<noteq> None) \<and>
     (de_state ev \<in> {RS_SENT, RS_DELIVERED} \<longrightarrow> de_reason ev = None)"

fun mapStateToIntentStatus :: "reporting_state \<Rightarrow> intent_status" where
  "mapStateToIntentStatus RS_SENT = I_ACK_RECEIVED"
| "mapStateToIntentStatus RS_DELIVERED = I_DELIVERED"
| "mapStateToIntentStatus RS_FAILED = I_FAILED"
| "mapStateToIntentStatus RS_UNKNOWN = I_FAILED"
| "mapStateToIntentStatus RS_SUPPRESSED = I_TERMINAL"

definition isSuccessState :: "reporting_state \<Rightarrow> bool" where
  "isSuccessState s \<longleftrightarrow> s = RS_SENT \<or> s = RS_DELIVERED"

record report_processing =
  dl_success :: bool
  dl_intentId :: string
  dl_previousStatus :: "intent_status option"
  dl_newStatus :: "intent_status option"
  dl_state :: reporting_state
  dl_errorCode :: "string option"

definition validateEvent :: "(string \<Rightarrow> bool) \<Rightarrow> reporting_event option \<Rightarrow> reporting_event option" where
  "validateEvent isoTime raw =
     (case raw of None \<Rightarrow> None
      | Some ev \<Rightarrow> if DeliveryReportingEventSchema isoTime ev then Some ev else None)"

text \<open>The statuses a report may change.\<close>

definition report_from :: "intent_status set" where
  "report_from = {I_DISPATCHED, I_ACK_RECEIVED, I_PENDING, I_LEASED}"

definition processEvent ::
  "(string \<Rightarrow> bool) \<Rightarrow> reporting_event option \<Rightarrow> store \<Rightarrow> report_processing \<times> store" where
  "processEvent isoTime raw st =
     (case validateEvent isoTime raw of
        None \<Rightarrow>
          (\<lparr>dl_success = False, dl_intentId = ''unknown'', dl_previousStatus = None,
            dl_newStatus = None, dl_state = RS_UNKNOWN, dl_errorCode = Some ''VALIDATION_ERROR''\<rparr>, st)
      | Some ev \<Rightarrow>
          (case find (of_organization (de_intentId ev) (de_organizationId ev)) (intents st) of
             None \<Rightarrow>
               (\<lparr>dl_success = False, dl_intentId = de_intentId ev, dl_previousStatus = None,
                 dl_newStatus = None, dl_state = de_state ev,
                 dl_errorCode = Some ''INTENT_NOT_FOUND''\<rparr>, st)
           | Some i \<Rightarrow>
               if di_status i \<notin> report_from then
                 (\<lparr>dl_success = False, dl_intentId = de_intentId ev,
                   dl_previousStatus = Some (di_status i), dl_newStatus = None,
                   dl_state = de_state ev, dl_errorCode = Some ''INVALID_TRANSITION''\<rparr>, st)
               else
                 (\<lparr>dl_success = True, dl_intentId = de_intentId ev,
                   dl_previousStatus = Some (di_status i),
                   dl_newStatus = Some (mapStateToIntentStatus (de_state ev)),
                   dl_state = de_state ev, dl_errorCode = None\<rparr>,
                  set_status (di_intentId i) (mapStateToIntentStatus (de_state ev)) st)))"

section \<open>The submission and callback routes\<close>

text \<open>
  A reply is its status and code; a handler whose promise is rejected sends none
  (\<open>Unhandled\<close>). \<^const>\<open>None\<close> as a body is a text that is not JSON.
\<close>

datatype http_reply = Reply nat string | Unhandled

text \<open>The length limits of the columns, \<open>VarChar\<close> in the table.\<close>

definition intent_fits :: "dispatch_intent \<Rightarrow> bool" where
  "intent_fits i \<longleftrightarrow>
     length (di_schemaVersion i) \<le> 8 \<and> length (di_organizationId i) \<le> 64 \<and>
     length (di_receiptId i) \<le> 128 \<and> length (di_intentSource i) \<le> 64 \<and>
     null_or (\<lambda>k. length k \<le> 256) (di_idempotencyKey i) \<and>
     null_or (\<lambda>k. length k \<le> 128) (di_correlationId i)"

text \<open>A value of a text column: a string; null is admitted where the column is nullable.\<close>

fun text_column :: "json option \<Rightarrow> string option" where
  "text_column (Some (JStr s)) = Some s"
| "text_column _ = None"

fun nullable_text :: "json option \<Rightarrow> string option option" where
  "nullable_text None = Some None"
| "nullable_text (Some JNull) = Some None"
| "nullable_text (Some (JStr s)) = Some (Some s)"
| "nullable_text _ = None"

text \<open>The row of a submission; \<^const>\<open>None\<close> is a value its column does not take.\<close>

definition submitted_intent :: "int \<Rightarrow> string \<Rightarrow> json \<Rightarrow> dispatch_intent option" where
  "submitted_intent now organizationId body =
     (case (text_column (jget ''intentId'' body), text_column (jget ''receiptId'' body),
            text_column (jget ''intentSource'' body), nullable_text (jget ''idempotencyKey'' body),
            nullable_text (jget ''correlationId'' body)) of
        (Some intentId, Some receiptId, Some source, Some key, Some corr) \<Rightarrow>
          let i = \<lparr>di_intentId = intentId, di_schemaVersion = ''1'', di_organizationId = organizationId,
                   di_receiptId = receiptId, di_idempotencyKey = key,
                   di_correlationId = Some (nullish corr (''corr-'' @ intentId)),
                   di_intentSource = source,
                   di_intentTargetJson = jnullish (jget ''intentTargetJson'' body) (JObj []),
                   di_status = I_PENDING, di_attempts = 0, di_leaseOwner = None,
                   di_leaseExpiresAt = None, di_fencingToken = None, di_leaseFencedAt = None,
                   di_createdAt = now\<rparr>
          in if intent_fits i then Some i else None
      | _ \<Rightarrow> None)"

definition handleIntentSubmission ::
  "int \<Rightarrow> string \<Rightarrow> json option \<Rightarrow> store \<Rightarrow> http_reply \<times> store" where
  "handleIntentSubmission now organizationId parsed st =
     (case parsed of
        None \<Rightarrow> (Reply 400 ''INVALID_JSON'', st)
      | Some JNull \<Rightarrow> (Unhandled, st)
      | Some body \<Rightarrow>
          if \<not> jtruthy (jget ''intentId'' body) \<or> \<not> jtruthy (jget ''receiptId'' body) \<or>
             \<not> jtruthy (jget ''intentSource'' body)
          then (Reply 400 ''VALIDATION_ERROR'', st)
          else case submitted_intent now organizationId body of
            None \<Rightarrow> (Reply 500 ''INTERNAL_ERROR'', st)
          | Some i \<Rightarrow>
              if di_intentId i \<in> di_intentId ` set (intents st) then (Reply 409 ''DUPLICATE_INTENT'', st)
              else (Reply 201 ''accepted'', st\<lparr>intents := intents st @ [i]\<rparr>))"

text \<open>\<open>parsed\<close> is the body as JSON, of which \<open>shape\<close> reads the record.\<close>

definition handleReceiptSubmission ::
  "(string \<Rightarrow> bool) \<Rightarrow> (json \<Rightarrow> delivery_receipt option) \<Rightarrow> json option \<Rightarrow> store \<Rightarrow> http_reply \<times> store" where
  "handleReceiptSubmission isoTime shape parsed st =
     (case parsed of
        None \<Rightarrow> (Reply 400 ''INVALID_JSON'', st)
      | Some body \<Rightarrow>
          let (res, st') = processReceipt isoTime (shape body) st
          in (if rp_success res then Reply 200 ''ACCEPTED''
              else if rp_status res = RP_VALIDATION_ERROR then
                Reply 400 (nullish (rp_errorCode res) ''VALIDATION_ERROR'')
              else if rp_status res = RP_NOT_FOUND then Reply 404 ''INTENT_NOT_FOUND''
              else if rp_status res = RP_ALREADY_PROCESSED then Reply 200 ''ACCEPTED''
              else Reply 500 (nullish (rp_errorCode res) ''INTERNAL_ERROR''), st'))"

definition handleReportingSubmission ::
  "(string \<Rightarrow> bool) \<Rightarrow> (json \<Rightarrow> reporting_event option) \<Rightarrow> json option \<Rightarrow> store \<Rightarrow> http_reply \<times> store" where
  "handleReportingSubmission isoTime shape parsed st =
     (case parsed of
        None \<Rightarrow> (Reply 400 ''INVALID_JSON'', st)
      | Some body \<Rightarrow>
          let (res, st') = processEvent isoTime (shape body) st
          in (if dl_success res then
                Reply 200 (if isSuccessState (dl_state res) then ''success'' else ''not success'')
              else if dl_errorCode res = Some ''VALIDATION_ERROR'' then Reply 400 ''VALIDATION_ERROR''
              else if dl_errorCode res = Some ''INTENT_NOT_FOUND'' then Reply 404 ''INTENT_NOT_FOUND''
              else if dl_errorCode res = Some ''INVALID_TRANSITION'' then Reply 409 ''INVALID_TRANSITION''
              else Reply 500 (nullish (dl_errorCode res) ''INTERNAL_ERROR''), st'))"

section \<open>Facts\<close>

lemma validateReceipt_Some: "validateReceipt isoTime raw = Some r \<Longrightarrow> raw = Some r"
  by (auto simp: validateReceipt_def split: option.splits if_splits)

lemma validateEvent_Some: "validateEvent isoTime raw = Some ev \<Longrightarrow> raw = Some ev"
  by (auto simp: validateEvent_def split: option.splits if_splits)

text \<open>A callback changes nothing, or the status of the one intent it names.\<close>

lemma processReceipt_cases:
  assumes "processReceipt isoTime raw st = (res, st')"
  obtains (same) "st' = st"
  | (acked) r i where "raw = Some r" "i \<in> set (intents st)" "di_intentId i = dv_intentId r"
      "di_status i \<notin> receipt_terminal" "st' = set_status (di_intentId i) I_ACK_RECEIVED st"
proof (cases "validateReceipt isoTime raw")
  case None
  then show thesis using assms same by (simp add: processReceipt_def)
next
  case (Some r)
  show thesis
  proof (cases "find (of_organization (dv_intentId r) (dv_organizationId r)) (intents st)")
    case None
    then show thesis using assms same Some by (simp add: processReceipt_def)
  next
    case found: (Some i)
    then have "i \<in> set (intents st)" "di_intentId i = dv_intentId r"
      by (auto simp: of_organization_def dest!: find_SomeD)
    then show thesis
      using assms same acked [OF validateReceipt_Some [OF Some], of i] Some found
      by (auto simp: processReceipt_def split: if_splits)
  qed
qed

lemma processEvent_cases:
  assumes "processEvent isoTime raw st = (res, st')"
  obtains (same) "st' = st" "\<not> dl_success res"
  | (reported) ev i where "raw = Some ev" "i \<in> set (intents st)" "di_intentId i = de_intentId ev"
      "di_status i \<in> report_from" "dl_success res"
      "st' = set_status (di_intentId i) (mapStateToIntentStatus (de_state ev)) st"
proof (cases "validateEvent isoTime raw")
  case None
  then show thesis using assms same by (auto simp: processEvent_def)
next
  case (Some ev)
  show thesis
  proof (cases "find (of_organization (de_intentId ev) (de_organizationId ev)) (intents st)")
    case None
    then show thesis using assms same Some by (auto simp: processEvent_def)
  next
    case found: (Some i)
    then have "i \<in> set (intents st)" "di_intentId i = de_intentId ev"
      by (auto simp: of_organization_def dest!: find_SomeD)
    then show thesis
      using assms same reported [OF validateEvent_Some [OF Some], of i] Some found
      by (auto simp: processEvent_def split: if_splits)
  qed
qed

lemma submitted_intentD:
  assumes "submitted_intent now organizationId body = Some i"
  shows "di_status i = I_PENDING" and "di_organizationId i = organizationId"
    and "di_fencingToken i = None"
  using assms by (auto simp: submitted_intent_def Let_def split: option.splits if_splits)

lemma handleIntentSubmission_cases:
  assumes "handleIntentSubmission now organizationId parsed st = (res, st')"
  obtains (same) "st' = st" "res \<noteq> Reply 201 ''accepted''"
  | (submitted) i where "di_intentId i \<notin> di_intentId ` set (intents st)" "di_status i = I_PENDING"
      "di_organizationId i = organizationId" "di_fencingToken i = None"
      "st' = st\<lparr>intents := intents st @ [i]\<rparr>"
proof (cases "\<exists>body i. parsed = Some body \<and> submitted_intent now organizationId body = Some i \<and>
    di_intentId i \<notin> di_intentId ` set (intents st) \<and> st' \<noteq> st")
  case True
  then obtain body i where *: "parsed = Some body" "submitted_intent now organizationId body = Some i"
      "di_intentId i \<notin> di_intentId ` set (intents st)" "st' \<noteq> st" by blast
  then have "st' = st\<lparr>intents := intents st @ [i]\<rparr>"
    using assms by (auto simp: handleIntentSubmission_def split: json.splits if_splits)
  with * submitted_intentD [OF *(2)] submitted show thesis by blast
next
  case False
  then have "st' = st"
    using assms by (auto simp: handleIntentSubmission_def split: option.splits json.splits if_splits)
  moreover have "st' \<noteq> st" if "res = Reply 201 ''accepted''"
  proof -
    have "length (intents st') = length (intents st) + 1"
      using assms that by (auto simp: handleIntentSubmission_def split: option.splits json.splits if_splits)
    then show ?thesis by auto
  qed
  ultimately show thesis using same by blast
qed

end
