(* ===== verification/Outbox_Reconciliation.thy ===== *)
theory Outbox_Reconciliation
  imports Outbox_Delivery
begin

text \<open>
  Investigation of deliveries of unknown outcome:
  \<open>apps/integration-api/src/outbox/reconciliation.ts\<close> and \<open>unknown-handler.ts\<close>. The entries are
  a table of their own beside the intents; \<open>uq_reconciliation_intent\<close> makes the intent a key.
  The bookkeeping columns \<open>createdAt\<close> and \<open>updatedAt\<close> are left out.
\<close>

section \<open>Entries\<close>

datatype reconciliation_status =
  RE_PENDING_INVESTIGATION | RE_INVESTIGATING | RE_RESOLVED_CONFIRMED | RE_RESOLVED_FAILED
| RE_RESOLVED_RETRY

datatype resolution_kind = CONFIRMED | RESOLVE_FAILED | RESOLVE_RETRY

record reconciliation_entry =
  re_entryId :: string
  re_organizationId :: string
  re_intentId :: string
  re_receiptId :: string
  re_status :: reconciliation_status
  re_reasonCode :: failure_reason
  re_investigationNote :: "string option"
  re_investigatorActor :: string
  re_investigatedAt :: int
  re_resolvedByActor :: "string option"
  re_resolvedAt :: "int option"
  re_resolution :: "resolution_kind option"
  re_resolutionNote :: "string option"
  re_retryIdempotencyKey :: "string option"
  re_aggregateVersion :: int

datatype reconciliation_error_code =
  RC_INTENT_NOT_FOUND | RC_ALREADY_RECONCILING | RC_INVALID_STATE_TRANSITION | RC_NOT_FOUND
| RC_VERSION_CONFLICT | RC_ALREADY_RESOLVED | RC_VALIDATION_ERROR

text \<open>A service error, or one of the database client (a colliding key, a missing row).\<close>

datatype reconciliation_error = Reconciliation_Error reconciliation_error_code | Client_Error

text \<open>The tables the service works on.\<close>

record outbox_tables =
  ot_store :: store
  ot_entries :: "reconciliation_entry list"

section \<open>The service\<close>

definition intent_of :: "string \<Rightarrow> store \<Rightarrow> dispatch_intent option" where
  "intent_of intentId st = find (\<lambda>i. di_intentId i = intentId) (intents st)"

definition investigate :: "dispatch_intent \<Rightarrow> dispatch_intent" where
  "investigate i =
     i\<lparr>di_status := I_INVESTIGATION_PENDING, di_leaseOwner := None, di_leaseExpiresAt := None,
       di_fencingToken := None, di_leaseFencedAt := None\<rparr>"

definition new_entry ::
  "string \<Rightarrow> int \<Rightarrow> string \<Rightarrow> string \<Rightarrow> string \<Rightarrow> failure_reason \<Rightarrow> string \<Rightarrow> string option \<Rightarrow> reconciliation_entry" where
  "new_entry entryId now organizationId intentId receiptId reason actor note =
     \<lparr>re_entryId = entryId, re_organizationId = organizationId, re_intentId = intentId,
      re_receiptId = receiptId, re_status = RE_PENDING_INVESTIGATION, re_reasonCode = reason,
      re_investigationNote = note, re_investigatorActor = actor, re_investigatedAt = now,
      re_resolvedByActor = None, re_resolvedAt = None, re_resolution = None,
      re_resolutionNote = None, re_retryIdempotencyKey = None, re_aggregateVersion = 0\<rparr>"

definition getEntryByIntent :: "string \<Rightarrow> outbox_tables \<Rightarrow> reconciliation_entry option" where
  "getEntryByIntent intentId ot = find (\<lambda>e. re_intentId e = intentId) (ot_entries ot)"

definition getEntry :: "string \<Rightarrow> outbox_tables \<Rightarrow> reconciliation_entry option" where
  "getEntry entryId ot = find (\<lambda>e. re_entryId e = entryId) (ot_entries ot)"

text \<open>\<open>entryId\<close> is what \<open>generateId\<close> draws; the service's organization is not compared.\<close>

definition createReconciliationEntry ::
  "string \<Rightarrow> string \<Rightarrow> int \<Rightarrow> string \<Rightarrow> string \<Rightarrow> failure_reason \<Rightarrow> string \<Rightarrow> string option \<Rightarrow> outbox_tables \<Rightarrow>
   (reconciliation_error + reconciliation_entry) \<times> outbox_tables" where
  "createReconciliationEntry organizationId entryId now intentId receiptId reason actor note ot =
     (case intent_of intentId (ot_store ot) of
        None \<Rightarrow> (Inl (Reconciliation_Error RC_INTENT_NOT_FOUND), ot)
      | Some intent \<Rightarrow>
          if getEntryByIntent intentId ot \<noteq> None then
            (Inl (Reconciliation_Error RC_ALREADY_RECONCILING), ot)
          else if di_status intent \<in> {I_DELIVERED, I_FAILED, I_TERMINAL} then
            (Inl (Reconciliation_Error RC_INVALID_STATE_TRANSITION), ot)
          else if getEntry entryId ot \<noteq> None then (Inl Client_Error, ot)
          else
            let entry = new_entry entryId now organizationId intentId receiptId reason actor note
            in (Inr entry,
                \<lparr>ot_store = (ot_store ot)\<lparr>intents := update_where (\<lambda>i. di_intentId i = intentId)
                    investigate (intents (ot_store ot))\<rparr>,
                 ot_entries = ot_entries ot @ [entry]\<rparr>))"

definition put_entry ::
  "string \<Rightarrow> (reconciliation_entry \<Rightarrow> reconciliation_entry) \<Rightarrow> outbox_tables \<Rightarrow> outbox_tables" where
  "put_entry entryId f ot =
     ot\<lparr>ot_entries := update_where (\<lambda>e. re_entryId e = entryId) f (ot_entries ot)\<rparr>"

definition markInvestigating ::
  "string \<Rightarrow> string option \<Rightarrow> outbox_tables \<Rightarrow> (reconciliation_error + reconciliation_entry) \<times> outbox_tables" where
  "markInvestigating entryId note ot =
     (case getEntry entryId ot of
        None \<Rightarrow> (Inl (Reconciliation_Error RC_NOT_FOUND), ot)
      | Some entry \<Rightarrow>
          if re_status entry \<noteq> RE_PENDING_INVESTIGATION then
            (Inl (Reconciliation_Error RC_INVALID_STATE_TRANSITION), ot)
          else
            let f = (\<lambda>e. e\<lparr>re_status := RE_INVESTIGATING,
                            re_investigationNote := nullish_opt note (re_investigationNote entry)\<rparr>)
            in (Inr (f entry), put_entry entryId f ot))"

fun resolution_string :: "resolution_kind \<Rightarrow> string" where
  "resolution_string CONFIRMED = ''CONFIRMED''"
| "resolution_string RESOLVE_FAILED = ''FAILED''"
| "resolution_string RESOLVE_RETRY = ''RETRY''"

text \<open>\<open>RESOLUTION_KINDS.includes\<close>.\<close>

definition RESOLUTION_KINDS :: "resolution_kind list" where
  "RESOLUTION_KINDS = [CONFIRMED, RESOLVE_FAILED, RESOLVE_RETRY]"

definition resolution_of :: "string \<Rightarrow> resolution_kind option" where
  "resolution_of s = find (\<lambda>k. resolution_string k = s) RESOLUTION_KINDS"

fun resolved_status :: "resolution_kind \<Rightarrow> reconciliation_status" where
  "resolved_status CONFIRMED = RE_RESOLVED_CONFIRMED"
| "resolved_status RESOLVE_FAILED = RE_RESOLVED_FAILED"
| "resolved_status RESOLVE_RETRY = RE_RESOLVED_RETRY"

fun intent_new_status :: "resolution_kind \<Rightarrow> intent_status" where
  "intent_new_status CONFIRMED = I_DELIVERED"
| "intent_new_status RESOLVE_FAILED = I_FAILED"
| "intent_new_status RESOLVE_RETRY = I_PENDING"

definition resolved :: "reconciliation_status set" where
  "resolved = {RE_RESOLVED_CONFIRMED, RE_RESOLVED_FAILED, RE_RESOLVED_RETRY}"

definition resolve_entry ::
  "int \<Rightarrow> resolution_kind \<Rightarrow> string \<Rightarrow> string option \<Rightarrow> string option \<Rightarrow> reconciliation_entry \<Rightarrow> reconciliation_entry" where
  "resolve_entry now kind actor note retryKey e =
     e\<lparr>re_status := resolved_status kind, re_resolvedByActor := Some actor, re_resolvedAt := Some now,
       re_resolution := Some kind, re_resolutionNote := note, re_retryIdempotencyKey := retryKey,
       re_aggregateVersion := re_aggregateVersion e + 1\<rparr>"

definition resolveReconciliation ::
  "int \<Rightarrow> string \<Rightarrow> string \<Rightarrow> string \<Rightarrow> string option \<Rightarrow> string option \<Rightarrow> int option \<Rightarrow> outbox_tables \<Rightarrow>
   (reconciliation_error + reconciliation_entry) \<times> outbox_tables" where
  "resolveReconciliation now entryId resolution actor note retryKey expectedVersion ot =
     (case resolution_of resolution of
        None \<Rightarrow> (Inl (Reconciliation_Error RC_VALIDATION_ERROR), ot)
      | Some kind \<Rightarrow>
          if kind = RESOLVE_RETRY \<and> \<not> truthy retryKey then
            (Inl (Reconciliation_Error RC_VALIDATION_ERROR), ot)
          else case getEntry entryId ot of
            None \<Rightarrow> (Inl (Reconciliation_Error RC_NOT_FOUND), ot)
          | Some entry \<Rightarrow>
              if expectedVersion \<noteq> None \<and> expectedVersion \<noteq> Some (re_aggregateVersion entry) then
                (Inl (Reconciliation_Error RC_VERSION_CONFLICT), ot)
              else if re_status entry \<in> resolved then
                (Inl (Reconciliation_Error RC_ALREADY_RESOLVED), ot)
              else if intent_of (re_intentId entry) (ot_store ot) = None then (Inl Client_Error, ot)
              else
                (Inr (resolve_entry now kind actor note retryKey entry),
                 put_entry entryId (resolve_entry now kind actor note retryKey)
                   (ot\<lparr>ot_store := set_status (re_intentId entry) (intent_new_status kind) (ot_store ot)\<rparr>)))"

section \<open>The handler of unknown deliveries\<close>

datatype unknown_error_code = UE_DELIVERY_EVENT_INVALID | UE_INTENT_NOT_FOUND

datatype unknown_failure = Unknown_Handler unknown_error_code | From_Service reconciliation_error

record unknown_result =
  ud_handled :: bool
  ud_reconciliationEntryId :: "string option"
  ud_intentId :: string
  ud_intentStatus :: intent_status
  ud_alreadyReconciling :: bool

text \<open>\<open>formatActor\<close>: the kind and the first identifier the actor carries.\<close>

fun js_member_string :: "json option \<Rightarrow> string option" where
  "js_member_string v = (if jtruthy v then map_option js_String v else None)"

definition formatActor :: "json \<Rightarrow> string" where
  "formatActor actor =
     (let kind = (case jget ''kind'' actor of None \<Rightarrow> [] | Some JNull \<Rightarrow> [] | Some v \<Rightarrow> js_String v);
          ident = nullish_opt (js_member_string (jget ''serviceId'' actor))
                    (nullish_opt (js_member_string (jget ''userId'' actor))
                      (js_member_string (jget ''systemId'' actor)))
      in case ident of None \<Rightarrow> kind | Some s \<Rightarrow> kind @ '':'' @ s)"

definition handleUnknownDelivery ::
  "string \<Rightarrow> string \<Rightarrow> int \<Rightarrow> reporting_event \<Rightarrow> json \<Rightarrow> string \<Rightarrow> outbox_tables \<Rightarrow>
   (unknown_failure + unknown_result) \<times> outbox_tables" where
  "handleUnknownDelivery organizationId entryId now ev actor note ot =
     (if de_state ev \<noteq> RS_UNKNOWN then (Inl (Unknown_Handler UE_DELIVERY_EVENT_INVALID), ot)
      else case de_reason ev of
        None \<Rightarrow> (Inl (Unknown_Handler UE_DELIVERY_EVENT_INVALID), ot)
      | Some reason \<Rightarrow>
          (case intent_of (de_intentId ev) (ot_store ot) of
             None \<Rightarrow> (Inl (Unknown_Handler UE_INTENT_NOT_FOUND), ot)
           | Some intent \<Rightarrow>
               (case getEntryByIntent (de_intentId ev) ot of
                  Some entry \<Rightarrow>
                    (Inr \<lparr>ud_handled = True, ud_reconciliationEntryId = Some (re_entryId entry),
                       ud_intentId = de_intentId ev, ud_intentStatus = I_INVESTIGATION_PENDING,
                       ud_alreadyReconciling = True\<rparr>, ot)
                | None \<Rightarrow>
                    map_prod (map_sum From_Service (\<lambda>entry.
                        \<lparr>ud_handled = True, ud_reconciliationEntryId = Some (re_entryId entry),
                         ud_intentId = de_intentId ev, ud_intentStatus = I_INVESTIGATION_PENDING,
                         ud_alreadyReconciling = False\<rparr>)) id
                      (createReconciliationEntry organizationId entryId now (de_intentId ev)
                         (di_receiptId intent) reason (formatActor actor) (Some note) ot))))"

definition isUnderInvestigation :: "string \<Rightarrow> outbox_tables \<Rightarrow> bool" where
  "isUnderInvestigation intentId ot =
     (case getEntryByIntent intentId ot of None \<Rightarrow> False | Some e \<Rightarrow> re_status e \<notin> resolved)"

end
