(* ===== verification/Outbox_Dispatcher.thy ===== *)
theory Outbox_Dispatcher
  imports Outbox_Reconciliation Mock_Gateway
begin

text \<open>
  The dispatcher of outbound intents, \<open>apps/integration-api/src/outbox/dispatcher.ts\<close>: it claims
  a pending intent, calls the mock gateway with a request built from the row and completes the
  intent under its lease. Logging and the poll timer are left out.
\<close>

section \<open>Configuration and results\<close>

record dispatcher_config =
  dc_workerId :: string
  dc_leaseDurationMs :: int
  dc_pollIntervalMs :: int
  dc_batchSize :: nat

definition DEFAULT_DISPATCHER_CONFIG :: "string \<Rightarrow> dispatcher_config" where
  "DEFAULT_DISPATCHER_CONFIG pid =
     \<lparr>dc_workerId = ''outbox-dispatcher-'' @ pid, dc_leaseDurationMs = 30000,
      dc_pollIntervalMs = 1000, dc_batchSize = 10\<rparr>"

datatype dispatch_status = DS_DISPATCHED | DS_ACK_RECEIVED | DS_FAILED | DS_TERMINAL

record dispatch_result =
  dp_intentId :: string
  dp_status :: dispatch_status
  dp_providerMessageId :: "string option"
  dp_failureCode :: "string option"

section \<open>The request\<close>

definition scenario_names :: "(string \<times> scenario_id) list" where
  "scenario_names =
     [(''EXACT_MATCH_SUCCESS'', SN_EXACT_MATCH_SUCCESS),
      (''POSSIBLE_MATCH_REVIEW'', SN_POSSIBLE_MATCH_REVIEW),
      (''NEW_PROFILE_CREATED'', SN_NEW_PROFILE_CREATED),
      (''TIMEOUT_BEFORE_APPLY'', SN_TIMEOUT_BEFORE_APPLY),
      (''TIMEOUT_AFTER_APPLY'', SN_TIMEOUT_AFTER_APPLY),
      (''PERMISSION_DENIED'', SN_PERMISSION_DENIED), (''POLICY_REJECTION'', SN_POLICY_REJECTION),
      (''VERSION_CONFLICT'', SN_VERSION_CONFLICT),
      (''IDEMPOTENCY_CONFLICT'', SN_IDEMPOTENCY_CONFLICT),
      (''MALFORMED_DEPENDENCY_RESPONSE'', SN_MALFORMED_DEPENDENCY_RESPONSE),
      (''ONE_ACTIVE_CASE'', SN_ONE_ACTIVE_CASE), (''CLOSED_CASE_SUCCESS'', SN_CLOSED_CASE_SUCCESS),
      (''DNC_REJECTED'', SN_DNC_REJECTED), (''SUPPRESSION_REQUIRED'', SN_SUPPRESSION_REQUIRED),
      (''PLACEMENT_PROPOSED'', SN_PLACEMENT_PROPOSED),
      (''OUTBOX_RECEIPT_DURABLE'', SN_OUTBOX_RECEIPT_DURABLE),
      (''DEPENDENCY_UNAVAILABLE'', SN_DEPENDENCY_UNAVAILABLE), (''RATE_LIMITED'', SN_RATE_LIMITED)]"

definition tier_names :: "(string \<times> gateway_tier) list" where
  "tier_names =
     [(''INBOUND_DEFAULT'', INBOUND_DEFAULT), (''INBOUND_REVIEWER'', INBOUND_REVIEWER),
      (''PRIVILEGED_MERGE'', PRIVILEGED_MERGE)]"

text \<open>
  The members of the target the source casts: \<^const>\<open>None\<close> is a value outside the type of the
  cast. The source passes such a value on; here the request is then not defined, and the
  dispatch fails like the lookup of an unknown scenario in the gateway.
\<close>

definition text_member :: "string \<Rightarrow> json \<Rightarrow> string \<Rightarrow> string option" where
  "text_member k target dflt = text_column (Some (jnullish (jget k target) (JStr dflt)))"

definition named_member :: "(string \<times> 'a) list \<Rightarrow> string \<Rightarrow> json \<Rightarrow> 'a \<Rightarrow> 'a option" where
  "named_member names k target dflt =
     (case jget k target of
        None \<Rightarrow> Some dflt
      | Some JNull \<Rightarrow> Some dflt
      | Some (JStr s) \<Rightarrow> map_of names s
      | Some _ \<Rightarrow> None)"

definition dispatch_payload :: "dispatch_intent \<Rightarrow> json \<Rightarrow> json" where
  "dispatch_payload intent target =
     jnullish (jget ''payload'' target)
       (JObj [(''intentId'', JStr (di_intentId intent)), (''receiptId'', JStr (di_receiptId intent)),
              (''message'', jnullish (jget ''message'' target) (JStr ''Outbound intent dispatch''))])"

definition dispatch_request :: "dispatch_intent \<Rightarrow> string option \<Rightarrow> call_request option" where
  "dispatch_request intent idempotencyKey =
     (let target = di_intentTargetJson intent
      in if target = JNull then None
         else case (named_member scenario_names ''scenarioId'' target SN_OUTBOX_RECEIPT_DURABLE,
                    text_member ''gatewayMethod'' target ''recordInteraction'',
                    text_member ''provider'' target ''MOCK_PROVIDER'',
                    named_member tier_names ''tier'' target INBOUND_DEFAULT) of
           (Some scenario, Some method, Some provider, Some tier) \<Rightarrow>
             Some \<lparr>rq_organizationId = di_organizationId intent, rq_commandId = di_intentId intent,
                   rq_idempotencyKey = nullish idempotencyKey (''outbox-'' @ di_intentId intent),
                   rq_correlationId = nullish (di_correlationId intent) (''corr-'' @ di_intentId intent),
                   rq_method = method, rq_tier = tier, rq_provider = Some provider,
                   rq_actorKind = ''SERVICE'', rq_scenarioId = scenario,
                   rq_payload = dispatch_payload intent target\<rparr>
         | _ \<Rightarrow> None)"

text \<open>
  The row is read again; the key is the one of the claim. The result is the code of the thrown
  error, or the operation the gateway accepted.
\<close>

definition dispatchToGateway ::
  "(string \<Rightarrow> string) \<Rightarrow> int \<Rightarrow> string \<Rightarrow> string option \<Rightarrow> store \<Rightarrow> gateway_state \<Rightarrow>
   (string + string option) \<times> gateway_state" where
  "dispatchToGateway sha256 now intentId idempotencyKey st gs =
     (case intent_of intentId st of
        None \<Rightarrow> (Inl ''INTENT_NOT_FOUND'', gs)
      | Some intent \<Rightarrow>
          (case dispatch_request intent idempotencyKey of
             None \<Rightarrow> (Inl ''DISPATCH_FAILED'', gs)
           | Some request \<Rightarrow>
               let (response, gs') = mock_call sha256 now request gs
               in (case cx_outcome response of
                     Applied _ \<Rightarrow> Inr None
                   | Accepted operationId \<Rightarrow> Inr (Some operationId)
                   | Failed errors \<Rightarrow>
                       Inl (case errors of [] \<Rightarrow> ''UNKNOWN_ERROR'' | e # _ \<Rightarrow> te_code e), gs')))"

section \<open>Processing\<close>

record outbox =
  ob_tables :: outbox_tables
  ob_gateway :: gateway_state

text \<open>
  What an iteration sees: its clock and token, the rows other transactions have locked, the
  clock of the gateway, and what other processes commit before the call and before the
  completion.
\<close>

record dispatch_env =
  dn_now :: int
  dn_token :: string
  dn_locked :: "string set"
  dn_gatewayNow :: int
  dn_beforeCall :: "outbox_tables \<Rightarrow> outbox_tables"
  dn_beforeCompletion :: "outbox_tables \<Rightarrow> outbox_tables"

definition dispatch_claim_args :: "dispatcher_config \<Rightarrow> dispatch_env \<Rightarrow> claim_args" where
  "dispatch_claim_args cfg env =
     \<lparr>ca_workerId = dc_workerId cfg, ca_leaseDurationMs = dc_leaseDurationMs cfg, ca_now = dn_now env,
      ca_token = dn_token env, ca_maxPerPoll = None, ca_organizationId = None, ca_receiptId = None\<rparr>"

definition complete_dispatch :: "claimed_intent \<Rightarrow> dispatcher_config \<Rightarrow> outcome \<Rightarrow> outbox_tables \<Rightarrow> outbox_tables" where
  "complete_dispatch claimed cfg outc ot =
     ot\<lparr>ot_store := snd (completeIntent (lh_fencingToken claimed) (dc_workerId cfg) outc (ot_store ot))\<rparr>"

definition processNextIntent ::
  "(string \<Rightarrow> string) \<Rightarrow> dispatcher_config \<Rightarrow> dispatch_env \<Rightarrow> outbox \<Rightarrow> dispatch_result option \<times> outbox" where
  "processNextIntent sha256 cfg env ob =
     (let ot = ob_tables ob
      in case claimNextIntent (dn_locked env) (dispatch_claim_args cfg env) (ot_store ot) of
           (None, _) \<Rightarrow> (None, ob)
         | (Some claimed, st1) \<Rightarrow>
             let ot1 = dn_beforeCall env (ot\<lparr>ot_store := st1\<rparr>);
                 (res, gs) = dispatchToGateway sha256 (dn_gatewayNow env) (cn_intentId claimed)
                               (cn_idempotencyKey claimed) (ot_store ot1) (ob_gateway ob);
                 ot2 = dn_beforeCompletion env ot1
             in (case res of
                   Inr ref \<Rightarrow>
                     (Some \<lparr>dp_intentId = cn_intentId claimed, dp_status = DS_DISPATCHED,
                        dp_providerMessageId = ref, dp_failureCode = None\<rparr>,
                      \<lparr>ob_tables = complete_dispatch claimed cfg SUCCESS ot2, ob_gateway = gs\<rparr>)
                 | Inl code \<Rightarrow>
                     (Some \<lparr>dp_intentId = cn_intentId claimed, dp_status = DS_FAILED,
                        dp_providerMessageId = None, dp_failureCode = Some code\<rparr>,
                      \<lparr>ob_tables = complete_dispatch claimed cfg FAIL ot2, ob_gateway = gs\<rparr>)))"

text \<open>The loop of a poll: at most as many intents as the batch has, each in its own environment.\<close>

fun poll_loop ::
  "(string \<Rightarrow> string) \<Rightarrow> dispatcher_config \<Rightarrow> (nat \<Rightarrow> dispatch_env) \<Rightarrow> nat \<Rightarrow> nat \<Rightarrow> outbox \<Rightarrow>
   dispatch_result list \<times> outbox" where
  "poll_loop sha256 cfg envs processed 0 ob = ([], ob)"
| "poll_loop sha256 cfg envs processed (Suc left) ob =
     (case processNextIntent sha256 cfg (envs processed) ob of
        (None, ob') \<Rightarrow> ([], ob')
      | (Some r, ob') \<Rightarrow>
          let (rs, ob'') = poll_loop sha256 cfg envs (Suc processed) left ob' in (r # rs, ob''))"

definition pollOnce ::
  "(string \<Rightarrow> string) \<Rightarrow> dispatcher_config \<Rightarrow> (nat \<Rightarrow> dispatch_env) \<Rightarrow> bool \<Rightarrow> outbox \<Rightarrow>
   dispatch_result list \<times> outbox" where
  "pollOnce sha256 cfg envs running ob =
     (if \<not> running then ([], ob) else poll_loop sha256 cfg envs 0 (dc_batchSize cfg) ob)"

section \<open>Starting and stopping\<close>

record dispatcher =
  dsp_running :: bool
  dsp_timer :: bool

definition new_dispatcher :: dispatcher where
  "new_dispatcher = \<lparr>dsp_running = False, dsp_timer = False\<rparr>"

definition start_dispatcher :: "dispatcher \<Rightarrow> dispatcher" where
  "start_dispatcher d = (if dsp_running d then d else \<lparr>dsp_running = True, dsp_timer = True\<rparr>)"

definition stop_dispatcher :: "dispatcher \<Rightarrow> dispatcher" where
  "stop_dispatcher d = (if \<not> dsp_running d then d else \<lparr>dsp_running = False, dsp_timer = False\<rparr>)"

end
