(* ===== verification/Outbox_System.thy ===== *)
theory Outbox_System
  imports Outbox_Dispatcher Store_System
begin

text \<open>
  The outbox as a transition system: submissions, the callbacks of the provider, the steps of
  an investigation and every transaction of the store (\<^typ>\<open>store_op\<close>: claims, completions,
  sweeps, commits), in any order. The dispatcher is a claim, a gateway call and a completion
  with other steps in between.
\<close>

section \<open>Steps\<close>

datatype outbox_op =
  Submit_Intent int string "json option"
| Receive_Receipt "string \<Rightarrow> bool" "delivery_receipt option"
| Receive_Report "string \<Rightarrow> bool" "reporting_event option"
| Receive_Unknown string string int reporting_event json string
| Mark_Investigating string "string option"
| Resolve int string string string "string option" "string option" "int option"
| Store_Op store_op

definition on_store :: "(store \<Rightarrow> store) \<Rightarrow> outbox_tables \<Rightarrow> outbox_tables" where
  "on_store f ot = ot\<lparr>ot_store := f (ot_store ot)\<rparr>"

fun run_outbox_op :: "outbox_op \<Rightarrow> outbox_tables \<Rightarrow> outbox_tables" where
  "run_outbox_op (Submit_Intent now org body) ot = on_store (snd \<circ> handleIntentSubmission now org body) ot"
| "run_outbox_op (Receive_Receipt isoTime raw) ot = on_store (snd \<circ> processReceipt isoTime raw) ot"
| "run_outbox_op (Receive_Report isoTime raw) ot = on_store (snd \<circ> processEvent isoTime raw) ot"
| "run_outbox_op (Receive_Unknown org entryId now ev actor note) ot =
     snd (handleUnknownDelivery org entryId now ev actor note ot)"
| "run_outbox_op (Mark_Investigating entryId note) ot = snd (markInvestigating entryId note ot)"
| "run_outbox_op (Resolve now entryId resolution actor note retryKey version) ot =
     snd (resolveReconciliation now entryId resolution actor note retryKey version ot)"
| "run_outbox_op (Store_Op op) ot = on_store (run_op op) ot"

declare run_outbox_op.simps(7) [simp del]

lemma on_store_simps [simp]:
  "ot_store (on_store f ot) = f (ot_store ot)" "ot_entries (on_store f ot) = ot_entries ot"
  by (simp_all add: on_store_def)

definition run_outbox :: "outbox_op list \<Rightarrow> outbox_tables \<Rightarrow> outbox_tables" where
  "run_outbox ops ot = fold run_outbox_op ops ot"

section \<open>What the transactions of the store do to the intents\<close>

text \<open>
  A transaction keeps every column of an intent but those of its lease, and leaves an intent
  alone that is neither pending nor leased.
\<close>

definition quiet_step :: "dispatch_intent \<Rightarrow> dispatch_intent \<Rightarrow> bool" where
  "quiet_step i i' \<longleftrightarrow>
     intent_core i' = intent_core i \<and> (di_status i \<notin> {I_PENDING, I_LEASED} \<longrightarrow> i' = i)"

lemma quiet_step_refl [simp]: "quiet_step i i"
  by (simp add: quiet_step_def)

lemma intent_core_id: "intent_core i' = intent_core i \<Longrightarrow> di_intentId i' = di_intentId i"
  by (drule arg_cong [of _ _ di_intentId]) (simp add: intent_core_def)

lemma quiet_step_id: "quiet_step i i' \<Longrightarrow> di_intentId i' = di_intentId i"
  by (rule intent_core_id) (simp add: quiet_step_def)

definition rows_step :: "dispatch_intent list \<Rightarrow> dispatch_intent list \<Rightarrow> bool" where
  "rows_step xs ys \<longleftrightarrow>
     (\<exists>us vs. ys = us @ vs \<and> list_all2 quiet_step xs us \<and> (\<forall>z \<in> set vs. di_status z = I_PENDING)) \<and>
     (distinct (map di_intentId xs) \<longrightarrow> distinct (map di_intentId ys))"

lemma quiet_ids: "list_all2 quiet_step xs us \<Longrightarrow> map di_intentId us = map di_intentId xs"
  by (induction rule: list_all2_induct) (auto simp: quiet_step_def dest: intent_core_id)

lemma rows_stepI: "list_all2 quiet_step xs us \<Longrightarrow> rows_step xs us"
  unfolding rows_step_def
  by (intro conjI exI [of _ us] exI [of _ "[]"]) (auto simp: quiet_ids)

lemma rows_step_refl [simp]: "rows_step xs xs"
  by (rule rows_stepI) (simp add: list_all2_refl)

lemma rows_step_append:
  assumes "\<forall>z \<in> set vs. di_status z = I_PENDING"
    and "distinct (map di_intentId xs) \<Longrightarrow> distinct (map di_intentId (xs @ vs))"
  shows "rows_step xs (xs @ vs)"
  unfolding rows_step_def
  by (intro conjI exI [of _ xs] exI [of _ vs] impI assms refl list_all2_refl quiet_step_refl)

lemma rows_step_update:
  assumes "\<And>r. r \<in> set xs \<Longrightarrow> p r \<Longrightarrow> intent_core (f r) = intent_core r"
    and "\<And>r. r \<in> set xs \<Longrightarrow> p r \<Longrightarrow> di_status r \<in> {I_PENDING, I_LEASED}"
  shows "rows_step xs (update_where p f xs)"
  using assms by (intro rows_stepI list_all2_update_where) (auto simp: quiet_step_def)

lemma claim_rows:
  assumes "distinct (map di_intentId (intents st))"
  shows "rows_step (intents st) (intents (snd (claimNextIntent locked args st)))"
proof -
  obtain res st' where c: "claimNextIntent locked args st = (res, st')"
    by (cases "claimNextIntent locked args st")
  from c show ?thesis
  proof (cases rule: claimNextIntent_cases)
    case none
    then show ?thesis by (simp add: c)
  next
    case (some row)
    have "r = row" if "r \<in> set (intents st)" "di_intentId r = di_intentId row" for r
      using assms some(1) that by (auto simp: distinct_map inj_on_def)
    then show ?thesis
      using some(2) by (auto simp: c some(4) row_simps intent_eligible_def intro!: rows_step_update)
  qed
qed

lemma complete_rows:
  assumes "distinct (map di_intentId (intents st))"
  shows "rows_step (intents st) (intents (snd (completeIntent t w oc st)))"
proof (cases "find (held_intent t w) (intents st)")
  case None
  then show ?thesis by (simp add: completeIntent_def)
next
  case (Some row)
  then have row: "row \<in> set (intents st)" "di_status row = I_LEASED"
    by (auto simp: held_intent_def dest!: find_SomeD)
  have "r = row" if "r \<in> set (intents st)" "di_intentId r = di_intentId row" for r
    using assms row(1) that by (auto simp: distinct_map inj_on_def)
  then show ?thesis
    using row(2) Some by (auto simp: completeIntent_def Let_def row_simps intro!: rows_step_update)
qed

lemma sweep_rows:
  "rows_step (intents st) (intents (snd (extendLease k t w d now st)))"
  "rows_step (intents st) (intents (snd (releaseLease k t w st)))"
  "rows_step (intents st) (intents (snd (reclaimExpiredLeases now st)))"
  "rows_step (intents st) (intents (snd (releaseAllForWorker w now st)))"
  "rows_step (intents st) (intents (snd (resetStuckIntent now k' st)))"
proof -
  show "rows_step (intents st) (intents (snd (extendLease k t w d now st)))"
    by (cases k) (auto simp: row_simps held_intent_def intro!: rows_step_update)
  show "rows_step (intents st) (intents (snd (releaseLease k t w st)))"
    by (cases k) (auto simp: row_simps held_intent_def intro!: rows_step_update)
qed (auto simp: reclaimExpiredLeases_def releaseAllForWorker_def resetStuckIntent_def Let_def
      row_simps expired_intent_def intro!: rows_step_update)

lemma commit_rows:
  assumes "op = Commit now sc p st_read"
  shows "rows_step (intents st) (intents (run_op op st))"
  using assms
proof (cases rule: run_op_commit [of op now sc p st_read st])
  case (added dk res)
  let ?vs = "map (buildPersistedIntent now (rc_receiptId (new_receipt now sc p dk))) (cp_intents p)"
  have ids: "map di_intentId ?vs = map ii_intentId (cp_intents p)"
    by (simp add: buildPersistedIntent_def o_def)
  have "distinct (map ii_intentId (cp_intents p)) \<and>
      ii_intentId ` set (cp_intents p) \<inter> di_intentId ` set (intents st) = {}"
    using added(1)
  proof (cases rule: commit_cases)
    case existing
    then have "receipts (run_op op st) = receipts st" by simp
    then show ?thesis by (simp add: added(2))
  next
    case (created dk')
    then show ?thesis using create_intents_result by blast
  qed
  moreover have "di_intentId ` set ?vs = ii_intentId ` set (cp_intents p)"
    using arg_cong [OF ids, of set] by (simp only: set_map)
  ultimately have "distinct (map di_intentId (intents st)) \<Longrightarrow> distinct (map di_intentId (intents st @ ?vs))"
    using ids by (simp only: map_append distinct_append set_map) blast
  moreover have "\<forall>z \<in> set ?vs. di_status z = I_PENDING" by (auto simp: buildPersistedIntent_def)
  ultimately show ?thesis
    unfolding added(3) by (intro rows_step_append)
qed simp_all

lemma run_op_rows:
  assumes "distinct (map di_intentId (intents st))"
  shows "rows_step (intents st) (intents (run_op op st))"
proof (cases op)
  case (Commit now sc p st_read)
  then show ?thesis by (rule commit_rows)
next
  case (Redrive k actor now opts)
  show ?thesis
    by (cases rule: redrive_cases [of k actor now opts st]) (simp_all add: Redrive)
next
  case (Complete_Write args row)
  then show ?thesis using completeReceipt_write_puts [of args row st] by auto
next
  case (Complete args)
  then show ?thesis using completeReceipt_puts [of args st] by auto
next
  case (Reset_Receipt now k)
  then show ?thesis by (simp only: run_op_reset_receipt) simp
next
  case (Create_Recovery ids now args)
  then show ?thesis by (simp add: run_op_recovery del: run_op.simps)
next
  case (Complete_Recovery k status now)
  then show ?thesis by (simp add: run_op_recovery del: run_op.simps)
qed (use assms in \<open>simp_all add: claim_rows complete_rows sweep_rows claims_intents\<close>)

end
