(* ===== verification/Outbox_Facts.thy ===== *)
theory Outbox_Facts
  imports Outbox_System
begin

text \<open>
  What one step of the outbox can do, and the invariants of its runs: the tables are well
  formed, an intent under investigation is out of the dispatcher's reach, and a settled intent
  never changes.
\<close>

section \<open>The invariant\<close>

definition settled_status :: "intent_status set" where
  "settled_status = {I_DELIVERED, I_FAILED, I_TERMINAL}"

text \<open>An entry carries a resolution exactly when it is resolved, and then its version is one.\<close>

definition entry_ok :: "reconciliation_entry \<Rightarrow> bool" where
  "entry_ok e \<longleftrightarrow>
     (case re_resolution e of
        None \<Rightarrow> re_status e \<notin> resolved \<and> re_aggregateVersion e = 0
      | Some kind \<Rightarrow> re_status e = resolved_status kind \<and> re_aggregateVersion e = 1 \<and>
          (kind = RESOLVE_RETRY \<longrightarrow> truthy (re_retryIdempotencyKey e)))"

definition tables_ok :: "outbox_tables \<Rightarrow> bool" where
  "tables_ok ot \<longleftrightarrow>
     distinct (map di_intentId (intents (ot_store ot))) \<and>
     distinct (map re_entryId (ot_entries ot)) \<and> distinct (map re_intentId (ot_entries ot)) \<and>
     (\<forall>e \<in> set (ot_entries ot). entry_ok e \<and> re_intentId e \<in> di_intentId ` set (intents (ot_store ot)))"

text \<open>While an investigation is open its intent is neither pending nor leased.\<close>

definition investigated_apart :: "outbox_tables \<Rightarrow> bool" where
  "investigated_apart ot \<longleftrightarrow>
     (\<forall>e \<in> set (ot_entries ot). \<forall>i \<in> set (intents (ot_store ot)).
        re_status e \<notin> resolved \<and> di_intentId i = re_intentId e \<longrightarrow> di_status i \<notin> {I_PENDING, I_LEASED})"

lemma tables_okD:
  assumes "tables_ok ot"
  shows "distinct (map di_intentId (intents (ot_store ot)))"
    and "distinct (map re_entryId (ot_entries ot))" and "distinct (map re_intentId (ot_entries ot))"
  using assms by (simp_all add: tables_ok_def)

lemma resolved_status_in [simp]: "resolved_status kind \<in> resolved"
  by (cases kind) (simp_all add: resolved_def)

lemma resolved_status_open [simp]:
  "resolved_status kind \<noteq> RE_PENDING_INVESTIGATION" "resolved_status kind \<noteq> RE_INVESTIGATING"
  by (cases kind; simp)+

lemma same_intent:
  "distinct (map di_intentId xs) \<Longrightarrow> i \<in> set xs \<Longrightarrow> j \<in> set xs \<Longrightarrow> di_intentId i = di_intentId j \<Longrightarrow> i = j"
  by (auto simp: distinct_map inj_on_def)

lemma same_entry:
  "distinct (map re_entryId xs) \<Longrightarrow> e \<in> set xs \<Longrightarrow> f \<in> set xs \<Longrightarrow> re_entryId e = re_entryId f \<Longrightarrow> e = f"
  by (auto simp: distinct_map inj_on_def)

section \<open>The effect of a step\<close>

lemma intent_of_SomeD: "intent_of k st = Some i \<Longrightarrow> i \<in> set (intents st) \<and> di_intentId i = k"
  unfolding intent_of_def by (drule find_SomeD)

lemma getEntry_SomeD: "getEntry k ot = Some e \<Longrightarrow> e \<in> set (ot_entries ot) \<and> re_entryId e = k"
  unfolding getEntry_def by (drule find_SomeD)

lemma getEntryByIntent_SomeD:
  "getEntryByIntent k ot = Some e \<Longrightarrow> e \<in> set (ot_entries ot) \<and> re_intentId e = k"
  unfolding getEntryByIntent_def by (drule find_SomeD)

lemma create_cases:
  assumes "createReconciliationEntry org entryId now k receiptId reason actor note ot = (res, ot')"
  obtains (refused) e where "ot' = ot" "res = Inl e"
  | (opened) i where "intent_of k (ot_store ot) = Some i" "di_status i \<notin> settled_status"
      "getEntryByIntent k ot = None" "getEntry entryId ot = None"
      "res = Inr (new_entry entryId now org k receiptId reason actor note)"
      "ot' = \<lparr>ot_store = (ot_store ot)\<lparr>intents := update_where (\<lambda>i. di_intentId i = k) investigate
                (intents (ot_store ot))\<rparr>,
              ot_entries = ot_entries ot @ [new_entry entryId now org k receiptId reason actor note]\<rparr>"
proof (cases "intent_of k (ot_store ot)")
  case None
  then show thesis using assms refused by (auto simp: createReconciliationEntry_def)
next
  case (Some i)
  show thesis
  proof (cases "getEntryByIntent k ot \<noteq> None \<or> di_status i \<in> settled_status \<or> getEntry entryId ot \<noteq> None")
    case True
    then have "ot' = ot \<and> isl res"
      using assms Some by (auto simp: createReconciliationEntry_def settled_status_def split: if_splits)
    then show thesis using refused by (cases res) auto
  next
    case False
    then show thesis
      using assms Some opened [of i]
      by (simp add: createReconciliationEntry_def settled_status_def Let_def)
  qed
qed

lemma unknown_cases:
  assumes "handleUnknownDelivery org entryId now ev actor note ot = (res, ot')"
  obtains (same) "ot' = ot"
  | (tables_opened) i reason where "i \<in> set (intents (ot_store ot))" "di_intentId i = de_intentId ev"
      "di_status i \<notin> settled_status"
      "getEntryByIntent (de_intentId ev) ot = None" "getEntry entryId ot = None" "\<not> isl res"
      "ot' = \<lparr>ot_store = (ot_store ot)\<lparr>intents := update_where (\<lambda>i. di_intentId i = de_intentId ev)
                investigate (intents (ot_store ot))\<rparr>,
              ot_entries = ot_entries ot @
                [new_entry entryId now org (de_intentId ev) (di_receiptId i) reason (formatActor actor) (Some note)]\<rparr>"
proof (cases "de_state ev = RS_UNKNOWN \<and> getEntryByIntent (de_intentId ev) ot = None")
  case False
  then show thesis using assms same
    by (auto simp: handleUnknownDelivery_def split: option.splits if_splits)
next
  case True
  show thesis
  proof (cases "de_reason ev = None \<or> intent_of (de_intentId ev) (ot_store ot) = None")
    case True
    then show thesis using assms same
      by (auto simp: handleUnknownDelivery_def split: option.splits if_splits)
  next
    case False
    then obtain reason i where r: "de_reason ev = Some reason"
        and i: "intent_of (de_intentId ev) (ot_store ot) = Some i" by auto
    obtain res0 where c: "createReconciliationEntry org entryId now (de_intentId ev) (di_receiptId i) reason
        (formatActor actor) (Some note) ot = (res0, ot')" "isl res = isl res0"
      using assms True r i
      by (cases "createReconciliationEntry org entryId now (de_intentId ev) (di_receiptId i) reason
          (formatActor actor) (Some note) ot") (auto simp: handleUnknownDelivery_def isl_map_sum)
    from c(1) show thesis
    proof (cases rule: create_cases)
      case refused
      then show thesis using same by simp
    next
      case (opened j)
      then show thesis using intent_of_SomeD [OF i] i c(2) tables_opened [of i reason] by simp
    qed
  qed
qed


lemma mark_cases:
  assumes "markInvestigating entryId note ot = (res, ot')"
  obtains (same) "ot' = ot"
  | (marked) e nt where "e \<in> set (ot_entries ot)" "re_entryId e = entryId"
      "re_status e = RE_PENDING_INVESTIGATION"
      "ot' = put_entry entryId (\<lambda>e. e\<lparr>re_status := RE_INVESTIGATING, re_investigationNote := nt\<rparr>) ot"
proof (cases "getEntry entryId ot")
  case None
  then show thesis using assms same by (auto simp: markInvestigating_def)
next
  case (Some e)
  then show thesis
    using assms same marked [of e] getEntry_SomeD [OF Some]
    by (auto simp: markInvestigating_def Let_def split: if_splits)
qed

lemma resolve_cases:
  assumes "resolveReconciliation now entryId resolution actor note retryKey version ot = (res, ot')"
  obtains (refused) err where "ot' = ot" "res = Inl err"
  | (settled) e kind where "getEntry entryId ot = Some e" "re_status e \<notin> resolved"
      "resolution_of resolution = Some kind" "kind = RESOLVE_RETRY \<longrightarrow> truthy retryKey"
      "res = Inr (resolve_entry now kind actor note retryKey e)"
      "ot' = put_entry entryId (resolve_entry now kind actor note retryKey)
               (ot\<lparr>ot_store := set_status (re_intentId e) (intent_new_status kind) (ot_store ot)\<rparr>)"
proof (cases "ot' = ot \<and> isl res")
  case True
  then show thesis using refused by (cases res) auto
next
  case False
  then obtain kind where k: "resolution_of resolution = Some kind" "kind = RESOLVE_RETRY \<longrightarrow> truthy retryKey"
    using assms by (cases "resolution_of resolution") (auto simp: resolveReconciliation_def split: if_splits)
  show thesis
  proof (cases "getEntry entryId ot")
    case None
    then show thesis using assms False k by (auto simp: resolveReconciliation_def)
  next
    case (Some e)
    then have "re_status e \<notin> resolved"
      using assms False k by (auto simp: resolveReconciliation_def split: if_splits)
    with Some k settled [of e kind] assms False show thesis
      by (auto simp: resolveReconciliation_def split: if_splits)
  qed
qed

text \<open>The effect of any step, and the columns it may write.\<close>

lemma outbox_cases:
  assumes "tables_ok ot"
  obtains (rows) "ot_entries (run_outbox_op op ot) = ot_entries ot"
      "rows_step (intents (ot_store ot)) (intents (ot_store (run_outbox_op op ot)))"
  | (callback) i s where "i \<in> set (intents (ot_store ot))" "di_status i \<notin> settled_status"
      "s \<in> insert I_ACK_RECEIVED settled_status"
      "run_outbox_op op ot = on_store (set_status (di_intentId i) s) ot"
  | (opened) i entry where "i \<in> set (intents (ot_store ot))" "di_status i \<notin> settled_status"
      "getEntryByIntent (di_intentId i) ot = None" "getEntry (re_entryId entry) ot = None"
      "re_intentId entry = di_intentId i" "entry_ok entry" "re_status entry \<notin> resolved"
      "run_outbox_op op ot =
         \<lparr>ot_store = (ot_store ot)\<lparr>intents := update_where (\<lambda>j. di_intentId j = di_intentId i) investigate
             (intents (ot_store ot))\<rparr>,
          ot_entries = ot_entries ot @ [entry]\<rparr>"
  | (marked) e nt where "e \<in> set (ot_entries ot)" "re_status e = RE_PENDING_INVESTIGATION"
      "run_outbox_op op ot = put_entry (re_entryId e)
         (\<lambda>e. e\<lparr>re_status := RE_INVESTIGATING, re_investigationNote := nt\<rparr>) ot"
  | (settled) e tm kind actor rnote retryKey where "e \<in> set (ot_entries ot)" "re_status e \<notin> resolved"
      "kind = RESOLVE_RETRY \<longrightarrow> truthy retryKey"
      "run_outbox_op op ot = put_entry (re_entryId e) (resolve_entry tm kind actor rnote retryKey)
         (ot\<lparr>ot_store := set_status (re_intentId e) (intent_new_status kind) (ot_store ot)\<rparr>)"
proof (cases op)
  case (Submit_Intent now org body)
  obtain res st' where s: "handleIntentSubmission now org body (ot_store ot) = (res, st')"
    by (cases "handleIntentSubmission now org body (ot_store ot)")
  then have "rows_step (intents (ot_store ot)) (intents st')"
  proof (cases rule: handleIntentSubmission_cases)
    case (submitted i)
    then show ?thesis by (auto intro: rows_step_append)
  qed simp
  then show thesis using rows by (simp add: Submit_Intent s)
next
  case (Receive_Receipt isoTime raw)
  obtain res st' where s: "processReceipt isoTime raw (ot_store ot) = (res, st')"
    by (cases "processReceipt isoTime raw (ot_store ot)")
  then show thesis
  proof (cases rule: processReceipt_cases)
    case same
    then show thesis using rows by (simp add: Receive_Receipt s)
  next
    case (acked r i)
    then show thesis using callback [of i I_ACK_RECEIVED] s
      by (auto simp: Receive_Receipt on_store_def settled_status_def receipt_terminal_def)
  qed
next
  case (Receive_Report isoTime raw)
  obtain res st' where s: "processEvent isoTime raw (ot_store ot) = (res, st')"
    by (cases "processEvent isoTime raw (ot_store ot)")
  then show thesis
  proof (cases rule: processEvent_cases)
    case same
    then show thesis using rows by (simp add: Receive_Report s)
  next
    case (reported ev i)
    have "mapStateToIntentStatus (de_state ev) \<in> insert I_ACK_RECEIVED settled_status"
      by (cases "de_state ev") (simp_all add: settled_status_def)
    then show thesis using callback [of i "mapStateToIntentStatus (de_state ev)"] s reported
      by (auto simp: Receive_Report on_store_def settled_status_def report_from_def)
  qed
next
  case (Receive_Unknown org entryId now ev actor nt)
  obtain res ot' where s: "handleUnknownDelivery org entryId now ev actor nt ot = (res, ot')"
    by (cases "handleUnknownDelivery org entryId now ev actor nt ot")
  then show thesis
  proof (cases rule: unknown_cases)
    case same
    then show thesis using rows by (simp add: Receive_Unknown s)
  next
    case (tables_opened i reason)
    then show thesis
      using s opened [of i "new_entry entryId now org (de_intentId ev) (di_receiptId i) reason
          (formatActor actor) (Some nt)"]
      by (simp add: Receive_Unknown new_entry_def entry_ok_def resolved_def)
  qed
next
  case (Mark_Investigating entryId nt)
  obtain res ot' where s: "markInvestigating entryId nt ot = (res, ot')"
    by (cases "markInvestigating entryId nt ot")
  then show thesis
  proof (cases rule: mark_cases)
    case same
    then show thesis using rows by (simp add: Mark_Investigating s)
  next
    case (marked e nt')
    then show thesis using s that(4) [of e nt'] by (simp add: Mark_Investigating)
  qed
next
  case (Resolve now entryId resolution actor nt retryKey version)
  obtain res ot' where s: "resolveReconciliation now entryId resolution actor nt retryKey version ot = (res, ot')"
    by (cases "resolveReconciliation now entryId resolution actor nt retryKey version ot")
  then show thesis
  proof (cases rule: resolve_cases)
    case refused
    then show thesis using rows by (simp add: Resolve s)
  next
    case (settled e kind)
    then show thesis
      using s that(5) [of e kind retryKey now actor nt] getEntry_SomeD [OF settled(1)] by (simp add: Resolve)
  qed
next
  case (Store_Op sop)
  then show thesis
    using rows run_op_rows [OF tables_okD(1) [OF assms], of sop] by (simp add: run_outbox_op.simps(7))
qed

section \<open>Rows across a step\<close>

lemma rows_step_mem:
  assumes "rows_step xs ys" and "i \<in> set xs"
  obtains i' where "i' \<in> set ys" "quiet_step i i'"
proof -
  obtain us vs where ys: "ys = us @ vs" "list_all2 quiet_step xs us"
    using assms(1) by (auto simp: rows_step_def)
  obtain n where n: "n < length xs" "xs ! n = i" using assms(2) by (auto simp: in_set_conv_nth)
  have "us ! n \<in> set ys" using n(1) list_all2_lengthD [OF ys(2)] by (simp add: ys(1))
  moreover have "quiet_step i (us ! n)" using list_all2_nthD [OF ys(2) n(1)] n(2) by simp
  ultimately show thesis by (rule that)
qed

lemma rows_step_ids:
  assumes "rows_step xs ys"
  shows "di_intentId ` set xs \<subseteq> di_intentId ` set ys"
proof
  fix k assume "k \<in> di_intentId ` set xs"
  then obtain i where i: "i \<in> set xs" "k = di_intentId i" by blast
  obtain i' where i': "i' \<in> set ys" "quiet_step i i'" using rows_step_mem [OF assms i(1)] by blast
  have "di_intentId i' = k" using quiet_step_id [OF i'(2)] i(2) by simp
  then show "k \<in> di_intentId ` set ys" using i'(1) by blast
qed

lemma rows_step_keeps:
  assumes "rows_step xs ys" and "i \<in> set xs" and "di_status i \<notin> {I_PENDING, I_LEASED}"
  shows "i \<in> set ys"
  using rows_step_mem [OF assms(1,2)] assms(3) by (metis quiet_step_def)

text \<open>A row with the id of an old one was that row.\<close>

lemma rows_step_back:
  assumes "rows_step xs ys" and "distinct (map di_intentId xs)" and "j \<in> set ys" and "i \<in> set xs"
    and "di_intentId j = di_intentId i"
  shows "quiet_step i j"
proof -
  obtain i' where i': "i' \<in> set ys" "quiet_step i i'" using rows_step_mem [OF assms(1,4)] by blast
  have "distinct (map di_intentId ys)" using assms(1,2) by (simp add: rows_step_def)
  moreover have "di_intentId i' = di_intentId i" by (rule quiet_step_id [OF i'(2)])
  ultimately have "j = i'" using same_intent [OF _ assms(3) i'(1)] assms(5) by simp
  then show ?thesis using i'(2) by simp
qed

lemma map_intent_writes [row_simps]:
  "map di_intentId (intents (set_status k s st)) = map di_intentId (intents st)"
  "map di_intentId (update_where p investigate rows) = map di_intentId rows"
  by (simp_all add: set_status_def map_update_where investigate_def)

lemma map_entry_writes [row_simps]:
  assumes "\<And>e. re_entryId (f e) = re_entryId e" and "\<And>e. re_intentId (f e) = re_intentId e"
  shows "map re_entryId (ot_entries (put_entry k f ot)) = map re_entryId (ot_entries ot)"
    and "map re_intentId (ot_entries (put_entry k f ot)) = map re_intentId (ot_entries ot)"
    and "ot_store (put_entry k f ot) = ot_store ot"
  using assms by (simp_all add: put_entry_def map_update_where)

lemma resolve_entry_fields [simp]:
  "re_entryId (resolve_entry now kind actor note retryKey e) = re_entryId e"
  "re_intentId (resolve_entry now kind actor note retryKey e) = re_intentId e"
  "re_status (resolve_entry now kind actor note retryKey e) = resolved_status kind"
  by (simp_all add: resolve_entry_def)

lemma image_ids: "map f xs = map f ys \<Longrightarrow> f ` set xs = f ` set ys"
  by (metis list.set_map)

section \<open>The tables stay well formed\<close>

lemma step_tables_ok:
  assumes ok: "tables_ok ot"
  shows "tables_ok (run_outbox_op op ot)"
proof (rule outbox_cases [OF ok, of op])
  assume e: "ot_entries (run_outbox_op op ot) = ot_entries ot"
    and rows: "rows_step (intents (ot_store ot)) (intents (ot_store (run_outbox_op op ot)))"
  then show ?thesis
    using ok rows_step_ids [OF rows] by (auto simp: tables_ok_def rows_step_def)
next
  fix i :: dispatch_intent and s
  assume "run_outbox_op op ot = on_store (set_status (di_intentId i) s) ot"
  then show ?thesis
    using ok image_ids [OF map_intent_writes(1) [of "di_intentId i" s "ot_store ot"]]
    by (simp add: tables_ok_def row_simps)
next
  fix i :: dispatch_intent and entry
  let ?rows = "update_where (\<lambda>j. di_intentId j = di_intentId i) investigate (intents (ot_store ot))"
  assume "i \<in> set (intents (ot_store ot))" "getEntryByIntent (di_intentId i) ot = None"
    "getEntry (re_entryId entry) ot = None" "re_intentId entry = di_intentId i" "entry_ok entry"
    "run_outbox_op op ot = \<lparr>ot_store = (ot_store ot)\<lparr>intents := ?rows\<rparr>, ot_entries = ot_entries ot @ [entry]\<rparr>"
  then show ?thesis
    using ok image_ids [OF map_intent_writes(2) [of "\<lambda>j. di_intentId j = di_intentId i" "intents (ot_store ot)"]]
    by (auto simp: tables_ok_def row_simps getEntry_def getEntryByIntent_def find_None)
next
  fix e nt assume *: "e \<in> set (ot_entries ot)" "re_status e = RE_PENDING_INVESTIGATION"
    "run_outbox_op op ot = put_entry (re_entryId e)
       (\<lambda>e. e\<lparr>re_status := RE_INVESTIGATING, re_investigationNote := nt\<rparr>) ot"
  have "x = e" if "x \<in> set (ot_entries ot)" "re_entryId x = re_entryId e" for x
    using same_entry [OF tables_okD(2) [OF ok] that(1) *(1) that(2)] .
  note only = this
  have "entry_ok e" using ok *(1) by (simp add: tables_ok_def)
  then have "re_resolution e = None \<and> re_aggregateVersion e = 0"
    using *(2) resolved_status_open(1) by (auto simp: entry_ok_def split: option.splits)
  then have "entry_ok (e\<lparr>re_status := RE_INVESTIGATING, re_investigationNote := nt\<rparr>)"
    by (simp add: entry_ok_def resolved_def)
  then have "\<forall>x \<in> set (ot_entries (run_outbox_op op ot)).
      entry_ok x \<and> re_intentId x \<in> di_intentId ` set (intents (ot_store ot))"
    using ok * only by (auto simp: put_entry_def set_update_where tables_ok_def)
  then show ?thesis using ok by (simp add: *(3) tables_ok_def row_simps)
next
  fix e tm kind actor rnote retryKey
  assume *: "e \<in> set (ot_entries ot)" "re_status e \<notin> resolved" "kind = RESOLVE_RETRY \<longrightarrow> truthy retryKey"
    "run_outbox_op op ot = put_entry (re_entryId e) (resolve_entry tm kind actor rnote retryKey)
       (ot\<lparr>ot_store := set_status (re_intentId e) (intent_new_status kind) (ot_store ot)\<rparr>)"
  have e: "x = e" if "x \<in> set (ot_entries ot)" "re_entryId x = re_entryId e" for x
    using same_entry [OF tables_okD(2) [OF ok] that(1) *(1) that(2)] .
  have "re_aggregateVersion e = 0"
    using ok *(1,2) by (auto simp: tables_ok_def entry_ok_def split: option.splits dest!: bspec)
  then have "entry_ok (resolve_entry tm kind actor rnote retryKey e)"
    using *(3) by (simp add: entry_ok_def resolve_entry_def)
  then have "\<forall>x \<in> set (ot_entries (run_outbox_op op ot)).
      entry_ok x \<and> re_intentId x \<in> di_intentId ` set (intents (ot_store ot))"
    using ok * e by (auto simp: put_entry_def set_update_where tables_ok_def)
  then show ?thesis
    using ok image_ids [OF map_intent_writes(1) [of "re_intentId e" "intent_new_status kind" "ot_store ot"]]
    by (simp add: *(4) tables_ok_def row_simps)
qed

section \<open>Entries across a step\<close>

definition entry_core :: "reconciliation_entry \<Rightarrow> string \<times> string \<times> string \<times> string \<times> failure_reason \<times> string \<times> int" where
  "entry_core e =
     (re_entryId e, re_organizationId e, re_intentId e, re_receiptId e, re_reasonCode e,
      re_investigatorActor e, re_investigatedAt e)"

definition entry_moves :: "reconciliation_entry \<Rightarrow> reconciliation_entry \<Rightarrow> bool" where
  "entry_moves e e' \<longleftrightarrow>
     entry_core e' = entry_core e \<and>
     (e' = e \<or> re_status e = RE_PENDING_INVESTIGATION \<and> re_status e' = RE_INVESTIGATING \<or>
      re_status e \<notin> resolved \<and> re_status e' \<in> resolved)"

lemma entry_moves_refl [simp]: "entry_moves e e"
  by (simp add: entry_moves_def)

lemma entry_moves_trans: "entry_moves e f \<Longrightarrow> entry_moves f g \<Longrightarrow> entry_moves e g"
  by (auto simp: entry_moves_def resolved_def)

lemma entry_moves_resolved: "entry_moves e e' \<Longrightarrow> re_status e \<in> resolved \<Longrightarrow> e' = e"
  by (auto simp: entry_moves_def resolved_def)

lemma entry_moves_intent: "entry_moves e e' \<Longrightarrow> re_intentId e' = re_intentId e"
  by (auto simp: entry_moves_def entry_core_def)

lemma step_entry:
  assumes ok: "tables_ok ot" and e: "e \<in> set (ot_entries ot)"
  shows "\<exists>e' \<in> set (ot_entries (run_outbox_op op ot)). entry_moves e e'"
proof (rule outbox_cases [OF ok, of op])
  fix x nt assume *: "x \<in> set (ot_entries ot)" "re_status x = RE_PENDING_INVESTIGATION"
    "run_outbox_op op ot = put_entry (re_entryId x)
       (\<lambda>e. e\<lparr>re_status := RE_INVESTIGATING, re_investigationNote := nt\<rparr>) ot"
  show ?thesis
  proof (cases "re_entryId e = re_entryId x")
    case True
    then have "e = x" using same_entry [OF tables_okD(2) [OF ok] e *(1)] by simp
    then show ?thesis using *
      by (intro bexI [of _ "e\<lparr>re_status := RE_INVESTIGATING, re_investigationNote := nt\<rparr>"])
        (auto simp: put_entry_def set_update_where entry_moves_def entry_core_def)
  next
    case False
    then show ?thesis using * e by (intro bexI [of _ e]) (auto simp: put_entry_def set_update_where)
  qed
next
  fix x tm kind actor rnote retryKey
  assume *: "x \<in> set (ot_entries ot)" "re_status x \<notin> resolved"
    "run_outbox_op op ot = put_entry (re_entryId x) (resolve_entry tm kind actor rnote retryKey)
       (ot\<lparr>ot_store := set_status (re_intentId x) (intent_new_status kind) (ot_store ot)\<rparr>)"
  show ?thesis
  proof (cases "re_entryId e = re_entryId x")
    case True
    then have "e = x" using same_entry [OF tables_okD(2) [OF ok] e *(1)] by simp
    then show ?thesis using *
      by (intro bexI [of _ "resolve_entry tm kind actor rnote retryKey e"])
        (auto simp: put_entry_def set_update_where entry_moves_def entry_core_def resolve_entry_def)
  next
    case False
    then show ?thesis using * e by (intro bexI [of _ e]) (auto simp: put_entry_def set_update_where)
  qed
qed (use e in \<open>auto intro!: bexI [of _ e]\<close>)

text \<open>An entry that was not there before is new and pending.\<close>

lemma step_entry_back:
  assumes ok: "tables_ok ot" and e': "e' \<in> set (ot_entries (run_outbox_op op ot))"
  shows "(\<exists>e \<in> set (ot_entries ot). entry_moves e e') \<or>
    (\<exists>i \<in> set (intents (ot_store ot)). di_intentId i = re_intentId e' \<and> di_status i \<notin> settled_status \<and>
       getEntryByIntent (re_intentId e') ot = None \<and> re_status e' \<notin> resolved)"
proof (cases "re_intentId e' \<in> re_intentId ` set (ot_entries ot)")
  case True
  then obtain e where e: "e \<in> set (ot_entries ot)" "re_intentId e = re_intentId e'" by auto
  obtain f where f: "f \<in> set (ot_entries (run_outbox_op op ot))" "entry_moves e f"
    using step_entry [OF ok e(1), of op] by blast
  have "distinct (map re_intentId (ot_entries (run_outbox_op op ot)))"
    by (rule tables_okD(3) [OF step_tables_ok [OF ok]])
  then have "f = e'" using f e' e(2) entry_moves_intent [OF f(2)] by (auto simp: distinct_map inj_on_def)
  then show ?thesis using e(1) f(2) by blast
next
  case False
  show ?thesis
  proof (rule outbox_cases [OF ok, of op])
    fix i :: dispatch_intent and entry
    assume "i \<in> set (intents (ot_store ot))" "di_status i \<notin> settled_status"
      "getEntryByIntent (di_intentId i) ot = None" "re_intentId entry = di_intentId i"
      "re_status entry \<notin> resolved"
      "run_outbox_op op ot =
         \<lparr>ot_store = (ot_store ot)\<lparr>intents := update_where (\<lambda>j. di_intentId j = di_intentId i) investigate
             (intents (ot_store ot))\<rparr>, ot_entries = ot_entries ot @ [entry]\<rparr>"
    then show ?thesis using e' False by auto
  qed (use e' False in \<open>auto simp: put_entry_def set_update_where\<close>)
qed

section \<open>Runs\<close>

lemma run_outbox_invariant:
  assumes "P ot" and "\<And>op ot. P ot \<Longrightarrow> P (run_outbox_op op ot)"
  shows "P (run_outbox ops ot)"
  using assms by (induction ops arbitrary: ot) (auto simp: run_outbox_def)

lemma run_tables_ok: "tables_ok ot \<Longrightarrow> tables_ok (run_outbox ops ot)"
  by (rule run_outbox_invariant) (auto intro: step_tables_ok)

lemma run_entry:
  assumes "tables_ok ot" and "e \<in> set (ot_entries ot)"
  shows "\<exists>e' \<in> set (ot_entries (run_outbox ops ot)). entry_moves e e'"
proof -
  let ?P = "\<lambda>ot. tables_ok ot \<and> (\<exists>e' \<in> set (ot_entries ot). entry_moves e e')"
  have "?P (run_outbox ops ot)"
  proof (rule run_outbox_invariant [where P = ?P])
    show "?P ot" using assms entry_moves_refl by blast
    show "?P (run_outbox_op op ot)" if "?P ot" for op ot
      using that step_tables_ok step_entry entry_moves_trans by meson
  qed
  then show ?thesis ..
qed


text \<open>An open investigation keeps its intent out of the dispatcher's reach.\<close>

lemma in_set_status:
  "j \<in> set (intents (set_status k s st)) \<Longrightarrow>
   (j \<in> set (intents st) \<and> di_intentId j \<noteq> k) \<or> (\<exists>i \<in> set (intents st). di_intentId i = k \<and> j = i\<lparr>di_status := s\<rparr>)"
  by (auto simp: set_status_def set_update_where)

lemma step_investigated_apart:
  assumes ok: "tables_ok ot" and apart: "investigated_apart ot"
  shows "investigated_apart (run_outbox_op op ot)"
  unfolding investigated_apart_def
proof (intro ballI impI)
  let ?ot = "run_outbox_op op ot"
  fix e' j assume e': "e' \<in> set (ot_entries ?ot)" and j: "j \<in> set (intents (ot_store ?ot))"
    and "re_status e' \<notin> resolved \<and> di_intentId j = re_intentId e'"
  then have unres: "re_status e' \<notin> resolved" and id: "di_intentId j = re_intentId e'" by auto
  have old: "di_status i \<notin> {I_PENDING, I_LEASED}"
    if "e \<in> set (ot_entries ot)" "entry_moves e e'" "i \<in> set (intents (ot_store ot))"
      "di_intentId i = di_intentId j" for e i
  proof -
    have "re_status e \<notin> resolved" using entry_moves_resolved [OF that(2)] unres by auto
    then show ?thesis
      using apart that(1,3,4) entry_moves_intent [OF that(2)] id by (auto simp: investigated_apart_def)
  qed
  show "di_status j \<notin> {I_PENDING, I_LEASED}"
  proof (rule outbox_cases [OF ok, of op])
    assume *: "ot_entries ?ot = ot_entries ot"
      "rows_step (intents (ot_store ot)) (intents (ot_store ?ot))"
    then have "re_intentId e' \<in> di_intentId ` set (intents (ot_store ot))"
      using ok e' by (simp add: tables_ok_def)
    then obtain i where i: "i \<in> set (intents (ot_store ot))" "di_intentId j = di_intentId i" using id by auto
    have "quiet_step i j" by (rule rows_step_back [OF *(2) tables_okD(1) [OF ok] j i])
    then show ?thesis using old [of e' i] i e' *(1) by (auto simp: quiet_step_def)
  next
    fix i s assume *: "s \<in> insert I_ACK_RECEIVED settled_status"
      "?ot = on_store (set_status (di_intentId i) s) ot"
    then have "j \<in> set (intents (set_status (di_intentId i) s (ot_store ot)))" using j by simp
    then show ?thesis
      using * old [of e'] e' by (auto dest!: in_set_status simp: settled_status_def)
  next
    fix i :: dispatch_intent and entry
    assume *: "i \<in> set (intents (ot_store ot))" "getEntryByIntent (di_intentId i) ot = None"
      "re_intentId entry = di_intentId i"
      "?ot = \<lparr>ot_store = (ot_store ot)\<lparr>intents := update_where (\<lambda>j. di_intentId j = di_intentId i) investigate
             (intents (ot_store ot))\<rparr>, ot_entries = ot_entries ot @ [entry]\<rparr>"
    show ?thesis
    proof (cases "di_intentId j = di_intentId i")
      case True
      then show ?thesis using j by (auto simp: *(4) set_update_where investigate_def)
    next
      case False
      then have "e' \<in> set (ot_entries ot)" "j \<in> set (intents (ot_store ot))"
        using j e' id *(3) by (auto simp: *(4) set_update_where investigate_def)
      then show ?thesis using old [of e' j] by simp
    qed
  next
    fix e nt assume *: "e \<in> set (ot_entries ot)" "re_status e = RE_PENDING_INVESTIGATION"
      "?ot = put_entry (re_entryId e)
         (\<lambda>e. e\<lparr>re_status := RE_INVESTIGATING, re_investigationNote := nt\<rparr>) ot"
    have j': "j \<in> set (intents (ot_store ot))" using j by (simp add: *(3) put_entry_def)
    from e' consider "e' \<in> set (ot_entries ot)"
      | r where "r \<in> set (ot_entries ot)" "re_entryId r = re_entryId e"
          "e' = r\<lparr>re_status := RE_INVESTIGATING, re_investigationNote := nt\<rparr>"
      by (auto simp: *(3) put_entry_def set_update_where)
    then show ?thesis
    proof cases
      case 1
      then show ?thesis using old [of e' j] j' by simp
    next
      case (2 r)
      then have "r = e" using same_entry [OF tables_okD(2) [OF ok] 2(1) *(1)] by simp
      then show ?thesis using old [of e j] j' 2(3) * by (simp add: entry_moves_def entry_core_def)
    qed
  next
    fix e tm kind actor rnote retryKey
    assume *: "e \<in> set (ot_entries ot)"
      "?ot = put_entry (re_entryId e) (resolve_entry tm kind actor rnote retryKey)
         (ot\<lparr>ot_store := set_status (re_intentId e) (intent_new_status kind) (ot_store ot)\<rparr>)"
    have "e' \<in> set (update_where (\<lambda>x. re_entryId x = re_entryId e)
        (resolve_entry tm kind actor rnote retryKey) (ot_entries ot))"
      using e' by (simp add: *(2) put_entry_def)
    then have "e' \<in> set (ot_entries ot)" "re_entryId e' \<noteq> re_entryId e"
      using unres by (auto simp: set_update_where)
    then have "re_intentId e' \<noteq> re_intentId e"
      using tables_okD(3) [OF ok] *(1) by (metis distinct_map inj_onD)
    moreover have "j \<in> set (intents (set_status (re_intentId e) (intent_new_status kind) (ot_store ot)))"
      using j by (simp add: *(2) put_entry_def)
    ultimately have "j \<in> set (intents (ot_store ot))" using id by (auto dest!: in_set_status)
    then show ?thesis using old [of e' j] \<open>e' \<in> set (ot_entries ot)\<close> by simp
  qed
qed

section \<open>Settled intents\<close>

text \<open>
  A settled intent is delivered, failed or terminal, and no investigation of it is open: no
  step changes it, and no investigation of it is ever opened.
\<close>

definition settled :: "dispatch_intent \<Rightarrow> outbox_tables \<Rightarrow> bool" where
  "settled i ot \<longleftrightarrow>
     i \<in> set (intents (ot_store ot)) \<and> di_status i \<in> settled_status \<and>
     (\<forall>e \<in> set (ot_entries ot). re_intentId e = di_intentId i \<longrightarrow> re_status e \<in> resolved)"

lemma settled_not_live: "di_status i \<in> settled_status \<Longrightarrow> di_status i \<notin> {I_PENDING, I_LEASED}"
  by (auto simp: settled_status_def)

lemma update_other:
  "i \<in> set rows \<Longrightarrow> di_intentId i \<noteq> k \<Longrightarrow> i \<in> set (update_where (\<lambda>j. di_intentId j = k) f rows)"
  by (auto simp: set_update_where)

lemma step_settled:
  assumes ok: "tables_ok ot" and i: "settled i ot"
  shows "settled i (run_outbox_op op ot)"
proof -
  let ?ot = "run_outbox_op op ot"
  have mem: "i \<in> set (intents (ot_store ot))" and st: "di_status i \<in> settled_status"
    and res: "\<And>e. e \<in> set (ot_entries ot) \<Longrightarrow> re_intentId e = di_intentId i \<Longrightarrow> re_status e \<in> resolved"
    using i by (auto simp: settled_def)
  have same: "j = i" if "j \<in> set (intents (ot_store ot))" "di_intentId j = di_intentId i" for j
    by (rule same_intent [OF tables_okD(1) [OF ok] that(1) mem that(2)])
  have "i \<in> set (intents (ot_store ?ot))"
  proof (rule outbox_cases [OF ok, of op])
    assume "rows_step (intents (ot_store ot)) (intents (ot_store ?ot))"
    then show ?thesis using mem settled_not_live [OF st] by (rule rows_step_keeps)
  next
    fix j s assume "j \<in> set (intents (ot_store ot))" "di_status j \<notin> settled_status"
      "?ot = on_store (set_status (di_intentId j) s) ot"
    then show ?thesis using mem st same [of j] by (auto simp: set_status_def intro!: update_other)
  next
    fix j :: dispatch_intent and entry
    assume "j \<in> set (intents (ot_store ot))" "di_status j \<notin> settled_status"
      "?ot = \<lparr>ot_store = (ot_store ot)\<lparr>intents := update_where (\<lambda>x. di_intentId x = di_intentId j) investigate
             (intents (ot_store ot))\<rparr>, ot_entries = ot_entries ot @ [entry]\<rparr>"
    then show ?thesis using mem st same [of j] by (auto intro!: update_other)
  next
    fix e nt assume "?ot = put_entry (re_entryId e)
       (\<lambda>e. e\<lparr>re_status := RE_INVESTIGATING, re_investigationNote := nt\<rparr>) ot"
    then show ?thesis using mem by (simp add: put_entry_def)
  next
    fix e tm kind actor rnote retryKey
    assume "e \<in> set (ot_entries ot)" "re_status e \<notin> resolved"
      "?ot = put_entry (re_entryId e) (resolve_entry tm kind actor rnote retryKey)
         (ot\<lparr>ot_store := set_status (re_intentId e) (intent_new_status kind) (ot_store ot)\<rparr>)"
    then show ?thesis using mem res by (auto simp: put_entry_def set_status_def intro!: update_other)
  qed
  moreover have "re_status e' \<in> resolved"
    if "e' \<in> set (ot_entries ?ot)" "re_intentId e' = di_intentId i" for e'
    using step_entry_back [OF ok that(1)]
  proof
    assume "\<exists>e \<in> set (ot_entries ot). entry_moves e e'"
    then obtain e where e: "e \<in> set (ot_entries ot)" "entry_moves e e'" by blast
    then have "re_status e \<in> resolved" using res entry_moves_intent [OF e(2)] that(2) by simp
    then show ?thesis using entry_moves_resolved [OF e(2)] by simp
  next
    assume "\<exists>j \<in> set (intents (ot_store ot)). di_intentId j = re_intentId e' \<and> di_status j \<notin> settled_status \<and>
       getEntryByIntent (re_intentId e') ot = None \<and> re_status e' \<notin> resolved"
    then show ?thesis using same st that(2) by auto
  qed
  ultimately show ?thesis using st by (auto simp: settled_def)
qed

lemma run_settled:
  assumes "tables_ok ot" and "settled i ot"
  shows "settled i (run_outbox ops ot)"
proof -
  have "tables_ok (run_outbox ops ot) \<and> settled i (run_outbox ops ot)"
    by (rule run_outbox_invariant [where P = "\<lambda>ot. tables_ok ot \<and> settled i ot"])
      (use assms step_tables_ok step_settled in auto)
  then show ?thesis ..
qed

lemma run_investigated_apart:
  assumes "tables_ok ot" and "investigated_apart ot"
  shows "investigated_apart (run_outbox ops ot)"
proof -
  have "tables_ok (run_outbox ops ot) \<and> investigated_apart (run_outbox ops ot)"
    by (rule run_outbox_invariant [where P = "\<lambda>ot. tables_ok ot \<and> investigated_apart ot"])
      (use assms step_tables_ok step_investigated_apart in auto)
  then show ?thesis ..
qed

section \<open>Rows by id\<close>

lemma intent_of_mem:
  assumes "tables_ok ot" and "i \<in> set (intents (ot_store ot))"
  shows "intent_of (di_intentId i) (ot_store ot) = Some i"
  unfolding intent_of_def by (rule find_unique_key [OF tables_okD(1) [OF assms(1)] assms(2)])

lemma intent_of_set_status:
  "intent_of k (set_status k s st) = map_option (\<lambda>i. i\<lparr>di_status := s\<rparr>) (intent_of k st)"
proof -
  have "find (\<lambda>i. di_intentId i = k) (update_where (\<lambda>i. di_intentId i = k) (\<lambda>i. i\<lparr>di_status := s\<rparr>) rows) =
      map_option (\<lambda>i. i\<lparr>di_status := s\<rparr>) (find (\<lambda>i. di_intentId i = k) rows)" for rows
    by (induction rows) auto
  then show ?thesis by (simp add: intent_of_def set_status_def)
qed

lemma getEntry_mem:
  assumes "tables_ok ot" and "e \<in> set (ot_entries ot)"
  shows "getEntry (re_entryId e) ot = Some e" and "getEntryByIntent (re_intentId e) ot = Some e"
  unfolding getEntry_def getEntryByIntent_def
  by (rule find_unique_key [OF _ assms(2)], rule tables_okD [OF assms(1)])+

lemma filter_unique_key:
  "distinct (map key rows) \<Longrightarrow> r \<in> set rows \<Longrightarrow> filter (\<lambda>x. key x = key r) rows = [r]"
  by (induction rows) (auto simp: filter_empty_conv image_iff)

text \<open>No step rewrites what an intent is: only its status, attempts and lease columns change.\<close>

lemma core_set_status [simp]: "intent_core (i\<lparr>di_status := s\<rparr>) = intent_core i"
  by (simp add: intent_core_def)

lemma core_investigate [simp]: "intent_core (investigate i) = intent_core i"
  by (simp add: intent_core_def investigate_def)

lemma step_core:
  assumes ok: "tables_ok ot" and i: "intent_of k (ot_store ot) = Some i"
  shows "\<exists>i'. intent_of k (ot_store (run_outbox_op op ot)) = Some i' \<and> intent_core i' = intent_core i"
proof -
  let ?ot = "run_outbox_op op ot"
  have mem: "i \<in> set (intents (ot_store ot))" and k: "di_intentId i = k" using intent_of_SomeD [OF i] by auto
  have upd: "\<exists>i' \<in> set (update_where p f (intents (ot_store ot))). intent_core i' = intent_core i"
    if "\<And>x. intent_core (f x) = intent_core x" for p and f :: "dispatch_intent \<Rightarrow> dispatch_intent"
    using mem that by (cases "p i") (auto simp: set_update_where intro!: bexI [of _ "if p i then f i else i"])
  have "\<exists>i' \<in> set (intents (ot_store ?ot)). intent_core i' = intent_core i"
  proof (rule outbox_cases [OF ok, of op])
    assume "rows_step (intents (ot_store ot)) (intents (ot_store ?ot))"
    from rows_step_mem [OF this mem] show ?thesis by (metis quiet_step_def)
  next
    fix j s assume "?ot = on_store (set_status (di_intentId j) s) ot"
    then show ?thesis using upd by (simp add: set_status_def)
  next
    fix j :: dispatch_intent and entry
    assume "?ot = \<lparr>ot_store = (ot_store ot)\<lparr>intents := update_where (\<lambda>x. di_intentId x = di_intentId j) investigate
             (intents (ot_store ot))\<rparr>, ot_entries = ot_entries ot @ [entry]\<rparr>"
    then show ?thesis using upd by simp
  next
    fix e nt assume "?ot = put_entry (re_entryId e)
       (\<lambda>e. e\<lparr>re_status := RE_INVESTIGATING, re_investigationNote := nt\<rparr>) ot"
    then show ?thesis using mem by (auto simp: put_entry_def)
  next
    fix e tm kind actor rnote retryKey
    assume "?ot = put_entry (re_entryId e) (resolve_entry tm kind actor rnote retryKey)
         (ot\<lparr>ot_store := set_status (re_intentId e) (intent_new_status kind) (ot_store ot)\<rparr>)"
    then show ?thesis using upd by (simp add: put_entry_def set_status_def)
  qed
  then obtain i' where i': "i' \<in> set (intents (ot_store ?ot))" "intent_core i' = intent_core i" by blast
  then show ?thesis
    using intent_of_mem [OF step_tables_ok [OF ok] i'(1)] intent_core_id [OF i'(2)] k by auto
qed

lemma run_core:
  assumes "tables_ok ot" and "intent_of k (ot_store ot) = Some i"
  shows "\<exists>i'. intent_of k (ot_store (run_outbox ops ot)) = Some i' \<and> intent_core i' = intent_core i"
proof -
  let ?P = "\<lambda>ot. tables_ok ot \<and> (\<exists>i'. intent_of k (ot_store ot) = Some i' \<and> intent_core i' = intent_core i)"
  have "?P (run_outbox ops ot)"
  proof (rule run_outbox_invariant [where P = ?P])
    show "?P ot" using assms by simp
    show "?P (run_outbox_op op ot)" if "?P ot" for op ot
      using that step_tables_ok step_core by metis
  qed
  then show ?thesis ..
qed

section \<open>The dispatcher\<close>

lemma claim_some:
  assumes "claimNextIntent locked args st = (Some c, st')"
  obtains row where "row \<in> set (intents st)" "di_status row = I_PENDING"
      "lh_fencingToken c = ca_token args" "cn_intentId c = di_intentId row"
      "cn_idempotencyKey c = di_idempotencyKey row"
      "st' = st\<lparr>intents := update_where (\<lambda>i. di_intentId i = di_intentId row)
               (grant_intent (ca_workerId args) (ca_token args) (ca_now args)
                 (ca_leaseDurationMs args)) (intents st)\<rparr>"
proof -
  let ?rows = "order_asc di_createdAt (filter (\<lambda>i. intent_eligible (ca_now args)
      (nullish (ca_organizationId args) []) (nullish (ca_receiptId args) []) i \<and> di_intentId i \<notin> locked) (intents st))"
  obtain row rest where rows: "?rows = row # rest"
    using assms by (cases ?rows) (auto simp: claimNextIntent_def Let_def)
  then have "row \<in> set ?rows" by simp
  then have "row \<in> set (intents st)" "di_status row = I_PENDING"
    by (auto simp: intent_eligible_def)
  moreover have "lh_fencingToken c = ca_token args \<and> cn_intentId c = di_intentId row \<and>
      cn_idempotencyKey c = di_idempotencyKey row \<and>
      st' = st\<lparr>intents := update_where (\<lambda>i. di_intentId i = di_intentId row)
               (grant_intent (ca_workerId args) (ca_token args) (ca_now args)
                 (ca_leaseDurationMs args)) (intents st)\<rparr>"
    using assms unfolding claimNextIntent_def Let_def rows by auto
  ultimately show thesis using that by blast
qed

text \<open>A completion under the token of the claim ends the claimed row.\<close>

lemma complete_claimed:
  assumes "distinct (map di_intentId rows)" and "row \<in> set rows" and "lost di_fencingToken token rows"
    and "intents st = update_where (\<lambda>i. di_intentId i = di_intentId row) (grant_intent w token now d) rows"
  shows "completeIntent token w outc st =
    ((intent_end_status (if outc = SUCCESS then Intent_Delivered else if outc = RETRY then Intent_Failed
        else Intent_Terminal), False),
     st\<lparr>intents := update_where (\<lambda>i. di_intentId i = di_intentId row)
          (end_intent (if outc = SUCCESS then Intent_Delivered else if outc = RETRY then Intent_Failed
             else Intent_Terminal)) (intents st)\<rparr>)"
proof -
  have row: "grant_intent w token now d row \<in> set (intents st)"
    using assms(2) by (auto simp: assms(4) set_update_where)
  have "x = grant_intent w token now d row" if "x \<in> set (intents st)" "held_intent token w x" for x
  proof -
    from that obtain y where y: "y \<in> set rows" "x = (if di_intentId y = di_intentId row then grant_intent w token now d y else y)"
      by (auto simp: assms(4) set_update_where)
    then have "di_intentId y = di_intentId row"
      using assms(3) that(2) by (auto simp: lost_def held_intent_def split: if_splits)
    then show ?thesis using y same_intent [OF assms(1) y(1) assms(2)] by simp
  qed
  moreover have "held_intent token w (grant_intent w token now d row)"
    by (simp add: held_intent_def grant_intent_def)
  ultimately have "find (held_intent token w) (intents st) = Some (grant_intent w token now d row)"
    using row by (metis find_None find_SomeD option.exhaust)
  then show ?thesis by (auto simp: completeIntent_def Let_def grant_intent_def)
qed

section \<open>The request of an intent\<close>

lemma core_selectors:
  "di_organizationId (intent_core i) = di_organizationId i" "di_receiptId (intent_core i) = di_receiptId i"
  "di_correlationId (intent_core i) = di_correlationId i"
  "di_idempotencyKey (intent_core i) = di_idempotencyKey i"
  "di_intentTargetJson (intent_core i) = di_intentTargetJson i"
  by (simp_all add: intent_core_def)

lemma core_fields:
  assumes "intent_core i' = intent_core i"
  shows "di_organizationId i' = di_organizationId i" and "di_receiptId i' = di_receiptId i"
    and "di_correlationId i' = di_correlationId i" and "di_idempotencyKey i' = di_idempotencyKey i"
    and "di_intentTargetJson i' = di_intentTargetJson i"
  by (metis assms core_selectors)+

text \<open>The request depends only on columns no step rewrites.\<close>

lemma dispatch_request_core:
  assumes "intent_core i' = intent_core i"
  shows "dispatch_request i' key = dispatch_request i key"
  unfolding dispatch_request_def dispatch_payload_def
  by (simp only: core_fields [OF assms] intent_core_id [OF assms])

lemma dispatch_success:
  assumes "dispatchToGateway sha256 now k key st gs = (Inr ref, gs1)"
  obtains i req res where "intent_of k st = Some i" "dispatch_request i key = Some req"
      "mock_call sha256 now req gs = (res, gs1)" "\<not> is_failed (cx_outcome res)"
      "ref = (case cx_outcome res of Accepted op \<Rightarrow> Some op | _ \<Rightarrow> None)"
  using assms
  by (auto simp: dispatchToGateway_def Let_def split: option.splits prod.splits call_outcome.splits)

text \<open>A cached answer changes neither the cache nor the counter of operations.\<close>

lemma cached_call_frame:
  assumes "lg_cache (gs_ledger gs) (cacheKey (rq_organizationId req) (rq_method req) (rq_idempotencyKey req)) = Some c"
  shows "gs_counter (snd (mock_call sha256 now req gs)) = gs_counter gs"
    and "lg_cache (gs_ledger (snd (mock_call sha256 now req gs))) = lg_cache (gs_ledger gs)"
  using assms by (auto simp: mock_call_def Let_def split: option.split)

lemma not_failed_capable:
  assumes "mock_call sha256 now req gs = (res, gs')" and "\<not> is_failed (cx_outcome res)"
  shows "checkCapability (rq_method req) (rq_tier req) = None"
  using assms(1) by (cases rule: mock_call_cases) (use assms(2) in auto)

end
