(* ===== verification/Outbox_Properties.thy ===== *)
theory Outbox_Properties
  imports Outbox_Facts
begin

text \<open>
  What the outbox promises and what it breaks: an investigated intent stays away from the
  dispatcher and an entry is final once resolved; but a dispatch settles its intent before any
  callback, an unknown delivery reported on the ordinary route can never be investigated, a
  callback can end an investigation, and a retry is answered from the cache of the gateway.
\<close>

section \<open>Samples\<close>

definition sample_body :: json where
  "sample_body =
     JObj [(''intentId'', JStr ''i1''), (''receiptId'', JStr ''r1''), (''intentSource'', JStr ''cmd-0001'')]"

definition sample_outbox :: outbox_tables where
  "sample_outbox =
     run_outbox [Submit_Intent 5 ''org1'' (Some sample_body)] \<lparr>ot_store = empty_store, ot_entries = []\<rparr>"

definition any_time :: "string \<Rightarrow> bool" where
  "any_time s = True"

definition sample_event :: "reporting_state \<Rightarrow> reporting_event" where
  "sample_event s =
     \<lparr>de_schemaVersion = ''1'', de_organizationId = ''org1'', de_intentId = ''i1'',
      de_consumerDedupeToken = ''dedupe-1'', de_state = s, de_reportedAt = ''t'',
      de_reason = (if s = RS_SENT \<or> s = RS_DELIVERED then None else Some FR_STALE_CACHE)\<rparr>"

definition sample_delivery_receipt :: delivery_receipt where
  "sample_delivery_receipt =
     \<lparr>dv_schemaVersion = ''1'', dv_organizationId = ''org1'', dv_intentId = ''i1'',
      dv_consumerDedupeToken = ''dedupe-1'', dv_outcome = ''ACCEPTED'', dv_acceptedAt = ''t'',
      dv_errors = None\<rparr>"

definition sample_unknown :: outbox_op where
  "sample_unknown = Receive_Unknown ''org1'' ''re-1'' 30 (sample_event RS_UNKNOWN) (JObj []) []"

definition investigated_outbox :: outbox_tables where
  "investigated_outbox = run_outbox [sample_unknown] sample_outbox"

lemma run_outbox_append: "run_outbox (ops @ ops') ot = run_outbox ops' (run_outbox ops ot)"
  by (simp add: run_outbox_def)

lemma empty_tables_ok [simp]: "tables_ok \<lparr>ot_store = empty_store, ot_entries = []\<rparr>"
  by (simp add: tables_ok_def empty_store_def)

lemma empty_apart [simp]: "investigated_apart \<lparr>ot_store = empty_store, ot_entries = []\<rparr>"
  by (simp add: investigated_apart_def)

lemma sample_tables_ok [simp]: "tables_ok sample_outbox" "tables_ok investigated_outbox"
  by (simp_all add: sample_outbox_def investigated_outbox_def run_tables_ok)

lemma sample_apart [simp]: "investigated_apart sample_outbox"
  by (simp add: sample_outbox_def run_investigated_apart)

definition sample_dispatch :: "int \<Rightarrow> string \<Rightarrow> dispatch_env" where
  "sample_dispatch now token =
     \<lparr>dn_now = now, dn_token = token, dn_locked = {}, dn_gatewayNow = now, dn_beforeCall = id,
      dn_beforeCompletion = id\<rparr>"

section \<open>Investigations\<close>


text \<open>The life of an investigation: along any run an entry keeps its id, organization,
  intent, reason and investigator, its status moves only from pending to investigating and from
  there or before to one resolution, it carries that resolution with version one, a resolved
  entry never changes, and no second entry for its intent ever exists.\<close>

lemma reconciliation_entry_is_final:
  assumes "tables_ok ot" and "e \<in> set (ot_entries ot)"
  shows "\<exists>e'. filter (\<lambda>f. re_intentId f = re_intentId e) (ot_entries (run_outbox ops ot)) = [e'] \<and>
    entry_moves e e' \<and> entry_ok e'"
proof -
  let ?es = "ot_entries (run_outbox ops ot)"
  have ok: "tables_ok (run_outbox ops ot)" by (rule run_tables_ok [OF assms(1)])
  obtain e' where e': "e' \<in> set ?es" "entry_moves e e'" using run_entry [OF assms] by blast
  have "filter (\<lambda>f. re_intentId f = re_intentId e') ?es = [e']"
    by (rule filter_unique_key [OF tables_okD(3) [OF ok] e'(1)])
  then show ?thesis using e' ok by (auto simp: tables_ok_def entry_moves_intent)
qed

text \<open>Once an intent has an entry, resolved or not, every later report of an unknown outcome is
  answered as an investigation under way and changes nothing: an intent sent again after a
  retry is never investigated a second time.\<close>

lemma second_unknown_is_swallowed:
  assumes "tables_ok ot" and "e \<in> set (ot_entries ot)"
    and "de_state ev = RS_UNKNOWN" and "de_reason ev \<noteq> None" and "de_intentId ev = re_intentId e"
  shows "handleUnknownDelivery org entryId now ev actor nt (run_outbox ops ot) =
    (Inr \<lparr>ud_handled = True, ud_reconciliationEntryId = Some (re_entryId e), ud_intentId = re_intentId e,
       ud_intentStatus = I_INVESTIGATION_PENDING, ud_alreadyReconciling = True\<rparr>, run_outbox ops ot)"
proof -
  let ?ot = "run_outbox ops ot"
  obtain e' where e': "e' \<in> set (ot_entries ?ot)" "entry_moves e e'" using run_entry [OF assms(1,2)] by blast
  have ok: "tables_ok ?ot" by (rule run_tables_ok [OF assms(1)])
  have "re_intentId e' = re_intentId e" "re_entryId e' = re_entryId e"
    using e'(2) by (auto simp: entry_moves_def entry_core_def)
  moreover have "getEntryByIntent (re_intentId e') ?ot = Some e'" by (rule getEntry_mem(2) [OF ok e'(1)])
  moreover obtain i where "i \<in> set (intents (ot_store ?ot))" "di_intentId i = re_intentId e'"
    using ok e'(1) by (auto simp: tables_ok_def)
  ultimately show ?thesis
    using assms(3-5) intent_of_mem [OF ok, of i] by (auto simp: handleUnknownDelivery_def)
qed


section \<open>Dispatch\<close>

text \<open>An undisturbed dispatch settles its intent at once: the completion writes DELIVERED for a
  call that succeeded and TERMINAL for one that failed, never DISPATCHED, and no receipt, report,
  unknown outcome, resolution or store transaction that follows ever changes the status again.\<close>

lemma dispatch_settles_intent:
  assumes "tables_ok (ob_tables ob)" and "investigated_apart (ob_tables ob)"
    and "lost di_fencingToken (dn_token env) (intents (ot_store (ob_tables ob)))"
    and "dn_beforeCall env = id" and "dn_beforeCompletion env = id"
    and "processNextIntent sha256 cfg env ob = (Some r, ob')"
  shows "\<exists>i. intent_of (dp_intentId r) (ot_store (run_outbox ops (ob_tables ob'))) = Some i \<and>
    di_status i = (if dp_status r = DS_DISPATCHED then I_DELIVERED else I_TERMINAL)"
proof -
  let ?ot = "ob_tables ob"
  let ?args = "dispatch_claim_args cfg env"
  obtain c st1 where c: "claimNextIntent (dn_locked env) ?args (ot_store ?ot) = (Some c, st1)"
    using assms(6) by (auto simp: processNextIntent_def Let_def split: prod.splits option.splits)
  from c obtain row where row: "row \<in> set (intents (ot_store ?ot))" "di_status row = I_PENDING"
      "lh_fencingToken c = dn_token env" "cn_intentId c = di_intentId row"
      "st1 = (ot_store ?ot)\<lparr>intents := update_where (\<lambda>i. di_intentId i = di_intentId row)
         (grant_intent (dc_workerId cfg) (dn_token env) (dn_now env) (dc_leaseDurationMs cfg))
         (intents (ot_store ?ot))\<rparr>"
    by (rule claim_some) (simp add: dispatch_claim_args_def)
  obtain outc where outc: "ob_tables ob' = complete_dispatch c cfg outc (?ot\<lparr>ot_store := st1\<rparr>)"
      "outc = (if dp_status r = DS_DISPATCHED then SUCCESS else FAIL)" "dp_intentId r = di_intentId row"
    using assms(6) c row(4)
    by (auto simp: processNextIntent_def Let_def assms(4,5) split: prod.splits sum.splits)
  define i where "i = end_intent (if outc = SUCCESS then Intent_Delivered else Intent_Terminal)
      (grant_intent (dc_workerId cfg) (dn_token env) (dn_now env) (dc_leaseDurationMs cfg) row)"
  have id: "di_intentId i = di_intentId row" and st: "di_status i \<in> settled_status"
    by (simp_all add: i_def end_intent_def grant_intent_def settled_status_def)
  have "completeIntent (dn_token env) (dc_workerId cfg) outc st1 =
      ((di_status i, False), st1\<lparr>intents := update_where (\<lambda>j. di_intentId j = di_intentId row)
         (end_intent (if outc = SUCCESS then Intent_Delivered else Intent_Terminal)) (intents st1)\<rparr>)"
    using complete_claimed [OF tables_okD(1) [OF assms(1)] row(1) assms(3), of st1 "dc_workerId cfg"
        "dn_now env" "dc_leaseDurationMs cfg" outc] outc(2)
    by (simp add: row(5) i_def end_intent_def)
  then have tab: "ob_tables ob' = on_store (\<lambda>st. st1\<lparr>intents := update_where (\<lambda>j. di_intentId j = di_intentId row)
         (end_intent (if outc = SUCCESS then Intent_Delivered else Intent_Terminal)) (intents st1)\<rparr>) ?ot"
    by (simp add: outc(1) complete_dispatch_def row(3) on_store_def)
  have mem: "i \<in> set (intents (ot_store (ob_tables ob')))"
    using row(1) by (auto simp: tab row(5) set_update_where i_def grant_intent_def)
  have ids: "map di_intentId (intents (ot_store (ob_tables ob'))) = map di_intentId (intents (ot_store ?ot))"
    by (simp add: tab row(5) map_update_where end_intent_def grant_intent_def)
  have ok: "tables_ok (ob_tables ob')"
    using assms(1) ids image_ids [OF ids] by (simp add: tables_ok_def) (simp add: tab)
  have "re_status e \<in> resolved" if "e \<in> set (ot_entries ?ot)" "re_intentId e = di_intentId i" for e
    using assms(2) [unfolded investigated_apart_def, rule_format, OF that(1) row(1)] that(2) row(2) id by auto
  then have "settled i (ob_tables ob')" using mem st by (simp add: settled_def tab)
  from run_settled [OF ok this, of ops] have "i \<in> set (intents (ot_store (run_outbox ops (ob_tables ob'))))"
    by (simp add: settled_def)
  from intent_of_mem [OF run_tables_ok [OF ok] this] show ?thesis
    by (intro exI [of _ i]) (simp add: id outc(2,3) i_def end_intent_def)
qed

text \<open>An unknown outcome that is reported on the ordinary route makes its intent FAILED, and from
  then on, whatever follows, the intent stays FAILED and the handler of unknown deliveries
  refuses to open an investigation.\<close>

lemma unknown_report_is_final:
  assumes "tables_ok ot" and "getEntryByIntent (de_intentId ev) ot = None"
    and "processEvent isoTime (Some ev) (ot_store ot) = (res, st')" and "dl_success res"
    and "de_state ev = RS_UNKNOWN"
    and "de_intentId ev' = de_intentId ev" and "de_state ev' = RS_UNKNOWN" and "de_reason ev' \<noteq> None"
  shows "\<exists>i. intent_of (de_intentId ev) (ot_store (run_outbox ops (ot\<lparr>ot_store := st'\<rparr>))) = Some i \<and>
    di_status i = I_FAILED \<and>
    handleUnknownDelivery org entryId now ev' actor nt (run_outbox ops (ot\<lparr>ot_store := st'\<rparr>)) =
      (Inl (From_Service (Reconciliation_Error RC_INVALID_STATE_TRANSITION)), run_outbox ops (ot\<lparr>ot_store := st'\<rparr>))"
proof -
  let ?ot1 = "ot\<lparr>ot_store := st'\<rparr>"
  have step: "?ot1 = run_outbox_op (Receive_Report isoTime (Some ev)) ot"
    by (simp add: assms(3) on_store_def)
  then have ok1: "tables_ok ?ot1" using step_tables_ok [OF assms(1)] by (simp only:)
  let ?ot = "run_outbox ops ?ot1"
  have ok: "tables_ok ?ot" by (rule run_tables_ok [OF ok1])
  from assms(3) obtain i where i: "i \<in> set (intents (ot_store ot))" "di_intentId i = de_intentId ev"
      "st' = set_status (de_intentId ev) I_FAILED (ot_store ot)"
    by (cases rule: processEvent_cases) (use assms(4,5) in auto)
  let ?i = "i\<lparr>di_status := I_FAILED\<rparr>"
  have no: "re_intentId e \<noteq> de_intentId ev" if "e \<in> set (ot_entries ot)" for e
    using assms(2) that by (auto simp: getEntryByIntent_def find_None)
  have "?i \<in> set (intents st')" using i(1,2) by (auto simp: i(3) set_status_def set_update_where)
  then have "settled ?i ?ot1" using no i(2) by (auto simp: settled_def settled_status_def)
  from run_settled [OF ok1 this, of ops] have "?i \<in> set (intents (ot_store ?ot))" by (simp add: settled_def)
  from intent_of_mem [OF ok this] have int: "intent_of (de_intentId ev) (ot_store ?ot) = Some ?i"
    using i(2) by simp
  have "getEntryByIntent (de_intentId ev) ?ot = None"
  proof -
    have "tables_ok ?ot \<and> settled ?i ?ot \<and> getEntryByIntent (de_intentId ev) ?ot = None"
    proof (rule run_outbox_invariant [where P = "\<lambda>ot. tables_ok ot \<and> settled ?i ot \<and>
        getEntryByIntent (de_intentId ev) ot = None"])
      show "tables_ok ?ot1 \<and> settled ?i ?ot1 \<and> getEntryByIntent (de_intentId ev) ?ot1 = None"
        using ok1 \<open>settled ?i ?ot1\<close> assms(2) by (simp add: getEntryByIntent_def)
    next
      fix op and ot :: outbox_tables
      assume P: "tables_ok ot \<and> settled ?i ot \<and> getEntryByIntent (de_intentId ev) ot = None"
      have "re_intentId e' \<noteq> de_intentId ev" if "e' \<in> set (ot_entries (run_outbox_op op ot))" for e'
        using step_entry_back [of ot, OF _ that] P i(2)
          same_intent [OF tables_okD(1), of ot _ ?i]
        by (fastforce simp: settled_def getEntryByIntent_def find_None dest: entry_moves_intent)
      then show "tables_ok (run_outbox_op op ot) \<and> settled ?i (run_outbox_op op ot) \<and>
          getEntryByIntent (de_intentId ev) (run_outbox_op op ot) = None"
        using P step_tables_ok step_settled by (auto simp: getEntryByIntent_def find_None)
    qed
    then show ?thesis by simp
  qed
  then show ?thesis
    using int assms(6-8) by (auto simp: handleUnknownDelivery_def createReconciliationEntry_def)
qed

section \<open>Retries\<close>

text \<open>An intent is applied at most once, and a retry never sends it: after one dispatch that
  succeeded, every later dispatch of the intent, whatever calls the gateway had meanwhile and
  whatever happened to the row, a RETRY resolution with a new key included, uses the old key and
  gets the cached answer; the scenario does not run again.\<close>

lemma retry_is_answered_from_cache:
  assumes "tables_ok ot" and "intent_of k (ot_store ot) = Some i"
    and "dispatchToGateway sha256 now k (di_idempotencyKey i) (ot_store ot) gs = (Inr ref, gs1)"
    and "run_calls sha256 calls gs1 = (rs, gs2)"
  shows "\<exists>i'. intent_of k (ot_store (run_outbox ops ot)) = Some i' \<and>
    fst (dispatchToGateway sha256 now' k (di_idempotencyKey i') (ot_store (run_outbox ops ot)) gs2) = Inr ref \<and>
    gs_counter (snd (dispatchToGateway sha256 now' k (di_idempotencyKey i') (ot_store (run_outbox ops ot)) gs2)) =
      gs_counter gs2"
proof -
  from assms(3) obtain i0 req res where req: "intent_of k (ot_store ot) = Some i0"
      "dispatch_request i0 (di_idempotencyKey i) = Some req" "mock_call sha256 now req gs = (res, gs1)"
      "\<not> is_failed (cx_outcome res)" "ref = (case cx_outcome res of Accepted op \<Rightarrow> Some op | _ \<Rightarrow> None)"
    by (rule dispatch_success)
  obtain i' where i': "intent_of k (ot_store (run_outbox ops ot)) = Some i'" "intent_core i' = intent_core i"
    using run_core [OF assms(1,2)] by blast
  have req': "dispatch_request i' (di_idempotencyKey i') = Some req"
    using req(1,2) assms(2) dispatch_request_core [OF i'(2)] core_fields(4) [OF i'(2)] by simp
  have cache: "lg_cache (gs_ledger gs2) (cacheKey (rq_organizationId req) (rq_method req) (rq_idempotencyKey req)) =
      Some \<lparr>ca_digest = payloadDigest sha256 (rq_payload req), ca_result = res, ca_tier = rq_tier req,
            ca_method = rq_method req\<rparr>"
    by (rule calls_keep_cache [OF assms(4) kept_result [OF req(3,4)]])
  have "fst (mock_call sha256 now' req gs2) = res"
    using cached_answer [OF cache] not_failed_capable [OF req(3,4)] by simp
  moreover note cached_call_frame(1) [OF cache, of sha256 now']
  ultimately show ?thesis using i'(1) req' req(4,5)
    by (intro exI [of _ i'])
      (auto simp: dispatchToGateway_def Let_def split: prod.splits call_outcome.splits)
qed

text \<open>An investigation can be ended without a resolution: while it is open, a delivery receipt
  and a report take its intent to DELIVERED, and the RETRY resolution that follows makes the
  delivered intent pending again, for the dispatcher to claim.\<close>

lemma investigation_is_bypassed:
  assumes "tables_ok ot" and "e \<in> set (ot_entries ot)" and "re_status e \<notin> resolved"
    and "intent_of (re_intentId e) (ot_store ot) = Some i" and "di_status i = I_INVESTIGATION_PENDING"
    and "OutboxDeliveryReceiptSchema isoTime r" and "dv_intentId r = re_intentId e"
    and "dv_organizationId r = di_organizationId i"
    and "DeliveryReportingEventSchema isoTime ev" and "de_intentId ev = re_intentId e"
    and "de_organizationId ev = di_organizationId i" and "de_state ev = RS_DELIVERED" and "key \<noteq> []"
  shows "map_option di_status (intent_of (re_intentId e)
        (ot_store (run_outbox [Receive_Receipt isoTime (Some r), Receive_Report isoTime (Some ev)] ot))) = Some I_DELIVERED \<and>
    map_option di_status (intent_of (re_intentId e)
        (ot_store (run_outbox [Receive_Receipt isoTime (Some r), Receive_Report isoTime (Some ev),
           Resolve now (re_entryId e) ''RETRY'' actor nt (Some key) None] ot))) = Some I_PENDING"
proof -
  let ?k = "re_intentId e"
  let ?receipt = "Receive_Receipt isoTime (Some r)" and ?report = "Receive_Report isoTime (Some ev)"
  have found: "find (of_organization ?k org) (intents st) = intent_of ?k st"
    if "intent_of ?k st = Some j" "di_organizationId j = org" "distinct (map di_intentId (intents st))" for st org j
  proof -
    have j: "j \<in> set (intents st)" "di_intentId j = ?k" using intent_of_SomeD [OF that(1)] by auto
    then have "find (of_organization ?k org) (intents st) \<noteq> None"
      using that(2) by (auto simp: find_None of_organization_def)
    then obtain x where x: "find (of_organization ?k org) (intents st) = Some x" by auto
    from find_SomeD [OF this] have "x \<in> set (intents st)" "di_intentId x = ?k" by (auto simp: of_organization_def)
    then have "x = j" using same_intent [OF that(3) _ j(1)] j(2) by simp
    then show ?thesis using x that(1) by simp
  qed
  have d: "dv_outcome r = ''ACCEPTED''" using assms(6) by (simp add: OutboxDeliveryReceiptSchema_def)
  have 1: "run_outbox_op ?receipt ot = on_store (\<lambda>_. set_status ?k I_ACK_RECEIVED (ot_store ot)) ot"
    using assms(4-8) d found [OF assms(4) refl tables_okD(1) [OF assms(1)]] intent_of_SomeD [OF assms(4)]
    by (simp add: on_store_def processReceipt_def validateReceipt_def receipt_terminal_def)
  let ?ot1 = "on_store (\<lambda>_. set_status ?k I_ACK_RECEIVED (ot_store ot)) ot"
  have i1: "intent_of ?k (ot_store ?ot1) = Some (i\<lparr>di_status := I_ACK_RECEIVED\<rparr>)"
    using assms(4) by (simp add: intent_of_set_status)
  have ok1: "tables_ok ?ot1" using step_tables_ok [OF assms(1), of ?receipt] by (simp only: 1)
  have 2: "run_outbox_op ?report ?ot1 = on_store (\<lambda>_. set_status ?k I_DELIVERED (ot_store ?ot1)) ?ot1"
    using assms(9-12) found [OF i1 _ tables_okD(1) [OF ok1]] i1 intent_of_SomeD [OF i1]
    by (simp add: on_store_def processEvent_def validateEvent_def report_from_def)
  let ?ot2 = "on_store (\<lambda>_. set_status ?k I_DELIVERED (ot_store ?ot1)) ?ot1"
  have i2: "intent_of ?k (ot_store ?ot2) = Some (i\<lparr>di_status := I_DELIVERED\<rparr>)"
    using assms(4) by (simp add: intent_of_set_status)
  have ok2: "tables_ok ?ot2" using step_tables_ok [OF ok1, of ?report] by (simp only: 2)
  have e: "getEntry (re_entryId e) ?ot2 = Some e" using getEntry_mem(1) [OF ok2, of e] assms(2) by simp
  have retry: "resolution_of ''RETRY'' = Some RESOLVE_RETRY" by code_simp
  let ?retry = "Resolve now (re_entryId e) ''RETRY'' actor nt (Some key) None"
  have 3: "ot_store (run_outbox_op ?retry ?ot2) =
      set_status ?k I_PENDING (ot_store ?ot2)"
    using e retry assms(3,13) i2 by (simp add: resolveReconciliation_def put_entry_def)
  have r2: "run_outbox [?receipt, ?report] ot = ?ot2"
    by (simp only: run_outbox_def fold.simps comp_apply id_apply 1 2)
  have r3: "run_outbox [?receipt, ?report, ?retry] ot = run_outbox_op ?retry ?ot2"
    by (simp only: run_outbox_def fold.simps comp_apply id_apply 1 2)
  have "intent_of ?k (set_status ?k I_PENDING (ot_store ?ot2)) = Some (i\<lparr>di_status := I_PENDING\<rparr>)"
    by (simp only: intent_of_set_status i2) simp
  then show ?thesis unfolding r2 r3 3 i2 by simp
qed

end
