(* ===== verification/Js_Collections.thy ===== *)
theory Js_Collections
  imports Json_Access
begin

text \<open>
  Maps and string functions of the language that several components use. A \<open>Map\<close> is the list
  of its entries in the order in which their keys were first inserted; \<open>split\<close>, \<open>endsWith\<close>,
  \<open>toLowerCase\<close>, \<open>replaceAll\<close> and \<open>Number.parseInt\<close> work on lists of characters.
\<close>

section \<open>Maps\<close>

text \<open>\<open>m.set (k, v)\<close> keeps the place of a key that is there; \<open>m.delete (k)\<close> removes its entry.\<close>

fun map_set :: "string \<Rightarrow> 'a \<Rightarrow> (string \<times> 'a) list \<Rightarrow> (string \<times> 'a) list" where
  "map_set k v [] = [(k, v)]"
| "map_set k v ((k', v') # m) = (if k = k' then (k, v) # m else (k', v') # map_set k v m)"

definition map_delete :: "string \<Rightarrow> (string \<times> 'a) list \<Rightarrow> (string \<times> 'a) list" where
  "map_delete k m = filter (\<lambda>e. fst e \<noteq> k) m"

lemma map_of_map_set [simp]: "map_of (map_set k v m) = (map_of m)(k \<mapsto> v)"
  by (induction m) auto

lemma map_set_keys: "fst ` set (map_set k v m) = insert k (fst ` set m)"
proof (induction m)
  case (Cons e m)
  then show ?case by (cases e) (simp add: insert_commute)
qed simp

lemma map_set_distinct: "distinct (map fst m) \<Longrightarrow> distinct (map fst (map_set k v m))"
proof (induction m)
  case (Cons e m)
  have "set (map fst (map_set k v m)) = insert k (set (map fst m))" using map_set_keys [of k v m] by simp
  then show ?case using Cons by (cases e) auto
qed simp

lemma set_map_set_subset: "set (map_set k v m) \<subseteq> insert (k, v) (set m)"
  by (induction m) (auto split: if_splits)

section \<open>Strings\<close>

text \<open>\<open>s.split (c)\<close>.\<close>

fun split_on :: "char \<Rightarrow> string \<Rightarrow> string list" where
  "split_on c [] = [[]]"
| "split_on c (x # xs) =
     (if x = c then [] # split_on c xs
      else case split_on c xs of [] \<Rightarrow> [[x]] | p # ps \<Rightarrow> (x # p) # ps)"

lemma split_on_free: "c \<notin> set s \<Longrightarrow> split_on c s = [s]"
  by (induction s) auto

lemma split_on_sep: "c \<notin> set s \<Longrightarrow> split_on c (s @ c # rest) = s # split_on c rest"
  by (induction s) auto

definition ends_with :: "string \<Rightarrow> string \<Rightarrow> bool" where
  "ends_with p s \<longleftrightarrow> starts_with (rev p) (rev s)"

definition to_lower :: "string \<Rightarrow> string" where
  "to_lower s = map lower s"

text \<open>\<open>Number.parseInt (s, 10)\<close>: white space, a sign, then the digits up to the first other
  character; \<^const>\<open>None\<close> is \<open>NaN\<close>.\<close>

definition digits_number :: "string \<Rightarrow> nat" where
  "digits_number ds = foldl (\<lambda>a c. 10 * a + (of_char c - 48)) 0 ds"

definition parse_int :: "string \<Rightarrow> int option" where
  "parse_int s =
     (let t = dropWhile is_space s;
          negative = (t \<noteq> [] \<and> hd t = CHR ''-'');
          u = (if t \<noteq> [] \<and> hd t \<in> {CHR ''-'', CHR ''+''} then tl t else t);
          ds = takeWhile is_digit u
      in if ds = [] then None
         else Some (if negative then - int (digits_number ds) else int (digits_number ds)))"

lemma digits_number_digits [simp]: "digits_number (digits n) = n"
  by (simp add: digits_number_def digits_value)

lemma digit_not_space: "is_digit c \<Longrightarrow> \<not> is_space c"
  by (auto simp: is_digit_def is_space_def)

lemma digit_not_sign: "is_digit c \<Longrightarrow> c \<noteq> CHR ''-'' \<and> c \<noteq> CHR ''+''"
  by (auto simp: is_digit_def)

lemma digits_nonempty [simp]: "digits n \<noteq> []"
  by (subst digits.simps) simp

lemma parse_int_digits [simp]: "parse_int (digits n) = Some (int n)"
proof -
  obtain c t where ct: "digits n = c # t" and c: "is_digit c" using digits_head by blast
  have "takeWhile is_digit (digits n) = digits n"
    using digits_are_digits by (simp add: takeWhile_eq_all_conv)
  then show ?thesis
    using ct digit_not_space [OF c] digit_not_sign [OF c] digits_number_digits [of n]
    by (simp add: parse_int_def Let_def)
qed

text \<open>\<open>s.replaceAll (r, w)\<close>, from the left; an empty \<open>r\<close> matches between all characters.\<close>

function (sequential) replace_from :: "string \<Rightarrow> string \<Rightarrow> string \<Rightarrow> string" where
  "replace_from r w [] = []"
| "replace_from r w (c # cs) =
     (if r \<noteq> [] \<and> starts_with r (c # cs) then w @ replace_from r w (drop (length r) (c # cs))
      else c # replace_from r w cs)"
  by pat_completeness auto
termination
  by (relation "measure (\<lambda>(r, w, s). length s)") auto

definition replace_all :: "string \<Rightarrow> string \<Rightarrow> string \<Rightarrow> string" where
  "replace_all r w s =
     (if r = [] then w @ concat (map (\<lambda>c. c # w) s) else replace_from r w s)"

end
