(* ===== verification/Receiver_Parse.thy ===== *)
theory Receiver_Parse
  imports Js_Collections Primitives
begin

text \<open>
  What the webhook receiver reads from a request:
  \<open>apps/integration-api/src/receiver/protocol-fixture.ts\<close> (event type and stable event id of a
  body) and \<open>scope-verify.ts\<close> (the scope in the path, and scopes a body claims). A body is its
  bytes as a string of 8-bit characters. \<open>parse\<close> stands for decoding it as UTF-8 and
  \<open>JSON.parse\<close>, with \<^const>\<open>None\<close> for a text that is not JSON, and \<open>sha256\<close> for the hex digest.
\<close>

section \<open>Providers and event ids\<close>

definition SUPPORTED_PROVIDERS :: "string list" where
  "SUPPORTED_PROVIDERS = [''CHATWOOT'', ''ZALO_OA'', ''GENERIC'']"

datatype event_id_source = Primary | Fallback

record parsed_event =
  pe_eventType :: string
  pe_eventId :: string
  pe_eventIdSource :: event_id_source
  pe_correlationId :: "string option"
  pe_parsedBody :: json

definition computePayloadDigest :: "(string \<Rightarrow> string) \<Rightarrow> string \<Rightarrow> string" where
  "computePayloadDigest sha256 rawBody = sha256 rawBody"

text \<open>The primary and the fallback members of each provider.\<close>

definition STABLE_EVENT_ID_POLICY :: "string \<Rightarrow> string list \<times> string list" where
  "STABLE_EVENT_ID_POLICY provider =
     (if provider = ''CHATWOOT'' then ([''id''], [''event_id''])
      else if provider = ''ZALO_OA'' then ([''event_id''], [''message_id''])
      else ([''event_id'', ''eventId''], [''id'']))"

text \<open>A member that can be an id: a string of eight characters or more, a number from zero on.\<close>

fun stable_value :: "json option \<Rightarrow> string option" where
  "stable_value (Some (JStr s)) = (if length s \<ge> 8 then Some s else None)"
| "stable_value (Some (JNum n)) = (if n \<ge> 0 then Some (js_String (JNum n)) else None)"
| "stable_value _ = None"

fun first_stable :: "json \<Rightarrow> string list \<Rightarrow> string option" where
  "first_stable body [] = None"
| "first_stable body (field # rest) =
     (case stable_value (jget field body) of Some v \<Rightarrow> Some v | None \<Rightarrow> first_stable body rest)"

definition pickStableId :: "json \<Rightarrow> string list \<Rightarrow> string list \<Rightarrow> string option \<times> event_id_source" where
  "pickStableId body primary fallback =
     (case first_stable body primary of
        Some v \<Rightarrow> (Some v, Primary)
      | None \<Rightarrow>
          (case first_stable body fallback of Some v \<Rightarrow> (Some v, Fallback) | None \<Rightarrow> (None, Primary)))"

text \<open>The first of the members that is a string.\<close>

fun first_string :: "json \<Rightarrow> string list \<Rightarrow> string option" where
  "first_string body [] = None"
| "first_string body (field # rest) =
     (case jget field body of Some (JStr s) \<Rightarrow> Some s | _ \<Rightarrow> first_string body rest)"

text \<open>What the three extractors share: type, stable id and correlation, or the code of the failure.\<close>

definition extract_event ::
  "string \<Rightarrow> string list \<Rightarrow> string list \<Rightarrow> json \<Rightarrow> string + parsed_event" where
  "extract_event provider types correlations body =
     (case first_string body types of
        None \<Rightarrow> Inl ''unsupported_event_type''
      | Some eventType \<Rightarrow>
          if eventType = [] then Inl ''unsupported_event_type''
          else
            let (primary, fallback) = STABLE_EVENT_ID_POLICY provider
            in case pickStableId body primary fallback of
                 (None, _) \<Rightarrow> Inl ''missing_event_id''
               | (Some eventId, source) \<Rightarrow>
                   if eventId = [] then Inl ''missing_event_id''
                   else Inr \<lparr>pe_eventType = eventType, pe_eventId = eventId, pe_eventIdSource = source,
                             pe_correlationId = first_string body correlations, pe_parsedBody = body\<rparr>)"

definition extractChatwoot :: "json \<Rightarrow> string + parsed_event" where
  "extractChatwoot = extract_event ''CHATWOOT'' [''event''] [''correlation_id'']"

definition extractZalo :: "json \<Rightarrow> string + parsed_event" where
  "extractZalo = extract_event ''ZALO_OA'' [''event_name'', ''event''] [''trace_id'']"

definition extractGeneric :: "json \<Rightarrow> string + parsed_event" where
  "extractGeneric =
     extract_event ''GENERIC'' [''eventType'', ''type'', ''event''] [''correlationId'', ''correlation_id'']"

definition parseProviderFixture ::
  "(string \<Rightarrow> json option) \<Rightarrow> string \<Rightarrow> string \<Rightarrow> string + parsed_event" where
  "parseProviderFixture parse provider rawBody =
     (if provider \<notin> set SUPPORTED_PROVIDERS then Inl ''unsupported_provider''
      else case parse rawBody of
        Some (JObj ms) \<Rightarrow>
          if provider = ''CHATWOOT'' then extractChatwoot (JObj ms)
          else if provider = ''ZALO_OA'' then extractZalo (JObj ms)
          else extractGeneric (JObj ms)
      | _ \<Rightarrow> Inl ''malformed_json'')"

section \<open>Scopes\<close>

record path_scope =
  ps_organizationId :: string
  ps_provider :: string
  ps_connectionId :: string

definition verifyScopeFromPath ::
  "string option \<Rightarrow> string option \<Rightarrow> string option \<Rightarrow> string + path_scope" where
  "verifyScopeFromPath organizationIdRaw providerRaw connectionIdRaw =
     (case (organizationIdRaw, providerRaw, connectionIdRaw) of
        (Some org, Some prov, Some conn) \<Rightarrow>
          if org = [] \<or> prov = [] \<or> conn = [] then Inl ''missing_path_param''
          else if \<not> OrganizationIdSchema org then Inl ''invalid_organization_id''
          else if \<not> ConnectionIdSchema conn then Inl ''invalid_connection_id''
          else if \<not> ProviderNameSchema prov then Inl ''invalid_provider''
          else if prov \<notin> set SUPPORTED_PROVIDERS then Inl ''unsupported_provider''
          else Inr \<lparr>ps_organizationId = org, ps_provider = prov, ps_connectionId = conn\<rparr>
      | _ \<Rightarrow> Inl ''missing_path_param'')"

text \<open>The members under which a body may claim a scope, each with the value of the path.\<close>

definition claimed_members :: "path_scope \<Rightarrow> (string \<times> string) list" where
  "claimed_members sc =
     map (\<lambda>f. (f, ps_organizationId sc)) [''organizationId'', ''organization_id'', ''orgId''] @
     map (\<lambda>f. (f, ps_provider sc)) [''provider'', ''channel'', ''source''] @
     map (\<lambda>f. (f, ps_connectionId sc)) [''connectionId'', ''connection_id'', ''accountId'']"

text \<open>The first member that disagrees, if any.\<close>

definition detectBodyScopeSpoof :: "json \<Rightarrow> path_scope \<Rightarrow> string option" where
  "detectBodyScopeSpoof parsedBody expectedScope =
     (case parsedBody of
        JObj _ \<Rightarrow>
          map_option fst
            (find (\<lambda>(f, expected). case jget f parsedBody of Some (JStr s) \<Rightarrow> s \<noteq> expected | _ \<Rightarrow> False)
              (claimed_members expectedScope))
      | _ \<Rightarrow> None)"

section \<open>Facts\<close>

lemma int_string_nonempty [simp]: "int_string i \<noteq> []"
proof -
  have "digits k \<noteq> []" for k by (subst digits.simps) simp
  then show ?thesis by (simp add: int_string_def)
qed

lemma stable_value_Some: "stable_value v = Some s \<Longrightarrow> s \<noteq> []"
  by (cases v rule: stable_value.cases) (auto simp: Let_def split: if_splits prod.splits)

lemma first_stable_Some: "first_stable body names = Some s \<Longrightarrow> s \<noteq> []"
  by (induction names) (auto split: option.splits dest: stable_value_Some)

text \<open>A parsed body is an object, and its event has a type and an id.\<close>

lemma extract_event_Some:
  assumes "extract_event provider types correlations body = Inr ev"
  shows "pe_parsedBody ev = body \<and> pe_eventId ev \<noteq> [] \<and> pe_eventType ev \<noteq> [] \<and>
    pickStableId body (fst (STABLE_EVENT_ID_POLICY provider)) (snd (STABLE_EVENT_ID_POLICY provider)) =
      (Some (pe_eventId ev), pe_eventIdSource ev)"
  using assms
  by (auto simp: extract_event_def Let_def split: option.splits if_splits prod.splits)

lemma parseProviderFixture_Some:
  assumes "parseProviderFixture parse provider rawBody = Inr ev"
  shows "\<exists>ms. parse rawBody = Some (JObj ms) \<and> pe_parsedBody ev = JObj ms \<and> pe_eventId ev \<noteq> []"
  using assms
  by (auto simp: parseProviderFixture_def extractChatwoot_def extractZalo_def extractGeneric_def
      split: if_splits option.splits json.splits dest: extract_event_Some)

lemma verifyScopeFromPath_Inr:
  assumes "verifyScopeFromPath a b c = Inr sc"
  shows "a = Some (ps_organizationId sc)" "b = Some (ps_provider sc)" "c = Some (ps_connectionId sc)"
    "OrganizationIdSchema (ps_organizationId sc)" "ConnectionIdSchema (ps_connectionId sc)"
    "ps_provider sc \<in> set SUPPORTED_PROVIDERS"
  using assms by (auto simp: verifyScopeFromPath_def split: option.splits if_splits)

end
