(* ===== verification/Receiver_Auth.thy ===== *)
theory Receiver_Auth
  imports Receiver_Parse
begin

text \<open>
  Who a webhook comes from: the registry of connections,
  \<open>apps/integration-api/src/receiver/connection-registry.ts\<close>, and the verification of the
  signature with the secret and algorithm it pins, \<open>hmac-verify.ts\<close>. The texts of the errors are
  left out. \<open>hmac\<close> is the keyed digest of the runtime: algorithm, secret and body to bytes.
\<close>

section \<open>The registry\<close>

record connection_entry =
  ce_organizationId :: string
  ce_provider :: string
  ce_connectionId :: string
  ce_secret :: string
  ce_algorithm :: string

datatype registry_error = Not_Json | Not_Array | Bad_Parts | Bad_Entry | Duplicate_Entry

definition ALLOWED_ALGORITHMS :: "string list" where
  "ALLOWED_ALGORITHMS = [''HMAC_SHA256'', ''HMAC_SHA512'']"

definition validateEntryShape :: "connection_entry \<Rightarrow> bool" where
  "validateEntryShape e \<longleftrightarrow>
     ce_organizationId e \<noteq> [] \<and> ce_provider e \<noteq> [] \<and> ce_connectionId e \<noteq> [] \<and>
     ce_provider e \<in> set SUPPORTED_PROVIDERS \<and> ce_algorithm e \<in> set ALLOWED_ALGORITHMS \<and>
     ce_secret e \<noteq> []"

definition NUL :: char where
  "NUL = CHR 0x00"

definition keyOf :: "string \<Rightarrow> string \<Rightarrow> string \<Rightarrow> string" where
  "keyOf org provider conn = org @ [NUL] @ provider @ [NUL] @ conn"

definition entry_key :: "connection_entry \<Rightarrow> string" where
  "entry_key e = keyOf (ce_organizationId e) (ce_provider e) (ce_connectionId e)"

record registry =
  rg_map :: "(string \<times> connection_entry) list"
  rg_configured :: bool

text \<open>The loop of the constructor; the keys of \<open>seen\<close> are those of the map.\<close>

fun register ::
  "connection_entry list \<Rightarrow> (string \<times> connection_entry) list \<Rightarrow>
   registry_error + (string \<times> connection_entry) list" where
  "register [] m = Inr m"
| "register (e # es) m =
     (if \<not> validateEntryShape e then Inl Bad_Entry
      else if map_of m (entry_key e) \<noteq> None then Inl Duplicate_Entry
      else register es (m @ [(entry_key e, e)]))"

definition new_registry :: "connection_entry list \<Rightarrow> registry_error + registry" where
  "new_registry entries =
     (case register entries [] of
        Inl err \<Rightarrow> Inl err
      | Inr m \<Rightarrow> Inr \<lparr>rg_map = m, rg_configured = (length entries > 0)\<rparr>)"

definition resolve_connection :: "registry \<Rightarrow> path_scope \<Rightarrow> string + connection_entry" where
  "resolve_connection rg sc =
     (if \<not> rg_configured rg then Inl ''registry_unconfigured''
      else if ps_provider sc \<notin> set SUPPORTED_PROVIDERS then Inl ''unknown_connection''
      else case map_of (rg_map rg) (keyOf (ps_organizationId sc) (ps_provider sc) (ps_connectionId sc)) of
             None \<Rightarrow> Inl ''unknown_connection''
           | Some entry \<Rightarrow> Inr entry)"

section \<open>Loading the registry\<close>

fun requireString :: "json option \<Rightarrow> string option" where
  "requireString (Some (JStr s)) = (if length s = 0 then None else Some s)"
| "requireString _ = None"

definition parseEntry :: "json \<Rightarrow> registry_error + connection_entry" where
  "parseEntry raw =
     (case raw of
        JObj _ \<Rightarrow>
          (case (requireString (jget ''organizationId'' raw), requireString (jget ''provider'' raw),
                 requireString (jget ''connectionId'' raw), requireString (jget ''secret'' raw),
                 requireString (jget ''algorithm'' raw)) of
             (Some org, Some prov, Some conn, Some secret, Some algorithm) \<Rightarrow>
               if prov \<notin> set SUPPORTED_PROVIDERS then Inl Bad_Entry
               else if algorithm \<noteq> ''HMAC_SHA256'' \<and> algorithm \<noteq> ''HMAC_SHA512'' then Inl Bad_Entry
               else Inr \<lparr>ce_organizationId = org, ce_provider = prov, ce_connectionId = conn,
                         ce_secret = secret, ce_algorithm = algorithm\<rparr>
           | _ \<Rightarrow> Inl Bad_Entry)
      | _ \<Rightarrow> Inl Bad_Entry)"

fun parse_entries :: "json list \<Rightarrow> registry_error + connection_entry list" where
  "parse_entries [] = Inr []"
| "parse_entries (v # vs) =
     (case parseEntry v of
        Inl err \<Rightarrow> Inl err
      | Inr e \<Rightarrow> (case parse_entries vs of Inl err \<Rightarrow> Inl err | Inr es \<Rightarrow> Inr (e # es)))"

definition numbered_prefix :: string where
  "numbered_prefix = ''HRP_WEBHOOK_CONNECTION_''"

text \<open>The pattern of the numbered keys, and the number they are sorted by.\<close>

definition numbered_key :: "string \<Rightarrow> bool" where
  "numbered_key k \<longleftrightarrow>
     starts_with numbered_prefix k \<and> drop (length numbered_prefix) k \<noteq> [] \<and>
     list_all is_digit (drop (length numbered_prefix) k)"

definition key_number :: "string \<Rightarrow> nat" where
  "key_number k = foldl (\<lambda>a c. 10 * a + (of_char c - 48)) 0 (drop (length numbered_prefix) k)"

fun pipe_entry :: "string list \<Rightarrow> registry_error + connection_entry" where
  "pipe_entry [org, prov, conn, algorithm, secret] =
     parseEntry (JObj [(''organizationId'', JStr org), (''provider'', JStr prov), (''connectionId'', JStr conn),
                       (''algorithm'', JStr algorithm), (''secret'', JStr secret)])"
| "pipe_entry _ = Inl Bad_Parts"

fun parse_numbered ::
  "(string \<Rightarrow> string option) \<Rightarrow> string list \<Rightarrow> registry_error + connection_entry list" where
  "parse_numbered env [] = Inr []"
| "parse_numbered env (k # ks) =
     (if \<not> truthy (env k) then parse_numbered env ks
      else case pipe_entry (split_on (CHR ''|'') (the (env k))) of
             Inl err \<Rightarrow> Inl err
           | Inr e \<Rightarrow>
               (case parse_numbered env ks of Inl err \<Rightarrow> Inl err | Inr es \<Rightarrow> Inr (e # es)))"

text \<open>The environment is the list of its variables in the order of \<open>Object.keys\<close>.\<close>

definition loadConnectionRegistryFromEnv ::
  "(string \<Rightarrow> json option) \<Rightarrow> (string \<times> string) list \<Rightarrow> registry_error + connection_entry list" where
  "loadConnectionRegistryFromEnv parse env =
     (let fromJson =
            (if \<not> truthy (map_of env ''HRP_WEBHOOK_CONNECTIONS'') then Inr []
             else case parse (the (map_of env ''HRP_WEBHOOK_CONNECTIONS'')) of
                    None \<Rightarrow> Inl Not_Json
                  | Some (JArr items) \<Rightarrow> parse_entries items
                  | Some _ \<Rightarrow> Inl Not_Array);
          numberedKeys = sort_key key_number (filter numbered_key (map fst env))
      in case fromJson of
           Inl err \<Rightarrow> Inl err
         | Inr es \<Rightarrow>
             (case parse_numbered (map_of env) numberedKeys of
                Inl err \<Rightarrow> Inl err
              | Inr es' \<Rightarrow> Inr (es @ es')))"

section \<open>Signatures\<close>

definition SIGNATURE_HEADER_BY_PROVIDER :: "string \<Rightarrow> string option" where
  "SIGNATURE_HEADER_BY_PROVIDER provider =
     (if provider = ''CHATWOOT'' then Some ''x-chatwoot-signature''
      else if provider = ''ZALO_OA'' then Some ''x-zalo-oa-signature''
      else if provider = ''GENERIC'' then Some ''x-webhook-signature'' else None)"

definition ALGORITHM_HEADER :: string where
  "ALGORITHM_HEADER = ''x-webhook-algorithm''"

definition isSupportedAlgorithmString :: "string \<Rightarrow> bool" where
  "isSupportedAlgorithmString s \<longleftrightarrow> s \<in> set ALLOWED_ALGORITHMS"

definition hex_value :: "char \<Rightarrow> nat option" where
  "hex_value c =
     (let n = of_char c :: nat
      in if 48 \<le> n \<and> n \<le> 57 then Some (n - 48)
         else if 65 \<le> n \<and> n \<le> 70 then Some (n - 55)
         else if 97 \<le> n \<and> n \<le> 102 then Some (n - 87) else None)"

text \<open>\<open>Buffer.from (s, 'hex')\<close> decodes pairs of digits up to the first pair that is not one.\<close>

fun hex_bytes :: "string \<Rightarrow> string" where
  "hex_bytes (c # d # rest) =
     (case (hex_value c, hex_value d) of
        (Some a, Some b) \<Rightarrow> char_of (16 * a + b) # hex_bytes rest
      | _ \<Rightarrow> [])"
| "hex_bytes _ = []"

text \<open>The code of the rejection, or the pinned algorithm.\<close>

definition verifyHmacSignature ::
  "(string \<Rightarrow> string \<Rightarrow> string \<Rightarrow> string) \<Rightarrow> string \<Rightarrow> (string \<Rightarrow> string option) \<Rightarrow> string \<Rightarrow>
   string \<Rightarrow> string \<Rightarrow> string + string" where
  "verifyHmacSignature hmac rawBody headers provider pinnedAlgorithm secret =
     (case SIGNATURE_HEADER_BY_PROVIDER provider of
        None \<Rightarrow> Inl ''missing_signature_header''
      | Some sigHeader \<Rightarrow>
          if \<not> truthy (headers sigHeader) then Inl ''missing_signature_header''
          else
            let declared = js_trim (nullish (headers ALGORITHM_HEADER) []);
                sigBytes = hex_bytes (js_trim (the (headers sigHeader)))
            in if provider = ''GENERIC'' \<and> declared \<noteq> [] \<and> \<not> isSupportedAlgorithmString declared then
                 Inl ''algorithm_header_mismatch''
               else if provider = ''GENERIC'' \<and> declared \<noteq> [] \<and> declared \<noteq> pinnedAlgorithm then
                 Inl ''algorithm_header_mismatch''
               else if length sigBytes = 0 then Inl ''malformed_signature''
               else if sigBytes \<noteq>
                   hmac (if pinnedAlgorithm = ''HMAC_SHA256'' then ''sha256'' else ''sha512'') secret rawBody
               then Inl ''signature_mismatch''
               else Inr pinnedAlgorithm)"

end
