(* ===== verification/Receiver.thy ===== *)
theory Receiver
  imports Receiver_Auth Event_Receipt Mock_Gateway
begin

text \<open>
  The webhook receiver: \<open>apps/integration-api/src/receiver/handler.ts\<close> with its rate limiter, and
  \<open>dedupe.ts\<close>, which turns an event into one receipt with one intent and commits them. The
  texts of the answers are left out. A receiver without a database client has \<^const>\<open>None\<close> as
  its store; an outage of the database is not modelled, a value a column does not take is.
\<close>

section \<open>The commit\<close>

definition recv_intent ::
  "path_scope \<Rightarrow> parsed_event \<Rightarrow> string \<Rightarrow> int \<Rightarrow> intent_input" where
  "recv_intent sc ev correlationId now =
     \<lparr>ii_intentId = ''it-recv-'' @ take 16 (pe_eventId ev) @ ''-'' @ base36 (nat now),
      ii_schemaVersion = ''1'', ii_organizationId = ps_organizationId sc,
      ii_correlationId = correlationId, ii_sourceCommandId = ''recv-'' @ pe_eventId ev,
      ii_dedupeKey =
        ps_organizationId sc @ '':'' @ ps_provider sc @ '':'' @ ps_connectionId sc @ '':'' @ pe_eventId ev,
      ii_destination =
        JObj [(''provider'', JStr (ps_provider sc)), (''connectionId'', JStr (ps_connectionId sc)),
              (''recipientRef'', JStr [])],
      ii_template = JObj [(''engine'', JStr ''HRP_INTERNAL''), (''contentRef'', JStr (''recv:'' @ pe_eventType ev))],
      ii_policy =
        JObj [(''purpose'', JStr ''webhook_receive''), (''suppressionCheckRequired'', JBool True),
              (''retryPolicyVersion'', JStr ''v1-core1.2'')],
      ii_channel = JStr ''PUSH_WEBHOOK''\<rparr>"

definition buildReceiptAndIntents ::
  "path_scope \<Rightarrow> parsed_event \<Rightarrow> string \<Rightarrow> string \<Rightarrow> int \<Rightarrow> event_receipt_input \<times> intent_input list" where
  "buildReceiptAndIntents sc ev digest correlationId now =
     (\<lparr>er_organizationId = ps_organizationId sc, er_payloadDigest = digest,
       er_duplicateKind = ''DEDUPE'', er_resolvedAt = None, er_reasonCode = None\<rparr>,
      [recv_intent sc ev correlationId now])"

text \<open>
  The database refuses a text with a NUL character and one longer than its column
  (\<open>VarChar\<close> in \<open>prisma/schema.prisma\<close>); \<open>jsonb\<close> refuses NUL characters too.
\<close>

definition fits_column :: "nat \<Rightarrow> string \<Rightarrow> bool" where
  "fits_column n s \<longleftrightarrow> length s \<le> n \<and> NUL \<notin> set s"

fun json_storable :: "json \<Rightarrow> bool" where
  "json_storable (JStr s) = (NUL \<notin> set s)"
| "json_storable (JArr vs) = list_all json_storable vs"
| "json_storable (JObj ms) = list_all (\<lambda>m. NUL \<notin> set (fst m) \<and> json_storable (snd m)) ms"
| "json_storable _ = True"

definition receipt_storable :: "receipt \<Rightarrow> bool" where
  "receipt_storable r \<longleftrightarrow>
     fits_column 8 (rc_schemaVersion r) \<and> fits_column 64 (rc_organizationId r) \<and>
     fits_column 64 (rc_provider r) \<and> fits_column 128 (rc_connectionId r) \<and>
     fits_column 128 (rc_eventId r) \<and> fits_column 64 (rc_payloadDigest r) \<and>
     null_or (fits_column 128) (rc_correlationId r)"

definition intent_storable :: "dispatch_intent \<Rightarrow> bool" where
  "intent_storable i \<longleftrightarrow>
     NUL \<notin> set (di_intentId i) \<and> fits_column 8 (di_schemaVersion i) \<and>
     fits_column 64 (di_organizationId i) \<and> fits_column 128 (di_receiptId i) \<and>
     null_or (fits_column 256) (di_idempotencyKey i) \<and> null_or (fits_column 128) (di_correlationId i) \<and>
     fits_column 64 (di_intentSource i) \<and> json_storable (di_intentTargetJson i)"

text \<open>A failure of the commit: one it throws itself, or the refusal of a column.\<close>

datatype commit_failure = Commit_Failed failure | Column_Refused

definition stored_commit ::
  "int \<Rightarrow> receipt_scope \<Rightarrow> commit_payload \<Rightarrow> store \<Rightarrow> store \<Rightarrow> commit_failure + txn_result \<times> store" where
  "stored_commit now sc p st_read st =
     (case commitReceiptWithIntents now sc p st_read st of
        Inl f \<Rightarrow> Inl (Commit_Failed f)
      | Inr (res, st') \<Rightarrow>
          if list_all receipt_storable (drop (length (receipts st)) (receipts st')) \<and>
             list_all intent_storable (drop (length (intents st)) (intents st'))
          then Inr (res, st') else Inl Column_Refused)"

record dedupe_ok =
  do_receiptId :: string
  do_intentIds :: "string list"
  do_created :: bool
  do_payloadDigest :: string

text \<open>
  The code of a failure. The message of the digest conflict is the one with the text
  \<open>IDEMPOTENCY_CONFLICT\<close>; it is the error whose target is the digest.
\<close>

definition dedupe_code :: "commit_failure \<Rightarrow> string" where
  "dedupe_code f =
     (case f of
        Commit_Failed (Thrown e) \<Rightarrow>
          if se_code e = ''VALIDATION_ERROR'' \<and> se_target e = Some ''payloadDigest'' then ''idempotency_conflict''
          else if se_code e = ''SCOPE_MISMATCH'' then ''scope_mismatch'' else ''commit_failure''
      | _ \<Rightarrow> ''commit_failure'')"

definition event_scope :: "path_scope \<Rightarrow> parsed_event \<Rightarrow> receipt_scope" where
  "event_scope sc ev =
     \<lparr>sc_organizationId = ps_organizationId sc, sc_provider = ps_provider sc,
      sc_connectionId = ps_connectionId sc, sc_eventId = pe_eventId ev\<rparr>"

definition recv_payload :: "path_scope \<Rightarrow> parsed_event \<Rightarrow> string \<Rightarrow> string \<Rightarrow> int \<Rightarrow> commit_payload" where
  "recv_payload sc ev digest correlationId now =
     (let (receipt, its) = buildReceiptAndIntents sc ev digest correlationId now
      in \<lparr>cp_schemaVersion = ''1'', cp_receipt = receipt, cp_intents = its,
          cp_correlationId = (if correlationId \<noteq> [] then Some correlationId else None),
          cp_commandRefsJson = None\<rparr>)"

text \<open>\<open>intentNow\<close> is the clock in the intent id, \<open>now\<close> that of the row.\<close>

definition commitWebhookReceipt ::
  "(string \<Rightarrow> string) \<Rightarrow> int \<Rightarrow> int \<Rightarrow> path_scope \<Rightarrow> parsed_event \<Rightarrow> string \<Rightarrow> string \<Rightarrow> store \<Rightarrow> store \<Rightarrow>
   string + dedupe_ok \<times> store" where
  "commitWebhookReceipt sha256 intentNow now sc ev rawBody correlationId st_read st =
     (let digest = computePayloadDigest sha256 rawBody
      in case stored_commit now (event_scope sc ev) (recv_payload sc ev digest correlationId intentNow)
                st_read st of
           Inl f \<Rightarrow> Inl (dedupe_code f)
         | Inr (res, st') \<Rightarrow>
             Inr (\<lparr>do_receiptId = tr_receiptId res, do_intentIds = tr_intentIds res,
                   do_created = tr_created res, do_payloadDigest = digest\<rparr>, st'))"

section \<open>The rate limiter\<close>

record rate_state =
  rt_windowStartMs :: int
  rt_count :: int
  rt_lastHitMs :: int

type_synonym rate_map = "(string \<times> rate_state) list"

record receiver_config =
  rf_maxBodyBytes :: nat
  rf_rateLimitPerMinute :: int
  rf_enabled :: bool
  rf_rateMapIdleEvictionMs :: int
  rf_rateMapMaxEntries :: nat

definition evictIdle :: "int \<Rightarrow> int \<Rightarrow> rate_map \<Rightarrow> rate_map" where
  "evictIdle ttl now m =
     (if ttl \<le> 0 then m else filter (\<lambda>(k, v). \<not> now - rt_lastHitMs v \<ge> ttl) m)"

text \<open>The scan for the entry whose last hit is the smallest, the first such one.\<close>

fun oldest_hit :: "rate_map \<Rightarrow> (string \<times> int) option \<Rightarrow> (string \<times> int) option" where
  "oldest_hit [] best = best"
| "oldest_hit ((k, v) # m) best =
     oldest_hit m (if null_or (\<lambda>b. rt_lastHitMs v < snd b) best then Some (k, rt_lastHitMs v) else best)"

definition insertWithCap :: "nat \<Rightarrow> string \<Rightarrow> rate_state \<Rightarrow> rate_map \<Rightarrow> rate_map" where
  "insertWithCap maxEntries key v m =
     map_set key v
       (if map_of m key = None \<and> length m \<ge> maxEntries then
          (case oldest_hit m None of None \<Rightarrow> m | Some (k, _) \<Rightarrow> map_delete k m)
        else m)"

definition windowMs :: int where
  "windowMs = 60000"

text \<open>Whether the request is allowed, the wait otherwise, and the map.\<close>

definition checkRateLimit ::
  "receiver_config \<Rightarrow> int \<Rightarrow> string \<Rightarrow> rate_map \<Rightarrow> (bool \<times> int) \<times> rate_map" where
  "checkRateLimit cfg now key m =
     (let m1 = evictIdle (rf_rateMapIdleEvictionMs cfg) now m;
          fresh = insertWithCap (rf_rateMapMaxEntries cfg) key
                    \<lparr>rt_windowStartMs = now, rt_count = 1, rt_lastHitMs = now\<rparr> m1
      in case map_of m1 key of
           None \<Rightarrow> ((True, 0), fresh)
         | Some state \<Rightarrow>
             if now - rt_windowStartMs state \<ge> windowMs then ((True, 0), fresh)
             else if rt_count state \<ge> rf_rateLimitPerMinute cfg then
               ((False, windowMs - (now - rt_windowStartMs state)), m1)
             else ((True, 0),
                   map_set key (state\<lparr>rt_count := rt_count state + 1, rt_lastHitMs := now\<rparr>) m1))"

section \<open>Requests and answers\<close>

datatype header_value = One_Value string | Many_Values "string list"

record webhook_request =
  wq_method :: string
  wq_pathSegments :: "string list"
  wq_headers :: "(string \<times> header_value) list"
  wq_body :: string

datatype ack =
  Ack_Accepted string "string list" bool string event_id_source
| Ack_Rejected string bool

text \<open>Later headers overwrite earlier ones of the same name.\<close>

fun header_text :: "header_value \<Rightarrow> string" where
  "header_text (One_Value v) = v"
| "header_text (Many_Values vs) = join_with '','' vs"

definition readHeadersLowerCase :: "(string \<times> header_value) list \<Rightarrow> string \<Rightarrow> string option" where
  "readHeadersLowerCase hs = map_of (rev (map (\<lambda>(k, v). (map lower k, header_text v)) hs))"

definition segment :: "nat \<Rightarrow> string list \<Rightarrow> string option" where
  "segment n ss = (if n < length ss then Some (ss ! n) else None)"

definition rate_key :: "path_scope \<Rightarrow> string" where
  "rate_key sc = ps_organizationId sc @ '':'' @ ps_provider sc @ '':'' @ ps_connectionId sc"

section \<open>The handler\<close>

record receiver_state =
  rs_rateMap :: rate_map
  rs_store :: "store option"

text \<open>
  What a request meets: the clock of the rate limiter, the clocks of the correlation, the
  intent and the row, and what other transactions commit between the first read of its own
  and its insert.
\<close>

record receiver_env =
  rv_now :: int
  rv_correlationNow :: int
  rv_intentNow :: int
  rv_rowNow :: int
  rv_between :: "store \<Rightarrow> store"

text \<open>The runtime: digest, keyed digest and JSON parser.\<close>

record runtime =
  rn_sha256 :: "string \<Rightarrow> string"
  rn_hmac :: "string \<Rightarrow> string \<Rightarrow> string \<Rightarrow> string"
  rn_parse :: "string \<Rightarrow> json option"

definition reject :: "nat \<Rightarrow> string \<Rightarrow> bool \<Rightarrow> (nat \<times> ack) option" where
  "reject status code retryable = Some (status, Ack_Rejected code retryable)"

text \<open>The steps from the signature on, for a connection the registry confirmed.\<close>

definition admit_event ::
  "runtime \<Rightarrow> webhook_request \<Rightarrow> path_scope \<Rightarrow> connection_entry \<Rightarrow> (nat \<times> ack) option + parsed_event" where
  "admit_event rn req sc connection =
     (case verifyHmacSignature (rn_hmac rn) (wq_body req) (readHeadersLowerCase (wq_headers req))
             (ps_provider sc) (ce_algorithm connection) (ce_secret connection) of
        Inl reason \<Rightarrow> Inl (reject 401 reason False)
      | Inr _ \<Rightarrow>
          (case parseProviderFixture (rn_parse rn) (ps_provider sc) (wq_body req) of
             Inl code \<Rightarrow> Inl (reject 400 code False)
           | Inr ev \<Rightarrow>
               if detectBodyScopeSpoof (pe_parsedBody ev) sc \<noteq> None then
                 Inl (reject 400 ''body_scope_spoof'' False)
               else Inr ev))"

definition recv_correlation :: "receiver_env \<Rightarrow> parsed_event \<Rightarrow> string" where
  "recv_correlation env ev =
     nullish (pe_correlationId ev)
       (''recv-'' @ pe_eventId ev @ ''-'' @ base36 (nat (rv_correlationNow env)))"

definition commit_event ::
  "runtime \<Rightarrow> receiver_env \<Rightarrow> webhook_request \<Rightarrow> path_scope \<Rightarrow> parsed_event \<Rightarrow> store option \<Rightarrow>
   (nat \<times> ack) option \<times> store option" where
  "commit_event rn env req sc ev store =
     (case store of
        None \<Rightarrow> (reject 503 ''store_unavailable'' True, None)
      | Some st_read \<Rightarrow>
          let st = rv_between env st_read
          in (case commitWebhookReceipt (rn_sha256 rn) (rv_intentNow env) (rv_rowNow env) sc ev (wq_body req)
                     (recv_correlation env ev) st_read st of
                Inl code \<Rightarrow>
                  (if code = ''idempotency_conflict'' then reject 409 code False
                   else if code = ''scope_mismatch'' then reject 400 code False
                   else reject 503 ''store_unavailable'' True, Some st)
              | Inr (res, st') \<Rightarrow>
                  (Some (202, Ack_Accepted (do_receiptId res) (do_intentIds res) (do_created res)
                           (do_payloadDigest res) (pe_eventIdSource ev)), Some st')))"

text \<open>\<^const>\<open>None\<close> as the answer is a route that is not the receiver's.\<close>

definition handleRequest ::
  "runtime \<Rightarrow> receiver_config \<Rightarrow> registry \<Rightarrow> receiver_env \<Rightarrow> webhook_request \<Rightarrow> receiver_state \<Rightarrow>
   (nat \<times> ack) option \<times> receiver_state" where
  "handleRequest rn cfg rg env req rs =
     (if segment 0 (wq_pathSegments req) \<noteq> Some ''webhooks'' then (None, rs)
      else if wq_method req \<noteq> ''POST'' then (reject 405 ''method_not_allowed'' False, rs)
      else if \<not> rf_enabled cfg then (reject 503 ''receiver_disabled'' False, rs)
      else case verifyScopeFromPath (segment 1 (wq_pathSegments req)) (segment 2 (wq_pathSegments req))
                  (segment 3 (wq_pathSegments req)) of
        Inl code \<Rightarrow> (reject 400 code False, rs)
      | Inr sc \<Rightarrow>
          if length (wq_body req) > rf_maxBodyBytes cfg then (reject 413 ''payload_too_large'' False, rs)
          else case resolve_connection rg sc of
            Inl code \<Rightarrow> (reject 400 code False, rs)
          | Inr connection \<Rightarrow>
              let ((allowed, retryAfterMs), m) = checkRateLimit cfg (rv_now env) (rate_key sc) (rs_rateMap rs);
                  rs1 = rs\<lparr>rs_rateMap := m\<rparr>
              in if \<not> allowed then (reject 429 ''rate_limit_exceeded'' True, rs1)
                 else case admit_event rn req sc connection of
                   Inl reply \<Rightarrow> (reply, rs1)
                 | Inr ev \<Rightarrow>
                     let (reply, store) = commit_event rn env req sc ev (rs_store rs1)
                     in (reply, rs1\<lparr>rs_store := store\<rparr>))"

text \<open>Requests one after another.\<close>

fun run_receiver ::
  "runtime \<Rightarrow> receiver_config \<Rightarrow> registry \<Rightarrow> (receiver_env \<times> webhook_request) list \<Rightarrow> receiver_state \<Rightarrow>
   (nat \<times> ack) option list \<times> receiver_state" where
  "run_receiver rn cfg rg [] rs = ([], rs)"
| "run_receiver rn cfg rg ((env, req) # reqs) rs =
     (let (reply, rs1) = handleRequest rn cfg rg env req rs;
          (replies, rs2) = run_receiver rn cfg rg reqs rs1
      in (reply # replies, rs2))"

end
