(* ===== verification/Receiver_Rate.thy ===== *)
theory Receiver_Rate
  imports Receiver
begin

text \<open>
  The rate limiter of the receiver over a run of requests: what its map does, and the invariant
  that relates the state of one key to the times it was allowed. The invariant holds while the
  map has room for every key and no entry is evicted before its window ends.
\<close>

section \<open>The map\<close>

lemma map_of_filter_value:
  "distinct (map fst m) \<Longrightarrow> map_of (filter (\<lambda>(k, v). P v) m) k = Option.bind (map_of m k) (\<lambda>v. if P v then Some v else None)"
proof (induction m)
  case (Cons e m)
  have "map_of m (fst e) = None" using Cons.prems by (cases e) (simp add: map_of_eq_None_iff)
  then show ?case using Cons by (cases e) (auto simp: Option.bind_eq_None_conv)
qed simp

lemma evictIdle_keys: "fst ` set (evictIdle ttl now m) \<subseteq> fst ` set m"
  by (auto simp: evictIdle_def)

lemma evictIdle_distinct: "distinct (map fst m) \<Longrightarrow> distinct (map fst (evictIdle ttl now m))"
  by (simp add: evictIdle_def distinct_map_filter)

text \<open>The map of a limiter with room for the keys \<open>K\<close>.\<close>

definition room_for :: "string set \<Rightarrow> receiver_config \<Rightarrow> rate_map \<Rightarrow> bool" where
  "room_for K cfg m \<longleftrightarrow>
     finite K \<and> card K \<le> rf_rateMapMaxEntries cfg \<and> distinct (map fst m) \<and> fst ` set m \<subseteq> K"

lemma no_eviction_needed:
  assumes "room_for K cfg m" and "key \<in> K" and "map_of m key = None"
  shows "length m < rf_rateMapMaxEntries cfg"
proof -
  have "key \<notin> fst ` set m" using assms(3) by (simp add: map_of_eq_None_iff)
  then have "fst ` set m \<subset> K" using assms(1,2) by (auto simp: room_for_def)
  then have "card (fst ` set m) < card K" using assms(1) by (simp add: room_for_def psubset_card_mono)
  moreover have "card (fst ` set m) = length m"
    using assms(1) distinct_card [of "map fst m"] by (simp add: room_for_def)
  ultimately show ?thesis using assms(1) by (simp add: room_for_def)
qed

lemma room_evict: "room_for K cfg m \<Longrightarrow> room_for K cfg (evictIdle ttl now m)"
  using evictIdle_keys [of ttl now m] by (auto simp: room_for_def evictIdle_distinct)

lemma room_set: "room_for K cfg m \<Longrightarrow> key \<in> K \<Longrightarrow> room_for K cfg (map_set key v m)"
  by (auto simp: room_for_def map_set_distinct map_set_keys)

lemma insert_room: "room_for K cfg m \<Longrightarrow> key \<in> K \<Longrightarrow>
    insertWithCap (rf_rateMapMaxEntries cfg) key v m = map_set key v m"
  using no_eviction_needed [of K cfg m key] by (auto simp: insertWithCap_def)

lemma room_check:
  assumes "room_for K cfg m" and "key \<in> K"
  shows "room_for K cfg (snd (checkRateLimit cfg now key m))"
  using room_evict [OF assms(1)] assms(2)
  by (auto simp: checkRateLimit_def Let_def insert_room [OF room_evict [OF assms(1)] assms(2)] room_set
      split: option.splits)

text \<open>What is left of a key's entry after the sweep.\<close>

definition kept :: "receiver_config \<Rightarrow> int \<Rightarrow> rate_map \<Rightarrow> string \<Rightarrow> rate_state option" where
  "kept cfg now m k =
     Option.bind (map_of m k)
       (\<lambda>v. if rf_rateMapIdleEvictionMs cfg \<le> 0 \<or> now - rt_lastHitMs v < rf_rateMapIdleEvictionMs cfg
            then Some v else None)"

lemma kept_evict: "room_for K cfg m \<Longrightarrow> map_of (evictIdle (rf_rateMapIdleEvictionMs cfg) now m) k = kept cfg now m k"
  using map_of_filter_value [of m "\<lambda>v. \<not> now - rt_lastHitMs v \<ge> rf_rateMapIdleEvictionMs cfg" k]
  by (cases "map_of m k") (auto simp: kept_def evictIdle_def room_for_def)

text \<open>A call: another key only meets the sweep, the key itself one of four cases.\<close>

lemma check_other:
  assumes "room_for K cfg m" and "key \<in> K" and "k \<noteq> key"
  shows "map_of (snd (checkRateLimit cfg now key m)) k = kept cfg now m k"
  using assms(3)
  by (auto simp: checkRateLimit_def Let_def insert_room [OF room_evict [OF assms(1)] assms(2)]
      kept_evict [OF assms(1)] split: option.splits)

definition fresh_state :: "int \<Rightarrow> rate_state" where
  "fresh_state now = \<lparr>rt_windowStartMs = now, rt_count = 1, rt_lastHitMs = now\<rparr>"

lemma check_own:
  assumes "room_for K cfg m" and "key \<in> K"
  shows "(fst (fst (checkRateLimit cfg now key m)), map_of (snd (checkRateLimit cfg now key m)) key) =
    (case kept cfg now m key of
       None \<Rightarrow> (True, Some (fresh_state now))
     | Some s \<Rightarrow>
         if now - rt_windowStartMs s \<ge> windowMs then (True, Some (fresh_state now))
         else if rt_count s \<ge> rf_rateLimitPerMinute cfg then (False, Some s)
         else (True, Some (s\<lparr>rt_count := rt_count s + 1, rt_lastHitMs := now\<rparr>)))"
  by (auto simp: checkRateLimit_def Let_def insert_room [OF room_evict [OF assms(1)] assms(2)] fresh_state_def
      kept_evict [OF assms(1)] split: option.splits)

section \<open>Counting\<close>

definition hits :: "int \<Rightarrow> int list \<Rightarrow> int" where
  "hits t A = int (length (filter (\<lambda>a. t \<le> a \<and> a < t + windowMs) A))"

definition between :: "int \<Rightarrow> int \<Rightarrow> int list \<Rightarrow> int" where
  "between t u A = int (length (filter (\<lambda>a. t \<le> a \<and> a < u) A))"

lemma between_append: "between t u (A @ [n]) = between t u A + (if t \<le> n \<and> n < u then 1 else 0)"
  by (simp add: between_def)

lemma hits_between: "hits t A = between t (t + windowMs) A"
  by (simp add: hits_def between_def)

lemma between_empty: "(\<And>a. a \<in> set A \<Longrightarrow> \<not> (t \<le> a \<and> a < u)) \<Longrightarrow> between t u A = 0"
  by (auto simp: between_def filter_empty_conv)

lemma between_mono: "(\<And>a. a \<in> set A \<Longrightarrow> t \<le> a \<and> a < u \<Longrightarrow> t' \<le> a \<and> a < u') \<Longrightarrow> between t u A \<le> between t' u' A"
proof (induction A)
  case (Cons a A)
  then have "between t u A \<le> between t' u' A" by simp
  then show ?case using Cons.prems [of a] by (auto simp: between_def)
qed (simp add: between_def)

lemma between_split: "between t u A \<le> between t s A + between s u A"
  by (induction A) (auto simp: between_def)

lemma between_strict:
  assumes "s \<in> set A" and "s < t"
  shows "between t u A < between s (max u (s + 1)) A"
  using assms(1)
proof (induction A)
  case (Cons a A)
  have mono: "between t u A \<le> between s (max u (s + 1)) A" using assms(2) by (intro between_mono) auto
  show ?case
  proof (cases "a = s")
    case True
    then show ?thesis using mono assms(2) by (auto simp: between_def)
  next
    case False
    then show ?thesis using Cons assms(2) by (auto simp: between_def)
  qed
qed simp

section \<open>The invariant\<close>

text \<open>
  \<open>A\<close> are the times the key was allowed. Any window holds at most one less than twice the
  limit; of a present entry, its count is the number of times since its start, and any window
  that reaches before the start has fewer than the limit there.
\<close>

definition rate_inv :: "int \<Rightarrow> int \<Rightarrow> rate_state option \<Rightarrow> int list \<Rightarrow> bool" where
  "rate_inv L now entry A \<longleftrightarrow>
     (\<forall>a \<in> set A. a \<le> now) \<and> (\<forall>t. hits t A \<le> 2 * L - 1) \<and>
     (case entry of
        None \<Rightarrow> \<forall>a \<in> set A. a \<le> now - windowMs
      | Some s \<Rightarrow>
          rt_windowStartMs s \<in> set A \<and> rt_count s \<le> L \<and>
          between (rt_windowStartMs s) (rt_windowStartMs s + windowMs) A = rt_count s \<and>
          (\<forall>a \<in> set A. a < rt_windowStartMs s + windowMs \<and> a \<le> rt_lastHitMs s) \<and>
          (\<forall>t > rt_windowStartMs s - windowMs. between t (rt_windowStartMs s) A < L))"

lemma rate_inv_empty: "1 \<le> L \<Longrightarrow> rate_inv L now None []"
  by (simp add: rate_inv_def hits_def)

text \<open>Time passes, and the sweep drops entries that have been idle for a window.\<close>

lemma rate_inv_kept:
  assumes "rate_inv L now (map_of m k) A" and "now \<le> now'"
    and "rf_rateMapIdleEvictionMs cfg \<le> 0 \<or> windowMs \<le> rf_rateMapIdleEvictionMs cfg"
  shows "rate_inv L now' (kept cfg now' m k) A"
proof (cases "map_of m k")
  case None
  then show ?thesis using assms(1,2) by (auto simp: rate_inv_def kept_def)
next
  case (Some s)
  have up: "a \<le> now'" if "a \<in> set A" for a using that assms(1,2) by (fastforce simp: rate_inv_def)
  show ?thesis
  proof (cases "kept cfg now' m k")
    case None
    then have "rt_lastHitMs s \<le> now' - windowMs" using Some assms(3) by (auto simp: kept_def split: if_splits)
    then have "a \<le> now' - windowMs" if "a \<in> set A" for a
      using assms(1) Some that by (fastforce simp: rate_inv_def)
    then show ?thesis using None assms(1) up by (auto simp: rate_inv_def)
  next
    case (Some s')
    then have "s' = s" using \<open>map_of m k = Some s\<close> by (auto simp: kept_def split: if_splits)
    then show ?thesis using Some assms(1) \<open>map_of m k = Some s\<close> up by (auto simp: rate_inv_def)
  qed
qed

text \<open>A new window.\<close>

lemma rate_inv_fresh:
  assumes inv: "rate_inv L now entry A" and L: "1 \<le> L"
    and old: "case entry of None \<Rightarrow> True | Some s \<Rightarrow> now - rt_windowStartMs s \<ge> windowMs"
  shows "rate_inv L now (Some (fresh_state now)) (A @ [now])"
proof -
  have before: "a < now" if "a \<in> set A" for a
    using inv old that by (cases entry) (fastforce simp: rate_inv_def windowMs_def)+
  have few: "between t now A < L" if t: "now - windowMs < t" for t
  proof (cases entry)
    case None
    then have "between t now A = 0" using inv t by (intro between_empty) (fastforce simp: rate_inv_def)
    then show ?thesis using L by simp
  next
    case (Some s)
    let ?s = "rt_windowStartMs s"
    have s: "?s \<in> set A" "?s < t" "between ?s (?s + windowMs) A \<le> L" "\<forall>a \<in> set A. a < ?s + windowMs"
      using inv old t Some by (auto simp: rate_inv_def)
    have "between t now A < between ?s (max now (?s + 1)) A" by (rule between_strict [OF s(1,2)])
    also have "\<dots> \<le> between ?s (?s + windowMs) A" using s(4) by (intro between_mono) auto
    finally show ?thesis using s(3) by simp
  qed
  have "hits t (A @ [now]) \<le> 2 * L - 1" for t
  proof (cases "t \<le> now \<and> now < t + windowMs")
    case True
    have "between t (t + windowMs) A \<le> between t now A" using before by (intro between_mono) auto
    then show ?thesis using few [of t] True L by (simp add: hits_between between_append)
  next
    case False
    then show ?thesis using inv by (auto simp: hits_between between_append rate_inv_def)
  qed
  moreover have "between now (now + windowMs) A = 0" using before by (intro between_empty) fastforce
  ultimately show ?thesis
    using before few L
    by (fastforce simp: rate_inv_def fresh_state_def between_append windowMs_def intro: less_imp_le)
qed

text \<open>One more call in the window.\<close>

lemma rate_inv_count:
  assumes inv: "rate_inv L now (Some s) A" and "now - rt_windowStartMs s < windowMs" and "rt_count s < L"
  shows "rate_inv L now (Some (s\<lparr>rt_count := rt_count s + 1, rt_lastHitMs := now\<rparr>)) (A @ [now])"
proof -
  let ?s = "rt_windowStartMs s"
  have s: "?s \<in> set A" "between ?s (?s + windowMs) A = rt_count s"
      "\<And>a. a \<in> set A \<Longrightarrow> a \<le> now" "\<And>t. ?s - windowMs < t \<Longrightarrow> between t ?s A < L"
      "\<And>a. a \<in> set A \<Longrightarrow> a < ?s + windowMs" "\<And>t. hits t A \<le> 2 * L - 1"
    using inv by (auto simp: rate_inv_def)
  have "hits t (A @ [now]) \<le> 2 * L - 1" for t
  proof (cases "t \<le> now \<and> now < t + windowMs")
    case True
    have "between t ?s A < L" using s(1,3) True by (intro s(4)) (fastforce simp: windowMs_def)
    moreover have "between ?s (t + windowMs) A \<le> between ?s (?s + windowMs) A"
      using s(5) by (intro between_mono) auto
    ultimately show ?thesis
      using between_split [of t "t + windowMs" A ?s] s(2) assms(3) True by (simp add: hits_between between_append)
  next
    case False
    then show ?thesis using s(6) [of t] by (auto simp: hits_between between_append)
  qed
  moreover have "?s \<le> now" using s(1,3) by blast
  then have "between t ?s (A @ [now]) < L" if "?s - windowMs < t" for t
    using s(4) [OF that] by (simp add: between_append)
  moreover have "between ?s (?s + windowMs) (A @ [now]) = rt_count s + 1"
    using s(2) \<open>?s \<le> now\<close> assms(2) by (simp add: between_append)
  ultimately show ?thesis using assms(2,3) s(1,3,5) by (auto simp: rate_inv_def less_imp_le)
qed

text \<open>One call of the limiter.\<close>

lemma rate_inv_call:
  assumes inv: "rate_inv L now (map_of m k) A" and time: "now \<le> now'" and L: "L = rf_rateLimitPerMinute cfg" "1 \<le> L"
    and ttl: "rf_rateMapIdleEvictionMs cfg \<le> 0 \<or> windowMs \<le> rf_rateMapIdleEvictionMs cfg"
    and room: "room_for K cfg m" and key: "key \<in> K"
  shows "rate_inv L now' (map_of (snd (checkRateLimit cfg now' key m)) k)
    (if k = key \<and> fst (fst (checkRateLimit cfg now' key m)) then A @ [now'] else A)"
proof (cases "k = key")
  case False
  then show ?thesis using check_other [OF room key False] rate_inv_kept [OF inv time ttl] by simp
next
  case True
  have kept: "rate_inv L now' (kept cfg now' m key) A" using rate_inv_kept [OF inv time ttl] True by simp
  note own = check_own [OF room key, of now']
  show ?thesis
  proof (cases "kept cfg now' m key")
    case None
    then show ?thesis using own True rate_inv_fresh [OF kept L(2)] by simp
  next
    case (Some s)
    consider (fresh) "now' - rt_windowStartMs s \<ge> windowMs"
      | (full) "now' - rt_windowStartMs s < windowMs" "rt_count s \<ge> L"
      | (more) "now' - rt_windowStartMs s < windowMs" "rt_count s < L" by linarith
    then show ?thesis
    proof cases
      case fresh
      then show ?thesis using own True Some rate_inv_fresh [OF kept L(2)] by simp
    next
      case full
      then show ?thesis using own True Some kept L(1) by simp
    next
      case more
      then show ?thesis using own True Some kept L(1) rate_inv_count [of L now' s A] by simp
    qed
  qed
qed

end
