(* ===== verification/Receiver_Facts.thy ===== *)
theory Receiver_Facts
  imports Receiver_Rate Commit_Properties
begin

text \<open>
  Facts about the receiver: the registry finds exactly the connection of a scope, the
  environment's numbered entries are read back, a request takes one of four ways through the
  handler, and what the commit of an event stores.
\<close>

section \<open>Keys of connections\<close>

lemma split_at_NUL:
  assumes "a @ NUL # x = b @ NUL # y" and "NUL \<notin> set b" and "NUL \<notin> set a"
  shows "a = b \<and> x = y"
proof -
  have "takeWhile (\<lambda>c. c \<noteq> NUL) (a @ NUL # x) = a" using assms(3)
    by (subst takeWhile_append2) auto
  moreover have "takeWhile (\<lambda>c. c \<noteq> NUL) (b @ NUL # y) = b" using assms(2)
    by (subst takeWhile_append2) auto
  ultimately have "a = b" using assms(1) by simp
  then show ?thesis using assms(1) by simp
qed

text \<open>The parts of a key are determined if one of the two triples is free of the separator.\<close>

lemma keyOf_inj:
  assumes eq: "keyOf o1 p1 c1 = keyOf o2 p2 c2" and free: "NUL \<notin> set o2" "NUL \<notin> set p2" "NUL \<notin> set c2"
  shows "o1 = o2 \<and> p1 = p2 \<and> c1 = c2"
proof -
  have "length (filter (\<lambda>c. c = NUL) (keyOf o1 p1 c1)) = 2"
    unfolding eq using free by (auto simp: keyOf_def filter_empty_conv)
  then have "filter (\<lambda>c. c = NUL) o1 = []" "filter (\<lambda>c. c = NUL) p1 = []" by (simp_all add: keyOf_def)
  then have "NUL \<notin> set o1" "NUL \<notin> set p1" by (auto simp: filter_empty_conv)
  moreover have "o1 @ NUL # (p1 @ NUL # c1) = o2 @ NUL # (p2 @ NUL # c2)" using eq by (simp add: keyOf_def)
  ultimately show ?thesis using split_at_NUL free by metis
qed

lemma opaqueId_no_NUL: "opaqueId n s \<Longrightarrow> NUL \<notin> set s"
proof
  assume "opaqueId n s" "NUL \<in> set s"
  then have "is_alnum NUL \<or> NUL \<in> set ''._:-''" by (intro matches_id_chars) (simp_all add: opaqueId_def)
  then show False by (auto simp: is_alnum_def NUL_def)
qed

lemma provider_no_NUL: "p \<in> set SUPPORTED_PROVIDERS \<Longrightarrow> NUL \<notin> set p"
  by (auto simp: SUPPORTED_PROVIDERS_def NUL_def)

lemma register_Inr:
  "register es m = Inr m' \<Longrightarrow> m' = m @ map (\<lambda>e. (entry_key e, e)) es \<and> (\<forall>e \<in> set es. validateEntryShape e)"
proof (induction es arbitrary: m)
  case (Cons e es)
  then have "validateEntryShape e" "register es (m @ [(entry_key e, e)]) = Inr m'" by (auto split: if_splits)
  then show ?case using Cons.IH [of "m @ [(entry_key e, e)]"] by simp
qed simp

text \<open>The registry answers a scope of the path with its own connection only.\<close>

lemma resolve_exact:
  assumes reg: "new_registry entries = Inr rg" and path: "verifyScopeFromPath a b c = Inr sc"
    and e: "resolve_connection rg sc = Inr e"
  shows "e \<in> set entries \<and> ce_organizationId e = ps_organizationId sc \<and> ce_provider e = ps_provider sc \<and>
    ce_connectionId e = ps_connectionId sc \<and> ce_secret e \<noteq> [] \<and> ce_algorithm e \<in> set ALLOWED_ALGORITHMS"
proof -
  have rg: "rg_map rg = map (\<lambda>e. (entry_key e, e)) entries" "\<forall>e \<in> set entries. validateEntryShape e"
    using reg by (auto simp: new_registry_def split: sum.splits dest: register_Inr)
  have "map_of (rg_map rg) (keyOf (ps_organizationId sc) (ps_provider sc) (ps_connectionId sc)) = Some e"
    using e by (auto simp: resolve_connection_def split: if_splits option.splits)
  from map_of_SomeD [OF this] have "e \<in> set entries"
    and key: "keyOf (ce_organizationId e) (ce_provider e) (ce_connectionId e) =
      keyOf (ps_organizationId sc) (ps_provider sc) (ps_connectionId sc)"
    by (auto simp: rg(1) entry_key_def)
  moreover have "NUL \<notin> set (ps_organizationId sc)" "NUL \<notin> set (ps_provider sc)" "NUL \<notin> set (ps_connectionId sc)"
    using verifyScopeFromPath_Inr [OF path]
    by (simp_all add: OrganizationIdSchema_def ConnectionIdSchema_def opaqueId_no_NUL provider_no_NUL)
  ultimately show ?thesis using keyOf_inj [OF key] rg(2) by (auto simp: validateEntryShape_def)
qed

section \<open>Ways through the handler\<close>

text \<open>The scope a request names and its connection, if the request gets as far as the limiter.\<close>

definition request_scope :: "receiver_config \<Rightarrow> registry \<Rightarrow> webhook_request \<Rightarrow> (path_scope \<times> connection_entry) option" where
  "request_scope cfg rg req =
     (if segment 0 (wq_pathSegments req) = Some ''webhooks'' \<and> wq_method req = ''POST'' \<and> rf_enabled cfg \<and>
         length (wq_body req) \<le> rf_maxBodyBytes cfg then
        (case verifyScopeFromPath (segment 1 (wq_pathSegments req)) (segment 2 (wq_pathSegments req))
                (segment 3 (wq_pathSegments req)) of
           Inl _ \<Rightarrow> None
         | Inr sc \<Rightarrow> (case resolve_connection rg sc of Inl _ \<Rightarrow> None | Inr e \<Rightarrow> Some (sc, e)))
      else None)"

text \<open>A reply of the receiver that is not an acknowledgement.\<close>

definition is_rejection :: "(nat \<times> ack) option \<Rightarrow> bool" where
  "is_rejection reply \<longleftrightarrow> (case reply of None \<Rightarrow> True | Some (status, a) \<Rightarrow> status \<noteq> 202)"

lemma reject_rejection: "status \<noteq> 202 \<Longrightarrow> is_rejection (reject status code retryable)"
  by (simp add: is_rejection_def reject_def)

lemma admit_event_Inl: "admit_event rn req sc e = Inl reply \<Longrightarrow> is_rejection reply"
  by (auto simp: admit_event_def split: sum.splits if_splits intro: reject_rejection)

lemma handleRequest_cases:
  assumes "handleRequest rn cfg rg env req rs = (reply, rs')"
  obtains (early) "request_scope cfg rg req = None" "is_rejection reply" "rs' = rs"
  | (limited) sc e m where "request_scope cfg rg req = Some (sc, e)"
      "fst (fst (checkRateLimit cfg (rv_now env) (rate_key sc) (rs_rateMap rs))) = False"
      "m = snd (checkRateLimit cfg (rv_now env) (rate_key sc) (rs_rateMap rs))"
      "reply = reject 429 ''rate_limit_exceeded'' True" "rs' = rs\<lparr>rs_rateMap := m\<rparr>"
  | (refused) sc e m where "request_scope cfg rg req = Some (sc, e)"
      "fst (fst (checkRateLimit cfg (rv_now env) (rate_key sc) (rs_rateMap rs))) = True"
      "m = snd (checkRateLimit cfg (rv_now env) (rate_key sc) (rs_rateMap rs))"
      "admit_event rn req sc e = Inl reply" "rs' = rs\<lparr>rs_rateMap := m\<rparr>"
  | (admitted) sc e m ev where "request_scope cfg rg req = Some (sc, e)"
      "fst (fst (checkRateLimit cfg (rv_now env) (rate_key sc) (rs_rateMap rs))) = True"
      "m = snd (checkRateLimit cfg (rv_now env) (rate_key sc) (rs_rateMap rs))"
      "admit_event rn req sc e = Inr ev" "fst (commit_event rn env req sc ev (rs_store rs)) = reply"
      "rs' = rs\<lparr>rs_rateMap := m, rs_store := snd (commit_event rn env req sc ev (rs_store rs))\<rparr>"
proof (cases "request_scope cfg rg req")
  case None
  then have "is_rejection reply \<and> rs' = rs"
    using assms
    by (auto simp: handleRequest_def request_scope_def is_rejection_def reject_def
        split: if_splits sum.splits)
  then show thesis using None early by blast
next
  case (Some p)
  obtain sc e where p: "p = (sc, e)" by (cases p)
  let ?c = "checkRateLimit cfg (rv_now env) (rate_key sc) (rs_rateMap rs)"
  have h: "handleRequest rn cfg rg env req rs =
      (if \<not> fst (fst ?c) then (reject 429 ''rate_limit_exceeded'' True, rs\<lparr>rs_rateMap := snd ?c\<rparr>)
       else case admit_event rn req sc e of
         Inl reply \<Rightarrow> (reply, rs\<lparr>rs_rateMap := snd ?c\<rparr>)
       | Inr ev \<Rightarrow> (fst (commit_event rn env req sc ev (rs_store rs)),
           rs\<lparr>rs_rateMap := snd ?c, rs_store := snd (commit_event rn env req sc ev (rs_store rs))\<rparr>))"
    using Some p
    by (auto simp: handleRequest_def request_scope_def Let_def case_prod_unfold split: if_splits sum.splits)
  show thesis
  proof (cases "fst (fst ?c)")
    case False
    then show thesis using h assms Some p by (intro limited [of sc e "snd ?c"]) auto
  next
    case True
    show thesis
    proof (cases "admit_event rn req sc e")
      case (Inl r)
      then show thesis using h assms Some p True by (intro refused [of sc e "snd ?c"]) auto
    next
      case (Inr ev)
      then show thesis using h assms Some p True by (intro admitted [of sc e "snd ?c" ev]) auto
    qed
  qed
qed

text \<open>Who is admitted: the signature is the keyed digest of the body under the pinned secret.\<close>

definition authentic :: "runtime \<Rightarrow> webhook_request \<Rightarrow> path_scope \<Rightarrow> connection_entry \<Rightarrow> bool" where
  "authentic rn req sc e \<longleftrightarrow>
     (case SIGNATURE_HEADER_BY_PROVIDER (ps_provider sc) of None \<Rightarrow> False
      | Some name \<Rightarrow>
          not_null_and (\<lambda>v. hex_bytes (js_trim v) =
              rn_hmac rn (if ce_algorithm e = ''HMAC_SHA256'' then ''sha256'' else ''sha512'') (ce_secret e) (wq_body req))
            (readHeadersLowerCase (wq_headers req) name))"

lemma admit_event_Inr:
  assumes "admit_event rn req sc e = Inr ev"
  shows "authentic rn req sc e \<and> parseProviderFixture (rn_parse rn) (ps_provider sc) (wq_body req) = Inr ev \<and>
    detectBodyScopeSpoof (pe_parsedBody ev) sc = None"
proof -
  obtain alg where "verifyHmacSignature (rn_hmac rn) (wq_body req) (readHeadersLowerCase (wq_headers req))
      (ps_provider sc) (ce_algorithm e) (ce_secret e) = Inr alg"
    and rest: "parseProviderFixture (rn_parse rn) (ps_provider sc) (wq_body req) = Inr ev"
      "detectBodyScopeSpoof (pe_parsedBody ev) sc = None"
    using assms by (auto simp: admit_event_def split: sum.splits if_splits)
  then have "authentic rn req sc e"
    by (auto simp: verifyHmacSignature_def authentic_def Let_def not_null_and_iff
        split: option.splits if_splits elim: truthy.elims)
  then show ?thesis using rest by blast
qed

section \<open>The commit of an event\<close>

lemma stored_commit_Inr:
  "stored_commit now sc p s st = Inr (res, st') \<Longrightarrow>
     commitReceiptWithIntents now sc p s st = Inr (res, st') \<and>
     list_all receipt_storable (drop (length (receipts st)) (receipts st')) \<and>
     list_all intent_storable (drop (length (intents st)) (intents st'))"
  by (auto simp: stored_commit_def split: sum.splits if_splits)

lemma commit_existing_unchanged:
  "commitReceiptWithIntents now sc p s st = Inr (res, st') \<Longrightarrow> \<not> tr_created res \<Longrightarrow> st' = st"
  by (erule commit_cases) auto

lemma recv_payload_simps [simp]:
  "er_payloadDigest (cp_receipt (recv_payload sc ev d corr now)) = d"
  "er_organizationId (cp_receipt (recv_payload sc ev d corr now)) = ps_organizationId sc"
  "cp_intents (recv_payload sc ev d corr now) = [recv_intent sc ev corr now]"
  "er_duplicateKind (cp_receipt (recv_payload sc ev d corr now)) = ''DEDUPE''"
  by (simp_all add: recv_payload_def buildReceiptAndIntents_def)

text \<open>What an answer with 202 says about the store.\<close>

lemma commit_event_accepted:
  assumes "commit_event rn env req sc ev store = (Some (202, a), store')"
  obtains st res st' where "store = Some st" "store' = Some st'"
    "stored_commit (rv_rowNow env) (event_scope sc ev)
       (recv_payload sc ev (rn_sha256 rn (wq_body req))
          (recv_correlation env ev)
          (rv_intentNow env)) st (rv_between env st) = Inr (res, st')"
    "a = Ack_Accepted (tr_receiptId res) (tr_intentIds res) (tr_created res) (rn_sha256 rn (wq_body req))
       (pe_eventIdSource ev)"
  using assms
  by (auto simp: commit_event_def commitWebhookReceipt_def reject_def Let_def computePayloadDigest_def
      split: option.splits sum.splits if_splits)

text \<open>Nothing is written unless a receipt was created.\<close>

lemma commit_event_store:
  assumes "commit_event rn env req sc ev store = (reply, store')"
  shows "(\<exists>k its d src. reply = Some (202, Ack_Accepted k its True d src)) \<or> store' = map_option (rv_between env) store"
proof -
  consider "store = None" | st where "store = Some st" by (cases store) auto
  then show ?thesis
  proof cases
    case 1
    then show ?thesis using assms by (auto simp: commit_event_def)
  next
    case (2 st)
    show ?thesis
    proof (cases "\<exists>a. reply = Some (202, a)")
      case True
      then obtain a where a: "reply = Some (202, a)" by blast
      from assms [unfolded a] show ?thesis
      proof (cases rule: commit_event_accepted)
        case (1 st2 res st')
        then show ?thesis using commit_existing_unchanged stored_commit_Inr a by (cases "tr_created res") fastforce+
      qed
    next
      case False
      then show ?thesis using assms 2
        by (auto simp: commit_event_def Let_def split: sum.splits)
    qed
  qed
qed

end
