(* ===== verification/Receiver_Properties.thy ===== *)
theory Receiver_Properties
  imports Receiver_Facts "HOL-Library.Multiset"
begin

text \<open>
  What the receiver promises: it acknowledges only authentic events that are stored, writes
  nothing otherwise, answers a redelivery with the same receipt and keeps its rate limit up to
  a factor; and what it breaks: forged requests use up the limit of a connection, and an event
  with a long id can never be stored.
\<close>

section \<open>Samples\<close>

definition sample_entry :: connection_entry where
  "sample_entry = \<lparr>ce_organizationId = ''org1'', ce_provider = ''CHATWOOT'', ce_connectionId = ''conn1'',
     ce_secret = ''K'', ce_algorithm = ''HMAC_SHA256''\<rparr>"

definition sample_registry :: registry where
  "sample_registry = \<lparr>rg_map = [(entry_key sample_entry, sample_entry)], rg_configured = True\<rparr>"

definition sample_event_id :: string where
  "sample_event_id = ''event-00000000000000000000000000000000000000000000000000000001''"

definition sample_runtime :: runtime where
  "sample_runtime =
     \<lparr>rn_sha256 = id, rn_hmac = (\<lambda>alg secret body. secret @ take 1 body),
      rn_parse = (\<lambda>b. if b = ''b'' then
          Some (JObj [(''event'', JStr ''message_created''), (''id'', JStr ''event-0001'')])
        else if b = ''c'' then Some (JObj [(''event'', JStr ''message_created''), (''id'', JStr sample_event_id)])
        else None)\<rparr>"

definition sample_receiver_config :: receiver_config where
  "sample_receiver_config =
     \<lparr>rf_maxBodyBytes = 1000, rf_rateLimitPerMinute = 2, rf_enabled = True, rf_rateMapIdleEvictionMs = 300000,
      rf_rateMapMaxEntries = 10\<rparr>"

definition sample_webhook :: "string \<Rightarrow> string \<Rightarrow> webhook_request" where
  "sample_webhook body signature =
     \<lparr>wq_method = ''POST'', wq_pathSegments = [''webhooks'', ''org1'', ''CHATWOOT'', ''conn1''],
      wq_headers = [(''X-Chatwoot-Signature'', One_Value signature)], wq_body = body\<rparr>"

definition sample_env :: "int \<Rightarrow> receiver_env" where
  "sample_env t =
     \<lparr>rv_now = t, rv_correlationNow = 5, rv_intentNow = 5, rv_rowNow = t, rv_between = id\<rparr>"

definition sample_path :: path_scope where
  "sample_path = \<lparr>ps_organizationId = ''org1'', ps_provider = ''CHATWOOT'', ps_connectionId = ''conn1''\<rparr>"

definition new_receiver :: receiver_state where
  "new_receiver = \<lparr>rs_rateMap = [], rs_store = Some empty_store\<rparr>"

lemma sample_registry_new: "new_registry [sample_entry] = Inr sample_registry"
  by code_simp

lemma sample_webhook_scope:
  "request_scope sample_receiver_config sample_registry (sample_webhook ''b'' s) = Some (sample_path, sample_entry)"
  "request_scope sample_receiver_config sample_registry (sample_webhook ''c'' s) = Some (sample_path, sample_entry)"
  by code_simp+

section \<open>Acknowledgements\<close>

lemma request_scope_Some:
  "request_scope cfg rg req = Some (sc, e) \<Longrightarrow>
     verifyScopeFromPath (segment 1 (wq_pathSegments req)) (segment 2 (wq_pathSegments req))
       (segment 3 (wq_pathSegments req)) = Inr sc \<and> resolve_connection rg sc = Inr e"
  by (auto simp: request_scope_def split: if_splits sum.splits)

lemma accepted_cases:
  assumes "handleRequest rn cfg rg env req rs = (Some (202, a), rs')"
  obtains sc e ev st res st' where "request_scope cfg rg req = Some (sc, e)"
    "admit_event rn req sc e = Inr ev" "rs_store rs = Some st" "rs_store rs' = Some st'"
    "stored_commit (rv_rowNow env) (event_scope sc ev)
       (recv_payload sc ev (rn_sha256 rn (wq_body req))
          (recv_correlation env ev)
          (rv_intentNow env)) st (rv_between env st) = Inr (res, st')"
    "a = Ack_Accepted (tr_receiptId res) (tr_intentIds res) (tr_created res) (rn_sha256 rn (wq_body req))
       (pe_eventIdSource ev)"
  using assms
proof (cases rule: handleRequest_cases)
  case (admitted sc e m ev)
  let ?c = "commit_event rn env req sc ev (rs_store rs)"
  have "?c = (Some (202, a), snd ?c)" using admitted(5) by (metis prod.collapse)
  then show thesis
    by (rule commit_event_accepted) (rule that [OF admitted(1,4)], simp_all add: admitted(6))
qed (auto simp: is_rejection_def reject_def dest: admit_event_Inl)

text \<open>C21. An acknowledgement with 202 means that the connection of exactly the path's organization,
  provider and id is registered, that the body carries the keyed digest under the secret and
  algorithm pinned there, and that the answered receipt stands in the store with the scope of
  the event and the digest of the body.\<close>

theorem accepted_webhook_is_durable:
  assumes "new_registry entries = Inr rg"
    and "handleRequest rn cfg rg env req rs = (Some (202, Ack_Accepted k its created d src), rs')"
    and "rs_store rs = Some st" and "extends st (rv_between env st)"
  shows "\<exists>sc e ev st' r. request_scope cfg rg req = Some (sc, e) \<and> e \<in> set entries \<and>
    ce_organizationId e = ps_organizationId sc \<and> ce_provider e = ps_provider sc \<and>
    ce_connectionId e = ps_connectionId sc \<and> authentic rn req sc e \<and>
    parseProviderFixture (rn_parse rn) (ps_provider sc) (wq_body req) = Inr ev \<and>
    rs_store rs' = Some st' \<and> r \<in> set (receipts st') \<and> scope_of r = event_scope sc ev \<and>
    rc_receiptId r = k \<and> rc_payloadDigest r = rn_sha256 rn (wq_body req) \<and> d = rn_sha256 rn (wq_body req)"
  using assms(2)
proof (cases rule: accepted_cases)
  case (1 sc e ev st0 res st')
  have st0: "st0 = st" using 1(3) assms(3) by simp
  note path = request_scope_Some [OF 1(1)]
  from commit_row [OF conjunct1 [OF stored_commit_Inr [OF 1(5)]]] assms(4) st0
  obtain r where "r \<in> set (receipts st')" "scope_of r = event_scope sc ev" "rc_receiptId r = tr_receiptId res"
      "rc_payloadDigest r = rn_sha256 rn (wq_body req)" by auto
  then show ?thesis
    using 1(1,4,6) admit_event_Inr [OF 1(2)]
      resolve_exact [OF assms(1) conjunct1 [OF path] conjunct2 [OF path]] by auto
qed

theorem accepted_webhook_is_durable_witness:
  "\<exists>r. r \<in> set (receipts (the (rs_store (snd (handleRequest sample_runtime sample_receiver_config sample_registry
      (sample_env 5) (sample_webhook ''b'' ''4b62'') new_receiver))))) \<and> rc_payloadDigest r = ''b''"
proof -
  let ?h = "handleRequest sample_runtime sample_receiver_config sample_registry (sample_env 5)
      (sample_webhook ''b'' ''4b62'') new_receiver"
  have "fst ?h = Some (202, Ack_Accepted ''rcpt-org1-event-0001'' [''it-recv-event-0001-5''] True ''b'' Primary)"
    by code_simp
  then have h: "?h = (Some (202, Ack_Accepted ''rcpt-org1-event-0001'' [''it-recv-event-0001-5''] True ''b'' Primary),
      snd ?h)" by (metis prod.collapse)
  from accepted_webhook_is_durable [OF sample_registry_new h, of empty_store]
  show ?thesis by (auto simp: new_receiver_def sample_env_def sample_runtime_def sample_webhook_def)
qed

text \<open>Only the creation of a receipt is written: whatever a request is, unless it is answered
  202 with a new receipt, the store stays as it was, but for what other transactions commit
  meanwhile.\<close>

lemma unacknowledged_webhook_writes_nothing:
  "case handleRequest rn cfg rg env req rs of (reply, rs') \<Rightarrow>
     (\<exists>k its d src. reply = Some (202, Ack_Accepted k its True d src)) \<or>
     rs_store rs' = rs_store rs \<or> rs_store rs' = map_option (rv_between env) (rs_store rs)"
proof -
  obtain reply rs' where h: "handleRequest rn cfg rg env req rs = (reply, rs')" by fastforce
  have "(\<exists>k its d src. reply = Some (202, Ack_Accepted k its True d src)) \<or>
     rs_store rs' = rs_store rs \<or> rs_store rs' = map_option (rv_between env) (rs_store rs)"
    using h
  proof (cases rule: handleRequest_cases)
    case (admitted sc e m ev)
    let ?c = "commit_event rn env req sc ev (rs_store rs)"
    have "?c = (reply, snd ?c)" using admitted(5) by (metis prod.collapse)
    from commit_event_store [OF this] show ?thesis using admitted(6) by auto
  qed auto
  then show ?thesis unfolding h by simp
qed

section \<open>Redelivery\<close>

lemma recv_acceptable:
  assumes "verifyScopeFromPath a b c = Inr sc" and "pe_eventId ev \<noteq> []"
  shows "acceptable (event_scope sc ev) (recv_payload sc ev d corr now)"
proof -
  have "ps_organizationId sc \<noteq> [] \<and> ps_provider sc \<noteq> [] \<and> ps_connectionId sc \<noteq> []"
    using assms(1) by (auto simp: verifyScopeFromPath_def split: option.splits if_splits)
  then show ?thesis using assms(2)
    by (simp add: acceptable_def scope_missing_def event_scope_def recv_intent_def)
qed

text \<open>A stored event is answered with its receipt, or refused on another digest.\<close>

lemma commit_event_again:
  assumes path: "verifyScopeFromPath a b c = Inr sc" and ev: "pe_eventId ev \<noteq> []"
    and ok: "scopes_ok (rv_between env st)" "extends st (rv_between env st)"
    and row: "row \<in> set (receipts (rv_between env st))" "scope_of row = event_scope sc ev"
  shows "\<exists>its. commit_event rn env req sc ev (Some st) =
    (if rc_payloadDigest row = rn_sha256 rn (wq_body req) then
       Some (202, Ack_Accepted (rc_receiptId row) its False (rn_sha256 rn (wq_body req)) (pe_eventIdSource ev))
     else reject 409 ''idempotency_conflict'' False, Some (rv_between env st))"
proof -
  let ?corr = "recv_correlation env ev"
  let ?p = "recv_payload sc ev (rn_sha256 rn (wq_body req)) ?corr (rv_intentNow env)"
  from commit_existing [OF recv_acceptable [OF path ev, where d = "rn_sha256 rn (wq_body req)" and corr = ?corr
        and now = "rv_intentNow env"] ok(1) row ok(2), where now = "rv_rowNow env"]
  obtain row' where row': "receipt_core row' = receipt_core row"
    and c: "commitReceiptWithIntents (rv_rowNow env) (event_scope sc ev) ?p st (rv_between env st) =
      existing_receipt (sc_organizationId (event_scope sc ev)) (er_payloadDigest (cp_receipt ?p)) row' (rv_between env st)"
    by blast
  have same: "rc_payloadDigest row' = rc_payloadDigest row" "rc_receiptId row' = rc_receiptId row"
    using row' by (simp_all add: receipt_core_def)
  show ?thesis
    by (auto simp: commit_event_def commitWebhookReceipt_def stored_commit_def c existing_receipt_def same Let_def
        computePayloadDigest_def dedupe_code_def storeError_def)
qed

text \<open>C22. An acknowledged event is answered for ever with its receipt: the same request, delivered
  again after any further run of the store, is answered 202 with the same receipt and digest
  as not created, or turned away by the rate limit; in both cases it writes nothing. A request
  with the same event and another body is refused with 409 if it is authentic and within the
  limit.\<close>

theorem redelivered_webhook:
  assumes "reachable st issued" and "store_reaches (st, issued) (rv_between env st, issued1)"
    and "rs_store rs = Some st"
    and "handleRequest rn cfg rg env req rs = (Some (202, Ack_Accepted k its created d src), rs')"
    and "rs_store rs' = Some st'" and "store_reaches (st', issued1) (st2, issued2)"
    and "rs_store rs2 = Some st2" and "store_reaches (st2, issued2) (rv_between env2 st2, issued3)"
    and "request_scope cfg rg req = Some (sc, e)" and "admit_event rn req sc e = Inr ev"
    and "request_scope cfg rg req2 = Some (sc, e)" and "admit_event rn req2 sc e = Inr ev2"
    and "pe_eventId ev2 = pe_eventId ev"
    and "handleRequest rn cfg rg env2 req2 rs2 = (reply, rs3)"
  shows "(reply = reject 429 ''rate_limit_exceeded'' True \<and> rs_store rs3 = Some st2) \<or>
    (rs_store rs3 = Some (rv_between env2 st2) \<and>
     (if rn_sha256 rn (wq_body req2) = rn_sha256 rn (wq_body req)
      then \<exists>its2. reply = Some (202, Ack_Accepted k its2 False d (pe_eventIdSource ev2))
      else reply = reject 409 ''idempotency_conflict'' False))"
proof -
  let ?u = "rv_between env st" and ?v = "rv_between env2 st2"
  from assms(4) obtain res where c: "commitReceiptWithIntents (rv_rowNow env) (event_scope sc ev)
        (recv_payload sc ev (rn_sha256 rn (wq_body req))
          (recv_correlation env ev)
          (rv_intentNow env)) st ?u = Inr (res, st')"
      and k: "k = tr_receiptId res" "d = rn_sha256 rn (wq_body req)"
    by (rule accepted_cases) (use assms(3,5,9,10) in \<open>auto dest!: stored_commit_Inr\<close>)
  obtain row where row: "row \<in> set (receipts st')" "scope_of row = event_scope sc ev" "rc_receiptId row = k"
      "rc_payloadDigest row = d"
    using commit_row [OF c run_extends [OF assms(2)]] k by auto
  have to_v: "store_reaches (st', issued1) (?v, issued3)" by (rule store_reaches_trans [OF assms(8,6)])
  have "scopes_ok ?u" using store_reaches_trans [OF assms(2) assms(1) [unfolded reachable_def]]
    by (intro reachable_scopes) (simp add: reachable_def)
  then have "scopes_ok st'" by (rule commit_scopes [OF c])
  then have scopes: "scopes_ok ?v"
    by (rule store_reaches_invariant [OF to_v, where P = "\<lambda>s _. scopes_ok s"]) (rule run_op_scopes)
  obtain row2 where row2: "row2 \<in> set (receipts ?v)" "receipt_core row2 = receipt_core row"
    using extends_receipt [OF run_extends [OF to_v] row(1)] by blast
  have core: "scope_of row2 = event_scope sc ev2" "rc_receiptId row2 = k" "rc_payloadDigest row2 = d"
    using row2(2) row(2-4) assms(13) by (simp_all add: receipt_core_def event_scope_def)
  have ev2: "pe_eventId ev2 \<noteq> []"
    using admit_event_Inr [OF assms(12)] parseProviderFixture_Some by blast
  from commit_event_again [OF conjunct1 [OF request_scope_Some [OF assms(11)]] ev2 scopes run_extends [OF assms(8)]
      row2(1) core(1), of rn req2]
  obtain its2 where again: "commit_event rn env2 req2 sc ev2 (Some st2) =
    (if rc_payloadDigest row2 = rn_sha256 rn (wq_body req2) then
       Some (202, Ack_Accepted (rc_receiptId row2) its2 False (rn_sha256 rn (wq_body req2)) (pe_eventIdSource ev2))
     else reject 409 ''idempotency_conflict'' False, Some ?v)" by blast
  from assms(14) show ?thesis
  proof (cases rule: handleRequest_cases)
    case (limited sc' e' m)
    then show ?thesis using assms(7) by simp
  next
    case (admitted sc' e' m ev')
    then show ?thesis using assms(7,11,12) again core k by auto
  qed (use assms(11,12) in auto)
qed

theorem redelivered_webhook_witness:
  "\<exists>its2. fst (handleRequest sample_runtime sample_receiver_config sample_registry (sample_env 70000)
      (sample_webhook ''b'' ''4b62'') (snd (handleRequest sample_runtime sample_receiver_config sample_registry
        (sample_env 5) (sample_webhook ''b'' ''4b62'') new_receiver))) =
    Some (202, Ack_Accepted ''rcpt-org1-event-0001'' its2 False ''b'' Primary)"
proof -
  let ?req = "sample_webhook ''b'' ''4b62''"
  let ?h = "handleRequest sample_runtime sample_receiver_config sample_registry (sample_env 5) ?req new_receiver"
  let ?st = "the (rs_store (snd ?h))"
  let ?h2 = "handleRequest sample_runtime sample_receiver_config sample_registry (sample_env 70000) ?req (snd ?h)"
  have "fst ?h = Some (202, Ack_Accepted ''rcpt-org1-event-0001'' [''it-recv-event-0001-5''] True ''b'' Primary)"
    and stored: "rs_store (snd ?h) = Some ?st" and not_limited: "map_option fst (fst ?h2) = Some 202"
    by code_simp+
  then have h: "?h = (Some (202, Ack_Accepted ''rcpt-org1-event-0001'' [''it-recv-event-0001-5''] True ''b'' Primary),
      snd ?h)" by (metis prod.collapse)
  have quiet: "store_reaches (st, {}) (rv_between (sample_env t) st, {})" for st t
    by (simp add: sample_env_def store_reaches.intros)
  obtain ev where ev: "admit_event sample_runtime ?req sample_path sample_entry = Inr ev" "pe_eventIdSource ev = Primary"
  proof -
    have "case admit_event sample_runtime ?req sample_path sample_entry of Inl _ \<Rightarrow> False
        | Inr ev \<Rightarrow> pe_eventIdSource ev = Primary" by code_simp
    then show thesis using that by (auto split: sum.splits)
  qed
  have empty: "rs_store new_receiver = Some empty_store" by (simp add: new_receiver_def)
  obtain reply rs3 where h2: "?h2 = (reply, rs3)" by (cases ?h2)
  from redelivered_webhook [OF reachable_empty quiet empty h stored store_reaches.reach_refl stored quiet
      sample_webhook_scope(1) ev(1) sample_webhook_scope(1) ev(1) refl h2]
  have "reply = reject 429 ''rate_limit_exceeded'' True \<or>
      (\<exists>its2. reply = Some (202, Ack_Accepted ''rcpt-org1-event-0001'' its2 False ''b'' Primary))"
    unfolding ev(2) if_P [OF refl] by blast
  moreover have "map_option fst reply = Some 202" using not_limited unfolding h2 by simp
  ultimately show ?thesis unfolding h2 by (auto simp: reject_def)
qed

section \<open>The rate limit\<close>

text \<open>The keys of the registered connections.\<close>

definition entry_rate_key :: "connection_entry \<Rightarrow> string" where
  "entry_rate_key e = rate_key \<lparr>ps_organizationId = ce_organizationId e, ps_provider = ce_provider e,
     ps_connectionId = ce_connectionId e\<rparr>"

text \<open>The requests of a run that were acknowledged for a key in the minute from \<open>t\<close> on.\<close>

definition acknowledged_in ::
  "receiver_config \<Rightarrow> registry \<Rightarrow> string \<Rightarrow> int \<Rightarrow> (receiver_env \<times> webhook_request) list \<Rightarrow>
   (nat \<times> ack) option list \<Rightarrow> nat" where
  "acknowledged_in cfg rg key t reqs replies =
     length (filter (\<lambda>((env, req), reply).
         map_option (rate_key \<circ> fst) (request_scope cfg rg req) = Some key \<and> map_option fst reply = Some 202 \<and>
         t \<le> rv_now env \<and> rv_now env < t + windowMs) (zip reqs replies))"

text \<open>Acknowledged times are times the limiter allowed.\<close>

lemma run_rate_bound:
  assumes reg: "new_registry entries = Inr rg" and K: "K = entry_rate_key ` set entries"
    and L: "1 \<le> rf_rateLimitPerMinute cfg"
    and ttl: "rf_rateMapIdleEvictionMs cfg \<le> 0 \<or> windowMs \<le> rf_rateMapIdleEvictionMs cfg"
    and run: "run_receiver rn cfg rg reqs rs = (replies, rs')"
    and sorted: "sorted (now # map (\<lambda>x. rv_now (fst x)) reqs)"
    and room: "room_for K cfg (rs_rateMap rs)"
    and inv: "rate_inv (rf_rateLimitPerMinute cfg) now (map_of (rs_rateMap rs) key) A"
  shows "\<exists>B. (\<forall>t. int (acknowledged_in cfg rg key t reqs replies) \<le> hits t B) \<and>
    (\<forall>t. hits t (A @ B) \<le> 2 * rf_rateLimitPerMinute cfg - 1)"
  using run sorted room inv
proof (induction reqs arbitrary: rs replies now A)
  case Nil
  then have "acknowledged_in cfg rg key t [] replies = 0" for t by (simp add: acknowledged_in_def)
  then show ?case using Nil.prems(4) by (intro exI [of _ "[]"]) (simp add: rate_inv_def hits_def)
next
  case (Cons er reqs)
  obtain env req where er: "er = (env, req)" by (cases er)
  obtain reply rs1 replies1 where h: "handleRequest rn cfg rg env req rs = (reply, rs1)"
    and rest: "run_receiver rn cfg rg reqs rs1 = (replies1, rs')" and replies: "replies = reply # replies1"
    using Cons.prems(1) unfolding er by (auto simp: Let_def split: prod.splits)
  have sorted1: "sorted (rv_now env # map (\<lambda>x. rv_now (fst x)) reqs)" and now: "now \<le> rv_now env"
    using Cons.prems(2) unfolding er by auto
  have step: ?case
    if sc: "request_scope cfg rg req = Some (sc, e)"
      and m: "rs_rateMap rs1 = snd (checkRateLimit cfg (rv_now env) (rate_key sc) (rs_rateMap rs))"
      and all: "map_option fst reply = Some 202 \<longrightarrow> fst (fst (checkRateLimit cfg (rv_now env) (rate_key sc) (rs_rateMap rs)))"
    for sc e
  proof -
    note path = request_scope_Some [OF sc]
    have "e \<in> set entries" "rate_key sc = entry_rate_key e"
      using resolve_exact [OF reg conjunct1 [OF path] conjunct2 [OF path]]
      by (auto simp: entry_rate_key_def rate_key_def)
    then have in_K: "rate_key sc \<in> K" by (simp add: K)
    let ?now = "rv_now env" and ?allowed = "fst (fst (checkRateLimit cfg (rv_now env) (rate_key sc) (rs_rateMap rs)))"
    let ?new = "if key = rate_key sc \<and> ?allowed then [?now] else []"
    have "rate_inv (rf_rateLimitPerMinute cfg) ?now (map_of (rs_rateMap rs1) key) (A @ ?new)"
      using rate_inv_call [OF Cons.prems(4) now refl L ttl Cons.prems(3) in_K] m
      by (cases "key = rate_key sc \<and> ?allowed") (simp_all add: if_P if_not_P del: not_all)
    moreover have "room_for K cfg (rs_rateMap rs1)" using room_check [OF Cons.prems(3) in_K] m by simp
    ultimately obtain B where B: "\<And>t. int (acknowledged_in cfg rg key t reqs replies1) \<le> hits t B"
        "\<And>t. hits t ((A @ ?new) @ B) \<le> 2 * rf_rateLimitPerMinute cfg - 1"
      using Cons.IH [OF rest sorted1] by blast
    have "int (acknowledged_in cfg rg key t (er # reqs) replies) \<le> hits t (?new @ B)" for t
      using B(1) [of t] all sc unfolding er replies by (auto simp: acknowledged_in_def hits_def)
    then show ?thesis using B(2) by (intro exI [of _ "?new @ B"]) simp
  qed
  from h show ?case
  proof (cases rule: handleRequest_cases)
    case early
    have "sorted (now # map (\<lambda>x. rv_now (fst x)) reqs)" using sorted1 now by auto
    from Cons.IH [OF rest this] Cons.prems(3,4) early(3)
    have "\<exists>B. (\<forall>t. int (acknowledged_in cfg rg key t reqs replies1) \<le> hits t B) \<and>
      (\<forall>t. hits t (A @ B) \<le> 2 * rf_rateLimitPerMinute cfg - 1)" by simp
    moreover have "acknowledged_in cfg rg key t (er # reqs) replies = acknowledged_in cfg rg key t reqs replies1" for t
      using early(1) unfolding er replies by (simp add: acknowledged_in_def)
    ultimately show ?thesis by simp
  next
    case (limited sc e m)
    show ?thesis by (rule step [OF limited(1)]) (simp_all add: limited reject_def)
  next
    case (refused sc e m)
    show ?thesis by (rule step [OF refused(1)]) (simp_all add: refused)
  next
    case (admitted sc e m ev)
    show ?thesis by (rule step [OF admitted(1)]) (simp_all add: admitted)
  qed
qed

text \<open>C23. The rate limit holds up to a factor: while the limiter has room for every registered
  connection and no idle eviction within a minute, in no minute of any run of requests more
  than twice the limit less one of one connection are acknowledged. The bound is reached: the
  windows are fixed, so a full window can follow the end of the one before.\<close>

theorem acknowledgements_per_minute:
  assumes "new_registry entries = Inr rg" and "card (entry_rate_key ` set entries) \<le> rf_rateMapMaxEntries cfg"
    and "1 \<le> rf_rateLimitPerMinute cfg"
    and "rf_rateMapIdleEvictionMs cfg \<le> 0 \<or> windowMs \<le> rf_rateMapIdleEvictionMs cfg"
    and "sorted (map (\<lambda>x. rv_now (fst x)) reqs)" and "rs_rateMap rs = []"
    and "run_receiver rn cfg rg reqs rs = (replies, rs')"
  shows "int (acknowledged_in cfg rg key t reqs replies) \<le> 2 * rf_rateLimitPerMinute cfg - 1"
proof -
  let ?now = "case reqs of [] \<Rightarrow> 0 | x # _ \<Rightarrow> rv_now (fst x)"
  have "sorted (?now # map (\<lambda>x. rv_now (fst x)) reqs)" using assms(5) by (cases reqs) auto
  moreover have "room_for (entry_rate_key ` set entries) cfg (rs_rateMap rs)"
    using assms(2,6) by (simp add: room_for_def)
  moreover have "rate_inv (rf_rateLimitPerMinute cfg) ?now (map_of (rs_rateMap rs) key) []"
    using rate_inv_empty [OF assms(3)] assms(6) by simp
  ultimately obtain B where B: "\<And>t. int (acknowledged_in cfg rg key t reqs replies) \<le> hits t B"
      "\<And>t. hits t ([] @ B) \<le> 2 * rf_rateLimitPerMinute cfg - 1"
    using run_rate_bound [OF assms(1) refl assms(3,4,7)] by blast
  have "int (acknowledged_in cfg rg key t reqs replies) \<le> hits t B" by (rule B(1))
  also have "\<dots> \<le> 2 * rf_rateLimitPerMinute cfg - 1" using B(2) [of t] by simp
  finally show ?thesis .
qed

text \<open>Five deliveries of one event: the last of the first window and two of the next.\<close>

definition sample_deliveries :: "(receiver_env \<times> webhook_request) list" where
  "sample_deliveries = map (\<lambda>t. (sample_env t, sample_webhook ''b'' ''4b62'')) [5, 60004, 60005, 60006, 60007]"

theorem acknowledgements_per_minute_witness:
  "acknowledged_in sample_receiver_config sample_registry (rate_key sample_path) 60004 sample_deliveries
     (fst (run_receiver sample_runtime sample_receiver_config sample_registry sample_deliveries new_receiver)) = 3 \<and>
   int (acknowledged_in sample_receiver_config sample_registry (rate_key sample_path) 60004 sample_deliveries
     (fst (run_receiver sample_runtime sample_receiver_config sample_registry sample_deliveries new_receiver))) \<le> 2 * 2 - 1"
proof
  show "acknowledged_in sample_receiver_config sample_registry (rate_key sample_path) 60004 sample_deliveries
     (fst (run_receiver sample_runtime sample_receiver_config sample_registry sample_deliveries new_receiver)) = 3"
    by code_simp
  have "sorted (map (\<lambda>x. rv_now (fst x)) sample_deliveries)" by (simp add: sample_deliveries_def sample_env_def)
  from acknowledgements_per_minute [OF sample_registry_new _ _ _ this _ prod.collapse [symmetric],
      of sample_receiver_config new_receiver]
  show "int (acknowledged_in sample_receiver_config sample_registry (rate_key sample_path) 60004 sample_deliveries
     (fst (run_receiver sample_runtime sample_receiver_config sample_registry sample_deliveries new_receiver))) \<le> 2 * 2 - 1"
    by (simp add: sample_receiver_config_def new_receiver_def windowMs_def)
qed

section \<open>Forged requests\<close>

lemma evict_kept:
  "map_of m k = Some v \<Longrightarrow> ttl \<le> 0 \<or> now - rt_lastHitMs v < ttl \<Longrightarrow> map_of (evictIdle ttl now m) k = Some v"
proof (induction m)
  case (Cons x m)
  then show ?case by (cases x) (auto simp: evictIdle_def split: if_splits)
qed simp

lemma evict_none: "map_of m k = None \<Longrightarrow> map_of (evictIdle ttl now m) k = None"
  by (auto simp: evictIdle_def map_of_eq_None_iff)

lemma insert_own [simp]: "map_of (insertWithCap n key v m) key = Some v"
  by (simp add: insertWithCap_def)

text \<open>The state of the key after \<open>n\<close> requests at one time.\<close>

definition used_up :: "int \<Rightarrow> int \<Rightarrow> rate_state option" where
  "used_up t n = (if n = 0 then None else Some \<lparr>rt_windowStartMs = t, rt_count = n, rt_lastHitMs = t\<rparr>)"

lemma check_used:
  assumes "map_of m key = used_up t n" and "0 \<le> n" and "n < rf_rateLimitPerMinute cfg"
  shows "map_of (snd (checkRateLimit cfg t key m)) key = used_up t (n + 1) \<and> fst (fst (checkRateLimit cfg t key m))"
proof (cases "n = 0")
  case True
  then show ?thesis using assms evict_none [of m key] by (simp add: used_up_def checkRateLimit_def Let_def)
next
  case False
  then have "map_of (evictIdle (rf_rateMapIdleEvictionMs cfg) t m) key =
      Some \<lparr>rt_windowStartMs = t, rt_count = n, rt_lastHitMs = t\<rparr>"
    using assms(1) by (intro evict_kept) (auto simp: used_up_def)
  then show ?thesis using assms(2,3) False by (simp add: used_up_def checkRateLimit_def Let_def windowMs_def)
qed

lemma not_authentic_refused: "\<not> authentic rn req sc e \<Longrightarrow> \<exists>reply. admit_event rn req sc e = Inl reply"
  by (cases "admit_event rn req sc e") (auto dest: admit_event_Inr)

lemma forged_run:
  assumes sc: "request_scope cfg rg forged = Some (sc, e)" and "\<not> authentic rn forged sc e"
    and "\<forall>env \<in> set envs. rv_now env = t" and "map_of (rs_rateMap rs) (rate_key sc) = used_up t n"
    and "0 \<le> n" and "n + int (length envs) \<le> rf_rateLimitPerMinute cfg"
  shows "let rs' = snd (run_receiver rn cfg rg (map (\<lambda>v. (v, forged)) envs) rs)
    in map_of (rs_rateMap rs') (rate_key sc) = used_up t (n + int (length envs)) \<and> rs_store rs' = rs_store rs"
  using assms(3-6)
proof (induction envs arbitrary: rs n)
  case (Cons env envs)
  obtain reply rs1 where h: "handleRequest rn cfg rg env forged rs = (reply, rs1)" by fastforce
  obtain r where r: "admit_event rn forged sc e = Inl r" using not_authentic_refused [OF assms(2)] by blast
  have used: "map_of (snd (checkRateLimit cfg t (rate_key sc) (rs_rateMap rs))) (rate_key sc) = used_up t (n + 1)"
      "fst (fst (checkRateLimit cfg t (rate_key sc) (rs_rateMap rs)))"
    using check_used [OF Cons.prems(2,3)] Cons.prems(4) by auto
  have "rs1 = rs\<lparr>rs_rateMap := snd (checkRateLimit cfg t (rate_key sc) (rs_rateMap rs))\<rparr>"
    using h by (cases rule: handleRequest_cases) (use sc r used(2) Cons.prems(1) in auto)
  then show ?case
    using Cons.IH [of rs1 "n + 1"] Cons.prems used(1) h by (simp add: Let_def case_prod_unfold algebra_simps)
qed simp

text \<open>Whoever knows the path of a connection can cut it off: as many forged requests as the limit,
  without any valid signature, use up the minute, so that every genuine event of the
  connection in that minute is turned away; the rate is counted before the signature is checked.\<close>

lemma forged_webhooks_block_connection:
  assumes "request_scope cfg rg forged = Some (sc, e)" and "\<not> authentic rn forged sc e"
    and "\<forall>env \<in> set envs. rv_now env = t" and "map_of (rs_rateMap rs) (rate_key sc) = None"
    and "1 \<le> rf_rateLimitPerMinute cfg" and "int (length envs) = rf_rateLimitPerMinute cfg"
    and "request_scope cfg rg genuine = Some (sc, e)" and "t \<le> rv_now env" and "rv_now env < t + windowMs"
    and "rf_rateMapIdleEvictionMs cfg \<le> 0 \<or> rv_now env - t < rf_rateMapIdleEvictionMs cfg"
  shows "fst (handleRequest rn cfg rg env genuine (snd (run_receiver rn cfg rg (map (\<lambda>v. (v, forged)) envs) rs))) =
    reject 429 ''rate_limit_exceeded'' True"
proof -
  let ?rs = "snd (run_receiver rn cfg rg (map (\<lambda>v. (v, forged)) envs) rs)"
  let ?L = "rf_rateLimitPerMinute cfg"
  have "map_of (rs_rateMap ?rs) (rate_key sc) = used_up t ?L"
    using forged_run [OF assms(1-3), of rs 0] assms(4,6) by (simp add: used_up_def Let_def)
  then have "map_of (evictIdle (rf_rateMapIdleEvictionMs cfg) (rv_now env) (rs_rateMap ?rs)) (rate_key sc) =
      Some \<lparr>rt_windowStartMs = t, rt_count = ?L, rt_lastHitMs = t\<rparr>"
    using assms(5,10) by (intro evict_kept) (auto simp: used_up_def)
  then have blocked: "\<not> fst (fst (checkRateLimit cfg (rv_now env) (rate_key sc) (rs_rateMap ?rs)))"
    using assms(9) by (simp add: checkRateLimit_def Let_def)
  obtain reply rs' where h: "handleRequest rn cfg rg env genuine ?rs = (reply, rs')" by fastforce
  then have "reply = reject 429 ''rate_limit_exceeded'' True"
    by (cases rule: handleRequest_cases) (use assms(7) blocked in auto)
  then show ?thesis unfolding h by simp
qed

section \<open>Long event ids\<close>

lemma long_event_refused:
  assumes path: "verifyScopeFromPath a b c = Inr sc" and ev: "59 < length (pe_eventId ev)"
    and new: "\<forall>r \<in> set (receipts st) \<union> set (receipts (rv_between env st)). scope_of r \<noteq> event_scope sc ev"
  shows "commit_event rn env req sc ev (Some st) = (reject 503 ''store_unavailable'' True, Some (rv_between env st))"
proof -
  let ?p = "recv_payload sc ev (rn_sha256 rn (wq_body req)) (recv_correlation env ev) (rv_intentNow env)"
  let ?c = "commitReceiptWithIntents (rv_rowNow env) (event_scope sc ev) ?p st (rv_between env st)"
  have none: "find (in_scope (event_scope sc ev)) (receipts s) = None" if "s = st \<or> s = rv_between env st" for s
    using that new by (auto simp: find_None_iff in_scope_iff)
  have ps: "ps_organizationId sc \<noteq> [] \<and> ps_provider sc \<noteq> [] \<and> ps_connectionId sc \<noteq> []"
    using path by (auto simp: verifyScopeFromPath_def split: option.splits if_splits)
  have code: "dedupe_code (Commit_Failed f) = ''commit_failure''" if f: "?c = Inl f" for f
    using f ps ev none
    by (auto simp: commitReceiptWithIntents_def Let_def scope_missing_def event_scope_def recv_intent_def
        dedupe_code_def storeError_def split: if_splits sum.splits elim!: create_intents.elims)
  have long: "\<not> intent_storable (buildPersistedIntent now k (recv_intent sc ev corr t))" for now k corr t
    using ev by (simp add: intent_storable_def buildPersistedIntent_def recv_intent_def fits_column_def)
  have refused: "stored_commit (rv_rowNow env) (event_scope sc ev) ?p st (rv_between env st) = Inl Column_Refused"
    if ok: "?c = Inr (res, st')" for res st'
    using ok
  proof (cases rule: commit_cases)
    case (existing row)
    then show ?thesis using new by auto
  next
    case (created dk)
    have "intents st' = intents (rv_between env st) @
        [buildPersistedIntent (rv_rowNow env) (tr_receiptId res) (recv_intent sc ev (recv_correlation env ev) (rv_intentNow env))]"
      using create_intents_result [OF created(6)] by simp
    then show ?thesis using ok long by (simp add: stored_commit_def)
  qed
  show ?thesis
  proof (cases ?c)
    case (Inl f)
    then show ?thesis using code [OF Inl]
      by (simp add: commit_event_def commitWebhookReceipt_def stored_commit_def computePayloadDigest_def Let_def)
  next
    case (Inr x)
    obtain res st' where "x = (res, st')" by (cases x)
    then show ?thesis using refused [of res st'] Inr
      by (simp add: commit_event_def commitWebhookReceipt_def computePayloadDigest_def Let_def dedupe_code_def)
  qed
qed

text \<open>C24. An event whose id has more than 59 characters can never be received: its intent source is
  longer than its column, so however often it is delivered, admitted and within the limit, it
  is answered 503 as retryable and nothing is stored.\<close>

theorem long_event_id_never_received:
  assumes "request_scope cfg rg req = Some (sc, e)" and "admit_event rn req sc e = Inr ev"
    and "59 < length (pe_eventId ev)" and "rs_store rs = Some st"
    and "\<forall>r \<in> set (receipts st) \<union> set (receipts (rv_between env st)). scope_of r \<noteq> event_scope sc ev"
    and "handleRequest rn cfg rg env req rs = (reply, rs')"
  shows "(reply = reject 503 ''store_unavailable'' True \<and> rs_store rs' = Some (rv_between env st)) \<or>
    (reply = reject 429 ''rate_limit_exceeded'' True \<and> rs_store rs' = Some st)"
  using assms(6)
proof (cases rule: handleRequest_cases)
  case (admitted sc' e' m ev')
  have "sc' = sc" "ev' = ev" using admitted(1,4) assms(1,2) by auto
  then show ?thesis
    using admitted(5,6) assms(4)
      long_event_refused [OF conjunct1 [OF request_scope_Some [OF assms(1)]] assms(3,5), of rn req] by simp
qed (use assms(1,2,4) in auto)

theorem long_event_id_never_received_witness:
  "map_option fst (fst (handleRequest sample_runtime sample_receiver_config sample_registry (sample_env 5)
     (sample_webhook ''c'' ''4b63'') new_receiver)) \<in> {Some 503, Some 429}"
proof -
  let ?req = "sample_webhook ''c'' ''4b63''"
  obtain ev where ev: "admit_event sample_runtime ?req sample_path sample_entry = Inr ev" "59 < length (pe_eventId ev)"
  proof -
    have "case admit_event sample_runtime ?req sample_path sample_entry of Inl _ \<Rightarrow> False
        | Inr ev \<Rightarrow> 59 < length (pe_eventId ev)" by code_simp
    then show thesis using that by (auto split: sum.splits)
  qed
  obtain reply rs' where h: "handleRequest sample_runtime sample_receiver_config sample_registry (sample_env 5)
      ?req new_receiver = (reply, rs')" by fastforce
  from long_event_id_never_received [OF sample_webhook_scope(2) ev _ _ h, of empty_store]
  have "reply = reject 503 ''store_unavailable'' True \<or> reply = reject 429 ''rate_limit_exceeded'' True"
    by (auto simp: new_receiver_def sample_env_def empty_store_def)
  then show ?thesis unfolding h by (auto simp: reject_def)
qed

section \<open>The registry in the environment\<close>

definition pipe_text :: "connection_entry \<Rightarrow> string" where
  "pipe_text e = ce_organizationId e @ ''|'' @ ce_provider e @ ''|'' @ ce_connectionId e @ ''|'' @ ce_algorithm e @
     ''|'' @ ce_secret e"

text \<open>The numbered variables of a list of connections.\<close>

definition numbered_env :: "connection_entry list \<Rightarrow> (string \<times> string) list" where
  "numbered_env es = map (\<lambda>(n, e). (numbered_prefix @ digits n, pipe_text e)) (enumerate 0 es)"

definition pipe_free :: "connection_entry \<Rightarrow> bool" where
  "pipe_free e \<longleftrightarrow>
     CHR ''|'' \<notin> set (ce_organizationId e) \<and> CHR ''|'' \<notin> set (ce_connectionId e) \<and> CHR ''|'' \<notin> set (ce_secret e)"

lemma pipe_text_read:
  assumes "validateEntryShape e" and "pipe_free e"
  shows "pipe_entry (split_on (CHR ''|'') (pipe_text e)) = Inr e"
proof -
  have "CHR ''|'' \<notin> set (ce_provider e)" "CHR ''|'' \<notin> set (ce_algorithm e)"
    using assms(1) by (auto simp: validateEntryShape_def SUPPORTED_PROVIDERS_def ALLOWED_ALGORITHMS_def)
  then have "split_on (CHR ''|'') (pipe_text e) =
      [ce_organizationId e, ce_provider e, ce_connectionId e, ce_algorithm e, ce_secret e]"
    using assms(2) by (simp add: pipe_text_def pipe_free_def split_on_sep split_on_free)
  then show ?thesis using assms(1)
    by (auto simp: parseEntry_def validateEntryShape_def ALLOWED_ALGORITHMS_def)
qed

lemma numbered_key_digits: "numbered_key (numbered_prefix @ digits n)"
  using digits_head [of n] digits_are_digits [of _ n] by (auto simp: numbered_key_def list_all_iff)

lemma key_number_digits: "key_number (numbered_prefix @ digits n) = n"
  by (simp add: key_number_def digits_value)

lemma parse_numbered_all:
  assumes "\<forall>x \<in> set xs. env (fst x) = Some (pipe_text (snd x)) \<and> validateEntryShape (snd x) \<and> pipe_free (snd x)"
  shows "parse_numbered env (map fst xs) = Inr (map snd xs)"
  using assms
proof (induction xs)
  case (Cons x xs)
  have "pipe_text (snd x) \<noteq> []" by (simp add: pipe_text_def)
  then show ?case using Cons pipe_text_read [of "snd x"] by simp
qed simp

text \<open>C25. The pipe format is read back: from the numbered variables of well-formed connections
  without a pipe in their texts, in whatever order the environment lists them and whatever
  the JSON parser is, the loader returns exactly these connections in the order of their numbers.\<close>

theorem numbered_connections_roundtrip:
  assumes "\<forall>e \<in> set entries. validateEntryShape e \<and> pipe_free e"
    and "mset env = mset (numbered_env entries)"
  shows "loadConnectionRegistryFromEnv parse env = Inr entries"
proof -
  let ?keys = "map (\<lambda>n. numbered_prefix @ digits n) [0..<length entries]"
  have keys: "map fst (numbered_env entries) = ?keys"
    by (rule nth_equalityI) (simp_all add: numbered_env_def nth_enumerate_eq)
  have ms: "mset (map fst env) = mset ?keys" using assms(2) keys by (metis mset_map)
  have inj: "inj_on key_number (set ?keys)" by (auto simp: inj_on_def key_number_digits)
  have distinct: "distinct ?keys" by (simp add: distinct_map inj_on_def)
  then have distinct_env: "distinct (map fst env)" using ms by (metis mset_eq_imp_distinct_iff)
  have set_keys: "set (map fst env) = set ?keys" using ms by (rule mset_eq_setD)
  then have all: "filter numbered_key (map fst env) = map fst env"
    by (subst filter_True) (auto simp: numbered_key_digits)
  have sorted: "sort_key key_number (map fst env) = ?keys"
    using ms inj set_keys by (intro sort_key_inj_key_eq) (simp_all add: key_number_digits comp_def)
  have "''HRP_WEBHOOK_CONNECTIONS'' \<notin> set ?keys" by (auto simp: numbered_prefix_def)
  then have json: "map_of env ''HRP_WEBHOOK_CONNECTIONS'' = None" using set_keys by (simp add: map_of_eq_None_iff)
  let ?xs = "map (\<lambda>(n, e). (numbered_prefix @ digits n, e)) (enumerate 0 entries)"
  have "map_of env (fst x) = Some (pipe_text (snd x))" if "x \<in> set ?xs" for x
  proof (rule map_of_is_SomeI [OF distinct_env])
    have "(fst x, pipe_text (snd x)) \<in> set (numbered_env entries)"
      using that by (auto simp: numbered_env_def)
    then show "(fst x, pipe_text (snd x)) \<in> set env" using mset_eq_setD [OF assms(2)] by simp
  qed
  moreover have "snd x \<in> set entries" if "x \<in> set ?xs" for x
    using that by (auto simp: in_set_enumerate_eq)
  ultimately have "parse_numbered (map_of env) (map fst ?xs) = Inr (map snd ?xs)"
    using assms(1) by (intro parse_numbered_all) blast
  moreover have "map fst ?xs = ?keys" "map snd ?xs = entries"
    by (rule nth_equalityI; simp add: nth_enumerate_eq)+
  ultimately show ?thesis by (simp add: loadConnectionRegistryFromEnv_def Let_def json all sorted)
qed

theorem numbered_connections_roundtrip_witness:
  "loadConnectionRegistryFromEnv (\<lambda>_. None) [(''HRP_WEBHOOK_CONNECTION_0'', ''org1|CHATWOOT|conn1|HMAC_SHA256|K'')] =
     Inr [sample_entry]"
proof (rule numbered_connections_roundtrip)
  have "digits 0 = ''0''" by code_simp
  then show "mset [(''HRP_WEBHOOK_CONNECTION_0'', ''org1|CHATWOOT|conn1|HMAC_SHA256|K'')] = mset (numbered_env [sample_entry])"
    by (simp add: numbered_env_def numbered_prefix_def pipe_text_def sample_entry_def)
qed (simp add: validateEntryShape_def pipe_free_def sample_entry_def SUPPORTED_PROVIDERS_def ALLOWED_ALGORITHMS_def)

end
