(* ===== verification/Review_Store.thy ===== *)
theory Review_Store
  imports Json_Access
begin

text \<open>
  The review entries of \<open>apps/integration-api/src/review/types.ts\<close> and their in-memory store,
  \<open>review-store.ts\<close>. The values a request supplies are kept as the JSON they are, since the
  source casts them unchecked; kinds and actions are strings. The three counters of the module
  are part of the state.
\<close>

section \<open>Entries\<close>

datatype entry_status = E_OPEN | E_DECIDED | E_EXPIRED | E_SUPERSEDED

fun status_string :: "entry_status \<Rightarrow> string" where
  "status_string E_OPEN = ''OPEN''"
| "status_string E_DECIDED = ''DECIDED''"
| "status_string E_EXPIRED = ''EXPIRED''"
| "status_string E_SUPERSEDED = ''SUPERSEDED''"

datatype review_tier = INBOUND_REVIEWER_TIER | PRIVILEGED_REVIEWER_TIER

record reviewer_capability =
  cap_reviewerId :: json
  cap_tier :: review_tier
  cap_organizationId :: string

record review_audit =
  au_auditId :: string
  au_at :: int
  au_actor :: json
  au_action :: string
  au_detail :: "json option"

record review_link =
  ln_linkId :: string
  ln_targetKind :: string
  ln_targetRef :: json
  ln_label :: json
  ln_addedBy :: string
  ln_addedAt :: int

record review_decision =
  dn_decisionId :: string
  dn_reviewer :: reviewer_capability
  dn_kind :: string
  dn_reason :: json
  dn_baseVersion :: nat
  dn_expectedEntryVersion :: json
  dn_at :: int

record review_entry =
  en_reviewEntryId :: string
  en_organizationId :: string
  en_intakeRevisionId :: string
  en_canonicalId :: "string option"
  en_canonicalVersion :: "rat option"
  en_draftDigest :: string
  en_status :: entry_status
  en_decision :: "review_decision option"
  en_decisionVersion :: "nat option"
  en_anchorRefs :: "review_link list"
  en_auditLog :: "review_audit list"
  en_createdAt :: int
  en_updatedAt :: int

section \<open>The store\<close>

text \<open>The values of the map in the order of their insertion, and the counters.\<close>

record review_state =
  vs_entries :: "review_entry list"
  vs_idCounter :: nat
  vs_decisionCounter :: nat
  vs_linkCounter :: nat

definition new_review_state :: review_state where
  "new_review_state = \<lparr>vs_entries = [], vs_idCounter = 0, vs_decisionCounter = 0, vs_linkCounter = 0\<rparr>"

text \<open>\<open>toString ().padStart (4, '0')\<close>.\<close>

definition padded :: "nat \<Rightarrow> string" where
  "padded n = replicate (4 - length (digits n)) (CHR ''0'') @ digits n"

definition nextId :: "string \<Rightarrow> review_state \<Rightarrow> string \<times> review_state" where
  "nextId prefix vs =
     (prefix @ ''-'' @ padded (vs_idCounter vs + 1), vs\<lparr>vs_idCounter := vs_idCounter vs + 1\<rparr>)"

definition nextDecisionId :: "review_state \<Rightarrow> string \<times> review_state" where
  "nextDecisionId vs =
     (''dec-'' @ padded (vs_decisionCounter vs + 1), vs\<lparr>vs_decisionCounter := vs_decisionCounter vs + 1\<rparr>)"

definition nextLinkId :: "review_state \<Rightarrow> string \<times> review_state" where
  "nextLinkId vs =
     (''lnk-'' @ padded (vs_linkCounter vs + 1), vs\<lparr>vs_linkCounter := vs_linkCounter vs + 1\<rparr>)"

definition createAuditEntry ::
  "int \<Rightarrow> json \<Rightarrow> string \<Rightarrow> json option \<Rightarrow> review_state \<Rightarrow> review_audit \<times> review_state" where
  "createAuditEntry now actor action detail vs =
     (let (auditId, vs1) = nextId ''audit'' vs
      in (\<lparr>au_auditId = auditId, au_at = now, au_actor = actor, au_action = action, au_detail = detail\<rparr>, vs1))"

definition review_key :: "review_entry \<Rightarrow> string" where
  "review_key e = en_organizationId e @ '':'' @ en_reviewEntryId e"

text \<open>\<^const>\<open>None\<close> is the plain error the store throws.\<close>

definition store_create :: "review_entry \<Rightarrow> review_state \<Rightarrow> review_state option" where
  "store_create e vs =
     (if review_key e \<in> review_key ` set (vs_entries vs) then None
      else Some (vs\<lparr>vs_entries := vs_entries vs @ [e]\<rparr>))"

definition findById :: "string \<Rightarrow> string \<Rightarrow> review_state \<Rightarrow> review_entry option" where
  "findById orgId entryId vs = find (\<lambda>e. review_key e = orgId @ '':'' @ entryId) (vs_entries vs)"

definition findByIdAnyOrg :: "json \<Rightarrow> review_state \<Rightarrow> review_entry option" where
  "findByIdAnyOrg entryId vs = find (\<lambda>e. JStr (en_reviewEntryId e) = entryId) (vs_entries vs)"

definition findByIntakeRevision :: "string \<Rightarrow> string \<Rightarrow> review_state \<Rightarrow> review_entry option" where
  "findByIntakeRevision orgId revisionId vs =
     find (\<lambda>e. en_organizationId e = orgId \<and> en_intakeRevisionId e = revisionId) (vs_entries vs)"

definition store_update :: "int \<Rightarrow> review_entry \<Rightarrow> review_state \<Rightarrow> review_state option" where
  "store_update now e vs =
     (if review_key e \<notin> review_key ` set (vs_entries vs) then None
      else Some (vs\<lparr>vs_entries := update_where (\<lambda>x. review_key x = review_key e)
             (\<lambda>_. e\<lparr>en_updatedAt := now\<rparr>) (vs_entries vs)\<rparr>))"

record list_reviews_options =
  lv_organizationId :: string
  lv_status :: "string option"
  lv_cursor :: "string option"
  lv_pageSize :: "nat option"

record list_reviews_result =
  lr_entries :: "review_entry list"
  lr_nextCursor :: "string option"
  lr_totalEstimate :: nat

definition listed :: "list_reviews_options \<Rightarrow> review_state \<Rightarrow> review_entry list" where
  "listed opts vs =
     order_desc en_createdAt
       (filter (\<lambda>e. en_organizationId e = lv_organizationId opts \<and>
           (truthy (lv_status opts) \<longrightarrow> Some (status_string (en_status e)) = lv_status opts)) (vs_entries vs))"

text \<open>The index after the cursor's entry; an unknown cursor starts at the front.\<close>

fun after_cursor :: "string \<Rightarrow> review_entry list \<Rightarrow> nat option" where
  "after_cursor cursor [] = None"
| "after_cursor cursor (e # es) =
     (if en_reviewEntryId e = cursor then Some 1 else map_option Suc (after_cursor cursor es))"

definition store_list :: "list_reviews_options \<Rightarrow> review_state \<Rightarrow> list_reviews_result" where
  "store_list opts vs =
     (let entries = listed opts vs;
          pageSize = nullish (lv_pageSize opts) 20;
          start = (if truthy (lv_cursor opts) then nullish (after_cursor (the (lv_cursor opts)) entries) 0 else 0);
          page = take pageSize (drop start entries)
      in \<lparr>lr_entries = page,
          lr_nextCursor =
            (if start + pageSize < length entries \<and> page \<noteq> [] then Some (en_reviewEntryId (last page)) else None),
          lr_totalEstimate = length entries\<rparr>)"

section \<open>Changes of an entry\<close>

definition createReviewEntry ::
  "int \<Rightarrow> string \<Rightarrow> string \<Rightarrow> string option \<Rightarrow> rat option \<Rightarrow> string \<Rightarrow> review_state \<Rightarrow>
   review_entry \<times> review_state" where
  "createReviewEntry now organizationId intakeRevisionId canonicalId canonicalVersion draftDigest vs =
     (let (entryId, vs1) = nextId ''rev'' vs;
          (audit, vs2) = createAuditEntry now (JStr ''system'') ''CREATED'' None vs1
      in (\<lparr>en_reviewEntryId = entryId, en_organizationId = organizationId,
           en_intakeRevisionId = intakeRevisionId, en_canonicalId = canonicalId,
           en_canonicalVersion = canonicalVersion, en_draftDigest = draftDigest, en_status = E_OPEN,
           en_decision = None, en_decisionVersion = None, en_anchorRefs = [], en_auditLog = [audit],
           en_createdAt = now, en_updatedAt = now\<rparr>, vs2))"

definition applyDecision ::
  "int \<Rightarrow> review_entry \<Rightarrow> review_decision \<Rightarrow> review_state \<Rightarrow> review_entry \<times> review_state" where
  "applyDecision now entry decision vs =
     (let (audit, vs1) = createAuditEntry now (cap_reviewerId (dn_reviewer decision))
            (''DECISION:'' @ dn_kind decision)
            (Some (JObj [(''reason'', dn_reason decision),
                         (''baseVersion'', JNum (of_nat (dn_baseVersion decision))),
                         (''expectedEntryVersion'', dn_expectedEntryVersion decision)])) vs
      in (entry\<lparr>en_status := E_DECIDED, en_decision := Some decision,
                en_decisionVersion := Some (dn_baseVersion decision),
                en_auditLog := en_auditLog entry @ [audit], en_updatedAt := now\<rparr>, vs1))"

definition addLink ::
  "int \<Rightarrow> review_entry \<Rightarrow> review_link \<Rightarrow> review_state \<Rightarrow> review_entry \<times> review_state" where
  "addLink now entry link vs =
     (let (audit, vs1) = createAuditEntry now (JStr (ln_addedBy link)) (''LINK:'' @ ln_targetKind link)
            (Some (JObj [(''linkId'', JStr (ln_linkId link)), (''targetRef'', ln_targetRef link)])) vs
      in (entry\<lparr>en_anchorRefs := en_anchorRefs entry @ [link],
                en_auditLog := en_auditLog entry @ [audit], en_updatedAt := now\<rparr>, vs1))"

definition removeLink ::
  "int \<Rightarrow> review_entry \<Rightarrow> json \<Rightarrow> string \<Rightarrow> review_state \<Rightarrow> review_entry \<times> review_state" where
  "removeLink now entry linkId removedBy vs =
     (let (audit, vs1) = createAuditEntry now (JStr removedBy) ''UNLINK'' (Some (JObj [(''linkId'', linkId)])) vs
      in (entry\<lparr>en_anchorRefs := filter (\<lambda>l. JStr (ln_linkId l) \<noteq> linkId) (en_anchorRefs entry),
                en_auditLog := en_auditLog entry @ [audit], en_updatedAt := now\<rparr>, vs1))"

end
