(* ===== verification/Review_Service.thy ===== *)
theory Review_Service
  imports Review_Store
begin

text \<open>
  Permissions, service and routes of the review:
  \<open>apps/integration-api/src/review/permissions.ts\<close>, \<open>review-service.ts\<close> and
  \<open>http-handler.ts\<close>. An operation returns its result or error with the new state; the
  source's service is synchronous, so operations do not interleave. Texts of errors are left
  out.
\<close>

section \<open>Permissions\<close>

text \<open>A \<open>ReviewServiceError\<close> with its code, or an error of another kind.\<close>

datatype review_failure = Review_Error string | Plain_Error

record permission_context =
  px_actor :: string
  px_capability :: reviewer_capability
  px_organizationId :: string

definition parseReviewerCapability :: "json \<Rightarrow> string \<Rightarrow> reviewer_capability option" where
  "parseReviewerCapability actor organizationId =
     (let kind = jget ''kind'' actor;
          reviewerId = (case jget ''userId'' actor of
                          None \<Rightarrow> jget ''serviceId'' actor
                        | Some JNull \<Rightarrow> jget ''serviceId'' actor
                        | Some v \<Rightarrow> Some v)
      in if \<not> is_object (Some actor) then None
         else if kind \<noteq> Some (JStr ''USER'') \<and> kind \<noteq> Some (JStr ''SERVICE'') \<and>
                 kind \<noteq> Some (JStr ''DELEGATED_USER'') then None
         else if \<not> jtruthy reviewerId then None
         else Some \<lparr>cap_reviewerId = the reviewerId,
                    cap_tier = (if kind = Some (JStr ''SERVICE'') then PRIVILEGED_REVIEWER_TIER
                                else INBOUND_REVIEWER_TIER),
                    cap_organizationId = organizationId\<rparr>)"

definition buildPermissionContext :: "json \<Rightarrow> string \<Rightarrow> permission_context option" where
  "buildPermissionContext actor organizationId =
     map_option (\<lambda>capability.
         \<lparr>px_actor = (if cap_tier capability = INBOUND_REVIEWER_TIER then ''user:'' else ''service:'') @
                     js_String (cap_reviewerId capability),
          px_capability = capability, px_organizationId = organizationId\<rparr>)
       (parseReviewerCapability actor organizationId)"

definition canListReviews :: "permission_context \<Rightarrow> bool" where
  "canListReviews ctx = True"

definition canGetReviewDetail :: "permission_context \<Rightarrow> string \<Rightarrow> bool" where
  "canGetReviewDetail ctx entryOrganizationId \<longleftrightarrow> px_organizationId ctx = entryOrganizationId"

definition canDecide :: "permission_context \<Rightarrow> string \<Rightarrow> entry_status \<Rightarrow> bool" where
  "canDecide ctx entryOrganizationId entryStatus \<longleftrightarrow>
     px_organizationId ctx = entryOrganizationId \<and> entryStatus \<noteq> E_DECIDED \<and> entryStatus \<noteq> E_SUPERSEDED \<and>
     \<not> (entryStatus = E_EXPIRED \<and> cap_tier (px_capability ctx) = INBOUND_REVIEWER_TIER)"

definition canLink :: "permission_context \<Rightarrow> string \<Rightarrow> entry_status \<Rightarrow> bool" where
  "canLink ctx entryOrganizationId entryStatus \<longleftrightarrow>
     px_organizationId ctx = entryOrganizationId \<and> entryStatus = E_OPEN"

definition canUnlink :: "permission_context \<Rightarrow> string \<Rightarrow> entry_status \<Rightarrow> bool" where
  "canUnlink ctx entryOrganizationId entryStatus \<longleftrightarrow>
     px_organizationId ctx = entryOrganizationId \<and> entryStatus \<noteq> E_EXPIRED"

definition canReplay :: "permission_context \<Rightarrow> string \<Rightarrow> bool" where
  "canReplay ctx entryOrganizationId \<longleftrightarrow> px_organizationId ctx = entryOrganizationId"

section \<open>Output\<close>

record decision_output =
  do_decisionId :: string
  do_reviewerId :: json
  do_tier :: review_tier
  do_kind :: string
  do_reason :: json
  do_baseVersion :: nat
  do_at :: int

record entry_output =
  eo_reviewEntryId :: string
  eo_organizationId :: string
  eo_intakeRevisionId :: string
  eo_canonicalId :: "string option"
  eo_canonicalVersion :: "rat option"
  eo_status :: entry_status
  eo_decision :: "decision_output option"
  eo_anchorRefCount :: nat
  eo_createdAt :: int
  eo_updatedAt :: int
  eo_auditSummary :: "(string \<times> int \<times> json) list"

definition redactEntry :: "review_entry \<Rightarrow> entry_output" where
  "redactEntry e =
     \<lparr>eo_reviewEntryId = en_reviewEntryId e, eo_organizationId = en_organizationId e,
      eo_intakeRevisionId = en_intakeRevisionId e, eo_canonicalId = en_canonicalId e,
      eo_canonicalVersion = en_canonicalVersion e, eo_status = en_status e,
      eo_decision = map_option (\<lambda>d.
          \<lparr>do_decisionId = dn_decisionId d, do_reviewerId = cap_reviewerId (dn_reviewer d),
           do_tier = cap_tier (dn_reviewer d), do_kind = dn_kind d, do_reason = dn_reason d,
           do_baseVersion = dn_baseVersion d, do_at = dn_at d\<rparr>) (en_decision e),
      eo_anchorRefCount = length (en_anchorRefs e), eo_createdAt = en_createdAt e,
      eo_updatedAt = en_updatedAt e,
      eo_auditSummary = map (\<lambda>a. (au_action a, au_at a, au_actor a)) (en_auditLog e)\<rparr>"

record list_output =
  lu_organizationId :: string
  lu_entries :: "entry_output list"
  lu_nextCursor :: "string option"
  lu_totalEstimate :: nat

record replay_result =
  rp_reviewEntryId :: string
  rp_checkpointState :: json
  rp_appliedSteps :: json
  rp_revalidatedMappings :: bool
  rp_contextVersion :: json
  rp_canProceed :: bool
  rp_canProceedReason :: "string option"

section \<open>The service\<close>

text \<open>The cursor and the page size of the request are not passed on to the store.\<close>

definition listReviews ::
  "json \<Rightarrow> string \<Rightarrow> string option \<Rightarrow> string option \<Rightarrow> nat option \<Rightarrow> review_state \<Rightarrow> review_failure + list_output" where
  "listReviews actor organizationId status cursor pageSize vs =
     (case buildPermissionContext actor organizationId of
        None \<Rightarrow> Inl Plain_Error
      | Some ctx \<Rightarrow>
          if \<not> canListReviews ctx then Inl (Review_Error ''FORBIDDEN'')
          else
            let result = store_list \<lparr>lv_organizationId = organizationId,
                    lv_status = (if truthy status then status else None), lv_cursor = None, lv_pageSize = None\<rparr> vs
            in Inr \<lparr>lu_organizationId = organizationId, lu_entries = map redactEntry (lr_entries result),
                    lu_nextCursor = lr_nextCursor result, lu_totalEstimate = lr_totalEstimate result\<rparr>)"

definition getReviewDetail ::
  "json \<Rightarrow> string \<Rightarrow> json \<Rightarrow> review_state \<Rightarrow> review_failure + entry_output" where
  "getReviewDetail actor organizationId reviewEntryId vs =
     (case buildPermissionContext actor organizationId of
        None \<Rightarrow> Inl Plain_Error
      | Some ctx \<Rightarrow>
          (case findByIdAnyOrg reviewEntryId vs of
             None \<Rightarrow> Inl (Review_Error ''NOT_FOUND'')
           | Some e \<Rightarrow>
               if \<not> canGetReviewDetail ctx (en_organizationId e) then Inl (Review_Error ''FORBIDDEN'')
               else Inr (redactEntry e)))"

definition findEntryOrThrow :: "string \<Rightarrow> json \<Rightarrow> review_state \<Rightarrow> review_failure + review_entry" where
  "findEntryOrThrow organizationId reviewEntryId vs =
     (case findByIdAnyOrg reviewEntryId vs of
        None \<Rightarrow> Inl (Review_Error ''NOT_FOUND'')
      | Some e \<Rightarrow> if en_organizationId e \<noteq> organizationId then Inl (Review_Error ''FORBIDDEN'') else Inr e)"

text \<open>Storing the changed entry; the error of the store is a plain one.\<close>

definition save_entry ::
  "int \<Rightarrow> review_entry \<times> review_state \<Rightarrow> (review_failure + entry_output) \<times> review_state" where
  "save_entry now changed =
     (case store_update now (fst changed) (snd changed) of
        None \<Rightarrow> (Inl Plain_Error, snd changed)
      | Some vs \<Rightarrow> (Inr (redactEntry (fst changed)), vs))"

definition REVIEW_DECISION_KINDS :: "string list" where
  "REVIEW_DECISION_KINDS = [''ACCEPT'', ''REJECT'', ''REQUEST_CHANGES'']"

definition REVIEW_LINK_TARGET_KINDS :: "string list" where
  "REVIEW_LINK_TARGET_KINDS = [''CANDIDATE'', ''REVISION'', ''SCHEMA'', ''EVIDENCE'']"

text \<open>The kind a value is, if it is one of the list.\<close>

definition one_of :: "string list \<Rightarrow> json \<Rightarrow> string option" where
  "one_of kinds v = find (\<lambda>k. v = JStr k) kinds"

definition submitDecision ::
  "int \<Rightarrow> json \<Rightarrow> string \<Rightarrow> json \<Rightarrow> json \<Rightarrow> json \<Rightarrow> json \<Rightarrow> review_state \<Rightarrow>
   (review_failure + entry_output) \<times> review_state" where
  "submitDecision now actor organizationId reviewEntryId kind reason expectedEntryVersion vs =
     (case buildPermissionContext actor organizationId of
        None \<Rightarrow> (Inl Plain_Error, vs)
      | Some ctx \<Rightarrow>
          (case findEntryOrThrow organizationId reviewEntryId vs of
             Inl err \<Rightarrow> (Inl err, vs)
           | Inr entry \<Rightarrow>
               if \<not> canDecide ctx (en_organizationId entry) (en_status entry) then
                 (Inl (Review_Error ''FORBIDDEN''), vs)
               else case one_of REVIEW_DECISION_KINDS kind of
                 None \<Rightarrow> (Inl (Review_Error ''VALIDATION_ERROR''), vs)
               | Some k \<Rightarrow>
                   if JNum (of_nat (length (en_auditLog entry))) \<noteq> expectedEntryVersion then
                     (Inl (Review_Error ''VERSION_CONFLICT''), vs)
                   else
                     let (decisionId, vs1) = nextDecisionId vs;
                         decision = \<lparr>dn_decisionId = decisionId, dn_reviewer = px_capability ctx, dn_kind = k,
                           dn_reason = reason, dn_baseVersion = length (en_auditLog entry),
                           dn_expectedEntryVersion = expectedEntryVersion, dn_at = now\<rparr>
                     in save_entry now (applyDecision now entry decision vs1)))"

definition linkTarget ::
  "int \<Rightarrow> json \<Rightarrow> string \<Rightarrow> json \<Rightarrow> json \<Rightarrow> json \<Rightarrow> json \<Rightarrow> review_state \<Rightarrow>
   (review_failure + entry_output) \<times> review_state" where
  "linkTarget now actor organizationId reviewEntryId targetKind targetRef label vs =
     (case buildPermissionContext actor organizationId of
        None \<Rightarrow> (Inl Plain_Error, vs)
      | Some ctx \<Rightarrow>
          (case findEntryOrThrow organizationId reviewEntryId vs of
             Inl err \<Rightarrow> (Inl err, vs)
           | Inr entry \<Rightarrow>
               if \<not> canLink ctx (en_organizationId entry) (en_status entry) then
                 (Inl (Review_Error ''FORBIDDEN''), vs)
               else case one_of REVIEW_LINK_TARGET_KINDS targetKind of
                 None \<Rightarrow> (Inl (Review_Error ''VALIDATION_ERROR''), vs)
               | Some k \<Rightarrow>
                   let (linkId, vs1) = nextLinkId vs
                   in save_entry now (addLink now entry
                        \<lparr>ln_linkId = linkId, ln_targetKind = k, ln_targetRef = targetRef, ln_label = label,
                         ln_addedBy = px_actor ctx, ln_addedAt = now\<rparr> vs1)))"

definition unlinkTarget ::
  "int \<Rightarrow> json \<Rightarrow> string \<Rightarrow> json \<Rightarrow> json \<Rightarrow> review_state \<Rightarrow>
   (review_failure + entry_output) \<times> review_state" where
  "unlinkTarget now actor organizationId reviewEntryId linkId vs =
     (case buildPermissionContext actor organizationId of
        None \<Rightarrow> (Inl Plain_Error, vs)
      | Some ctx \<Rightarrow>
          (case findEntryOrThrow organizationId reviewEntryId vs of
             Inl err \<Rightarrow> (Inl err, vs)
           | Inr entry \<Rightarrow>
               if \<not> canUnlink ctx (en_organizationId entry) (en_status entry) then
                 (Inl (Review_Error ''FORBIDDEN''), vs)
               else if \<not> list_ex (\<lambda>l. JStr (ln_linkId l) = linkId) (en_anchorRefs entry) then
                 (Inl (Review_Error ''NOT_FOUND''), vs)
               else save_entry now (removeLink now entry linkId (px_actor ctx) vs)))"

record checkpoint_snapshot =
  cs_state :: json
  cs_draftDigest :: json
  cs_canonicalId :: "json option"
  cs_canonicalVersion :: "json option"
  cs_appliedSteps :: json

text \<open>Both sides are defined and differ.\<close>

definition drifted :: "json option \<Rightarrow> json option \<Rightarrow> bool" where
  "drifted here there \<longleftrightarrow> here \<noteq> None \<and> there \<noteq> None \<and> here \<noteq> there"

definition replayReview ::
  "json \<Rightarrow> string \<Rightarrow> json \<Rightarrow> checkpoint_snapshot \<Rightarrow> review_state \<Rightarrow> review_failure + replay_result" where
  "replayReview actor organizationId reviewEntryId snap vs =
     (case buildPermissionContext actor organizationId of
        None \<Rightarrow> Inl Plain_Error
      | Some ctx \<Rightarrow>
          (case findEntryOrThrow organizationId reviewEntryId vs of
             Inl err \<Rightarrow> Inl err
           | Inr entry \<Rightarrow>
               let result = (\<lambda>mappings proceed reason.
                     \<lparr>rp_reviewEntryId = en_reviewEntryId entry, rp_checkpointState = cs_state snap,
                      rp_appliedSteps = cs_appliedSteps snap, rp_revalidatedMappings = mappings,
                      rp_contextVersion = jnullish (cs_canonicalVersion snap) JNull,
                      rp_canProceed = proceed, rp_canProceedReason = reason\<rparr>)
               in if \<not> canReplay ctx (en_organizationId entry) then Inl (Review_Error ''FORBIDDEN'')
                  else if cs_draftDigest snap \<noteq> JStr (en_draftDigest entry) then
                    Inr (result False False (Some ''DRAFT_DIGEST_CHANGED''))
                  else if drifted (map_option JStr (en_canonicalId entry)) (cs_canonicalId snap) then
                    Inr (result True False (Some ''CANONICAL_TARGET_CHANGED''))
                  else if drifted (map_option JNum (en_canonicalVersion entry)) (cs_canonicalVersion snap) then
                    Inr (result True False (Some ''VERSION_CONFLICT''))
                  else if cs_state snap = JStr ''COMPLETED'' then
                    Inr (result True False (Some ''ALREADY_APPLIED''))
                  else Inr (result True True None)))"

definition createFromIntake ::
  "int \<Rightarrow> string \<Rightarrow> string \<Rightarrow> string \<Rightarrow> string option \<Rightarrow> rat option \<Rightarrow> review_state \<Rightarrow>
   (review_failure + entry_output) \<times> review_state" where
  "createFromIntake now organizationId intakeRevisionId draftDigest canonicalId canonicalVersion vs =
     (let (entry, vs1) =
            createReviewEntry now organizationId intakeRevisionId canonicalId canonicalVersion draftDigest vs
      in case store_create entry vs1 of
           None \<Rightarrow> (Inl Plain_Error, vs1)
         | Some vs2 \<Rightarrow> (Inr (redactEntry entry), vs2))"

section \<open>The routes\<close>

datatype 'a review_reply = Review_Ok 'a | Review_Refused nat string

definition default_actor :: json where
  "default_actor = JObj [(''kind'', JStr ''SERVICE''), (''serviceId'', JStr ''svc-review-test'')]"

text \<open>The actor of the header \<open>x-review-actor\<close>; without one, or with a text that is not JSON, the
  default.\<close>

definition extractActor :: "(string \<Rightarrow> json option) \<Rightarrow> string option \<Rightarrow> json" where
  "extractActor parse header =
     (if \<not> truthy header then default_actor
      else case parse (the header) of None \<Rightarrow> default_actor | Some v \<Rightarrow> v)"

definition respondServiceError :: "review_failure \<Rightarrow> 'a review_reply" where
  "respondServiceError err =
     (case err of
        Review_Error code \<Rightarrow>
          Review_Refused
            (if code = ''NOT_FOUND'' then 404
             else if code = ''FORBIDDEN'' \<or> code = ''VALIDATION_ERROR'' \<or> code = ''VERSION_CONFLICT'' then 403
             else if code = ''UNAUTHORIZED'' then 401 else 500) code
      | Plain_Error \<Rightarrow> Review_Refused 500 ''INTERNAL_ERROR'')"

definition respond_result :: "review_failure + 'a \<Rightarrow> 'a review_reply" where
  "respond_result r = (case r of Inl err \<Rightarrow> respondServiceError err | Inr v \<Rightarrow> Review_Ok v)"

text \<open>A body that is not JSON, or null, is answered as invalid JSON.\<close>

definition with_body ::
  "json option \<Rightarrow> (json \<Rightarrow> 'a review_reply \<times> review_state) \<Rightarrow> review_state \<Rightarrow> 'a review_reply \<times> review_state" where
  "with_body body handler vs =
     (case body of
        None \<Rightarrow> (Review_Refused 400 ''invalid_json'', vs)
      | Some JNull \<Rightarrow> (Review_Refused 400 ''invalid_json'', vs)
      | Some b \<Rightarrow> handler b)"

definition handleList ::
  "json \<Rightarrow> string \<Rightarrow> string option \<Rightarrow> string option \<Rightarrow> nat option \<Rightarrow> review_state \<Rightarrow> list_output review_reply" where
  "handleList actor organizationId status cursor pageSize vs =
     respond_result (listReviews actor organizationId status cursor
       (case pageSize of None \<Rightarrow> None | Some n \<Rightarrow> if n > 0 then Some (min n 100) else None) vs)"

definition handleDetail ::
  "json \<Rightarrow> string \<Rightarrow> string option \<Rightarrow> review_state \<Rightarrow> entry_output review_reply" where
  "handleDetail actor organizationId entryId vs =
     (if \<not> truthy entryId then Review_Refused 400 ''missing reviewEntryId''
      else respond_result (getReviewDetail actor organizationId (JStr (the entryId)) vs))"

definition handleDecide ::
  "int \<Rightarrow> json \<Rightarrow> string \<Rightarrow> json option \<Rightarrow> review_state \<Rightarrow> entry_output review_reply \<times> review_state" where
  "handleDecide now actor organizationId body vs =
     with_body body (\<lambda>b.
       case (jget ''reviewEntryId'' b, jget ''kind'' b, jget ''reason'' b, jget ''expectedEntryVersion'' b) of
         (Some entryId, Some kind, Some reason, Some expected) \<Rightarrow>
           if \<not> jtruthy (Some entryId) \<or> \<not> jtruthy (Some kind) \<or> \<not> jtruthy (Some reason) then
             (Review_Refused 400 ''VALIDATION_ERROR'', vs)
           else map_prod respond_result id
                  (submitDecision now actor organizationId entryId kind reason expected vs)
       | _ \<Rightarrow> (Review_Refused 400 ''VALIDATION_ERROR'', vs)) vs"

definition handleLink ::
  "int \<Rightarrow> json \<Rightarrow> string \<Rightarrow> json option \<Rightarrow> review_state \<Rightarrow> entry_output review_reply \<times> review_state" where
  "handleLink now actor organizationId body vs =
     with_body body (\<lambda>b.
       case (jget ''reviewEntryId'' b, jget ''targetKind'' b, jget ''targetRef'' b, jget ''label'' b) of
         (Some entryId, Some kind, Some ref, Some label) \<Rightarrow>
           if \<not> jtruthy (Some entryId) \<or> \<not> jtruthy (Some kind) \<or> \<not> jtruthy (Some ref) \<or> \<not> jtruthy (Some label) then
             (Review_Refused 400 ''VALIDATION_ERROR'', vs)
           else map_prod respond_result id (linkTarget now actor organizationId entryId kind ref label vs)
       | _ \<Rightarrow> (Review_Refused 400 ''VALIDATION_ERROR'', vs)) vs"

definition handleUnlink ::
  "int \<Rightarrow> json \<Rightarrow> string \<Rightarrow> json option \<Rightarrow> review_state \<Rightarrow> entry_output review_reply \<times> review_state" where
  "handleUnlink now actor organizationId body vs =
     with_body body (\<lambda>b.
       case (jget ''reviewEntryId'' b, jget ''linkId'' b) of
         (Some entryId, Some linkId) \<Rightarrow>
           if \<not> jtruthy (Some entryId) \<or> \<not> jtruthy (Some linkId) then
             (Review_Refused 400 ''VALIDATION_ERROR'', vs)
           else map_prod respond_result id (unlinkTarget now actor organizationId entryId linkId vs)
       | _ \<Rightarrow> (Review_Refused 400 ''VALIDATION_ERROR'', vs)) vs"

definition handleReplay ::
  "json \<Rightarrow> string \<Rightarrow> json option \<Rightarrow> review_state \<Rightarrow> replay_result review_reply \<times> review_state" where
  "handleReplay actor organizationId body vs =
     with_body body (\<lambda>b.
       let entryId = jnullish (jget ''reviewEntryId'' b) (JStr []);
           state = jnullish (jget ''checkpointState'' b) (JStr []);
           digest = jnullish (jget ''checkpointDigest'' b) (JStr [])
       in if \<not> jtruthy (Some entryId) \<or> \<not> jtruthy (Some state) \<or> \<not> jtruthy (Some digest) then
            (Review_Refused 400 ''VALIDATION_ERROR'', vs)
          else (respond_result (replayReview actor organizationId entryId
                  \<lparr>cs_state = state, cs_draftDigest = digest,
                   cs_canonicalId = jget ''checkpointCanonicalId'' b,
                   cs_canonicalVersion = jget ''checkpointCanonicalVersion'' b,
                   cs_appliedSteps = jnullish (jget ''appliedSteps'' b) (JArr [])\<rparr> vs), vs)) vs"

end
