(* ===== verification/Review_Facts.thy ===== *)
theory Review_Facts
  imports Review_Service "HOL-Library.Sublist"
begin

text \<open>
  Runs of the review service and what every operation keeps: entries are identified by their
  id, only move forward, and an operation changes one entry of its organization or none.
\<close>

section \<open>Identifiers\<close>

lemma foldl_zeros:
  "foldl (\<lambda>a c. 10 * a + (of_char c - 48)) (0 :: nat) (replicate k (CHR ''0'') @ s) =
   foldl (\<lambda>a c. 10 * a + (of_char c - 48)) 0 s"
  by (induction k) simp_all

lemma padded_value: "foldl (\<lambda>a c. 10 * a + (of_char c - 48)) 0 (padded n) = n"
  unfolding padded_def foldl_zeros by (rule digits_value)

lemma padded_inj [simp]: "padded m = padded n \<longleftrightarrow> m = n"
  by (metis padded_value)

lemma padded_no_colon: "CHR '':'' \<notin> set (padded n)"
  using digits_are_digits [of "CHR '':''" n] by (auto simp: padded_def is_digit_def)

definition review_id :: "nat \<Rightarrow> string" where
  "review_id n = ''rev-'' @ padded n"

lemma review_id_inj [simp]: "review_id m = review_id n \<longleftrightarrow> m = n"
  by (simp add: review_id_def)

lemma key_parts:
  assumes "o1 @ '':'' @ i1 = o2 @ '':'' @ i2" and "CHR '':'' \<notin> set i1" and "CHR '':'' \<notin> set i2"
  shows "i1 = i2 \<and> o1 = o2"
proof -
  have r: "rev i1 @ CHR '':'' # rev o1 = rev i2 @ CHR '':'' # rev o2"
    using arg_cong [OF assms(1), of rev] by simp
  have "takeWhile (\<lambda>c. c \<noteq> CHR '':'') (rev i @ CHR '':'' # x) = rev i" if "CHR '':'' \<notin> set i" for i x
    using that by (subst takeWhile_append2) auto
  then have "rev i1 = rev i2" using r assms(2,3) by metis
  then show ?thesis using r by simp
qed

section \<open>The invariant\<close>

text \<open>
  Ids are drawn from the counter and distinct; an entry is open without a decision or decided
  with one, made at the version its audit log had.
\<close>

definition entry_wf :: "review_entry \<Rightarrow> bool" where
  "entry_wf e \<longleftrightarrow>
     en_auditLog e \<noteq> [] \<and>
     (case en_decision e of
        None \<Rightarrow> en_status e = E_OPEN \<and> en_decisionVersion e = None
      | Some d \<Rightarrow> en_status e = E_DECIDED \<and> en_decisionVersion e = Some (dn_baseVersion d) \<and>
          dn_baseVersion d < length (en_auditLog e) \<and>
          dn_expectedEntryVersion d = JNum (of_nat (dn_baseVersion d)) \<and>
          dn_kind d \<in> set REVIEW_DECISION_KINDS \<and>
          cap_organizationId (dn_reviewer d) = en_organizationId e)"

definition reviews_ok :: "review_state \<Rightarrow> bool" where
  "reviews_ok vs \<longleftrightarrow>
     distinct (map en_reviewEntryId (vs_entries vs)) \<and>
     (\<forall>e \<in> set (vs_entries vs). (\<exists>n \<le> vs_idCounter vs. en_reviewEntryId e = review_id n) \<and> entry_wf e)"

lemma reviews_okD:
  assumes "reviews_ok vs"
  shows "distinct (map en_reviewEntryId (vs_entries vs))"
    "e \<in> set (vs_entries vs) \<Longrightarrow> entry_wf e"
    "e \<in> set (vs_entries vs) \<Longrightarrow> \<exists>n \<le> vs_idCounter vs. en_reviewEntryId e = review_id n"
  using assms by (auto simp: reviews_ok_def)

lemma new_reviews_ok [simp]: "reviews_ok new_review_state"
  by (simp add: reviews_ok_def new_review_state_def)

lemma id_no_colon: "reviews_ok vs \<Longrightarrow> e \<in> set (vs_entries vs) \<Longrightarrow> CHR '':'' \<notin> set (en_reviewEntryId e)"
  using padded_no_colon by (fastforce simp: reviews_ok_def review_id_def)

lemma same_key:
  assumes "reviews_ok vs" and "x \<in> set (vs_entries vs)" and "CHR '':'' \<notin> set (en_reviewEntryId e)"
  shows "review_key x = review_key e \<longleftrightarrow>
    en_reviewEntryId x = en_reviewEntryId e \<and> en_organizationId x = en_organizationId e"
  using key_parts [of "en_organizationId x" "en_reviewEntryId x" "en_organizationId e" "en_reviewEntryId e"]
    id_no_colon [OF assms(1,2)] assms(3) by (auto simp: review_key_def)

lemma find_any:
  assumes "reviews_ok vs" and "e \<in> set (vs_entries vs)"
  shows "findByIdAnyOrg (JStr (en_reviewEntryId e)) vs = Some e"
proof -
  have "find (\<lambda>x. en_reviewEntryId x = en_reviewEntryId e) (vs_entries vs) = Some e"
    by (rule find_unique_key [OF reviews_okD(1) [OF assms(1)] assms(2)])
  then show ?thesis by (simp add: findByIdAnyOrg_def)
qed

section \<open>How an entry moves\<close>

definition moves :: "review_entry \<Rightarrow> review_entry \<Rightarrow> bool" where
  "moves e e' \<longleftrightarrow>
     en_reviewEntryId e' = en_reviewEntryId e \<and> en_organizationId e' = en_organizationId e \<and>
     en_intakeRevisionId e' = en_intakeRevisionId e \<and> en_draftDigest e' = en_draftDigest e \<and>
     en_canonicalId e' = en_canonicalId e \<and> en_canonicalVersion e' = en_canonicalVersion e \<and>
     en_createdAt e' = en_createdAt e \<and> prefix (en_auditLog e) (en_auditLog e') \<and>
     (en_decision e \<noteq> None \<longrightarrow> en_decision e' = en_decision e)"

lemma review_moves_refl [simp]: "moves e e"
  by (simp add: moves_def)

lemma review_moves_trans: "moves e f \<Longrightarrow> moves f g \<Longrightarrow> moves e g"
  by (auto simp: moves_def intro: prefix_order.trans)

text \<open>What an operation does to the entries: nothing, a new one, or a move of one.\<close>

definition writes_one :: "string \<Rightarrow> review_state \<Rightarrow> review_state \<Rightarrow> bool" where
  "writes_one org vs vs' \<longleftrightarrow>
     vs_idCounter vs \<le> vs_idCounter vs' \<and>
     (vs_entries vs' = vs_entries vs \<or>
      (\<exists>e e'. e \<in> set (vs_entries vs) \<and> en_organizationId e = org \<and> moves e e' \<and> entry_wf e' \<and>
         vs_entries vs' = update_where (\<lambda>x. en_reviewEntryId x = en_reviewEntryId e) (\<lambda>_. e') (vs_entries vs)))"

lemma writes_none: "vs_entries vs' = vs_entries vs \<Longrightarrow> vs_idCounter vs \<le> vs_idCounter vs' \<Longrightarrow> writes_one org vs vs'"
  by (simp add: writes_one_def)

lemma save_entry_result:
  assumes ok: "reviews_ok vs" and e: "e \<in> set (vs_entries vs)"
    and c: "vs_entries (snd changed) = vs_entries vs" "vs_idCounter vs \<le> vs_idCounter (snd changed)"
    and m: "moves e (fst changed)" "entry_wf (fst changed)"
  shows "save_entry now changed =
    (Inr (redactEntry (fst changed)), (snd changed)\<lparr>vs_entries := update_where
        (\<lambda>x. en_reviewEntryId x = en_reviewEntryId e) (\<lambda>_. (fst changed)\<lparr>en_updatedAt := now\<rparr>) (vs_entries vs)\<rparr>)"
    "writes_one (en_organizationId e) vs (snd (save_entry now changed))"
proof -
  have ids: "en_reviewEntryId (fst changed) = en_reviewEntryId e" "en_organizationId (fst changed) = en_organizationId e"
    using m(1) by (simp_all add: moves_def)
  have colon: "CHR '':'' \<notin> set (en_reviewEntryId (fst changed))" using id_no_colon [OF ok e] ids by simp
  have keys: "review_key x = review_key (fst changed) \<longleftrightarrow> en_reviewEntryId x = en_reviewEntryId e"
    if x: "x \<in> set (vs_entries vs)" for x
  proof -
    have "x = e" if "en_reviewEntryId x = en_reviewEntryId e"
      by (rule distinct_key_eq [OF reviews_okD(1) [OF ok] x e that])
    then show ?thesis using same_key [OF ok x colon] ids by auto
  qed
  have "review_key (fst changed) \<in> review_key ` set (vs_entries vs)"
    using e ids by (auto simp: review_key_def image_iff)
  moreover have "update_where (\<lambda>x. review_key x = review_key (fst changed)) f (vs_entries vs) =
      update_where (\<lambda>x. en_reviewEntryId x = en_reviewEntryId e) f (vs_entries vs)" for f
    using keys by (auto simp: update_where_def)
  ultimately show save: "save_entry now changed =
    (Inr (redactEntry (fst changed)), (snd changed)\<lparr>vs_entries := update_where
        (\<lambda>x. en_reviewEntryId x = en_reviewEntryId e) (\<lambda>_. (fst changed)\<lparr>en_updatedAt := now\<rparr>) (vs_entries vs)\<rparr>)"
    using c by (simp add: save_entry_def store_update_def)
  have "moves e ((fst changed)\<lparr>en_updatedAt := now\<rparr>)" "entry_wf ((fst changed)\<lparr>en_updatedAt := now\<rparr>)"
    using m by (simp_all add: moves_def entry_wf_def split: option.splits)
  then show "writes_one (en_organizationId e) vs (snd (save_entry now changed))"
    unfolding save writes_one_def using c e by auto
qed

section \<open>The operations\<close>

lemma findEntryOrThrow_Inr:
  "findEntryOrThrow org entryId vs = Inr e \<Longrightarrow>
     e \<in> set (vs_entries vs) \<and> JStr (en_reviewEntryId e) = entryId \<and> en_organizationId e = org"
  by (auto simp: findEntryOrThrow_def findByIdAnyOrg_def find_Some_iff in_set_conv_nth split: option.splits if_splits)

lemma one_of_Some: "one_of kinds v = Some k \<Longrightarrow> k \<in> set kinds \<and> v = JStr k"
  by (auto simp: one_of_def find_Some_iff in_set_conv_nth)

lemma context_fields:
  assumes "buildPermissionContext actor org = Some ctx"
  shows "px_organizationId ctx = org" "cap_organizationId (px_capability ctx) = org"
  using assms by (auto simp: buildPermissionContext_def parseReviewerCapability_def Let_def split: if_splits)

text \<open>A decision that is accepted: the entry was open and had the expected version.\<close>

definition decided :: "int \<Rightarrow> string \<Rightarrow> permission_context \<Rightarrow> string \<Rightarrow> json \<Rightarrow> review_entry \<Rightarrow> review_decision" where
  "decided now decisionId ctx k reason e =
     \<lparr>dn_decisionId = decisionId, dn_reviewer = px_capability ctx, dn_kind = k, dn_reason = reason,
      dn_baseVersion = length (en_auditLog e), dn_expectedEntryVersion = JNum (of_nat (length (en_auditLog e))),
      dn_at = now\<rparr>"

text \<open>The changes of an entry only touch the counters.\<close>

lemma change_state [simp]:
  "vs_entries (snd (applyDecision now e d vs)) = vs_entries vs"
  "vs_idCounter (snd (applyDecision now e d vs)) = vs_idCounter vs + 1"
  "vs_entries (snd (addLink now e l vs)) = vs_entries vs"
  "vs_idCounter (snd (addLink now e l vs)) = vs_idCounter vs + 1"
  "vs_entries (snd (removeLink now e i who vs)) = vs_entries vs"
  "vs_idCounter (snd (removeLink now e i who vs)) = vs_idCounter vs + 1"
  "vs_entries (snd (nextDecisionId vs)) = vs_entries vs" "vs_idCounter (snd (nextDecisionId vs)) = vs_idCounter vs"
  "vs_entries (snd (nextLinkId vs)) = vs_entries vs" "vs_idCounter (snd (nextLinkId vs)) = vs_idCounter vs"
  by (simp_all add: applyDecision_def addLink_def removeLink_def createAuditEntry_def nextId_def
      nextDecisionId_def nextLinkId_def Let_def)

lemma applyDecision_moves:
  assumes "entry_wf e" and "en_decision e = None" and "k \<in> set REVIEW_DECISION_KINDS"
    and "cap_organizationId (px_capability ctx) = en_organizationId e"
  shows "moves e (fst (applyDecision now e (decided now i ctx k reason e) vs))"
    "entry_wf (fst (applyDecision now e (decided now i ctx k reason e) vs))"
  using assms
  by (auto simp: applyDecision_def createAuditEntry_def nextId_def Let_def moves_def entry_wf_def decided_def)

lemma addLink_moves:
  assumes "entry_wf e"
  shows "moves e (fst (addLink now e l vs))" "entry_wf (fst (addLink now e l vs))"
  using assms
  by (auto simp: addLink_def createAuditEntry_def nextId_def Let_def moves_def entry_wf_def split: option.splits)

lemma removeLink_moves:
  assumes "entry_wf e"
  shows "moves e (fst (removeLink now e l who vs))" "entry_wf (fst (removeLink now e l who vs))"
  using assms
  by (auto simp: removeLink_def createAuditEntry_def nextId_def Let_def moves_def entry_wf_def split: option.splits)

lemma submitDecision_cases:
  assumes "submitDecision now actor org entryId kind reason expected vs = (r, vs')" and ok: "reviews_ok vs"
  obtains (refused) err where "r = Inl err" "vs' = vs"
  | (accepted) ctx e k where "buildPermissionContext actor org = Some ctx" "e \<in> set (vs_entries vs)"
      "JStr (en_reviewEntryId e) = entryId" "en_organizationId e = org" "en_decision e = None"
      "kind = JStr k" "k \<in> set REVIEW_DECISION_KINDS" "expected = JNum (of_nat (length (en_auditLog e)))"
      "(r, vs') = save_entry now (applyDecision now e
         (decided now (fst (nextDecisionId vs)) ctx k reason e) (snd (nextDecisionId vs)))"
proof (cases "buildPermissionContext actor org")
  case None
  then show thesis using assms(1) refused by (auto simp: submitDecision_def)
next
  case (Some ctx)
  show thesis
  proof (cases "findEntryOrThrow org entryId vs")
    case (Inl err)
    then show thesis using assms(1) Some refused by (auto simp: submitDecision_def)
  next
    case (Inr e)
    note e = findEntryOrThrow_Inr [OF Inr]
    have wf: "entry_wf e" using e reviews_okD(2) [OF ok] by blast
    show thesis
    proof (cases "canDecide ctx (en_organizationId e) (en_status e) \<and> one_of REVIEW_DECISION_KINDS kind \<noteq> None \<and>
        JNum (of_nat (length (en_auditLog e))) = expected")
      case False
      then show thesis using assms(1) Some Inr refused
        by (auto simp: submitDecision_def split: if_splits option.splits)
    next
      case True
      then obtain k where k: "one_of REVIEW_DECISION_KINDS kind = Some k" by auto
      have "en_decision e = None" using True wf by (auto simp: canDecide_def entry_wf_def split: option.splits)
      moreover have "(r, vs') = save_entry now (applyDecision now e
         (decided now (fst (nextDecisionId vs)) ctx k reason e) (snd (nextDecisionId vs)))"
        using assms(1) Some Inr True k by (auto simp: submitDecision_def nextDecisionId_def decided_def)
      ultimately show thesis using True one_of_Some [OF k] e by (intro accepted [OF Some]) auto
    qed
  qed
qed

lemma submitDecision_writes:
  assumes ok: "reviews_ok vs"
  shows "writes_one org vs (snd (submitDecision now actor org entryId kind reason expected vs))"
proof -
  obtain r vs' where s: "submitDecision now actor org entryId kind reason expected vs = (r, vs')" by fastforce
  from s ok have "writes_one org vs vs'"
  proof (cases rule: submitDecision_cases)
    case (accepted ctx e k)
    let ?vs1 = "snd (nextDecisionId vs)"
    have c: "cap_organizationId (px_capability ctx) = en_organizationId e"
      using context_fields [OF accepted(1)] accepted(4) by simp
    note dec = applyDecision_moves [OF reviews_okD(2) [OF ok accepted(2)] accepted(5,7) c]
    have "writes_one (en_organizationId e) vs (snd (save_entry now (applyDecision now e
         (decided now (fst (nextDecisionId vs)) ctx k reason e) ?vs1)))"
      by (rule save_entry_result(2) [OF ok accepted(2)]) (use dec in simp_all)
    then show ?thesis using accepted(4,9) by (metis snd_conv)
  qed (simp add: writes_none)
  then show ?thesis unfolding s by simp
qed

lemma linkTarget_writes:
  assumes ok: "reviews_ok vs"
  shows "writes_one org vs (snd (linkTarget now actor org entryId kind ref label vs))"
proof (cases "buildPermissionContext actor org")
  case None
  then show ?thesis by (simp add: linkTarget_def writes_none)
next
  case (Some ctx)
  show ?thesis
  proof (cases "findEntryOrThrow org entryId vs")
    case (Inl err)
    then show ?thesis using Some by (simp add: linkTarget_def writes_none)
  next
    case (Inr e)
    note e = findEntryOrThrow_Inr [OF Inr]
    let ?vs1 = "snd (nextLinkId vs)"
    have "writes_one org vs (snd (save_entry now (addLink now e l ?vs1)))" for l
      using save_entry_result(2) [OF ok conjunct1 [OF e], of "addLink now e l ?vs1" now]
        addLink_moves [OF reviews_okD(2) [OF ok conjunct1 [OF e]]] e by simp
    then show ?thesis using Some Inr
      by (auto simp: linkTarget_def Let_def writes_none case_prod_unfold split: option.splits)
  qed
qed

lemma unlinkTarget_writes:
  assumes ok: "reviews_ok vs"
  shows "writes_one org vs (snd (unlinkTarget now actor org entryId linkId vs))"
proof (cases "buildPermissionContext actor org")
  case None
  then show ?thesis by (simp add: unlinkTarget_def writes_none)
next
  case (Some ctx)
  show ?thesis
  proof (cases "findEntryOrThrow org entryId vs")
    case (Inl err)
    then show ?thesis using Some by (simp add: unlinkTarget_def writes_none)
  next
    case (Inr e)
    note e = findEntryOrThrow_Inr [OF Inr]
    have "writes_one org vs (snd (save_entry now (removeLink now e l who vs)))" for l who
      using save_entry_result(2) [OF ok conjunct1 [OF e], of "removeLink now e l who vs" now]
        removeLink_moves [OF reviews_okD(2) [OF ok conjunct1 [OF e]]] e by simp
    then show ?thesis using Some Inr by (simp add: unlinkTarget_def writes_none)
  qed
qed

end
