(* ===== verification/Review_Properties.thy ===== *)
theory Review_Properties
  imports Review_Facts
begin

text \<open>
  What the review promises: entries keep their history, at most one decision is accepted and
  organizations are kept apart; and what it breaks: a request without an actor decides with the
  highest tier, and the list never shows more than its first page.
\<close>

section \<open>Runs\<close>

datatype review_op =
  Create_Review int string string string "string option" "rat option"
| Decide int json string "json option"
| Link int json string "json option"
| Unlink int json string "json option"
| Replay json string "json option"

fun run_review_op :: "review_op \<Rightarrow> review_state \<Rightarrow> review_state" where
  "run_review_op (Create_Review now org revision digest canonicalId version) vs =
     snd (createFromIntake now org revision digest canonicalId version vs)"
| "run_review_op (Decide now actor org body) vs = snd (handleDecide now actor org body vs)"
| "run_review_op (Link now actor org body) vs = snd (handleLink now actor org body vs)"
| "run_review_op (Unlink now actor org body) vs = snd (handleUnlink now actor org body vs)"
| "run_review_op (Replay actor org body) vs = snd (handleReplay actor org body vs)"

definition run_reviews :: "review_op list \<Rightarrow> review_state \<Rightarrow> review_state" where
  "run_reviews ops vs = fold run_review_op ops vs"

text \<open>A created entry is new and open.\<close>

lemma create_result:
  assumes ok: "reviews_ok vs"
  shows "\<exists>e. vs_entries (snd (createFromIntake now org revision digest canonicalId version vs)) = vs_entries vs @ [e] \<and>
    en_reviewEntryId e = review_id (vs_idCounter vs + 1) \<and> en_organizationId e = org \<and> entry_wf e \<and>
    vs_idCounter (snd (createFromIntake now org revision digest canonicalId version vs)) = vs_idCounter vs + 2"
proof -
  let ?c = "createReviewEntry now org revision canonicalId version digest vs"
  have c: "en_reviewEntryId (fst ?c) = review_id (vs_idCounter vs + 1)" "en_organizationId (fst ?c) = org"
      "entry_wf (fst ?c)" "vs_entries (snd ?c) = vs_entries vs" "vs_idCounter (snd ?c) = vs_idCounter vs + 2"
    by (simp_all add: createReviewEntry_def createAuditEntry_def nextId_def Let_def entry_wf_def review_id_def)
  have "review_key x \<noteq> review_key (fst ?c)" if x: "x \<in> set (vs_entries vs)" for x
  proof -
    obtain n where "n \<le> vs_idCounter vs" "en_reviewEntryId x = review_id n" using reviews_okD(3) [OF ok x] by blast
    moreover have "CHR '':'' \<notin> set (en_reviewEntryId (fst ?c))"
      unfolding c(1) using padded_no_colon by (simp add: review_id_def)
    ultimately show ?thesis using same_key [OF ok x] c(1) by auto
  qed
  then have "review_key (fst ?c) \<notin> review_key ` set (vs_entries vs)" by (simp add: image_iff) metis
  then have "store_create (fst ?c) (snd ?c) = Some ((snd ?c)\<lparr>vs_entries := vs_entries vs @ [fst ?c]\<rparr>)"
    using c(4) by (simp add: store_create_def)
  then show ?thesis using c by (simp add: createFromIntake_def case_prod_unfold Let_def)
qed

text \<open>The routes change one entry of their organization, or none.\<close>

lemma with_body_writes:
  assumes "\<And>b. writes_one org vs (snd (handler b))"
  shows "writes_one org vs (snd (with_body body handler vs))"
  using assms by (auto simp: with_body_def writes_none split: option.splits json.splits)

lemma decide_writes: "reviews_ok vs \<Longrightarrow> writes_one org vs (snd (handleDecide now actor org body vs))"
  unfolding handleDecide_def
  by (rule with_body_writes) (auto simp: writes_none submitDecision_writes split: option.splits)

lemma link_writes: "reviews_ok vs \<Longrightarrow> writes_one org vs (snd (handleLink now actor org body vs))"
  unfolding handleLink_def
  by (rule with_body_writes) (auto simp: writes_none linkTarget_writes split: option.splits)

lemma unlink_writes: "reviews_ok vs \<Longrightarrow> writes_one org vs (snd (handleUnlink now actor org body vs))"
  unfolding handleUnlink_def
  by (rule with_body_writes) (auto simp: writes_none unlinkTarget_writes split: option.splits)

lemma replay_state [simp]: "snd (handleReplay actor org body vs) = vs"
  by (simp add: handleReplay_def with_body_def Let_def split: option.splits json.splits)

lemma writes_ok:
  assumes w: "writes_one org vs vs'" and ok: "reviews_ok vs"
  shows "reviews_ok vs'" and "e \<in> set (vs_entries vs) \<Longrightarrow> \<exists>e' \<in> set (vs_entries vs'). moves e e'"
proof -
  consider (same) "vs_entries vs' = vs_entries vs"
    | (one) x x' where "x \<in> set (vs_entries vs)" "moves x x'" "entry_wf x'"
        "vs_entries vs' = update_where (\<lambda>y. en_reviewEntryId y = en_reviewEntryId x) (\<lambda>_. x') (vs_entries vs)"
    using w by (auto simp: writes_one_def)
  then have "reviews_ok vs' \<and> (\<forall>e \<in> set (vs_entries vs). \<exists>e' \<in> set (vs_entries vs'). moves e e')"
  proof cases
    case same
    have "\<exists>n \<le> vs_idCounter vs'. en_reviewEntryId e = review_id n" if "e \<in> set (vs_entries vs)" for e
      using reviews_okD(3) [OF ok that] w by (auto simp: writes_one_def intro: order_trans)
    then have "reviews_ok vs'" using same reviews_okD(1,2) [OF ok] by (simp add: reviews_ok_def)
    then show ?thesis using same by (auto intro: review_moves_refl)
  next
    case one
    have id: "en_reviewEntryId x' = en_reviewEntryId x" using one(2) by (simp add: moves_def)
    have "map en_reviewEntryId (vs_entries vs') = map en_reviewEntryId (vs_entries vs)"
      unfolding one(4) by (rule map_update_where) (simp add: id)
    moreover have "(\<exists>n \<le> vs_idCounter vs'. en_reviewEntryId e = review_id n) \<and> entry_wf e"
      if "e \<in> set (vs_entries vs')" for e
    proof -
      have "\<exists>y \<in> set (vs_entries vs). en_reviewEntryId e = en_reviewEntryId y \<and> entry_wf e"
        using that id one reviews_okD(2) [OF ok] unfolding one(4) set_update_where by auto
      then show ?thesis using reviews_okD(3) [OF ok] w by (fastforce simp: writes_one_def intro: order_trans)
    qed
    moreover have "\<exists>e' \<in> set (vs_entries vs'). moves e e'" if e: "e \<in> set (vs_entries vs)" for e
    proof (cases "en_reviewEntryId e = en_reviewEntryId x")
      case True
      then have "e = x" by (rule distinct_key_eq [OF reviews_okD(1) [OF ok] e one(1)])
      then show ?thesis using one e unfolding one(4) set_update_where by blast
    next
      case False
      then have "e \<in> set (vs_entries vs')" using e unfolding one(4) set_update_where by blast
      then show ?thesis by (intro bexI [of _ e]) simp_all
    qed
    ultimately show ?thesis using reviews_okD(1) [OF ok] by (simp add: reviews_ok_def)
  qed
  then show "reviews_ok vs'" and "e \<in> set (vs_entries vs) \<Longrightarrow> \<exists>e' \<in> set (vs_entries vs'). moves e e'" by auto
qed

lemma step_ok:
  assumes ok: "reviews_ok vs"
  shows "reviews_ok (run_review_op op vs)"
    and "e \<in> set (vs_entries vs) \<Longrightarrow> \<exists>e' \<in> set (vs_entries (run_review_op op vs)). moves e e'"
proof -
  have "reviews_ok (run_review_op op vs) \<and>
    (\<forall>e \<in> set (vs_entries vs). \<exists>e' \<in> set (vs_entries (run_review_op op vs)). moves e e')"
  proof (cases op)
    case (Create_Review now org revision digest canonicalId version)
    let ?vs' = "snd (createFromIntake now org revision digest canonicalId version vs)"
    obtain x where x: "vs_entries ?vs' = vs_entries vs @ [x]" "en_reviewEntryId x = review_id (vs_idCounter vs + 1)"
        "entry_wf x" "vs_idCounter ?vs' = vs_idCounter vs + 2"
      using create_result [OF ok] by blast
    have "\<exists>n \<le> vs_idCounter ?vs'. en_reviewEntryId y = review_id n" if "y \<in> set (vs_entries vs)" for y
      using reviews_okD(3) [OF ok that] x(4) by (metis trans_le_add1)
    moreover have "en_reviewEntryId x \<notin> en_reviewEntryId ` set (vs_entries vs)"
      using reviews_okD(3) [OF ok] x(2) by fastforce
    moreover have "\<exists>n \<le> vs_idCounter ?vs'. en_reviewEntryId x = review_id n" using x(2,4) by auto
    ultimately have "reviews_ok ?vs'"
      using x(1,3) reviews_okD(1,2) [OF ok] by (auto simp: reviews_ok_def)
    moreover have "\<exists>e' \<in> set (vs_entries ?vs'). moves e e'" if "e \<in> set (vs_entries vs)" for e
      using that x(1) by (intro bexI [of _ e]) simp_all
    ultimately show ?thesis using Create_Review by simp
  next
    case (Decide now actor org body)
    then show ?thesis using writes_ok [OF decide_writes [OF ok] ok] by auto
  next
    case (Link now actor org body)
    then show ?thesis using writes_ok [OF link_writes [OF ok] ok] by auto
  next
    case (Unlink now actor org body)
    then show ?thesis using writes_ok [OF unlink_writes [OF ok] ok] by auto
  next
    case (Replay actor org body)
    then show ?thesis using ok by (auto intro: review_moves_refl)
  qed
  then show "reviews_ok (run_review_op op vs)"
    and "e \<in> set (vs_entries vs) \<Longrightarrow> \<exists>e' \<in> set (vs_entries (run_review_op op vs)). moves e e'" by auto
qed

lemma run_ok:
  assumes "reviews_ok vs"
  shows "reviews_ok (run_reviews ops vs)"
    and "e \<in> set (vs_entries vs) \<Longrightarrow> \<exists>e' \<in> set (vs_entries (run_reviews ops vs)). moves e e'"
proof -
  have "reviews_ok (fold run_review_op ops vs) \<and>
    (e \<in> set (vs_entries vs) \<longrightarrow> (\<exists>e' \<in> set (vs_entries (fold run_review_op ops vs)). moves e e'))" for e
    using assms
  proof (induction ops arbitrary: vs e)
    case Nil
    then show ?case by (auto intro: review_moves_refl)
  next
    case (Cons op ops)
    show ?case
    proof (intro conjI impI)
      show "reviews_ok (fold run_review_op (op # ops) vs)" using Cons.IH [OF step_ok(1) [OF Cons.prems]] by simp
    next
      assume "e \<in> set (vs_entries vs)"
      then obtain e1 where e1: "e1 \<in> set (vs_entries (run_review_op op vs))" "moves e e1"
        using step_ok(2) [OF Cons.prems] by blast
      then obtain e2 where "e2 \<in> set (vs_entries (fold run_review_op ops (run_review_op op vs)))" "moves e1 e2"
        using Cons.IH [OF step_ok(1) [OF Cons.prems]] by blast
      then show "\<exists>e' \<in> set (vs_entries (fold run_review_op (op # ops) vs)). moves e e'"
        using review_moves_trans [OF e1(2)] by auto
    qed
  qed
  then show "reviews_ok (run_reviews ops vs)"
    and "e \<in> set (vs_entries vs) \<Longrightarrow> \<exists>e' \<in> set (vs_entries (run_reviews ops vs)). moves e e'"
    unfolding run_reviews_def by auto
qed


lemma run_reviews_append: "run_reviews (ops1 @ ops2) vs = run_reviews ops2 (run_reviews ops1 vs)"
  by (simp add: run_reviews_def)

section \<open>Well-formed entries and their history\<close>

lemma filter_key_single: "distinct (map f xs) \<Longrightarrow> x \<in> set xs \<Longrightarrow> filter (\<lambda>y. f y = f x) xs = [x]"
  by (induction xs) (auto simp: filter_empty_conv image_iff)

lemma reviews_reachable: "reviews_ok (run_reviews ops new_review_state)"
  by (rule run_ok(1)) simp

text \<open>C28. Every state the service can reach is well formed: the ids of the entries are distinct
  and were drawn from the counter, and an entry is open without a decision or decided, by a
  reviewer of its organization, with a known kind, at a version its audit log had.\<close>

lemma reviews_well_formed: "reviews_ok (run_reviews ops new_review_state)"
  by (rule reviews_reachable)

text \<open>C26. An entry is never lost, doubled or rewritten: in every later state exactly one entry
  has its id, of the same organization, intake, draft, target and time, with an audit log that
  extends the earlier one, and with the same decision if there was one.\<close>

lemma review_entry_history:
  assumes "e \<in> set (vs_entries (run_reviews ops1 new_review_state))"
  shows "\<exists>e'. filter (\<lambda>x. en_reviewEntryId x = en_reviewEntryId e)
      (vs_entries (run_reviews (ops1 @ ops2) new_review_state)) = [e'] \<and> moves e e'"
proof -
  let ?vs = "run_reviews ops1 new_review_state"
  let ?vs' = "run_reviews ops2 ?vs"
  have ok: "reviews_ok ?vs" by (rule reviews_reachable)
  obtain e' where e': "e' \<in> set (vs_entries ?vs')" "moves e e'" using run_ok(2) [OF ok assms] by blast
  have d: "distinct (map en_reviewEntryId (vs_entries ?vs'))" by (rule reviews_okD(1) [OF run_ok(1) [OF ok]])
  have "filter (\<lambda>x. en_reviewEntryId x = en_reviewEntryId e') (vs_entries ?vs') = [e']"
    using d e'(1) by (rule filter_key_single)
  moreover have "en_reviewEntryId e' = en_reviewEntryId e" using e'(2) by (simp add: moves_def)
  ultimately show ?thesis using e'(2) unfolding run_reviews_append by auto
qed

section \<open>One decision\<close>

lemma decided_entry_refuses:
  assumes ok: "reviews_ok vs" and e: "e \<in> set (vs_entries vs)" and d: "en_decision e \<noteq> None"
  shows "\<exists>err. submitDecision now actor org (JStr (en_reviewEntryId e)) kind reason expected vs = (Inl err, vs)"
proof -
  obtain r vs' where s: "submitDecision now actor org (JStr (en_reviewEntryId e)) kind reason expected vs = (r, vs')"
    by fastforce
  from s ok show ?thesis
  proof (cases rule: submitDecision_cases)
    case (refused err)
    then show ?thesis using s by simp
  next
    case (accepted ctx f k)
    have "f = e" using distinct_key_eq [OF reviews_okD(1) [OF ok] accepted(2) e] accepted(3) by simp
    then show ?thesis using accepted(5) d by simp
  qed
qed

lemma accepted_decision:
  assumes s: "submitDecision now actor org entryId kind reason expected vs = (Inr out, vs')" and ok: "reviews_ok vs"
  shows "\<exists>e \<in> set (vs_entries vs'). JStr (en_reviewEntryId e) = entryId \<and> en_decision e \<noteq> None"
  using s ok
proof (cases rule: submitDecision_cases)
  case (accepted ctx e k)
  let ?c = "applyDecision now e (decided now (fst (nextDecisionId vs)) ctx k reason e) (snd (nextDecisionId vs))"
  have c: "cap_organizationId (px_capability ctx) = en_organizationId e"
    using context_fields [OF accepted(1)] accepted(4) by simp
  note m = applyDecision_moves [OF reviews_okD(2) [OF ok accepted(2)] accepted(5,7) c]
  have "vs_entries vs' = update_where (\<lambda>x. en_reviewEntryId x = en_reviewEntryId e)
      (\<lambda>_. (fst ?c)\<lparr>en_updatedAt := now\<rparr>) (vs_entries vs)"
    using save_entry_result(1) [OF ok accepted(2) _ _ m, where now = now] accepted(9) by simp
  moreover have "en_decision (fst ?c) \<noteq> None" "en_reviewEntryId (fst ?c) = en_reviewEntryId e"
    by (simp_all add: applyDecision_def Let_def case_prod_unfold)
  moreover have "(fst ?c)\<lparr>en_updatedAt := now\<rparr> \<in> set (vs_entries vs')"
    unfolding calculation(1) set_update_where using accepted(2) by blast
  ultimately show ?thesis using accepted(3) by (intro bexI [of _ "(fst ?c)\<lparr>en_updatedAt := now\<rparr>"]) simp_all
qed auto

text \<open>C27. At most one decision is ever accepted for an entry: after one was, whatever is then
  created, decided, linked or replayed, every further decision on the entry, of any actor and
  with any expected version, is refused and changes nothing.\<close>

lemma second_decision_is_refused:
  assumes "submitDecision now actor org entryId kind reason expected (run_reviews ops1 new_review_state) = (Inr out, vs')"
  shows "\<exists>err. submitDecision now2 actor2 org2 entryId kind2 reason2 expected2 (run_reviews ops2 vs') =
    (Inl err, run_reviews ops2 vs')"
proof -
  let ?vs = "run_reviews ops1 new_review_state"
  have ok: "reviews_ok ?vs" by (rule reviews_reachable)
  have "writes_one org ?vs vs'" using submitDecision_writes [OF ok] assms by (metis snd_conv)
  then have ok': "reviews_ok vs'" by (rule writes_ok(1) [OF _ ok])
  obtain e where e: "e \<in> set (vs_entries vs')" "JStr (en_reviewEntryId e) = entryId" "en_decision e \<noteq> None"
    using accepted_decision [OF assms ok] by blast
  obtain e' where e': "e' \<in> set (vs_entries (run_reviews ops2 vs'))" "moves e e'"
    using run_ok(2) [OF ok' e(1)] by blast
  then have "en_decision e' \<noteq> None" "JStr (en_reviewEntryId e') = entryId" using e by (auto simp: moves_def)
  then show ?thesis using decided_entry_refuses [OF run_ok(1) [OF ok'] e'(1)] by metis
qed


section \<open>Organizations\<close>

fun op_organization :: "review_op \<Rightarrow> string" where
  "op_organization (Create_Review now org revision digest canonicalId version) = org"
| "op_organization (Decide now actor org body) = org"
| "op_organization (Link now actor org body) = org"
| "op_organization (Unlink now actor org body) = org"
| "op_organization (Replay actor org body) = org"

definition others :: "string \<Rightarrow> review_state \<Rightarrow> review_entry list" where
  "others org vs = filter (\<lambda>e. en_organizationId e \<noteq> org) (vs_entries vs)"

lemma others_writes:
  assumes w: "writes_one org vs vs'" and ok: "reviews_ok vs"
  shows "others org vs' = others org vs"
proof -
  consider (same) "vs_entries vs' = vs_entries vs"
    | (one) x x' where "x \<in> set (vs_entries vs)" "en_organizationId x = org" "moves x x'"
        "vs_entries vs' = update_where (\<lambda>y. en_reviewEntryId y = en_reviewEntryId x) (\<lambda>_. x') (vs_entries vs)"
    using w by (auto simp: writes_one_def)
  then show ?thesis
  proof cases
    case same
    then show ?thesis by (simp add: others_def)
  next
    case one
    have x': "en_organizationId x' = org" using one(2,3) by (simp add: moves_def)
    have "en_organizationId y = org" if "y \<in> set (vs_entries vs)" "en_reviewEntryId y = en_reviewEntryId x" for y
      using distinct_key_eq [OF reviews_okD(1) [OF ok] that(1) one(1) that(2)] one(2) by simp
    then have "filter (\<lambda>e. en_organizationId e \<noteq> org)
        (update_where (\<lambda>y. en_reviewEntryId y = en_reviewEntryId x) (\<lambda>_. x') ys) =
        filter (\<lambda>e. en_organizationId e \<noteq> org) ys" if "set ys \<subseteq> set (vs_entries vs)" for ys
      using that x' by (induction ys) (auto simp: update_where_def)
    then show ?thesis unfolding others_def one(4) by simp
  qed
qed

lemma others_step:
  assumes ok: "reviews_ok vs"
  shows "others (op_organization op) (run_review_op op vs) = others (op_organization op) vs"
proof (cases op)
  case (Create_Review now org revision digest canonicalId version)
  obtain x where "vs_entries (snd (createFromIntake now org revision digest canonicalId version vs)) = vs_entries vs @ [x]"
      "en_organizationId x = org"
    using create_result [OF ok] by blast
  then show ?thesis using Create_Review by (simp add: others_def)
qed (simp_all add: others_writes [OF decide_writes [OF ok] ok] others_writes [OF link_writes [OF ok] ok]
    others_writes [OF unlink_writes [OF ok] ok])

text \<open>C29. The organizations are kept apart: whatever is created, decided, linked, unlinked or
  replayed for one organization, the entries of all others stay as they were.\<close>

lemma other_organizations_untouched:
  assumes "\<forall>op \<in> set ops2. op_organization op = org"
  shows "others org (run_reviews (ops1 @ ops2) new_review_state) = others org (run_reviews ops1 new_review_state)"
proof -
  have "others org (fold run_review_op ops vs) = others org vs"
    if "\<forall>op \<in> set ops. op_organization op = org" and "reviews_ok vs" for ops vs
    using that
  proof (induction ops arbitrary: vs)
    case (Cons op ops)
    then have "others org (run_review_op op vs) = others org vs" using others_step [OF Cons.prems(2), of op] by simp
    then show ?case using Cons.IH [OF _ step_ok(1) [OF Cons.prems(2)]] Cons.prems(1) by simp
  qed simp
  then show ?thesis using assms reviews_reachable unfolding run_reviews_append by (simp add: run_reviews_def)
qed

section \<open>The actor of a request\<close>

lemma default_context:
  "buildPermissionContext default_actor org = Some
     \<lparr>px_actor = ''service:svc-review-test'',
      px_capability = \<lparr>cap_reviewerId = JStr ''svc-review-test'', cap_tier = PRIVILEGED_REVIEWER_TIER,
        cap_organizationId = org\<rparr>, px_organizationId = org\<rparr>"
  by (simp add: buildPermissionContext_def parseReviewerCapability_def default_actor_def Let_def)


lemma submitDecision_accepts:
  assumes ok: "reviews_ok vs" and e: "e \<in> set (vs_entries vs)" and o: "en_status e = E_OPEN"
    and ctx: "buildPermissionContext actor (en_organizationId e) = Some ctx" and k: "k \<in> set REVIEW_DECISION_KINDS"
  shows "\<exists>out. fst (submitDecision now actor (en_organizationId e) (JStr (en_reviewEntryId e)) (JStr k) reason
      (JNum (of_nat (length (en_auditLog e)))) vs) = Inr out \<and>
    eo_status out = E_DECIDED \<and> map_option do_tier (eo_decision out) = Some (cap_tier (px_capability ctx)) \<and>
    map_option do_kind (eo_decision out) = Some k"
proof -
  let ?c = "applyDecision now e (decided now (fst (nextDecisionId vs)) ctx k reason e) (snd (nextDecisionId vs))"
  have wf: "entry_wf e" using reviews_okD(2) [OF ok e] .
  then have d: "en_decision e = None" using o by (auto simp: entry_wf_def split: option.splits)
  have c: "px_organizationId ctx = en_organizationId e" "cap_organizationId (px_capability ctx) = en_organizationId e"
    using context_fields [OF ctx] by simp_all
  note m = applyDecision_moves [OF wf d k c(2), where now = now and reason = reason]
  have "findEntryOrThrow (en_organizationId e) (JStr (en_reviewEntryId e)) vs = Inr e"
    by (simp add: findEntryOrThrow_def find_any [OF ok e])
  moreover have "canDecide ctx (en_organizationId e) (en_status e)" using o c by (simp add: canDecide_def)
  moreover have "one_of REVIEW_DECISION_KINDS (JStr k) = Some k" using k
    by (auto simp: one_of_def REVIEW_DECISION_KINDS_def)
  ultimately have "submitDecision now actor (en_organizationId e) (JStr (en_reviewEntryId e)) (JStr k) reason
      (JNum (of_nat (length (en_auditLog e)))) vs = save_entry now ?c"
    using ctx by (simp add: submitDecision_def nextDecisionId_def decided_def)
  then have "fst (submitDecision now actor (en_organizationId e) (JStr (en_reviewEntryId e)) (JStr k) reason
      (JNum (of_nat (length (en_auditLog e)))) vs) = Inr (redactEntry (fst ?c))"
    using save_entry_result(1) [OF ok e _ _ m, where now = now] by simp
  moreover have "en_status (fst ?c) = E_DECIDED" "en_decision (fst ?c) = Some (decided now (fst (nextDecisionId vs)) ctx k reason e)"
    by (simp_all add: applyDecision_def Let_def case_prod_unfold)
  ultimately show ?thesis by (simp add: redactEntry_def decided_def)
qed

definition decide_body :: "review_entry \<Rightarrow> string \<Rightarrow> json \<Rightarrow> json" where
  "decide_body e k reason =
     JObj [(''reviewEntryId'', JStr (en_reviewEntryId e)), (''kind'', JStr k), (''reason'', reason),
           (''expectedEntryVersion'', JNum (of_nat (length (en_auditLog e))))]"

lemma kinds_nonempty: "k \<in> set REVIEW_DECISION_KINDS \<Longrightarrow> k \<noteq> []"
  by (auto simp: REVIEW_DECISION_KINDS_def)

text \<open>A request without an actor, or whose actor is not JSON, is not refused: it acts as a
  service and decides any open entry with the tier of privileged reviewers.\<close>

lemma anonymous_request_decides:
  assumes "e \<in> set (vs_entries (run_reviews ops new_review_state))" and "en_status e = E_OPEN"
    and "\<not> truthy header \<or> parse (the header) = None"
    and "k \<in> set REVIEW_DECISION_KINDS" and "jtruthy (Some reason)"
  shows "\<exists>out. fst (handleDecide now (extractActor parse header) (en_organizationId e)
      (Some (decide_body e k reason)) (run_reviews ops new_review_state)) = Review_Ok out \<and>
    eo_status out = E_DECIDED \<and>
    map_option do_tier (eo_decision out) = Some PRIVILEGED_REVIEWER_TIER \<and> map_option do_kind (eo_decision out) = Some k"
proof -
  let ?vs = "run_reviews ops new_review_state"
  have a: "extractActor parse header = default_actor" using assms(3) by (auto simp: extractActor_def)
  obtain n where "en_reviewEntryId e = review_id n" using reviews_okD(3) [OF reviews_reachable assms(1)] by blast
  then have id: "en_reviewEntryId e \<noteq> []" by (simp add: review_id_def)
  obtain out where out: "fst (submitDecision now default_actor (en_organizationId e) (JStr (en_reviewEntryId e)) (JStr k)
      reason (JNum (of_nat (length (en_auditLog e)))) ?vs) = Inr out" "eo_status out = E_DECIDED"
      "map_option do_tier (eo_decision out) = Some PRIVILEGED_REVIEWER_TIER" "map_option do_kind (eo_decision out) = Some k"
    using submitDecision_accepts [OF reviews_reachable assms(1,2) default_context assms(4), where now = now and reason = reason]
    by auto
  have "fst (handleDecide now default_actor (en_organizationId e) (Some (decide_body e k reason)) ?vs) =
      respond_result (fst (submitDecision now default_actor (en_organizationId e) (JStr (en_reviewEntryId e)) (JStr k)
        reason (JNum (of_nat (length (en_auditLog e)))) ?vs))"
    using id kinds_nonempty [OF assms(4)] assms(5)
    by (simp add: handleDecide_def with_body_def decide_body_def)
  then show ?thesis using out unfolding a by (simp add: respond_result_def)
qed

section \<open>Lists\<close>

text \<open>The list shows the twenty newest entries that have the status asked for, whatever
  cursor and page size the request gives: what comes after the first page is never shown.\<close>

lemma review_pages_are_cut:
  "handleList actor org status cursor pageSize vs =
     (case buildPermissionContext actor org of
        None \<Rightarrow> Review_Refused 500 ''INTERNAL_ERROR''
      | Some ctx \<Rightarrow>
          let found = listed \<lparr>lv_organizationId = org, lv_status = status, lv_cursor = None, lv_pageSize = None\<rparr> vs
          in Review_Ok \<lparr>lu_organizationId = org, lu_entries = map redactEntry (take 20 found),
               lu_nextCursor = (if length found > 20 then Some (en_reviewEntryId (found ! 19)) else None),
               lu_totalEstimate = length found\<rparr>)"
proof -
  have s: "\<not> truthy status \<Longrightarrow> listed \<lparr>lv_organizationId = org, lv_status = None, lv_cursor = None, lv_pageSize = None\<rparr> vs =
      listed \<lparr>lv_organizationId = org, lv_status = status, lv_cursor = None, lv_pageSize = None\<rparr> vs"
    by (simp add: listed_def)
  have "last (take 20 xs) = xs ! 19" if "length xs > 20" for xs :: "review_entry list"
    using that by (subst last_conv_nth) auto
  then show ?thesis
    by (cases "truthy status") (auto simp: handleList_def listReviews_def canListReviews_def store_list_def Let_def s
        respond_result_def respondServiceError_def split: option.splits)
qed


text \<open>A client that asks the store for page after page, at most \<open>n\<close> of them.\<close>

fun walk_pages :: "nat \<Rightarrow> list_reviews_options \<Rightarrow> review_state \<Rightarrow> review_entry list option" where
  "walk_pages 0 opts vs = None"
| "walk_pages (Suc n) opts vs =
     (let result = store_list opts vs
      in case lr_nextCursor result of
           None \<Rightarrow> Some (lr_entries result)
         | Some cursor \<Rightarrow>
             map_option ((@) (lr_entries result)) (walk_pages n (opts\<lparr>lv_cursor := Some cursor\<rparr>) vs))"

lemma after_cursor_nth:
  "distinct (map en_reviewEntryId es) \<Longrightarrow> i < length es \<Longrightarrow> after_cursor (en_reviewEntryId (es ! i)) es = Some (Suc i)"
proof (induction es arbitrary: i)
  case (Cons e es)
  show ?case
  proof (cases i)
    case (Suc j)
    then have "en_reviewEntryId (es ! j) \<in> en_reviewEntryId ` set es" using Cons.prems by simp
    then show ?thesis using Cons Suc by auto
  qed simp
qed simp

lemma listed_distinct: "reviews_ok vs \<Longrightarrow> distinct (map en_reviewEntryId (listed opts vs))"
proof -
  assume "reviews_ok vs"
  then have "inj_on en_reviewEntryId (set (vs_entries vs))" "distinct (vs_entries vs)"
    using reviews_okD(1) by (auto simp: distinct_map)
  then show ?thesis by (auto simp: listed_def distinct_map order_desc_def intro: inj_on_subset)
qed

lemma walk_from:
  assumes ok: "reviews_ok vs" and p: "nullish (lv_pageSize opts) 20 = Suc p" and start: "start \<le> length (listed opts vs)"
    and cursor: "lv_cursor opts = (if start = 0 then None else Some (en_reviewEntryId (listed opts vs ! (start - 1))))"
    and n: "length (listed opts vs) - start < n"
  shows "walk_pages n opts vs = Some (drop start (listed opts vs))"
  using assms
proof (induction n arbitrary: opts start)
  case (Suc n)
  let ?es = "listed opts vs"
  let ?page = "take (Suc p) (drop start ?es)"
  have at: "(if truthy (lv_cursor opts) then nullish (after_cursor (the (lv_cursor opts)) ?es) 0 else 0) = start"
  proof (cases start)
    case (Suc i)
    then have i: "i < length ?es" using Suc.prems(3) by simp
    then have "?es ! i \<in> set (vs_entries vs)" using nth_mem [OF i] by (auto simp: listed_def)
    then have "en_reviewEntryId (?es ! i) \<noteq> []"
      using reviews_okD(3) [OF \<open>reviews_ok vs\<close>] by (fastforce simp: review_id_def)
    then show ?thesis using Suc Suc.prems(4) after_cursor_nth [OF listed_distinct [OF \<open>reviews_ok vs\<close>] i] by simp
  qed (use Suc.prems(4) in simp)
  show ?case
  proof (cases "start + Suc p < length ?es")
    case False
    then show ?thesis using Suc.prems(2) at by (simp add: store_list_def Let_def)
  next
    case True
    let ?opts = "opts\<lparr>lv_cursor := Some (en_reviewEntryId (?es ! (start + p)))\<rparr>"
    have l: "listed ?opts vs = ?es" by (simp add: listed_def)
    have "?page \<noteq> []" "last ?page = ?es ! (start + p)" using True by (auto simp: last_conv_nth)
    then have "walk_pages (Suc n) opts vs = map_option ((@) ?page) (walk_pages n ?opts vs)"
      using True Suc.prems(2) at by (simp add: store_list_def Let_def)
    moreover have "walk_pages n ?opts vs = Some (drop (start + Suc p) ?es)"
      using Suc.IH [of ?opts "start + Suc p"] Suc.prems True l by simp
    moreover have "drop start ?es = ?page @ drop (start + Suc p) ?es"
      by (metis append_take_drop_id drop_drop add.commute)
    ultimately show ?thesis by simp
  qed
qed simp

text \<open>C30. Walking the pages of the store ends: with any page size but zero, following the
  cursors from the first page shows every entry of the list once, in its order, after at most
  one page more than there are entries.\<close>

lemma store_pages_end:
  assumes "lv_pageSize opts \<noteq> Some 0" and "lv_cursor opts = None"
  shows "walk_pages (Suc (length (listed opts (run_reviews ops new_review_state)))) opts (run_reviews ops new_review_state) =
    Some (listed opts (run_reviews ops new_review_state))"
proof -
  obtain p where "nullish (lv_pageSize opts) 20 = Suc p"
    using assms(1) by (cases "lv_pageSize opts") (auto simp: gr0_conv_Suc dest: not0_implies_Suc)
  then have "walk_pages (Suc (length (listed opts (run_reviews ops new_review_state)))) opts
      (run_reviews ops new_review_state) = Some (drop 0 (listed opts (run_reviews ops new_review_state)))"
    by (intro walk_from [OF reviews_reachable]) (simp_all add: assms(2))
  then show ?thesis by (simp only: drop_0)
qed


section \<open>Witnesses\<close>

definition demo_actor :: json where
  "demo_actor = JObj [(''kind'', JStr ''USER''), (''userId'', JStr ''u1'')]"

definition demo_create :: review_op where
  "demo_create = Create_Review 1 ''org-a'' ''intake-1'' ''digest-1'' None None"

definition demo_entry :: review_entry where
  "demo_entry =
     \<lparr>en_reviewEntryId = ''rev-0001'', en_organizationId = ''org-a'', en_intakeRevisionId = ''intake-1'',
      en_canonicalId = None, en_canonicalVersion = None, en_draftDigest = ''digest-1'', en_status = E_OPEN,
      en_decision = None, en_decisionVersion = None, en_anchorRefs = [],
      en_auditLog = [\<lparr>au_auditId = ''audit-0002'', au_at = 1, au_actor = JStr ''system'', au_action = ''CREATED'',
        au_detail = None\<rparr>],
      en_createdAt = 1, en_updatedAt = 1\<rparr>"

lemma demo_entries: "vs_entries (run_reviews [demo_create] new_review_state) = [demo_entry]"
  by code_simp

lemma demo_decision:
  "isl (fst (submitDecision 2 demo_actor ''org-a'' (JStr ''rev-0001'') (JStr ''ACCEPT'') (JStr ''fine'') (JNum 1)
     (run_reviews [demo_create] new_review_state))) = False"
  by code_simp

lemma review_entry_history_witness:
  "\<exists>e'. filter (\<lambda>x. en_reviewEntryId x = ''rev-0001'')
      (vs_entries (run_reviews ([demo_create] @ [Decide 2 demo_actor ''org-a'' (Some (decide_body demo_entry ''REJECT'' (JStr ''no'')))])
        new_review_state)) = [e'] \<and> moves demo_entry e'"
  using review_entry_history [of demo_entry "[demo_create]"] by (simp add: demo_entries demo_entry_def)

lemma second_decision_is_refused_witness:
  "\<exists>err vs'. vs' = snd (submitDecision 2 demo_actor ''org-a'' (JStr ''rev-0001'') (JStr ''ACCEPT'') (JStr ''fine'')
      (JNum 1) (run_reviews [demo_create] new_review_state)) \<and>
    submitDecision 3 demo_actor ''org-a'' (JStr ''rev-0001'') (JStr ''REJECT'') (JStr ''no'') (JNum 2)
      (run_reviews [] vs') = (Inl err, run_reviews [] vs')"
proof -
  obtain out vs' where "submitDecision 2 demo_actor ''org-a'' (JStr ''rev-0001'') (JStr ''ACCEPT'') (JStr ''fine'')
      (JNum 1) (run_reviews [demo_create] new_review_state) = (Inr out, vs')"
    using demo_decision by (metis prod.collapse sum.collapse(2))
  then show ?thesis using second_decision_is_refused by (metis snd_conv)
qed

lemma other_organizations_untouched_witness:
  "others ''org-b'' (run_reviews ([demo_create] @ [Create_Review 2 ''org-b'' ''intake-2'' ''digest-2'' None None])
      new_review_state) = [demo_entry]"
  using other_organizations_untouched [of "[Create_Review 2 ''org-b'' ''intake-2'' ''digest-2'' None None]" "''org-b''"
      "[demo_create]"]
  by (simp add: others_def demo_entries demo_entry_def)

lemma store_pages_end_witness:
  "walk_pages 2 \<lparr>lv_organizationId = ''org-a'', lv_status = None, lv_cursor = None, lv_pageSize = Some 1\<rparr>
     (run_reviews [demo_create] new_review_state) = Some [demo_entry]"
proof -
  let ?opts = "\<lparr>lv_organizationId = ''org-a'', lv_status = None, lv_cursor = None, lv_pageSize = Some 1\<rparr>"
  have "listed ?opts (run_reviews [demo_create] new_review_state) = [demo_entry]"
    by (simp add: listed_def demo_entries demo_entry_def order_desc_def)
  then show ?thesis using store_pages_end [of ?opts "[demo_create]"] by (simp add: numeral_2_eq_2)
qed

end
