(* ===== verification/Dlq_Service.thy ===== *)
theory Dlq_Service
  imports Event_Receipt
begin

text \<open>
  The dead-letter service of \<open>apps/integration-api/src/dlq/index.ts\<close> with its mock guard, and
  its routes, \<open>dlq/http-handler.ts\<close>. The lists, the statistics and the redrive itself are those
  of the store. The texts of messages are left out; the body of a request and its actor are read
  by parameters that stand for \<open>JSON.parse\<close>, and a header of another shape than an actor is not
  modelled.
\<close>

section \<open>The guard\<close>

record dlq_service =
  sv_blockedRecipients :: "string set"
  sv_maxAttempts :: int

definition new_dlq_service :: "int option \<Rightarrow> dlq_service" where
  "new_dlq_service attemptCap = \<lparr>sv_blockedRecipients = {}, sv_maxAttempts = nullish attemptCap 5\<rparr>"

definition blockRecipient :: "string \<Rightarrow> dlq_service \<Rightarrow> dlq_service" where
  "blockRecipient ref sv = sv\<lparr>sv_blockedRecipients := insert ref (sv_blockedRecipients sv)\<rparr>"

definition unblockRecipient :: "string \<Rightarrow> dlq_service \<Rightarrow> dlq_service" where
  "unblockRecipient ref sv = sv\<lparr>sv_blockedRecipients := sv_blockedRecipients sv - {ref}\<rparr>"

definition guard_blocks :: "dlq_service \<Rightarrow> dnc_query \<Rightarrow> bool" where
  "guard_blocks sv query \<longleftrightarrow> dq_recipientRef query \<in> sv_blockedRecipients sv"

section \<open>The service\<close>

definition OUTBOX_PATCH_FORBIDDEN :: "string list" where
  "OUTBOX_PATCH_FORBIDDEN =
     [''prismaTx'', ''prismaTransaction'', ''sqlTransaction'', ''sqlTransactionObject'',
      ''databaseTransactionObject'', ''cccdNumber'', ''cccdFront'', ''cccdBack'', ''fullName'',
      ''phoneRaw'', ''addressRaw'', ''dobRaw'', ''fullProfile'', ''fullIntakeSubmission'',
      ''rawTranscript'', ''chatwootLabelPii'', ''bypassDnc'', ''retryWithoutSuppressionCheck'',
      ''dlqRedriveBypass'', ''forceSendWithoutSuppression'', ''writeAfterCommit'',
      ''httpCallAfterCommit'', ''sendToProviderAfterCommit'']"

text \<open>The code of an error that is thrown: of the service, or of the store.\<close>

definition listDeadLetters ::
  "(string \<Rightarrow> string \<Rightarrow> bool) \<Rightarrow> string \<Rightarrow> list_dead_letter_opts \<Rightarrow> store \<Rightarrow>
   string + dead_letter list \<times> string option" where
  "listDeadLetters lt organizationId opts st =
     (if organizationId = [] then Inl ''TENANT_SCOPE_REQUIRED''
      else map_sum se_code id (listDeadLetteredReceipts lt organizationId opts st))"

definition getStats :: "string \<Rightarrow> store \<Rightarrow> string + dlq_stats" where
  "getStats organizationId st =
     (if organizationId = [] then Inl ''TENANT_SCOPE_REQUIRED''
      else map_sum se_code id (getDlqStats organizationId st))"

text \<open>The input of a redrive and the names of its members.\<close>

record redrive_input =
  ri_receiptId :: string
  ri_reason :: "string option"
  ri_keys :: "string list"

text \<open>The patch validation looks at the members of the evidence.\<close>

definition evidence_allowed :: "evidence \<Rightarrow> bool" where
  "evidence_allowed ev \<longleftrightarrow> \<not> list_ex (\<lambda>(key, _). key \<in> set OUTBOX_PATCH_FORBIDDEN) (ev_members ev)"

definition service_opts :: "dlq_service \<Rightarrow> string option \<Rightarrow> redrive_opts" where
  "service_opts sv reason =
     \<lparr>ro_reason = reason, ro_dncCheck = Some (guard_blocks sv), ro_maxAttempts = Some (sv_maxAttempts sv),
      ro_validateForbiddenPatch = Some evidence_allowed\<rparr>"

definition service_redrive ::
  "dlq_service \<Rightarrow> string \<Rightarrow> redrive_actor \<Rightarrow> redrive_input \<Rightarrow> int \<Rightarrow> store \<Rightarrow>
   (redrive_error + redrive_result) \<times> store" where
  "service_redrive sv organizationId actor input now st =
     (if organizationId = [] then (Inl REDRIVE_SCOPE_MISMATCH, st)
      else if ri_receiptId input = [] then (Inl REDRIVE_SCOPE_MISMATCH, st)
      else if list_ex (\<lambda>key. key \<in> set OUTBOX_PATCH_FORBIDDEN) (ri_keys input) then
        (Inl FORBIDDEN_PATCH_FIELD, st)
      else redriveReceipt (ri_receiptId input) actor now (service_opts sv (ri_reason input)) st)"

datatype preview_reason =
  Missing_Ids | Unknown_Receipt | Other_Organization | Not_Dead receipt_state
| Attempts_Reached int int | Recipient_Blocked

datatype dnc_status = DNC_BLOCKED | DNC_ALLOWED | DNC_UNKNOWN

text \<open>The state of a receipt that is not read is \<open>UNKNOWN\<close>, here \<^const>\<open>None\<close>.\<close>

record redrive_preview =
  pv_canRedrive :: bool
  pv_reason :: "preview_reason option"
  pv_attempts :: int
  pv_maxAttempts :: int
  pv_dncStatus :: dnc_status
  pv_currentState :: "receipt_state option"

definition preview_query :: "string \<Rightarrow> receipt \<Rightarrow> dnc_query" where
  "preview_query receiptId r =
     \<lparr>dq_organizationId = rc_organizationId r, dq_provider = rc_provider r,
      dq_connectionId = rc_connectionId r,
      dq_recipientRef =
        nullish (nullish_opt (rc_idempotencyKey r) (rc_correlationId r)) (''unknown-'' @ receiptId)\<rparr>"

definition getRedrivePreview :: "dlq_service \<Rightarrow> string \<Rightarrow> string \<Rightarrow> store \<Rightarrow> redrive_preview" where
  "getRedrivePreview sv organizationId receiptId st =
     (let refused = (\<lambda>reason attempts state.
            \<lparr>pv_canRedrive = False, pv_reason = Some reason, pv_attempts = attempts,
             pv_maxAttempts = sv_maxAttempts sv, pv_dncStatus = DNC_UNKNOWN, pv_currentState = state\<rparr>)
      in if organizationId = [] \<or> receiptId = [] then refused Missing_Ids 0 None
         else case find (\<lambda>r. rc_receiptId r = receiptId) (receipts st) of
           None \<Rightarrow> refused Unknown_Receipt 0 None
         | Some r \<Rightarrow>
             if rc_organizationId r \<noteq> organizationId then
               refused Other_Organization (rc_attempts r) (Some (rc_state r))
             else if rc_state r \<noteq> R_DEAD_LETTERED then
               refused (Not_Dead (rc_state r)) (rc_attempts r) (Some (rc_state r))
             else if rc_attempts r \<ge> sv_maxAttempts sv then
               refused (Attempts_Reached (rc_attempts r) (sv_maxAttempts sv)) (rc_attempts r) (Some (rc_state r))
             else
               let blocked = guard_blocks sv (preview_query receiptId r)
               in \<lparr>pv_canRedrive = (\<not> blocked), pv_reason = (if blocked then Some Recipient_Blocked else None),
                   pv_attempts = rc_attempts r, pv_maxAttempts = sv_maxAttempts sv,
                   pv_dncStatus = (if blocked then DNC_BLOCKED else DNC_ALLOWED),
                   pv_currentState = Some (rc_state r)\<rparr>)"

definition dlqServiceErrorToHttpStatus :: "string \<Rightarrow> nat" where
  "dlqServiceErrorToHttpStatus code =
     (if code \<in> {''TENANT_SCOPE_REQUIRED'', ''SCOPE_MISMATCH''} then 400
      else if code = ''NOT_FOUND'' then 404
      else if code = ''DNC_GUARD_BLOCKED'' then 403
      else if code \<in> {''MAX_ATTEMPTS_EXCEEDED'', ''FORBIDDEN_PATCH_FIELD'', ''INVALID_STATE''} then 409
      else 500)"

section \<open>The routes\<close>

text \<open>The three reading routes hand the promise of the service to \<open>JSON.stringify\<close> without waiting
  for it; a promise has no members of its own, so its text is that of an empty object.\<close>

datatype 'a promise = Promise 'a

definition stringified :: "'a promise \<Rightarrow> json" where
  "stringified p = JObj []"

datatype dlq_body =
  Json_Body json | Route_Error string | Redrive_Done redrive_result | Redrive_Refused redrive_error

definition default_dlq_actor :: redrive_actor where
  "default_dlq_actor =
     \<lparr>act_kind = ''SERVICE'', act_userId = None, act_serviceId = Some ''svc-dlq-test''\<rparr>"

definition extract_dlq_actor :: "(string \<Rightarrow> redrive_actor option) \<Rightarrow> string option \<Rightarrow> redrive_actor" where
  "extract_dlq_actor parse header =
     (if \<not> truthy header then default_dlq_actor else nullish (parse (the header)) default_dlq_actor)"

definition dlq_handleList ::
  "(string \<Rightarrow> string \<Rightarrow> bool) \<Rightarrow> string \<Rightarrow> list_dead_letter_opts \<Rightarrow> store \<Rightarrow> nat \<times> dlq_body" where
  "dlq_handleList lt organizationId query st =
     (let limit = (case lo_limit query of None \<Rightarrow> None | Some n \<Rightarrow> if n > 0 then Some (min n 100) else None);
          promise = Promise (listDeadLetters lt organizationId (query\<lparr>lo_limit := limit\<rparr>) st)
      in (200, Json_Body (stringified promise)))"

definition dlq_handleStats :: "string \<Rightarrow> store \<Rightarrow> nat \<times> dlq_body" where
  "dlq_handleStats organizationId st =
     (let promise = Promise (getStats organizationId st) in (200, Json_Body (stringified promise)))"

definition dlq_handlePreview ::
  "dlq_service \<Rightarrow> string \<Rightarrow> string option \<Rightarrow> string option \<Rightarrow> store \<Rightarrow> nat \<times> dlq_body" where
  "dlq_handlePreview sv organizationId pathId queryId st =
     (let receiptId = (if truthy pathId then pathId else queryId)
      in if \<not> truthy receiptId then (400, Route_Error ''VALIDATION_ERROR'')
         else let promise = Promise (getRedrivePreview sv organizationId (the receiptId) st)
              in (200, Json_Body (stringified promise)))"

definition redrive_error_status :: "redrive_error \<Rightarrow> nat" where
  "redrive_error_status err =
     (case err of
        NOT_FOUND \<Rightarrow> 404
      | DNC_GUARD_BLOCKED \<Rightarrow> 403
      | MAX_ATTEMPTS_EXCEEDED \<Rightarrow> 409
      | INVALID_STATE \<Rightarrow> 409
      | FORBIDDEN_PATCH_FIELD \<Rightarrow> 409
      | REDRIVE_SCOPE_MISMATCH \<Rightarrow> 400)"

text \<open>The parsed body: no JSON or null, or the members the route reads.\<close>

definition dlq_handleRedrive ::
  "dlq_service \<Rightarrow> string \<Rightarrow> (string \<Rightarrow> redrive_actor option) \<Rightarrow> string option \<Rightarrow>
   (string option \<times> string option) option \<Rightarrow> int \<Rightarrow> store \<Rightarrow> (nat \<times> dlq_body) \<times> store" where
  "dlq_handleRedrive sv organizationId parse header body now st =
     (case body of
        None \<Rightarrow> ((400, Route_Error ''invalid_json''), st)
      | Some (receiptId, reason) \<Rightarrow>
          if \<not> truthy receiptId then ((400, Route_Error ''VALIDATION_ERROR''), st)
          else
            let input = \<lparr>ri_receiptId = the receiptId, ri_reason = reason, ri_keys = [''receiptId'', ''reason'']\<rparr>;
                (result, st') = service_redrive sv organizationId (extract_dlq_actor parse header) input now st
            in (case result of
                  Inl err \<Rightarrow> (redrive_error_status err, Redrive_Refused err)
                | Inr res \<Rightarrow> (200, Redrive_Done res), st'))"

end
