(* ===== verification/Dlq_Properties.thy ===== *)
theory Dlq_Properties
  imports Dlq_Service Dead_Letter_Properties
begin

text \<open>
  What the dead-letter service adds to the redrive of the store: the preview says what a redrive
  of one's own receipt will answer, as far as it looks; a redrive does not look at the
  organization at all, and the reading routes answer nothing.
\<close>

section \<open>Preview and redrive\<close>

definition plain_input :: "string \<Rightarrow> string option \<Rightarrow> redrive_input" where
  "plain_input receiptId reason =
     \<lparr>ri_receiptId = receiptId, ri_reason = reason, ri_keys = [''receiptId'', ''reason'']\<rparr>"

lemma plain_input_redrive:
  "org \<noteq> [] \<Longrightarrow> k \<noteq> [] \<Longrightarrow> service_redrive sv org actor (plain_input k reason) now st =
     redriveReceipt k actor now (service_opts sv reason) st"
  by (simp add: service_redrive_def plain_input_def OUTBOX_PATCH_FORBIDDEN_def)

text \<open>What is refused for a reason the preview names.\<close>

definition named_error :: "preview_reason \<Rightarrow> redrive_error" where
  "named_error reason =
     (case reason of
        Missing_Ids \<Rightarrow> REDRIVE_SCOPE_MISMATCH
      | Unknown_Receipt \<Rightarrow> NOT_FOUND
      | Other_Organization \<Rightarrow> REDRIVE_SCOPE_MISMATCH
      | Not_Dead state \<Rightarrow> INVALID_STATE
      | Attempts_Reached attempts cap \<Rightarrow> MAX_ATTEMPTS_EXCEEDED
      | Recipient_Blocked \<Rightarrow> DNC_GUARD_BLOCKED)"

text \<open>C36. The preview predicts the redrive of a receipt of one's organization that has an
  idempotency or correlation key: when it names a reason the redrive answers the error of that
  reason, and when it allows the redrive, the redrive succeeds unless the evidence holds a
  forbidden member.\<close>

lemma preview_predicts_redrive:
  assumes "org \<noteq> []" and "k \<noteq> []"
    and "\<And>r. receipt_at k st = Some r \<Longrightarrow>
      rc_organizationId r = org \<and> (rc_idempotencyKey r \<noteq> None \<or> rc_correlationId r \<noteq> None)"
  shows "case pv_reason (getRedrivePreview sv org k st) of
      Some reason \<Rightarrow> \<not> pv_canRedrive (getRedrivePreview sv org k st) \<and>
        service_redrive sv org actor (plain_input k why) now st = (Inl (named_error reason), st)
    | None \<Rightarrow> pv_canRedrive (getRedrivePreview sv org k st) \<and>
        (\<exists>r. receipt_at k st = Some r \<and>
          (if not_null_and (\<lambda>ev. \<not> evidence_allowed ev) (rc_evidenceRefsJson r) then
             service_redrive sv org actor (plain_input k why) now st = (Inl FORBIDDEN_PATCH_FIELD, st)
           else \<exists>res. fst (service_redrive sv org actor (plain_input k why) now st) = Inr res))"
proof (cases "receipt_at k st")
  case None
  then have "find (\<lambda>r. rc_receiptId r = k) (receipts st) = None" by (simp add: receipt_at_def)
  then show ?thesis unfolding plain_input_redrive [OF assms(1,2)] getRedrivePreview_def redriveReceipt_def
    using assms(1,2) by (simp add: Let_def named_error_def)
next
  case (Some r)
  then have f: "find (\<lambda>r. rc_receiptId r = k) (receipts st) = Some r" by (simp add: receipt_at_def)
  have o: "rc_organizationId r = org" "preview_query k r = dnc_query_of r"
    using assms(3) [OF Some]
    by (cases "rc_idempotencyKey r"; auto simp: preview_query_def dnc_query_of_def recipientRef_def)+
  show ?thesis unfolding plain_input_redrive [OF assms(1,2)] getRedrivePreview_def redriveReceipt_def
    using assms(1,2) f o Some by (simp add: Let_def named_error_def service_opts_def)
qed

text \<open>A redrive is not bound to the organization: for the receipt of another organization the
  preview answers a mismatch of scopes, and yet the redrive puts the receipt back to PENDING
  with the caller's actor in its audit.\<close>

lemma foreign_receipt_is_redriven:
  assumes "receipt_at k st = Some r" and "rc_organizationId r \<noteq> org" and "org \<noteq> []" and "k \<noteq> []"
    and "rc_state r = R_DEAD_LETTERED" and "rc_attempts r < sv_maxAttempts sv"
    and "recipientRef r \<notin> sv_blockedRecipients sv" and "\<And>ev. rc_evidenceRefsJson r = Some ev \<Longrightarrow> evidence_allowed ev"
  shows "pv_reason (getRedrivePreview sv org k st) = Some Other_Organization \<and>
    (\<exists>res st' r'. service_redrive sv org actor (plain_input k why) now st = (Inr res, st') \<and>
       receipt_at k st' = Some r' \<and> rc_state r' = R_PENDING \<and> rc_attempts r' = 0 \<and>
       map_option da_lastRedriveActor (audit_of r') = Some (redrive_actor_id actor))"
proof
  have f: "find (\<lambda>r. rc_receiptId r = k) (receipts st) = Some r" using assms(1) by (simp add: receipt_at_def)
  show "pv_reason (getRedrivePreview sv org k st) = Some Other_Organization"
    using assms(2-4) f by (simp add: getRedrivePreview_def Let_def)
  let ?a = "redrive_audit now (redrive_actor_id actor) why r"
  have ev: "\<not> not_null_and (\<lambda>ev. \<not> evidence_allowed ev) (rc_evidenceRefsJson r)"
    using assms(8) by (simp add: not_null_and_iff)
  have red: "\<exists>res. service_redrive sv org actor (plain_input k why) now st =
      (Inr res, st\<lparr>receipts := update_where (\<lambda>r. rc_receiptId r = k) (redriven now ?a) (receipts st)\<rparr>)"
    unfolding plain_input_redrive [OF assms(3,4)] using f ev assms(5-7)
    by (simp add: redriveReceipt_def service_opts_def guard_blocks_def dnc_query_of_def Let_def)
  have at: "receipt_at k (st\<lparr>receipts := update_where (\<lambda>r. rc_receiptId r = k) (redriven now ?a) (receipts st)\<rparr>) =
      Some (redriven now ?a r)"
    using assms(1) receipt_at_SomeD [OF assms(1)] by (simp add: receipt_at_update)
  have "map_option da_lastRedriveActor (audit_of (redriven now ?a r)) = Some (redrive_actor_id actor)"
    by (simp add: audit_of_def redriven_def redrive_audit_def)
  then show "\<exists>res st' r'. service_redrive sv org actor (plain_input k why) now st = (Inr res, st') \<and>
       receipt_at k st' = Some r' \<and> rc_state r' = R_PENDING \<and> rc_attempts r' = 0 \<and>
       map_option da_lastRedriveActor (audit_of r') = Some (redrive_actor_id actor)"
    using red at by force
qed

section \<open>The routes\<close>

text \<open>The route redrives with whatever actor the header names, and as a service without one.\<close>

lemma route_redrives:
  assumes "org \<noteq> []" and "k \<noteq> []" and "fst (service_redrive sv org (extract_dlq_actor parse header)
    (plain_input k why) now st) = Inr res"
  shows "fst (dlq_handleRedrive sv org parse header (Some (Some k, why)) now st) = (200, Redrive_Done res)"
  using assms by (simp add: dlq_handleRedrive_def plain_input_def Let_def case_prod_unfold)

text \<open>The lists, the statistics and the previews never reach a client.\<close>

lemma reading_routes_answer_nothing:
  "dlq_handleList lt org query st = (200, Json_Body (JObj []))"
  "dlq_handleStats org st = (200, Json_Body (JObj []))"
  "k \<noteq> [] \<Longrightarrow> dlq_handlePreview sv org (Some k) queryId st = (200, Json_Body (JObj []))"
  by (simp_all add: dlq_handleList_def dlq_handleStats_def dlq_handlePreview_def stringified_def Let_def)

section \<open>Witnesses\<close>

definition sample_dead_key :: string where
  "sample_dead_key = rc_receiptId sample_receipt"

definition keyed_row :: receipt where
  "keyed_row = (hd (receipts sample_dead))\<lparr>rc_idempotencyKey := Some ''key-1''\<rparr>"

definition sample_keyed :: store where
  "sample_keyed = sample_dead\<lparr>receipts := [keyed_row]\<rparr>"

lemma sample_keyed_facts:
  "sample_dead_key \<noteq> []" "receipt_at sample_dead_key sample_keyed = Some keyed_row"
  "rc_organizationId keyed_row = ''org1''" "rc_idempotencyKey keyed_row = Some ''key-1''"
  "rc_state keyed_row = R_DEAD_LETTERED" "rc_attempts keyed_row = 1"
  "not_null_and (\<lambda>ev. \<not> evidence_allowed ev) (rc_evidenceRefsJson keyed_row) = False"
  by code_simp+

lemma preview_predicts_redrive_witness:
  "pv_reason (getRedrivePreview (new_dlq_service (Some 1)) ''org1'' sample_dead_key sample_keyed) =
     Some (Attempts_Reached 1 1) \<and>
   service_redrive (new_dlq_service (Some 1)) ''org1'' sample_actor
     (plain_input sample_dead_key None) 30 sample_keyed = (Inl MAX_ATTEMPTS_EXCEEDED, sample_keyed)"
proof -
  have "pv_reason (getRedrivePreview (new_dlq_service (Some 1)) ''org1'' sample_dead_key sample_keyed) =
     Some (Attempts_Reached 1 1)"
    by code_simp
  then show ?thesis
    using preview_predicts_redrive [of "''org1''" sample_dead_key sample_keyed "new_dlq_service (Some 1)"
        sample_actor None 30] sample_keyed_facts
    by (simp add: named_error_def)
qed

end
