(* ===== verification/Routing.thy ===== *)
theory Routing
  imports Json_Access "HOL-Library.Product_Lexorder" "HOL-Library.List_Lexorder" "HOL-Library.Char_ord"
begin

text \<open>
  The routing simulator of the panel, \<open>apps/context-panel/src/routing/simulator.ts\<close> with the types
  of \<open>routing/types.ts\<close> and \<open>packages/contracts/src/commands/routing.ts\<close>. The staff states, the
  queue of the batch plan and the current weights are what the loop changes; a chosen member of
  the staff is its index in the states. The division of the quotas is one of doubles: it is the
  parameter \<open>fdiv\<close>, and the subtraction of the integer part, which is exact, is not. The texts of
  the reasons are left out.
\<close>

section \<open>Staff and weights\<close>

datatype cap_period = DAILY | WEEKLY | MONTHLY

record staff_state =
  ss_actorId :: string
  ss_role :: string
  ss_online :: bool
  ss_currentCapacity :: int
  ss_maxCapacity :: int
  ss_periodAssignments :: int
  ss_periodCap :: int
  ss_capPeriod :: "cap_period option"

record weight_entry =
  wt_schemaVersion :: string
  wt_recipientActorId :: string
  wt_recipientRole :: string
  wt_weight :: int
  wt_cap :: "int option"
  wt_capPeriod :: "cap_period option"

datatype routing_strategy = SOURCE_ALLOCATION | WEIGHTED_DISTRIBUTION | HYBRID

datatype simulation_mode = BATCH | REALTIME

datatype fallback_reason =
  ALL_STAFF_OFFLINE | ALL_STAFF_AT_CAPACITY | ALL_STAFF_QUOTA_EXHAUSTED | NO_ELIGIBLE_WEIGHT | WEIGHT_ZERO

definition isAtCapacity :: "staff_state \<Rightarrow> bool" where
  "isAtCapacity s \<longleftrightarrow> ss_currentCapacity s \<ge> ss_maxCapacity s"

definition isQuotaExhausted :: "staff_state \<Rightarrow> bool" where
  "isQuotaExhausted s \<longleftrightarrow>
     ss_capPeriod s \<noteq> None \<and> ss_periodCap s \<noteq> 0 \<and> ss_periodAssignments s \<ge> ss_periodCap s"

definition staff_eligible :: "staff_state \<Rightarrow> bool" where
  "staff_eligible s \<longleftrightarrow> ss_online s \<and> \<not> isAtCapacity s \<and> \<not> isQuotaExhausted s"

definition classifyFallback :: "staff_state list \<Rightarrow> fallback_reason" where
  "classifyFallback states =
     (if \<not> list_ex ss_online states then ALL_STAFF_OFFLINE
      else if \<not> list_ex (\<lambda>s. ss_online s \<and> \<not> isAtCapacity s) states then ALL_STAFF_AT_CAPACITY
      else if \<not> list_ex (\<lambda>s. ss_online s \<and> \<not> isQuotaExhausted s) states then ALL_STAFF_QUOTA_EXHAUSTED
      else NO_ELIGIBLE_WEIGHT)"

definition total_weight :: "weight_entry list \<Rightarrow> int" where
  "total_weight weights = sum_list (map wt_weight weights)"

section \<open>Smooth weighted round robin\<close>

definition weight_for :: "weight_entry list \<Rightarrow> staff_state \<Rightarrow> int" where
  "weight_for weights s =
     (case find (\<lambda>w. wt_recipientActorId w = ss_actorId s) weights of None \<Rightarrow> 0 | Some w \<Rightarrow> wt_weight w)"

definition eligible_indices :: "staff_state list \<Rightarrow> nat list" where
  "eligible_indices states = filter (\<lambda>i. staff_eligible (states ! i)) [0..<length states]"

definition raise_weights :: "weight_entry list \<Rightarrow> staff_state list \<Rightarrow> int list \<Rightarrow> int list" where
  "raise_weights weights states current =
     map (\<lambda>(s, c). if staff_eligible s then c + weight_for weights s else c) (zip states current)"

text \<open>The loop that looks for the largest current weight, the first one if several are.\<close>

fun best_index :: "int list \<Rightarrow> nat \<Rightarrow> nat list \<Rightarrow> nat" where
  "best_index current best [] = best"
| "best_index current best (i # rest) =
     best_index current (if current ! i > current ! best then i else best) rest"

definition wrrPick ::
  "weight_entry list \<Rightarrow> int \<Rightarrow> staff_state list \<Rightarrow> int list \<Rightarrow> nat option \<times> int list" where
  "wrrPick weights totalWeight states current =
     (case eligible_indices states of
        [] \<Rightarrow> (None, current)
      | first # rest \<Rightarrow>
          let raised = raise_weights weights states current;
              chosen = best_index raised first rest
          in (Some chosen, raised[chosen := raised ! chosen - totalWeight]))"

section \<open>Largest remainder\<close>

record quota_plan =
  qp_actorId :: string
  qp_baseCount :: int
  qp_fractional :: rat

definition eligible_weights :: "weight_entry list \<Rightarrow> staff_state list \<Rightarrow> weight_entry list" where
  "eligible_weights weights states =
     filter (\<lambda>w. wt_recipientActorId w \<in> ss_actorId ` set (filter staff_eligible states) \<and> wt_weight w > 0) weights"

definition quota_of :: "(int \<Rightarrow> int \<Rightarrow> rat) \<Rightarrow> int \<Rightarrow> int \<Rightarrow> weight_entry \<Rightarrow> quota_plan" where
  "quota_of fdiv n totalW w =
     (let exact = fdiv (n * wt_weight w) totalW
      in \<lparr>qp_actorId = wt_recipientActorId w, qp_baseCount = \<lfloor>exact\<rfloor>,
          qp_fractional = exact - of_int \<lfloor>exact\<rfloor>\<rparr>)"

definition computeQuotaPlan ::
  "(int \<Rightarrow> int \<Rightarrow> rat) \<Rightarrow> int \<Rightarrow> weight_entry list \<Rightarrow> staff_state list \<Rightarrow> quota_plan list" where
  "computeQuotaPlan fdiv n weights states =
     (let eligible = eligible_weights weights states
      in if eligible = [] then []
         else
           let plans = map (quota_of fdiv n (total_weight eligible)) eligible;
               remainder = max 0 (n - sum_list (map qp_baseCount plans));
               sorted = sort_key (\<lambda>p. (- qp_fractional p, qp_actorId p)) plans
           in map (qp_baseCount_update (\<lambda>c. c + 1)) (take (nat remainder) sorted) @ drop (nat remainder) sorted)"

type_synonym batch_queue = "(string \<times> int) list"

definition planToQueue :: "quota_plan list \<Rightarrow> batch_queue" where
  "planToQueue plans = sort_key fst (map (\<lambda>p. (qp_actorId p, qp_baseCount p)) plans)"

fun index_where :: "('a \<Rightarrow> bool) \<Rightarrow> 'a list \<Rightarrow> nat option" where
  "index_where p [] = None"
| "index_where p (x # xs) = (if p x then Some 0 else map_option Suc (index_where p xs))"

fun batchPick :: "batch_queue \<Rightarrow> staff_state list \<Rightarrow> nat option \<times> batch_queue" where
  "batchPick [] states = (None, [])"
| "batchPick ((actorId, remaining) # queue) states =
     (let later = map_prod id ((#) (actorId, remaining)) (batchPick queue states)
      in if remaining \<le> 0 then later
         else case index_where (\<lambda>s. ss_actorId s = actorId) states of
           None \<Rightarrow> later
         | Some i \<Rightarrow>
             if \<not> staff_eligible (states ! i) then later
             else (Some i, (actorId, remaining - 1) # queue))"

section \<open>The simulation\<close>

record assignment_slot =
  as_customerIndex :: nat
  as_assigned :: bool
  as_staffActorId :: "string option"
  as_staffRole :: "string option"
  as_fallbackReason :: "fallback_reason option"

text \<open>What the loop changes; the queue and the current weights exist in one mode each.\<close>

record simulation =
  sm_states :: "staff_state list"
  sm_queue :: "batch_queue option"
  sm_current :: "int list option"

definition assign_to :: "staff_state \<Rightarrow> staff_state" where
  "assign_to s = s\<lparr>ss_currentCapacity := ss_currentCapacity s + 1,
                   ss_periodAssignments := ss_periodAssignments s + 1\<rparr>"

definition slot_of :: "nat \<Rightarrow> staff_state \<Rightarrow> assignment_slot" where
  "slot_of customerIndex s =
     \<lparr>as_customerIndex = customerIndex, as_assigned = True, as_staffActorId = Some (ss_actorId s),
      as_staffRole = Some (ss_role s), as_fallbackReason = None\<rparr>"

definition fallback_slot :: "nat \<Rightarrow> fallback_reason \<Rightarrow> assignment_slot" where
  "fallback_slot customerIndex reason =
     \<lparr>as_customerIndex = customerIndex, as_assigned = False, as_staffActorId = None,
      as_staffRole = None, as_fallbackReason = Some reason\<rparr>"

definition settle :: "nat \<Rightarrow> nat \<Rightarrow> simulation \<Rightarrow> assignment_slot \<times> simulation" where
  "settle customerIndex i sm =
     (slot_of customerIndex (sm_states sm ! i),
      sm\<lparr>sm_states := (sm_states sm)[i := assign_to (sm_states sm ! i)]\<rparr>)"

definition pick_staff ::
  "weight_entry list \<Rightarrow> int \<Rightarrow> simulation_mode \<Rightarrow> simulation \<Rightarrow> nat option \<times> simulation" where
  "pick_staff weights totalWeight mode sm =
     (case (mode, sm_queue sm, sm_current sm) of
        (BATCH, Some queue, _) \<Rightarrow>
          (let (chosen, queue') = batchPick queue (sm_states sm) in (chosen, sm\<lparr>sm_queue := Some queue'\<rparr>))
      | (REALTIME, _, Some current) \<Rightarrow>
          (let (chosen, current') = wrrPick weights totalWeight (sm_states sm) current
           in (chosen, sm\<lparr>sm_current := Some current'\<rparr>))
      | _ \<Rightarrow> (None, sm))"

definition assignOneCustomer ::
  "nat \<Rightarrow> routing_strategy \<Rightarrow> weight_entry list \<Rightarrow> int \<Rightarrow> simulation_mode \<Rightarrow> simulation \<Rightarrow>
   assignment_slot \<times> simulation" where
  "assignOneCustomer customerIndex strategy weights totalWeight mode sm =
     (if strategy = SOURCE_ALLOCATION then
        case index_where (\<lambda>s. ss_online s \<and> \<not> isAtCapacity s) (sm_states sm) of
          None \<Rightarrow> (fallback_slot customerIndex ALL_STAFF_OFFLINE, sm)
        | Some i \<Rightarrow> settle customerIndex i sm
      else if weights = [] \<or> totalWeight = 0 then (fallback_slot customerIndex WEIGHT_ZERO, sm)
      else
        let (chosen, sm') = pick_staff weights totalWeight mode sm
        in case chosen of
             None \<Rightarrow> (fallback_slot customerIndex (classifyFallback (sm_states sm')), sm')
           | Some i \<Rightarrow> settle customerIndex i sm')"

fun simulate_loop ::
  "nat list \<Rightarrow> routing_strategy \<Rightarrow> weight_entry list \<Rightarrow> int \<Rightarrow> simulation_mode \<Rightarrow> simulation \<Rightarrow>
   assignment_slot list \<times> simulation" where
  "simulate_loop [] strategy weights totalWeight mode sm = ([], sm)"
| "simulate_loop (i # rest) strategy weights totalWeight mode sm =
     (let (slot, sm') = assignOneCustomer i strategy weights totalWeight mode sm;
          (slots, sm'') = simulate_loop rest strategy weights totalWeight mode sm'
      in (slot # slots, sm''))"

record staff_summary =
  su_actorId :: string
  su_role :: string
  su_assignedCount :: int
  su_capacityUsed :: int
  su_capacityMax :: int
  su_quotaUsed :: int
  su_quotaMax :: int

definition summary_of :: "staff_state \<Rightarrow> staff_summary" where
  "summary_of s =
     \<lparr>su_actorId = ss_actorId s, su_role = ss_role s, su_assignedCount = ss_periodAssignments s,
      su_capacityUsed = ss_currentCapacity s, su_capacityMax = ss_maxCapacity s,
      su_quotaUsed = ss_periodAssignments s,
      su_quotaMax = (if ss_capPeriod s \<noteq> None then ss_periodCap s else 0)\<rparr>"

record simulation_result =
  sr_poolId :: string
  sr_poolVersion :: int
  sr_strategy :: routing_strategy
  sr_mode :: simulation_mode
  sr_customerCount :: nat
  sr_assignments :: "assignment_slot list"
  sr_fallbackQueue :: "assignment_slot list"
  sr_staffSummary :: "staff_summary list"
  sr_totalWeight :: int
  sr_seed :: int

definition start_simulation ::
  "(int \<Rightarrow> int \<Rightarrow> rat) \<Rightarrow> routing_strategy \<Rightarrow> weight_entry list \<Rightarrow> staff_state list \<Rightarrow> nat \<Rightarrow>
   simulation_mode \<Rightarrow> simulation" where
  "start_simulation fdiv strategy weights states count mode =
     \<lparr>sm_states = states,
      sm_queue = (if mode = BATCH \<and> strategy = WEIGHTED_DISTRIBUTION
                  then Some (planToQueue (computeQuotaPlan fdiv (int count) weights states)) else None),
      sm_current = (if mode = REALTIME \<and> strategy = WEIGHTED_DISTRIBUTION
                    then Some (map (\<lambda>_. 0) states) else None)\<rparr>"

end
