(* ===== verification/Routing_Facts.thy ===== *)
theory Routing_Facts
  imports Routing "HOL-Library.Multiset"
begin

text \<open>
  Facts about the simulator: what one customer changes, that caps are respected and customers
  conserved, the plan of the batch mode and the current weights of the realtime mode.
\<close>

section \<open>Choices\<close>

lemma eligible_indices_iff [simp]:
  "i \<in> set (eligible_indices states) \<longleftrightarrow> i < length states \<and> staff_eligible (states ! i)"
  by (auto simp: eligible_indices_def)

lemma best_index_in: "best_index current best is \<in> set (best # is)"
  by (induction current best "is" rule: best_index.induct) (auto split: if_splits)

lemma best_index_max: "\<forall>j \<in> set (best # is). current ! j \<le> current ! (best_index current best is)"
proof (induction current best "is" rule: best_index.induct)
  case (2 current best i rest)
  then show ?case by (cases "current ! i > current ! best") auto
qed simp

lemma wrrPick_chosen:
  "wrrPick weights t states current = (Some i, current') \<Longrightarrow> i < length states \<and> staff_eligible (states ! i)"
proof -
  assume w: "wrrPick weights t states current = (Some i, current')"
  then obtain first rest where e: "eligible_indices states = first # rest"
    by (cases "eligible_indices states") (simp_all add: wrrPick_def)
  then have "i = best_index (raise_weights weights states current) first rest"
    using w by (simp add: wrrPick_def Let_def)
  then have "i \<in> set (eligible_indices states)" unfolding e by (metis best_index_in)
  then show ?thesis by simp
qed

lemma index_where_Some: "index_where p xs = Some i \<Longrightarrow> i < length xs \<and> p (xs ! i)"
  by (induction xs arbitrary: i) (auto split: if_splits)

lemma index_where_None: "index_where p xs = None \<longleftrightarrow> (\<forall>x \<in> set xs. \<not> p x)"
  by (induction xs) auto

lemma batchPick_chosen:
  "batchPick queue states = (Some i, queue') \<Longrightarrow> i < length states \<and> staff_eligible (states ! i)"
  by (induction queue states arbitrary: i queue' rule: batchPick.induct)
     (auto simp: Let_def map_prod_def split: if_splits option.splits prod.splits dest: index_where_Some)

lemma pick_staff_states [simp]: "sm_states (snd (pick_staff weights t mode sm)) = sm_states sm"
  by (simp add: pick_staff_def split: simulation_mode.splits option.splits prod.splits)

lemma pick_staff_chosen:
  "fst (pick_staff weights t mode sm) = Some i \<Longrightarrow> i < length (sm_states sm) \<and> staff_eligible (sm_states sm ! i)"
  by (auto simp: pick_staff_def split: simulation_mode.splits option.splits prod.splits
      dest: wrrPick_chosen batchPick_chosen)

section \<open>One customer\<close>

text \<open>A customer goes to one member of the staff that may be chosen, or to the fallback.\<close>

definition may_choose :: "routing_strategy \<Rightarrow> staff_state \<Rightarrow> bool" where
  "may_choose strategy s \<longleftrightarrow>
     (if strategy = SOURCE_ALLOCATION then ss_online s \<and> \<not> isAtCapacity s else staff_eligible s)"

lemma assign_cases:
  assumes "assignOneCustomer n strategy weights t mode sm = (slot, sm')"
  obtains (fallback) reason where "slot = fallback_slot n reason" "sm_states sm' = sm_states sm"
  | (assigned) i where "i < length (sm_states sm)" "may_choose strategy (sm_states sm ! i)"
      "slot = slot_of n (sm_states sm ! i)" "sm_states sm' = (sm_states sm)[i := assign_to (sm_states sm ! i)]"
proof (cases "strategy = SOURCE_ALLOCATION")
  case True
  show thesis
  proof (cases "index_where (\<lambda>s. ss_online s \<and> \<not> isAtCapacity s) (sm_states sm)")
    case None
    then show thesis using assms True fallback by (auto simp: assignOneCustomer_def)
  next
    case (Some i)
    then show thesis using assms True assigned [of i] index_where_Some [OF Some]
      by (auto simp: assignOneCustomer_def settle_def may_choose_def)
  qed
next
  case False
  show thesis
  proof (cases "weights = [] \<or> t = 0")
    case True
    then show thesis using assms False fallback by (auto simp: assignOneCustomer_def)
  next
    case w: False
    obtain c sm1 where p: "pick_staff weights t mode sm = (c, sm1)" by fastforce
    then have s: "sm_states sm1 = sm_states sm" by (metis pick_staff_states snd_conv)
    show thesis
    proof (cases c)
      case None
      then show thesis using assms False w p s fallback by (auto simp: assignOneCustomer_def)
    next
      case (Some i)
      then have "i < length (sm_states sm) \<and> staff_eligible (sm_states sm ! i)"
        using pick_staff_chosen [of weights t mode sm i] p by simp
      then show thesis using assms False w p s Some assigned [of i]
        by (auto simp: assignOneCustomer_def settle_def may_choose_def)
    qed
  qed
qed

text \<open>What never changes of a member of the staff.\<close>

definition profile_of :: "staff_state \<Rightarrow> string \<times> string \<times> bool \<times> int \<times> int \<times> cap_period option" where
  "profile_of s =
     (ss_actorId s, ss_role s, ss_online s, ss_maxCapacity s, ss_periodCap s, ss_capPeriod s)"

lemma profile_assign [simp]: "profile_of (assign_to s) = profile_of s"
  by (simp add: profile_of_def assign_to_def)

lemma assign_profiles:
  assumes "assignOneCustomer n strategy weights t mode sm = (slot, sm')"
  shows "map profile_of (sm_states sm') = map profile_of (sm_states sm)"
  using assms
proof (cases rule: assign_cases)
  case (assigned i)
  then show ?thesis by (metis list_update_id map_update profile_assign)
qed simp

lemma loop_profiles:
  "simulate_loop ns strategy weights t mode sm = (slots, sm') \<Longrightarrow>
     map profile_of (sm_states sm') = map profile_of (sm_states sm) \<and> map as_customerIndex slots = ns"
proof (induction ns arbitrary: sm slots sm')
  case (Cons n ns)
  obtain slot sm1 where a: "assignOneCustomer n strategy weights t mode sm = (slot, sm1)" by fastforce
  obtain slots1 sm2 where l: "simulate_loop ns strategy weights t mode sm1 = (slots1, sm2)" by fastforce
  have r: "slots = slot # slots1" "sm' = sm2" using Cons.prems a l by simp_all
  from a have "as_customerIndex slot = n"
    by (cases rule: assign_cases) (simp_all add: fallback_slot_def slot_of_def)
  then show ?case using Cons.IH [OF l] assign_profiles [OF a] by (simp add: r)
qed simp

lemma same_profile:
  "map profile_of xs = map profile_of ys \<Longrightarrow> i < length ys \<Longrightarrow>
     length xs = length ys \<and> profile_of (xs ! i) = profile_of (ys ! i)"
  by (metis length_map nth_map)

section \<open>Customers are conserved\<close>

definition assigned_to :: "string \<Rightarrow> assignment_slot list \<Rightarrow> nat" where
  "assigned_to actor slots = length (filter (\<lambda>slot. as_staffActorId slot = Some actor) slots)"

lemma loop_counts:
  assumes "simulate_loop ns strategy weights t mode sm = (slots, sm')"
    and "distinct (map ss_actorId (sm_states sm))" and "i < length (sm_states sm)"
  shows "ss_periodAssignments (sm_states sm' ! i) =
      ss_periodAssignments (sm_states sm ! i) + int (assigned_to (ss_actorId (sm_states sm ! i)) slots) \<and>
    ss_currentCapacity (sm_states sm' ! i) =
      ss_currentCapacity (sm_states sm ! i) + int (assigned_to (ss_actorId (sm_states sm ! i)) slots)"
  using assms
proof (induction ns arbitrary: sm slots sm')
  case (Cons n ns)
  obtain slot sm1 where a: "assignOneCustomer n strategy weights t mode sm = (slot, sm1)" by fastforce
  obtain slots1 sm2 where l: "simulate_loop ns strategy weights t mode sm1 = (slots1, sm2)" by fastforce
  have r: "slots = slot # slots1" "sm' = sm2" using Cons.prems(1) a l by simp_all
  have p: "map profile_of (sm_states sm1) = map profile_of (sm_states sm)" by (rule assign_profiles [OF a])
  have ids: "map ss_actorId (sm_states sm1) = map ss_actorId (sm_states sm)"
    using arg_cong [OF p, of "map fst"] by (simp add: profile_of_def comp_def)
  have len: "length (sm_states sm1) = length (sm_states sm)" using ids by (metis length_map)
  have id: "ss_actorId (sm_states sm1 ! i) = ss_actorId (sm_states sm ! i)"
    using ids len Cons.prems(3) by (metis nth_map)
  note ih = Cons.IH [OF l, unfolded ids len id, OF Cons.prems(2,3)]
  from a show ?case
  proof (cases rule: assign_cases)
    case (fallback reason)
    then show ?thesis using ih by (simp add: r assigned_to_def fallback_slot_def)
  next
    case (assigned j)
    have "ss_actorId (sm_states sm ! j) = ss_actorId (sm_states sm ! i) \<longleftrightarrow> j = i"
      using Cons.prems(2,3) assigned(1) by (metis length_map nth_eq_iff_index_eq nth_map)
    then show ?thesis using ih assigned Cons.prems(3)
      by (auto simp: r assigned_to_def slot_of_def assign_to_def nth_list_update)
  qed
qed (simp add: assigned_to_def)

section \<open>Caps\<close>

definition within_caps :: "routing_strategy \<Rightarrow> staff_state \<Rightarrow> bool" where
  "within_caps strategy s \<longleftrightarrow>
     ss_currentCapacity s \<le> ss_maxCapacity s \<and>
     (strategy \<noteq> SOURCE_ALLOCATION \<longrightarrow> ss_capPeriod s \<noteq> None \<longrightarrow> ss_periodCap s \<noteq> 0 \<longrightarrow>
        ss_periodAssignments s \<le> ss_periodCap s)"

lemma assign_within: "may_choose strategy s \<Longrightarrow> within_caps strategy s \<Longrightarrow> within_caps strategy (assign_to s)"
  by (auto simp: may_choose_def within_caps_def assign_to_def staff_eligible_def isAtCapacity_def isQuotaExhausted_def
      split: if_splits)

lemma loop_within:
  "simulate_loop ns strategy weights t mode sm = (slots, sm') \<Longrightarrow> list_all (within_caps strategy) (sm_states sm) \<Longrightarrow>
     list_all (within_caps strategy) (sm_states sm')"
proof (induction ns arbitrary: sm slots sm')
  case (Cons n ns)
  obtain slot sm1 where a: "assignOneCustomer n strategy weights t mode sm = (slot, sm1)" by fastforce
  obtain slots1 sm2 where l: "simulate_loop ns strategy weights t mode sm1 = (slots1, sm2)" by fastforce
  from a have "list_all (within_caps strategy) (sm_states sm1)"
  proof (cases rule: assign_cases)
    case (assigned i)
    then show ?thesis using Cons.prems(2) assign_within [OF assigned(2)]
      by (auto simp: list_all_length nth_list_update)
  qed (use Cons.prems(2) in simp)
  then show ?case using Cons.IH [OF l] Cons.prems(1) a l by simp
qed simp


section \<open>The realtime mode\<close>

text \<open>The member of the staff can take that many more customers.\<close>

definition room :: "int \<Rightarrow> staff_state \<Rightarrow> bool" where
  "room n s \<longleftrightarrow>
     ss_online s \<and> ss_currentCapacity s + n \<le> ss_maxCapacity s \<and>
     (ss_capPeriod s = None \<or> ss_periodCap s = 0 \<or> ss_periodAssignments s + n \<le> ss_periodCap s)"

lemma room_eligible: "room n s \<Longrightarrow> 0 < n \<Longrightarrow> staff_eligible s"
  by (auto simp: room_def staff_eligible_def isAtCapacity_def isQuotaExhausted_def)

lemma room_less: "room n s \<Longrightarrow> m \<le> n \<Longrightarrow> room m s"
  by (auto simp: room_def)

lemma room_assign: "room (n + 1) s \<Longrightarrow> room n (assign_to s)"
  by (auto simp: room_def assign_to_def)

lemma room_update:
  assumes "list_all (room (n + 1)) states" and "i < length states"
  shows "list_all (room n) (states[i := assign_to (states ! i)])"
proof -
  have "room n (states[i := assign_to (states ! i)] ! j)" if "j < length states" for j
    using assms that room_assign room_less [of "n + 1" _ n] by (cases "j = i") (auto simp: list_all_length)
  then show ?thesis by (simp add: list_all_length)
qed

lemma sum_update: "i < length xs \<Longrightarrow> sum_list (xs[i := x]) = sum_list xs + x - (xs ! i :: int)"
  by (induction xs arbitrary: i) (auto split: nat.splits)

lemma weight_assign [simp]: "weight_for weights (assign_to s) = weight_for weights s"
  by (simp add: weight_for_def assign_to_def)

lemma all_eligible_indices: "list_all staff_eligible states \<Longrightarrow> eligible_indices states = [0..<length states]"
  by (simp add: eligible_indices_def list_all_length filter_id_conv)

lemma raise_all:
  "list_all staff_eligible states \<Longrightarrow> length current = length states \<Longrightarrow> i < length states \<Longrightarrow>
     raise_weights weights states current ! i = current ! i + weight_for weights (states ! i)"
  by (simp add: raise_weights_def list_all_length)

lemma sum_raise:
  "list_all staff_eligible states \<Longrightarrow> length current = length states \<Longrightarrow>
     sum_list (raise_weights weights states current) = sum_list current + sum_list (map (weight_for weights) states)"
  unfolding raise_weights_def
proof (induction states arbitrary: current)
  case (Cons s states)
  then show ?case by (cases current) simp_all
qed simp

text \<open>One pick while everybody is eligible: the weights stay balanced and none falls to minus
  the total.\<close>

lemma wrr_step:
  assumes e: "list_all staff_eligible states" and len: "length current = length states"
    and sum: "sum_list current = 0" and low: "\<forall>i < length states. - t < current ! i"
    and w: "\<forall>s \<in> set states. 0 \<le> weight_for weights s" "sum_list (map (weight_for weights) states) = t" "0 < t"
  shows "\<exists>i current'. wrrPick weights t states current = (Some i, current') \<and> i < length states \<and>
    length current' = length states \<and> sum_list current' = 0 \<and> (\<forall>j < length states. - t < current' ! j) \<and>
    (\<forall>j < length states. current' ! j = current ! j + weight_for weights (states ! j) - (if j = i then t else 0))"
proof -
  let ?r = "raise_weights weights states current"
  have r: "length ?r = length states" using len by (simp add: raise_weights_def)
  have ne: "states \<noteq> []" using w(2,3) by auto
  then obtain first rest where idx: "[0..<length states] = first # rest" by (cases "[0..<length states]") auto
  define i where "i = best_index ?r first rest"
  have "i \<in> set [0..<length states]" unfolding i_def idx by (rule best_index_in)
  then have i: "i < length states" by simp
  have max: "?r ! j \<le> ?r ! i" if "j < length states" for j
    using best_index_max [of first rest ?r] that unfolding i_def idx [symmetric] by simp
  have total: "sum_list ?r = t" using sum_raise [OF e len] sum w(2) by simp
  have "0 < ?r ! i"
  proof (rule ccontr)
    assume "\<not> 0 < ?r ! i"
    then have "?r ! j \<le> 0" if "j < length states" for j using max [OF that] by linarith
    then have "\<forall>x \<in> set ?r. x \<le> 0" using r by (auto simp: in_set_conv_nth)
    then have "sum_list ?r \<le> 0" by (simp add: sum_list_nonpos)
    then show False using total w(3) by simp
  qed
  moreover have "wrrPick weights t states current = (Some i, ?r[i := ?r ! i - t])"
    using all_eligible_indices [OF e] idx by (simp add: wrrPick_def Let_def i_def)
  moreover have "sum_list (?r[i := ?r ! i - t]) = 0" using i r total by (simp add: sum_update)
  moreover have "- t < ?r[i := ?r ! i - t] ! j" if "j < length states" for j
    using that low w(1) calculation(1) raise_all [OF e len that] r
    by (cases "j = i") (auto simp: nth_list_update intro: less_le_trans)
  ultimately show ?thesis using i r raise_all [OF e len]
    by (intro exI [of _ i] exI [of _ "?r[i := ?r ! i - t]"]) (auto simp: nth_list_update)
qed

lemma wrr_loop:
  assumes "simulate_loop ns WEIGHTED_DISTRIBUTION weights t REALTIME sm = (slots, sm')"
    and "sm_current sm = Some current" and "length current = length (sm_states sm)" and "weights \<noteq> []"
    and "list_all (room (int (length ns))) (sm_states sm)" and "distinct (map ss_actorId (sm_states sm))"
    and "sum_list current = 0" and "\<forall>i < length (sm_states sm). - t < current ! i"
    and "\<forall>s \<in> set (sm_states sm). 0 \<le> weight_for weights s"
    and "sum_list (map (weight_for weights) (sm_states sm)) = t" and "0 < t"
  shows "list_all as_assigned slots \<and>
    (\<exists>current'. sum_list current' = 0 \<and> length current' = length (sm_states sm) \<and>
       (\<forall>i < length (sm_states sm). - t < current' ! i \<and>
          current' ! i = current ! i + int (length ns) * weight_for weights (sm_states sm ! i) -
            t * int (assigned_to (ss_actorId (sm_states sm ! i)) slots)))"
  using assms
proof (induction ns arbitrary: sm slots sm' current)
  case Nil
  then show ?case by (auto simp: assigned_to_def)
next
  case (Cons n ns)
  have e: "list_all staff_eligible (sm_states sm)"
    using Cons.prems(5) by (auto simp: list_all_iff intro: room_eligible)
  obtain i c1 where p: "wrrPick weights t (sm_states sm) current = (Some i, c1)" and i: "i < length (sm_states sm)"
      and c1: "length c1 = length (sm_states sm)" "sum_list c1 = 0" "\<forall>j < length (sm_states sm). - t < c1 ! j"
        "\<forall>j < length (sm_states sm). c1 ! j = current ! j + weight_for weights (sm_states sm ! j) - (if j = i then t else 0)"
    using wrr_step [OF e Cons.prems(3,7,8,9,10,11)] by blast
  define sm1 where "sm1 = sm\<lparr>sm_states := (sm_states sm)[i := assign_to (sm_states sm ! i)], sm_current := Some c1\<rparr>"
  have a: "assignOneCustomer n WEIGHTED_DISTRIBUTION weights t REALTIME sm = (slot_of n (sm_states sm ! i), sm1)"
    using p Cons.prems(2,4,11) by (simp add: assignOneCustomer_def pick_staff_def settle_def sm1_def)
  obtain slots1 where l: "simulate_loop ns WEIGHTED_DISTRIBUTION weights t REALTIME sm1 = (slots1, sm')"
      and slots: "slots = slot_of n (sm_states sm ! i) # slots1"
    using Cons.prems(1) a by (auto split: prod.splits)
  have ids: "map ss_actorId (sm_states sm1) = map ss_actorId (sm_states sm)"
    using i by (simp add: sm1_def map_update assign_to_def list_update_same_conv)
  have ws: "map (weight_for weights) (sm_states sm1) = map (weight_for weights) (sm_states sm)"
    using i by (simp add: sm1_def map_update list_update_same_conv)
  have len: "length (sm_states sm1) = length (sm_states sm)" by (simp add: sm1_def)
  have at: "weight_for weights (sm_states sm1 ! j) = weight_for weights (sm_states sm ! j)"
      "ss_actorId (sm_states sm1 ! j) = ss_actorId (sm_states sm ! j)" if "j < length (sm_states sm)" for j
    using that ids ws len by (metis nth_map)+
  have room: "list_all (room (int (length ns))) (sm_states sm1)"
    by (simp add: sm1_def) (rule room_update [OF _ i], use Cons.prems(5) in \<open>simp add: add.commute\<close>)
  have nonneg: "\<forall>s \<in> set (sm_states sm1). 0 \<le> weight_for weights s"
    using Cons.prems(9) ws by (metis (no_types, lifting) in_set_conv_nth length_map nth_map)
  have "list_all as_assigned slots1 \<and>
    (\<exists>c2. sum_list c2 = 0 \<and> length c2 = length (sm_states sm1) \<and>
       (\<forall>j < length (sm_states sm1). - t < c2 ! j \<and>
          c2 ! j = c1 ! j + int (length ns) * weight_for weights (sm_states sm1 ! j) -
            t * int (assigned_to (ss_actorId (sm_states sm1 ! j)) slots1)))"
  proof (rule Cons.IH [OF l])
    show "distinct (map ss_actorId (sm_states sm1))" unfolding ids by (rule Cons.prems(6))
    show "sum_list (map (weight_for weights) (sm_states sm1)) = t" unfolding ws by (rule Cons.prems(10))
    show "sm_current sm1 = Some c1" by (simp add: sm1_def)
    show "\<forall>s \<in> set (sm_states sm1). 0 \<le> weight_for weights s" by (rule nonneg)
    show "\<forall>j < length (sm_states sm1). - t < c1 ! j" using c1(3) unfolding len .
  qed (use len c1(1,2) Cons.prems(4,11) room in simp_all)
  then obtain c2 where c2: "list_all as_assigned slots1" "sum_list c2 = 0" "length c2 = length (sm_states sm)"
      "\<And>j. j < length (sm_states sm) \<Longrightarrow> - t < c2 ! j \<and> c2 ! j = c1 ! j +
        int (length ns) * weight_for weights (sm_states sm ! j) -
          t * int (assigned_to (ss_actorId (sm_states sm ! j)) slots1)"
    using at unfolding len by auto
  have "int (assigned_to (ss_actorId (sm_states sm ! j)) slots) =
      int (assigned_to (ss_actorId (sm_states sm ! j)) slots1) + (if j = i then 1 else 0)"
    if "j < length (sm_states sm)" for j
  proof -
    have "ss_actorId (sm_states sm ! i) = ss_actorId (sm_states sm ! j) \<longleftrightarrow> j = i"
      using Cons.prems(6) that i by (metis length_map nth_eq_iff_index_eq nth_map)
    then show ?thesis by (auto simp: slots assigned_to_def slot_of_def)
  qed
  then have "- t < c2 ! j \<and> c2 ! j = current ! j + int (length (n # ns)) * weight_for weights (sm_states sm ! j) -
      t * int (assigned_to (ss_actorId (sm_states sm ! j)) slots)" if "j < length (sm_states sm)" for j
    using c2(4) [OF that] c1(4) that by (auto simp: algebra_simps)
  moreover have "list_all as_assigned slots" using c2(1) by (simp add: slots slot_of_def)
  ultimately show ?case using c2(2,3) by blast
qed


section \<open>The batch mode\<close>

text \<open>The plan gives every eligible recipient the whole part of its quota or one more, hands out
  every customer, and gives the extra ones to the largest fractions.\<close>

lemma sum_div_bounds:
  fixes ws :: "int list"
  assumes "0 < t" and "list_all (\<lambda>w. 0 \<le> w) ws" and "ws \<noteq> []"
  shows "t * sum_list (map (\<lambda>w. n * w div t) ws) \<le> n * sum_list ws"
    and "n * sum_list ws < t * (sum_list (map (\<lambda>w. n * w div t) ws) + int (length ws))"
proof -
  have lo: "t * (x div t) \<le> x" for x :: int using assms(1) by (simp add: minus_mod_eq_mult_div [symmetric])
  have hi: "x < t * (x div t + 1)" for x :: int
    using pos_mod_bound [OF assms(1), of x] by (simp add: algebra_simps minus_mod_eq_mult_div [symmetric])
  show "t * sum_list (map (\<lambda>w. n * w div t) ws) \<le> n * sum_list ws"
  proof (induction ws)
    case (Cons w ws)
    then show ?case using lo [of "n * w"] by (simp add: algebra_simps)
  qed simp
  have "ws \<noteq> [] \<Longrightarrow> n * sum_list ws < t * (sum_list (map (\<lambda>w. n * w div t) ws) + int (length ws))"
  proof (induction ws)
    case (Cons w ws)
    then show ?case using hi [of "n * w"] by (cases "ws = []") (auto simp: algebra_simps)
  qed simp
  then show "n * sum_list ws < t * (sum_list (map (\<lambda>w. n * w div t) ws) + int (length ws))" using assms(3) by simp
qed

lemma total_positive: "eligible_weights weights states \<noteq> [] \<Longrightarrow> 0 < total_weight (eligible_weights weights states)"
proof -
  assume ne: "eligible_weights weights states \<noteq> []"
  have pos: "0 < wt_weight w" if "w \<in> set (eligible_weights weights states)" for w
    using that by (simp add: eligible_weights_def)
  obtain w ws where e: "eligible_weights weights states = w # ws" using ne by (cases "eligible_weights weights states") auto
  then have "0 \<le> sum_list (map wt_weight ws)" using pos by (intro sum_list_nonneg) (auto intro: less_imp_le)
  moreover have "0 < wt_weight w" using pos e by simp
  ultimately show "0 < total_weight (eligible_weights weights states)" by (simp add: total_weight_def e)
qed

text \<open>The doubles carry the whole part of the quotas.\<close>

definition exact_division :: "(int \<Rightarrow> int \<Rightarrow> rat) \<Rightarrow> int \<Rightarrow> weight_entry list \<Rightarrow> bool" where
  "exact_division fdiv n ws \<longleftrightarrow>
     list_all (\<lambda>w. \<lfloor>fdiv (n * wt_weight w) (total_weight ws)\<rfloor> = n * wt_weight w div total_weight ws) ws"

definition sorted_plans :: "(int \<Rightarrow> int \<Rightarrow> rat) \<Rightarrow> int \<Rightarrow> weight_entry list \<Rightarrow> quota_plan list" where
  "sorted_plans fdiv n ws =
     sort_key (\<lambda>p. (- qp_fractional p, qp_actorId p)) (map (quota_of fdiv n (total_weight ws)) ws)"

definition extra_customers :: "int \<Rightarrow> weight_entry list \<Rightarrow> int" where
  "extra_customers n ws = n - sum_list (map (\<lambda>w. n * wt_weight w div total_weight ws) ws)"

lemma extra_bounds:
  assumes "0 < total_weight ws" and "list_all (\<lambda>w. 0 < wt_weight w) ws"
  shows "0 \<le> extra_customers n ws" "extra_customers n ws < int (length ws)"
proof -
  let ?t = "total_weight ws" and ?ws = "map wt_weight ws"
  have ne: "ws \<noteq> []" using assms(1) by (auto simp: total_weight_def)
  have nonneg: "list_all (\<lambda>w. 0 \<le> w) ?ws" using assms(2) by (auto simp: list_all_iff intro: less_imp_le)
  have t: "sum_list ?ws = ?t" by (simp add: total_weight_def)
  note b = sum_div_bounds [OF assms(1) nonneg, of n, unfolded t]
  have "?t * sum_list (map (\<lambda>w. n * w div ?t) ?ws) \<le> ?t * n" using b(1) ne by (simp add: mult.commute)
  then have 1: "sum_list (map (\<lambda>w. n * w div ?t) ?ws) \<le> n" using assms(1) by simp
  have "?t * n < ?t * (sum_list (map (\<lambda>w. n * w div ?t) ?ws) + int (length ?ws))" using b(2) ne by (simp add: mult.commute)
  then have 2: "n < sum_list (map (\<lambda>w. n * w div ?t) ?ws) + int (length ?ws)"
    using assms(1) by (simp only: mult_less_cancel_left_pos)
  show "0 \<le> extra_customers n ws" "extra_customers n ws < int (length ws)"
    using 1 2 by (simp_all add: extra_customers_def comp_def)
qed

lemma plan_result:
  assumes "ws = eligible_weights weights states" and "ws \<noteq> []" and "exact_division fdiv n ws"
  shows "computeQuotaPlan fdiv n weights states =
    map (qp_baseCount_update (\<lambda>c. c + 1)) (take (nat (extra_customers n ws)) (sorted_plans fdiv n ws)) @
    drop (nat (extra_customers n ws)) (sorted_plans fdiv n ws)"
proof -
  have t: "0 < total_weight ws" using total_positive assms(1,2) by simp
  have "list_all (\<lambda>w. 0 < wt_weight w) ws" by (simp add: assms(1) eligible_weights_def list_all_iff)
  then have "0 \<le> extra_customers n ws" by (rule extra_bounds(1) [OF t])
  moreover have "map qp_baseCount (map (quota_of fdiv n (total_weight ws)) ws) =
      map (\<lambda>w. n * wt_weight w div total_weight ws) ws"
    using assms(3) by (simp add: exact_division_def list_all_iff quota_of_def Let_def)
  ultimately show ?thesis using assms(1,2)
    by (simp add: computeQuotaPlan_def Let_def sorted_plans_def extra_customers_def max_def comp_def
        del: map_map)
qed


lemma sorted_plans_mset: "mset (sorted_plans fdiv n ws) = mset (map (quota_of fdiv n (total_weight ws)) ws)"
  by (simp add: sorted_plans_def)

lemma sum_increments: "sum_list (map qp_baseCount (map (qp_baseCount_update (\<lambda>c. c + 1)) ps)) =
    sum_list (map qp_baseCount ps) + int (length ps)"
  by (induction ps) simp_all

lemma plan_parts:
  assumes ws: "ws = eligible_weights weights states" "ws \<noteq> []" and fl: "exact_division fdiv n ws"
  obtains big small where "mset (big @ small) = mset (map (quota_of fdiv n (total_weight ws)) ws)"
    "computeQuotaPlan fdiv n weights states = map (qp_baseCount_update (\<lambda>c. c + 1)) big @ small"
    "\<And>p q. p \<in> set big \<Longrightarrow> q \<in> set small \<Longrightarrow> qp_fractional q \<le> qp_fractional p"
    "sum_list (map qp_baseCount (computeQuotaPlan fdiv n weights states)) = n"
proof -
  let ?k = "nat (extra_customers n ws)" and ?s = "sorted_plans fdiv n ws"
  have "list_all (\<lambda>w. 0 < wt_weight w) ws" by (simp add: ws(1) eligible_weights_def list_all_iff)
  then have k: "0 \<le> extra_customers n ws" "?k \<le> length ?s"
    using extra_bounds [of ws n] total_positive ws by (auto simp: sorted_plans_def)
  have m: "mset (take ?k ?s @ drop ?k ?s) = mset (map (quota_of fdiv n (total_weight ws)) ws)"
    by (simp add: sorted_plans_mset del: mset_append mset_map)
  have "sorted (map (\<lambda>p. (- qp_fractional p, qp_actorId p)) ?s)" by (simp add: sorted_plans_def)
  then have "sorted (map (\<lambda>p. (- qp_fractional p, qp_actorId p)) (take ?k ?s @ drop ?k ?s))" by simp
  then have o: "qp_fractional q \<le> qp_fractional p" if "p \<in> set (take ?k ?s)" "q \<in> set (drop ?k ?s)" for p q
    using that unfolding map_append sorted_append by (fastforce simp: less_eq_prod_def)
  have "sum_list (map qp_baseCount ?s) = sum_list (map qp_baseCount (map (quota_of fdiv n (total_weight ws)) ws))"
    using sorted_plans_mset by (metis mset_map sum_mset_sum_list)
  also have "\<dots> = sum_list (map (\<lambda>w. n * wt_weight w div total_weight ws) ws)"
    using fl by (intro arg_cong [of _ _ sum_list]) (simp add: exact_division_def list_all_iff quota_of_def Let_def)
  finally have base: "sum_list (map qp_baseCount ?s) = n - extra_customers n ws" by (simp add: extra_customers_def)
  have "sum_list (map qp_baseCount (computeQuotaPlan fdiv n weights states)) =
      sum_list (map qp_baseCount (take ?k ?s)) + int (length (take ?k ?s)) + sum_list (map qp_baseCount (drop ?k ?s))"
    unfolding plan_result [OF ws fl] by (simp only: map_append sum_list_append sum_increments)
  also have "\<dots> = sum_list (map qp_baseCount (take ?k ?s @ drop ?k ?s)) + int ?k"
    unfolding map_append sum_list_append using k(2) by simp
  finally have "sum_list (map qp_baseCount (computeQuotaPlan fdiv n weights states)) = n" using base k(1) by (simp del: map_append)
  then show thesis using that [OF m plan_result [OF ws fl] o] by blast
qed

text \<open>The queue of the plan can be served: each entry has a member of the staff with room for it.\<close>

definition queue_ok :: "batch_queue \<Rightarrow> staff_state list \<Rightarrow> bool" where
  "queue_ok queue states \<longleftrightarrow>
     distinct (map fst queue) \<and>
     (\<forall>(actor, left) \<in> set queue. 0 \<le> left \<and> (\<exists>s \<in> set states. ss_actorId s = actor \<and> room left s))"

lemma index_of_actor:
  assumes "distinct (map ss_actorId states)" and "s \<in> set states"
  shows "\<exists>i < length states. index_where (\<lambda>x. ss_actorId x = ss_actorId s) states = Some i \<and> states ! i = s"
proof -
  obtain i where i: "index_where (\<lambda>x. ss_actorId x = ss_actorId s) states = Some i"
    using assms(2) index_where_None [of "\<lambda>x. ss_actorId x = ss_actorId s" states] by (metis not_None_eq)
  then have "i < length states" "ss_actorId (states ! i) = ss_actorId s" using index_where_Some by fast+
  moreover have "states ! i = s"
    using distinct_key_eq [OF assms(1) nth_mem [OF calculation(1)] assms(2)] calculation(2) by simp
  ultimately show ?thesis using i by blast
qed

lemma batchPick_served:
  assumes d: "distinct (map ss_actorId states)" and "queue_ok queue states" and "\<exists>(a, r) \<in> set queue. 0 < r"
  shows "\<exists>pre r post i. queue = pre @ (ss_actorId (states ! i), r) # post \<and> 0 < r \<and> i < length states \<and>
    batchPick queue states = (Some i, pre @ (ss_actorId (states ! i), r - 1) # post)"
  using assms(2,3)
proof (induction queue)
  case (Cons e queue)
  obtain a r where e: "e = (a, r)" by fastforce
  show ?case
  proof (cases "r \<le> 0")
    case True
    have "queue_ok queue states" using Cons.prems(1) by (simp add: queue_ok_def)
    then obtain pre r' post i where "queue = pre @ (ss_actorId (states ! i), r') # post" "0 < r'" "i < length states"
        "batchPick queue states = (Some i, pre @ (ss_actorId (states ! i), r' - 1) # post)"
      using Cons.IH Cons.prems(2) True e by auto
    then show ?thesis using True e by (intro exI [of _ "e # pre"]) auto
  next
    case False
    obtain s where s: "s \<in> set states" "ss_actorId s = a" "room r s" using Cons.prems(1) e by (auto simp: queue_ok_def)
    obtain i where i: "i < length states" "index_where (\<lambda>x. ss_actorId x = a) states = Some i" "states ! i = s"
      using index_of_actor [OF d s(1)] s(2) by auto
    have "staff_eligible s" using room_eligible [OF s(3)] False by simp
    then show ?thesis using False e i s(2) by (intro exI [of _ "[]"] exI [of _ r] exI [of _ queue] exI [of _ i]) simp
  qed
qed simp

lemma queue_after:
  assumes d: "distinct (map ss_actorId states)" and q: "queue_ok (pre @ (ss_actorId (states ! i), r) # post) states"
    and r: "0 < r" and i: "i < length states"
  shows "queue_ok (pre @ (ss_actorId (states ! i), r - 1) # post) (states[i := assign_to (states ! i)])"
proof -
  let ?a = "ss_actorId (states ! i)" and ?new = "states[i := assign_to (states ! i)]"
  have dq: "distinct (map fst (pre @ (?a, r) # post))" using q by (simp add: queue_ok_def)
  have served: "\<exists>s \<in> set states. ss_actorId s = actor \<and> room left s" "0 \<le> left"
    if "(actor, left) \<in> set (pre @ (?a, r) # post)" for actor left
    using q that unfolding queue_ok_def by blast+
  have others: "\<exists>s \<in> set ?new. ss_actorId s = actor \<and> room left s"
    if e: "(actor, left) \<in> set pre \<union> set post" for actor left
  proof -
    obtain s where s: "s \<in> set states" "ss_actorId s = actor" "room left s"
      using served(1) [of actor left] e by auto
    have "actor \<noteq> ?a" using dq e by (force simp: image_iff)
    then obtain j where j: "j < length states" "states ! j = s" "j \<noteq> i" using s by (auto simp: in_set_conv_nth)
    then have "?new ! j = s" by simp
    then show ?thesis using s j by (metis length_list_update nth_mem)
  qed
  have own: "\<exists>s \<in> set ?new. ss_actorId s = ?a \<and> room (r - 1) s"
  proof -
    obtain s where s: "s \<in> set states" "ss_actorId s = ?a" "room r s" using served [of ?a r] by auto
    then have "s = states ! i" using distinct_key_eq [OF d s(1) nth_mem [OF i]] by simp
    then have "room (r - 1) (assign_to (states ! i))" using room_assign [of "r - 1"] s(3) by simp
    moreover have "assign_to (states ! i) \<in> set ?new" using i by (rule set_update_memI)
    ultimately show ?thesis by (intro bexI [of _ "assign_to (states ! i)"]) (simp_all add: assign_to_def)
  qed
  have e: "0 \<le> left \<and> (\<exists>s \<in> set ?new. ss_actorId s = actor \<and> room left s)"
    if m: "(actor, left) \<in> set (pre @ (?a, r - 1) # post)" for actor left
  proof (cases "(actor, left) = (?a, r - 1)")
    case True
    then show ?thesis using own r by simp
  next
    case False
    then have "(actor, left) \<in> set pre \<union> set post" using m by auto
    then show ?thesis using others [of actor left] served(2) [of actor left] by auto
  qed
  show ?thesis unfolding queue_ok_def
  proof (intro conjI ballI case_prodI2)
    show "distinct (map fst (pre @ (?a, r - 1) # post))" using dq by simp
  qed (use e in blast)+
qed

lemma sum_positive: "0 < sum_list (map snd (queue :: batch_queue)) \<Longrightarrow> \<exists>(a, r) \<in> set queue. 0 < r"
proof (rule ccontr)
  assume "0 < sum_list (map snd queue)" "\<not> (\<exists>(a, r) \<in> set queue. 0 < r)"
  moreover have "sum_list (map snd queue) \<le> 0"
    using calculation(2) by (intro sum_list_nonpos) (force simp: not_less)
  ultimately show False by simp
qed

lemma batch_loop:
  assumes "simulate_loop ns WEIGHTED_DISTRIBUTION weights t BATCH sm = (slots, sm')"
    and "sm_queue sm = Some queue" and "weights \<noteq> []" and "t \<noteq> 0"
    and "distinct (map ss_actorId (sm_states sm))" and "queue_ok queue (sm_states sm)"
    and "sum_list (map snd queue) = int (length ns)"
  shows "list_all as_assigned slots \<and> (\<forall>(a, r) \<in> set queue. int (assigned_to a slots) = r) \<and>
    (\<forall>slot \<in> set slots. \<exists>a \<in> fst ` set queue. as_staffActorId slot = Some a)"
  using assms
proof (induction ns arbitrary: sm slots sm' queue)
  case Nil
  then have "\<forall>x \<in> set (map snd queue). x = 0"
    by (subst sum_list_nonneg_eq_0_iff [symmetric]) (auto simp: queue_ok_def)
  then show ?case using Nil by (auto simp: assigned_to_def)
next
  case (Cons n ns)
  have "\<exists>(a, r) \<in> set queue. 0 < r" using Cons.prems(7) by (intro sum_positive) simp
  then obtain pre r post i where q: "queue = pre @ (ss_actorId (sm_states sm ! i), r) # post" "0 < r"
      "i < length (sm_states sm)"
      "batchPick queue (sm_states sm) = (Some i, pre @ (ss_actorId (sm_states sm ! i), r - 1) # post)"
    using batchPick_served [OF Cons.prems(5,6)] by blast
  let ?a = "ss_actorId (sm_states sm ! i)" and ?queue = "pre @ (ss_actorId (sm_states sm ! i), r - 1) # post"
  define sm1 where "sm1 = sm\<lparr>sm_states := (sm_states sm)[i := assign_to (sm_states sm ! i)], sm_queue := Some ?queue\<rparr>"
  have a: "assignOneCustomer n WEIGHTED_DISTRIBUTION weights t BATCH sm = (slot_of n (sm_states sm ! i), sm1)"
    using q(4) Cons.prems(2,3,4) by (simp add: assignOneCustomer_def pick_staff_def settle_def sm1_def)
  obtain slots1 where l: "simulate_loop ns WEIGHTED_DISTRIBUTION weights t BATCH sm1 = (slots1, sm')"
      and slots: "slots = slot_of n (sm_states sm ! i) # slots1"
    using Cons.prems(1) a by (auto split: prod.splits)
  have ids: "map ss_actorId (sm_states sm1) = map ss_actorId (sm_states sm)"
    using q(3) by (simp add: sm1_def map_update assign_to_def list_update_same_conv)
  have ok: "queue_ok ?queue (sm_states sm1)"
    using queue_after [OF Cons.prems(5) _ q(2,3)] Cons.prems(6) q(1) by (simp add: sm1_def)
  have "list_all as_assigned slots1 \<and> (\<forall>(a, r) \<in> set ?queue. int (assigned_to a slots1) = r) \<and>
    (\<forall>slot \<in> set slots1. \<exists>a \<in> fst ` set ?queue. as_staffActorId slot = Some a)"
  proof (rule Cons.IH [OF l _ Cons.prems(3,4)])
    show "distinct (map ss_actorId (sm_states sm1))" unfolding ids by (rule Cons.prems(5))
    show "sum_list (map snd ?queue) = int (length ns)" using Cons.prems(7) q(1) by simp
    show "queue_ok ?queue (sm_states sm1)" by (rule ok)
    show "sm_queue sm1 = Some ?queue" by (simp add: sm1_def)
  qed
  note ih = conjunct1 [OF this] bspec [OF conjunct1 [OF conjunct2 [OF this]]] bspec [OF conjunct2 [OF conjunct2 [OF this]]]
  have keys: "fst ` set ?queue = fst ` set queue" unfolding q(1) by simp
  have count: "int (assigned_to b slots) = int (assigned_to b slots1) + (if b = ?a then 1 else 0)" for b
    by (simp add: slots assigned_to_def slot_of_def)
  have "int (assigned_to b slots) = left" if m: "(b, left) \<in> set queue" for b left
  proof (cases "(b, left) = (?a, r)")
    case True
    then show ?thesis using ih(2) [of "(?a, r - 1)"] count [of ?a] by simp
  next
    case False
    then have "(b, left) \<in> set pre \<union> set post" using m unfolding q(1) by auto
    moreover have "distinct (map fst (pre @ (?a, r) # post))" using Cons.prems(6) q(1) by (simp add: queue_ok_def)
    ultimately have "b \<noteq> ?a" by (force simp: image_iff)
    then show ?thesis using ih(2) [of "(b, left)"] count [of b] \<open>(b, left) \<in> set pre \<union> set post\<close> by auto
  qed
  moreover have "list_all as_assigned slots" using ih(1) by (simp add: slots slot_of_def)
  moreover have "\<exists>a \<in> fst ` set queue. as_staffActorId slot = Some a" if "slot \<in> set slots" for slot
    using that ih(3) keys unfolding slots by (auto simp: slot_of_def q(1))
  ultimately show ?case by blast
qed

end
