(* ===== verification/Routing_Pools.thy ===== *)
theory Routing_Pools
  imports Routing Panel_Intake Primitives
begin

text \<open>
  Pools of the routing panel: their schema (\<open>packages/contracts/src/commands/routing.ts\<close>), their
  store (\<open>apps/context-panel/src/routing/config-store.ts\<close>), the fixtures
  (\<open>routing/types.ts\<close>), the service (\<open>routing/service.ts\<close>) and its four routes in \<open>server.ts\<close>.
  The members of a JSON body are given with their types and the names of all its members; a body
  of another shape is not modelled.
\<close>

section \<open>Pools\<close>

record capacity_gate =
  cg_maxConcurrent :: "int option"
  cg_requireOnline :: "bool option"

record eligible_set =
  el_schemaVersion :: string
  el_organizationId :: string
  el_roles :: "string list"
  el_regions :: "string list option"
  el_providers :: "string list option"
  el_capacityGate :: "capacity_gate option"

record fixed_owner =
  fo_schemaVersion :: string
  fo_provider :: string
  fo_connectionId :: string
  fo_recipientActorId :: string
  fo_recipientRole :: string

record routing_pool =
  pl_schemaVersion :: string
  pl_organizationId :: string
  pl_poolId :: string
  pl_displayName :: string
  pl_description :: "string option"
  pl_strategy :: routing_strategy
  pl_eligibleSet :: eligible_set
  pl_fixedOwner :: "fixed_owner option"
  pl_weights :: "weight_entry list option"
  pl_version :: int
  pl_updatedAt :: int
  pl_updatedBy :: string

definition between :: "nat \<Rightarrow> nat \<Rightarrow> string \<Rightarrow> bool" where
  "between least most s \<longleftrightarrow> least \<le> length s \<and> length s \<le> most"

definition RoutingEligibleSetSchema :: "eligible_set \<Rightarrow> bool" where
  "RoutingEligibleSetSchema el \<longleftrightarrow>
     el_schemaVersion el = ''1'' \<and> OrganizationIdSchema (el_organizationId el) \<and>
     list_all (\<lambda>role. role \<in> {''SALE'', ''STAFF'', ''REVIEWER'', ''MANAGER'', ''AI_AGENT''}) (el_roles el) \<and>
     1 \<le> length (el_roles el) \<and> length (el_roles el) \<le> 8 \<and>
     null_or (\<lambda>rs. list_all (between 1 64) rs \<and> length rs \<le> 16) (el_regions el) \<and>
     null_or (\<lambda>ps. list_all ProviderNameSchema ps \<and> length ps \<le> 8) (el_providers el) \<and>
     null_or (\<lambda>g. null_or (\<lambda>n. 0 \<le> n) (cg_maxConcurrent g)) (el_capacityGate el)"

definition RoutingFixedOwnerSchema :: "fixed_owner \<Rightarrow> bool" where
  "RoutingFixedOwnerSchema fo \<longleftrightarrow>
     fo_schemaVersion fo = ''1'' \<and> ProviderNameSchema (fo_provider fo) \<and>
     ConnectionIdSchema (fo_connectionId fo) \<and> between 1 128 (fo_recipientActorId fo) \<and>
     fo_recipientRole fo \<in> {''SALE'', ''STAFF'', ''REVIEWER'', ''MANAGER''}"

definition RoutingWeightEntrySchema :: "weight_entry \<Rightarrow> bool" where
  "RoutingWeightEntrySchema w \<longleftrightarrow>
     wt_schemaVersion w = ''1'' \<and> between 1 128 (wt_recipientActorId w) \<and>
     wt_recipientRole w \<in> {''SALE'', ''STAFF'', ''REVIEWER'', ''MANAGER'', ''AI_AGENT''} \<and>
     0 \<le> wt_weight w \<and> null_or (\<lambda>n. 0 \<le> n) (wt_cap w)"

definition MAX_SAFE_INTEGER :: int where
  "MAX_SAFE_INTEGER = 2 ^ 53 - 1"

text \<open>The refinement of the schema that ties owner and weights to the strategy.\<close>

definition strategy_shape :: "routing_pool \<Rightarrow> bool" where
  "strategy_shape pool \<longleftrightarrow>
     (let has_owner = (pl_fixedOwner pool \<noteq> None); has_weights = (nullish (pl_weights pool) [] \<noteq> [])
      in (case pl_strategy pool of
            SOURCE_ALLOCATION \<Rightarrow> has_owner \<and> \<not> has_weights
          | WEIGHTED_DISTRIBUTION \<Rightarrow> has_weights \<and> \<not> has_owner
          | HYBRID \<Rightarrow> has_owner \<and> has_weights) \<and>
         (has_weights \<longrightarrow> total_weight (nullish (pl_weights pool) []) \<noteq> 0))"

definition RoutingPoolSchema :: "routing_pool \<Rightarrow> bool" where
  "RoutingPoolSchema pool \<longleftrightarrow>
     pl_schemaVersion pool = ''1'' \<and> OrganizationIdSchema (pl_organizationId pool) \<and>
     between 1 128 (pl_poolId pool) \<and> between 1 256 (pl_displayName pool) \<and>
     null_or (between 0 1024) (pl_description pool) \<and> RoutingEligibleSetSchema (pl_eligibleSet pool) \<and>
     null_or RoutingFixedOwnerSchema (pl_fixedOwner pool) \<and>
     null_or (\<lambda>ws. list_all RoutingWeightEntrySchema ws \<and> length ws \<le> 256) (pl_weights pool) \<and>
     0 \<le> pl_version pool \<and> pl_version pool \<le> MAX_SAFE_INTEGER \<and> strategy_shape pool"

section \<open>The store\<close>

text \<open>The values of the map in the order of their insertion.\<close>

type_synonym pool_store = "routing_pool list"

datatype routing_failure = Routing_Config_Error string | Error_Object string | Schema_Error

definition get_pool :: "string \<Rightarrow> pool_store \<Rightarrow> routing_pool option" where
  "get_pool poolId pools = find (\<lambda>p. pl_poolId p = poolId) pools"

definition set_pool :: "routing_pool \<Rightarrow> pool_store \<Rightarrow> pool_store" where
  "set_pool pool pools =
     (if get_pool (pl_poolId pool) pools = None then pools @ [pool]
      else update_where (\<lambda>p. pl_poolId p = pl_poolId pool) (\<lambda>_. pool) pools)"

definition put_pool :: "routing_pool \<Rightarrow> pool_store \<Rightarrow> (routing_failure + unit) \<times> pool_store" where
  "put_pool pool pools =
     (if \<not> RoutingPoolSchema pool then (Inl Schema_Error, pools) else (Inr (), set_pool pool pools))"

record pool_patch =
  pa_schemaVersion :: "string option"
  pa_displayName :: "string option"
  pa_description :: "string option"
  pa_strategy :: "routing_strategy option"
  pa_eligibleSet :: "eligible_set option"
  pa_fixedOwner :: "fixed_owner option"
  pa_weights :: "weight_entry list option"
  pa_keys :: "string list"

definition pool_members :: "string list" where
  "pool_members =
     [''schemaVersion'', ''organizationId'', ''poolId'', ''displayName'', ''description'', ''strategy'',
      ''eligibleSet'', ''fixedOwner'', ''weights'', ''version'', ''updatedAt'', ''updatedBy'']"

definition merged_pool :: "int \<Rightarrow> string \<Rightarrow> pool_patch \<Rightarrow> routing_pool \<Rightarrow> routing_pool" where
  "merged_pool now updatedBy patch current =
     current\<lparr>pl_schemaVersion := nullish (pa_schemaVersion patch) (pl_schemaVersion current),
       pl_displayName := nullish (pa_displayName patch) (pl_displayName current),
       pl_description := nullish_opt (pa_description patch) (pl_description current),
       pl_strategy := nullish (pa_strategy patch) (pl_strategy current),
       pl_eligibleSet := nullish (pa_eligibleSet patch) (pl_eligibleSet current),
       pl_fixedOwner := nullish_opt (pa_fixedOwner patch) (pl_fixedOwner current),
       pl_weights := nullish_opt (pa_weights patch) (pl_weights current),
       pl_version := pl_version current + 1, pl_updatedAt := now, pl_updatedBy := updatedBy\<rparr>"

definition update_pool ::
  "int \<Rightarrow> string \<Rightarrow> int \<Rightarrow> string \<Rightarrow> pool_patch \<Rightarrow> pool_store \<Rightarrow> (routing_failure + routing_pool) \<times> pool_store" where
  "update_pool now poolId expectedVersion updatedBy patch pools =
     (case get_pool poolId pools of
        None \<Rightarrow> (Inl (Routing_Config_Error ''POOL_NOT_FOUND''), pools)
      | Some current \<Rightarrow>
          if pl_version current \<noteq> expectedVersion then
            (Inl (Routing_Config_Error ''VERSION_CONFLICT''), pools)
          else
            let merged = merged_pool now updatedBy patch current
            in if \<not> list_all (\<lambda>key. key \<in> set pool_members) (pa_keys patch) \<or> \<not> RoutingPoolSchema merged then
                 (Inl Schema_Error, pools)
               else (Inr merged, set_pool merged pools))"

definition seed_pools :: "routing_pool list \<Rightarrow> pool_store \<Rightarrow> pool_store" where
  "seed_pools new pools = fold set_pool (takeWhile RoutingPoolSchema new) pools"

definition requireManagerRole :: "mock_role \<Rightarrow> bool" where
  "requireManagerRole role \<longleftrightarrow> role = SUPERVISOR \<or> role = SYSTEM"

section \<open>Fixtures\<close>

record fixture_pool =
  fx_pool :: routing_pool
  fx_staffStates :: "staff_state list"

record fixture_overrides =
  ov_weights :: "int \<times> int \<times> int \<times> int"
  ov_staffAOffline :: bool
  ov_staffBOffline :: bool
  ov_staffCQuotaFull :: bool
  ov_staffDCapacityFull :: bool
  ov_maxCapacity :: int
  ov_periodCap :: int

definition no_overrides :: fixture_overrides where
  "no_overrides =
     \<lparr>ov_weights = (3, 2, 1, 4), ov_staffAOffline = False, ov_staffBOffline = False,
      ov_staffCQuotaFull = False, ov_staffDCapacityFull = False, ov_maxCapacity = 25, ov_periodCap = 50\<rparr>"

definition sale_staff :: "string \<Rightarrow> bool \<Rightarrow> int \<Rightarrow> int \<Rightarrow> int \<Rightarrow> int \<Rightarrow> staff_state" where
  "sale_staff actorId online capacity maxCapacity assignments cap =
     \<lparr>ss_actorId = actorId, ss_role = ''SALE'', ss_online = online, ss_currentCapacity = capacity,
      ss_maxCapacity = maxCapacity, ss_periodAssignments = assignments, ss_periodCap = cap,
      ss_capPeriod = Some DAILY\<rparr>"

definition fixture_states :: "fixture_overrides \<Rightarrow> staff_state list" where
  "fixture_states ov =
     (let most = ov_maxCapacity ov; cap = ov_periodCap ov
      in [sale_staff ''staff-sale-A'' (\<not> ov_staffAOffline ov) 0 most 0 cap,
          sale_staff ''staff-sale-B'' (\<not> ov_staffBOffline ov) 0 most 0 cap,
          sale_staff ''staff-sale-C'' True 0 most (if ov_staffCQuotaFull ov then cap else 0) cap,
          sale_staff ''staff-sale-D'' True (if ov_staffDCapacityFull ov then most else 0) most 0 cap])"

definition sale_weight :: "string \<Rightarrow> int \<Rightarrow> weight_entry" where
  "sale_weight actorId weight =
     \<lparr>wt_schemaVersion = ''1'', wt_recipientActorId = actorId, wt_recipientRole = ''SALE'', wt_weight = weight, wt_cap = Some 10,
      wt_capPeriod = Some DAILY\<rparr>"

definition makeWeightedFixturePool :: "int \<Rightarrow> fixture_overrides \<Rightarrow> fixture_pool" where
  "makeWeightedFixturePool now ov =
     (let (a, b, c, d) = ov_weights ov
      in \<lparr>fx_pool =
            \<lparr>pl_schemaVersion = ''1'', pl_organizationId = ''org-001'', pl_poolId = ''pool-weighted-3-2-1-4'',
             pl_displayName = ''Weighted Distribution 3:2:1:4'',
             pl_description = Some ''Test pool with ratio 3:2:1:4 (total 10)'',
             pl_strategy = WEIGHTED_DISTRIBUTION,
             pl_eligibleSet =
               \<lparr>el_schemaVersion = ''1'', el_organizationId = ''org-001'', el_roles = [''SALE''],
                el_regions = None, el_providers = None,
                el_capacityGate = Some \<lparr>cg_maxConcurrent = Some 5, cg_requireOnline = Some True\<rparr>\<rparr>,
             pl_fixedOwner = None,
             pl_weights = Some [sale_weight ''staff-sale-A'' a, sale_weight ''staff-sale-B'' b,
               sale_weight ''staff-sale-C'' c, sale_weight ''staff-sale-D'' d],
             pl_version = 1, pl_updatedAt = now, pl_updatedBy = ''staff-supervisor-001''\<rparr>,
          fx_staffStates = fixture_states ov\<rparr>)"

definition source_states :: "staff_state list" where
  "source_states = [sale_staff ''staff-sale-A'' True 0 5 0 10]"

definition makeSourceAllocationFixturePool :: "int \<Rightarrow> fixture_pool" where
  "makeSourceAllocationFixturePool now =
     \<lparr>fx_pool =
        \<lparr>pl_schemaVersion = ''1'', pl_organizationId = ''org-001'', pl_poolId = ''pool-source-alloc-001'',
         pl_displayName = ''Source Allocation (Zalo OA)'',
         pl_description = Some ''One-to-one assignment per source'', pl_strategy = SOURCE_ALLOCATION,
         pl_eligibleSet =
           \<lparr>el_schemaVersion = ''1'', el_organizationId = ''org-001'', el_roles = [''SALE''],
            el_regions = None, el_providers = None, el_capacityGate = None\<rparr>,
         pl_fixedOwner = Some
           \<lparr>fo_schemaVersion = ''1'', fo_provider = ''ZALO'', fo_connectionId = ''zalo-oa-001'',
            fo_recipientActorId = ''staff-sale-A'', fo_recipientRole = ''SALE''\<rparr>,
         pl_weights = None, pl_version = 1, pl_updatedAt = now, pl_updatedBy = ''staff-supervisor-001''\<rparr>,
      fx_staffStates = source_states\<rparr>"

definition simulateDistribution ::
  "(int \<Rightarrow> int \<Rightarrow> rat) \<Rightarrow> fixture_pool \<Rightarrow> nat \<Rightarrow> simulation_mode \<Rightarrow> int \<Rightarrow> simulation_result" where
  "simulateDistribution fdiv fixture customers mode seed =
     (let pool = fx_pool fixture;
          weights = nullish (pl_weights pool) [];
          totalWeight = total_weight weights;
          start = start_simulation fdiv (pl_strategy pool) weights (fx_staffStates fixture) customers mode;
          (slots, sm) = simulate_loop [0..<customers] (pl_strategy pool) weights totalWeight mode start
      in \<lparr>sr_poolId = pl_poolId pool, sr_poolVersion = pl_version pool, sr_strategy = pl_strategy pool,
          sr_mode = mode, sr_customerCount = customers, sr_assignments = filter as_assigned slots,
          sr_fallbackQueue = filter (\<lambda>slot. \<not> as_assigned slot) slots,
          sr_staffSummary = map summary_of (sm_states sm), sr_totalWeight = totalWeight, sr_seed = seed\<rparr>)"

definition count_assignment :: "assignment_slot \<Rightarrow> (string \<Rightarrow> nat option) \<Rightarrow> string \<Rightarrow> nat option" where
  "count_assignment slot counts =
     (if truthy (as_staffActorId slot) then
        (let actor = the (as_staffActorId slot) in counts(actor := Some (nullish (counts actor) 0 + 1)))
      else counts)"

definition aggregateAssignments :: "simulation_result \<Rightarrow> string \<Rightarrow> nat option" where
  "aggregateAssignments result = fold count_assignment (sr_assignments result) (\<lambda>_. None)"

section \<open>The service\<close>

definition getPool :: "string \<Rightarrow> pool_store \<Rightarrow> routing_failure + routing_pool" where
  "getPool poolId pools =
     (case get_pool poolId pools of None \<Rightarrow> Inl (Error_Object ''POOL_NOT_FOUND'') | Some pool \<Rightarrow> Inr pool)"

record simulate_request =
  sq_poolId :: string
  sq_customerCount :: nat
  sq_mode :: "simulation_mode option"
  sq_seed :: "int option"
  sq_weightOverrides :: "(string \<times> int) list option"

definition override_weights :: "(string \<times> int) list \<Rightarrow> weight_entry list \<Rightarrow> weight_entry list" where
  "override_weights overrides weights =
     map (\<lambda>w. case map_of overrides (wt_recipientActorId w) of
                None \<Rightarrow> w
              | Some weight \<Rightarrow> w\<lparr>wt_weight := weight\<rparr>) weights"

text \<open>The states are those of the fixture, whatever recipients the pool has.\<close>

definition simulation_fixture :: "simulate_request \<Rightarrow> routing_pool \<Rightarrow> fixture_pool" where
  "simulation_fixture req pool =
     (if pl_strategy pool = SOURCE_ALLOCATION then \<lparr>fx_pool = pool, fx_staffStates = source_states\<rparr>
      else
        \<lparr>fx_pool =
           (if nullish (sq_weightOverrides req) [] \<noteq> [] then
              pool\<lparr>pl_weights := map_option (override_weights (the (sq_weightOverrides req))) (pl_weights pool)\<rparr>
            else pool),
         fx_staffStates = fixture_states no_overrides\<rparr>)"

definition simulate ::
  "(int \<Rightarrow> int \<Rightarrow> rat) \<Rightarrow> simulate_request \<Rightarrow> pool_store \<Rightarrow> routing_failure + simulation_result \<times> routing_pool" where
  "simulate fdiv req pools =
     (case get_pool (sq_poolId req) pools of
        None \<Rightarrow> Inl (Error_Object ''POOL_NOT_FOUND'')
      | Some pool \<Rightarrow>
          let fixture = simulation_fixture req pool
          in Inr (simulateDistribution fdiv fixture (sq_customerCount req) (nullish (sq_mode req) REALTIME)
                    (nullish (sq_seed req) 0), fx_pool fixture))"

definition ROUTING_PATCH_FORBIDDEN :: "string list" where
  "ROUTING_PATCH_FORBIDDEN =
     [''rewriteHandlingAssignment'', ''rewriteCreditPolicy'', ''rewriteRecipientAttribution'',
      ''aiAutoAdjustWeights'', ''saleAutoAdjustWeights'', ''collapseSourceAllocationToWeighted'',
      ''collapseWeightedToSourceAllocation'', ''bypassEligibleSet'', ''routeOutsideEligible'',
      ''bypassReservationFence'', ''skipFencingToken'', ''bypassCapacityCap'', ''ignoreOfflineStatus'',
      ''dropRoutingHistory'', ''silentlyOverwritePool'']"

record update_pool_request =
  ur_organizationId :: string
  ur_poolId :: string
  ur_expectedVersion :: int
  ur_patch :: pool_patch
  ur_reasonCode :: string

definition updatePool ::
  "int \<Rightarrow> update_pool_request \<Rightarrow> mock_identity \<Rightarrow> pool_store \<Rightarrow>
   (routing_failure + routing_pool) \<times> pool_store" where
  "updatePool now req identity pools =
     (if \<not> requireManagerRole (mi_role identity) then
        (Inl (Routing_Config_Error ''MANAGER_REQUIRED''), pools)
      else if list_ex (\<lambda>key. key \<in> set ROUTING_PATCH_FORBIDDEN) (pa_keys (ur_patch req)) then
        (Inl (Error_Object ''FORBIDDEN_FIELD''), pools)
      else update_pool now (ur_poolId req) (ur_expectedVersion req) (mi_staffId identity) (ur_patch req) pools)"

text \<open>The members of the request, all of whose names are \<open>keys\<close>; version and author are set here.\<close>

definition createPool ::
  "int \<Rightarrow> routing_pool \<Rightarrow> string list \<Rightarrow> mock_identity \<Rightarrow> pool_store \<Rightarrow>
   (routing_failure + routing_pool) \<times> pool_store" where
  "createPool now req keys identity pools =
     (if \<not> requireManagerRole (mi_role identity) then
        (Inl (Routing_Config_Error ''MANAGER_REQUIRED''), pools)
      else
        let pool = req\<lparr>pl_version := 1, pl_updatedAt := now, pl_updatedBy := mi_staffId identity\<rparr>
        in if \<not> list_all (\<lambda>key. key \<in> set pool_members) keys \<or> \<not> RoutingPoolSchema pool then
             (Inl Schema_Error, pools)
           else case put_pool pool pools of
             (Inl err, pools') \<Rightarrow> (Inl err, pools')
           | (Inr _, pools') \<Rightarrow> (Inr pool, pools'))"

definition seedFixtures :: "int \<Rightarrow> pool_store \<Rightarrow> pool_store" where
  "seedFixtures now pools = seed_pools [fx_pool (makeWeightedFixturePool now no_overrides)] pools"

section \<open>The routes\<close>

datatype 'a routing_reply = Routing_Ok nat 'a | Routing_Refused nat string

definition route_list :: "mock_identity option \<Rightarrow> pool_store \<Rightarrow> routing_pool list routing_reply" where
  "route_list identity pools =
     (if identity = None then Routing_Refused 401 ''unauthorized'' else Routing_Ok 200 pools)"

definition route_create ::
  "int \<Rightarrow> routing_pool \<Rightarrow> string list \<Rightarrow> mock_identity option \<Rightarrow> pool_store \<Rightarrow>
   routing_pool routing_reply \<times> pool_store" where
  "route_create now req keys identity pools =
     (case identity of
        None \<Rightarrow> (Routing_Refused 401 ''unauthorized'', pools)
      | Some who \<Rightarrow>
          if \<not> requireManagerRole (mi_role who) then (Routing_Refused 403 ''MANAGER_REQUIRED'', pools)
          else case createPool now req keys who pools of
            (Inr pool, pools') \<Rightarrow> (Routing_Ok 201 pool, pools')
          | (Inl (Routing_Config_Error code), pools') \<Rightarrow>
              (Routing_Refused (if code = ''MANAGER_REQUIRED'' then 403 else 400) code, pools')
          | (Inl _, pools') \<Rightarrow> (Routing_Refused 500 ''CREATE_POOL_ERROR'', pools'))"

definition route_simulate ::
  "(int \<Rightarrow> int \<Rightarrow> rat) \<Rightarrow> string \<Rightarrow> string option \<Rightarrow> string option \<Rightarrow> mock_identity option \<Rightarrow> pool_store \<Rightarrow>
   (simulation_result \<times> routing_pool) routing_reply" where
  "route_simulate fdiv poolId countText modeText identity pools =
     (if identity = None then Routing_Refused 401 ''unauthorized''
      else
        case simulate fdiv
               \<lparr>sq_poolId = poolId,
                sq_customerCount = (if nullish countText ''10'' = ''100'' then 100 else 10),
                sq_mode = Some (if nullish modeText ''realtime'' = ''batch'' then BATCH else REALTIME),
                sq_seed = Some 0, sq_weightOverrides = None\<rparr> pools of
          Inr result \<Rightarrow> Routing_Ok 200 result
        | Inl (Error_Object code) \<Rightarrow>
            Routing_Refused (if code = ''POOL_NOT_FOUND'' then 404 else 500)
              (if code = ''POOL_NOT_FOUND'' then code else ''SIMULATE_ERROR'')
        | Inl _ \<Rightarrow> Routing_Refused 500 ''SIMULATE_ERROR'')"

definition route_update ::
  "int \<Rightarrow> update_pool_request \<Rightarrow> mock_identity option \<Rightarrow> pool_store \<Rightarrow>
   routing_pool routing_reply \<times> pool_store" where
  "route_update now req identity pools =
     (case identity of
        None \<Rightarrow> (Routing_Refused 401 ''unauthorized'', pools)
      | Some who \<Rightarrow>
          case updatePool now req who pools of
            (Inr pool, pools') \<Rightarrow> (Routing_Ok 200 pool, pools')
          | (Inl (Routing_Config_Error code), pools') \<Rightarrow>
              (Routing_Refused
                 (if code = ''MANAGER_REQUIRED'' then 403 else if code = ''VERSION_CONFLICT'' then 409
                  else if code = ''POOL_NOT_FOUND'' then 404 else 400) code, pools')
          | (Inl _, pools') \<Rightarrow> (Routing_Refused 500 ''UPDATE_POOL_ERROR'', pools'))"

end
