(* ===== verification/Routing_Properties.thy ===== *)
theory Routing_Properties
  imports Routing_Facts Routing_Pools
begin

text \<open>
  What a simulation promises: customers are conserved, caps and presence respected, the batch
  mode hands out the quotas by largest remainders and the realtime mode is exact after every
  round of the total weight; and what it does not: disabled staff is chosen, hybrid pools assign
  nobody, the fixed owner and the caps of a pool play no part, and creating a pool again undoes
  the locking of its versions.
\<close>

section \<open>Results\<close>

lemma result_of_loop:
  assumes "simulate_loop [0..<n] (pl_strategy (fx_pool fx)) (nullish (pl_weights (fx_pool fx)) [])
      (total_weight (nullish (pl_weights (fx_pool fx)) [])) mode
      (start_simulation fdiv (pl_strategy (fx_pool fx)) (nullish (pl_weights (fx_pool fx)) [])
        (fx_staffStates fx) n mode) = (slots, sm)"
  shows "sr_assignments (simulateDistribution fdiv fx n mode seed) = filter as_assigned slots"
    "sr_fallbackQueue (simulateDistribution fdiv fx n mode seed) = filter (\<lambda>slot. \<not> as_assigned slot) slots"
    "sr_staffSummary (simulateDistribution fdiv fx n mode seed) = map summary_of (sm_states sm)"
  using assms by (simp_all add: simulateDistribution_def Let_def)

lemma start_states [simp]: "sm_states (start_simulation fdiv strategy weights states n mode) = states"
  by (simp add: start_simulation_def)

text \<open>A slot is assigned exactly if it names a member of the staff, who is online.\<close>

definition slot_ok :: "staff_state list \<Rightarrow> assignment_slot \<Rightarrow> bool" where
  "slot_ok states slot \<longleftrightarrow>
     (case as_staffActorId slot of
        None \<Rightarrow> \<not> as_assigned slot \<and> as_fallbackReason slot \<noteq> None
      | Some actor \<Rightarrow> as_assigned slot \<and> (\<exists>s \<in> set states. ss_actorId s = actor \<and> ss_online s))"

lemma slot_ok_profiles:
  assumes "map profile_of states = map profile_of states'" and "slot_ok states slot"
  shows "slot_ok states' slot"
proof -
  have "\<exists>s' \<in> set states'. profile_of s' = profile_of s" if "s \<in> set states" for s
    using assms(1) that by (metis (no_types, lifting) image_iff list.set_map)
  then show ?thesis using assms(2) by (fastforce simp: slot_ok_def profile_of_def split: option.splits)
qed

lemma loop_slots:
  "simulate_loop ns strategy weights t mode sm = (slots, sm') \<Longrightarrow> list_all (slot_ok (sm_states sm)) slots"
proof (induction ns arbitrary: sm slots sm')
  case (Cons n ns)
  obtain slot sm1 where a: "assignOneCustomer n strategy weights t mode sm = (slot, sm1)" by fastforce
  obtain slots1 sm2 where l: "simulate_loop ns strategy weights t mode sm1 = (slots1, sm2)" by fastforce
  have "list_all (slot_ok (sm_states sm)) slots1"
    using Cons.IH [OF l] slot_ok_profiles [OF assign_profiles [OF a]] by (auto simp: list_all_iff)
  moreover from a have "slot_ok (sm_states sm) slot"
    by (cases rule: assign_cases)
       (auto simp: slot_ok_def fallback_slot_def slot_of_def may_choose_def staff_eligible_def split: if_splits)
  ultimately show ?case using Cons.prems a l by auto
qed simp

lemma aggregate_counts:
  assumes "\<forall>slot \<in> set slots. as_staffActorId slot \<noteq> Some []"
  shows "nullish (fold count_assignment slots counts actor) 0 =
    nullish (counts actor) 0 + length (filter (\<lambda>slot. as_staffActorId slot = Some actor) slots)"
  using assms
proof (induction slots arbitrary: counts)
  case (Cons slot slots)
  have "nullish (count_assignment slot counts actor) 0 =
      nullish (counts actor) 0 + (if as_staffActorId slot = Some actor then 1 else 0)"
    using Cons.prems by (cases "as_staffActorId slot") (auto simp: count_assignment_def Let_def)
  then show ?case using Cons by simp
qed simp

lemma assigned_aggregate:
  assumes ok: "list_all (slot_ok states) slots" and id: "\<forall>s \<in> set states. ss_actorId s \<noteq> []"
  shows "nullish (fold count_assignment (filter as_assigned slots) (\<lambda>_. None) actor) 0 = assigned_to actor slots"
proof -
  have "as_staffActorId slot \<noteq> Some []" "as_assigned slot \<or> as_staffActorId slot = None" if "slot \<in> set slots" for slot
    using ok id that by (auto simp: list_all_iff slot_ok_def split: option.splits)
  moreover from this have "filter (\<lambda>slot. as_staffActorId slot = Some actor) (filter as_assigned slots) =
      filter (\<lambda>slot. as_staffActorId slot = Some actor) slots"
    by (metis (mono_tags, lifting) filter_cong filter_filter option.distinct(1))
  ultimately show ?thesis using aggregate_counts [of "filter as_assigned slots" "\<lambda>_. None" actor]
    by (simp add: assigned_to_def)
qed

text \<open>Properly named staff: ids are distinct and not empty.\<close>

definition staff_named :: "staff_state list \<Rightarrow> bool" where
  "staff_named states \<longleftrightarrow> distinct (map ss_actorId states) \<and> (\<forall>s \<in> set states. ss_actorId s \<noteq> [])"

definition count_for :: "simulation_result \<Rightarrow> string \<Rightarrow> int" where
  "count_for r actor = int (nullish (aggregateAssignments r actor) 0)"

text \<open>C34. Every simulation conserves its customers, whatever the pool, the staff and the mode: each
  customer is either assigned or in the fallback queue, once, and the assigned count and the load
  that the summary shows for a member of the staff are its earlier ones plus the assignments that
  name it.\<close>

lemma simulation_conserves_customers:
  assumes "staff_named (fx_staffStates fx)"
  shows "let r = simulateDistribution fdiv fx n mode seed
    in mset (map as_customerIndex (sr_assignments r)) + mset (map as_customerIndex (sr_fallbackQueue r)) = mset [0..<n] \<and>
      map su_assignedCount (sr_staffSummary r) =
        map (\<lambda>s. ss_periodAssignments s + count_for r (ss_actorId s)) (fx_staffStates fx) \<and>
      map su_capacityUsed (sr_staffSummary r) =
        map (\<lambda>s. ss_currentCapacity s + count_for r (ss_actorId s)) (fx_staffStates fx)"
proof -
  let ?r = "simulateDistribution fdiv fx n mode seed"
  obtain slots sm where l: "simulate_loop [0..<n] (pl_strategy (fx_pool fx)) (nullish (pl_weights (fx_pool fx)) [])
      (total_weight (nullish (pl_weights (fx_pool fx)) [])) mode
      (start_simulation fdiv (pl_strategy (fx_pool fx)) (nullish (pl_weights (fx_pool fx)) [])
        (fx_staffStates fx) n mode) = (slots, sm)" by fastforce
  note r = result_of_loop [OF l, of seed]
  have d: "distinct (map ss_actorId (fx_staffStates fx))" "\<forall>s \<in> set (fx_staffStates fx). ss_actorId s \<noteq> []"
    using assms by (auto simp: staff_named_def)
  have c: "count_for ?r actor = int (assigned_to actor slots)" for actor
    using assigned_aggregate [OF loop_slots [OF l, unfolded start_states] d(2)] r(1)
    by (simp add: count_for_def aggregateAssignments_def)
  have len: "length (sm_states sm) = length (fx_staffStates fx)"
    using loop_profiles [OF l] by (metis length_map start_states)
  have "mset (map as_customerIndex (filter as_assigned slots)) +
      mset (map as_customerIndex (filter (\<lambda>slot. \<not> as_assigned slot) slots)) = mset (map as_customerIndex slots)"
    by (induction slots) auto
  moreover have "map as_customerIndex slots = [0..<n]" using loop_profiles [OF l] by simp
  moreover note loop_counts [OF l, unfolded start_states, OF d(1)]
  ultimately show ?thesis using len unfolding Let_def r c
    by (auto simp: summary_of_def intro!: nth_equalityI simp del: mset_map)
qed

text \<open>C35. Whatever the pool and the mode, a simulation assigns customers only to staff that is
  online, and keeps every member of the staff within its capacity, and, unless the pool is a
  source allocation, within its quota for the period, if it was within them before.\<close>

lemma caps_are_respected:
  assumes "list_all (within_caps (pl_strategy (fx_pool fx))) (fx_staffStates fx)"
  shows "let r = simulateDistribution fdiv fx n mode seed
    in list_all (\<lambda>su. su_capacityUsed su \<le> su_capacityMax su \<and>
          (pl_strategy (fx_pool fx) = SOURCE_ALLOCATION \<or> su_quotaMax su = 0 \<or> su_quotaUsed su \<le> su_quotaMax su))
        (sr_staffSummary r) \<and>
      list_all (\<lambda>slot. list_ex (\<lambda>s. Some (ss_actorId s) = as_staffActorId slot \<and> ss_online s) (fx_staffStates fx))
        (sr_assignments r)"
proof -
  obtain slots sm where l: "simulate_loop [0..<n] (pl_strategy (fx_pool fx)) (nullish (pl_weights (fx_pool fx)) [])
      (total_weight (nullish (pl_weights (fx_pool fx)) [])) mode
      (start_simulation fdiv (pl_strategy (fx_pool fx)) (nullish (pl_weights (fx_pool fx)) [])
        (fx_staffStates fx) n mode) = (slots, sm)" by fastforce
  have "list_all (within_caps (pl_strategy (fx_pool fx))) (sm_states sm)"
    using loop_within [OF l] assms by simp
  moreover have "list_all (slot_ok (fx_staffStates fx)) slots" using loop_slots [OF l] by simp
  ultimately show ?thesis unfolding Let_def result_of_loop [OF l, of seed]
    by (fastforce simp: list_all_iff list_ex_iff within_caps_def summary_of_def slot_ok_def split: option.splits)
qed


section \<open>The batch mode\<close>

text \<open>C33. The plan of the batch mode is that of the largest remainders: the recipients whose fraction
  is largest, as many as customers are left over, get one more than the whole part of their
  quota, all others get the whole part, and together they get all customers.\<close>

lemma quota_plan_is_largest_remainder:
  assumes "ws = eligible_weights weights states" and "ws \<noteq> []" and "exact_division fdiv n ws"
  shows "\<exists>big small. mset (big @ small) = mset (map (quota_of fdiv n (total_weight ws)) ws) \<and>
    computeQuotaPlan fdiv n weights states = map (qp_baseCount_update (\<lambda>c. c + 1)) big @ small \<and>
    (\<forall>p \<in> set big. \<forall>q \<in> set small. qp_fractional q \<le> qp_fractional p) \<and>
    sum_list (map qp_baseCount (computeQuotaPlan fdiv n weights states)) = n"
  using plan_parts [OF assms] by metis

lemma plan_entries:
  assumes "ws = eligible_weights weights states" and "ws \<noteq> []" and "exact_division fdiv n ws"
    and "distinct (map wt_recipientActorId ws)"
  shows "distinct (map qp_actorId (computeQuotaPlan fdiv n weights states))"
    and "p \<in> set (computeQuotaPlan fdiv n weights states) \<Longrightarrow>
      \<exists>w \<in> set ws. qp_actorId p = wt_recipientActorId w \<and>
        n * wt_weight w div total_weight ws \<le> qp_baseCount p \<and>
        qp_baseCount p \<le> n * wt_weight w div total_weight ws + 1"
    and "w \<in> set ws \<Longrightarrow> \<exists>p \<in> set (computeQuotaPlan fdiv n weights states). qp_actorId p = wt_recipientActorId w"
proof -
  obtain big small where b: "mset (big @ small) = mset (map (quota_of fdiv n (total_weight ws)) ws)"
      "computeQuotaPlan fdiv n weights states = map (qp_baseCount_update (\<lambda>c. c + 1)) big @ small"
    using plan_parts [OF assms(1-3)] by metis
  have s: "set (big @ small) = quota_of fdiv n (total_weight ws) ` set ws" using arg_cong [OF b(1), of set_mset] by simp
  have ids: "map qp_actorId (computeQuotaPlan fdiv n weights states) = map qp_actorId (big @ small)"
    unfolding b(2) by simp
  have "mset (map qp_actorId (big @ small)) = mset (map wt_recipientActorId ws)"
    unfolding mset_map b(1) by (simp add: quota_of_def Let_def image_mset.compositionality comp_def)
  then show "distinct (map qp_actorId (computeQuotaPlan fdiv n weights states))"
    using assms(4) unfolding ids by (metis mset_eq_imp_distinct_iff)
  show "\<exists>p \<in> set (computeQuotaPlan fdiv n weights states). qp_actorId p = wt_recipientActorId w" if "w \<in> set ws"
  proof -
    have "quota_of fdiv n (total_weight ws) w \<in> set (big @ small)" using s that by blast
    then have "wt_recipientActorId w \<in> set (map qp_actorId (big @ small))"
      by (force simp: quota_of_def Let_def image_iff)
    then show ?thesis unfolding ids [symmetric] by auto
  qed
  show "\<exists>w \<in> set ws. qp_actorId p = wt_recipientActorId w \<and>
        n * wt_weight w div total_weight ws \<le> qp_baseCount p \<and>
        qp_baseCount p \<le> n * wt_weight w div total_weight ws + 1"
    if p: "p \<in> set (computeQuotaPlan fdiv n weights states)"
  proof -
    obtain q where q: "q \<in> set (big @ small)" "qp_actorId p = qp_actorId q"
        "qp_baseCount q \<le> qp_baseCount p" "qp_baseCount p \<le> qp_baseCount q + 1"
      using p unfolding b(2) by fastforce
    obtain w where w: "w \<in> set ws" "q = quota_of fdiv n (total_weight ws) w" using q(1) s by blast
    have "qp_baseCount q = n * wt_weight w div total_weight ws"
      using assms(3) w by (simp add: exact_division_def list_all_iff quota_of_def Let_def)
    moreover have "qp_actorId q = wt_recipientActorId w" unfolding w(2) by (simp add: quota_of_def Let_def)
    ultimately show ?thesis using q w(1) by (intro bexI [of _ w]) simp_all
  qed
qed

text \<open>What a pool and its staff must have for the batch mode to keep its promise: the recipients
  are distinct, someone is eligible, and everybody has room for one more than the whole part of
  the quota.\<close>

definition batch_ready :: "(int \<Rightarrow> int \<Rightarrow> rat) \<Rightarrow> fixture_pool \<Rightarrow> nat \<Rightarrow> bool" where
  "batch_ready fdiv fx n \<longleftrightarrow>
     (let weights = nullish (pl_weights (fx_pool fx)) []; ws = eligible_weights weights (fx_staffStates fx)
      in pl_strategy (fx_pool fx) = WEIGHTED_DISTRIBUTION \<and> total_weight weights \<noteq> 0 \<and>
         staff_named (fx_staffStates fx) \<and> ws \<noteq> [] \<and> distinct (map wt_recipientActorId ws) \<and>
         exact_division fdiv (int n) ws \<and>
         list_all (\<lambda>w. list_ex (\<lambda>s. ss_actorId s = wt_recipientActorId w \<and>
             room (int n * wt_weight w div total_weight ws + 1) s) (fx_staffStates fx)) ws)"

lemma batch_queue_ok:
  assumes ready: "batch_ready fdiv fx n" and w: "weights = nullish (pl_weights (fx_pool fx)) []"
  shows "queue_ok (planToQueue (computeQuotaPlan fdiv (int n) weights (fx_staffStates fx))) (fx_staffStates fx)"
    and "sum_list (map snd (planToQueue (computeQuotaPlan fdiv (int n) weights (fx_staffStates fx)))) = int n"
proof -
  let ?ws = "eligible_weights weights (fx_staffStates fx)" and ?plan = "computeQuotaPlan fdiv (int n) weights (fx_staffStates fx)"
  have r: "?ws \<noteq> []" "distinct (map wt_recipientActorId ?ws)" "exact_division fdiv (int n) ?ws"
      "\<forall>w \<in> set ?ws. \<exists>s \<in> set (fx_staffStates fx). ss_actorId s = wt_recipientActorId w \<and>
        room (int n * wt_weight w div total_weight ?ws + 1) s"
    using ready unfolding w by (auto simp: batch_ready_def Let_def list_all_iff list_ex_iff)
  note e = plan_entries [OF refl r(1,3,2)]
  have m: "mset (planToQueue ?plan) = mset (map (\<lambda>p. (qp_actorId p, qp_baseCount p)) ?plan)"
    by (simp add: planToQueue_def)
  have s: "set (planToQueue ?plan) = (\<lambda>p. (qp_actorId p, qp_baseCount p)) ` set ?plan"
    by (simp add: planToQueue_def)
  have "mset (map fst (planToQueue ?plan)) = mset (map qp_actorId ?plan)"
    unfolding mset_map m by (simp add: image_mset.compositionality comp_def)
  then have d: "distinct (map fst (planToQueue ?plan))" using e(1) by (metis mset_eq_imp_distinct_iff)
  have "0 \<le> qp_baseCount p \<and> (\<exists>s \<in> set (fx_staffStates fx). ss_actorId s = qp_actorId p \<and> room (qp_baseCount p) s)"
    if p: "p \<in> set ?plan" for p
  proof -
    obtain w where w: "w \<in> set ?ws" "qp_actorId p = wt_recipientActorId w"
        "int n * wt_weight w div total_weight ?ws \<le> qp_baseCount p"
        "qp_baseCount p \<le> int n * wt_weight w div total_weight ?ws + 1"
      using e(2) [OF p] by blast
    have "0 \<le> wt_weight w" using w(1) by (simp add: eligible_weights_def)
    then have "0 \<le> int n * wt_weight w div total_weight ?ws"
      using total_positive [OF r(1)] by (simp add: pos_imp_zdiv_nonneg_iff)
    moreover obtain s where s: "s \<in> set (fx_staffStates fx)" "ss_actorId s = wt_recipientActorId w"
        "room (int n * wt_weight w div total_weight ?ws + 1) s"
      using r(4) w(1) by blast
    moreover have "room (qp_baseCount p) s" by (rule room_less [OF s(3) w(4)])
    ultimately show ?thesis using w(2,3) by fastforce
  qed
  then show "queue_ok (planToQueue ?plan) (fx_staffStates fx)" using d unfolding queue_ok_def s by auto
  have "sum_list (map snd (planToQueue ?plan)) = sum_list (map qp_baseCount ?plan)"
    unfolding sum_mset_sum_list [symmetric] mset_map m by (simp add: image_mset.compositionality comp_def)
  also have "\<dots> = int n" using plan_parts [OF refl r(1,3)] by metis
  finally show "sum_list (map snd (planToQueue ?plan)) = int n" .
qed

text \<open>A batch run follows its plan.\<close>

lemma batch_run:
  fixes seed :: int
  assumes "batch_ready fdiv fx n"
  defines "r \<equiv> simulateDistribution fdiv fx n BATCH seed"
    and "plan \<equiv> computeQuotaPlan fdiv (int n) (nullish (pl_weights (fx_pool fx)) []) (fx_staffStates fx)"
  shows "sr_fallbackQueue r = []" and "p \<in> set plan \<Longrightarrow> count_for r (qp_actorId p) = qp_baseCount p"
    and "actor \<notin> qp_actorId ` set plan \<Longrightarrow> count_for r actor = 0"
proof -
  let ?weights = "nullish (pl_weights (fx_pool fx)) []"
  have ready: "pl_strategy (fx_pool fx) = WEIGHTED_DISTRIBUTION" "total_weight ?weights \<noteq> 0" "staff_named (fx_staffStates fx)"
    using assms(1) by (auto simp: batch_ready_def Let_def)
  have w: "?weights \<noteq> []" using ready(2) by (auto simp: total_weight_def)
  obtain slots sm where l: "simulate_loop [0..<n] (pl_strategy (fx_pool fx)) ?weights (total_weight ?weights) BATCH
      (start_simulation fdiv (pl_strategy (fx_pool fx)) ?weights (fx_staffStates fx) n BATCH) = (slots, sm)" by fastforce
  have q: "sm_queue (start_simulation fdiv (pl_strategy (fx_pool fx)) ?weights (fx_staffStates fx) n BATCH) = Some (planToQueue plan)"
    using ready(1) by (simp add: start_simulation_def plan_def)
  have loop: "list_all as_assigned slots" "\<forall>(a, k) \<in> set (planToQueue plan). int (assigned_to a slots) = k"
      "\<forall>slot \<in> set slots. \<exists>a \<in> fst ` set (planToQueue plan). as_staffActorId slot = Some a"
    using batch_loop [OF l [unfolded ready(1)] q [unfolded ready(1)] w ready(2)] batch_queue_ok [OF assms(1) refl] ready(3)
    by (auto simp: staff_named_def plan_def)
  have c: "count_for r actor = int (assigned_to actor slots)" for actor
    using assigned_aggregate [OF loop_slots [OF l, unfolded start_states]] ready(3) result_of_loop(1) [OF l, of seed]
    by (simp add: count_for_def aggregateAssignments_def staff_named_def r_def)
  have set: "set (planToQueue plan) = (\<lambda>p. (qp_actorId p, qp_baseCount p)) ` set plan" by (simp add: planToQueue_def)
  show "sr_fallbackQueue r = []"
    using loop(1) unfolding r_def result_of_loop(2) [OF l] by (simp add: filter_empty_conv list_all_iff)
  show "count_for r (qp_actorId p) = qp_baseCount p" if "p \<in> set plan" using loop(2) set that unfolding c by force
  show "count_for r actor = 0" if "actor \<notin> qp_actorId ` set plan"
    using loop(3) set that unfolding c by (fastforce simp: assigned_to_def filter_empty_conv)
qed

text \<open>C32. In the batch mode, with room for everybody's quota, no customer falls back, every
  recipient with a weight gets the whole part of its quota or one more, and nobody else gets
  any.\<close>

lemma batch_follows_quota:
  assumes "batch_ready fdiv fx n"
  shows "let r = simulateDistribution fdiv fx n BATCH seed;
             ws = eligible_weights (nullish (pl_weights (fx_pool fx)) []) (fx_staffStates fx)
    in sr_fallbackQueue r = [] \<and>
      list_all (\<lambda>w. let quota = int n * wt_weight w div total_weight ws; got = count_for r (wt_recipientActorId w)
                    in got = quota \<or> got = quota + 1) ws \<and>
      list_all (\<lambda>s. ss_actorId s \<in> wt_recipientActorId ` set ws \<or> count_for r (ss_actorId s) = 0) (fx_staffStates fx)"
proof -
  let ?weights = "nullish (pl_weights (fx_pool fx)) []" and ?r = "simulateDistribution fdiv fx n BATCH seed"
  let ?ws = "eligible_weights ?weights (fx_staffStates fx)" and ?plan = "computeQuotaPlan fdiv (int n) ?weights (fx_staffStates fx)"
  have ready: "?ws \<noteq> []" "distinct (map wt_recipientActorId ?ws)" "exact_division fdiv (int n) ?ws"
    using assms by (auto simp: batch_ready_def Let_def)
  note e = plan_entries [OF refl ready(1,3,2)] and run = batch_run [OF assms, where seed = seed]
  have "let quota = int n * wt_weight w div total_weight ?ws; got = count_for ?r (wt_recipientActorId w)
        in got = quota \<or> got = quota + 1" if w: "w \<in> set ?ws" for w
  proof -
    obtain p where p: "p \<in> set ?plan" "qp_actorId p = wt_recipientActorId w" using e(3) [OF w] by blast
    obtain v where v: "v \<in> set ?ws" "qp_actorId p = wt_recipientActorId v"
        "int n * wt_weight v div total_weight ?ws \<le> qp_baseCount p"
        "qp_baseCount p \<le> int n * wt_weight v div total_weight ?ws + 1"
      using e(2) [OF p(1)] by blast
    have "v = w" using distinct_key_eq [OF ready(2) v(1) w] v(2) p(2) by simp
    then show ?thesis using run(2) [OF p(1)] p(2) v(3,4) by (auto simp: Let_def)
  qed
  moreover have "ss_actorId s \<in> wt_recipientActorId ` set ?ws \<or> count_for ?r (ss_actorId s) = 0" for s
    using run(3) [of "ss_actorId s"] e(2) by force
  ultimately show ?thesis using run(1) unfolding Let_def list_all_iff by blast
qed

section \<open>The realtime mode\<close>

text \<open>The weights are those of the staff, and everybody has room for all customers.\<close>

definition realtime_ready :: "fixture_pool \<Rightarrow> nat \<Rightarrow> bool" where
  "realtime_ready fx n \<longleftrightarrow>
     (let weights = nullish (pl_weights (fx_pool fx)) []; states = fx_staffStates fx
      in pl_strategy (fx_pool fx) = WEIGHTED_DISTRIBUTION \<and> staff_named states \<and>
         list_all (room (int n)) states \<and> list_all (\<lambda>s. 0 \<le> weight_for weights s) states \<and>
         0 < total_weight weights \<and> sum_list (map (weight_for weights) states) = total_weight weights)"

lemma multiples_vanish:
  fixes cs :: "int list"
  assumes "0 < t" and "sum_list cs = 0" and "\<forall>c \<in> set cs. - t < c \<and> t dvd c" and "c \<in> set cs"
  shows "c = 0"
proof -
  have "0 \<le> x" if x: "x \<in> set cs" for x
  proof -
    obtain k where k: "x = t * k" using assms(3) x by (auto elim: dvdE)
    then have "t * (- 1) < t * k" using assms(3) x by force
    then have "- 1 < k" using assms(1) by (simp only: mult_less_cancel_left_pos)
    then show ?thesis using k assms(1) by simp
  qed
  then show ?thesis using sum_list_nonneg_eq_0_iff [of cs] assms(2,4) by auto
qed

text \<open>C31. In the realtime mode, with room for everybody, no customer falls back, nobody is ever a
  whole customer ahead of the share its weight gives it, and after every round of as many
  customers as the total weight everybody has exactly its share.\<close>

lemma realtime_is_proportional:
  assumes "realtime_ready fx n"
  shows "let r = simulateDistribution fdiv fx n REALTIME seed; weights = nullish (pl_weights (fx_pool fx)) [];
             total = total_weight weights
    in sr_fallbackQueue r = [] \<and>
      list_all (\<lambda>s. total * count_for r (ss_actorId s) < int n * weight_for weights s + total \<and>
        (total dvd int n \<longrightarrow> total * count_for r (ss_actorId s) = int n * weight_for weights s)) (fx_staffStates fx)"
proof -
  let ?weights = "nullish (pl_weights (fx_pool fx)) []" and ?r = "simulateDistribution fdiv fx n REALTIME seed"
  let ?states = "fx_staffStates fx" and ?t = "total_weight ?weights"
  have ready: "pl_strategy (fx_pool fx) = WEIGHTED_DISTRIBUTION" "staff_named ?states" "list_all (room (int n)) ?states"
      "\<forall>s \<in> set ?states. 0 \<le> weight_for ?weights s" "0 < ?t" "sum_list (map (weight_for ?weights) ?states) = ?t"
    using assms by (auto simp: realtime_ready_def Let_def list_all_iff)
  have w: "?weights \<noteq> []" using ready(5) by (auto simp: total_weight_def)
  let ?start = "start_simulation fdiv (pl_strategy (fx_pool fx)) ?weights ?states n REALTIME"
  obtain slots sm where l: "simulate_loop [0..<n] (pl_strategy (fx_pool fx)) ?weights ?t REALTIME ?start = (slots, sm)"
    by fastforce
  have "sm_current ?start = Some (map (\<lambda>_. 0) ?states)" using ready(1) by (simp add: start_simulation_def)
  then obtain current where loop: "list_all as_assigned slots" "sum_list current = 0" "length current = length ?states"
      "\<And>i. i < length ?states \<Longrightarrow> - ?t < current ! i \<and>
        current ! i = int n * weight_for ?weights (?states ! i) - ?t * int (assigned_to (ss_actorId (?states ! i)) slots)"
    using wrr_loop [OF l [unfolded ready(1)], of "map (\<lambda>_. 0) ?states"] ready w
    by (auto simp: staff_named_def sum_list_0)
  have c: "count_for ?r actor = int (assigned_to actor slots)" for actor
    using assigned_aggregate [OF loop_slots [OF l, unfolded start_states]] ready(2) result_of_loop(1) [OF l, of seed]
    by (simp add: count_for_def aggregateAssignments_def staff_named_def)
  have "?t * count_for ?r (ss_actorId s) < int n * weight_for ?weights s + ?t \<and>
      (?t dvd int n \<longrightarrow> ?t * count_for ?r (ss_actorId s) = int n * weight_for ?weights s)" if "s \<in> set ?states" for s
  proof -
    obtain i where i: "i < length ?states" "?states ! i = s" using \<open>s \<in> set ?states\<close> by (auto simp: in_set_conv_nth)
    have "current ! i = 0" if "?t dvd int n"
    proof (rule multiples_vanish [OF ready(5) loop(2)])
      have "- ?t < current ! j \<and> ?t dvd current ! j" if "j < length ?states" for j
        using loop(4) [OF that] \<open>?t dvd int n\<close> by simp
      then show "\<forall>c \<in> set current. - ?t < c \<and> ?t dvd c" using loop(3) by (metis in_set_conv_nth)
      show "current ! i \<in> set current" using i loop(3) by simp
    qed
    then show ?thesis using loop(4) [OF i(1)] i(2) unfolding c by auto
  qed
  moreover have "sr_fallbackQueue ?r = []"
    using loop(1) unfolding result_of_loop(2) [OF l] by (simp add: filter_empty_conv list_all_iff)
  ultimately show ?thesis unfolding Let_def list_all_iff by blast
qed


section \<open>What the simulator gets wrong\<close>

lemma nobody_picked:
  assumes "simulate_loop ns strategy weights t mode sm = (slots, sm')" and "strategy \<noteq> SOURCE_ALLOCATION"
    and "sm_current sm = None" and "sm_queue sm = None \<or> sm_queue sm = Some []"
  shows "list_all (\<lambda>slot. \<not> as_assigned slot) slots"
  using assms
proof (induction ns arbitrary: slots sm')
  case (Cons n ns)
  have "pick_staff weights t mode sm = (None, sm)"
    using Cons.prems(3,4) by (cases sm) (auto simp: pick_staff_def split: simulation_mode.splits)
  then obtain reason where a: "assignOneCustomer n strategy weights t mode sm = (fallback_slot n reason, sm)"
    using Cons.prems(2) by (cases "weights = [] \<or> t = 0") (simp_all add: assignOneCustomer_def)
  then obtain slots1 where "simulate_loop ns strategy weights t mode sm = (slots1, sm')" "slots = fallback_slot n reason # slots1"
    using Cons.prems(1) by (auto split: prod.splits)
  then show ?case using Cons.IH Cons.prems(2-4) by (simp add: fallback_slot_def)
qed simp

text \<open>A hybrid pool assigns nobody, in either mode.\<close>

lemma hybrid_is_never_assigned:
  assumes "pl_strategy (fx_pool fx) = HYBRID"
  shows "sr_assignments (simulateDistribution fdiv fx n mode seed) = []"
proof -
  obtain slots sm where l: "simulate_loop [0..<n] (pl_strategy (fx_pool fx)) (nullish (pl_weights (fx_pool fx)) [])
      (total_weight (nullish (pl_weights (fx_pool fx)) [])) mode
      (start_simulation fdiv (pl_strategy (fx_pool fx)) (nullish (pl_weights (fx_pool fx)) [])
        (fx_staffStates fx) n mode) = (slots, sm)" by fastforce
  have "list_all (\<lambda>slot. \<not> as_assigned slot) slots"
    by (rule nobody_picked [OF l]) (simp_all add: assms start_simulation_def)
  then show ?thesis unfolding result_of_loop(1) [OF l] by (simp add: filter_empty_conv list_all_iff)
qed

text \<open>A weight of zero takes a member of the staff out of the batch mode only: when everybody
  who is eligible has weight zero, the batch mode sends all customers to the fallback and the
  realtime mode assigns the first one to such a member all the same.\<close>

lemma modes_disagree_on_disabled_staff:
  assumes "pl_strategy (fx_pool fx) = WEIGHTED_DISTRIBUTION" and "pl_weights (fx_pool fx) = Some weights"
    and "total_weight weights \<noteq> 0" and "0 < n" and "list_ex staff_eligible (fx_staffStates fx)"
    and "\<forall>w \<in> set weights. \<forall>s \<in> set (fx_staffStates fx).
      staff_eligible s \<longrightarrow> wt_recipientActorId w = ss_actorId s \<longrightarrow> wt_weight w = 0"
  shows "sr_assignments (simulateDistribution fdiv fx n BATCH seed) = [] \<and>
    list_ex (\<lambda>slot. list_ex (\<lambda>s. Some (ss_actorId s) = as_staffActorId slot \<and> weight_for weights s = 0)
      (fx_staffStates fx)) (sr_assignments (simulateDistribution fdiv fx n REALTIME seed))"
proof
  let ?states = "fx_staffStates fx"
  have w: "nullish (pl_weights (fx_pool fx)) [] = weights" "weights \<noteq> []" using assms(2,3) by (auto simp: total_weight_def)
  obtain slots sm where l: "simulate_loop [0..<n] (pl_strategy (fx_pool fx)) (nullish (pl_weights (fx_pool fx)) [])
      (total_weight (nullish (pl_weights (fx_pool fx)) [])) BATCH
      (start_simulation fdiv (pl_strategy (fx_pool fx)) (nullish (pl_weights (fx_pool fx)) []) ?states n BATCH) = (slots, sm)"
    by fastforce
  have "eligible_weights weights ?states = []" using assms(6) by (auto simp: eligible_weights_def filter_empty_conv)
  then have "list_all (\<lambda>slot. \<not> as_assigned slot) slots"
    by (intro nobody_picked [OF l])
       (simp_all add: assms(1) w(1) start_simulation_def computeQuotaPlan_def planToQueue_def)
  then show "sr_assignments (simulateDistribution fdiv fx n BATCH seed) = []"
    unfolding result_of_loop(1) [OF l] by (simp add: filter_empty_conv list_all_iff)
  obtain slots2 sm2 where l2: "simulate_loop [0..<n] (pl_strategy (fx_pool fx)) (nullish (pl_weights (fx_pool fx)) [])
      (total_weight (nullish (pl_weights (fx_pool fx)) [])) REALTIME
      (start_simulation fdiv (pl_strategy (fx_pool fx)) (nullish (pl_weights (fx_pool fx)) []) ?states n REALTIME) =
        (slots2, sm2)"
    by fastforce
  obtain i0 where i0: "i0 < length ?states" "staff_eligible (?states ! i0)"
    using assms(5) by (auto simp: list_ex_iff in_set_conv_nth)
  have "eligible_indices ?states \<noteq> []" using i0 eligible_indices_iff by (metis empty_iff list.set(1))
  then obtain first rest where e: "eligible_indices ?states = first # rest" by (cases "eligible_indices ?states") auto
  obtain i current where p: "wrrPick weights (total_weight weights) ?states (map (\<lambda>_. 0) ?states) = (Some i, current)"
    by (simp add: wrrPick_def e Let_def)
  have i: "i < length ?states" "staff_eligible (?states ! i)" using wrrPick_chosen [OF p] by simp_all
  have "[0..<n] = 0 # [1..<n]" using assms(4) by (simp add: upt_conv_Cons)
  then obtain slots3 where "slots2 = slot_of 0 (?states ! i) # slots3"
    using l2 p w assms(1,3)
    by (auto simp: start_simulation_def assignOneCustomer_def pick_staff_def settle_def split: prod.splits)
  then have "slot_of 0 (?states ! i) \<in> set (sr_assignments (simulateDistribution fdiv fx n REALTIME seed))"
    unfolding result_of_loop(1) [OF l2] by (simp add: slot_of_def)
  moreover have "wt_weight w = 0" if "w \<in> set weights" "wt_recipientActorId w = ss_actorId (?states ! i)" for w
    using assms(6) that i(2) nth_mem [OF i(1)] by blast
  then have "weight_for weights (?states ! i) = 0"
    by (auto simp: weight_for_def split: option.splits dest!: find_SomeD)
  ultimately show "list_ex (\<lambda>slot. list_ex (\<lambda>s. Some (ss_actorId s) = as_staffActorId slot \<and> weight_for weights s = 0)
      ?states) (sr_assignments (simulateDistribution fdiv fx n REALTIME seed))"
    using i(1) unfolding list_ex_iff by (intro bexI [of _ "slot_of 0 (?states ! i)"] bexI [of _ "?states ! i"])
      (simp_all add: slot_of_def)
qed

section \<open>Versions of a pool\<close>

lemma get_set_pool [simp]: "get_pool k (set_pool pool pools) = (if k = pl_poolId pool then Some pool else get_pool k pools)"
proof (cases "get_pool (pl_poolId pool) pools")
  case None
  then show ?thesis by (auto simp: get_pool_def set_pool_def find_append split: option.splits)
next
  case (Some old)
  have "find (\<lambda>p. pl_poolId p = k) (update_where (\<lambda>p. pl_poolId p = pl_poolId pool) (\<lambda>_. pool) pools) =
      (if k = pl_poolId pool then map_option (\<lambda>_. pool) (find (\<lambda>p. pl_poolId p = k) pools)
       else find (\<lambda>p. pl_poolId p = k) pools)"
    by (induction pools) auto
  then show ?thesis using Some by (auto simp: get_pool_def set_pool_def)
qed

lemma get_pool_id: "get_pool k pools = Some pool \<Longrightarrow> pl_poolId pool = k"
  by (auto simp: get_pool_def find_Some_iff)

lemma update_pool_cases:
  obtains (refused) err where "update_pool now k v who patch pools = (Inl err, pools)"
  | (updated) current where "get_pool k pools = Some current" "pl_version current = v"
      "update_pool now k v who patch pools =
        (Inr (merged_pool now who patch current), set_pool (merged_pool now who patch current) pools)"
proof (cases "get_pool k pools")
  case None
  then show thesis by (intro refused) (simp add: update_pool_def)
next
  case (Some current)
  let ?m = "merged_pool now who patch current"
  show thesis
  proof (cases "pl_version current \<noteq> v \<or> \<not> list_all (\<lambda>key. key \<in> set pool_members) (pa_keys patch) \<or> \<not> RoutingPoolSchema ?m")
    case True
    then obtain err where "update_pool now k v who patch pools = (Inl err, pools)"
      using Some by (cases "pl_version current = v") (simp_all add: update_pool_def Let_def)
    then show thesis by (rule refused)
  next
    case False
    then show thesis using Some by (intro updated [of current]) (auto simp: update_pool_def Let_def)
  qed
qed

lemma updatePool_cases:
  obtains (refused) err where "updatePool now req who pools = (Inl err, pools)"
  | (updated) current where "get_pool (ur_poolId req) pools = Some current" "pl_version current = ur_expectedVersion req"
      "updatePool now req who pools =
        (Inr (merged_pool now (mi_staffId who) (ur_patch req) current),
         set_pool (merged_pool now (mi_staffId who) (ur_patch req) current) pools)"
proof (cases "requireManagerRole (mi_role who) \<and>
    \<not> list_ex (\<lambda>key. key \<in> set ROUTING_PATCH_FORBIDDEN) (pa_keys (ur_patch req))")
  case False
  then obtain err where "updatePool now req who pools = (Inl err, pools)"
    by (cases "requireManagerRole (mi_role who)") (simp_all add: updatePool_def)
  then show thesis by (rule refused)
next
  case True
  then have u: "updatePool now req who pools =
      update_pool now (ur_poolId req) (ur_expectedVersion req) (mi_staffId who) (ur_patch req) pools"
    by (simp add: updatePool_def)
  show thesis
    by (cases rule: update_pool_cases [of now "ur_poolId req" "ur_expectedVersion req" "mi_staffId who" "ur_patch req" pools])
       (use u refused updated in auto)
qed

lemma merged_fields [simp]:
  "pl_poolId (merged_pool now who patch current) = pl_poolId current"
  "pl_version (merged_pool now who patch current) = pl_version current + 1"
  "pl_organizationId (merged_pool now who patch current) = pl_organizationId current"
  by (simp_all add: merged_pool_def)

definition run_updates :: "(int \<times> update_pool_request \<times> mock_identity) list \<Rightarrow> pool_store \<Rightarrow> pool_store" where
  "run_updates us pools = fold (\<lambda>(now, req, who) ps. snd (updatePool now req who ps)) us pools"

lemma versions_grow:
  "get_pool k pools = Some p \<Longrightarrow> \<exists>p'. get_pool k (run_updates us pools) = Some p' \<and> pl_version p \<le> pl_version p'"
  unfolding run_updates_def
proof (induction us arbitrary: pools p)
  case (Cons u us)
  obtain now req who where u: "u = (now, req, who)" by (cases u) auto
  have "\<exists>p1. get_pool k (snd (updatePool now req who pools)) = Some p1 \<and> pl_version p \<le> pl_version p1"
  proof (cases rule: updatePool_cases [of now req who pools])
    case (refused err)
    then show ?thesis using Cons.prems by simp
  next
    case (updated current)
    then show ?thesis using Cons.prems get_pool_id [OF updated(1)] by auto
  qed
  then show ?case using Cons.IH unfolding u by (fastforce intro: order_trans)
qed simp

text \<open>Updates of a pool do not overwrite each other: once one was accepted, and whatever
  updates of any managers follow, an update that expects the same or an older version is refused
  and changes nothing.\<close>

lemma stale_update_is_refused:
  assumes "updatePool now req who pools = (Inr pool, pools')"
    and "ur_poolId req2 = ur_poolId req" and "ur_expectedVersion req2 \<le> ur_expectedVersion req"
  shows "\<exists>err. updatePool now2 req2 who2 (run_updates us pools') = (Inl err, run_updates us pools')"
proof -
  obtain current where c: "get_pool (ur_poolId req) pools = Some current" "pl_version current = ur_expectedVersion req"
      "pools' = set_pool (merged_pool now (mi_staffId who) (ur_patch req) current) pools"
    by (cases rule: updatePool_cases [of now req who pools]) (use assms(1) in auto)
  have "get_pool (ur_poolId req) pools' = Some (merged_pool now (mi_staffId who) (ur_patch req) current)"
    using get_pool_id [OF c(1)] by (simp add: c(3))
  then obtain p where p: "get_pool (ur_poolId req) (run_updates us pools') = Some p" "ur_expectedVersion req < pl_version p"
    using versions_grow c(2) by fastforce
  show ?thesis
    by (cases rule: updatePool_cases [of now2 req2 who2 "run_updates us pools'"]) (use p assms(2,3) in auto)
qed

text \<open>Creating a pool under an id that exists replaces it and starts its versions again at 1, so
  that an update made against the first version of the old pool is accepted for the new one.\<close>

lemma create_restarts_versions:
  assumes "createPool now req keys who pools = (Inr pool, pools')"
  shows "get_pool (pl_poolId req) pools' = Some pool" "pl_version pool = 1"
    "fst (update_pool now2 (pl_poolId req) 1 who2 patch pools') \<noteq> Inl (Routing_Config_Error ''VERSION_CONFLICT'')"
proof -
  show g: "get_pool (pl_poolId req) pools' = Some pool" and v: "pl_version pool = 1"
    using assms by (auto simp: createPool_def put_pool_def Let_def split: if_splits)
  show "fst (update_pool now2 (pl_poolId req) 1 who2 patch pools') \<noteq> Inl (Routing_Config_Error ''VERSION_CONFLICT'')"
    using g v by (auto simp: update_pool_def Let_def)
qed


section \<open>Witnesses\<close>

definition exact_quotient :: "int \<Rightarrow> int \<Rightarrow> rat" where
  "exact_quotient a b = of_int a / of_int b"

definition demo_fixture :: fixture_pool where
  "demo_fixture = makeWeightedFixturePool 0 no_overrides"

definition offline_fixture :: fixture_pool where
  "offline_fixture = makeWeightedFixturePool 0
     (no_overrides\<lparr>ov_weights := (3, 2, 0, 0), ov_staffAOffline := True, ov_staffBOffline := True\<rparr>)"

lemmas demo_defs = demo_fixture_def offline_fixture_def makeWeightedFixturePool_def no_overrides_def
  fixture_states_def sale_staff_def sale_weight_def Let_def

lemma demo_states:
  "staff_named (fx_staffStates demo_fixture)"
  "list_all (within_caps WEIGHTED_DISTRIBUTION) (fx_staffStates demo_fixture)"
  "pl_strategy (fx_pool demo_fixture) = WEIGHTED_DISTRIBUTION"
  "eligible_weights (nullish (pl_weights (fx_pool demo_fixture)) []) (fx_staffStates demo_fixture) =
     nullish (pl_weights (fx_pool demo_fixture)) []"
  "nullish (pl_weights (fx_pool demo_fixture)) [] =
     [sale_weight ''staff-sale-A'' 3, sale_weight ''staff-sale-B'' 2, sale_weight ''staff-sale-C'' 1,
      sale_weight ''staff-sale-D'' 4]"
  "realtime_ready demo_fixture 10"
  by (auto simp: demo_defs staff_named_def within_caps_def eligible_weights_def staff_eligible_def
      isAtCapacity_def isQuotaExhausted_def realtime_ready_def room_def weight_for_def total_weight_def)

lemma demo_exact:
  "exact_division exact_quotient 10
     [sale_weight ''staff-sale-A'' 3, sale_weight ''staff-sale-B'' 2, sale_weight ''staff-sale-C'' 1,
      sale_weight ''staff-sale-D'' 4]"
  by (simp add: exact_division_def exact_quotient_def total_weight_def sale_weight_def)

lemma demo_batch: "batch_ready exact_quotient demo_fixture 10"
  unfolding batch_ready_def Let_def demo_states(4) unfolding demo_states(5)
proof (intro conjI)
  show "exact_division exact_quotient (int 10)
     [sale_weight ''staff-sale-A'' 3, sale_weight ''staff-sale-B'' 2, sale_weight ''staff-sale-C'' 1,
      sale_weight ''staff-sale-D'' 4]"
    using demo_exact by simp
qed (simp_all add: demo_states(1,3), simp_all add: demo_defs total_weight_def room_def)

lemma simulation_conserves_customers_witness:
  "let r = simulateDistribution exact_quotient demo_fixture 3 REALTIME 0
   in mset (map as_customerIndex (sr_assignments r)) + mset (map as_customerIndex (sr_fallbackQueue r)) = mset [0..<3]"
  using simulation_conserves_customers [OF demo_states(1), of exact_quotient 3 REALTIME 0] by (simp add: Let_def)

lemma caps_are_respected_witness:
  "list_all (\<lambda>su. su_capacityUsed su \<le> su_capacityMax su)
     (sr_staffSummary (simulateDistribution exact_quotient demo_fixture 100 BATCH 0))"
  using caps_are_respected [of demo_fixture exact_quotient 100 BATCH 0] demo_states(2,3)
  by (simp add: Let_def list_all_iff)

lemma quota_plan_is_largest_remainder_witness:
  "sum_list (map qp_baseCount (computeQuotaPlan exact_quotient 10 (nullish (pl_weights (fx_pool demo_fixture)) [])
     (fx_staffStates demo_fixture))) = 10"
proof -
  have "nullish (pl_weights (fx_pool demo_fixture)) [] \<noteq> []" by (simp add: demo_states(5))
  then show ?thesis
    using quota_plan_is_largest_remainder [OF demo_states(4) [symmetric], of exact_quotient 10] demo_exact
    by (auto simp: demo_states(5))
qed

lemma batch_follows_quota_witness:
  "sr_fallbackQueue (simulateDistribution exact_quotient demo_fixture 10 BATCH 0) = []"
  using batch_follows_quota [OF demo_batch, of 0] by (simp add: Let_def)

lemma realtime_is_proportional_witness:
  "count_for (simulateDistribution exact_quotient demo_fixture 10 REALTIME 0) ''staff-sale-A'' = 3"
proof -
  have s: "sale_staff ''staff-sale-A'' True 0 25 0 50 \<in> set (fx_staffStates demo_fixture)" by (simp add: demo_defs)
  have "total_weight (nullish (pl_weights (fx_pool demo_fixture)) []) = 10"
    "weight_for (nullish (pl_weights (fx_pool demo_fixture)) []) (sale_staff ''staff-sale-A'' True 0 25 0 50) = 3"
    "ss_actorId (sale_staff ''staff-sale-A'' True 0 25 0 50) = ''staff-sale-A''"
    by (simp_all add: demo_states(5) total_weight_def weight_for_def sale_weight_def sale_staff_def)
  then show ?thesis
    using bspec [OF conjunct2 [OF realtime_is_proportional [OF demo_states(6), of exact_quotient 0,
          unfolded Let_def list_all_iff]] s] by simp
qed

definition demo_manager :: mock_identity where
  "demo_manager = \<lparr>mi_staffId = ''staff-supervisor-001'', mi_role = SUPERVISOR, mi_organizationId = ''org-001'',
     mi_actor = USER ''staff-supervisor-001'', mi_extraScopes = []\<rparr>"

definition demo_update :: update_pool_request where
  "demo_update =
     \<lparr>ur_organizationId = ''org-001'', ur_poolId = ''pool-weighted-3-2-1-4'', ur_expectedVersion = 1,
      ur_patch = \<lparr>pa_schemaVersion = None, pa_displayName = Some ''renamed'', pa_description = None,
        pa_strategy = None, pa_eligibleSet = None, pa_fixedOwner = None, pa_weights = None,
        pa_keys = [''displayName'']\<rparr>,
      ur_reasonCode = ''R''\<rparr>"

lemma demo_updated: "isl (fst (updatePool 5 demo_update demo_manager (seedFixtures 0 []))) = False"
  by code_simp

end
