(* ===== verification/Url_Policy.thy ===== *)
theory Url_Policy
  imports Js_Collections "HOL-Library.Word"
begin

text \<open>
  The request-forgery policy of \<open>apps/core-1.10-media/src/url-policy.ts\<close>: a check of strings that
  calls no network. The parser of URLs belongs to the runtime and is the parameter \<open>new_url\<close>:
  \<^const>\<open>None\<close> where \<open>new URL\<close> throws, else the protocol with its colon and the host name, an
  IPv6 literal with its brackets.
\<close>

section \<open>Private hosts\<close>

definition octets :: "string \<Rightarrow> int option list" where
  "octets ip = map parse_int (split_on CHR ''.'' ip)"

definition bad_octet :: "int option \<Rightarrow> bool" where
  "bad_octet p = (case p of None \<Rightarrow> True | Some v \<Rightarrow> v < 0 \<or> v > 255)"

definition isPrivateIPv4 :: "string \<Rightarrow> bool" where
  "isPrivateIPv4 ip =
     (let parts = octets ip
      in if length parts \<noteq> 4 \<or> list_ex bad_octet parts then True
         else let a = the (parts ! 0); b = the (parts ! 1)
              in if a = 127 then True
                 else if a = 10 then True
                 else if a = 172 \<and> b \<ge> 16 \<and> b \<le> 31 then True
                 else if a = 192 \<and> b = 168 then True
                 else if a = 169 \<and> b = 254 then True
                 else if a = 0 then True
                 else False)"

definition isPrivateIPv6 :: "string \<Rightarrow> bool" where
  "isPrivateIPv6 ip =
     (if ip = ''::1'' then True
      else let hex = to_lower (filter (\<lambda>c. c \<noteq> CHR '':'') ip)
           in if starts_with ''fc'' hex \<or> starts_with ''fd'' hex then True
              else starts_with ''fe80'' hex \<or> starts_with ''fe90'' hex \<or> starts_with ''fea0'' hex
                \<or> starts_with ''feb0'' hex)"

text \<open>The pattern of four groups of one to three digits.\<close>

definition dotted_quad :: "string \<Rightarrow> bool" where
  "dotted_quad h \<longleftrightarrow>
     (let parts = split_on CHR ''.'' h
      in length parts = 4
         \<and> list_all (\<lambda>p. 1 \<le> length p \<and> length p \<le> 3 \<and> list_all is_digit p) parts)"

definition isPrivateHost :: "string \<Rightarrow> bool" where
  "isPrivateHost host =
     (let h = to_lower host
      in if starts_with ''['' h \<and> ends_with '']'' h then isPrivateIPv6 (butlast (tl h))
         else if dotted_quad h then isPrivateIPv4 h
         else if h = ''localhost'' \<or> ends_with ''.localhost'' h then True
         else if ends_with ''.local'' h \<or> ends_with ''.internal'' h then True
         else False)"

section \<open>The decision\<close>

record policy_decision =
  pd_allow :: bool
  pd_reason :: string
  pd_rules :: "string list"

record parsed_url =
  pu_protocol :: string
  pu_hostname :: string

text \<open>The deny list is state of the module; what is installed replaces the empty default.\<close>

definition DENY_LIST :: "string list" where
  "DENY_LIST = []"

definition installDenyList :: "string list \<Rightarrow> string list option" where
  "installDenyList hosts = Some hosts"

definition resetDenyList :: "string list option" where
  "resetDenyList = None"

definition getDenyList :: "string list option \<Rightarrow> string list" where
  "getDenyList override = nullish override DENY_LIST"

definition evaluateUrl ::
  "(string \<Rightarrow> parsed_url option) \<Rightarrow> string list option \<Rightarrow> string \<Rightarrow> policy_decision" where
  "evaluateUrl new_url override rawUrl =
     (case new_url rawUrl of
        None \<Rightarrow> \<lparr>pd_allow = False, pd_reason = ''INVALID_URL'', pd_rules = [''parse_failed'']\<rparr>
      | Some parsed \<Rightarrow>
          if pu_protocol parsed \<noteq> ''https:''
          then \<lparr>pd_allow = False, pd_reason = ''BAD_SCHEME: scheme='' @ pu_protocol parsed,
                pd_rules = [''parsed'', ''scheme_check'']\<rparr>
          else let host = to_lower (pu_hostname parsed)
               in if host \<in> set (getDenyList override)
                  then \<lparr>pd_allow = False, pd_reason = ''DENY_LISTED_HOST: host='' @ host,
                        pd_rules = [''parsed'', ''scheme_ok'', ''deny_list_check'']\<rparr>
                  else if isPrivateHost host
                  then \<lparr>pd_allow = False, pd_reason = ''PRIVATE_HOST: host='' @ host,
                        pd_rules = [''parsed'', ''scheme_ok'', ''deny_list_ok'', ''private_check'']\<rparr>
                  else \<lparr>pd_allow = True, pd_reason = ''public https allowed'',
                        pd_rules = [''parsed'', ''scheme_ok'', ''deny_list_ok'', ''public'']\<rparr>)"

text \<open>A batch collects the allowed URLs, and the denied ones with their reasons.\<close>

fun batch_loop ::
  "(string \<Rightarrow> policy_decision) \<Rightarrow> string list \<Rightarrow> string list \<times> (string \<times> string) list \<Rightarrow>
   string list \<times> (string \<times> string) list" where
  "batch_loop evaluate [] acc = acc"
| "batch_loop evaluate (u # us) (allowed, denied) =
     (let d = evaluate u
      in if pd_allow d then batch_loop evaluate us (allowed @ [u], denied)
         else batch_loop evaluate us (allowed, denied @ [(u, pd_reason d)]))"

definition evaluateBatch ::
  "(string \<Rightarrow> parsed_url option) \<Rightarrow> string list option \<Rightarrow> string list \<Rightarrow>
   string list \<times> (string \<times> string) list" where
  "evaluateBatch new_url override urls = batch_loop (evaluateUrl new_url override) urls ([], [])"

definition assertUrlDenied ::
  "(string \<Rightarrow> parsed_url option) \<Rightarrow> string list option \<Rightarrow> string \<Rightarrow> unit + policy_decision" where
  "assertUrlDenied new_url override url =
     (let d = evaluateUrl new_url override url in if pd_allow d then Inl () else Inr d)"

definition assertUrlAllowed ::
  "(string \<Rightarrow> parsed_url option) \<Rightarrow> string list option \<Rightarrow> string \<Rightarrow> unit + policy_decision" where
  "assertUrlAllowed new_url override url =
     (let d = evaluateUrl new_url override url in if \<not> pd_allow d then Inl () else Inr d)"

section \<open>Facts\<close>

lemma evaluateUrl_allows_iff:
  "pd_allow (evaluateUrl new_url override u) \<longleftrightarrow>
     (\<exists>p. new_url u = Some p \<and> pu_protocol p = ''https:''
        \<and> to_lower (pu_hostname p) \<notin> set (getDenyList override)
        \<and> \<not> isPrivateHost (to_lower (pu_hostname p)))"
  by (auto simp: evaluateUrl_def Let_def split: option.splits if_splits)

lemma batch_loop_filter:
  "batch_loop evaluate us (allowed, denied) =
     (allowed @ filter (\<lambda>u. pd_allow (evaluate u)) us,
      denied @ map (\<lambda>u. (u, pd_reason (evaluate u))) (filter (\<lambda>u. \<not> pd_allow (evaluate u)) us))"
  by (induction us arbitrary: allowed denied) (simp_all add: Let_def)

end
