(* ===== verification/Url_Facts.thy ===== *)
theory Url_Facts
  imports Url_Policy
begin

text \<open>
  The address blocks the policy names, on addresses as words, and how addresses are written in
  the host name of a parsed URL: four decimal octets, or groups of hexadecimal digits in
  brackets.
\<close>

section \<open>IPv4 addresses\<close>

definition octet :: "32 word \<Rightarrow> nat \<Rightarrow> nat" where
  "octet w i = unat w div 2 ^ (8 * i) mod 256"

definition dotted :: "32 word \<Rightarrow> string" where
  "dotted w = join_with ''.'' (map digits [octet w 3, octet w 2, octet w 1, octet w 0])"

text \<open>A block \<open>net/len\<close>: the addresses that share the first \<open>len\<close> bits with \<open>net\<close>.\<close>

definition in_block :: "32 word \<Rightarrow> 32 word \<times> nat \<Rightarrow> bool" where
  "in_block w b \<longleftrightarrow> drop_bit (32 - snd b) w = drop_bit (32 - snd b) (fst b)"

text \<open>127.0.0.0/8, 10.0.0.0/8, 172.16.0.0/12, 192.168.0.0/16, 169.254.0.0/16 and 0.0.0.0/8.\<close>

definition private_blocks :: "(32 word \<times> nat) list" where
  "private_blocks =
     [(0x7F000000, 8), (0x0A000000, 8), (0xAC100000, 12), (0xC0A80000, 16), (0xA9FE0000, 16), (0, 8)]"

lemma drop_bit_word_eq:
  "drop_bit n v = drop_bit n w \<longleftrightarrow> unat v div 2 ^ n = unat w div 2 ^ n" for v w :: "32 word"
  by (metis drop_bit_eq_div unat_drop_bit_eq word_unat_eq_iff)

lemma in_block_iff:
  "in_block w b \<longleftrightarrow> unat w div 2 ^ (32 - snd b) = unat (fst b) div 2 ^ (32 - snd b)"
  by (simp add: in_block_def drop_bit_word_eq)

lemma octet_less [simp]: "octet w i < 256"
  by (simp add: octet_def)

lemma div_range: "0 < k \<Longrightarrow> m div k = q \<longleftrightarrow> k * q \<le> m \<and> m < k * q + k" for k m q :: nat
  by (metis add.commute div_less_iff_less_mult less_eq_div_iff_mult_less_eq less_Suc_eq_le mult.commute
      mult_Suc_right order_antisym_conv order_refl)

lemma quotient_range:
  fixes m :: nat
  assumes "hi < 256"
  shows "256 * a + lo \<le> m \<and> m \<le> 256 * a + hi \<longleftrightarrow> m div 256 = a \<and> lo \<le> m mod 256 \<and> m mod 256 \<le> hi"
proof -
  obtain q r where m: "m = 256 * q + r" and r: "r < 256"
    by (metis mult_div_mod_eq mod_less_divisor zero_less_numeral)
  have "m div 256 = q" and "m mod 256 = r" using r by (simp_all add: m)
  moreover have "256 * a + lo \<le> 256 * q + r \<and> 256 * q + r \<le> 256 * a + hi \<longleftrightarrow> q = a \<and> lo \<le> r \<and> r \<le> hi"
    using r assms by (cases q a rule: linorder_cases) (auto dest!: Suc_leI mult_le_mono2 [of _ _ 256])
  ultimately show ?thesis by (simp add: m)
qed

lemma private_blocks_octets:
  "list_ex (in_block w) private_blocks \<longleftrightarrow>
     (let a = octet w 3; b = octet w 2
      in a = 127 \<or> a = 10 \<or> a = 172 \<and> 16 \<le> b \<and> b \<le> 31 \<or> a = 192 \<and> b = 168
         \<or> a = 169 \<and> b = 254 \<or> a = 0)"
proof -
  define m where "m = unat w div 65536"
  have w: "unat w < 4294967296" using unsigned_less [of w, where 'a = nat] by simp
  have m: "m < 65536" using w unfolding m_def by (simp add: less_mult_imp_div_less)
  have a: "unat w div 16777216 = m div 256"
    unfolding m_def div_mult2_eq [symmetric] by simp
  have c: "unat w div 1048576 = m div 16"
    unfolding m_def div_mult2_eq [symmetric] by simp
  have "octet w 3 = m div 256" and "octet w 2 = m mod 256"
    using m by (auto simp: octet_def a m_def [symmetric] less_mult_imp_div_less)
  moreover have "m div 16 = 2753 \<longleftrightarrow> m div 256 = 172 \<and> 16 \<le> m mod 256 \<and> m mod 256 \<le> 31"
    using div_range [of 16 m 2753] quotient_range [of 31 172 16 m] by auto
  moreover have "m = 49320 \<longleftrightarrow> m div 256 = 192 \<and> m mod 256 = 168"
    using quotient_range [of 168 192 168 m] by auto
  moreover have "m = 43518 \<longleftrightarrow> m div 256 = 169 \<and> m mod 256 = 254"
    using quotient_range [of 254 169 254 m] by auto
  ultimately show ?thesis
    by (simp add: private_blocks_def in_block_iff a c Let_def flip: m_def)
qed

section \<open>Written addresses\<close>

lemma lower_digit: "is_digit c \<Longrightarrow> lower c = c"
  by (simp add: lower_def is_digit_def Let_def)

lemma to_lower_digits [simp]: "to_lower (digits n) = digits n"
  by (simp add: to_lower_def map_idI lower_digit digits_are_digits)

lemma to_lower_append [simp]: "to_lower (s @ t) = to_lower s @ to_lower t"
  by (simp add: to_lower_def)

lemma to_lower_dot [simp]: "to_lower (CHR ''.'' # s) = CHR ''.'' # to_lower s"
  by (simp add: to_lower_def lower_def)

lemma digits_no_dot [simp]: "CHR ''.'' \<notin> set (digits n)"
  using digits_are_digits [of "CHR ''.''" n] by (auto simp: is_digit_def)

lemma octet_digits_length: "n < 256 \<Longrightarrow> length (digits n) \<le> 3"
  by (subst digits.simps, subst digits.simps, subst digits.simps) auto

lemma split_dotted:
  "split_on CHR ''.'' (dotted w) = map digits [octet w 3, octet w 2, octet w 1, octet w 0]"
  by (simp add: dotted_def split_on_sep split_on_free)

lemma to_lower_dotted [simp]: "to_lower (dotted w) = dotted w"
  by (simp add: dotted_def)

lemma dotted_is_quad: "dotted_quad (dotted w)"
  using octet_digits_length [OF octet_less] digits_are_digits
  by (simp add: dotted_quad_def split_dotted list_all_iff Suc_le_eq)

lemma dotted_no_bracket: "\<not> starts_with ''['' (dotted w)"
proof -
  obtain c t where "digits (octet w 3) = c # t" and "is_digit c" using digits_head by blast
  then show ?thesis by (auto simp: dotted_def is_digit_def)
qed

lemma octets_dotted:
  "octets (dotted w) = map (Some \<circ> int) [octet w 3, octet w 2, octet w 1, octet w 0]"
  by (simp add: octets_def split_dotted)

lemma good_octet: "n < 256 \<Longrightarrow> \<not> bad_octet (Some (int n))"
  by (simp add: bad_octet_def)

lemma isPrivateHost_dotted: "isPrivateHost (dotted w) = isPrivateIPv4 (dotted w)"
  by (simp add: isPrivateHost_def dotted_is_quad dotted_no_bracket)

text \<open>Sixteen bits as lower-case hexadecimal digits, without leading zeros.\<close>

definition nibble :: "nat \<Rightarrow> char" where
  "nibble n = (if n < 10 then char_of (48 + n) else char_of (87 + n))"

definition hex4 :: "16 word \<Rightarrow> string" where
  "hex4 g = dropWhile (\<lambda>c. c = CHR ''0'')
     [nibble (unat g div 4096), nibble (unat g div 256 mod 16), nibble (unat g div 16 mod 16)]
     @ [nibble (unat g mod 16)]"

text \<open>The host name of the IPv4-mapped address of \<open>w\<close>: \<open>[::ffff:hhhh:llll]\<close>.\<close>

definition mapped_host :: "32 word \<Rightarrow> string" where
  "mapped_host w = ''[::ffff:'' @ hex4 (ucast (drop_bit 16 w)) @ '':'' @ hex4 (ucast w) @ '']''"

text \<open>The host name of an address with first group \<open>g\<close>.\<close>

definition group_host :: "16 word \<Rightarrow> string \<Rightarrow> string" where
  "group_host g rest = ''['' @ hex4 g @ '':'' @ rest @ '']''"

end
