(* ===== verification/Evidence_Store.thy ===== *)
theory Evidence_Store
  imports Url_Policy Primitives
begin

text \<open>
  The evidence lifecycle of \<open>apps/core-1.10-media/src/evidence-store.ts\<close> and the combined policy
  of \<open>policy-harness.ts\<close>. SHA-256, the random identifier, the time and the texts of the schema
  library's issues are parameters; so is the scan that a test may install.
\<close>

section \<open>Records\<close>

datatype evidence_state = EV_QUARANTINED | EV_READY | EV_REJECTED | EV_REVOKED

datatype evidence_kind = CCCD_FRONT | CCCD_BACK

type_synonym bytes = "8 word list"

record evidence_record =
  ev_schemaVersion :: string
  ev_evidenceId :: string
  ev_organizationId :: string
  ev_kind :: evidence_kind
  ev_contentDigest :: string
  ev_sizeBytes :: nat
  ev_storedAt :: string
  ev_state :: evidence_state
  ev_stateReason :: "string option"
  ev_vnResidency :: bool

record scan_decision =
  sd_pass :: bool
  sd_reason :: string
  sd_engine :: string

record upload_request =
  up_schemaVersion :: string
  up_organizationId :: string
  up_kind :: evidence_kind
  up_bytes :: bytes
  up_owner :: string
  up_simulateMalware :: "bool option"

record upload_result =
  ur_evidenceId :: string
  ur_contentDigest :: string
  ur_storedAt :: string
  ur_initialState :: evidence_state
  ur_scan :: scan_decision

text \<open>The records by identifier, and the identifiers of every organization.\<close>

record evidence_store =
  es_records :: "(string \<times> evidence_record) list"
  es_orgIndex :: "(string \<times> string list) list"

datatype media_error =
  ZodInvalid
| CannotRevoke evidence_state
| EvidenceNotFound string
| CrossOrg string string string
| EvidenceNotReady string evidence_state

section \<open>The scan\<close>

definition MAX_EVIDENCE_BYTES :: nat where
  "MAX_EVIDENCE_BYTES = 32 * 1024 * 1024"

definition fixture_engine :: string where
  "fixture_engine = ''FIXTURE_ENGINE_Core_1_10_MOCK''"

definition defaultScanFixture :: "bytes \<Rightarrow> scan_decision" where
  "defaultScanFixture bs =
     (if length bs = 0
      then \<lparr>sd_pass = False, sd_reason = ''empty input'', sd_engine = fixture_engine\<rparr>
      else if length bs > MAX_EVIDENCE_BYTES
      then \<lparr>sd_pass = False,
            sd_reason = ''exceeds MAX_EVIDENCE_BYTES ('' @ digits MAX_EVIDENCE_BYTES @ '')'',
            sd_engine = fixture_engine\<rparr>
      else \<lparr>sd_pass = True, sd_reason = ''fixture pass'', sd_engine = fixture_engine\<rparr>)"

definition scan_of :: "(bytes \<Rightarrow> scan_decision) option \<Rightarrow> upload_request \<Rightarrow> scan_decision" where
  "scan_of installed req =
     (case installed of
        Some scan \<Rightarrow> scan (up_bytes req)
      | None \<Rightarrow>
          if up_simulateMalware req = Some True
          then \<lparr>sd_pass = False, sd_reason = ''simulated malware (test fixture)'',
                sd_engine = fixture_engine\<rparr>
          else defaultScanFixture (up_bytes req))"

section \<open>The store\<close>

definition new_evidence_store :: evidence_store where
  "new_evidence_store = \<lparr>es_records = [], es_orgIndex = []\<rparr>"

definition list_evidence :: "evidence_store \<Rightarrow> evidence_record list" where
  "list_evidence st = map snd (es_records st)"

definition get_evidence :: "string \<Rightarrow> evidence_store \<Rightarrow> evidence_record option" where
  "get_evidence evidenceId st = map_of (es_records st) evidenceId"

definition upload ::
  "(bytes \<Rightarrow> string) \<Rightarrow> (bytes \<Rightarrow> scan_decision) option \<Rightarrow> upload_request \<Rightarrow> string \<Rightarrow> string \<Rightarrow>
   evidence_store \<Rightarrow> (media_error + upload_result) \<times> evidence_store" where
  "upload sha256Hex installed req uuid now st =
     (if \<not> OrganizationIdSchema (up_organizationId req) then (Inl ZodInvalid, st)
      else if up_schemaVersion req \<noteq> ''1'' then (Inl ZodInvalid, st)
      else
        let evidenceId = ''ev-'' @ uuid;
            contentDigest = sha256Hex (up_bytes req);
            scan = scan_of installed req;
            state = (if sd_pass scan then EV_READY else EV_REJECTED);
            row = \<lparr>ev_schemaVersion = up_schemaVersion req, ev_evidenceId = evidenceId,
                   ev_organizationId = up_organizationId req, ev_kind = up_kind req,
                   ev_contentDigest = contentDigest, ev_sizeBytes = length (up_bytes req),
                   ev_storedAt = now, ev_state = state, ev_stateReason = Some (sd_reason scan),
                   ev_vnResidency = True\<rparr>;
            ids = nullish (map_of (es_orgIndex st) (up_organizationId req)) [];
            ids' = (if evidenceId \<in> set ids then ids else ids @ [evidenceId])
        in (Inr \<lparr>ur_evidenceId = evidenceId, ur_contentDigest = contentDigest, ur_storedAt = now,
                 ur_initialState = state, ur_scan = scan\<rparr>,
            \<lparr>es_records = map_set evidenceId row (es_records st),
             es_orgIndex = map_set (up_organizationId req) ids' (es_orgIndex st)\<rparr>))"

definition revoke ::
  "string \<Rightarrow> string \<Rightarrow> evidence_store \<Rightarrow> (media_error + evidence_record option) \<times> evidence_store" where
  "revoke evidenceId reason st =
     (case map_of (es_records st) evidenceId of
        None \<Rightarrow> (Inr None, st)
      | Some row \<Rightarrow>
          if ev_state row \<noteq> EV_READY then (Inl (CannotRevoke (ev_state row)), st)
          else let row' = row\<lparr>ev_state := EV_REVOKED, ev_stateReason := Some reason\<rparr>
               in (Inr (Some row'),
                   st\<lparr>es_records := map_set evidenceId row' (es_records st)\<rparr>))"

definition requireOrgScope ::
  "string \<Rightarrow> string \<Rightarrow> evidence_store \<Rightarrow> media_error + evidence_record" where
  "requireOrgScope evidenceId organizationId st =
     (case map_of (es_records st) evidenceId of
        None \<Rightarrow> Inl (EvidenceNotFound evidenceId)
      | Some row \<Rightarrow>
          if ev_organizationId row \<noteq> organizationId
          then Inl (CrossOrg evidenceId (ev_organizationId row) organizationId)
          else Inr row)"

definition requireReady ::
  "string \<Rightarrow> string \<Rightarrow> evidence_store \<Rightarrow> media_error + evidence_record" where
  "requireReady evidenceId organizationId st =
     (case requireOrgScope evidenceId organizationId st of
        Inl e \<Rightarrow> Inl e
      | Inr row \<Rightarrow>
          if ev_state row \<noteq> EV_READY then Inl (EvidenceNotReady evidenceId (ev_state row)) else Inr row)"

section \<open>The harness\<close>

datatype harness_policy = P_ssrf | P_public_evidence | P_cross_org | P_all_passed

record harness_decision = policy_decision +
  hd_policy :: harness_policy

record read_request =
  rr_organizationId :: string
  rr_storageHandle :: string
  rr_accessor :: string
  rr_ttlSec :: rat

record harness_input =
  hi_url :: "string option"
  hi_organizationId :: string
  hi_evidenceId :: "string option"
  hi_read :: "read_request option"

text \<open>\<open>ObjectStorageReadRequestSchema\<close> on a request of the typed shape.\<close>

definition read_request_valid :: "read_request \<Rightarrow> bool" where
  "read_request_valid r \<longleftrightarrow>
     OrganizationIdSchema (rr_organizationId r)
     \<and> 8 \<le> length (rr_storageHandle r) \<and> length (rr_storageHandle r) \<le> 256
     \<and> 1 \<le> length (rr_accessor r) \<and> length (rr_accessor r) \<le> 256
     \<and> rr_ttlSec r = of_int \<lfloor>rr_ttlSec r\<rfloor> \<and> 0 < rr_ttlSec r \<and> rr_ttlSec r \<le> 60"

definition state_label :: "evidence_state \<Rightarrow> string" where
  "state_label s =
     (case s of EV_QUARANTINED \<Rightarrow> ''QUARANTINED'' | EV_READY \<Rightarrow> ''READY''
      | EV_REJECTED \<Rightarrow> ''REJECTED'' | EV_REVOKED \<Rightarrow> ''REVOKED'')"

definition harness_deny :: "string \<Rightarrow> string list \<Rightarrow> harness_policy \<Rightarrow> harness_decision" where
  "harness_deny reason rules policy =
     \<lparr>pd_allow = False, pd_reason = reason, pd_rules = rules, hd_policy = policy\<rparr>"

text \<open>The three checks, each with the rules so far.\<close>

definition check_evidence ::
  "evidence_store \<Rightarrow> harness_input \<Rightarrow> string list \<Rightarrow> harness_decision" where
  "check_evidence st input rules =
     (let passed = (\<lambda>rules. \<lparr>pd_allow = True, pd_reason = ''all policies passed'', pd_rules = rules,
                              hd_policy = P_all_passed\<rparr>)
      in case hi_evidenceId input of
           None \<Rightarrow> passed rules
         | Some evidenceId \<Rightarrow>
             (case get_evidence evidenceId st of
                None \<Rightarrow> harness_deny (''EVIDENCE_NOT_FOUND: '' @ evidenceId) rules P_cross_org
              | Some row \<Rightarrow>
                  if ev_organizationId row \<noteq> hi_organizationId input
                  then harness_deny (''CROSS_ORG: evidence '' @ evidenceId @ '' belongs to ''
                         @ ev_organizationId row @ '', requested by '' @ hi_organizationId input)
                       rules P_cross_org
                  else if ev_state row \<noteq> EV_READY
                  then harness_deny (''EVIDENCE_NOT_READY: '' @ evidenceId @ '' is in state ''
                         @ state_label (ev_state row)) rules P_public_evidence
                  else passed (rules @ [''evidence_ready''])))"

definition check_read ::
  "(read_request \<Rightarrow> string) \<Rightarrow> evidence_store \<Rightarrow> harness_input \<Rightarrow> string list \<Rightarrow> harness_decision" where
  "check_read issues st input rules =
     (case hi_read input of
        None \<Rightarrow> check_evidence st input rules
      | Some r \<Rightarrow>
          if read_request_valid r then check_evidence st input (rules @ [''read_ttl_ok''])
          else harness_deny (''READ_TTL_INVALID: '' @ issues r) rules P_public_evidence)"

definition harness ::
  "(string \<Rightarrow> parsed_url option) \<Rightarrow> (read_request \<Rightarrow> string) \<Rightarrow> string list option \<Rightarrow>
   evidence_store \<Rightarrow> harness_input \<Rightarrow> harness_decision" where
  "harness new_url issues override st input =
     (case hi_url input of
        None \<Rightarrow> check_read issues st input []
      | Some url \<Rightarrow>
          let d = evaluateUrl new_url override url
          in if \<not> pd_allow d then harness_deny (pd_reason d) (pd_rules d) P_ssrf
             else check_read issues st input (pd_rules d))"

definition runFixture ::
  "(string \<Rightarrow> parsed_url option) \<Rightarrow> (read_request \<Rightarrow> string) \<Rightarrow> string list option \<Rightarrow>
   evidence_store \<Rightarrow> harness_input list \<Rightarrow> (harness_input \<times> harness_decision) list" where
  "runFixture new_url issues override st cases =
     map (\<lambda>c. (c, harness new_url issues override st c)) cases"

section \<open>Histories\<close>

text \<open>The operations that change the store, in any order; one that throws leaves it unchanged.\<close>

datatype evidence_op =
  Upload upload_request string string "(bytes \<Rightarrow> scan_decision) option"
| Revoke string string
| Reset

fun evidence_step :: "(bytes \<Rightarrow> string) \<Rightarrow> evidence_op \<Rightarrow> evidence_store \<Rightarrow> evidence_store" where
  "evidence_step sha (Upload req uuid now installed) st = snd (upload sha installed req uuid now st)"
| "evidence_step sha (Revoke evidenceId reason) st = snd (revoke evidenceId reason st)"
| "evidence_step sha Reset st = new_evidence_store"

fun evidence_run :: "(bytes \<Rightarrow> string) \<Rightarrow> evidence_op list \<Rightarrow> evidence_store \<Rightarrow> evidence_store" where
  "evidence_run sha [] st = st"
| "evidence_run sha (op # ops) st = evidence_run sha ops (evidence_step sha op st)"

text \<open>An operation that stores, revokes or drops the evidence of this identifier.\<close>

fun touches :: "string \<Rightarrow> evidence_op \<Rightarrow> bool" where
  "touches evidenceId (Upload req uuid now installed) =
     (''ev-'' @ uuid = evidenceId \<and> OrganizationIdSchema (up_organizationId req)
      \<and> up_schemaVersion req = ''1'')"
| "touches evidenceId (Revoke e reason) = (e = evidenceId)"
| "touches evidenceId Reset = True"

text \<open>An operation that drops the evidence of this identifier or stores another under it.\<close>

fun drops :: "string \<Rightarrow> evidence_op \<Rightarrow> bool" where
  "drops evidenceId (Upload req uuid now installed) = (''ev-'' @ uuid = evidenceId)"
| "drops evidenceId (Revoke e reason) = False"
| "drops evidenceId Reset = True"

section \<open>Facts\<close>

lemma evidence_run_append: "evidence_run sha (ops @ ops') st = evidence_run sha ops' (evidence_run sha ops st)"
  by (induction ops arbitrary: st) auto

lemma get_new [simp]: "get_evidence e new_evidence_store = None"
  by (simp add: get_evidence_def new_evidence_store_def)

lemma upload_get:
  "get_evidence e (snd (upload sha installed req uuid now st)) =
     (if touches e (Upload req uuid now installed)
      then Some \<lparr>ev_schemaVersion = up_schemaVersion req, ev_evidenceId = e,
                 ev_organizationId = up_organizationId req, ev_kind = up_kind req,
                 ev_contentDigest = sha (up_bytes req), ev_sizeBytes = length (up_bytes req),
                 ev_storedAt = now,
                 ev_state = (if sd_pass (scan_of installed req) then EV_READY else EV_REJECTED),
                 ev_stateReason = Some (sd_reason (scan_of installed req)), ev_vnResidency = True\<rparr>
      else get_evidence e st)"
  by (auto simp: upload_def get_evidence_def Let_def)

lemma revoke_get:
  "get_evidence e (snd (revoke e' reason st)) =
     (case get_evidence e st of
        None \<Rightarrow> None
      | Some row \<Rightarrow>
          Some (if e = e' \<and> ev_state row = EV_READY
                then row\<lparr>ev_state := EV_REVOKED, ev_stateReason := Some reason\<rparr> else row))"
  by (auto simp: revoke_def get_evidence_def Let_def split: option.splits)

lemma untouched_get: "\<not> touches e op \<Longrightarrow> get_evidence e (evidence_step sha op st) = get_evidence e st"
  by (cases op) (auto simp: upload_get revoke_get split: option.splits)

lemma harness_allows_evidence:
  assumes "pd_allow (harness new_url issues override st input)"
  shows "\<forall>url. hi_url input = Some url \<longrightarrow> pd_allow (evaluateUrl new_url override url)"
    and "\<forall>r. hi_read input = Some r \<longrightarrow> read_request_valid r"
    and "\<forall>e. hi_evidenceId input = Some e \<longrightarrow>
           (\<exists>row. get_evidence e st = Some row \<and> ev_organizationId row = hi_organizationId input
                \<and> ev_state row = EV_READY)"
  using assms
  by (auto simp: harness_def check_read_def check_evidence_def harness_deny_def Let_def
      split: option.splits if_splits)

end
