(* ===== verification/Secret_Provider.thy ===== *)
theory Secret_Provider
  imports Js_Collections Primitives "HOL-Library.Word"
begin

text \<open>
  The fake secret provider of \<open>apps/core-1.10-media/src/secret-provider.ts\<close> and the redaction of
  payloads. A payload is a JSON value or bytes; the text it is serialized to is a parameter, and so
  is the random identifier of a handle.
\<close>

section \<open>The store of secrets\<close>

record secret_entry =
  se_value :: string
  se_registeredAt :: int

type_synonym secret_store = "(string \<times> secret_entry) list"

definition registerSecret :: "int \<Rightarrow> string \<Rightarrow> string \<Rightarrow> secret_store \<Rightarrow> secret_store" where
  "registerSecret now sid v m = map_set sid \<lparr>se_value = v, se_registeredAt = now\<rparr> m"

definition clearSecretStore :: "secret_store \<Rightarrow> secret_store" where
  "clearSecretStore m = []"

datatype secret_error = NotRegistered | ValueMismatch | SecretLeak | RequestInvalid | HandleInvalid

definition assertSecretValue :: "string \<Rightarrow> string \<Rightarrow> secret_store \<Rightarrow> secret_error + unit" where
  "assertSecretValue sid expected m =
     (case map_of m sid of
        None \<Rightarrow> Inl NotRegistered
      | Some entry \<Rightarrow> if se_value entry \<noteq> expected then Inl ValueMismatch else Inr ())"

definition registered_values :: "secret_store \<Rightarrow> string list" where
  "registered_values m = map (se_value \<circ> snd) m"

section \<open>Redaction\<close>

datatype payload =
  PNull | PBool bool | PNum rat | PStr string | PBytes "8 word list"
| PArr "payload list" | PObj "(string \<times> payload) list"

definition REDACTED :: string where
  "REDACTED = ''[REDACTED]''"

definition SECRET_PORT_FORBIDDEN_FIELDS :: "string list" where
  "SECRET_PORT_FORBIDDEN_FIELDS =
     [''secretValue'', ''rawSecret'', ''plaintextSecret'', ''passwordRaw'', ''apiKeyRaw'', ''tokenRaw'']"

text \<open>The first registered value that occurs is replaced, and only that one.\<close>

fun redact_string :: "string list \<Rightarrow> string \<Rightarrow> string" where
  "redact_string [] s = s"
| "redact_string (r # rs) s =
     (if str_includes r s then replace_all r REDACTED s else redact_string rs s)"

definition forbidden_key :: "string \<Rightarrow> bool" where
  "forbidden_key k \<longleftrightarrow> list_ex (\<lambda>f. to_lower f = to_lower k) SECRET_PORT_FORBIDDEN_FIELDS"

fun walk :: "string list \<Rightarrow> payload \<Rightarrow> payload" where
  "walk rs (PStr s) = PStr (if length s > 0 then redact_string rs s else s)"
| "walk rs (PBytes bs) = PStr ''[BYTES]''"
| "walk rs (PArr vs) = PArr (map (walk rs) vs)"
| "walk rs (PObj ms) =
     PObj (map (\<lambda>(k, v). (k, if forbidden_key k then PStr REDACTED else walk rs v)) ms)"
| "walk rs v = v"

definition redactPayload :: "secret_store \<Rightarrow> payload \<Rightarrow> payload" where
  "redactPayload m p = walk (registered_values m) p"

definition assertNoSecretLeak :: "secret_store \<Rightarrow> string \<Rightarrow> secret_error + unit" where
  "assertNoSecretLeak m serializedJson =
     (if list_ex (\<lambda>v. str_includes v serializedJson) (registered_values m) then Inl SecretLeak
      else Inr ())"

section \<open>Handles\<close>

record access_request =
  ar_schemaVersion :: string
  ar_organizationId :: string
  ar_provider :: "string option"
  ar_connectionId :: "string option"
  ar_capability :: string
  ar_accessorTier :: string

record secret_handle =
  sh_schemaVersion :: string
  sh_secretHandle :: string
  sh_expiresInSec :: int

definition SecretPortGetRequestSchema :: "access_request \<Rightarrow> bool" where
  "SecretPortGetRequestSchema r \<longleftrightarrow>
     ar_schemaVersion r = ''1'' \<and> OrganizationIdSchema (ar_organizationId r)
     \<and> null_or ProviderNameSchema (ar_provider r)
     \<and> null_or (\<lambda>c. 1 \<le> length c \<and> length c \<le> 128) (ar_connectionId r)
     \<and> 1 \<le> length (ar_capability r) \<and> length (ar_capability r) \<le> 128
     \<and> ar_accessorTier r \<in> {''PRIVILEGED_HRP_GATE'', ''INTEGRATION_BOUND'', ''REVIEWER_BOUND''}"

definition SecretPortHandleSchema :: "secret_handle \<Rightarrow> bool" where
  "SecretPortHandleSchema h \<longleftrightarrow>
     sh_schemaVersion h = ''1'' \<and> 8 \<le> length (sh_secretHandle h) \<and> length (sh_secretHandle h) \<le> 256
     \<and> 0 < sh_expiresInSec h \<and> sh_expiresInSec h \<le> 3600"

definition accessSecret :: "string \<Rightarrow> access_request \<Rightarrow> secret_error + secret_handle" where
  "accessSecret uuid req =
     (if \<not> SecretPortGetRequestSchema req \<or> \<not> OrganizationIdSchema (ar_organizationId req)
      then Inl RequestInvalid
      else let handle = \<lparr>sh_schemaVersion = ar_schemaVersion req,
                         sh_secretHandle = ''opaque-'' @ uuid, sh_expiresInSec = 600\<rparr>
           in if SecretPortHandleSchema handle then Inr handle else Inl HandleInvalid)"

definition toBrowserSafePayload :: "secret_handle \<Rightarrow> payload" where
  "toBrowserSafePayload handle =
     PObj [(''schemaVersion'', PStr (sh_schemaVersion handle)),
           (''expiresInSec'', PNum (of_int (sh_expiresInSec handle))),
           (''secretHandle'', PStr (sh_secretHandle handle))]"

section \<open>Facts\<close>

text \<open>The texts a payload holds as values, keys aside.\<close>

fun payload_texts :: "payload \<Rightarrow> string list" where
  "payload_texts (PStr s) = [s]"
| "payload_texts (PArr vs) = concat (map payload_texts vs)"
| "payload_texts (PObj ms) = concat (map (\<lambda>(k, v). payload_texts v) ms)"
| "payload_texts v = []"

lemma starts_with_replaced:
  assumes "set p \<inter> set w = {}" and "w \<noteq> []" and "starts_with p (replace_from r w s)"
  shows "starts_with p s"
  using assms
proof (induction r w s arbitrary: p rule: replace_from.induct)
  case (2 r w c cs)
  show ?case
  proof (cases "r \<noteq> [] \<and> starts_with r (c # cs)")
    case True
    then show ?thesis using 2 by (cases p; cases w) auto
  next
    case False
    then show ?thesis using 2 by (cases p) auto
  qed
qed (cases p; simp)

lemma includes_append_disjoint:
  "str_includes p (w @ t) \<Longrightarrow> set p \<inter> set w = {} \<Longrightarrow> p \<noteq> [] \<Longrightarrow> str_includes p t"
proof (induction w)
  case (Cons c w)
  then show ?case by (cases p) auto
qed simp

lemma replaced_text_hides:
  assumes "set r \<inter> set w = {}" and "r \<noteq> []" and "w \<noteq> []"
  shows "\<not> str_includes r (replace_from r w s)"
  using assms
proof (induction r w s rule: replace_from.induct)
  case (2 r w c cs)
  show ?case
  proof (cases "starts_with r (c # cs)")
    case True
    then show ?thesis using 2 includes_append_disjoint [of r w] by auto
  next
    case False
    moreover have "\<not> starts_with r (c # replace_from r w cs)"
      using False 2 starts_with_replaced [of "tl r" w r cs] by (cases r) auto
    ultimately show ?thesis using 2 by simp
  qed
qed simp

lemma replace_absent: "\<not> str_includes r s \<Longrightarrow> replace_from r w s = s"
  by (induction r w s rule: replace_from.induct) auto

lemma replace_prefix:
  "r \<noteq> [] \<Longrightarrow> replace_from r w (r @ s) = w @ replace_from r w s"
  by (cases r) auto

lemma redact_string_hides:
  assumes "set r \<inter> set REDACTED = {}" and "r \<noteq> []"
  shows "\<not> str_includes r (redact_string [r] s)"
  using assms replaced_text_hides [of r REDACTED s]
  by (auto simp: replace_all_def REDACTED_def)

end
