(* ===== verification/Media_Properties.thy ===== *)
theory Media_Properties
  imports Url_Facts Evidence_Store Secret_Provider
begin

text \<open>
  What the media data plane guarantees: which addresses the URL policy lets through, compared with
  the address blocks it names, what evidence the harness lets a caller use, and what redaction
  hides.
\<close>

section \<open>Addresses\<close>

text \<open>The decision on a URL of scheme https with a given host name.\<close>

definition host_decision :: "string list option \<Rightarrow> string \<Rightarrow> policy_decision" where
  "host_decision override host =
     evaluateUrl (\<lambda>u. Some \<lparr>pu_protocol = ''https:'', pu_hostname = host\<rparr>) override ''https://''"

lemma host_decision_allow:
  "pd_allow (host_decision override host) \<longleftrightarrow>
     to_lower host \<notin> set (getDenyList override) \<and> \<not> isPrivateHost (to_lower host)"
  by (simp add: host_decision_def evaluateUrl_allows_iff)

lemma private_dotted: "isPrivateHost (dotted w) \<longleftrightarrow> list_ex (in_block w) private_blocks"
  by (simp add: isPrivateHost_dotted isPrivateIPv4_def octets_dotted good_octet private_blocks_octets Let_def)

text \<open>C37. For every IPv4 address, written as four decimal octets, the URL policy allows an https URL
  exactly when the address lies in none of the blocks 127.0.0.0/8, 10.0.0.0/8, 172.16.0.0/12,
  192.168.0.0/16, 169.254.0.0/16 and 0.0.0.0/8, compared bit by bit as 32-bit words, and is not on
  the deny list.\<close>

theorem ipv4_policy_is_the_blocks:
  "pd_allow (host_decision override (dotted w)) \<longleftrightarrow>
     dotted w \<notin> set (getDenyList override) \<and> \<not> list_ex (in_block w) private_blocks"
  by (simp add: host_decision_allow private_dotted)

lemma to_lower_Cons: "to_lower (c # s) = lower c # to_lower s"
  by (simp add: to_lower_def)

lemma to_lower_Nil [simp]: "to_lower [] = []"
  by (simp add: to_lower_def)

lemma to_lower_idem [simp]: "to_lower (to_lower s) = to_lower s"
  by (simp add: to_lower_def lower_def Let_def)

lemma ends_with_append [simp]: "ends_with p (s @ p)"
  by (simp add: ends_with_def)

text \<open>A bracketed host is decided by what is between its brackets.\<close>

lemma to_lower_brackets: "to_lower (''['' @ s @ '']'') = ''['' @ to_lower s @ '']''"
  by (simp add: to_lower_def lower_def)

lemma bracketed_host: "isPrivateHost (to_lower (''['' @ s @ '']'')) = isPrivateIPv6 (to_lower s)"
proof -
  define h where "h = to_lower (''['' @ s @ '']'')"
  have h: "h = ''['' @ to_lower s @ '']''" by (simp only: h_def to_lower_brackets)
  have "ends_with '']'' h" using ends_with_append [of "'']''" "''['' @ to_lower s"] by (simp add: h)
  moreover have "starts_with ''['' h" and "butlast (tl h) = to_lower s"
    by (simp_all add: h butlast_append)
  moreover have "to_lower h = h" by (simp add: h_def)
  ultimately show ?thesis unfolding h_def [symmetric] by (simp add: isPrivateHost_def)
qed

text \<open>An https URL whose host is an IPv4-mapped IPv6 address is allowed whatever address it maps:
  every address the policy denies in its decimal form, loopback and cloud metadata included, passes as
  \<open>[::ffff:hhhh:hhhh]\<close>.\<close>

lemma mapped_private_addresses_pass:
  "pd_allow (host_decision None (mapped_host w))
   \<and> pd_allow (host_decision None (dotted w)) = (\<not> list_ex (in_block w) private_blocks)"
proof -
  define s where "s = ''::ffff:'' @ hex4 (ucast (drop_bit 16 w)) @ '':'' @ hex4 (ucast w)"
  have "mapped_host w = ''['' @ s @ '']''" by (simp add: mapped_host_def s_def)
  moreover have "\<not> isPrivateIPv6 (to_lower s)"
    by (simp add: s_def isPrivateIPv6_def to_lower_Cons lower_def Let_def)
  ultimately have "\<not> isPrivateHost (to_lower (mapped_host w))" using bracketed_host by simp
  then show ?thesis
    by (simp add: host_decision_allow getDenyList_def DENY_LIST_def private_dotted)
qed

text \<open>Hexadecimal digits, read and compared.\<close>

lemma nibble_value: "n < 16 \<Longrightarrow> (of_char (nibble n) :: nat) = (if n < 10 then 48 + n else 87 + n)"
proof -
  have "(of_char (char_of (48 + n)) :: nat) = 48 + n" if "n < 16" for n
    using that by (subst of_char_of) (rule mod_less, linarith)
  moreover have "(of_char (char_of (87 + n)) :: nat) = 87 + n" if "n < 16" for n
    using that by (subst of_char_of) (rule mod_less, linarith)
  moreover assume "n < 16"
  ultimately show ?thesis by (simp only: nibble_def split: if_split) blast
qed

lemma nibble_inj:
  assumes "m < 16" and "n < 16"
  shows "nibble m = nibble n \<longleftrightarrow> m = n"
proof
  assume "nibble m = nibble n"
  then have "(if m < 10 then 48 + m else 87 + m) = (if n < 10 then 48 + n else 87 + n)"
    by (metis nibble_value assms)
  then show "m = n" by (simp split: if_splits)
qed simp

lemma nibble_consts:
  "nibble 0 = CHR ''0''" "nibble 8 = CHR ''8''" "nibble 9 = CHR ''9''" "nibble 10 = CHR ''a''"
  "nibble 11 = CHR ''b''" "nibble 12 = CHR ''c''" "nibble 13 = CHR ''d''"
  "nibble 14 = CHR ''e''" "nibble 15 = CHR ''f''"
  by (simp_all add: nibble_def char_of_eq_iff)

lemma nibble_lower: "n < 16 \<Longrightarrow> lower (nibble n) = nibble n"
  unfolding lower_def Let_def by (simp only: nibble_value split: if_split) simp

lemma nibble_no_colon: "n < 16 \<Longrightarrow> nibble n \<noteq> CHR '':''"
proof
  assume "n < 16" and "nibble n = CHR '':''"
  then have "(if n < 10 then 48 + n else 87 + n) = 58" using nibble_value [of n] by simp
  then show False using \<open>n < 16\<close> by (simp split: if_splits)
qed

lemma split_16: "m = n \<longleftrightarrow> m div 16 = n div 16 \<and> m mod 16 = n mod 16" for m n :: nat
  by (metis mult_div_mod_eq)

text \<open>The check of a first group of four digits, digit by digit.\<close>

lemma group_digits:
  assumes "a < 16" "b < 16" "c < 16" "d < 16"
  shows "isPrivateIPv6 (to_lower ([nibble a, nibble b, nibble c, nibble d] @ '':'' @ rest)) \<longleftrightarrow>
     a = 15 \<and> (b = 12 \<or> b = 13) \<or> a = 15 \<and> b = 14 \<and> c \<in> {8, 9, 10, 11} \<and> d = 0"
  using assms
  by (simp add: isPrivateIPv6_def to_lower_Cons nibble_lower nibble_no_colon Let_def nibble_inj
      flip: nibble_consts) blast

lemma group_numbers:
  fixes G :: nat
  defines "a \<equiv> G div 4096" and "b \<equiv> G div 256 mod 16" and "c \<equiv> G div 16 mod 16" and "d \<equiv> G mod 16"
  shows "G div 512 = 126 \<longleftrightarrow> a = 15 \<and> (b = 12 \<or> b = 13)"
    and "G = n \<longleftrightarrow> a = n div 4096 \<and> b = n div 256 mod 16 \<and> c = n div 16 mod 16 \<and> d = n mod 16"
proof -
  define q where "q = G div 256"
  have G: "G div 4096 = q div 16" "G div 512 = q div 2" "G div 16 div 16 = q"
    by (simp_all add: q_def flip: div_mult2_eq)
  have "q div 2 = 126 \<longleftrightarrow> q = 252 \<or> q = 253" by presburger
  then show "G div 512 = 126 \<longleftrightarrow> a = 15 \<and> (b = 12 \<or> b = 13)"
    using split_16 [of q 252] split_16 [of q 253] by (auto simp: a_def b_def G simp flip: q_def)
  show "G = n \<longleftrightarrow> a = n div 4096 \<and> b = n div 256 mod 16 \<and> c = n div 16 mod 16 \<and> d = n mod 16"
    using split_16 [of G n] split_16 [of "G div 16" "n div 16"] split_16 [of q "n div 256"]
    by (auto simp: a_def b_def c_def d_def G simp flip: q_def div_mult2_eq)
qed

text \<open>C38. An IPv6 literal whose first group \<open>g\<close> has four hexadecimal digits is denied exactly when \<open>g\<close> is in
  \<open>fc00::/7\<close> or is one of the four groups \<open>fe80\<close>, \<open>fe90\<close>, \<open>fea0\<close> and \<open>feb0\<close>: of the 64 first groups of the
  link-local block \<open>fe80::/10\<close> the policy says it rejects, 60 are allowed.\<close>

theorem ipv6_groups_denied:
  assumes "4096 \<le> unat g"
  shows "pd_allow (host_decision None (group_host g rest)) \<longleftrightarrow>
     drop_bit 9 g \<noteq> 0x7E \<and> g \<notin> {0xfe80, 0xfe90, 0xfea0, 0xfeb0}"
proof -
  define a b c d where "a = unat g div 4096" and "b = unat g div 256 mod 16"
    and "c = unat g div 16 mod 16" and "d = unat g mod 16"
  note abcd = this
  have "unat g < 65536" using unsigned_less [of g, where 'a = nat] by simp
  then have less: "a < 16" "b < 16" "c < 16" "d < 16" by (simp_all add: abcd less_mult_imp_div_less)
  have "0 < a" using assms by (simp add: a_def div_greater_zero_iff)
  then have "nibble a \<noteq> CHR ''0''" using less nibble_inj [of a 0] by (simp flip: nibble_consts)
  then have hex: "hex4 g = [nibble a, nibble b, nibble c, nibble d]"
    by (simp add: hex4_def abcd)
  have word: "g = v \<longleftrightarrow> unat g = unat v" for v by (simp add: word_unat_eq_iff)
  have "drop_bit 9 g = 0x7E \<longleftrightarrow> unat g div 512 = 126"
    by (simp add: word_unat_eq_iff drop_bit_eq_div unat_div)
  then have "isPrivateIPv6 (to_lower (hex4 g @ '':'' @ rest)) \<longleftrightarrow>
      drop_bit 9 g = 0x7E \<or> g \<in> {0xfe80, 0xfe90, 0xfea0, 0xfeb0}"
    unfolding hex group_digits [OF less] word insert_iff empty_iff
    by (auto simp: group_numbers [of "unat g"] simp flip: abcd)
  moreover have "group_host g rest = ''['' @ (hex4 g @ '':'' @ rest) @ '']''" by (simp add: group_host_def)
  ultimately show ?thesis
    using bracketed_host [of "hex4 g @ '':'' @ rest"]
    by (simp add: host_decision_allow getDenyList_def DENY_LIST_def)
qed

theorem ipv6_groups_denied_witness:
  "pd_allow (host_decision None (group_host 0xfe81 '':1'')) \<and> group_host 0xfe81 '':1'' = ''[fe81::1]''
   \<and> drop_bit 6 (0xfe81 :: 16 word) = drop_bit 6 0xfe80"
  using ipv6_groups_denied [of "0xfe81" "'':1''"] by (simp add: group_host_def hex4_def nibble_def char_of_eq_iff)

section \<open>Evidence\<close>

lemma last_touching:
  assumes "get_evidence e (evidence_run sha ops st) = Some row" and "get_evidence e st = None"
  obtains ops1 op ops2 where "ops = ops1 @ op # ops2" and "touches e op" and "list_all (\<lambda>op. \<not> touches e op) ops2"
    and "get_evidence e (evidence_step sha op (evidence_run sha ops1 st)) = Some row"
  using assms
proof (induction ops arbitrary: thesis rule: rev_induct)
  case (snoc op ops)
  show ?case
  proof (cases "touches e op")
    case True
    then show ?thesis using snoc.prems(1) [of ops op "[]"] snoc.prems(2) by (simp add: evidence_run_append)
  next
    case False
    then have "get_evidence e (evidence_run sha ops st) = Some row"
      using snoc.prems(2) by (simp add: evidence_run_append untouched_get)
    then obtain ops1 op' ops2 where "ops = ops1 @ op' # ops2" "touches e op'" "list_all (\<lambda>op. \<not> touches e op) ops2"
      "get_evidence e (evidence_step sha op' (evidence_run sha ops1 st)) = Some row"
      using snoc.IH snoc.prems(3) by blast
    then show ?thesis using snoc.prems(1) [of ops1 op' "ops2 @ [op]"] False by simp
  qed
qed simp

text \<open>C39. When the harness allows a use of evidence, that evidence was uploaded by the organization that asks
  for it, its scan passed, and nothing revoked it or dropped it since; and a URL of the input is an
  https URL of a host that is not private.\<close>

theorem allowed_evidence_was_accepted:
  assumes "pd_allow (harness new_url issues override (evidence_run sha ops new_evidence_store) input)"
    and "hi_evidenceId input = Some e"
  shows "\<exists>ops1 req uuid now installed ops2.
     ops = ops1 @ Upload req uuid now installed # ops2 \<and> e = ''ev-'' @ uuid
     \<and> up_organizationId req = hi_organizationId input \<and> sd_pass (scan_of installed req)
     \<and> list_all (\<lambda>op. \<not> touches e op) ops2
     \<and> null_or (\<lambda>url. pd_allow (evaluateUrl new_url override url)) (hi_url input)
     \<and> null_or read_request_valid (hi_read input)"
proof -
  obtain row where row: "get_evidence e (evidence_run sha ops new_evidence_store) = Some row"
      "ev_organizationId row = hi_organizationId input" "ev_state row = EV_READY"
    using harness_allows_evidence(3) [OF assms(1)] assms(2) by auto
  obtain ops1 op ops2 where ops: "ops = ops1 @ op # ops2" "touches e op" "list_all (\<lambda>op. \<not> touches e op) ops2"
      "get_evidence e (evidence_step sha op (evidence_run sha ops1 new_evidence_store)) = Some row"
    using last_touching [OF row(1)] by auto
  then obtain req uuid now installed where op: "op = Upload req uuid now installed"
    using row(3) by (cases op) (auto simp: revoke_get split: option.splits if_splits)
  then have "sd_pass (scan_of installed req)" "up_organizationId req = hi_organizationId input"
    using ops(2,4) row(2,3) by (auto simp: upload_get split: if_splits)
  moreover have "e = ''ev-'' @ uuid" using ops(2) op by simp
  ultimately show ?thesis
    using ops(1,3) op harness_allows_evidence(1,2) [OF assms(1)] unfolding null_or_iff by blast
qed

definition demo_upload :: upload_request where
  "demo_upload = \<lparr>up_schemaVersion = ''1'', up_organizationId = ''org-a'', up_kind = CCCD_FRONT,
     up_bytes = [1, 2], up_owner = ''owner'', up_simulateMalware = None\<rparr>"

definition demo_input :: harness_input where
  "demo_input = \<lparr>hi_url = None, hi_organizationId = ''org-a'', hi_evidenceId = Some ''ev-1'', hi_read = None\<rparr>"

lemma demo_harness_allows:
  "pd_allow (harness (\<lambda>u. None) (\<lambda>r. []) None
     (evidence_run (\<lambda>b. ''digest'') [Upload demo_upload ''1'' ''now'' None] new_evidence_store) demo_input)"
  by (simp add: harness_def check_read_def check_evidence_def demo_input_def upload_get demo_upload_def
      OrganizationIdSchema_def opaqueId_def matches_id_def is_alnum_def scan_of_def defaultScanFixture_def
      MAX_EVIDENCE_BYTES_def Let_def)

theorem allowed_evidence_was_accepted_witness:
  "\<exists>ops1 req uuid now installed ops2.
     [Upload demo_upload ''1'' ''now'' None] = ops1 @ Upload req uuid now installed # ops2
     \<and> ''ev-1'' = ''ev-'' @ uuid \<and> up_organizationId req = hi_organizationId demo_input
     \<and> sd_pass (scan_of installed req) \<and> list_all (\<lambda>op. \<not> touches ''ev-1'' op) ops2
     \<and> null_or (\<lambda>url. pd_allow (evaluateUrl (\<lambda>u. None) None url)) (hi_url demo_input)
     \<and> null_or read_request_valid (hi_read demo_input)"
  by (rule allowed_evidence_was_accepted [OF demo_harness_allows]) (simp add: demo_input_def)

text \<open>Once evidence is stored, later operations other than a reset or a new upload under its identifier leave
  every field of it as it was, but for one step: ready evidence may become revoked. Evidence that was
  rejected stays rejected, and revoked evidence stays revoked.\<close>

lemma evidence_lifecycle:
  assumes "get_evidence e st = Some row" and "list_all (\<lambda>op. \<not> drops e op) ops"
  shows "get_evidence e (evidence_run sha ops st) = Some row
     \<or> ev_state row = EV_READY
       \<and> (\<exists>reason. Revoke e reason \<in> set ops
          \<and> get_evidence e (evidence_run sha ops st)
              = Some (row\<lparr>ev_state := EV_REVOKED, ev_stateReason := Some reason\<rparr>))"
  using assms
proof (induction ops arbitrary: st row)
  case (Cons op ops)
  show ?case
  proof (cases "\<exists>reason. op = Revoke e reason \<and> ev_state row = EV_READY")
    case True
    then obtain reason where op: "op = Revoke e reason" "ev_state row = EV_READY" by blast
    then have "get_evidence e (evidence_step sha op st)
        = Some (row\<lparr>ev_state := EV_REVOKED, ev_stateReason := Some reason\<rparr>)"
      using Cons.prems by (simp add: revoke_get)
    then show ?thesis using Cons.IH Cons.prems op by fastforce
  next
    case False
    then have "get_evidence e (evidence_step sha op st) = Some row"
      using Cons.prems by (cases op) (auto simp: upload_get revoke_get)
    then show ?thesis using Cons.IH [of "evidence_step sha op st" row] Cons.prems by auto
  qed
qed simp

section \<open>Redaction\<close>


definition demo_secrets :: "string list \<Rightarrow> secret_store" where
  "demo_secrets vs = map (\<lambda>v. (v, \<lparr>se_value = v, se_registeredAt = 0\<rparr>)) vs"


text \<open>With two secrets registered, a text that holds both is redacted for the first one only: the
  second one stays in the redacted payload, and the check for leaks refuses that payload.\<close>

lemma second_secret_survives:
  assumes "registered_values m = [a, b]" and "a \<noteq> []" and "\<not> str_includes a b"
  shows "redactPayload m (PStr (a @ b)) = PStr (REDACTED @ b)
     \<and> assertNoSecretLeak m (REDACTED @ b) = Inl SecretLeak"
proof -
  have "str_includes a (a @ b)" using str_includes_append [of a "[]" b] by simp
  moreover have "replace_all a REDACTED (a @ b) = REDACTED @ b"
    using assms(2,3) by (simp add: replace_all_def replace_prefix replace_absent)
  moreover have "str_includes b (REDACTED @ b)" using str_includes_append [of b REDACTED "[]"] by simp
  ultimately show ?thesis
    using assms by (simp add: redactPayload_def assertNoSecretLeak_def)
qed

end
