(* ===== verification/Recovery_Ledger.thy ===== *)
theory Recovery_Ledger
  imports Panel_Intake Js_Collections
begin

text \<open>
  The kill switch and the recovery ledger of the context panel, \<open>observability/kill-switch.ts\<close>, the
  correlation of requests, \<open>observability/correlation.ts\<close>, and the admin routes and the guard of
  \<open>server.ts\<close>. Random identifiers and times are parameters; metrics and texts of messages are left out.
\<close>

section \<open>Correlation\<close>

definition route_char :: "char \<Rightarrow> bool" where
  "route_char c \<longleftrightarrow>
     (let n = of_char c :: nat in 97 \<le> n \<and> n \<le> 122 \<or> 48 \<le> n \<and> n \<le> 57 \<or> c = CHR ''-'')"

definition safeRouteName :: "string \<Rightarrow> string" where
  "safeRouteName raw =
     (let trimmed = filter route_char (dropWhile (\<lambda>c. c = CHR ''/'') raw); name = take 32 trimmed
      in if name = [] then ''unknown'' else name)"

definition lower_alnum :: "char \<Rightarrow> bool" where
  "lower_alnum c \<longleftrightarrow> route_char c \<and> c \<noteq> CHR ''-''"

definition hex_char :: "char \<Rightarrow> bool" where
  "hex_char c \<longleftrightarrow> (let n = of_char c :: nat in 97 \<le> n \<and> n \<le> 102 \<or> 48 \<le> n \<and> n \<le> 57)"

text \<open>The pattern \<open>corr-A-B-C\<close>: only \<open>A\<close> may hold dashes, so the last two dashes of a text separate it.\<close>

definition isValidCorrelationId :: "string \<Rightarrow> bool" where
  "isValidCorrelationId v \<longleftrightarrow>
     length v \<le> 96 \<and> starts_with ''corr-'' v \<and>
     (let ps = split_on CHR ''-'' (drop 5 v)
      in length ps \<ge> 3 \<and>
         (let c = last ps; b = last (butlast ps); a = join_with ''-'' (butlast (butlast ps))
          in 1 \<le> length a \<and> length a \<le> 32 \<and> list_all route_char a
             \<and> 1 \<le> length b \<and> length b \<le> 16 \<and> list_all lower_alnum b
             \<and> 4 \<le> length c \<and> length c \<le> 12 \<and> list_all hex_char c))"

text \<open>The time in base 36 and the random digits of a fresh identifier are one parameter.\<close>

definition generateCorrelationId :: "string \<Rightarrow> string \<Rightarrow> string \<Rightarrow> string" where
  "generateCorrelationId ts rand routePath = ''corr-'' @ safeRouteName routePath @ ''-'' @ ts @ ''-'' @ rand"

record correlation =
  co_correlationId :: string
  co_inbound :: "string option"
  co_routeName :: string

definition resolveCorrelation :: "string \<Rightarrow> string \<Rightarrow> string option \<Rightarrow> string \<Rightarrow> correlation" where
  "resolveCorrelation ts rand inbound urlPath =
     (let route = safeRouteName urlPath
      in if truthy inbound \<and> isValidCorrelationId (the inbound)
         then \<lparr>co_correlationId = the inbound, co_inbound = inbound, co_routeName = route\<rparr>
         else \<lparr>co_correlationId = generateCorrelationId ts rand urlPath, co_inbound = None,
               co_routeName = route\<rparr>)"

section \<open>The switch\<close>

datatype switch_state = ARMED | DISARMED

definition initial_switch :: "string option \<Rightarrow> switch_state" where
  "initial_switch env = (if env = Some ''armed'' then ARMED else DISARMED)"

section \<open>The ledger\<close>

datatype receipt_progress = RL_PENDING | RL_APPLIED | RL_FAILED

datatype effect_kind = COMMIT_BATCH | CONFIRM_DRAFT | PROVIDER_PUT | INTAKE_RUN | INTAKE_DNC

datatype ledger_action_kind = REPLAY | RESOLVE

record ledger_receipt =
  lr_receiptId :: string
  lr_correlationId :: string
  lr_routeName :: string
  lr_effectKind :: effect_kind
  lr_idempotencyKey :: string
  lr_state :: receipt_progress
  lr_failureReason :: "string option"
  lr_enqueuedAt :: string
  lr_appliedAt :: "string option"

record recovery_ledger =
  lg_receipts :: "(string \<times> ledger_receipt) list"
  lg_byKey :: "(string \<times> string) list"
  lg_lastAction :: "(ledger_action_kind \<times> string \<times> string) option"

record register_args =
  ra_correlationId :: string
  ra_routeName :: string
  ra_effectKind :: effect_kind
  ra_idempotencyKey :: string

definition new_recovery_ledger :: recovery_ledger where
  "new_recovery_ledger = \<lparr>lg_receipts = [], lg_byKey = [], lg_lastAction = None\<rparr>"

definition ledger_register ::
  "register_args \<Rightarrow> string \<Rightarrow> string \<Rightarrow> recovery_ledger \<Rightarrow> string \<times> recovery_ledger" where
  "ledger_register args uuid now l =
     (case map_of (lg_byKey l) (ra_idempotencyKey args) of
        Some existing \<Rightarrow> (existing, l)
      | None \<Rightarrow>
          let receiptId = ''rcpt-'' @ uuid;
              receipt = \<lparr>lr_receiptId = receiptId, lr_correlationId = ra_correlationId args,
                         lr_routeName = ra_routeName args, lr_effectKind = ra_effectKind args,
                         lr_idempotencyKey = ra_idempotencyKey args, lr_state = RL_PENDING,
                         lr_failureReason = None, lr_enqueuedAt = now, lr_appliedAt = None\<rparr>
          in (receiptId,
              l\<lparr>lg_receipts := map_set receiptId receipt (lg_receipts l),
                lg_byKey := map_set (ra_idempotencyKey args) receiptId (lg_byKey l)\<rparr>))"

definition markApplied :: "string \<Rightarrow> string \<Rightarrow> recovery_ledger \<Rightarrow> recovery_ledger" where
  "markApplied receiptId now l =
     (case map_of (lg_receipts l) receiptId of
        None \<Rightarrow> l
      | Some r \<Rightarrow>
          if lr_state r = RL_APPLIED then l
          else l\<lparr>lg_receipts :=
                   map_set receiptId (r\<lparr>lr_state := RL_APPLIED, lr_appliedAt := Some now\<rparr>) (lg_receipts l)\<rparr>)"

definition markFailed :: "string \<Rightarrow> string \<Rightarrow> recovery_ledger \<Rightarrow> recovery_ledger" where
  "markFailed receiptId reason l =
     (case map_of (lg_receipts l) receiptId of
        None \<Rightarrow> l
      | Some r \<Rightarrow>
          if lr_state r = RL_FAILED then l
          else l\<lparr>lg_receipts :=
                   map_set receiptId (r\<lparr>lr_state := RL_FAILED, lr_failureReason := Some reason\<rparr>)
                     (lg_receipts l)\<rparr>)"

definition get_receipt :: "string \<Rightarrow> recovery_ledger \<Rightarrow> ledger_receipt option" where
  "get_receipt receiptId l = map_of (lg_receipts l) receiptId"

definition getByIdempotencyKey :: "string \<Rightarrow> recovery_ledger \<Rightarrow> ledger_receipt option" where
  "getByIdempotencyKey k l = Option.bind (map_of (lg_byKey l) k) (\<lambda>i. map_of (lg_receipts l) i)"

definition listPending :: "recovery_ledger \<Rightarrow> ledger_receipt list" where
  "listPending l = filter (\<lambda>r. lr_state r = RL_PENDING) (map snd (lg_receipts l))"

definition count_state :: "receipt_progress \<Rightarrow> recovery_ledger \<Rightarrow> nat" where
  "count_state s l = count_where (\<lambda>r. lr_state r = s) (map snd (lg_receipts l))"

record ledger_depth =
  ld_pending :: nat
  ld_applied :: nat
  ld_failed :: nat
  ld_total :: nat

definition depth :: "recovery_ledger \<Rightarrow> ledger_depth" where
  "depth l = \<lparr>ld_pending = count_state RL_PENDING l, ld_applied = count_state RL_APPLIED l,
              ld_failed = count_state RL_FAILED l, ld_total = length (lg_receipts l)\<rparr>"

definition resolve_receipt :: "string \<Rightarrow> string \<Rightarrow> recovery_ledger \<Rightarrow> bool \<times> recovery_ledger" where
  "resolve_receipt receiptId now l =
     (case map_of (lg_receipts l) receiptId of
        None \<Rightarrow> (False, l)
      | Some r \<Rightarrow>
          if lr_state r = RL_APPLIED then (True, l\<lparr>lg_lastAction := Some (RESOLVE, receiptId, now)\<rparr>)
          else (True,
                l\<lparr>lg_receipts :=
                    map_set receiptId (r\<lparr>lr_state := RL_APPLIED, lr_appliedAt := Some now\<rparr>) (lg_receipts l),
                  lg_lastAction := Some (RESOLVE, receiptId, now)\<rparr>))"

definition recordReplay :: "string \<Rightarrow> string \<Rightarrow> recovery_ledger \<Rightarrow> recovery_ledger" where
  "recordReplay receiptId now l = l\<lparr>lg_lastAction := Some (REPLAY, receiptId, now)\<rparr>"

datatype recovery_state = HEALTHY | DEGRADED | RECOVERING | RECOVERED

definition aggregateRecoveryState :: "switch_state \<Rightarrow> recovery_ledger \<Rightarrow> recovery_state" where
  "aggregateRecoveryState switch l =
     (let d = depth l
      in if ld_pending d = 0 \<and> ld_failed d = 0 then HEALTHY
         else if switch = ARMED then RECOVERING
         else if ld_failed d > 0 then DEGRADED
         else DEGRADED)"

section \<open>The guard of the mutating routes\<close>

definition inferEffectKind :: "string \<Rightarrow> effect_kind" where
  "inferEffectKind routeName =
     (if str_includes ''planning-commit'' routeName then COMMIT_BATCH
      else if str_includes ''autofill-confirm'' routeName then CONFIRM_DRAFT
      else if str_includes ''providers'' routeName then PROVIDER_PUT
      else if str_includes ''intake-run'' routeName then INTAKE_RUN
      else INTAKE_DNC)"

text \<open>\<^const>\<open>None\<close> lets the request through; else the reply has status 423 and this receipt.\<close>

definition guardKillSwitch ::
  "switch_state \<Rightarrow> correlation \<Rightarrow> string \<Rightarrow> string \<Rightarrow> recovery_ledger \<Rightarrow> string option \<times> recovery_ledger" where
  "guardKillSwitch switch ctx uuid now l =
     (if switch \<noteq> ARMED then (None, l)
      else let (receiptId, l') =
                 ledger_register
                   \<lparr>ra_correlationId = co_correlationId ctx, ra_routeName = co_routeName ctx,
                    ra_effectKind = inferEffectKind (co_routeName ctx),
                    ra_idempotencyKey = co_routeName ctx @ '':'' @ co_correlationId ctx\<rparr> uuid now l
           in (Some receiptId, l'))"

section \<open>The admin routes\<close>

datatype replay_outcome = REPLAY_SAFE | NO_ACTION

datatype admin_body =
  AdminError string
| SwitchRead switch_state bool
| SwitchSet switch_state switch_state
| RecoveryStatus recovery_state switch_state ledger_depth
    "(ledger_action_kind \<times> string \<times> string) option"
| RecoveryReceipts "ledger_receipt list" ledger_depth
| RecoveryRan nat "(string \<times> replay_outcome) list"
| RecoveryResolved string ledger_depth

type_synonym admin_reply = "nat \<times> admin_body"

definition is_manager :: "mock_identity \<Rightarrow> bool" where
  "is_manager identity \<longleftrightarrow> mi_role identity \<in> {SUPERVISOR, SYSTEM}"

text \<open>Every admin route first wants an identity, then a manager.\<close>

definition as_manager :: "mock_identity option \<Rightarrow> (mock_identity \<Rightarrow> admin_reply \<times> 's) \<Rightarrow> 's \<Rightarrow> admin_reply \<times> 's" where
  "as_manager identity f s =
     (case identity of
        None \<Rightarrow> ((401, AdminError ''unauthorized''), s)
      | Some i \<Rightarrow> if \<not> is_manager i then ((403, AdminError ''FORBIDDEN''), s) else f i)"

definition route_get_switch :: "mock_identity option \<Rightarrow> switch_state \<Rightarrow> admin_reply \<times> switch_state" where
  "route_get_switch identity switch =
     as_manager identity (\<lambda>i. ((200, SwitchRead switch (switch = ARMED)), switch)) switch"

definition route_set_switch ::
  "mock_identity option \<Rightarrow> json option \<Rightarrow> switch_state \<Rightarrow> admin_reply \<times> switch_state" where
  "route_set_switch identity next switch =
     as_manager identity
       (\<lambda>i. if next = Some (JStr ''armed'') then ((200, SwitchSet switch ARMED), ARMED)
            else if next = Some (JStr ''disarmed'') then ((200, SwitchSet switch DISARMED), DISARMED)
            else ((400, AdminError ''INVALID_STATE''), switch)) switch"

definition route_recovery_status ::
  "mock_identity option \<Rightarrow> switch_state \<Rightarrow> recovery_ledger \<Rightarrow> admin_reply \<times> recovery_ledger" where
  "route_recovery_status identity switch l =
     as_manager identity
       (\<lambda>i. ((200, RecoveryStatus (aggregateRecoveryState switch l) switch (depth l) (lg_lastAction l)), l)) l"

definition route_recovery_receipts :: "mock_identity option \<Rightarrow> recovery_ledger \<Rightarrow> admin_reply \<times> recovery_ledger" where
  "route_recovery_receipts identity l =
     as_manager identity (\<lambda>i. ((200, RecoveryReceipts (listPending l) (depth l)), l)) l"

fun replay_loop ::
  "string \<Rightarrow> ledger_receipt list \<Rightarrow> recovery_ledger \<Rightarrow> (string \<times> replay_outcome) list \<times> recovery_ledger" where
  "replay_loop now [] l = ([], l)"
| "replay_loop now (r # rs) l =
     (let cur = get_receipt (lr_receiptId r) l
      in if cur \<noteq> None \<and> lr_state (the cur) = RL_APPLIED
         then let (results, l') = replay_loop now rs l in ((lr_receiptId r, NO_ACTION) # results, l')
         else let (results, l') = replay_loop now rs (recordReplay (lr_receiptId r) now l)
              in ((lr_receiptId r, REPLAY_SAFE) # results, l'))"

definition asText :: "json option \<Rightarrow> string option" where
  "asText v = (case v of Some (JStr s) \<Rightarrow> Some s | _ \<Rightarrow> None)"

definition route_recovery_run ::
  "mock_identity option \<Rightarrow> json option \<Rightarrow> string \<Rightarrow> recovery_ledger \<Rightarrow> admin_reply \<times> recovery_ledger" where
  "route_recovery_run identity receiptId now l =
     as_manager identity
       (\<lambda>i. let only = asText receiptId;
                pending = (if truthy only then filter (\<lambda>r. lr_receiptId r = the only) (listPending l)
                           else listPending l);
                (results, l') = replay_loop now pending l
            in ((200, RecoveryRan (length results) results), l')) l"

definition route_recovery_resolve ::
  "mock_identity option \<Rightarrow> json option \<Rightarrow> string \<Rightarrow> recovery_ledger \<Rightarrow> admin_reply \<times> recovery_ledger" where
  "route_recovery_resolve identity receiptId now l =
     as_manager identity
       (\<lambda>i. let rid = nullish (asText receiptId) []
            in if rid = [] then ((400, AdminError ''MISSING_RECEIPT_ID''), l)
               else let (ok, l') = resolve_receipt rid now l
                    in if \<not> ok then ((404, AdminError ''RECEIPT_NOT_FOUND''), l')
                       else ((200, RecoveryResolved rid (depth l')), l')) l"

end
