(* ===== verification/Autofill.thy ===== *)
theory Autofill
  imports Panel_Intake Js_Collections
begin

text \<open>
  Autofill proposals and their drafts: the part of \<open>assistant/store.ts\<close> and \<open>assistant/service.ts\<close>
  (context panel) in which staff accepts fields of a proposal, confirms the draft this creates, or
  rejects the proposal. SHA-256 in hexadecimal and the time are parameters; labels, notes and texts
  of messages are left out.
\<close>

section \<open>Proposals and drafts\<close>

datatype assistant_error = AssistantError string nat

datatype autofill_status = AF_DRAFT | AF_PENDING_REVIEW | AF_ACCEPTED | AF_REJECTED | AF_STALE

record field_suggestion =
  fs_fieldPath :: string
  fs_proposedValue :: json
  fs_currentValue :: "json option"
  fs_confidence :: rat
  fs_reasonCode :: string
  fs_hasConflict :: bool
  fs_stale :: bool

record autofill_proposal =
  ap_proposalId :: string
  ap_revisionId :: string
  ap_profileId :: string
  ap_organizationId :: string
  ap_status :: autofill_status
  ap_fields :: "field_suggestion list"
  ap_contextSnapshotId :: string
  ap_contextVersion :: string
  ap_createdAt :: string
  ap_expiresAt :: "string option"
  ap_createdByActor :: string

record autofill_draft =
  ad_draftId :: string
  ad_proposalId :: string
  ad_profileId :: string
  ad_organizationId :: string
  ad_actorId :: string
  ad_fieldPaths :: "string list"
  ad_draftRevision :: string
  ad_confirmationDigest :: string
  ad_applied :: bool
  ad_appliedAt :: "string option"
  ad_createdAt :: string

record autofill_state =
  af_byProfile :: "(string \<times> autofill_proposal list) list"
  af_drafts :: "(string \<times> autofill_draft) list"
  af_applied :: "string list"

definition new_autofill_state :: autofill_state where
  "new_autofill_state = \<lparr>af_byProfile = [], af_drafts = [], af_applied = []\<rparr>"

section \<open>Fixtures\<close>

definition FIXTURE_ASOF :: string where
  "FIXTURE_ASOF = ''2026-09-17T12:00:00.000Z''"

definition FIXTURE_ORG_ID :: string where
  "FIXTURE_ORG_ID = ''org-001''"

definition fixture_field :: "string \<Rightarrow> json \<Rightarrow> json option \<Rightarrow> rat \<Rightarrow> string \<Rightarrow> bool \<Rightarrow> bool \<Rightarrow> field_suggestion" where
  "fixture_field path proposed current confidence reason conflict stale =
     \<lparr>fs_fieldPath = path, fs_proposedValue = proposed, fs_currentValue = current,
      fs_confidence = confidence, fs_reasonCode = reason, fs_hasConflict = conflict, fs_stale = stale\<rparr>"

definition clear_proposal :: "string \<Rightarrow> string \<Rightarrow> autofill_proposal" where
  "clear_proposal profileId actorId =
     \<lparr>ap_proposalId = ''prop-'' @ profileId @ ''-clear-001'', ap_revisionId = ''rev-001-'' @ profileId,
      ap_profileId = profileId, ap_organizationId = FIXTURE_ORG_ID, ap_status = AF_PENDING_REVIEW,
      ap_fields =
        [fixture_field ''intent.availability'' (JStr ''FULL_TIME'') None (91 / 100) ''CHAT_CONTEXT'' False False,
         fixture_field ''intent.experienceYears'' (JNum 3) None (85 / 100) ''HISTORICAL'' False False],
      ap_contextSnapshotId = ''snap-context-2026-09-17'', ap_contextVersion = ''v-2026-09-17-001'',
      ap_createdAt = FIXTURE_ASOF, ap_expiresAt = None, ap_createdByActor = actorId\<rparr>"

definition conflict_proposal :: "string \<Rightarrow> string \<Rightarrow> autofill_proposal" where
  "conflict_proposal profileId actorId =
     \<lparr>ap_proposalId = ''prop-'' @ profileId @ ''-conflict-001'', ap_revisionId = ''rev-002-'' @ profileId,
      ap_profileId = profileId, ap_organizationId = FIXTURE_ORG_ID, ap_status = AF_PENDING_REVIEW,
      ap_fields =
        [fixture_field ''intent.preferredLocation'' (JStr ''QUAN_7'') (Some (JStr ''QUAN_2'')) (55 / 100)
           ''INFERRED'' True False],
      ap_contextSnapshotId = ''snap-context-2026-09-17'', ap_contextVersion = ''v-2026-09-17-001'',
      ap_createdAt = FIXTURE_ASOF, ap_expiresAt = None, ap_createdByActor = actorId\<rparr>"

definition stale_proposal :: "string \<Rightarrow> string \<Rightarrow> autofill_proposal" where
  "stale_proposal profileId actorId =
     \<lparr>ap_proposalId = ''prop-'' @ profileId @ ''-stale-001'', ap_revisionId = ''rev-003-'' @ profileId,
      ap_profileId = profileId, ap_organizationId = FIXTURE_ORG_ID, ap_status = AF_STALE,
      ap_fields =
        [fixture_field ''intent.availability'' (JStr ''PART_TIME'') None (78 / 100) ''CHAT_CONTEXT'' False True],
      ap_contextSnapshotId = ''snap-context-old'', ap_contextVersion = ''v-2026-09-15-001'',
      ap_createdAt = ''2026-09-15T10:00:00.000Z'', ap_expiresAt = Some ''2026-09-16T10:00:00.000Z'',
      ap_createdByActor = actorId\<rparr>"

definition makeAutofillProposals :: "string \<Rightarrow> string \<Rightarrow> autofill_proposal list" where
  "makeAutofillProposals profileId actorId =
     [clear_proposal profileId actorId, conflict_proposal profileId actorId,
      stale_proposal profileId actorId]"

section \<open>The store\<close>

definition getOrCreateAutofill ::
  "string \<Rightarrow> string \<Rightarrow> autofill_state \<Rightarrow> autofill_proposal list \<times> autofill_state" where
  "getOrCreateAutofill profileId actorId st =
     (case map_of (af_byProfile st) profileId of
        Some existing \<Rightarrow> (existing, st)
      | None \<Rightarrow>
          let fresh = makeAutofillProposals profileId actorId
          in (fresh, st\<lparr>af_byProfile := map_set profileId fresh (af_byProfile st)\<rparr>))"

definition find_proposal :: "string \<Rightarrow> autofill_proposal list \<Rightarrow> autofill_proposal option" where
  "find_proposal proposalId ps = find (\<lambda>p. ap_proposalId p = proposalId) ps"

text \<open>The status of a proposal is written into the object \<open>find\<close> returned.\<close>

fun write_status :: "string \<Rightarrow> autofill_status \<Rightarrow> autofill_proposal list \<Rightarrow> autofill_proposal list" where
  "write_status proposalId s [] = []"
| "write_status proposalId s (p # ps) =
     (if ap_proposalId p = proposalId then p\<lparr>ap_status := s\<rparr> # ps else p # write_status proposalId s ps)"

text \<open>The lookup both operations below begin with.\<close>

definition open_proposal ::
  "string \<Rightarrow> string \<Rightarrow> autofill_state \<Rightarrow> assistant_error + autofill_proposal list \<times> autofill_proposal" where
  "open_proposal profileId proposalId st =
     (case map_of (af_byProfile st) profileId of
        None \<Rightarrow> Inl (AssistantError ''NOT_FOUND'' 500)
      | Some ps \<Rightarrow>
          (case find_proposal proposalId ps of
             None \<Rightarrow> Inl (AssistantError ''NOT_FOUND'' 500)
           | Some p \<Rightarrow>
               if ap_status p = AF_STALE then Inl (AssistantError ''STALE_CONTEXT'' 409)
               else Inr (ps, p)))"

definition updateProposalStatus ::
  "string \<Rightarrow> string \<Rightarrow> autofill_status \<Rightarrow> autofill_state \<Rightarrow>
   (assistant_error + autofill_proposal) \<times> autofill_state" where
  "updateProposalStatus profileId proposalId s st =
     (case open_proposal profileId proposalId st of
        Inl e \<Rightarrow> (Inl e, st)
      | Inr (ps, p) \<Rightarrow>
          (Inr (p\<lparr>ap_status := s\<rparr>),
           st\<lparr>af_byProfile := map_set profileId (write_status proposalId s ps) (af_byProfile st)\<rparr>))"

definition stable_key :: "string \<Rightarrow> string \<Rightarrow> string \<Rightarrow> string list \<Rightarrow> string" where
  "stable_key actorId profileId proposalId sortedFields =
     actorId @ ''|'' @ profileId @ ''|'' @ proposalId @ ''|'' @ join_with '','' sortedFields"

definition stable_draft_id :: "(string \<Rightarrow> string) \<Rightarrow> string \<Rightarrow> string" where
  "stable_draft_id sha key = ''draft-'' @ take 16 (sha key)"

definition createAutofillDraft ::
  "(string \<Rightarrow> string) \<Rightarrow> string \<Rightarrow> string \<Rightarrow> string \<Rightarrow> string \<Rightarrow> string list \<Rightarrow> autofill_state \<Rightarrow>
   (assistant_error + autofill_draft) \<times> autofill_state" where
  "createAutofillDraft sha now profileId proposalId actorId fieldPaths st =
     (case open_proposal profileId proposalId st of
        Inl e \<Rightarrow> (Inl e, st)
      | Inr (ps, p) \<Rightarrow>
          let sortedFields = sort fieldPaths;
              stableKey = stable_key actorId profileId proposalId sortedFields;
              stableDraftId = stable_draft_id sha stableKey;
              fresh = \<lparr>ad_draftId = stableDraftId, ad_proposalId = proposalId, ad_profileId = profileId,
                       ad_organizationId = ap_organizationId p, ad_actorId = actorId,
                       ad_fieldPaths = sortedFields, ad_draftRevision = ''rev-1'',
                       ad_confirmationDigest = sha stableKey, ad_applied = False, ad_appliedAt = None,
                       ad_createdAt = now\<rparr>;
              created = (Inr fresh, st\<lparr>af_drafts := map_set stableDraftId fresh (af_drafts st)\<rparr>)
          in case map_of (af_drafts st) stableDraftId of
               None \<Rightarrow> created
             | Some existing \<Rightarrow>
                 if ad_actorId existing = actorId \<and> \<not> ad_applied existing then (Inr existing, st)
                 else created)"

definition getAutofillDraft :: "string \<Rightarrow> autofill_state \<Rightarrow> autofill_draft option" where
  "getAutofillDraft draftId st = map_of (af_drafts st) draftId"

definition accept_proposal_of :: "autofill_draft \<Rightarrow> autofill_state \<Rightarrow> autofill_state" where
  "accept_proposal_of d st =
     (case map_of (af_byProfile st) (ad_profileId d) of
        None \<Rightarrow> st
      | Some ps \<Rightarrow>
          (case find_proposal (ad_proposalId d) ps of
             None \<Rightarrow> st
           | Some p \<Rightarrow>
               if ap_status p = AF_STALE then st
               else st\<lparr>af_byProfile :=
                        map_set (ad_profileId d) (write_status (ad_proposalId d) AF_ACCEPTED ps)
                          (af_byProfile st)\<rparr>))"

definition store_confirm ::
  "string \<Rightarrow> string \<Rightarrow> string \<Rightarrow> string \<Rightarrow> string \<Rightarrow> autofill_state \<Rightarrow>
   (assistant_error + autofill_draft) \<times> autofill_state" where
  "store_confirm now draftId expectedDraftRevision confirmationDigest actorId st =
     (case map_of (af_drafts st) draftId of
        None \<Rightarrow> (Inl (AssistantError ''NOT_FOUND'' 500), st)
      | Some d \<Rightarrow>
          if ad_actorId d \<noteq> actorId \<and> actorId \<noteq> ''system'' then (Inl (AssistantError ''FORBIDDEN'' 403), st)
          else if ad_applied d then
            (if ad_draftRevision d \<noteq> expectedDraftRevision
             then (Inl (AssistantError ''DRAFT_VERSION_CONFLICT'' 409), st)
             else if ad_confirmationDigest d \<noteq> confirmationDigest
             then (Inl (AssistantError ''CONFIRMATION_MISMATCH'' 400), st)
             else (Inr d, st))
          else if draftId \<in> set (af_applied st) then (Inl (AssistantError ''DUPLICATE_MUTATION'' 409), st)
          else if ad_draftRevision d \<noteq> expectedDraftRevision
          then (Inl (AssistantError ''DRAFT_VERSION_CONFLICT'' 409), st)
          else if ad_confirmationDigest d \<noteq> confirmationDigest
          then (Inl (AssistantError ''CONFIRMATION_MISMATCH'' 400), st)
          else
            let d' = d\<lparr>ad_applied := True, ad_appliedAt := Some now\<rparr>
            in (Inr d',
                accept_proposal_of d'
                  (st\<lparr>af_drafts := map_set draftId d' (af_drafts st), af_applied := af_applied st @ [draftId]\<rparr>)))"

section \<open>The service\<close>

record autofill_accept_result =
  ax_acceptedFields :: "string list"
  ax_rejectedFields :: "string list"
  ax_canMutate :: bool
  ax_mutated :: bool
  ax_draftId :: "string option"
  ax_draftRevision :: "string option"
  ax_confirmationDigest :: "string option"

definition listAutofillProposals ::
  "mock_identity \<Rightarrow> string \<Rightarrow> autofill_state \<Rightarrow> autofill_proposal list \<times> autofill_state" where
  "listAutofillProposals identity profileId st = getOrCreateAutofill profileId (mi_staffId identity) st"

definition field_exists :: "autofill_proposal \<Rightarrow> string \<Rightarrow> bool" where
  "field_exists p path \<longleftrightarrow> find (\<lambda>f. fs_fieldPath f = path) (ap_fields p) \<noteq> None"

text \<open>Who may also confirm: a person, never a service, with the scope for it.\<close>

definition may_draft :: "mock_identity \<Rightarrow> string \<Rightarrow> string \<Rightarrow> bool" where
  "may_draft identity profileId orgId \<longleftrightarrow>
     actor_kind (mi_actor identity) \<noteq> ''SERVICE'' \<and> canConfirmAutofillDraft identity profileId orgId"

definition acceptAutofillFields ::
  "(string \<Rightarrow> string) \<Rightarrow> string \<Rightarrow> mock_identity \<Rightarrow> string \<Rightarrow> string \<Rightarrow> string list \<Rightarrow> string list \<Rightarrow>
   autofill_state \<Rightarrow> (assistant_error + autofill_accept_result) \<times> autofill_state" where
  "acceptAutofillFields sha now identity profileId proposalId accepted rejected st =
     (let (ps, st1) = getOrCreateAutofill profileId (mi_staffId identity) st;
          result = (\<lambda>d. \<lparr>ax_acceptedFields = accepted, ax_rejectedFields = rejected,
                         ax_canMutate = d \<noteq> None, ax_mutated = False,
                         ax_draftId = map_option ad_draftId d,
                         ax_draftRevision = map_option ad_draftRevision d,
                         ax_confirmationDigest = map_option ad_confirmationDigest d\<rparr>)
      in case find_proposal proposalId ps of
           None \<Rightarrow> (Inl (AssistantError ''NOT_FOUND'' 404), st1)
         | Some p \<Rightarrow>
             if ap_status p = AF_STALE then (Inl (AssistantError ''STALE_CONTEXT'' 409), st1)
             else if \<not> canProposeAutofill identity profileId (ap_organizationId p)
             then (Inl (AssistantError ''FORBIDDEN'' 403), st1)
             else if \<not> list_all (field_exists p) accepted
             then (Inl (AssistantError ''INVALID_FIELD'' 400), st1)
             else if may_draft identity profileId (ap_organizationId p)
             then (case createAutofillDraft sha now profileId proposalId (mi_staffId identity) accepted st1 of
                     (Inl e, st2) \<Rightarrow> (Inl e, st2)
                   | (Inr d, st2) \<Rightarrow>
                       (case updateProposalStatus profileId proposalId AF_PENDING_REVIEW st2 of
                          (Inl e, st3) \<Rightarrow> (Inl e, st3)
                        | (Inr _, st3) \<Rightarrow> (Inr (result (Some d)), st3)))
             else (case updateProposalStatus profileId proposalId AF_PENDING_REVIEW st1 of
                     (Inl e, st2) \<Rightarrow> (Inl e, st2)
                   | (Inr _, st2) \<Rightarrow> (Inr (result None), st2)))"

definition confirmAutofillDraft ::
  "string \<Rightarrow> mock_identity \<Rightarrow> string \<Rightarrow> string \<Rightarrow> string \<Rightarrow> autofill_state \<Rightarrow>
   (assistant_error + autofill_draft) \<times> autofill_state" where
  "confirmAutofillDraft now identity draftId expectedDraftRevision confirmationDigest st =
     (case getAutofillDraft draftId st of
        None \<Rightarrow> (Inl (AssistantError ''NOT_FOUND'' 404), st)
      | Some d \<Rightarrow>
          if \<not> canConfirmAutofillDraft identity (ad_profileId d) (ad_organizationId d)
          then (Inl (AssistantError ''FORBIDDEN'' 403), st)
          else store_confirm now draftId expectedDraftRevision confirmationDigest (mi_staffId identity) st)"

definition rejectAutofillProposal ::
  "mock_identity \<Rightarrow> string \<Rightarrow> string \<Rightarrow> autofill_state \<Rightarrow>
   (assistant_error + autofill_proposal) \<times> autofill_state" where
  "rejectAutofillProposal identity profileId proposalId st =
     updateProposalStatus profileId proposalId AF_REJECTED st"

definition isProposalStale ::
  "mock_identity \<Rightarrow> string \<Rightarrow> string \<Rightarrow> string \<Rightarrow> autofill_state \<Rightarrow> bool \<times> autofill_state" where
  "isProposalStale identity profileId proposalId currentContextVersion st =
     (let (ps, st1) = getOrCreateAutofill profileId (mi_staffId identity) st
      in (case find_proposal proposalId ps of
            None \<Rightarrow> True
          | Some p \<Rightarrow> ap_contextVersion p \<noteq> currentContextVersion, st1))"

end
